(* ===== verification/Prelude.thy ===== *)
theory Prelude
  imports Complex_Main "HOL-Library.Word"
begin

text \<open>
  The names and facts every component shares: the numeric types of the C++ code, the outcome of
  a call that may crash or never return, the collections of rewrite rules, and lemmas on lists.

  Floating point values (\<open>float\<close>, \<open>double\<close>, \<open>LPFloat\<close>, \<open>MATH_TYPE\<close>) are real numbers: rounding,
  infinities and NaN are not modelled, except that a division whose divisor is zero is written
  out where the code relies on it. Time stamps (\<open>int64_t\<close> microseconds) are integers. Identifiers
  and inputs that are compared as unsigned values or that may wrap are words of their width.
\<close>

type_synonym u8 = "8 word"
type_synonym u16 = "16 word"
type_synonym u32 = "32 word"
type_synonym u64 = "64 word"

named_theorems frame_simps \<open>fields that an operation leaves unchanged\<close>
named_theorems quiet_simps \<open>operations that emit no event of a given kind\<close>

section \<open>The outcome of a call\<close>

text \<open>
  A call can return a state, use a null member pointer (undefined behaviour in C++, a crash
  here), or never return.
\<close>

datatype 's outcome = Done 's | Crash | Diverge

primrec outcome_of_option :: "'s option \<Rightarrow> 's outcome" where
  "outcome_of_option None = Diverge"
| "outcome_of_option (Some s) = Done s"

lemma outcome_of_option_eq_Done [simp]: "outcome_of_option x = Done s \<longleftrightarrow> x = Some s"
  by (cases x) auto

lemma outcome_of_option_neq_Crash [simp]: "outcome_of_option x \<noteq> Crash"
  by (cases x) auto

primrec bind_outcome :: "'s outcome \<Rightarrow> ('s \<Rightarrow> 't outcome) \<Rightarrow> 't outcome" where
  "bind_outcome (Done s) f = f s"
| "bind_outcome Crash f = Crash"
| "bind_outcome Diverge f = Diverge"

lemma bind_outcome_eq_Done:
  "bind_outcome x f = Done t \<longleftrightarrow> (\<exists>s. x = Done s \<and> f s = Done t)"
  by (cases x) auto

primrec map_outcome :: "('u \<Rightarrow> 'v) \<Rightarrow> 'u outcome \<Rightarrow> 'v outcome" where
  "map_outcome g (Done t) = Done (g t)"
| "map_outcome g Crash = Crash"
| "map_outcome g Diverge = Diverge"

lemma map_outcome_of_option: "map_outcome g (outcome_of_option x) = outcome_of_option (map_option g x)"
  by (cases x) auto

text \<open>A conversion of a floating point value to an integer type truncates towards zero.\<close>

definition trunc :: "real \<Rightarrow> int" where
  "trunc x = (if x \<ge> 0 then \<lfloor>x\<rfloor> else \<lceil>x\<rceil>)"

section \<open>Lists\<close>

text \<open>The last \<open>n\<close> elements of a list: what a bounded history keeps.\<close>

definition last_n :: "nat \<Rightarrow> 'a list \<Rightarrow> 'a list" where
  "last_n n xs = drop (length xs - n) xs"

lemma last_n_all [simp]: "length xs \<le> n \<Longrightarrow> last_n n xs = xs"
  by (simp add: last_n_def)

lemma length_last_n [simp]: "length (last_n n xs) = min n (length xs)"
  by (simp add: last_n_def)

lemma last_n_snoc: "0 < n \<Longrightarrow> last_n n (last_n n xs @ [x]) = last_n n (xs @ [x])"
  by (cases "length xs \<le> n") (auto simp: last_n_def Suc_diff_le)

lemma last_n_drop1:
  "length xs = n \<Longrightarrow> 0 < n \<Longrightarrow> tl xs @ [x] = last_n n (xs @ [x])"
  by (cases xs) (auto simp: last_n_def)

lemma filter_eq_NilI: "list_all (\<lambda>x. \<not> P x) xs \<Longrightarrow> filter P xs = []"
  by (induction xs) auto

text \<open>The real sum of a list, as the accumulation loops of the filters compute it.\<close>

lemma sum_list_nonneg_real: "(\<And>x. x \<in> set xs \<Longrightarrow> (0::real) \<le> x) \<Longrightarrow> 0 \<le> sum_list xs"
  by (induction xs) auto

lemma sum_list_div_const: "sum_list (map (\<lambda>x. x / (c::real)) xs) = sum_list xs / c"
  by (induction xs) (auto simp: add_divide_distrib)

end
