(* ===== verification/Machine.thy ===== *)
theory Machine
  imports Prelude
begin

text \<open>
  The state machine template of \<open>source/Utility/StateMachine.h\<close>. The machine is the base record
  of its owner: a mode extends it with its own members, so that a handler (an owner method) can
  read and write both, as it does through \<open>this\<close>. A state (a method pointer) is a value of a type
  \<open>'st\<close> and the handlers are one function from states; the null pointer is \<open>None\<close>. The state's
  name is the stringised handler name and serves the transition log only, so the log holds the
  state itself. An \<open>assert\<close> that fails is recorded in \<open>sm_violations\<close> and execution goes on, as in
  a build with \<open>NDEBUG\<close>; calling through a null state is a crash.
\<close>

section \<open>Inputs\<close>

type_synonym sm_input = u32

abbreviation SM_ENTER :: sm_input where "SM_ENTER \<equiv> 4294967295"
abbreviation SM_EXIT :: sm_input where "SM_EXIT \<equiv> 4294967294"
abbreviation SM_INVALID :: sm_input where "SM_INVALID \<equiv> 4294967293"
abbreviation SM_HIGHEST_USER_INPUT_VALUE :: sm_input where
  "SM_HIGHEST_USER_INPUT_VALUE \<equiv> 4294967292"

lemma sm_inputs_are_casts:
  "SM_ENTER = - 1" "SM_EXIT = - 2" "SM_INVALID = - 3" "SM_HIGHEST_USER_INPUT_VALUE = - 4"
  by simp_all

section \<open>State\<close>

datatype violation =
    StateAlreadyRunning
  | AlreadyInitialized
  | NotInitialized
  | NotInsideState
  | UserInputOutOfRange
  | InputNotHandled
  | TransitionWhileExiting
  | InvalidLogInput
  | OwnerAssertion nat

datatype 'st log_entry = LogEnter "'st option" | LogExit "'st option" | LogInput sm_input

record 'st machine =
  sm_logger :: bool
  sm_ignore_input :: sm_input
  sm_running :: bool
  sm_current :: "'st option"
  sm_next :: "'st option"
  sm_log :: "'st log_entry list"
  sm_violations :: "violation list"

definition sm_assert :: "bool \<Rightarrow> violation \<Rightarrow> ('st, 'm) machine_scheme \<Rightarrow> ('st, 'm) machine_scheme"
  where "sm_assert c v s = (if c then s else s\<lparr>sm_violations := sm_violations s @ [v]\<rparr>)"

definition sm_new :: "'st machine" where
  "sm_new = \<lparr>sm_logger = False, sm_ignore_input = SM_INVALID, sm_running = False,
             sm_current = None, sm_next = None, sm_log = [], sm_violations = []\<rparr>"

section \<open>Operations\<close>

definition IsInitialized :: "('st, 'm) machine_scheme \<Rightarrow> bool" where
  "IsInitialized s \<longleftrightarrow> sm_current s \<noteq> None"

definition SetTransitionLogger ::
  "bool \<Rightarrow> sm_input \<Rightarrow> ('st, 'm) machine_scheme \<Rightarrow> ('st, 'm) machine_scheme" where
  "SetTransitionLogger logger ignore s =
     (sm_assert (ignore = SM_INVALID \<or> ignore \<le> SM_HIGHEST_USER_INPUT_VALUE) UserInputOutOfRange s)
       \<lparr>sm_logger := logger, sm_ignore_input := ignore\<rparr>"

definition SetNextState :: "'st option \<Rightarrow> ('st, 'm) machine_scheme \<Rightarrow> ('st, 'm) machine_scheme" where
  "SetNextState st s =
     (let s1 = sm_assert (sm_running s) NotInsideState s;
          s2 = sm_assert (sm_current s1 \<noteq> None) NotInitialized s1
      in s2\<lparr>sm_next := st\<rparr>)"

definition LogTransition :: "sm_input \<Rightarrow> ('st, 'm) machine_scheme \<Rightarrow> ('st, 'm) machine_scheme" where
  "LogTransition input s =
     (let s1 = sm_assert (input \<noteq> SM_INVALID) InvalidLogInput s in
      if \<not> sm_logger s1 \<or> input = sm_ignore_input s1 then s1
      else if input = SM_ENTER then s1\<lparr>sm_log := sm_log s1 @ [LogEnter (sm_current s1)]\<rparr>
      else if input = SM_EXIT then s1\<lparr>sm_log := sm_log s1 @ [LogExit (sm_current s1)]\<rparr>
      else s1\<lparr>sm_log := sm_log s1 @ [LogInput input]\<rparr>)"

type_synonym ('st, 'm) handler =
  "'st \<Rightarrow> sm_input \<Rightarrow> ('st, 'm) machine_scheme \<Rightarrow> bool \<times> ('st, 'm) machine_scheme"

text \<open>
  One call of the current state's handler, with the flag set around it. Inside the loop the
  current state is never null: the first call has checked it and transitions set it.
\<close>

definition call_state ::
  "('st, 'm) handler \<Rightarrow> sm_input \<Rightarrow> ('st, 'm) machine_scheme \<Rightarrow> bool \<times> ('st, 'm) machine_scheme" where
  "call_state H input s =
     (case sm_current s of
        None \<Rightarrow> (False, s)
      | Some st \<Rightarrow>
          (let (handled, s') = H st input (LogTransition input (s\<lparr>sm_running := True\<rparr>))
           in (handled, s'\<lparr>sm_running := False\<rparr>)))"

text \<open>The body of the transition loop: exit the current state, switch, enter the new one.\<close>

definition sm_transition ::
  "('st, 'm) handler \<Rightarrow> 'st \<Rightarrow> ('st, 'm) machine_scheme \<Rightarrow> ('st, 'm) machine_scheme" where
  "sm_transition H nxt s =
     (let s1 = snd (call_state H SM_EXIT (s\<lparr>sm_next := None\<rparr>));
          s2 = sm_assert (sm_next s1 = None) TransitionWhileExiting s1
      in snd (call_state H SM_ENTER (s2\<lparr>sm_current := Some nxt\<rparr>)))"

partial_function (option) sm_loop ::
  "('st, 'm) handler \<Rightarrow> ('st, 'm) machine_scheme \<Rightarrow> ('st, 'm) machine_scheme option" where
  "sm_loop H s =
     (case sm_next s of None \<Rightarrow> Some s | Some nxt \<Rightarrow> sm_loop H (sm_transition H nxt s))"

definition sm_first ::
  "('st, 'm) handler \<Rightarrow> sm_input \<Rightarrow> ('st, 'm) machine_scheme \<Rightarrow> ('st, 'm) machine_scheme" where
  "sm_first H input s =
     (let s0 = (sm_assert (\<not> sm_running s) StateAlreadyRunning s)\<lparr>sm_next := None\<rparr>;
          (handled, s1) = call_state H input s0;
          s2 = (if input \<le> SM_HIGHEST_USER_INPUT_VALUE then sm_assert handled InputNotHandled s1
                else s1)
      in sm_assert (\<not> (input = SM_EXIT \<and> sm_next s2 \<noteq> None)) TransitionWhileExiting s2)"

definition RunCurrentStatePrivate ::
  "('st, 'm) handler \<Rightarrow> sm_input \<Rightarrow> ('st, 'm) machine_scheme \<Rightarrow> ('st, 'm) machine_scheme outcome" where
  "RunCurrentStatePrivate H input s =
     (if sm_current s = None then Crash
      else outcome_of_option (sm_loop H (sm_first H input s)))"

definition RunCurrentState ::
  "('st, 'm) handler \<Rightarrow> sm_input \<Rightarrow> ('st, 'm) machine_scheme \<Rightarrow> ('st, 'm) machine_scheme outcome" where
  "RunCurrentState H input s =
     RunCurrentStatePrivate H input
       (sm_assert (input \<le> SM_HIGHEST_USER_INPUT_VALUE) UserInputOutOfRange s)"

definition Initialize ::
  "('st, 'm) handler \<Rightarrow> 'st \<Rightarrow> ('st, 'm) machine_scheme \<Rightarrow> ('st, 'm) machine_scheme outcome" where
  "Initialize H st s =
     (let s1 = sm_assert (\<not> sm_running s) StateAlreadyRunning s;
          s2 = sm_assert (sm_current s1 = None) AlreadyInitialized s1
      in RunCurrentStatePrivate H SM_ENTER (s2\<lparr>sm_current := Some st\<rparr>))"

definition Shutdown ::
  "('st, 'm) handler \<Rightarrow> ('st, 'm) machine_scheme \<Rightarrow> ('st, 'm) machine_scheme outcome" where
  "Shutdown H s =
     (let s1 = sm_assert (\<not> sm_running s) StateAlreadyRunning s in
      if sm_current s1 \<noteq> None
      then bind_outcome (RunCurrentStatePrivate H SM_EXIT s1)
             (\<lambda>s2. Done (s2\<lparr>sm_current := None\<rparr>))
      else Done s1)"

section \<open>Facts about the loop\<close>

lemma sm_loop_idle [simp]: "sm_next s = None \<Longrightarrow> sm_loop H s = Some s"
  by (subst sm_loop.simps) simp

lemma sm_loop_step: "sm_next s = Some nxt \<Longrightarrow> sm_loop H s = sm_loop H (sm_transition H nxt s)"
  by (subst sm_loop.simps) simp

lemma sm_loop_settles:
  assumes ret: "sm_loop H s = Some t"
  shows "sm_next t = None"
proof (rule sm_loop.raw_induct [where P = "\<lambda>H s t. sm_next t = None", OF _ ret])
  fix f :: "('a, 'b) handler \<Rightarrow> ('a, 'b) machine_scheme \<Rightarrow> ('a, 'b) machine_scheme option"
    and H s t
  assume "\<And>H s t. f H s = Some t \<Longrightarrow> sm_next t = None"
    and "(case sm_next s of None \<Rightarrow> Some s | Some nxt \<Rightarrow> f H (sm_transition H nxt s)) = Some t"
  then show "sm_next t = None"
    by (auto split: option.splits)
qed

lemma sm_assert_simps [simp]:
  "sm_assert True v s = s"
  "sm_current (sm_assert c v s) = sm_current s"
  "sm_next (sm_assert c v s) = sm_next s"
  "sm_running (sm_assert c v s) = sm_running s"
  "sm_logger (sm_assert c v s) = sm_logger s"
  "sm_ignore_input (sm_assert c v s) = sm_ignore_input s"
  "sm_log (sm_assert c v s) = sm_log s"
  "machine.more (sm_assert c v s) = machine.more s"
  by (simp_all add: sm_assert_def)

lemma sm_assert_clean:
  "sm_violations (sm_assert c v s) = [] \<longleftrightarrow> c \<and> sm_violations s = []"
  by (simp add: sm_assert_def)

lemma LogTransition_off [simp]:
  "\<not> sm_logger s \<Longrightarrow> input \<noteq> SM_INVALID \<Longrightarrow> LogTransition input s = s"
  by (simp add: LogTransition_def)

lemma SetNextState_inside [simp]:
  "sm_running s \<Longrightarrow> sm_current s = Some c \<Longrightarrow> SetNextState st s = s\<lparr>sm_next := st\<rparr>"
  by (simp add: SetNextState_def)

lemma call_state_quiet:
  "\<not> sm_logger s \<Longrightarrow> i \<noteq> SM_INVALID \<Longrightarrow> sm_current s = Some st \<Longrightarrow>
   call_state H i s =
     (fst (H st i (s\<lparr>sm_running := True\<rparr>)), (snd (H st i (s\<lparr>sm_running := True\<rparr>)))\<lparr>sm_running := False\<rparr>)"
  by (simp add: call_state_def Let_def split: prod.split)

section \<open>The contract of a terminating owner\<close>

text \<open>
  The header of the class warns that mutually transitioning states loop for ever. An owner keeps
  clear of that when some rank falls with every transition that requests another one. \<open>ready\<close> is
  what the owner keeps true between transitions; everything it implies holds when the call
  returns.
\<close>

locale ranked_owner =
  fixes H :: "('st, 'm) handler"
    and ready :: "('st, 'm) machine_scheme \<Rightarrow> bool"
    and rank :: "('st, 'm) machine_scheme \<Rightarrow> nat"
  assumes transition_ready:
      "ready s \<Longrightarrow> sm_next s = Some nxt \<Longrightarrow> ready (sm_transition H nxt s)"
    and transition_rank:
      "ready s \<Longrightarrow> sm_next s = Some nxt \<Longrightarrow> sm_next (sm_transition H nxt s) \<noteq> None \<Longrightarrow>
       rank (sm_transition H nxt s) < rank s"
begin

lemma loop_returns: "ready s \<Longrightarrow> \<exists>t. sm_loop H s = Some t \<and> ready t \<and> sm_next t = None"
proof (induction "rank s" arbitrary: s rule: less_induct)
  case less
  show ?case
  proof (cases "sm_next s")
    case None
    with less.prems show ?thesis by simp
  next
    case (Some nxt)
    have r: "ready (sm_transition H nxt s)"
      using transition_ready less.prems Some by blast
    show ?thesis
    proof (cases "sm_next (sm_transition H nxt s) = None")
      case True
      with r show ?thesis using sm_loop_step [OF Some] by auto
    next
      case False
      with transition_rank less.prems Some have "rank (sm_transition H nxt s) < rank s" by blast
      from less.hyps [OF this r] show ?thesis using sm_loop_step [OF Some] by auto
    qed
  qed
qed

lemma run_returns:
  "sm_current s \<noteq> None \<Longrightarrow> ready (sm_first H input s) \<Longrightarrow>
   \<exists>t. RunCurrentStatePrivate H input s = Done t \<and> ready t \<and> sm_next t = None"
  using loop_returns [of "sm_first H input s"] by (auto simp: RunCurrentStatePrivate_def)

end

section \<open>Refinement of one owner by another\<close>

text \<open>
  An abstraction that keeps the machine's own fields and commutes with the handlers commutes with
  everything the machine does, including not returning.
\<close>

locale machine_refinement =
  fixes H :: "('st, 'm) handler"
    and HA :: "('st, 'a) handler"
    and abs :: "('st, 'm) machine_scheme \<Rightarrow> ('st, 'a) machine_scheme"
  assumes abs_fields:
      "sm_logger (abs s) = sm_logger s" "sm_ignore_input (abs s) = sm_ignore_input s"
      "sm_running (abs s) = sm_running s" "sm_current (abs s) = sm_current s"
      "sm_next (abs s) = sm_next s" "sm_log (abs s) = sm_log s"
      "sm_violations (abs s) = sm_violations s"
    and abs_updates:
      "abs (s\<lparr>sm_running := b\<rparr>) = (abs s)\<lparr>sm_running := b\<rparr>"
      "abs (s\<lparr>sm_current := x\<rparr>) = (abs s)\<lparr>sm_current := x\<rparr>"
      "abs (s\<lparr>sm_next := y\<rparr>) = (abs s)\<lparr>sm_next := y\<rparr>"
      "abs (s\<lparr>sm_log := l\<rparr>) = (abs s)\<lparr>sm_log := l\<rparr>"
      "abs (s\<lparr>sm_violations := v\<rparr>) = (abs s)\<lparr>sm_violations := v\<rparr>"
    and simulate: "map_prod id abs (H st i s) = HA st i (abs s)"
begin

lemma simulate_parts:
  "fst (HA st i (abs s)) = fst (H st i s)" "snd (HA st i (abs s)) = abs (snd (H st i s))"
  by (simp_all add: simulate [symmetric])

lemma abs_assert: "abs (sm_assert c v s) = sm_assert c v (abs s)"
  by (simp add: sm_assert_def abs_fields abs_updates)

lemma abs_log: "abs (LogTransition i s) = LogTransition i (abs s)"
proof -
  have "abs (sm_assert c v s) = sm_assert c v (abs s)" for c v by (rule abs_assert)
  then show ?thesis
    by (simp add: LogTransition_def Let_def abs_fields abs_updates)
qed

lemma abs_call: "map_prod id abs (call_state H i s) = call_state HA i (abs s)"
  by (auto simp: call_state_def Let_def split_beta abs_fields abs_updates
      abs_log [symmetric] simulate_parts split: option.split)
    (simp_all add: abs_log abs_updates simulate_parts [symmetric])

lemma call_parts:
  "fst (call_state HA i (abs s)) = fst (call_state H i s)"
  "snd (call_state HA i (abs s)) = abs (snd (call_state H i s))"
  by (simp_all add: abs_call [symmetric])

lemma call_push: "abs (snd (call_state H i s)) = snd (call_state HA i (abs s))"
  by (simp add: call_parts)

lemma abs_transition: "abs (sm_transition H nxt s) = sm_transition HA nxt (abs s)"
proof -
  define s1 where "s1 = snd (call_state H SM_EXIT (s\<lparr>sm_next := None\<rparr>))"
  have a1: "snd (call_state HA SM_EXIT ((abs s)\<lparr>sm_next := None\<rparr>)) = abs s1"
    by (simp add: s1_def call_push abs_updates)
  show ?thesis
    unfolding sm_transition_def Let_def a1 s1_def [symmetric]
    by (simp add: call_push abs_updates abs_assert abs_fields)
qed

lemma abs_first: "abs (sm_first H i s) = sm_first HA i (abs s)"
  by (simp add: sm_first_def Let_def split_beta abs_fields
      abs_updates [symmetric] abs_assert [symmetric] call_parts)

lemma loop_sound: "sm_loop H s = Some t \<Longrightarrow> sm_loop HA (abs s) = Some (abs t)"
proof (rule sm_loop.raw_induct [where P = "\<lambda>K s t. K = H \<longrightarrow> sm_loop HA (abs s) = Some (abs t)",
        THEN mp])
  fix f :: "('st, 'm) handler \<Rightarrow> ('st, 'm) machine_scheme \<Rightarrow> ('st, 'm) machine_scheme option"
    and K s t
  assume f: "\<And>K s t. f K s = Some t \<Longrightarrow> K = H \<longrightarrow> sm_loop HA (abs s) = Some (abs t)"
    and r: "(case sm_next s of None \<Rightarrow> Some s | Some nxt \<Rightarrow> f K (sm_transition K nxt s)) = Some t"
  show "K = H \<longrightarrow> sm_loop HA (abs s) = Some (abs t)"
  proof (cases "sm_next s")
    case None
    with r show ?thesis by (simp add: abs_fields)
  next
    case (Some nxt)
    with r have "f K (sm_transition K nxt s) = Some t" by simp
    with f Some show ?thesis
      by (metis abs_fields(5) abs_transition sm_loop_step)
  qed
qed auto

lemma loop_complete:
  assumes "sm_loop HA (abs s) = Some u"
  shows "\<exists>t. sm_loop H s = Some t \<and> u = abs t"
proof (rule sm_loop.raw_induct
    [where P = "\<lambda>K a u. K = HA \<longrightarrow> (\<forall>s. a = abs s \<longrightarrow> (\<exists>t. sm_loop H s = Some t \<and> u = abs t))",
      OF _ assms, THEN mp, THEN spec, THEN mp])
  fix f :: "('st, 'a) handler \<Rightarrow> ('st, 'a) machine_scheme \<Rightarrow> ('st, 'a) machine_scheme option"
    and K a u
  assume f: "\<And>K a u. f K a = Some u \<Longrightarrow>
      K = HA \<longrightarrow> (\<forall>s. a = abs s \<longrightarrow> (\<exists>t. sm_loop H s = Some t \<and> u = abs t))"
    and r: "(case sm_next a of None \<Rightarrow> Some a | Some nxt \<Rightarrow> f K (sm_transition K nxt a)) = Some u"
  show "K = HA \<longrightarrow> (\<forall>s. a = abs s \<longrightarrow> (\<exists>t. sm_loop H s = Some t \<and> u = abs t))"
  proof (intro impI allI)
    fix s
    assume K: "K = HA" and a: "a = abs s"
    show "\<exists>t. sm_loop H s = Some t \<and> u = abs t"
    proof (cases "sm_next s")
      case None
      with r a show ?thesis by (simp add: abs_fields)
    next
      case (Some nxt)
      with r a K have "f HA (abs (sm_transition H nxt s)) = Some u"
        by (simp add: abs_fields abs_transition)
      with f Some show ?thesis by (metis sm_loop_step)
    qed
  qed
qed auto

lemma abs_loop: "map_option abs (sm_loop H s) = sm_loop HA (abs s)"
proof (cases "sm_loop H s")
  case None
  then have "sm_loop HA (abs s) = None" using loop_complete [of s] by fastforce
  with None show ?thesis by simp
next
  case (Some t)
  then show ?thesis using loop_sound by simp
qed

lemma abs_run_private:
  "map_outcome abs (RunCurrentStatePrivate H i s) = RunCurrentStatePrivate HA i (abs s)"
  by (simp add: RunCurrentStatePrivate_def abs_fields map_outcome_of_option abs_loop abs_first)

lemma abs_run: "map_outcome abs (RunCurrentState H i s) = RunCurrentState HA i (abs s)"
  by (simp add: RunCurrentState_def abs_run_private abs_assert)

lemma abs_shutdown: "map_outcome abs (Shutdown H s) = Shutdown HA (abs s)"
proof -
  have r: "RunCurrentStatePrivate HA SM_EXIT (abs u) = map_outcome abs (RunCurrentStatePrivate H SM_EXIT u)" for u
    by (simp add: abs_run_private)
  show ?thesis
    by (cases "RunCurrentStatePrivate H SM_EXIT (sm_assert (\<not> sm_running s) StateAlreadyRunning s)")
      (simp_all add: Shutdown_def Let_def abs_fields abs_updates r abs_assert [symmetric])
qed

lemma abs_initialize: "map_outcome abs (Initialize H st s) = Initialize HA st (abs s)"
  by (simp add: Initialize_def Let_def abs_run_private abs_assert abs_fields abs_updates)

end

end
