(* ===== verification/Timed_History.thy ===== *)
theory Timed_History
  imports Prelude
begin

text \<open>
  The history buffer of \<open>source/Utility/TimedHistory.h\<close>: a deque of (time, frame) pairs with the
  most recent pair at the front. An iterator into it is the suffix of pairs it has before it, so
  \<open>end()\<close> is the empty list.
\<close>

record 'f timed_history =
  th_pairs :: "(int \<times> 'f) list"
  m_historyDuration :: int

definition TimedHistory :: "int \<Rightarrow> 'f timed_history" where
  "TimedHistory d = \<lparr>th_pairs = [], m_historyDuration = d\<rparr>"

definition oldestFrameTime :: "'f timed_history \<Rightarrow> int" where
  "oldestFrameTime h = (if th_pairs h = [] then 0 else fst (last (th_pairs h)))"

definition mostRecentFrameTime :: "'f timed_history \<Rightarrow> int" where
  "mostRecentFrameTime h = (if th_pairs h = [] then 0 else fst (hd (th_pairs h)))"

definition hasSufficientHistory :: "'f timed_history \<Rightarrow> bool" where
  "hasSufficientHistory h =
     (if th_pairs h = [] then False
      else fst (hd (th_pairs h)) - fst (last (th_pairs h)) \<ge> m_historyDuration h)"

definition skip_younger :: "int \<Rightarrow> int \<Rightarrow> (int \<times> 'f) list \<Rightarrow> (int \<times> 'f) list" where
  "skip_younger recent age = dropWhile (\<lambda>p. recent - fst p < age)"

definition getFrameHavingAgeAtLeast :: "'f timed_history \<Rightarrow> int \<Rightarrow> (int \<times> 'f) list" where
  "getFrameHavingAgeAtLeast h age =
     (case th_pairs h of [] \<Rightarrow> [] | p # _ \<Rightarrow> skip_younger (fst p) age (th_pairs h))"

text \<open>
  The purge loop walks from the oldest pair and pops it as long as the second-to-oldest one
  alone covers the duration; its argument is the deque from the back.
\<close>

fun purge_back :: "int \<Rightarrow> int \<Rightarrow> (int \<times> 'f) list \<Rightarrow> (int \<times> 'f) list" where
  "purge_back recent dur (p # q # ps) =
     (if recent - fst q \<ge> dur then purge_back recent dur (q # ps) else p # q # ps)"
| "purge_back recent dur ps = ps"

definition purgeExcessHistory :: "'f timed_history \<Rightarrow> 'f timed_history" where
  "purgeExcessHistory h =
     (case th_pairs h of
        [] \<Rightarrow> h
      | p # _ \<Rightarrow>
          h\<lparr>th_pairs := rev (purge_back (fst p) (m_historyDuration h) (rev (th_pairs h)))\<rparr>)"

text \<open>The assertion of \<open>addFrame\<close>: frames come in nondecreasing time order.\<close>

definition addFrame_in_order :: "int \<Rightarrow> 'f timed_history \<Rightarrow> bool" where
  "addFrame_in_order t h \<longleftrightarrow> (th_pairs h = [] \<or> t \<ge> fst (hd (th_pairs h)))"

definition addFrame :: "int \<Rightarrow> 'f \<Rightarrow> 'f timed_history \<Rightarrow> 'f timed_history" where
  "addFrame t f h = purgeExcessHistory (h\<lparr>th_pairs := (t, f) # th_pairs h\<rparr>)"

definition setHistoryDuration :: "int \<Rightarrow> 'f timed_history \<Rightarrow> 'f timed_history" where
  "setHistoryDuration d h = purgeExcessHistory (h\<lparr>m_historyDuration := d\<rparr>)"

section \<open>Well-formed histories\<close>

definition th_sorted :: "(int \<times> 'f) list \<Rightarrow> bool" where
  "th_sorted ps \<longleftrightarrow> sorted_wrt (\<ge>) (map fst ps)"

lemma th_sorted_simps [simp]:
  "th_sorted []" "th_sorted [p]"
  "th_sorted (p # ps) \<longleftrightarrow> (\<forall>q\<in>set ps. fst q \<le> fst p) \<and> th_sorted ps"
  "th_sorted (ps @ [p]) \<longleftrightarrow> (\<forall>q\<in>set ps. fst p \<le> fst q) \<and> th_sorted ps"
  by (auto simp: th_sorted_def sorted_wrt_append)

lemma purge_back_suffix: "\<exists>ds. ps = ds @ purge_back r d ps"
proof (induction r d ps rule: purge_back.induct)
  case (1 r d p q ps)
  then show ?case by (cases "r - fst q \<ge> d") (auto intro: exI [of _ "p # _"])
qed auto

lemma purge_back_last: "ps \<noteq> [] \<Longrightarrow> purge_back r d ps \<noteq> [] \<and> last (purge_back r d ps) = last ps"
  by (induction r d ps rule: purge_back.induct) auto

text \<open>What the loop leaves: the second-to-oldest pair is younger than the duration.\<close>

lemma purge_back_tight:
  "purge_back r d ps = p # q # qs \<Longrightarrow> r - fst q < d"
  by (induction r d ps rule: purge_back.induct) (auto split: if_splits)

lemma dropWhile_prefix_kept:
  assumes "\<exists>p\<in>set ps. \<not> P p" "xs = ps @ ds"
  shows "hd (dropWhile P xs) = hd (dropWhile P ps)" and "dropWhile P ps \<noteq> []"
  using assms by (auto simp: dropWhile_append)

text \<open>
  The purge keeps every pair a look-up for at most the duration can stop at: the pairs it drops
  are older than one that it keeps and that already covers the duration.
\<close>

lemma skip_after_purge_back:
  assumes "th_sorted (rev ps)" "age \<le> d"
  shows "(skip_younger r age (rev (purge_back r d ps)) = []) = (skip_younger r age (rev ps) = [])
         \<and> (skip_younger r age (rev ps) \<noteq> [] \<longrightarrow>
            hd (skip_younger r age (rev (purge_back r d ps))) = hd (skip_younger r age (rev ps)))"
  using assms
proof (induction r d ps rule: purge_back.induct)
  case (1 r d p q ps)
  show ?case
  proof (cases "r - fst q \<ge> d")
    case False
    then show ?thesis by simp
  next
    case True
    let ?K = "rev ps @ [q]"
    from True "1.prems" have stop: "\<exists>x\<in>set ?K. \<not> r - fst x < age" by auto
    from "1.prems" have srt: "th_sorted (rev (q # ps))" by (auto simp: th_sorted_def sorted_wrt_append)
    note IH = "1.IH" [OF True srt "1.prems"(2)]
    have "hd (skip_younger r age (?K @ [p])) = hd (skip_younger r age ?K)"
      and "skip_younger r age ?K \<noteq> []"
      unfolding skip_younger_def using dropWhile_prefix_kept [OF stop] by blast+
    moreover have "skip_younger r age (?K @ [p]) \<noteq> []"
      unfolding skip_younger_def dropWhile_eq_Nil_conv using stop by auto
    ultimately show ?thesis using IH True by simp
  qed
qed auto

lemma purge_pairs:
  "th_pairs h = p # ps \<Longrightarrow>
   th_pairs (purgeExcessHistory h) = rev (purge_back (fst p) (m_historyDuration h) (rev (p # ps)))"
  by (simp add: purgeExcessHistory_def)

lemma purge_hd:
  assumes "th_pairs h = p # ps"
  shows "\<exists>qs. th_pairs (purgeExcessHistory h) = p # qs"
proof -
  let ?b = "purge_back (fst p) (m_historyDuration h) (rev (p # ps))"
  have "?b \<noteq> []" "last ?b = last (rev (p # ps))"
    using purge_back_last [of "rev (p # ps)"] by auto
  then have "hd (rev ?b) = p" "rev ?b \<noteq> []" by (simp_all add: hd_rev)
  then show ?thesis using purge_pairs [OF assms] by (cases "rev ?b") auto
qed

lemma purge_duration [simp]: "m_historyDuration (purgeExcessHistory h) = m_historyDuration h"
  by (simp add: purgeExcessHistory_def split: list.split)

lemma getFrame_purge:
  assumes "th_sorted (th_pairs h)" "age \<le> m_historyDuration h"
  shows "(getFrameHavingAgeAtLeast (purgeExcessHistory h) age = []) =
           (getFrameHavingAgeAtLeast h age = [])
         \<and> (getFrameHavingAgeAtLeast h age \<noteq> [] \<longrightarrow>
            hd (getFrameHavingAgeAtLeast (purgeExcessHistory h) age)
              = hd (getFrameHavingAgeAtLeast h age))"
proof (cases "th_pairs h")
  case Nil
  then show ?thesis by (simp add: purgeExcessHistory_def)
next
  case (Cons p ps)
  obtain qs where q: "th_pairs (purgeExcessHistory h) = p # qs" using purge_hd [OF Cons] by blast
  have "th_sorted (rev (rev (th_pairs h)))" using assms(1) by simp
  note skip_after_purge_back [OF this assms(2), of "fst p"]
  then show ?thesis
    using Cons q purge_pairs [OF Cons] by (simp add: getFrameHavingAgeAtLeast_def)
qed

lemma th_sorted_prefix: "th_sorted (xs @ ys) \<Longrightarrow> th_sorted xs"
  by (simp add: th_sorted_def sorted_wrt_append)

lemma th_sorted_purge: "th_sorted (th_pairs h) \<Longrightarrow> th_sorted (th_pairs (purgeExcessHistory h))"
proof (cases "th_pairs h")
  case (Cons p ps)
  assume s: "th_sorted (th_pairs h)"
  let ?b = "purge_back (fst p) (m_historyDuration h) (rev (p # ps))"
  obtain ds where "rev (p # ps) = ds @ ?b" using purge_back_suffix by blast
  then have "p # ps = rev ?b @ rev ds" by (metis rev_append rev_rev_ident)
  with s Cons have "th_sorted (rev ?b)" by (metis th_sorted_prefix)
  then show ?thesis using purge_pairs [OF Cons] by simp
qed (simp add: purgeExcessHistory_def)

lemma th_sorted_addFrame:
  assumes "th_sorted (th_pairs h)" and "addFrame_in_order t h"
  shows "th_sorted (th_pairs (addFrame t f h))"
proof -
  from assms have "th_sorted ((t, f) # th_pairs h)"
    by (cases "th_pairs h") (auto simp: addFrame_in_order_def)
  then show ?thesis
    unfolding addFrame_def by (intro th_sorted_purge) simp
qed

lemma addFrame_hd: "\<exists>qs. th_pairs (addFrame t f h) = (t, f) # qs"
  unfolding addFrame_def by (rule purge_hd [where ps = "th_pairs h"]) simp

lemma addFrame_duration [simp]: "m_historyDuration (addFrame t f h) = m_historyDuration h"
  by (simp add: addFrame_def)

text \<open>An iterator the look-up returns has the age that was asked for.\<close>

lemma skip_younger_age: "skip_younger r age ps = (t, f) # rest \<Longrightarrow> r - t \<ge> age"
  unfolding skip_younger_def
  using hd_dropWhile [of "\<lambda>p. r - fst p < age" ps] by auto

lemma getFrame_age:
  "getFrameHavingAgeAtLeast h age = (t, f) # rest \<Longrightarrow> mostRecentFrameTime h - t \<ge> age"
  unfolding getFrameHavingAgeAtLeast_def mostRecentFrameTime_def
  by (cases "th_pairs h") (auto dest: skip_younger_age)

end
