(* ===== verification/Rolling_Filter.thy ===== *)
theory Rolling_Filter
  imports Prelude
begin

text \<open>
  The filter interface \<open>source/Utility/FilterBase.h\<close> as a table of its virtual members, and its
  implementation \<open>source/Utility/RollingMean.h\<close>. Vectors and matrices are lists and lists of rows;
  the dimension, a template argument, is their length. The frame-count arguments are unused by
  this implementation and the mutable result caches \<open>C1\<close>, \<open>C2\<close> are the returned values.
\<close>

section \<open>Vectors and matrices\<close>

type_synonym rvec = "real list"
type_synonym rmat = "real list list"

definition v_add :: "rvec \<Rightarrow> rvec \<Rightarrow> rvec" where "v_add = map2 (+)"
definition v_scale :: "real \<Rightarrow> rvec \<Rightarrow> rvec" where "v_scale c = map ((*) c)"
definition v_zero :: "nat \<Rightarrow> rvec" where "v_zero n = replicate n 0"
definition m_add :: "rmat \<Rightarrow> rmat \<Rightarrow> rmat" where "m_add = map2 v_add"
definition m_scale :: "real \<Rightarrow> rmat \<Rightarrow> rmat" where "m_scale c = map (v_scale c)"
definition m_zero :: "nat \<Rightarrow> rmat" where "m_zero n = replicate n (v_zero n)"
definition outer :: "rvec \<Rightarrow> rvec \<Rightarrow> rmat" where "outer a b = map (\<lambda>x. v_scale x b) a"
definition v_dot :: "rvec \<Rightarrow> rvec \<Rightarrow> real" where "v_dot a b = sum_list (map2 (*) a b)"
definition m_apply :: "rmat \<Rightarrow> rvec \<Rightarrow> rvec" where "m_apply M v = map (\<lambda>r. v_dot r v) M"
definition m_mult_transpose :: "rmat \<Rightarrow> rmat \<Rightarrow> rmat" where
  "m_mult_transpose M N = map (\<lambda>r. m_apply N r) M"

lemma length_v_ops [simp]:
  "length (v_add a b) = min (length a) (length b)" "length (v_scale c a) = length a"
  "length (v_zero n) = n"
  by (simp_all add: v_add_def v_scale_def v_zero_def)

lemma sum_v_scale [simp]: "sum_list (v_scale c a) = c * sum_list a"
  by (simp add: v_scale_def sum_list_const_mult)

lemma sum_v_add [simp]: "length a = length b \<Longrightarrow> sum_list (v_add a b) = sum_list a + sum_list b"
  by (induction a b rule: list_induct2) (auto simp: v_add_def)

section \<open>The interface\<close>

record 'f filter_base =
  fb_Ready :: "'f \<Rightarrow> bool"
  fb_Reset :: "'f \<Rightarrow> 'f"
  fb_Predict :: "'f \<Rightarrow> rvec"
  fb_Update :: "'f \<Rightarrow> rvec \<Rightarrow> rmat \<Rightarrow> real \<Rightarrow> 'f"

section \<open>The rolling mean\<close>

record rolling =
  Sample :: real
  NonZero :: bool
  Integral :: real
  P1 :: rvec
  P2 :: rmat

definition rm_Reset :: "rolling \<Rightarrow> rolling" where
  "rm_Reset r = r\<lparr>NonZero := False, Integral := 0, P1 := v_zero (length (P1 r)),
                  P2 := m_zero (length (P1 r))\<rparr>"

definition RollingMean :: "nat \<Rightarrow> rolling" where
  "RollingMean n = rm_Reset \<lparr>Sample = 1, NonZero = False, Integral = 0, P1 = v_zero n, P2 = m_zero n\<rparr>"

definition rm_Ready :: "rolling \<Rightarrow> bool" where
  "rm_Ready r = (if 1 - Integral r > Sample r then False else True)"

definition rm_Predict :: "rolling \<Rightarrow> rvec" where
  "rm_Predict r = (if \<not> NonZero r then v_zero (length (P1 r)) else map (\<lambda>x. x / Integral r) (P1 r))"

definition rm_Unc2Cov :: "rolling \<Rightarrow> rmat" where
  "rm_Unc2Cov r =
     (if \<not> NonZero r then m_zero (length (P1 r))
      else (let c1 = map (\<lambda>x. x / Integral r) (P1 r) in
            m_add (m_scale (1 / Integral r) (P2 r)) (m_scale (-1) (outer c1 c1))))"

definition rm_Update :: "rolling \<Rightarrow> rvec \<Rightarrow> rmat \<Rightarrow> real \<Rightarrow> rolling" where
  "rm_Update r Meas_State Meas_C2Unc Weight =
     (let F = Weight * Sample r in
      r\<lparr>NonZero := True,
        Integral := F + (1 - F) * Integral r,
        P1 := v_add (v_scale F Meas_State) (v_scale (1 - F) (P1 r)),
        P2 := m_add (m_scale F (m_add Meas_C2Unc (outer Meas_State Meas_State)))
                    (m_scale (1 - F) (P2 r))\<rparr>)"

definition rm_Transform :: "rmat \<Rightarrow> rvec \<Rightarrow> rolling \<Rightarrow> rolling" where
  "rm_Transform M a r =
     (let mp = m_apply M (P1 r) in
      r\<lparr>P2 := m_add (m_add (m_add (m_mult_transpose (m_mult_transpose M (P2 r)) M)
                                   (outer mp a)) (outer a mp)) (outer a a),
        P1 := v_add mp a\<rparr>)"

definition SetWindow :: "real \<Rightarrow> rolling \<Rightarrow> rolling" where
  "SetWindow newWindow r = (if 1 \<le> newWindow then r\<lparr>Sample := 1 / newWindow\<rparr> else r)"

definition rolling_filter :: "rolling filter_base" where
  "rolling_filter = \<lparr>fb_Ready = rm_Ready, fb_Reset = rm_Reset, fb_Predict = rm_Predict,
                     fb_Update = rm_Update\<rparr>"

section \<open>A mean of probability vectors is one\<close>

definition prob_vec :: "nat \<Rightarrow> rvec \<Rightarrow> bool" where
  "prob_vec n v \<longleftrightarrow> length v = n \<and> list_all (\<lambda>x. 0 \<le> x) v \<and> sum_list v = 1"

lemma nonneg_v_add:
  "list_all (\<lambda>x. 0 \<le> x) a \<Longrightarrow> list_all (\<lambda>x. 0 \<le> x) b \<Longrightarrow> list_all (\<lambda>x. 0 \<le> x) (v_add a b)"
  by (auto simp: v_add_def list_all_length)

lemma nonneg_v_scale: "0 \<le> c \<Longrightarrow> list_all (\<lambda>x. 0 \<le> x) a \<Longrightarrow> list_all (\<lambda>x. 0 \<le> x) (v_scale c a)"
  by (auto simp: v_scale_def list_all_iff)

lemma prob_vec_mix:
  "prob_vec n p \<Longrightarrow> prob_vec n q \<Longrightarrow> 0 \<le> c \<Longrightarrow> c \<le> 1 \<Longrightarrow>
   prob_vec n (v_add (v_scale c p) (v_scale (1 - c) q))"
  by (simp add: prob_vec_def nonneg_v_add nonneg_v_scale)

text \<open>
  A filter whose window was never shrunk before its first update has \<open>Integral = 1\<close> from then on,
  whatever window is set later, and holds a probability vector.
\<close>

definition rolling_fresh :: "nat \<Rightarrow> rolling \<Rightarrow> bool" where
  "rolling_fresh n r \<longleftrightarrow> Sample r = 1 \<and> length (P1 r) = n"

definition rolling_good :: "nat \<Rightarrow> rolling \<Rightarrow> bool" where
  "rolling_good n r \<longleftrightarrow> NonZero r \<and> Integral r = 1 \<and> 0 < Sample r \<and> Sample r \<le> 1 \<and> prob_vec n (P1 r)"

lemma rolling_fresh_new: "rolling_fresh n (RollingMean n)"
  by (simp add: rolling_fresh_def RollingMean_def rm_Reset_def)

lemma rolling_first_update:
  assumes "rolling_fresh n r" "prob_vec n p"
  shows "rolling_good n (rm_Update (rm_Reset r) p U 1)"
proof -
  have "v_add (v_scale 1 p) (v_scale 0 (v_zero n)) = p"
    using assms(2) by (auto simp: prob_vec_def v_add_def v_scale_def v_zero_def intro!: nth_equalityI)
  then show ?thesis
    using assms by (simp add: rolling_fresh_def rolling_good_def rm_Update_def rm_Reset_def Let_def)
qed

lemma rolling_good_Update:
  assumes "rolling_good n r" "prob_vec n p" "0 \<le> w" "w \<le> 1"
  shows "rolling_good n (rm_Update r p U w)"
proof -
  have "0 \<le> w * Sample r" "w * Sample r \<le> 1"
    using assms by (auto simp: rolling_good_def intro: mult_le_one)
  then show ?thesis
    using assms prob_vec_mix [of n p "P1 r" "w * Sample r"]
    by (simp add: rolling_good_def rm_Update_def Let_def)
qed

lemma rolling_good_SetWindow: "rolling_good n r \<Longrightarrow> rolling_good n (SetWindow w r)"
  by (simp add: rolling_good_def SetWindow_def)

lemma rolling_good_Predict: "rolling_good n r \<Longrightarrow> prob_vec n (rm_Predict r)"
  by (simp add: rolling_good_def rm_Predict_def)

lemma rolling_good_Ready: "rolling_good n r \<Longrightarrow> rm_Ready r"
  by (simp add: rolling_good_def rm_Ready_def)

lemma Predict_SetWindow [simp]: "rm_Predict (SetWindow w r) = rm_Predict r"
  by (simp add: rm_Predict_def SetWindow_def)

end
