(* ===== verification/Categorical_Filter.thy ===== *)
theory Categorical_Filter
  imports Rolling_Filter
begin

text \<open>
  \<open>source/Utility/CategoricalFilter.h\<close>: a filter over probability vectors that reports a category
  when its filtered probability reaches a threshold. The values it derives are cached in mutable
  members; here \<open>ensureValuesAreCached\<close> returns the object with its cache filled and the accessors
  read it from there. A pointer to a category is its index, and null is \<open>None\<close>.
\<close>

record ('c, 'f) categorical =
  m_categories :: "'c list"
  m_indexMap :: "('c \<times> nat) list"
  m_filter :: 'f
  m_uniformCategorizationThreshold :: real
  m_valuesAreCached :: bool
  m_maxProbabilityCategory :: "nat option"
  m_maxProbability :: real
  m_filteredCategoryIsUnambiguous :: bool
  m_filteredCategory :: "nat option"
  m_probabilityVector :: rvec

datatype categorical_error = ValuesNotUnique

definition ambiguousProbabilityVector :: "nat \<Rightarrow> rvec" where
  "ambiguousProbabilityVector n = replicate n (1 / real n)"

definition unit_vec :: "nat \<Rightarrow> nat \<Rightarrow> rvec" where
  "unit_vec n i = (replicate n 0)[i := 1]"

fun index_map :: "'c list \<Rightarrow> nat \<Rightarrow> ('c \<times> nat) list \<Rightarrow> categorical_error + ('c \<times> nat) list" where
  "index_map [] i m = Inr m"
| "index_map (c # cs) i m =
     (if map_of m c \<noteq> None then Inl ValuesNotUnique else index_map cs (i + 1) ((c, i) # m))"

definition updateWithProbabilityVector ::
  "'f filter_base \<Rightarrow> rvec \<Rightarrow> real \<Rightarrow> ('c, 'f) categorical \<Rightarrow> ('c, 'f) categorical" where
  "updateWithProbabilityVector V probVec weight c =
     c\<lparr>m_filter := fb_Update V (m_filter c) probVec (m_zero (length (m_categories c))) weight,
       m_valuesAreCached := False\<rparr>"

definition cf_reset :: "'f filter_base \<Rightarrow> ('c, 'f) categorical \<Rightarrow> ('c, 'f) categorical" where
  "cf_reset V c =
     (let n = length (m_categories c) in
      c\<lparr>m_filter := fb_Update V (fb_Reset V (m_filter c)) (ambiguousProbabilityVector n) (m_zero n) 1,
        m_valuesAreCached := False\<rparr>)"

definition CategoricalFilter ::
  "'f filter_base \<Rightarrow> 'c list \<Rightarrow> 'f \<Rightarrow> real \<Rightarrow> categorical_error + ('c, 'f) categorical" where
  "CategoricalFilter V categories f threshold =
     (case index_map categories 0 [] of
        Inl e \<Rightarrow> Inl e
      | Inr m \<Rightarrow> Inr (cf_reset V
          \<lparr>m_categories = categories, m_indexMap = m, m_filter = f,
           m_uniformCategorizationThreshold = threshold, m_valuesAreCached = False,
           m_maxProbabilityCategory = None, m_maxProbability = 0,
           m_filteredCategoryIsUnambiguous = False, m_filteredCategory = None,
           m_probabilityVector = []\<rparr>))"

text \<open>\<open>indexOfCategory\<close> throws for a category that is not in the vector.\<close>

definition indexOfCategory :: "('c, 'f) categorical \<Rightarrow> 'c \<Rightarrow> nat option" where
  "indexOfCategory c x = map_of (m_indexMap c) x"

definition updateWithCategory ::
  "'f filter_base \<Rightarrow> 'c \<Rightarrow> real \<Rightarrow> ('c, 'f) categorical \<Rightarrow> ('c, 'f) categorical option" where
  "updateWithCategory V category weight c =
     (case indexOfCategory c category of
        None \<Rightarrow> None
      | Some i \<Rightarrow>
          Some (updateWithProbabilityVector V (unit_vec (length (m_categories c)) i) weight c))"

fun max_prob :: "rvec \<Rightarrow> nat \<Rightarrow> real \<times> nat option \<Rightarrow> real \<times> nat option" where
  "max_prob [] i best = best"
| "max_prob (p # ps) i (mx, k) =
     (if k = None \<or> mx < p then max_prob ps (i + 1) (p, Some i) else max_prob ps (i + 1) (mx, k))"

text \<open>The assertions of \<open>ensureValuesAreCached\<close>.\<close>

definition cache_asserts :: "'f filter_base \<Rightarrow> ('c, 'f) categorical \<Rightarrow> bool" where
  "cache_asserts V c \<longleftrightarrow>
     m_valuesAreCached c \<or>
     (fb_Ready V (m_filter c) \<and> list_all (\<lambda>p. 0 \<le> p) (fb_Predict V (m_filter c)) \<and>
      sum_list (fb_Predict V (m_filter c)) > 1 / 10 ^ 10)"

definition ensureValuesAreCached ::
  "'f filter_base \<Rightarrow> ('c, 'f) categorical \<Rightarrow> ('c, 'f) categorical" where
  "ensureValuesAreCached V c =
     (if m_valuesAreCached c then c
      else
        (let probabilities = fb_Predict V (m_filter c);
             normalizationFactor = sum_list probabilities;
             pv = map (\<lambda>p. p / normalizationFactor) probabilities;
             (mx, k) = max_prob pv 0 (0, None)
         in c\<lparr>m_valuesAreCached := True,
              m_probabilityVector := pv,
              m_maxProbability := mx,
              m_maxProbabilityCategory := k,
              m_filteredCategoryIsUnambiguous := mx \<ge> m_uniformCategorizationThreshold c,
              m_filteredCategory := (if mx \<ge> m_uniformCategorizationThreshold c then k else None)\<rparr>))"

definition filteredCategoryIsUnambiguous :: "'f filter_base \<Rightarrow> ('c, 'f) categorical \<Rightarrow> bool" where
  "filteredCategoryIsUnambiguous V c = m_filteredCategoryIsUnambiguous (ensureValuesAreCached V c)"

text \<open>Throws, here \<open>None\<close>, when the category is ambiguous.\<close>

definition filteredCategory :: "'f filter_base \<Rightarrow> ('c, 'f) categorical \<Rightarrow> 'c option" where
  "filteredCategory V c =
     (let d = ensureValuesAreCached V c in
      if \<not> m_filteredCategoryIsUnambiguous d then None
      else map_option ((!) (m_categories d)) (m_filteredCategory d))"

definition probabilityVector :: "'f filter_base \<Rightarrow> ('c, 'f) categorical \<Rightarrow> rvec" where
  "probabilityVector V c = m_probabilityVector (ensureValuesAreCached V c)"

definition with_filter :: "('f \<Rightarrow> 'f) \<Rightarrow> ('c, 'f) categorical \<Rightarrow> ('c, 'f) categorical" where
  "with_filter g c = c\<lparr>m_filter := g (m_filter c)\<rparr>"

section \<open>The cache is transparent\<close>

lemma ensure_cached [simp]: "m_valuesAreCached (ensureValuesAreCached V c)"
  by (simp add: ensureValuesAreCached_def Let_def split: prod.split)

lemma ensure_idem [simp]:
  "ensureValuesAreCached V (ensureValuesAreCached V c) = ensureValuesAreCached V c"
  by (subst ensureValuesAreCached_def) simp

lemma ensure_fields [simp]:
  "m_categories (ensureValuesAreCached V c) = m_categories c"
  "m_indexMap (ensureValuesAreCached V c) = m_indexMap c"
  "m_filter (ensureValuesAreCached V c) = m_filter c"
  by (simp_all add: ensureValuesAreCached_def Let_def split: prod.split)

lemma ensure_then_update:
  "ensureValuesAreCached V (updateWithProbabilityVector V p w (ensureValuesAreCached V c))
     = ensureValuesAreCached V (updateWithProbabilityVector V p w c)"
  by (simp add: ensureValuesAreCached_def updateWithProbabilityVector_def Let_def split: prod.split)

section \<open>The index map\<close>

lemma index_map_Inr:
  "index_map cs i m = Inr m' \<Longrightarrow> distinct cs \<and> set cs \<inter> fst ` set m = {} \<and>
     map_of m' = (\<lambda>x. if x \<in> set cs then map_of (zip cs [i..<i + length cs]) x else map_of m x)"
proof (induction cs arbitrary: i m)
  case (Cons c cs)
  then have n: "map_of m c = None" and r: "index_map cs (i + 1) ((c, i) # m) = Inr m'"
    by (auto split: if_splits)
  from Cons.IH [OF r] n show ?case
    by (auto simp: map_of_eq_None_iff upt_conv_Cons fun_eq_iff simp del: upt_Suc)
qed (auto simp: fun_eq_iff)

lemma index_map_distinct:
  "distinct cs \<Longrightarrow> set cs \<inter> fst ` set m = {} \<Longrightarrow> \<exists>m'. index_map cs i m = Inr m'"
proof (induction cs arbitrary: i m)
  case (Cons c cs)
  then have "map_of m c = None" by (auto simp: map_of_eq_None_iff)
  then show ?case using Cons by auto
qed simp

section \<open>The largest probability\<close>

lemma max_prob_spec:
  assumes "max_prob ps i (mx, Some k) = (mx', k')" "k < length qs" "i = length qs" "qs ! k = mx"
    "\<forall>q\<in>set qs. q \<le> mx"
  shows "\<exists>j<length (qs @ ps). k' = Some j \<and> mx' = (qs @ ps) ! j \<and> (\<forall>q\<in>set (qs @ ps). q \<le> mx')"
  using assms
proof (induction ps arbitrary: qs i mx k)
  case (Cons p ps)
  have e: "qs @ p # ps = (qs @ [p]) @ ps" by simp
  show ?case
  proof (cases "mx < p")
    case True
    then show ?thesis
      unfolding e using Cons.prems by (intro Cons.IH [where k = i and mx = p and i = "i + 1"]) auto
  next
    case False
    then show ?thesis
      unfolding e using Cons.prems
      by (intro Cons.IH [where k = k and mx = mx and i = "i + 1"]) (auto simp: nth_append)
  qed
qed auto

lemma max_prob_top:
  assumes "ps \<noteq> []" "max_prob ps 0 (0, None) = (mx, k)"
  shows "\<exists>j<length ps. k = Some j \<and> mx = ps ! j \<and> (\<forall>q\<in>set ps. q \<le> mx)"
proof -
  obtain p rest where ps: "ps = p # rest" using assms(1) by (cases ps) auto
  with assms(2) have "max_prob rest 1 (p, Some 0) = (mx, k)" by simp
  from max_prob_spec [OF this, of "[p]"] show ?thesis by (simp add: ps)
qed

text \<open>In a probability vector only one entry can exceed one half.\<close>

lemma prob_vec_two:
  assumes "prob_vec n v" "i < n" "j < n" "i \<noteq> j"
  shows "v ! i + v ! j \<le> 1"
proof -
  have l: "length v = n" and nn: "\<And>k. k < n \<Longrightarrow> 0 \<le> v ! k" and s: "sum_list v = 1"
    using assms(1) by (auto simp: prob_vec_def list_all_length)
  have "sum ((!) v) {i, j} \<le> sum ((!) v) {0..<length v}"
    using assms(2-) l nn by (intro sum_mono2) auto
  with s assms(4) show ?thesis by (simp add: sum_list_sum_nth)
qed

lemma sum_unit: "i < n \<Longrightarrow> sum_list ((replicate n 0)[i := 1]) = (1::real)"
proof (induction n arbitrary: i)
  case (Suc n)
  then show ?case by (cases i) (auto simp: sum_list_replicate)
qed simp

section \<open>The contract of the wrapped filter\<close>

text \<open>
  What the categorical filter relies on: from its reset and first, ambiguous, update on, the
  filter is ready and predicts nonnegative values that do not all vanish.
\<close>

locale probability_filter =
  fixes V :: "'f filter_base" and n :: nat
    and fresh :: "'f \<Rightarrow> bool" and good :: "'f \<Rightarrow> bool"
  assumes dim_pos: "0 < n"
    and reset_good: "fresh f \<Longrightarrow> prob_vec n p \<Longrightarrow> good (fb_Update V (fb_Reset V f) p U 1)"
    and update_good:
      "good f \<Longrightarrow> prob_vec n p \<Longrightarrow> 0 \<le> w \<Longrightarrow> w \<le> 1 \<Longrightarrow> good (fb_Update V f p U w)"
    and good_ready: "good f \<Longrightarrow> fb_Ready V f"
    and good_predict:
      "good f \<Longrightarrow> length (fb_Predict V f) = n \<and> list_all (\<lambda>x. 0 \<le> x) (fb_Predict V f) \<and>
       sum_list (fb_Predict V f) > 1 / 10 ^ 10"
begin

definition cf_good :: "('c, 'f) categorical \<Rightarrow> bool" where
  "cf_good c \<longleftrightarrow> length (m_categories c) = n \<and> distinct (m_categories c) \<and> good (m_filter c) \<and>
     map_of (m_indexMap c) = map_of (zip (m_categories c) [0..<n]) \<and>
     (m_valuesAreCached c \<longrightarrow> ensureValuesAreCached V (c\<lparr>m_valuesAreCached := False\<rparr>) = c)"

lemma cf_good_asserts: "cf_good c \<Longrightarrow> cache_asserts V c"
  using good_predict [of "m_filter c"] good_ready [of "m_filter c"]
  by (simp add: cf_good_def cache_asserts_def)

lemma prob_vec_ambiguous: "prob_vec n (ambiguousProbabilityVector n)"
  using dim_pos
  by (simp add: prob_vec_def ambiguousProbabilityVector_def sum_list_replicate list_all_length)

lemma prob_vec_unit: "i < n \<Longrightarrow> prob_vec n (unit_vec n i)"
proof -
  assume i: "i < n"
  have "list_all (\<lambda>x. 0 \<le> x) (unit_vec n i)"
    using i by (auto simp: unit_vec_def list_all_length nth_list_update)
  moreover have "sum_list (unit_vec n i) = 1"
    using i by (simp add: unit_vec_def sum_unit)
  ultimately show ?thesis by (simp add: prob_vec_def unit_vec_def)
qed

lemma cf_good_new:
  assumes "length cs = n" "fresh f" "CategoricalFilter V cs f t = Inr c"
  shows "cf_good c"
proof -
  from assms(3) obtain m where m: "index_map cs 0 [] = Inr m"
    by (auto simp: CategoricalFilter_def split: sum.splits)
  have absent: "map_of (zip cs [0..<n]) x = None" if "x \<notin> set cs" for x
    using that by (auto simp: map_of_eq_None_iff dest: set_zip_leftD)
  note im = index_map_Inr [OF m]
  then have d: "distinct cs" by blast
  have mm: "map_of m = map_of (zip cs [0..<n])"
  proof
    fix x
    from im have "map_of m x = (if x \<in> set cs then map_of (zip cs [0..<n]) x else None)"
      by (simp add: assms(1))
    then show "map_of m x = map_of (zip cs [0..<n]) x"
      using absent by (metis (full_types))
  qed
  from assms(3) m d mm show ?thesis
    using reset_good [OF assms(2) prob_vec_ambiguous] assms(1)
    by (auto simp: CategoricalFilter_def cf_good_def cf_reset_def Let_def)
qed

lemma cf_good_update:
  "cf_good c \<Longrightarrow> prob_vec n p \<Longrightarrow> 0 \<le> w \<Longrightarrow> w \<le> 1 \<Longrightarrow> cf_good (updateWithProbabilityVector V p w c)"
  by (simp add: cf_good_def updateWithProbabilityVector_def update_good)

lemma cf_good_updateWithCategory:
  assumes "cf_good c" "x \<in> set (m_categories c)" "0 \<le> w" "w \<le> 1"
  shows "\<exists>c'. updateWithCategory V x w c = Some c' \<and> cf_good c'"
proof -
  from assms(2) obtain i where i: "i < length (m_categories c)" "m_categories c ! i = x"
    by (auto simp: in_set_conv_nth)
  have "indexOfCategory c x = Some i"
    using assms(1) i map_of_zip_nth [of "m_categories c" "[0..<n]" i]
    by (auto simp: cf_good_def indexOfCategory_def)
  moreover have "length (m_categories c) = n" using assms(1) by (simp add: cf_good_def)
  ultimately show ?thesis
    using cf_good_update [OF assms(1) prob_vec_unit assms(3,4)] i
    by (auto simp: updateWithCategory_def)
qed

lemma normalised:
  assumes "cf_good c"
  shows "prob_vec n (probabilityVector V c)"
proof -
  let ?p = "fb_Predict V (m_filter c)"
  have g: "length ?p = n" "list_all (\<lambda>x. 0 \<le> x) ?p" "sum_list ?p > 0"
    using good_predict assms by (force simp: cf_good_def)+
  have "m_probabilityVector (ensureValuesAreCached V (c\<lparr>m_valuesAreCached := False\<rparr>))
      = map (\<lambda>x. x / sum_list ?p) ?p"
    by (simp add: ensureValuesAreCached_def Let_def split: prod.split)
  moreover have "ensureValuesAreCached V (c\<lparr>m_valuesAreCached := False\<rparr>) = ensureValuesAreCached V c"
    using assms by (cases "m_valuesAreCached c") (simp_all add: cf_good_def ensureValuesAreCached_def)
  ultimately have "probabilityVector V c = map (\<lambda>x. x / sum_list ?p) ?p"
    by (simp add: probabilityVector_def)
  then show ?thesis
    using g by (auto simp: prob_vec_def list_all_iff sum_list_div_const)
qed

lemma decision:
  assumes "cf_good c"
  shows "filteredCategoryIsUnambiguous V c \<longleftrightarrow>
      (\<exists>i<n. probabilityVector V c ! i \<ge> m_uniformCategorizationThreshold c)"
    and "filteredCategory V c = Some x \<Longrightarrow>
      \<exists>i<n. m_categories c ! i = x \<and> probabilityVector V c ! i \<ge> m_uniformCategorizationThreshold c
         \<and> (\<forall>j<n. probabilityVector V c ! j \<le> probabilityVector V c ! i)"
    and "filteredCategory V c = None \<longleftrightarrow> \<not> filteredCategoryIsUnambiguous V c"
proof -
  define d where "d = ensureValuesAreCached V c"
  have de: "d = ensureValuesAreCached V (c\<lparr>m_valuesAreCached := False\<rparr>)"
    unfolding d_def
    using assms by (cases "m_valuesAreCached c") (simp_all add: cf_good_def ensureValuesAreCached_def)
  obtain mx k where mk: "max_prob (m_probabilityVector d) 0 (0, None) = (mx, k)" by fastforce
  have pv: "probabilityVector V c = m_probabilityVector d" by (simp add: probabilityVector_def d_def)
  have len: "length (m_probabilityVector d) = n"
    using normalised [OF assms] by (simp add: pv prob_vec_def)
  with dim_pos have "m_probabilityVector d \<noteq> []" by auto
  from max_prob_top [OF this mk] len obtain j where
    j: "j < n" "k = Some j" "mx = m_probabilityVector d ! j" "\<forall>i<n. m_probabilityVector d ! i \<le> mx"
    by auto
  let ?t = "m_uniformCategorizationThreshold c"
  have u: "m_filteredCategoryIsUnambiguous d \<longleftrightarrow> mx \<ge> ?t"
    and f: "m_filteredCategory d = (if mx \<ge> ?t then Some j else None)"
    using mk j(2) unfolding de by (simp_all add: ensureValuesAreCached_def Let_def split: prod.splits)
  have cat: "m_categories d = m_categories c" by (simp add: d_def)
  show "filteredCategoryIsUnambiguous V c \<longleftrightarrow> (\<exists>i<n. probabilityVector V c ! i \<ge> ?t)"
    unfolding filteredCategoryIsUnambiguous_def d_def [symmetric] u pv using j by force
  show "filteredCategory V c = Some x \<Longrightarrow>
      \<exists>i<n. m_categories c ! i = x \<and> probabilityVector V c ! i \<ge> ?t
         \<and> (\<forall>j<n. probabilityVector V c ! j \<le> probabilityVector V c ! i)"
    using j u f cat unfolding filteredCategory_def d_def [symmetric] pv
    by (auto simp: Let_def split: if_splits)
  show "filteredCategory V c = None \<longleftrightarrow> \<not> filteredCategoryIsUnambiguous V c"
    using u f unfolding filteredCategory_def filteredCategoryIsUnambiguous_def d_def [symmetric]
    by (auto simp: Let_def)
qed

end

interpretation pointable_count_filter:
  probability_filter rolling_filter 10 "rolling_fresh 10" "rolling_good 10"
proof
  fix f :: rolling and p :: rvec and U w
  show "rolling_good 10 f \<Longrightarrow> length (fb_Predict rolling_filter f) = 10 \<and>
      list_all (\<lambda>x. 0 \<le> x) (fb_Predict rolling_filter f) \<and>
      sum_list (fb_Predict rolling_filter f) > 1 / 10 ^ 10"
    using rolling_good_Predict [of 10 f] by (simp add: rolling_filter_def prob_vec_def)
qed (auto simp: rolling_filter_def rolling_first_update rolling_good_Update rolling_good_Ready)

interpretation rts_filter:
  probability_filter rolling_filter 3 "rolling_fresh 3" "rolling_good 3"
proof
  fix f :: rolling and p :: rvec and U w
  show "rolling_good 3 f \<Longrightarrow> length (fb_Predict rolling_filter f) = 3 \<and>
      list_all (\<lambda>x. 0 \<le> x) (fb_Predict rolling_filter f) \<and>
      sum_list (fb_Predict rolling_filter f) > 1 / 10 ^ 10"
    using rolling_good_Predict [of 3 f] by (simp add: rolling_filter_def prob_vec_def)
qed (auto simp: rolling_filter_def rolling_first_update rolling_good_Update rolling_good_Ready)

end
