(* ===== verification/Screens.thy ===== *)
theory Screens
  imports Prelude
begin

text \<open>
  \<open>source/Utility/LPGeometry.h\<close>, \<open>LPScreen.h\<close> and \<open>LPVirtualScreen.cpp\<close>: screen rectangles, the
  virtual screen that is the union of the active ones, and the clipping of a position to the
  nearest screen. What the operating system reports (the list of displays) is an argument of the
  constructor and of \<open>Update\<close>. The default constructor's uninitialised members do not arise: a
  screen is always built from a reported display.
\<close>

section \<open>Points and rectangles\<close>

datatype LPPoint = LPPoint (px: real) (py: real)
datatype LPSize = LPSize (sz_width: real) (sz_height: real)
datatype LPRect = LPRect (rect_origin: LPPoint) (rect_size: LPSize)

abbreviation LPPointZero :: LPPoint where "LPPointZero \<equiv> LPPoint 0 0"

definition LPRectMake :: "real \<Rightarrow> real \<Rightarrow> real \<Rightarrow> real \<Rightarrow> LPRect" where
  "LPRectMake x y w h = LPRect (LPPoint x y) (LPSize w h)"

definition LPRectZero :: LPRect where "LPRectZero = LPRectMake 0 0 0 0"

definition LPRectGetMinX :: "LPRect \<Rightarrow> real" where "LPRectGetMinX r = px (rect_origin r)"
definition LPRectGetMinY :: "LPRect \<Rightarrow> real" where "LPRectGetMinY r = py (rect_origin r)"
definition LPRectGetMaxX :: "LPRect \<Rightarrow> real" where
  "LPRectGetMaxX r = px (rect_origin r) + sz_width (rect_size r)"
definition LPRectGetMaxY :: "LPRect \<Rightarrow> real" where
  "LPRectGetMaxY r = py (rect_origin r) + sz_height (rect_size r)"

lemmas rect_defs = LPRectGetMinX_def LPRectGetMinY_def LPRectGetMaxX_def LPRectGetMaxY_def
  LPRectMake_def

definition LPRectContainsPoint :: "LPRect \<Rightarrow> LPPoint \<Rightarrow> bool" where
  "LPRectContainsPoint r p \<longleftrightarrow>
     px p \<ge> px (rect_origin r) \<and> px p < px (rect_origin r) + sz_width (rect_size r) \<and>
     py p \<ge> py (rect_origin r) \<and> py p < py (rect_origin r) + sz_height (rect_size r)"

definition LPRectUnion :: "LPRect \<Rightarrow> LPRect \<Rightarrow> LPRect" where
  "LPRectUnion r1 r2 =
     (let x0 = min (px (rect_origin r1)) (px (rect_origin r2));
          x1 = max (px (rect_origin r1) + sz_width (rect_size r1))
                   (px (rect_origin r2) + sz_width (rect_size r2));
          y0 = min (py (rect_origin r1)) (py (rect_origin r2));
          y1 = max (py (rect_origin r1) + sz_height (rect_size r1))
                   (py (rect_origin r2) + sz_height (rect_size r2))
      in LPRectMake x0 y0 (x1 - x0) (y1 - y0))"

lemma LPRectUnion_contains:
  "LPRectContainsPoint r1 p \<or> LPRectContainsPoint r2 p \<Longrightarrow> LPRectContainsPoint (LPRectUnion r1 r2) p"
  by (auto simp: LPRectContainsPoint_def LPRectUnion_def LPRectMake_def Let_def)

section \<open>Screens\<close>

record LPScreen =
  m_screenID :: nat
  m_screenIndex :: nat
  m_bounds :: LPRect
  m_isPrimary :: bool

definition screen_AspectRatio :: "LPScreen \<Rightarrow> real" where
  "screen_AspectRatio s =
     (let sz = rect_size (m_bounds s) in
      if sz_height sz < 1 then 1 else sz_width sz / sz_height sz)"

record LPVirtualScreen =
  m_activeScreens :: "LPScreen list"
  m_detectedScreens :: "LPScreen list"
  vs_screenIndex :: nat
  vs_position :: LPPoint
  m_activeBounds :: LPRect
  m_detectedBounds :: LPRect
  m_useDefaultScreen :: bool

definition Bounds :: "bool \<Rightarrow> LPVirtualScreen \<Rightarrow> LPRect" where
  "Bounds activeOnly v = (if activeOnly then m_activeBounds v else m_detectedBounds v)"

definition Normalize :: "LPPoint \<Rightarrow> bool \<Rightarrow> LPVirtualScreen \<Rightarrow> LPPoint" where
  "Normalize p activeOnly v =
     (let orig = rect_origin (Bounds activeOnly v); sz = rect_size (Bounds activeOnly v) in
      if sz_width sz > 0 \<and> sz_height sz > 0
      then LPPoint ((px p - px orig) / sz_width sz) ((py p - py orig) / sz_height sz)
      else LPPointZero)"

definition Denormalize :: "LPPoint \<Rightarrow> bool \<Rightarrow> LPVirtualScreen \<Rightarrow> LPPoint" where
  "Denormalize p activeOnly v =
     (let orig = rect_origin (Bounds activeOnly v); sz = rect_size (Bounds activeOnly v) in
      LPPoint (px p * sz_width sz + px orig) (py p * sz_height sz + py orig))"

definition clip_axis :: "real \<Rightarrow> real \<Rightarrow> real \<Rightarrow> real" where
  "clip_axis x lo hi = (if x \<le> lo then lo else if x \<ge> hi then hi - 1 else x)"

definition clip_to_rect :: "LPRect \<Rightarrow> LPPoint \<Rightarrow> LPPoint" where
  "clip_to_rect r p = LPPoint (clip_axis (px p) (LPRectGetMinX r) (LPRectGetMaxX r))
                              (clip_axis (py p) (LPRectGetMinY r) (LPRectGetMaxY r))"

definition distance_squared :: "LPPoint \<Rightarrow> LPPoint \<Rightarrow> real" where
  "distance_squared p q = (px p - px q) * (px p - px q) + (py p - py q) * (py p - py q)"

fun clip_loop :: "LPPoint \<Rightarrow> nat \<Rightarrow> LPScreen list \<Rightarrow> LPPoint \<times> nat \<Rightarrow> LPPoint \<times> nat" where
  "clip_loop p i [] best = best"
| "clip_loop p i (s # ss) (q, k) =
     (let c = clip_to_rect (m_bounds s) p in
      if distance_squared p c < distance_squared p q then clip_loop p (i + 1) ss (c, i)
      else clip_loop p (i + 1) ss (q, k))"

text \<open>The pair is the clipped position and the index the optional output parameter receives.\<close>

definition ClipPosition :: "LPPoint \<Rightarrow> LPVirtualScreen \<Rightarrow> LPPoint \<times> nat" where
  "ClipPosition p v =
     (case m_activeScreens v of
        [] \<Rightarrow> (p, 0)
      | s # ss \<Rightarrow> clip_loop p 1 ss (clip_to_rect (m_bounds s) p, 0))"

definition SetPosition :: "LPPoint \<Rightarrow> LPVirtualScreen \<Rightarrow> LPPoint \<times> LPVirtualScreen" where
  "SetPosition p v =
     (let (q, k) = ClipPosition p v in (q, v\<lparr>vs_position := q, vs_screenIndex := k\<rparr>))"

text \<open>Indexing an empty vector of screens is undefined: \<open>None\<close>.\<close>

definition ClosestScreen :: "LPPoint \<Rightarrow> LPVirtualScreen \<Rightarrow> LPScreen option" where
  "ClosestScreen p v =
     (if length (m_activeScreens v) > 1
      then (case find (\<lambda>s. LPRectContainsPoint (m_bounds s) p) (m_activeScreens v) of
              Some s \<Rightarrow> Some s
            | None \<Rightarrow> Some (m_activeScreens v ! snd (ClipPosition p v)))
      else (case m_activeScreens v of [] \<Rightarrow> None | s # _ \<Rightarrow> Some s))"

definition vs_AspectRatio :: "LPVirtualScreen \<Rightarrow> real" where
  "vs_AspectRatio v =
     (let sz = rect_size (m_activeBounds v) in
      if sz_height sz < 1 then 1 else sz_width sz / sz_height sz)"

definition ComputeBounds :: "LPScreen list \<Rightarrow> LPRect" where
  "ComputeBounds ss =
     (case ss of
        [] \<Rightarrow> LPRectZero
      | s # rest \<Rightarrow> fold (\<lambda>t b. LPRectUnion b (m_bounds t)) rest (m_bounds s))"

definition active_screens :: "bool \<Rightarrow> LPScreen list \<Rightarrow> LPScreen list" where
  "active_screens useDefault screens =
     (if useDefault \<and> length screens > 1
      then (case find m_isPrimary screens of Some s \<Rightarrow> [s] | None \<Rightarrow> [hd screens])
      else screens)"

definition Update :: "LPScreen list \<Rightarrow> LPVirtualScreen \<Rightarrow> LPVirtualScreen" where
  "Update screens v =
     (let act = active_screens (m_useDefaultScreen v) screens in
      v\<lparr>m_detectedScreens := screens, m_activeScreens := act,
        m_activeBounds := ComputeBounds act, m_detectedBounds := ComputeBounds screens\<rparr>)"

definition LPVirtualScreen :: "LPScreen list \<Rightarrow> LPVirtualScreen" where
  "LPVirtualScreen screens = Update screens
     \<lparr>m_activeScreens = [], m_detectedScreens = [], vs_screenIndex = 0, vs_position = LPPointZero,
      m_activeBounds = LPRectZero, m_detectedBounds = LPRectZero, m_useDefaultScreen = False\<rparr>"

definition UseDefaultScreen :: "bool \<Rightarrow> LPScreen list \<Rightarrow> LPVirtualScreen \<Rightarrow> LPVirtualScreen" where
  "UseDefaultScreen use screens v =
     (if m_useDefaultScreen v \<noteq> use then Update screens (v\<lparr>m_useDefaultScreen := use\<rparr>) else v)"

section \<open>Clipping\<close>

definition pixel_sized :: "LPRect \<Rightarrow> bool" where
  "pixel_sized r \<longleftrightarrow> 1 \<le> sz_width (rect_size r) \<and> 1 \<le> sz_height (rect_size r)"

lemma clip_to_rect_inside: "pixel_sized r \<Longrightarrow> LPRectContainsPoint r (clip_to_rect r p)"
  by (auto simp: pixel_sized_def LPRectContainsPoint_def clip_to_rect_def clip_axis_def rect_defs)

lemma clip_to_rect_id: "LPRectContainsPoint r p \<Longrightarrow> clip_to_rect r p = p"
  by (cases p) (auto simp: LPRectContainsPoint_def clip_to_rect_def clip_axis_def rect_defs)

text \<open>
  A point has room in a rectangle when it is at least a unit away from the right and the bottom edge,
  which are outside: the corner of a pixel is such a point, the far part of the last pixel is not.
  Clipping to a rectangle finds the nearest point with room in it, or leaves the position where it
  is.
\<close>

definition has_room :: "LPRect \<Rightarrow> LPPoint \<Rightarrow> bool" where
  "has_room r q \<longleftrightarrow> LPRectGetMinX r \<le> px q \<and> px q \<le> LPRectGetMaxX r - 1 \<and>
     LPRectGetMinY r \<le> py q \<and> py q \<le> LPRectGetMaxY r - 1"

lemma has_room_inside: "has_room r q \<Longrightarrow> LPRectContainsPoint r q"
  by (simp add: has_room_def LPRectContainsPoint_def rect_defs)

lemma clip_axis_nearest: "lo \<le> q \<Longrightarrow> q \<le> hi - 1 \<Longrightarrow> \<bar>x - clip_axis x lo hi\<bar> \<le> \<bar>x - q\<bar>"
  by (auto simp: clip_axis_def)

lemma clip_to_rect_nearest:
  assumes "has_room r q"
  shows "distance_squared p (clip_to_rect r p) \<le> distance_squared p q"
proof -
  have "\<bar>px p - px (clip_to_rect r p)\<bar> \<le> \<bar>px p - px q\<bar>" "\<bar>py p - py (clip_to_rect r p)\<bar> \<le> \<bar>py p - py q\<bar>"
    using assms clip_axis_nearest by (simp_all add: has_room_def clip_to_rect_def)
  then show ?thesis
    unfolding distance_squared_def power2_eq_square [symmetric]
    by (intro add_mono) (simp_all add: abs_le_square_iff)
qed

lemma distance_squared_nonneg: "0 \<le> distance_squared p q"
  by (simp add: distance_squared_def)

lemma distance_squared_0: "distance_squared p q = 0 \<longleftrightarrow> p = q"
  by (cases p; cases q) (auto simp: distance_squared_def sum_squares_eq_zero_iff)

text \<open>The loop finds the first screen at the least distance.\<close>

lemma clip_loop_best:
  assumes "k < i" "i = length ds" "k < length ds"
    "q = clip_to_rect (m_bounds (ds ! k)) p"
    "\<forall>s\<in>set ds. distance_squared p q \<le> distance_squared p (clip_to_rect (m_bounds s) p)"
    "clip_loop p i ss (q, k) = (q', k')"
  shows "k' < length (ds @ ss) \<and> q' = clip_to_rect (m_bounds ((ds @ ss) ! k')) p
    \<and> (\<forall>s\<in>set (ds @ ss). distance_squared p q' \<le> distance_squared p (clip_to_rect (m_bounds s) p))"
  using assms
proof (induction ss arbitrary: ds i q k)
  case Nil
  then show ?case by auto
next
  case (Cons s ss)
  let ?c = "clip_to_rect (m_bounds s) p"
  have e: "ds @ s # ss = (ds @ [s]) @ ss" by simp
  show ?case
  proof (cases "distance_squared p ?c < distance_squared p q")
    case True
    show ?thesis
      unfolding e
    proof (rule Cons.IH)
      show "clip_loop p (i + 1) ss (?c, i) = (q', k')"
        using Cons.prems True by (simp add: Let_def)
      show "\<forall>t\<in>set (ds @ [s]). distance_squared p ?c
              \<le> distance_squared p (clip_to_rect (m_bounds t) p)"
        using Cons.prems(5) True by fastforce
    qed (use Cons.prems in auto)
  next
    case False
    show ?thesis
      unfolding e
    proof (rule Cons.IH)
      show "clip_loop p (i + 1) ss (q, k) = (q', k')"
        using Cons.prems False by (simp add: Let_def)
      show "\<forall>t\<in>set (ds @ [s]). distance_squared p q
              \<le> distance_squared p (clip_to_rect (m_bounds t) p)"
        using Cons.prems(5) False by fastforce
    qed (use Cons.prems in \<open>auto simp: nth_append\<close>)
  qed
qed

lemma ClipPosition_best:
  assumes "m_activeScreens v \<noteq> []" "ClipPosition p v = (q, k)"
  shows "k < length (m_activeScreens v)"
    and "q = clip_to_rect (m_bounds (m_activeScreens v ! k)) p"
    and "s \<in> set (m_activeScreens v) \<Longrightarrow>
         distance_squared p q \<le> distance_squared p (clip_to_rect (m_bounds s) p)"
proof -
  obtain s0 ss where v: "m_activeScreens v = s0 # ss" using assms(1) by (cases "m_activeScreens v") auto
  have "clip_loop p 1 ss (clip_to_rect (m_bounds s0) p, 0) = (q, k)"
    using assms(2) v by (simp add: ClipPosition_def)
  from clip_loop_best [where ds = "[s0]", OF _ _ _ _ _ this] v
  have "k < length (m_activeScreens v) \<and> q = clip_to_rect (m_bounds (m_activeScreens v ! k)) p
    \<and> (\<forall>s\<in>set (m_activeScreens v). distance_squared p q \<le> distance_squared p (clip_to_rect (m_bounds s) p))"
    by auto
  then show "k < length (m_activeScreens v)"
    and "q = clip_to_rect (m_bounds (m_activeScreens v ! k)) p"
    and "s \<in> set (m_activeScreens v) \<Longrightarrow>
         distance_squared p q \<le> distance_squared p (clip_to_rect (m_bounds s) p)"
    by auto
qed

definition on_screen :: "LPVirtualScreen \<Rightarrow> LPPoint \<Rightarrow> bool" where
  "on_screen v p \<longleftrightarrow> list_ex (\<lambda>s. LPRectContainsPoint (m_bounds s) p) (m_activeScreens v)"

definition vs_ok :: "LPVirtualScreen \<Rightarrow> bool" where
  "vs_ok v \<longleftrightarrow> m_activeScreens v \<noteq> [] \<and> list_all (\<lambda>s. pixel_sized (m_bounds s)) (m_activeScreens v)"

lemma ClipPosition_on_screen: "vs_ok v \<Longrightarrow> on_screen v (fst (ClipPosition p v))"
proof -
  assume ok: "vs_ok v"
  obtain q k where c: "ClipPosition p v = (q, k)" by fastforce
  from ok have ne: "m_activeScreens v \<noteq> []" by (simp add: vs_ok_def)
  note b = ClipPosition_best [OF ne c]
  have "m_activeScreens v ! k \<in> set (m_activeScreens v)" using b(1) by simp
  with ok b(2) show ?thesis
    unfolding on_screen_def vs_ok_def c list_ex_iff list_all_iff
    using clip_to_rect_inside by auto
qed

lemma ClipPosition_id: "on_screen v p \<Longrightarrow> fst (ClipPosition p v) = p"
proof -
  assume "on_screen v p"
  then obtain s where s: "s \<in> set (m_activeScreens v)" "LPRectContainsPoint (m_bounds s) p"
    by (auto simp: on_screen_def list_ex_iff)
  then have ne: "m_activeScreens v \<noteq> []" by auto
  obtain q k where c: "ClipPosition p v = (q, k)" by fastforce
  have "distance_squared p q \<le> distance_squared p p"
    using ClipPosition_best(3) [OF ne c s(1)] clip_to_rect_id [OF s(2)] by simp
  then have "distance_squared p q = 0"
    using distance_squared_nonneg [of p q] distance_squared_0 [of p p] by simp
  then show ?thesis using c distance_squared_0 by auto
qed

section \<open>Bounds\<close>

lemma fold_union_contains:
  "LPRectContainsPoint b p \<or> (\<exists>t\<in>set ts. LPRectContainsPoint (m_bounds t) p) \<Longrightarrow>
   LPRectContainsPoint (fold (\<lambda>t b. LPRectUnion b (m_bounds t)) ts b) p"
proof (induction ts arbitrary: b)
  case (Cons t ts)
  then show ?case using LPRectUnion_contains by (auto intro!: Cons.IH)
qed simp

lemma ComputeBounds_contains:
  "s \<in> set ss \<Longrightarrow> LPRectContainsPoint (m_bounds s) p \<Longrightarrow> LPRectContainsPoint (ComputeBounds ss) p"
  by (cases ss) (auto simp: ComputeBounds_def intro: fold_union_contains)

lemma Normalize_Denormalize:
  "0 < sz_width (rect_size (Bounds a v)) \<Longrightarrow> 0 < sz_height (rect_size (Bounds a v)) \<Longrightarrow>
   Normalize (Denormalize p a v) a v = p \<and> Denormalize (Normalize p a v) a v = p"
  by (cases p) (simp add: Normalize_def Denormalize_def Let_def)

lemma active_screens_subset: "set (active_screens d ss) \<subseteq> set ss"
  by (cases ss) (auto simp: active_screens_def find_Some_iff split: option.splits)

lemma active_screens_nonempty: "ss \<noteq> [] \<Longrightarrow> active_screens d ss \<noteq> []"
  by (auto simp: active_screens_def split: option.splits)

end
