(* ===== verification/Aligned_Box.thy ===== *)
theory Aligned_Box
  imports Prelude
begin

text \<open>
  The axis-aligned box of \<open>source/Utility/AxisAlignedBox.h\<close>. The template's dimension is the length
  of the coordinate lists, so a point is a list of reals and Eigen's coefficient-wise operations
  are \<open>map2\<close>. The result of \<open>RayIntersect\<close> is \<open>None\<close> for a ray that is parallel to an axis, where the code
  relies on infinities.
\<close>

type_synonym point = "real list"

record AxisAlignedBox =
  m_Min :: point
  m_Max :: point

definition Box :: "point \<Rightarrow> point \<Rightarrow> AxisAlignedBox" where
  "Box mn mx = \<lparr>m_Min = mn, m_Max = mx\<rparr>"

definition SetBounds :: "point \<Rightarrow> point \<Rightarrow> AxisAlignedBox \<Rightarrow> AxisAlignedBox" where
  "SetBounds mn mx b = b\<lparr>m_Min := mn, m_Max := mx\<rparr>"

definition SetCenterSize :: "point \<Rightarrow> point \<Rightarrow> AxisAlignedBox \<Rightarrow> AxisAlignedBox" where
  "SetCenterSize c sz b =
     b\<lparr>m_Min := map2 (\<lambda>a s. a - s / 2) c sz, m_Max := map2 (\<lambda>a s. a + s / 2) c sz\<rparr>"

definition Intersection :: "AxisAlignedBox \<Rightarrow> AxisAlignedBox \<Rightarrow> AxisAlignedBox" where
  "Intersection b c = b\<lparr>m_Min := map2 max (m_Min b) (m_Min c), m_Max := map2 min (m_Max b) (m_Max c)\<rparr>"

definition box_Union :: "AxisAlignedBox \<Rightarrow> AxisAlignedBox \<Rightarrow> AxisAlignedBox" where
  "box_Union b c = b\<lparr>m_Min := map2 min (m_Min b) (m_Min c), m_Max := map2 max (m_Max b) (m_Max c)\<rparr>"

definition Expand :: "AxisAlignedBox \<Rightarrow> point \<Rightarrow> AxisAlignedBox" where
  "Expand b p = b\<lparr>m_Min := map2 min (m_Min b) p, m_Max := map2 max (m_Max b) p\<rparr>"

definition Center :: "AxisAlignedBox \<Rightarrow> point" where
  "Center b = map2 (\<lambda>x y. (x + y) / 2) (m_Max b) (m_Min b)"

definition box_Size :: "AxisAlignedBox \<Rightarrow> point" where
  "box_Size b = map2 (-) (m_Max b) (m_Min b)"

definition Scale :: "AxisAlignedBox \<Rightarrow> point \<Rightarrow> AxisAlignedBox" where
  "Scale b sc =
     (let c = Center b;
          f = (\<lambda>m. map2 (+) (map2 (*) sc (map2 (-) m c)) c)
      in b\<lparr>m_Min := f (m_Min b), m_Max := f (m_Max b)\<rparr>)"

definition IsValid :: "AxisAlignedBox \<Rightarrow> bool" where
  "IsValid b \<longleftrightarrow> list_all2 (\<ge>) (m_Max b) (m_Min b)"

definition Contains :: "AxisAlignedBox \<Rightarrow> point \<Rightarrow> bool" where
  "Contains b p \<longleftrightarrow> list_all2 (\<ge>) p (m_Min b) \<and> list_all2 (\<le>) p (m_Max b)"

definition Volume :: "AxisAlignedBox \<Rightarrow> real" where "Volume b = prod_list (box_Size b)"

definition squaredNorm :: "point \<Rightarrow> real" where "squaredNorm p = sum_list (map (\<lambda>x. x * x) p)"

definition DiagonalLength :: "AxisAlignedBox \<Rightarrow> real" where
  "DiagonalLength b = sqrt (squaredNorm (box_Size b))"

definition ClosestPoint :: "AxisAlignedBox \<Rightarrow> point \<Rightarrow> point" where
  "ClosestPoint b p = map2 min (map2 max p (m_Min b)) (m_Max b)"

definition box_Normalize :: "AxisAlignedBox \<Rightarrow> point \<Rightarrow> point" where
  "box_Normalize b p = map2 (/) (map2 (-) p (m_Min b)) (box_Size b)"

definition NormalizeClamp :: "AxisAlignedBox \<Rightarrow> point \<Rightarrow> point" where
  "NormalizeClamp b p = map2 (/) (map2 (-) (ClosestPoint b p) (m_Min b)) (box_Size b)"

definition SphereIntersect :: "AxisAlignedBox \<Rightarrow> point \<Rightarrow> real \<Rightarrow> bool" where
  "SphereIntersect b p r \<longleftrightarrow> squaredNorm (map2 (-) p (ClosestPoint b p)) \<le> r * r"

text \<open>Whether the box is hit, and the new value of the parameter \<open>t\<close>.\<close>

definition RayIntersect :: "AxisAlignedBox \<Rightarrow> point \<Rightarrow> point \<Rightarrow> real \<Rightarrow> (bool \<times> real) option" where
  "RayIntersect b rayOrigin rayDirection t =
     (if 0 \<in> set rayDirection then None
      else
        (let lower = map2 (/) (map2 (-) (m_Min b) rayOrigin) rayDirection;
             upper = map2 (/) (map2 (-) (m_Max b) rayOrigin) rayDirection;
             tmin = Max (set (map2 min lower upper));
             tmax = Min (set (map2 max lower upper))
         in Some
              (if tmin < tmax then
                 (if tmin > 0 \<and> tmin < t then (True, tmin)
                  else if tmax > 0 \<and> tmax < t then (True, tmax)
                  else (False, t))
               else (False, t))))"

section \<open>Coordinates\<close>

text \<open>
  Everything is coefficient-wise, so facts are proved on one coordinate at a time: a box of a
  given dimension is a pair of lists of that length.
\<close>

definition box_dim :: "nat \<Rightarrow> AxisAlignedBox \<Rightarrow> bool" where
  "box_dim n b \<longleftrightarrow> length (m_Min b) = n \<and> length (m_Max b) = n"

lemmas box_simps = IsValid_def Contains_def box_dim_def list_all2_conv_all_nth

lemma ClosestPoint_inside:
  "box_dim n b \<Longrightarrow> IsValid b \<Longrightarrow> length p = n \<Longrightarrow> Contains b (ClosestPoint b p)"
  by (auto simp: box_simps ClosestPoint_def)

lemma ClosestPoint_id: "box_dim n b \<Longrightarrow> length p = n \<Longrightarrow> Contains b p \<Longrightarrow> ClosestPoint b p = p"
  by (auto simp: box_simps ClosestPoint_def intro!: nth_equalityI)

lemma squaredNorm_mono:
  "length xs = length ys \<Longrightarrow> (\<And>i. i < length xs \<Longrightarrow> \<bar>xs ! i\<bar> \<le> \<bar>ys ! i\<bar>) \<Longrightarrow>
   squaredNorm xs \<le> squaredNorm ys"
proof (induction xs ys rule: list_induct2)
  case (Cons x xs y ys)
  from Cons.prems [of 0] have "x * x \<le> y * y"
    using abs_le_square_iff [of x y] by (simp add: power2_eq_square)
  moreover have "squaredNorm xs \<le> squaredNorm ys"
    using Cons.prems [of "Suc i" for i] by (intro Cons.IH) auto
  ultimately show ?case by (simp add: squaredNorm_def)
qed (simp add: squaredNorm_def)

lemma clamp_nearest:
  fixes a :: real
  shows "lo \<le> q \<Longrightarrow> q \<le> hi \<Longrightarrow> \<bar>a - min (max a lo) hi\<bar> \<le> \<bar>a - q\<bar>"
  by (auto simp: min_def max_def)

lemma ClosestPoint_nearest:
  assumes "box_dim n b" "IsValid b" "length p = n" "Contains b q"
  shows "squaredNorm (map2 (-) p (ClosestPoint b p)) \<le> squaredNorm (map2 (-) p q)"
proof (rule squaredNorm_mono)
  from assms have l: "length q = n" "length (ClosestPoint b p) = n"
    by (auto simp: box_simps ClosestPoint_def)
  with assms show "length (map2 (-) p (ClosestPoint b p)) = length (map2 (-) p q)" by simp
  fix i
  assume "i < length (map2 (-) p (ClosestPoint b p))"
  with assms l have i: "i < n" by simp
  with assms l have "m_Min b ! i \<le> q ! i" "q ! i \<le> m_Max b ! i" "m_Min b ! i \<le> m_Max b ! i"
    by (auto simp: box_simps)
  then show "\<bar>map2 (-) p (ClosestPoint b p) ! i\<bar> \<le> \<bar>map2 (-) p q ! i\<bar>"
    using assms l i clamp_nearest by (simp add: box_simps ClosestPoint_def)
qed

lemma SphereIntersect_iff:
  assumes "box_dim n b" "IsValid b" "length p = n"
  shows "SphereIntersect b p r \<longleftrightarrow> (\<exists>q. Contains b q \<and> squaredNorm (map2 (-) p q) \<le> r * r)"
  using ClosestPoint_inside [OF assms] ClosestPoint_nearest [OF assms]
  unfolding SphereIntersect_def by (meson order_trans)

lemma Contains_Intersection:
  "box_dim n b \<Longrightarrow> box_dim n c \<Longrightarrow> Contains (Intersection b c) p \<longleftrightarrow> Contains b p \<and> Contains c p"
  by (auto simp: box_simps Intersection_def)

lemma Contains_Union:
  "box_dim n b \<Longrightarrow> box_dim n c \<Longrightarrow> Contains b p \<or> Contains c p \<Longrightarrow> Contains (box_Union b c) p"
  by (fastforce simp: box_simps box_Union_def)

lemma Contains_Expand:
  "box_dim n b \<Longrightarrow> length p = n \<Longrightarrow> Contains (Expand b p) p"
  by (auto simp: box_simps Expand_def)

lemma Center_Scale:
  "box_dim n b \<Longrightarrow> length sc = n \<Longrightarrow> Center (Scale b sc) = Center b"
  by (auto simp: box_dim_def Center_def Scale_def Let_def field_simps intro!: nth_equalityI)

lemma NormalizeClamp_bounds:
  assumes "box_dim n b" "IsValid b" "length p = n" "i < n"
  shows "0 \<le> NormalizeClamp b p ! i \<and> NormalizeClamp b p ! i \<le> 1"
proof -
  from assms have "m_Min b ! i \<le> m_Max b ! i" by (simp add: box_simps)
  with assms show ?thesis
    by (auto simp: box_simps NormalizeClamp_def box_Size_def ClosestPoint_def divide_le_eq_1
        min_def max_def)
qed

text \<open>The point that a hit names lies ahead of the origin, nearer than before, and in the box.\<close>

lemma between_quotients:
  fixes lo hi o1 d s :: real
  assumes "d \<noteq> 0" "lo \<le> hi" "min ((lo - o1) / d) ((hi - o1) / d) \<le> s" "s \<le> max ((lo - o1) / d) ((hi - o1) / d)"
  shows "lo \<le> o1 + s * d \<and> o1 + s * d \<le> hi"
proof (cases "0 < d")
  case True
  then have "(lo - o1) / d \<le> (hi - o1) / d" using assms(2) by (simp add: divide_right_mono)
  with assms True show ?thesis by (simp add: field_simps)
next
  case False
  with assms(1) have "d < 0" by simp
  then have "(hi - o1) / d \<le> (lo - o1) / d" using assms(2) by (simp add: divide_right_mono_neg)
  with assms \<open>d < 0\<close> show ?thesis by (simp add: field_simps)
qed

lemma RayIntersect_hit:
  assumes "box_dim n b" "IsValid b" "length rayOrigin = n" "length rayDirection = n"
    and hit: "RayIntersect b rayOrigin rayDirection t = Some (True, t')"
  shows "0 < t' \<and> t' < t \<and> Contains b (map2 (\<lambda>x d. x + t' * d) rayOrigin rayDirection)"
proof -
  define lower where "lower = map2 (/) (map2 (-) (m_Min b) rayOrigin) rayDirection"
  define upper where "upper = map2 (/) (map2 (-) (m_Max b) rayOrigin) rayDirection"
  define tmin where "tmin = Max (set (map2 min lower upper))"
  define tmax where "tmax = Min (set (map2 max lower upper))"
  have len: "length lower = n" "length upper = n" "length (m_Min b) = n" "length (m_Max b) = n"
    using assms(1,3,4) by (simp_all add: lower_def upper_def box_dim_def)
  have d: "0 \<notin> set rayDirection" using hit by (auto simp: RayIntersect_def)
  then have "RayIntersect b rayOrigin rayDirection t =
     Some (if tmin < tmax then (if tmin > 0 \<and> tmin < t then (True, tmin)
             else if tmax > 0 \<and> tmax < t then (True, tmax) else (False, t)) else (False, t))"
    unfolding RayIntersect_def Let_def lower_def upper_def tmin_def tmax_def by (simp only: if_False)
  with hit have t': "0 < t'" "t' < t" "t' = tmin \<or> t' = tmax" "tmin < tmax" by (auto split: if_splits)
  have "m_Min b ! i \<le> rayOrigin ! i + t' * rayDirection ! i \<and> rayOrigin ! i + t' * rayDirection ! i \<le> m_Max b ! i"
    if i: "i < n" for i
  proof (rule between_quotients)
    show "rayDirection ! i \<noteq> 0" using d i assms(4) by (metis nth_mem)
    show "m_Min b ! i \<le> m_Max b ! i" using assms(1,2) i by (auto simp: box_simps)
    have "map2 min lower upper ! i \<le> tmin" "tmax \<le> map2 max lower upper ! i"
      using i len unfolding tmin_def tmax_def by (auto intro!: Max_ge Min_le nth_mem simp del: nth_zip)
    then show "min ((m_Min b ! i - rayOrigin ! i) / rayDirection ! i) ((m_Max b ! i - rayOrigin ! i) / rayDirection ! i) \<le> t'"
      "t' \<le> max ((m_Min b ! i - rayOrigin ! i) / rayDirection ! i) ((m_Max b ! i - rayOrigin ! i) / rayDirection ! i)"
      using t' i len assms(3,4) by (auto simp: lower_def upper_def)
  qed
  with t' len assms(3,4) show ?thesis by (auto simp: box_simps)
qed

end
