(* ===== verification/Vec.thy ===== *)
theory Vec
  imports Prelude
begin

text \<open>
  Three-component vectors: the public \<open>x\<close>, \<open>y\<close>, \<open>z\<close> members of \<open>Leap::Vector\<close> and its documented
  componentwise arithmetic, magnitude, distance and dot product.
\<close>

datatype vec = Vec (vx: real) (vy: real) (vz: real)

lemma vec_eqI: "vx a = vx b \<Longrightarrow> vy a = vy b \<Longrightarrow> vz a = vz b \<Longrightarrow> a = b"
  by (cases a; cases b) simp

instantiation vec :: ab_group_add
begin

definition zero_vec_def: "0 = Vec 0 0 0"
definition plus_vec_def: "a + b = Vec (vx a + vx b) (vy a + vy b) (vz a + vz b)"
definition minus_vec_def: "a - b = Vec (vx a - vx b) (vy a - vy b) (vz a - vz b)"
definition uminus_vec_def: "- a = Vec (- vx a) (- vy a) (- vz a)"

instance
  by standard (auto simp: zero_vec_def plus_vec_def minus_vec_def uminus_vec_def)

end

definition vscale :: "real \<Rightarrow> vec \<Rightarrow> vec" where
  "vscale c a = Vec (c * vx a) (c * vy a) (c * vz a)"

definition dot :: "vec \<Rightarrow> vec \<Rightarrow> real" where
  "dot a b = vx a * vx b + vy a * vy b + vz a * vz b"

definition magnitudeSquared :: "vec \<Rightarrow> real" where "magnitudeSquared a = dot a a"
definition magnitude :: "vec \<Rightarrow> real" where "magnitude a = sqrt (magnitudeSquared a)"
definition distanceTo :: "vec \<Rightarrow> vec \<Rightarrow> real" where "distanceTo a b = magnitude (a - b)"

lemma vec_components [simp]:
  "vx 0 = 0" "vy 0 = 0" "vz 0 = 0"
  "vx (a + b) = vx a + vx b" "vy (a + b) = vy a + vy b" "vz (a + b) = vz a + vz b"
  "vx (a - b) = vx a - vx b" "vy (a - b) = vy a - vy b" "vz (a - b) = vz a - vz b"
  "vx (- a) = - vx a" "vy (- a) = - vy a" "vz (- a) = - vz a"
  "vx (vscale c a) = c * vx a" "vy (vscale c a) = c * vy a" "vz (vscale c a) = c * vz a"
  by (simp_all add: zero_vec_def plus_vec_def minus_vec_def uminus_vec_def vscale_def)

lemma magnitudeSquared_nonneg: "0 \<le> magnitudeSquared a"
  by (simp add: magnitudeSquared_def dot_def)

lemma magnitude_nonneg: "0 \<le> magnitude a"
  by (simp add: magnitude_def magnitudeSquared_nonneg)

lemma magnitudeSquared_eq_0: "magnitudeSquared a = 0 \<longleftrightarrow> a = 0"
proof
  assume "magnitudeSquared a = 0"
  then have "vx a * vx a + vy a * vy a + vz a * vz a = 0"
    by (simp add: magnitudeSquared_def dot_def)
  then have "vx a = 0 \<and> vy a = 0 \<and> vz a = 0"
    by (smt (verit) mult_eq_0_iff zero_le_square)
  then show "a = 0" by (intro vec_eqI) auto
qed (simp add: magnitudeSquared_def dot_def)

end
