(* ===== verification/Overlay_Driver.thy ===== *)
theory Overlay_Driver
  imports Screens Aligned_Box Vec
begin

text \<open>
  \<open>source/Overlay/Overlay.cpp\<close>: the mapping of normalised device positions to the virtual screen,
  and the icons that mark fingertips. Icons and images are platform objects; an icon is modelled
  by what the driver sets on it (image, position, visibility), a rasterised image by the
  arguments of \<open>RasterCircle\<close>. The contents of \<open>icons.txt\<close> and the files on disk are arguments.
\<close>

section \<open>State\<close>

datatype image =
    Blank
  | Sized int int
  | FromFile nat
  | RasterCircle "real \<times> real" "real \<times> real" real real real real real real real real

record icon =
  ic_image :: image
  ic_position :: LPPoint
  ic_visible :: bool

record overlay =
  m_virtualScreen :: LPVirtualScreen
  m_overlayImages :: "image list"
  m_overlayPoints :: "icon list"
  m_numOverlayPoints :: int
  m_numOverlayImages :: int
  m_filledImageIdx :: int
  m_UseProceduralOverlay :: bool

definition new_icon :: icon where
  "new_icon = \<lparr>ic_image = Blank, ic_position = LPPointZero, ic_visible = False\<rparr>"

definition OverlayDriver :: "LPVirtualScreen \<Rightarrow> overlay" where
  "OverlayDriver v =
     \<lparr>m_virtualScreen = v, m_overlayImages = [], m_overlayPoints = [], m_numOverlayPoints = 0,
      m_numOverlayImages = 0, m_filledImageIdx = 0, m_UseProceduralOverlay = True\<rparr>"

text \<open>
  \<open>icons\<close> is what \<open>icons.txt\<close> gives when it can be read (number of images, one-based index of the
  filled one), \<open>exists\<close> tells which image files are present.
\<close>

definition initializeOverlay :: "(int \<times> int) option \<Rightarrow> (nat \<Rightarrow> bool) \<Rightarrow> overlay \<Rightarrow> overlay" where
  "initializeOverlay icons file_exists ov =
     (let points = 32;
          (images, filled) =
            (if m_UseProceduralOverlay ov then (points, 0)
             else (case icons of None \<Rightarrow> (32, 24) | Some (n, k) \<Rightarrow> (n, k - 1)));
          filled' = (if filled \<ge> images then (if images > 0 then images - 1 else 0) else filled);
          mk = (\<lambda>i. if m_UseProceduralOverlay ov then Sized 100 100
                    else if file_exists (i + 1) then FromFile (i + 1) else Blank)
      in ov\<lparr>m_numOverlayPoints := points, m_numOverlayImages := images, m_filledImageIdx := filled',
            m_overlayPoints := m_overlayPoints ov @ replicate (nat points) new_icon,
            m_overlayImages := m_overlayImages ov @ map mk [0..<nat images]\<rparr>)"

section \<open>From device positions to the screen\<close>

definition acceptableClampDistance :: real where "acceptableClampDistance = 6 / 10"

definition toVector3 :: "vec \<Rightarrow> point" where "toVector3 v = [vx v, vy v, vz v]"

definition unitBox :: AxisAlignedBox where "unitBox = Box [0, 0, 0] [1, 1, 1]"

text \<open>Result, output position and clamp vector.\<close>

definition normalizedToAspect :: "overlay \<Rightarrow> vec \<Rightarrow> real \<Rightarrow> bool \<Rightarrow> bool \<times> vec \<times> vec" where
  "normalizedToAspect ov position scale clamp =
     (let y1 = (vy position - 1 / 2) * vs_AspectRatio (m_virtualScreen ov) + 1 / 2;
          x2 = scale * (vx position - 1 / 2) + 1 / 2;
          y2 = scale * (y1 - 1 / 2) + 1 / 2;
          z2 = scale * (vz position - 1 / 2) + 1 / 2;
          out = Vec x2 (1 - y2) z2;
          temp = ClosestPoint unitBox (toVector3 out);
          clampedPos = Vec (temp ! 0) (temp ! 1) (vz out);
          clampVec = clampedPos - out;
          isOkay = magnitude clampVec \<le> acceptableClampDistance
      in (isOkay, if clamp then clampedPos else out, clampVec))"

definition normalizedToScreen :: "overlay \<Rightarrow> vec \<Rightarrow> real \<Rightarrow> bool \<Rightarrow> bool \<times> vec \<times> vec" where
  "normalizedToScreen ov position scale clamp =
     (let (isOkay, out, clampVec) = normalizedToAspect ov position scale clamp;
          pos = Denormalize (LPPoint (vx out) (vy out)) True (m_virtualScreen ov);
          pos' = (if clamp then fst (ClipPosition pos (m_virtualScreen ov)) else pos)
      in (isOkay, Vec (px pos') (py pos') (vz out), clampVec))"

definition deviceToScreen :: "overlay \<Rightarrow> vec \<Rightarrow> real \<Rightarrow> bool \<Rightarrow> bool \<times> vec \<times> vec" where
  "deviceToScreen ov position scale clamp =
     (let fx = ((vx position - 0) + 200 / 2) / 200;
          fy = ((vy position - 200) + 200 / 2) / 200;
          fz = ((vz position - 0) + 200 / 2) / 200
      in normalizedToScreen ov (Vec fx fy fz) scale clamp)"

section \<open>Icons\<close>

definition touchDistanceToRadius :: "real \<Rightarrow> real" where
  "touchDistanceToRadius touchDistance = 40 * min (max touchDistance 0) (7 / 10) + 10"

definition setIconVisibility :: "int \<Rightarrow> bool \<Rightarrow> overlay \<Rightarrow> overlay" where
  "setIconVisibility index visible ov =
     (if index < 0 \<or> index \<ge> m_numOverlayPoints ov then ov
      else ov\<lparr>m_overlayPoints :=
             (m_overlayPoints ov)[nat index := (m_overlayPoints ov ! nat index)\<lparr>ic_visible := visible\<rparr>]\<rparr>)"

definition fmod1 :: "real \<Rightarrow> real" where "fmod1 x = x - of_int (trunc x)"

definition drawRasterIcon ::
  "int \<Rightarrow> real \<Rightarrow> real \<Rightarrow> bool \<Rightarrow> vec \<Rightarrow> real \<Rightarrow> real \<Rightarrow> real \<Rightarrow> real \<Rightarrow> overlay \<Rightarrow> overlay" where
  "drawRasterIcon iconIndex x y visible velocity touchDistance radius clampDistance alphaMult ov =
     (if iconIndex < 0 \<or> iconIndex \<ge> m_numOverlayPoints ov then ov
      else
        (let ov1 =
          (if visible then
             (let velNorm = sqrt (vx velocity * vx velocity + vy velocity * vy velocity);
                  a0 = min (1 - touchDistance * touchDistance) 1;
                  borderRadius = (if touchDistance < 0 then 2
                                  else min radius (25 / 10 + max 0 (15 - radius)));
                  glow = max (- touchDistance * 2) 0 + (if touchDistance < 0 then 3 else 1);
                  (r, g, b) = (if touchDistance < 0 then (100, 225, 100) else (255, 255, 255));
                  a = a0 * (1 - min 1 (clampDistance / acceptableClampDistance)) * alphaMult;
                  img = RasterCircle (fmod1 x, 1 - fmod1 y) (vx velocity, vy velocity) velNorm
                          radius borderRadius glow r g b a;
                  i = nat iconIndex
              in ov\<lparr>m_overlayImages := (m_overlayImages ov)[i := img],
                    m_overlayPoints := (m_overlayPoints ov)[i := (m_overlayPoints ov ! i)
                       \<lparr>ic_image := img, ic_position := LPPoint x y\<rparr>]\<rparr>)
           else ov)
         in setIconVisibility iconIndex visible ov1))"

definition findImageIndex :: "overlay \<Rightarrow> real \<Rightarrow> real \<Rightarrow> real \<Rightarrow> int" where
  "findImageIndex ov z touchThreshold touchRange =
     (if m_numOverlayImages ov > 0 then
        (let mn = touchThreshold - touchRange; mid = touchThreshold; mx = touchThreshold + touchRange in
         if z < mn then m_numOverlayImages ov - 1
         else if z \<ge> mn \<and> z < mid then
           m_filledImageIdx ov +
             trunc (of_int (m_numOverlayImages ov - m_filledImageIdx ov - 1) * (1 - (z - mn) / (mid - mn)))
         else if z \<ge> mid \<and> z < mx then
           trunc (of_int (m_filledImageIdx ov) * (1 - (z - mid) / (mx - mid)))
         else 0)
      else 0)"

definition drawImageIcon :: "int \<Rightarrow> int \<Rightarrow> real \<Rightarrow> real \<Rightarrow> bool \<Rightarrow> overlay \<Rightarrow> overlay" where
  "drawImageIcon iconIndex imageIndex x y visible ov =
     (if iconIndex < 0 \<or> iconIndex \<ge> m_numOverlayPoints ov \<or> imageIndex < 0 \<or>
         imageIndex \<ge> m_numOverlayImages ov then ov
      else
        (let i = nat iconIndex in
         setIconVisibility iconIndex visible
           (ov\<lparr>m_overlayPoints := (m_overlayPoints ov)[i := (m_overlayPoints ov ! i)
                \<lparr>ic_image := m_overlayImages ov ! nat imageIndex, ic_position := LPPoint x y\<rparr>]\<rparr>)))"

section \<open>Well-formed drivers\<close>

text \<open>After initialisation the index bounds the guards use are those of the vectors.\<close>

definition overlay_ok :: "overlay \<Rightarrow> bool" where
  "overlay_ok ov \<longleftrightarrow>
     m_numOverlayPoints ov = int (length (m_overlayPoints ov)) \<and>
     m_numOverlayImages ov = int (length (m_overlayImages ov)) \<and>
     0 \<le> m_filledImageIdx ov \<and>
     (0 < m_numOverlayImages ov \<longrightarrow> m_filledImageIdx ov < m_numOverlayImages ov)"

lemma overlay_ok_init: "overlay_ok (initializeOverlay icons ex (OverlayDriver v))"
  by (simp add: overlay_ok_def initializeOverlay_def OverlayDriver_def)

lemma overlay_ok_setIconVisibility: "overlay_ok ov \<Longrightarrow> overlay_ok (setIconVisibility i b ov)"
  by (auto simp: overlay_ok_def setIconVisibility_def)

lemma overlay_ok_drawRasterIcon:
  "overlay_ok ov \<Longrightarrow> overlay_ok (drawRasterIcon i x y b v t r c a ov)"
  unfolding drawRasterIcon_def
  by (auto simp: Let_def overlay_ok_def setIconVisibility_def split: prod.split)

lemma overlay_ok_drawImageIcon: "overlay_ok ov \<Longrightarrow> overlay_ok (drawImageIcon i j x y b ov)"
  unfolding drawImageIcon_def
  by (auto simp: Let_def overlay_ok_def setIconVisibility_def)

lemma trunc_scaled:
  assumes "0 \<le> (n::int)" "0 \<le> a" "a \<le> 1"
  shows "0 \<le> trunc (of_int n * a) \<and> trunc (of_int n * a) \<le> n"
proof -
  have "0 \<le> of_int n * a" "of_int n * a \<le> of_int n"
    using assms by (auto simp: mult_left_le)
  then show ?thesis by (simp add: trunc_def floor_le_iff le_floor_iff)
qed

lemma findImageIndex_in_range:
  assumes ok: "overlay_ok ov" and n: "0 < m_numOverlayImages ov" and r: "0 < rg"
  shows "0 \<le> findImageIndex ov z thr rg \<and> findImageIndex ov z thr rg < m_numOverlayImages ov"
proof -
  let ?n = "m_numOverlayImages ov" and ?k = "m_filledImageIdx ov"
  have k: "0 \<le> ?k" "?k < ?n" using ok n by (auto simp: overlay_ok_def)
  have lower: "0 \<le> 1 - (z - (thr - rg)) / rg \<and> 1 - (z - (thr - rg)) / rg \<le> 1"
    if "thr - rg \<le> z" "z < thr"
    using that r by (simp add: field_simps)
  have upper: "0 \<le> 1 - (z - thr) / rg \<and> 1 - (z - thr) / rg \<le> 1"
    if "thr \<le> z" "z < thr + rg"
    using that r by (simp add: field_simps)
  show ?thesis
    using k n lower upper trunc_scaled [of "?n - ?k - 1" "1 - (z - (thr - rg)) / rg"]
      trunc_scaled [of ?k "1 - (z - thr) / rg"]
    by (auto simp: findImageIndex_def Let_def)
qed

section \<open>Clamping\<close>

lemma unitBox_simps:
  "ClosestPoint unitBox (toVector3 v) = [min (max (vx v) 0) 1, min (max (vy v) 0) 1, min (max (vz v) 0) 1]"
  by (simp add: ClosestPoint_def unitBox_def Box_def toVector3_def)

lemma normalizedToAspect_clamped:
  assumes "normalizedToAspect ov p s True = (ok, out, cv)"
  shows "0 \<le> vx out" "vx out \<le> 1" "0 \<le> vy out" "vy out \<le> 1" "vz cv = 0"
  using assms by (auto simp: normalizedToAspect_def Let_def unitBox_simps)

lemma normalizedToAspect_inside:
  "normalizedToAspect ov p s c = (ok, out, cv) \<Longrightarrow> cv = 0 \<Longrightarrow>
   ok \<and> out = fst (snd (normalizedToAspect ov p s False))"
  by (auto simp: normalizedToAspect_def Let_def magnitude_def magnitudeSquared_def dot_def
      acceptableClampDistance_def)

lemma normalizedToScreen_on_screen:
  assumes "vs_ok (m_virtualScreen ov)" "normalizedToScreen ov p s True = (ok, out, cv)"
  shows "on_screen (m_virtualScreen ov) (LPPoint (vx out) (vy out))"
  using assms ClipPosition_on_screen
  by (auto simp: normalizedToScreen_def Let_def split: prod.splits)

end
