(* ===== verification/Delta_Tracker.thy ===== *)
theory Delta_Tracker
  imports Vec
begin

text \<open>
  \<open>source/Utility/PositionalDeltaTracker.cpp\<close>: keeps the tracked position continuous when the
  source of the position switches between a palm and a fingertip. Identifiers are \<open>int32_t\<close>; only
  equality and -1 matter, so they are integers. A hand reports the pointable id -1.
\<close>

record tracker =
  m_handId :: int
  m_pointableId :: int
  m_delta :: vec
  m_position :: vec

definition tr_clear :: tracker where
  "tr_clear = \<lparr>m_handId = -1, m_pointableId = -1, m_delta = 0, m_position = 0\<rparr>"

definition accumulateDelta :: "int \<Rightarrow> int \<Rightarrow> tracker \<Rightarrow> bool" where
  "accumulateDelta handId pointableId t =
     (if handId = -1 \<or> m_handId t = -1 then False
      else if handId \<noteq> m_handId t then True
      else if pointableId \<noteq> m_pointableId t then True
      else False)"

definition setPosition :: "int \<Rightarrow> int \<Rightarrow> vec \<Rightarrow> tracker \<Rightarrow> tracker" where
  "setPosition handId pointableId position t =
     (if m_handId t = -1 \<and> m_pointableId t = -1
      then \<lparr>m_handId = handId, m_pointableId = pointableId, m_delta = 0, m_position = position\<rparr>
      else
        (let t1 = (if accumulateDelta handId pointableId t
                   then t\<lparr>m_delta := m_position t + m_delta t - position\<rparr> else t)
         in t1\<lparr>m_handId := handId, m_pointableId := pointableId, m_position := position\<rparr>))"

definition getTrackedPosition :: "tracker \<Rightarrow> vec" where
  "getTrackedPosition t = m_position t + m_delta t"

lemma tracked_after_clear: "getTrackedPosition (setPosition h p v tr_clear) = v"
  by (simp add: setPosition_def tr_clear_def getTrackedPosition_def)

lemma tracked_when_switching:
  "accumulateDelta h p t \<Longrightarrow> getTrackedPosition (setPosition h p v t) = getTrackedPosition t"
  by (auto simp: setPosition_def getTrackedPosition_def accumulateDelta_def Let_def)

lemma tracked_when_not_switching:
  "\<not> accumulateDelta h p t \<Longrightarrow> \<not> (m_handId t = -1 \<and> m_pointableId t = -1) \<Longrightarrow>
   getTrackedPosition (setPosition h p v t) = getTrackedPosition t + (v - m_position t)"
  unfolding setPosition_def getTrackedPosition_def Let_def by (simp only: if_False tracker.simps) simp

end
