(* ===== verification/Touches.thy ===== *)
theory Touches
  imports Prelude
begin

text \<open>
  \<open>source/OSInteraction/Touch.h\<close> and \<open>TouchManager.cpp\<close>: a touch point, the ordered set of touch
  points of a frame, and the manager that turns successive sets into add, update and remove
  calls of a platform back end. A \<open>std::set<Touch>\<close> is ordered by the touch id alone, so it is a
  list with strictly increasing ids; inserting a touch whose id is present changes nothing.
\<close>

section \<open>Touch points and sets of them\<close>

record Touch =
  t_id :: u32
  t_frameId :: u32
  t_x :: real
  t_y :: real
  t_touching :: bool

definition mk_Touch :: "u32 \<Rightarrow> u32 \<Rightarrow> real \<Rightarrow> real \<Rightarrow> bool \<Rightarrow> Touch" where
  "mk_Touch i f x y b = \<lparr>t_id = i, t_frameId = f, t_x = x, t_y = y, t_touching = b\<rparr>"

definition setPos :: "real \<Rightarrow> real \<Rightarrow> Touch \<Rightarrow> Touch" where
  "setPos x y t = t\<lparr>t_x := x, t_y := y\<rparr>"

type_synonym touches = "Touch list"

definition touches_ok :: "touches \<Rightarrow> bool" where
  "touches_ok ts \<longleftrightarrow> sorted_wrt (<) (map t_id ts)"

fun insert_touch :: "Touch \<Rightarrow> touches \<Rightarrow> touches" where
  "insert_touch t [] = [t]"
| "insert_touch t (s # ss) =
     (if t_id t < t_id s then t # s # ss
      else if t_id t = t_id s then s # ss
      else s # insert_touch t ss)"

definition find_touch :: "u32 \<Rightarrow> touches \<Rightarrow> Touch option" where
  "find_touch i ts = find (\<lambda>s. t_id s = i) ts"

definition erase_touch :: "u32 \<Rightarrow> touches \<Rightarrow> touches" where
  "erase_touch i ts = filter (\<lambda>s. t_id s \<noteq> i) ts"

definition clearTouchPoints :: "touches \<Rightarrow> touches" where
  "clearTouchPoints ts = []"

text \<open>\<open>removeTouchPoint\<close> copies the first element, so it is undefined on an empty event.\<close>

definition removeTouchPoint :: "u32 \<Rightarrow> touches \<Rightarrow> touches option" where
  "removeTouchPoint i ts = (case ts of [] \<Rightarrow> None | t # _ \<Rightarrow> Some (erase_touch (t_id (t\<lparr>t_id := i\<rparr>)) ts))"

definition addTouchPoint :: "u32 \<Rightarrow> u32 \<Rightarrow> real \<Rightarrow> real \<Rightarrow> bool \<Rightarrow> touches \<Rightarrow> touches" where
  "addTouchPoint i f x y b ts = insert_touch (mk_Touch i f x y b) ts"

lemma touches_ok_simps [simp]:
  "touches_ok []"
  "touches_ok (t # ts) \<longleftrightarrow> (\<forall>s\<in>set ts. t_id t < t_id s) \<and> touches_ok ts"
  by (auto simp: touches_ok_def)

lemma set_insert_touch:
  "set (insert_touch t ts) \<subseteq> insert t (set ts)" "set ts \<subseteq> set (insert_touch t ts)"
  by (induction ts) auto

lemma ids_insert_touch: "t_id ` set (insert_touch t ts) = insert (t_id t) (t_id ` set ts)"
  by (induction ts) auto

lemma touches_ok_insert [intro]: "touches_ok ts \<Longrightarrow> touches_ok (insert_touch t ts)"
proof (induction ts)
  case (Cons s ss)
  then show ?case using set_insert_touch(1) [of t ss] by fastforce
qed simp

lemma touches_ok_erase [intro]: "touches_ok ts \<Longrightarrow> touches_ok (erase_touch i ts)"
  by (induction ts) (auto simp: erase_touch_def)

lemma ids_erase_touch: "t_id ` set (erase_touch i ts) = t_id ` set ts - {i}"
  by (auto simp: erase_touch_def)

lemma touches_ok_insert_iff [simp]: "touches_ok (insert_touch t ts) \<longleftrightarrow> touches_ok ts"
proof
  show "touches_ok (insert_touch t ts) \<Longrightarrow> touches_ok ts"
  proof (induction ts)
    case (Cons s ss)
    then show ?case using set_insert_touch(2) [of ss t] by (auto split: if_splits)
  qed simp
qed auto

lemma touches_ok_addTouchPoint: "touches_ok ts \<Longrightarrow> touches_ok (addTouchPoint i f x y b ts)"
  by (auto simp: addTouchPoint_def)

lemma touches_unique:
  "touches_ok ts \<Longrightarrow> s \<in> set ts \<Longrightarrow> t \<in> set ts \<Longrightarrow> t_id s = t_id t \<Longrightarrow> s = t"
  by (induction ts) auto

lemma find_touch_None: "find_touch i ts = None \<longleftrightarrow> i \<notin> t_id ` set ts"
  by (auto simp: find_touch_def find_None_iff)

lemma find_touch_Some: "touches_ok ts \<Longrightarrow> find_touch i ts = Some t \<longleftrightarrow> t \<in> set ts \<and> t_id t = i"
proof (induction ts)
  case (Cons s ss)
  then show ?case by (auto simp: find_touch_def)
qed (simp add: find_touch_def)

lemma touches_eqI:
  "touches_ok xs \<Longrightarrow> touches_ok ys \<Longrightarrow> set xs = set ys \<Longrightarrow> xs = ys"
proof (induction xs arbitrary: ys)
  case (Cons x xs)
  then obtain y ys' where y: "ys = y # ys'" by (cases ys) auto
  have "x = y"
  proof (rule ccontr)
    assume "x \<noteq> y"
    with Cons.prems y have "x \<in> set ys'" "y \<in> set xs" by auto
    with Cons.prems y show False by fastforce
  qed
  moreover have "set xs = set ys'"
    using Cons.prems y \<open>x = y\<close> by (auto; fastforce)
  ultimately show ?case using Cons y by auto
qed auto

section \<open>The touch manager\<close>

text \<open>
  The virtual members of a back end whose own state is \<open>'d\<close>, and the manager's template method.
\<close>

record 'd touch_backend =
  AddTouch :: "Touch \<Rightarrow> 'd \<Rightarrow> 'd"
  UpdateTouch :: "Touch \<Rightarrow> Touch \<Rightarrow> 'd \<Rightarrow> 'd"
  RemoveTouch :: "Touch \<Rightarrow> 'd \<Rightarrow> 'd"
  FinishFrame :: "'d \<Rightarrow> 'd"
  OnRemoveAllTouches :: "'d \<Rightarrow> 'd"

type_synonym 'd touch_manager = "touches \<times> 'd"

fun remove_missing ::
  "'d touch_backend \<Rightarrow> touches \<Rightarrow> touches \<Rightarrow> 'd touch_manager \<Rightarrow> 'd touch_manager" where
  "remove_missing B new [] m = m"
| "remove_missing B new (prior # rest) (ts, d) =
     (if find_touch (t_id prior) new = None
      then remove_missing B new rest (erase_touch (t_id prior) ts, RemoveTouch B prior d)
      else remove_missing B new rest (ts, d))"

fun add_or_update :: "'d touch_backend \<Rightarrow> touches \<Rightarrow> 'd touch_manager \<Rightarrow> 'd touch_manager" where
  "add_or_update B [] m = m"
| "add_or_update B (n # ns) (ts, d) =
     (case find_touch (t_id n) ts of
        None \<Rightarrow> add_or_update B ns (insert_touch n ts, AddTouch B n d)
      | Some prior \<Rightarrow>
          add_or_update B ns (insert_touch n (erase_touch (t_id n) ts), UpdateTouch B prior n d))"

definition setTouches :: "'d touch_backend \<Rightarrow> touches \<Rightarrow> 'd touch_manager \<Rightarrow> 'd touch_manager" where
  "setTouches B new m =
     (let (ts, d) = add_or_update B new (remove_missing B new (fst m) m);
          d1 = FinishFrame B d
      in (ts, if ts = [] then OnRemoveAllTouches B d1 else d1))"

definition clearTouches :: "'d touch_backend \<Rightarrow> 'd touch_manager \<Rightarrow> 'd touch_manager" where
  "clearTouches B m = (if fst m \<noteq> [] then setTouches B [] m else m)"

section \<open>The back end sees exactly the difference of the two sets\<close>

definition removals :: "'d touch_backend \<Rightarrow> touches \<Rightarrow> touches \<Rightarrow> 'd \<Rightarrow> 'd" where
  "removals B new old = fold (RemoveTouch B) (filter (\<lambda>p. find_touch (t_id p) new = None) old)"

definition arrivals :: "'d touch_backend \<Rightarrow> touches \<Rightarrow> touches \<Rightarrow> 'd \<Rightarrow> 'd" where
  "arrivals B old = fold (\<lambda>n. case find_touch (t_id n) old of
       None \<Rightarrow> AddTouch B n | Some p \<Rightarrow> UpdateTouch B p n)"

lemma remove_missing_eq:
  "remove_missing B new ps (ts, d) =
     (filter (\<lambda>t. \<not> (t_id t \<in> t_id ` set ps \<and> find_touch (t_id t) new = None)) ts, removals B new ps d)"
proof (induction ps arbitrary: ts d)
  case (Cons p ps)
  then show ?case
    by (auto simp: removals_def erase_touch_def intro!: filter_cong)
qed (simp add: removals_def)

lemma find_after_replace:
  "i \<noteq> t_id n \<Longrightarrow> touches_ok ts \<Longrightarrow> find_touch i (insert_touch n (erase_touch (t_id n) ts)) = find_touch i ts"
  "i \<noteq> t_id n \<Longrightarrow> touches_ok ts \<Longrightarrow> find_touch i (insert_touch n ts) = find_touch i ts"
proof -
  show a: "i \<noteq> t_id n \<Longrightarrow> touches_ok ts \<Longrightarrow> find_touch i (insert_touch n ts) = find_touch i ts" for ts
    by (induction ts) (auto simp: find_touch_def)
  assume i: "i \<noteq> t_id n" and ok: "touches_ok ts"
  have "find_touch i (erase_touch (t_id n) ts) = find_touch i ts"
    using i by (induction ts) (auto simp: find_touch_def erase_touch_def)
  then show "find_touch i (insert_touch n (erase_touch (t_id n) ts)) = find_touch i ts"
    using a [OF i touches_ok_erase [OF ok]] by simp
qed

lemma set_replace:
  "touches_ok ts \<Longrightarrow>
   set (insert_touch n (erase_touch (t_id n) ts)) = insert n {t \<in> set ts. t_id t \<noteq> t_id n}"
proof (induction ts)
  case (Cons s ss)
  then show ?case
    by (cases "t_id s = t_id n") (auto simp: erase_touch_def)
qed (simp add: erase_touch_def)

lemma erase_absent: "t_id n \<notin> t_id ` set ts \<Longrightarrow> erase_touch (t_id n) ts = ts"
  by (induction ts) (auto simp: erase_touch_def)

lemma add_or_update_eq:
  assumes "touches_ok ts" "touches_ok ns"
  shows "snd (add_or_update B ns (ts, d)) = arrivals B ts ns d"
    and "touches_ok (fst (add_or_update B ns (ts, d)))"
    and "set (fst (add_or_update B ns (ts, d))) =
           set ns \<union> {t \<in> set ts. t_id t \<notin> t_id ` set ns}"
proof -
  have "snd (add_or_update B ns (ts, d)) = arrivals B ts ns d
    \<and> touches_ok (fst (add_or_update B ns (ts, d)))
    \<and> set (fst (add_or_update B ns (ts, d))) = set ns \<union> {t \<in> set ts. t_id t \<notin> t_id ` set ns}"
    using assms
  proof (induction ns arbitrary: ts d)
    case Nil
    then show ?case by (simp add: arrivals_def)
  next
    case (Cons n ns)
    let ?ts = "insert_touch n (erase_touch (t_id n) ts)"
    have step: "add_or_update B (n # ns) (ts, d) = add_or_update B ns
        (?ts, case find_touch (t_id n) ts of None \<Rightarrow> AddTouch B n d | Some p \<Rightarrow> UpdateTouch B p n d)"
      by (cases "find_touch (t_id n) ts")
        (auto simp: erase_absent [OF find_touch_None [THEN iffD1]])
    have ok: "touches_ok ?ts" "touches_ok ns" using Cons.prems by auto
    have diff: "t_id m \<noteq> t_id n" if "m \<in> set ns" for m using Cons.prems that by fastforce
    have fnd: "arrivals B ?ts ns e = arrivals B ts ns e" for e
      unfolding arrivals_def
      by (rule fold_cong) (auto simp: find_after_replace(1) [OF diff Cons.prems(1)])
    show ?case
      unfolding step using Cons.IH [OF ok] fnd set_replace [OF Cons.prems(1), of n] diff
      by (auto simp: arrivals_def split: option.splits; blast)
  qed
  then show "snd (add_or_update B ns (ts, d)) = arrivals B ts ns d"
    and "touches_ok (fst (add_or_update B ns (ts, d)))"
    and "set (fst (add_or_update B ns (ts, d))) =
           set ns \<union> {t \<in> set ts. t_id t \<notin> t_id ` set ns}" by blast+
qed

lemma touches_ok_filter: "touches_ok ts \<Longrightarrow> touches_ok (filter P ts)"
  by (induction ts) auto

lemma arrivals_filtered:
  assumes "touches_ok old" "touches_ok new"
  shows "arrivals B (filter (\<lambda>t. find_touch (t_id t) new \<noteq> None) old) new = arrivals B old new"
proof -
  have "find_touch (t_id n) (filter (\<lambda>t. find_touch (t_id t) new \<noteq> None) old) = find_touch (t_id n) old"
    if "n \<in> set new" for n
  proof -
    have "find_touch (t_id n) new \<noteq> None" using that by (auto simp: find_touch_None)
    then show ?thesis by (induction old) (auto simp: find_touch_def)
  qed
  then show ?thesis unfolding arrivals_def by (intro ext fold_cong) auto
qed

lemma setTouches_eq:
  assumes "touches_ok old" "touches_ok new"
  shows "setTouches B new (old, d) =
    (new, (if new = [] then OnRemoveAllTouches B else id)
            (FinishFrame B (arrivals B old new (removals B new old d))))"
proof -
  let ?kept = "filter (\<lambda>t. find_touch (t_id t) new \<noteq> None) old"
  have rm: "remove_missing B new old (old, d) = (?kept, removals B new old d)"
    unfolding remove_missing_eq by (auto intro!: filter_cong)
  note k = add_or_update_eq [OF touches_ok_filter [OF assms(1)] assms(2), of B]
  have "set (fst (add_or_update B new (?kept, removals B new old d))) = set new"
    unfolding k(3) by (auto simp: find_touch_None)
  then have "fst (add_or_update B new (?kept, removals B new old d)) = new"
    using k(2) assms(2) by (intro touches_eqI)
  moreover have "snd (add_or_update B new (?kept, removals B new old d)) = arrivals B old new (removals B new old d)"
    unfolding k(1) arrivals_filtered [OF assms] ..
  ultimately have "add_or_update B new (?kept, removals B new old d)
      = (new, arrivals B old new (removals B new old d))"
    by (metis prod.collapse)
  then show ?thesis unfolding setTouches_def rm fst_conv by simp
qed

section \<open>The contract of a back end\<close>

text \<open>
  What the manager needs from a concrete class: a relation between the touches it manages and the
  class's own state that each virtual member keeps, called the way the manager calls it, for
  touches whose ids are allowed. The manager then keeps the relation over a whole frame.
\<close>

locale touch_provider =
  fixes B :: "'d touch_backend"
    and A :: "u32 set"
    and inv :: "touches \<Rightarrow> 'd \<Rightarrow> bool"
  assumes add_inv:
      "inv ts d \<Longrightarrow> touches_ok ts \<Longrightarrow> t_id ` set ts \<subseteq> A \<Longrightarrow> t_id t \<in> A \<Longrightarrow>
       t_id t \<notin> t_id ` set ts \<Longrightarrow> inv (insert_touch t ts) (AddTouch B t d)"
    and update_inv:
      "inv ts d \<Longrightarrow> touches_ok ts \<Longrightarrow> t_id ` set ts \<subseteq> A \<Longrightarrow>
       p \<in> set ts \<Longrightarrow> t_id p = t_id t \<Longrightarrow>
       inv (insert_touch t (erase_touch (t_id t) ts)) (UpdateTouch B p t d)"
    and remove_inv:
      "inv ts d \<Longrightarrow> touches_ok ts \<Longrightarrow> t_id ` set ts \<subseteq> A \<Longrightarrow> t \<in> set ts \<Longrightarrow>
       inv (erase_touch (t_id t) ts) (RemoveTouch B t d)"
    and finish_inv: "inv ts d \<Longrightarrow> inv ts (FinishFrame B d)"
    and drained_inv: "inv [] d \<Longrightarrow> inv [] (OnRemoveAllTouches B d)"
begin

definition managed :: "'d touch_manager \<Rightarrow> bool" where
  "managed m \<longleftrightarrow> inv (fst m) (snd m) \<and> touches_ok (fst m) \<and> t_id ` set (fst m) \<subseteq> A"

lemma remove_missing_managed:
  "managed m \<Longrightarrow> touches_ok ps \<Longrightarrow> set ps \<subseteq> set (fst m) \<Longrightarrow> managed (remove_missing B new ps m)"
proof (induction ps arbitrary: m)
  case (Cons p ps)
  obtain ts d where m: "m = (ts, d)" by (cases m)
  have er: "managed (erase_touch (t_id p) ts, RemoveTouch B p d)"
    using Cons.prems m ids_erase_touch [of "t_id p" ts]
    by (auto simp: managed_def remove_inv touches_ok_erase simp del: image_subset_iff)
  have sub: "set ps \<subseteq> set (erase_touch (t_id p) ts)"
    using Cons.prems m by (fastforce simp: erase_touch_def)
  from Cons.prems m have "managed (remove_missing B new ps (ts, d))"
    by (intro Cons.IH) auto
  moreover from Cons.prems er sub have
    "managed (remove_missing B new ps (erase_touch (t_id p) ts, RemoveTouch B p d))"
    by (intro Cons.IH) auto
  ultimately show ?case by (simp add: m)
qed simp

lemma add_or_update_managed:
  "managed m \<Longrightarrow> t_id ` set ns \<subseteq> A \<Longrightarrow> managed (add_or_update B ns m)"
proof (induction ns arbitrary: m)
  case (Cons n ns)
  obtain ts d where m: "m = (ts, d)" by (cases m)
  show ?case
  proof (cases "find_touch (t_id n) ts")
    case None
    have "managed (insert_touch n ts, AddTouch B n d)"
      using Cons.prems m None
      by (auto simp: managed_def add_inv find_touch_None ids_insert_touch simp del: image_subset_iff)
    then show ?thesis using Cons m None by simp
  next
    case (Some q)
    then have q: "q \<in> set ts" "t_id q = t_id n"
      using Cons.prems m find_touch_Some [of ts "t_id n" q] by (auto simp: managed_def)
    have "managed (insert_touch n (erase_touch (t_id n) ts), UpdateTouch B q n d)"
      using Cons.prems m q
      by (auto simp: managed_def update_inv set_replace)
    then show ?thesis using Cons m Some by simp
  qed
qed simp

lemma setTouches_managed:
  assumes "managed m" "touches_ok new" "t_id ` set new \<subseteq> A"
  shows "managed (setTouches B new m)"
proof -
  have "managed (add_or_update B new (remove_missing B new (fst m) m))"
    using assms by (intro add_or_update_managed remove_missing_managed) (auto simp: managed_def)
  then show ?thesis
    by (auto simp: setTouches_def Let_def managed_def finish_inv drained_inv split: prod.split)
qed

end

end
