(* ===== verification/Leap_Api.thy ===== *)
theory Leap_Api
  imports Overlay_Driver Delta_Tracker Touches
begin

text \<open>
  What the gesture modes call. The Leap SDK is outside the repository: it is a record of functions
  over the types of frames, hands and pointables, with the methods the code uses; a look-up by id
  returns an object that may be invalid, as documented. The operating system driver's queries are
  further members of that record, and so are the overlay driver (its virtual screen and image
  counts do not change while a frame is processed) and the platform that selects the \<open>#if\<close>
  branches. The calls that have an effect outside the manager are recorded, in order, as actions.
\<close>

section \<open>The SDK\<close>

datatype zone = ZONE_NONE | ZONE_HOVERING | ZONE_TOUCHING

primrec zone_nat :: "zone \<Rightarrow> nat" where
  "zone_nat ZONE_NONE = 0" | "zone_nat ZONE_HOVERING = 1" | "zone_nat ZONE_TOUCHING = 2"

lemma zone_nat_inj: "zone_nat a = zone_nat b \<Longrightarrow> a = b"
  by (cases a; cases b) auto

instantiation zone :: linorder
begin

definition less_eq_zone_def: "a \<le> b \<longleftrightarrow> zone_nat a \<le> zone_nat b"
definition less_zone_def: "a < b \<longleftrightarrow> zone_nat a < zone_nat b"

instance
  by standard (auto simp: less_eq_zone_def less_zone_def dest: zone_nat_inj)

end

datatype platform = Windows | Apple | Linux

text \<open>\<open>UseMouseOutput\<close> of the modes: false exactly on Windows.\<close>

definition mouse_output :: "platform \<Rightarrow> bool" where
  "mouse_output p = (case p of Windows \<Rightarrow> False | _ \<Rightarrow> True)"

record ('f, 'h, 'p) leap =
  fr_timestamp :: "'f \<Rightarrow> int"
  fr_valid :: "'f \<Rightarrow> bool"
  fr_hands :: "'f \<Rightarrow> 'h list"
  fr_pointables :: "'f \<Rightarrow> 'p list"
  fr_hand :: "'f \<Rightarrow> int \<Rightarrow> 'h"
  fr_pointable :: "'f \<Rightarrow> int \<Rightarrow> 'p"
  fr_normalizePoint :: "'f \<Rightarrow> vec \<Rightarrow> bool \<Rightarrow> vec"
  fr_translation :: "'f \<Rightarrow> 'f \<Rightarrow> vec"
  fr_rotationProbability :: "'f \<Rightarrow> 'f \<Rightarrow> real"
  fr_translationProbability :: "'f \<Rightarrow> 'f \<Rightarrow> real"
  fr_scaleProbability :: "'f \<Rightarrow> 'f \<Rightarrow> real"
  fr_rotationAngleZ :: "'f \<Rightarrow> 'f \<Rightarrow> real"
  fr_scaleFactor :: "'f \<Rightarrow> 'f \<Rightarrow> real"
  invalid_frame :: 'f
  invalid_hand :: 'h
  invalid_pointable :: 'p
  h_id :: "'h \<Rightarrow> int"
  h_valid :: "'h \<Rightarrow> bool"
  h_pointables :: "'h \<Rightarrow> 'p list"
  h_direction :: "'h \<Rightarrow> vec"
  h_palmNormal :: "'h \<Rightarrow> vec"
  h_palmPosition :: "'h \<Rightarrow> vec"
  h_palmVelocity :: "'h \<Rightarrow> vec"
  h_stabilizedPalmPosition :: "'h \<Rightarrow> vec"
  h_timeVisible :: "'h \<Rightarrow> real"
  h_frame_id :: "'h \<Rightarrow> int"
  p_id :: "'p \<Rightarrow> int"
  p_valid :: "'p \<Rightarrow> bool"
  p_hand :: "'p \<Rightarrow> 'h"
  p_touchZone :: "'p \<Rightarrow> zone"
  p_touchDistance :: "'p \<Rightarrow> real"
  p_direction :: "'p \<Rightarrow> vec"
  p_tipPosition :: "'p \<Rightarrow> vec"
  p_stabilizedTipPosition :: "'p \<Rightarrow> vec"
  p_tipVelocity :: "'p \<Rightarrow> vec"
  p_timeVisible :: "'p \<Rightarrow> real"
  p_frame_id :: "'p \<Rightarrow> int"

record ('f, 'h, 'p) env = "('f, 'h, 'p) leap" +
  e_platform :: platform
  e_overlay :: overlay
  e_touchAvailable :: bool
  e_touchVersion :: int
  e_useCharmHelper :: bool

abbreviation UseMouseOutput :: "('f, 'h, 'p, 'm) env_scheme \<Rightarrow> bool" where
  "UseMouseOutput L \<equiv> mouse_output (e_platform L)"

text \<open>
  What the SDK documents of ids: valid hands and pointables have nonnegative ids, an invalid one
  has id -1, and a look-up returns the object with that id or an invalid one.
\<close>

definition sdk_ids :: "('f, 'h, 'p, 'm) env_scheme \<Rightarrow> bool" where
  "sdk_ids L \<longleftrightarrow>
     (\<forall>h. h_valid L h \<longleftrightarrow> 0 \<le> h_id L h) \<and> (\<forall>p. p_valid L p \<longleftrightarrow> 0 \<le> p_id L p) \<and>
     (\<forall>f i. h_valid L (fr_hand L f i) \<longrightarrow> h_id L (fr_hand L f i) = i) \<and>
     (\<forall>f i. p_valid L (fr_pointable L f i) \<longrightarrow> p_id L (fr_pointable L f i) = i)"

text \<open>A pointable of a frame that has a hand has one the same frame knows.\<close>

definition sdk_hands :: "('f, 'h, 'p, 'm) env_scheme \<Rightarrow> bool" where
  "sdk_hands L \<longleftrightarrow>
     (\<forall>f i. 0 \<le> h_id L (p_hand L (fr_pointable L f i)) \<longrightarrow>
        h_valid L (fr_hand L f (h_id L (p_hand L (fr_pointable L f i)))))"

section \<open>Actions\<close>

datatype action =
    SetCursorPosition real real bool
  | ClickDown int int
  | ClickUp int int
  | BeginGesture u32
  | EndGesture
  | ApplyZoom real
  | ApplyRotation real
  | ApplyScroll real real int
  | ApplyDesktopSwipe real real
  | ApplyCharms vec int int
  | EmitTouchEvent touches
  | SetIconVisibility int bool
  | DrawRasterIcon int real real bool vec real real real real
  | DrawImageIcon int int real real bool
  | FlushOverlay

abbreviation GestureNone :: u32 where "GestureNone \<equiv> 0"
abbreviation GestureScroll :: u32 where "GestureScroll \<equiv> 1"
abbreviation GestureZoom :: u32 where "GestureZoom \<equiv> 2"
abbreviation GestureRotate :: u32 where "GestureRotate \<equiv> 3"
abbreviation GestureDesktopSwipeHorizontal :: u32 where "GestureDesktopSwipeHorizontal \<equiv> 4"
abbreviation GestureDesktopSwipeVertical :: u32 where "GestureDesktopSwipeVertical \<equiv> 5"

primrec is_button :: "action \<Rightarrow> bool" where
  "is_button (ClickDown b n) = True" | "is_button (ClickUp b n) = True"
| "is_button (SetCursorPosition x y a) = False" | "is_button (BeginGesture t) = False"
| "is_button EndGesture = False" | "is_button (ApplyZoom z) = False"
| "is_button (ApplyRotation r) = False" | "is_button (ApplyScroll dx dy t) = False"
| "is_button (ApplyDesktopSwipe dx dy) = False" | "is_button (ApplyCharms v n c) = False"
| "is_button (EmitTouchEvent ts) = False" | "is_button (SetIconVisibility i v) = False"
| "is_button (DrawRasterIcon i x y v w d r c a) = False"
| "is_button (DrawImageIcon i j x y v) = False" | "is_button FlushOverlay = False"

primrec is_gesture :: "action \<Rightarrow> bool" where
  "is_gesture (BeginGesture t) = True" | "is_gesture EndGesture = True"
| "is_gesture (ApplyZoom z) = True" | "is_gesture (ApplyRotation r) = True"
| "is_gesture (ApplyScroll dx dy t) = True" | "is_gesture (ApplyDesktopSwipe dx dy) = True"
| "is_gesture (ClickDown b n) = False" | "is_gesture (ClickUp b n) = False"
| "is_gesture (SetCursorPosition x y a) = False" | "is_gesture (ApplyCharms v n c) = False"
| "is_gesture (EmitTouchEvent ts) = False" | "is_gesture (SetIconVisibility i v) = False"
| "is_gesture (DrawRasterIcon i x y v w d r c a) = False"
| "is_gesture (DrawImageIcon i j x y v) = False" | "is_gesture FlushOverlay = False"

primrec is_drawing :: "action \<Rightarrow> bool" where
  "is_drawing (SetIconVisibility i v) = True"
| "is_drawing (DrawRasterIcon i x y v w d r c a) = True"
| "is_drawing (DrawImageIcon i j x y v) = True" | "is_drawing FlushOverlay = True"
| "is_drawing (ClickDown b n) = False" | "is_drawing (ClickUp b n) = False"
| "is_drawing (SetCursorPosition x y a) = False" | "is_drawing (BeginGesture t) = False"
| "is_drawing EndGesture = False" | "is_drawing (ApplyZoom z) = False"
| "is_drawing (ApplyRotation r) = False" | "is_drawing (ApplyScroll dx dy t) = False"
| "is_drawing (ApplyDesktopSwipe dx dy) = False" | "is_drawing (ApplyCharms v n c) = False"
| "is_drawing (EmitTouchEvent ts) = False"

section \<open>The two bracketing protocols\<close>

text \<open>
  A button is pressed only when it is up and released only when it is down: the monitor's state
  is whether it is down, and a broken protocol is \<open>None\<close>. A release without a press is broken.
\<close>

definition button_step :: "action \<Rightarrow> bool option \<Rightarrow> bool option" where
  "button_step a d = (case d of None \<Rightarrow> None | Some down \<Rightarrow>
     (case a of ClickDown b n \<Rightarrow> if down then None else Some True
              | ClickUp b n \<Rightarrow> if down then Some False else None
              | _ \<Rightarrow> Some down))"

definition buttons :: "action list \<Rightarrow> bool option \<Rightarrow> bool option" where
  "buttons as d = fold button_step as d"

text \<open>
  A gesture begins only when none is active, ends only when one is, and zoom, rotation, scroll
  and swipe are applied only inside a gesture of their kind.
\<close>

definition gesture_step :: "action \<Rightarrow> u32 option \<Rightarrow> u32 option" where
  "gesture_step a g = (case g of None \<Rightarrow> None | Some t \<Rightarrow>
     (case a of
        BeginGesture t' \<Rightarrow> if t = GestureNone then Some t' else None
      | EndGesture \<Rightarrow> if t \<noteq> GestureNone then Some GestureNone else None
      | ApplyZoom z \<Rightarrow> if t = GestureZoom then Some t else None
      | ApplyRotation r \<Rightarrow> if t = GestureRotate then Some t else None
      | ApplyScroll dx dy d \<Rightarrow> if t = GestureScroll then Some t else None
      | ApplyDesktopSwipe dx dy \<Rightarrow>
          if t = GestureDesktopSwipeHorizontal \<or> t = GestureDesktopSwipeVertical then Some t else None
      | _ \<Rightarrow> Some t))"

definition gestures :: "action list \<Rightarrow> u32 option \<Rightarrow> u32 option" where
  "gestures as g = fold gesture_step as g"

lemma buttons_simps [simp]:
  "buttons [] d = d" "buttons (a # as) d = buttons as (button_step a d)"
  "buttons (as @ bs) d = buttons bs (buttons as d)"
  by (simp_all add: buttons_def)

lemma gestures_simps [simp]:
  "gestures [] g = g" "gestures (a # as) g = gestures as (gesture_step a g)"
  "gestures (as @ bs) g = gestures bs (gestures as g)"
  by (simp_all add: gestures_def)

lemma button_step_quiet: "\<not> is_button a \<Longrightarrow> button_step a d = d"
  by (cases a) (auto simp: button_step_def split: option.split)

lemma gesture_step_quiet: "\<not> is_gesture a \<Longrightarrow> gesture_step a g = g"
  by (cases a) (auto simp: gesture_step_def split: option.split)

lemma buttons_quiet: "list_all (\<lambda>a. \<not> is_button a) as \<Longrightarrow> buttons as d = d"
  by (induction as arbitrary: d) (auto simp: button_step_quiet)

lemma gestures_quiet: "list_all (\<lambda>a. \<not> is_gesture a) as \<Longrightarrow> gestures as g = g"
  by (induction as arbitrary: g) (auto simp: gesture_step_quiet)

lemma drawing_quiet:
  "is_drawing a \<Longrightarrow> \<not> is_button a \<and> \<not> is_gesture a"
  by (cases a) auto

lemma drawings_quiet:
  assumes "list_all is_drawing as"
  shows "buttons as d = d" "gestures as g = g"
proof -
  have "list_all (\<lambda>a. \<not> is_button a) as" "list_all (\<lambda>a. \<not> is_gesture a) as"
    using assms drawing_quiet by (auto simp: list_all_iff)
  then show "buttons as d = d" "gestures as g = g" by (auto intro: buttons_quiet gestures_quiet)
qed

end
