(* ===== verification/Interaction_Manager.thy ===== *)
theory Interaction_Manager
  imports Machine Timed_History Categorical_Filter Leap_Api
begin

text \<open>
  The base class of the gesture modes, \<open>source/GestureInteraction/GestureInteractionManager.cpp\<close>.
  Its members extend the record of the state machine that each mode owns, and each mode extends
  this record. The drawing, cursor and touch helpers change only the position tracker and the
  pending touch event and call the drivers: each is a function that computes such an effect, and
  \<open>effects\<close> applies it, so that one set of frame lemmas serves them all.

  An \<open>OwnerAssertion\<close> carries the line of the failing assertion in its source file.
\<close>

section \<open>State\<close>

datatype rts = ROTATING | TRANSLATING | SCALING

definition SECONDS :: int where "SECONDS = 1000000"
definition MILLISECONDS :: int where "MILLISECONDS = 1000"
definition MAX_POINTABLES :: nat where "MAX_POINTABLES = 10"

lemmas time_units = SECONDS_def MILLISECONDS_def

record ('st, 'f, 'p) gim = "'st machine" +
  gm_numOverlayImages :: int
  m_currentFrame :: 'f
  m_sinceFrame :: 'f
  m_timedFrameHistory :: "'f timed_history"
  m_relevantPointables :: "'p list"
  m_flushOverlay :: bool
  m_collectiveZone :: zone
  m_filteredPointableCount :: "(nat, rolling) categorical"
  m_filteredRTS :: "(rts, rolling) categorical"
  m_FPS :: rolling
  m_interactionBox :: "vec \<Rightarrow> bool \<Rightarrow> vec"
  m_foremostPointableId :: int
  m_favoritePointableId :: int
  m_positionalDeltaTracker :: tracker
  m_touchEvent :: touches
  out :: "action list"

definition new_filter ::
  "'c list \<Rightarrow> nat \<Rightarrow> real \<Rightarrow> real \<Rightarrow> categorical_error + ('c, rolling) categorical" where
  "new_filter categories n threshold window =
     (case CategoricalFilter rolling_filter categories (RollingMean n) threshold of
        Inl e \<Rightarrow> Inl e
      | Inr c \<Rightarrow> Inr (with_filter (SetWindow window) c))"

text \<open>
  The constructor leaves \<open>m_collectiveZone\<close> uninitialised. It starts as \<open>ZONE_NONE\<close> here, which nothing depends
  on: \<open>processFrame\<close> sets it before the machine is initialised or any state reads it.
\<close>

definition GestureInteractionManager ::
  "('f, 'h, 'p, 'e) env_scheme \<Rightarrow> categorical_error + ('st, 'f, 'p) gim" where
  "GestureInteractionManager L =
     (case new_filter [0..<MAX_POINTABLES] MAX_POINTABLES (8 / 10) 16 of
        Inl e \<Rightarrow> Inl e
      | Inr count \<Rightarrow>
          (case new_filter [ROTATING, TRANSLATING, SCALING] 3 (9 / 10) 2 of
             Inl e \<Rightarrow> Inl e
           | Inr rts \<Rightarrow> Inr (machine.extend sm_new
               (gim.fields 32 (invalid_frame L) (invalid_frame L) (TimedHistory (500 * MILLISECONDS))
                  [] True ZONE_NONE count rts (SetWindow 5 (RollingMean 1))
                  (fr_normalizePoint L (invalid_frame L)) (-1) (-1) tr_clear [] []))))"

section \<open>Effects\<close>

type_synonym effect = "tracker \<times> touches \<times> action list \<times> violation list"

definition effects :: "effect \<Rightarrow> ('st, 'f, 'p, 'm) gim_scheme \<Rightarrow> ('st, 'f, 'p, 'm) gim_scheme" where
  "effects e s =
     (let (t, es, as, vs) = e in
      s\<lparr>m_positionalDeltaTracker := t, m_touchEvent := es, out := out s @ as,
        sm_violations := sm_violations s @ vs\<rparr>)"

definition emit :: "action list \<Rightarrow> ('st, 'f, 'p, 'm) gim_scheme \<Rightarrow> ('st, 'f, 'p, 'm) gim_scheme"
  where "emit as s = s\<lparr>out := out s @ as\<rparr>"

text \<open>What the effect functions read and may change.\<close>

definition effect_here ::
  "('st, 'f, 'p, 'm) gim_scheme \<Rightarrow> action list \<Rightarrow> violation list \<Rightarrow> tracker \<Rightarrow> effect" where
  "effect_here s as vs t = (t, m_touchEvent s, as, vs)"

section \<open>Positions\<close>

definition setPositionToStabilizedPositionOf_hand ::
  "('f, 'h, 'p, 'e) env_scheme \<Rightarrow> 'h \<Rightarrow> tracker \<Rightarrow> tracker" where
  "setPositionToStabilizedPositionOf_hand L hand t =
     setPosition (h_id L hand) (-1) (h_stabilizedPalmPosition L hand) t"

definition setPositionToStabilizedPositionOf_pointable ::
  "('f, 'h, 'p, 'e) env_scheme \<Rightarrow> 'p \<Rightarrow> tracker \<Rightarrow> tracker" where
  "setPositionToStabilizedPositionOf_pointable L p t =
     setPosition (h_id L (p_hand L p)) (p_id L p) (p_stabilizedTipPosition L p) t"

definition alphaFromTimeVisible :: "real \<Rightarrow> real" where
  "alphaFromTimeVisible timeVisible = min 1 (timeVisible / (4 / 10))"

definition scrollDampingFactor :: "vec \<Rightarrow> real" where
  "scrollDampingFactor v =
     (let s = magnitude v / 60; r = 1 - s in if s < 1 then (2 * r + s) * s * s else 1)"

text \<open>
  \<open>scrollDampingFactor(translation / timeDelta)\<close>: with a zero time delta the speed is infinite or
  not a number, and the comparison with the threshold fails either way.
\<close>

definition damp_at :: "vec \<Rightarrow> real \<Rightarrow> real" where
  "damp_at translation timeDelta =
     (if timeDelta = 0 then 1 else scrollDampingFactor (vscale (1 / timeDelta) translation))"

definition seconds_between :: "int \<Rightarrow> int \<Rightarrow> real" where
  "seconds_between t1 t0 = of_int (t1 - t0) / of_int SECONDS"

text \<open>\<open>normalizedToScreen(interactionBox().normalizePoint(position, clampBox), ...)\<close>.\<close>

definition to_screen ::
  "('f, 'h, 'p, 'e) env_scheme \<Rightarrow> (vec \<Rightarrow> bool \<Rightarrow> vec) \<Rightarrow> vec \<Rightarrow> bool \<Rightarrow> bool \<times> vec \<times> vec" where
  "to_screen L box position clampBox = normalizedToScreen (e_overlay L) (box position clampBox) 1 True"

section \<open>Drawing\<close>

definition useProceduralOverlay :: "('f, 'h, 'p, 'e) env_scheme \<Rightarrow> bool" where
  "useProceduralOverlay L = m_UseProceduralOverlay (e_overlay L)"

text \<open>A clamped cursor is drawn with a velocity that stretches it along the border.\<close>

definition clamped_velocity :: "vec \<Rightarrow> vec \<Rightarrow> real \<Rightarrow> vec" where
  "clamped_velocity vel clampVec clampDist =
     (if clampDist > 0 then
        (if \<bar>vx clampVec\<bar> > 0 then Vec (vx vel * 0) (vy vel + 10000 * clampDist) (vz vel)
         else if \<bar>vy clampVec\<bar> > 0 then Vec (vx vel + 10000 * clampDist) (vy vel * 0) (vz vel)
         else vel)
      else vel)"

definition drawOverlayForPointable_fx ::
  "('f, 'h, 'p, 'e) env_scheme \<Rightarrow> 'p \<Rightarrow> int \<Rightarrow> real \<Rightarrow> bool \<Rightarrow> ('st, 'f, 'p, 'm) gim_scheme \<Rightarrow> effect" where
  "drawOverlayForPointable_fx L p iconIndex alphaMult deltaTracked s =
     (let t0 = m_positionalDeltaTracker s in
      if \<not> p_valid L p then effect_here s [] [] t0
      else
        (let t1 = (if deltaTracked then setPositionToStabilizedPositionOf_pointable L p t0 else t0);
             position = (if deltaTracked then getTrackedPosition t1 else p_stabilizedTipPosition L p);
             (_, scr, clampVec) = to_screen L (m_interactionBox s) position False
         in if useProceduralOverlay L then
              (let touchDistance = p_touchDistance L p;
                   clampDist = magnitude clampVec;
                   vel = clamped_velocity (p_tipVelocity L p) clampVec clampDist;
                   radius = (if touchDistance < 0 then 10 else touchDistanceToRadius touchDistance)
               in effect_here s
                    [DrawRasterIcon iconIndex (vx scr) (vy scr) True vel touchDistance radius clampDist
                       (alphaMult * alphaFromTimeVisible (p_timeVisible L p))] [] t1)
            else
              (let imageIndex = findImageIndex (e_overlay L) (p_touchDistance L p) 0 1
               in effect_here s [DrawImageIcon (p_id L p) imageIndex (vx scr) (vy scr) True] [] t1)))"

text \<open>The most forward touch distance of a hand's pointables, starting from 1.\<close>

definition least_touch_distance :: "('f, 'h, 'p, 'e) env_scheme \<Rightarrow> 'h \<Rightarrow> real" where
  "least_touch_distance L hand = fold (\<lambda>p d. min d (p_touchDistance L p)) (h_pointables L hand) 1"

definition drawOverlayForHand_fx ::
  "('f, 'h, 'p, 'e) env_scheme \<Rightarrow> 'h \<Rightarrow> int \<Rightarrow> real \<Rightarrow> ('st, 'f, 'p, 'm) gim_scheme \<Rightarrow> effect" where
  "drawOverlayForHand_fx L hand iconIndex alphaMult s =
     (let t0 = m_positionalDeltaTracker s in
      if \<not> h_valid L hand then effect_here s [] [] t0
      else
        (let (_, scr, clampVec) = to_screen L (m_interactionBox s) (getTrackedPosition t0) False;
             touchDistance = least_touch_distance L hand;
             clampDist = magnitude clampVec;
             vel = clamped_velocity (h_palmVelocity L hand) clampVec clampDist;
             radius = (if touchDistance < 0 then 10 else touchDistanceToRadius touchDistance)
         in effect_here s
              [DrawRasterIcon iconIndex (vx scr) (vy scr) True vel touchDistance radius clampDist
                 (alphaMult * alphaFromTimeVisible (h_timeVisible L hand))] [] t0))"

definition small_dot :: "int \<Rightarrow> real \<Rightarrow> real \<Rightarrow> real \<Rightarrow> real \<Rightarrow> real \<Rightarrow> action" where
  "small_dot i x y d clampDist alpha = DrawRasterIcon i x y True 0 d 5 clampDist alpha"

definition drawGestureOverlayCore ::
  "('f, 'h, 'p, 'e) env_scheme \<Rightarrow> vec \<Rightarrow> vec \<Rightarrow> vec \<Rightarrow> real \<Rightarrow> real \<Rightarrow> real \<Rightarrow> real \<Rightarrow> real \<Rightarrow>
   bool \<Rightarrow> bool \<Rightarrow> bool \<Rightarrow> bool \<Rightarrow> action list" where
  "drawGestureOverlayCore L scr clampVec tipVelocity radius0 touchDistance alpha rotationAngle
     scaleFactor doubleH doubleV verticalGlow horizontalGlow =
     (if useProceduralOverlay L then
        (let d = \<bar>touchDistance\<bar>; touching = touchDistance < 0; level = 30;
             xd1 = (if touching \<and> horizontalGlow \<and> vx tipVelocity > level then - 1 / 2 else d);
             xd2 = (if touching \<and> horizontalGlow \<and> vx tipVelocity < - level then - 1 / 2 else d);
             yd1 = (if touching \<and> verticalGlow \<and> vy tipVelocity > level then - 1 / 2 else d);
             yd2 = (if touching \<and> verticalGlow \<and> vy tipVelocity < - level then - 1 / 2 else d);
             radius = (if touching then 10 else radius0);
             cd = magnitude clampVec;
             offset = max ((1 + scaleFactor) * radius) 25;
             c = cos rotationAngle; n = sin rotationAngle;
             x = vx scr; y = vy scr;
             dot = (\<lambda>i dx dy dist. small_dot i (x + dx * offset) (y + dy * offset) dist cd alpha)
         in DrawRasterIcon 0 x y True 0 touchDistance radius cd alpha #
            (if \<not> doubleH \<and> \<not> doubleV then
               [dot 1 c n xd1, dot 2 (- c) (- n) xd2, dot 3 (- n) c yd2, dot 4 n (- c) yd1]
             else if doubleH then
               [dot 1 c n xd1, dot 2 (- c) (- n) xd2, dot 3 (2 * c) (2 * n) xd1,
                dot 4 (- 2 * c) (- 2 * n) xd2]
             else
               [dot 1 (- n) c yd2, dot 2 n (- c) yd1, dot 3 (- 2 * n) (2 * c) yd2,
                dot 4 (2 * n) (- 2 * c) yd1]))
      else [DrawImageIcon 0 (findImageIndex (e_overlay L) touchDistance 0 1) (vx scr) (vy scr) True])"

text \<open>The assertions of the two callers and of the core, in order.\<close>

definition overlay_asserts ::
  "('f, 'h, 'p, 'e) env_scheme \<Rightarrow> nat \<Rightarrow> real \<Rightarrow> bool \<Rightarrow> bool \<Rightarrow> violation list" where
  "overlay_asserts L line scaleFactor doubleH doubleV =
     (if scaleFactor \<ge> 0 then [] else [OwnerAssertion line]) @
     (if useProceduralOverlay L \<and> doubleH \<and> doubleV then [OwnerAssertion 519] else [])"

definition drawGestureOverlayForHand_fx ::
  "('f, 'h, 'p, 'e) env_scheme \<Rightarrow> 'h \<Rightarrow> real \<Rightarrow> real \<Rightarrow> real \<Rightarrow> vec option \<Rightarrow> bool \<Rightarrow> bool \<Rightarrow> bool \<Rightarrow> bool \<Rightarrow>
   ('st, 'f, 'p, 'm) gim_scheme \<Rightarrow> effect" where
  "drawGestureOverlayForHand_fx L hand rotationAngle scaleFactor alphaMult positionOverride
     doubleH doubleV verticalGlow horizontalGlow s =
     (let t0 = m_positionalDeltaTracker s;
          position = (case positionOverride of Some p \<Rightarrow> p | None \<Rightarrow> getTrackedPosition t0);
          (_, scr, clampVec) = to_screen L (m_interactionBox s) position True;
          touchDistance = (if \<not> h_valid L hand \<or> h_pointables L hand = [] then 2 / 10
                           else least_touch_distance L hand);
          alpha = alphaMult * alphaFromTimeVisible (h_timeVisible L hand)
      in effect_here s
           (drawGestureOverlayCore L scr clampVec (h_palmVelocity L hand)
              (touchDistanceToRadius touchDistance) touchDistance alpha rotationAngle scaleFactor
              doubleH doubleV verticalGlow horizontalGlow)
           (overlay_asserts L 430 scaleFactor doubleH doubleV) t0)"

definition drawGestureOverlayForPointable_fx ::
  "('f, 'h, 'p, 'e) env_scheme \<Rightarrow> 'p \<Rightarrow> real \<Rightarrow> real \<Rightarrow> real \<Rightarrow> vec option \<Rightarrow> bool \<Rightarrow> bool \<Rightarrow> bool \<Rightarrow> bool \<Rightarrow>
   ('st, 'f, 'p, 'm) gim_scheme \<Rightarrow> effect" where
  "drawGestureOverlayForPointable_fx L p rotationAngle scaleFactor alphaMult positionOverride
     doubleH doubleV verticalGlow horizontalGlow s =
     (let t0 = m_positionalDeltaTracker s;
          position = (case positionOverride of Some q \<Rightarrow> q | None \<Rightarrow> getTrackedPosition t0);
          (_, scr, clampVec) = to_screen L (m_interactionBox s) position True;
          touchDistance = p_touchDistance L p;
          alpha = alphaMult * alphaFromTimeVisible (p_timeVisible L p)
      in effect_here s
           (drawGestureOverlayCore L scr clampVec (p_tipVelocity L p)
              (touchDistanceToRadius touchDistance) touchDistance alpha rotationAngle scaleFactor
              doubleH doubleV verticalGlow horizontalGlow)
           (overlay_asserts L 464 scaleFactor doubleH doubleV) t0)"

text \<open>Rotation rate and scale factor since the frame that is at least half a second old.\<close>

definition rotationRate ::
  "('f, 'h, 'p, 'e) env_scheme \<Rightarrow> ('st, 'f, 'p, 'm) gim_scheme \<Rightarrow> real" where
  "rotationRate L s =
     (case getFrameHavingAgeAtLeast (m_timedFrameHistory s) (500 * MILLISECONDS) of
        [] \<Rightarrow> 0
      | (_, frame) # _ \<Rightarrow>
          fr_rotationAngleZ L (m_currentFrame s) frame /
            seconds_between (fr_timestamp L (m_currentFrame s)) (fr_timestamp L frame))"

definition recentScaleFactor ::
  "('f, 'h, 'p, 'e) env_scheme \<Rightarrow> ('st, 'f, 'p, 'm) gim_scheme \<Rightarrow> real" where
  "recentScaleFactor L s =
     (case getFrameHavingAgeAtLeast (m_timedFrameHistory s) (500 * MILLISECONDS) of
        [] \<Rightarrow> 1
      | (_, frame) # _ \<Rightarrow> fr_scaleFactor L (m_currentFrame s) frame)"

section \<open>Touch points and the cursor\<close>

text \<open>Signed ids convert to the unsigned ids of a touch point modulo \<open>2 ^ 32\<close>.\<close>

definition addTouchPointForHand_fx ::
  "('f, 'h, 'p, 'e) env_scheme \<Rightarrow> 'h \<Rightarrow> bool \<Rightarrow> ('st, 'f, 'p, 'm) gim_scheme \<Rightarrow> effect" where
  "addTouchPointForHand_fx L hand touching s =
     (let t0 = m_positionalDeltaTracker s in
      if \<not> h_valid L hand then effect_here s [] [] t0
      else
        (let t1 = setPositionToStabilizedPositionOf_hand L hand t0;
             (_, scr, clampVec) = to_screen L (m_interactionBox s) (getTrackedPosition t1) True
         in if magnitudeSquared clampVec = 0
            then (t1, addTouchPoint (word_of_int (h_id L hand)) (word_of_int (h_frame_id L hand))
                        (vx scr) (vy scr) touching (m_touchEvent s), [], [])
            else effect_here s [] [] t1))"

definition addTouchPointForPointable_fx ::
  "('f, 'h, 'p, 'e) env_scheme \<Rightarrow> int \<Rightarrow> 'p \<Rightarrow> bool \<Rightarrow> bool \<Rightarrow> ('st, 'f, 'p, 'm) gim_scheme \<Rightarrow> effect" where
  "addTouchPointForPointable_fx L touchId p touching deltaTracked s =
     (let t0 = m_positionalDeltaTracker s in
      if \<not> p_valid L p then effect_here s [] [] t0
      else
        (let t1 = (if deltaTracked then setPositionToStabilizedPositionOf_pointable L p t0 else t0);
             position = (if deltaTracked then getTrackedPosition t1 else p_stabilizedTipPosition L p);
             (_, scr, clampVec) = to_screen L (m_interactionBox s) position True
         in if magnitudeSquared clampVec = 0
            then (t1, addTouchPoint (word_of_int touchId) (word_of_int (p_frame_id L p))
                        (vx scr) (vy scr) touching (m_touchEvent s), [], [])
            else effect_here s [] [] t1))"

text \<open>The cursor calls and the value the optional output parameter receives.\<close>

definition setAbsoluteCursorPosition ::
  "('f, 'h, 'p, 'e) env_scheme \<Rightarrow> (vec \<Rightarrow> bool \<Rightarrow> vec) \<Rightarrow> vec \<Rightarrow> action list \<times> vec option" where
  "setAbsoluteCursorPosition L box position =
     (let (ok, scr, clampVec) = to_screen L box position True in
      if ok then ([SetCursorPosition (vx scr) (vy scr) True], Some scr) else ([], None))"

definition setAbsoluteCursorPositionHand_fx ::
  "('f, 'h, 'p, 'e) env_scheme \<Rightarrow> 'h \<Rightarrow> ('st, 'f, 'p, 'm) gim_scheme \<Rightarrow> effect \<times> vec option" where
  "setAbsoluteCursorPositionHand_fx L hand s =
     (let t0 = m_positionalDeltaTracker s in
      if h_valid L hand then
        (let t1 = setPositionToStabilizedPositionOf_hand L hand t0;
             (as, r) = setAbsoluteCursorPosition L (m_interactionBox s) (getTrackedPosition t1)
         in (effect_here s as [] t1, r))
      else (effect_here s [] [] t0, None))"

definition setAbsoluteCursorPositionPointable_fx ::
  "('f, 'h, 'p, 'e) env_scheme \<Rightarrow> 'p \<Rightarrow> ('st, 'f, 'p, 'm) gim_scheme \<Rightarrow> effect \<times> vec option" where
  "setAbsoluteCursorPositionPointable_fx L p s =
     (let t0 = m_positionalDeltaTracker s in
      if p_valid L p then
        (let t1 = setPositionToStabilizedPositionOf_pointable L p t0;
             (as, r) = setAbsoluteCursorPosition L (m_interactionBox s) (getTrackedPosition t1)
         in (effect_here s as [] t1, r))
      else (effect_here s [] [] t0, None))"

definition emitTouchEvent :: "('st, 'f, 'p, 'm) gim_scheme \<Rightarrow> ('st, 'f, 'p, 'm) gim_scheme" where
  "emitTouchEvent s = s\<lparr>out := out s @ [EmitTouchEvent (m_touchEvent s)], m_touchEvent := []\<rparr>"

definition hide_icons :: "int \<Rightarrow> int \<Rightarrow> action list" where
  "hide_icons from until = map (\<lambda>i. SetIconVisibility i False) [from..until - 1]"

definition flushOverlay ::
  "('f, 'h, 'p, 'e) env_scheme \<Rightarrow> ('st, 'f, 'p, 'm) gim_scheme \<Rightarrow> ('st, 'f, 'p, 'm) gim_scheme" where
  "flushOverlay L s = (if e_platform L = Apple \<and> m_flushOverlay s then emit [FlushOverlay] s else s)"

text \<open>The destructor of the base class; the filters it frees have no other effect.\<close>

definition gim_destroy ::
  "('f, 'h, 'p, 'e) env_scheme \<Rightarrow> ('st, 'f, 'p, 'm) gim_scheme \<Rightarrow> ('st, 'f, 'p, 'm) gim_scheme" where
  "gim_destroy L s = (if e_platform L = Apple then emit [FlushOverlay] s else s)"

text \<open>
  \<open>DrawOverlays\<close> shows one icon for each relevant pointable and hides the others; the modes that
  override it choose another radius.
\<close>

definition overlay_icon ::
  "('f, 'h, 'p, 'e) env_scheme \<Rightarrow> ('p \<Rightarrow> real) \<Rightarrow> ('st, 'f, 'p, 'm) gim_scheme \<Rightarrow> int \<Rightarrow> action" where
  "overlay_icon L radius s i =
     (if i < int (length (m_relevantPointables s)) then
        (let p = m_relevantPointables s ! nat i;
             (ok, scr, clampVec) = to_screen L (m_interactionBox s) (p_stabilizedTipPosition L p) True
         in if ok then
              (if useProceduralOverlay L
               then DrawRasterIcon i (vx scr) (vy scr) True (p_tipVelocity L p) (p_touchDistance L p)
                      (radius p) (magnitude clampVec) (alphaFromTimeVisible (p_timeVisible L p))
               else DrawImageIcon i (findImageIndex (e_overlay L) (p_touchDistance L p) 0 1)
                      (vx scr) (vy scr) True)
            else SetIconVisibility i False)
      else SetIconVisibility i False)"

definition gim_DrawOverlays ::
  "('f, 'h, 'p, 'e) env_scheme \<Rightarrow> ('st, 'f, 'p, 'm) gim_scheme \<Rightarrow> ('st, 'f, 'p, 'm) gim_scheme" where
  "gim_DrawOverlays L s =
     emit (map (overlay_icon L (\<lambda>p. touchDistanceToRadius (p_touchDistance L p)) s)
             [0..gm_numOverlayImages s - 1] @
           (if e_platform L = Apple then [FlushOverlay] else [])) s"

section \<open>Helper calls\<close>

text \<open>
  The helper methods as data: \<open>perform\<close> runs one. \<open>TrackHand\<close> and \<open>TrackPointable\<close> are direct calls
  on the position tracker, which asserts that its argument is valid.
\<close>

datatype ('h, 'p) call =
    DrawOverlayForPointable 'p int real bool
  | DrawOverlayForHand 'h int real
  | DrawGestureOverlayForHand 'h real real real "vec option" bool bool bool bool
  | DrawGestureOverlayForPointable 'p real real real "vec option" bool bool bool bool
  | AddTouchPointForHand 'h bool
  | AddTouchPointForPointable int 'p bool bool
  | SetAbsoluteCursorPositionHand 'h
  | SetAbsoluteCursorPositionPointable 'p
  | TrackHand 'h
  | TrackPointable 'p
  | ClearTracker

primrec call_fx ::
  "('f, 'h, 'p, 'e) env_scheme \<Rightarrow> ('h, 'p) call \<Rightarrow> ('st, 'f, 'p, 'm) gim_scheme \<Rightarrow> effect" where
  "call_fx L (DrawOverlayForPointable p i a dt) s = drawOverlayForPointable_fx L p i a dt s"
| "call_fx L (DrawOverlayForHand h i a) s = drawOverlayForHand_fx L h i a s"
| "call_fx L (DrawGestureOverlayForHand h r sc a po dh dv vg hg) s =
     drawGestureOverlayForHand_fx L h r sc a po dh dv vg hg s"
| "call_fx L (DrawGestureOverlayForPointable p r sc a po dh dv vg hg) s =
     drawGestureOverlayForPointable_fx L p r sc a po dh dv vg hg s"
| "call_fx L (AddTouchPointForHand h b) s = addTouchPointForHand_fx L h b s"
| "call_fx L (AddTouchPointForPointable i p b dt) s = addTouchPointForPointable_fx L i p b dt s"
| "call_fx L (SetAbsoluteCursorPositionHand h) s = fst (setAbsoluteCursorPositionHand_fx L h s)"
| "call_fx L (SetAbsoluteCursorPositionPointable p) s = fst (setAbsoluteCursorPositionPointable_fx L p s)"
| "call_fx L (TrackHand h) s =
     effect_here s [] (if h_valid L h then [] else [OwnerAssertion 52])
       (setPositionToStabilizedPositionOf_hand L h (m_positionalDeltaTracker s))"
| "call_fx L (TrackPointable p) s =
     effect_here s [] (if p_valid L p then [] else [OwnerAssertion 56])
       (setPositionToStabilizedPositionOf_pointable L p (m_positionalDeltaTracker s))"
| "call_fx L ClearTracker s = effect_here s [] [] tr_clear"

definition perform ::
  "('f, 'h, 'p, 'e) env_scheme \<Rightarrow> ('h, 'p) call \<Rightarrow> ('st, 'f, 'p, 'm) gim_scheme \<Rightarrow> ('st, 'f, 'p, 'm) gim_scheme" where
  "perform L c s = effects (call_fx L c s) s"

text \<open>The default arguments of the drawing helpers, and the wrappers for one kind of gesture.\<close>

abbreviation drawScrollOverlayForHand :: "'h \<Rightarrow> real \<Rightarrow> ('h, 'p) call" where
  "drawScrollOverlayForHand h a \<equiv> DrawGestureOverlayForHand h 0 1 a None False False True True"
abbreviation drawScrollOverlayForPointable :: "'p \<Rightarrow> real \<Rightarrow> ('h, 'p) call" where
  "drawScrollOverlayForPointable p a \<equiv> DrawGestureOverlayForPointable p 0 1 a None False False True True"

definition drawRotateOverlayForHand ::
  "('f, 'h, 'p, 'e) env_scheme \<Rightarrow> 'h \<Rightarrow> real \<Rightarrow> vec option \<Rightarrow> ('st, 'f, 'p, 'm) gim_scheme \<Rightarrow> ('st, 'f, 'p, 'm) gim_scheme" where
  "drawRotateOverlayForHand L h a po s =
     perform L (DrawGestureOverlayForHand h (rotationRate L s) 1 a po False False False False) s"

definition drawRotateOverlayForPointable ::
  "('f, 'h, 'p, 'e) env_scheme \<Rightarrow> 'p \<Rightarrow> real \<Rightarrow> vec option \<Rightarrow> ('st, 'f, 'p, 'm) gim_scheme \<Rightarrow> ('st, 'f, 'p, 'm) gim_scheme" where
  "drawRotateOverlayForPointable L p a po s =
     perform L (DrawGestureOverlayForPointable p (rotationRate L s) 1 a po False False False False) s"

definition drawZoomOverlayForHand ::
  "('f, 'h, 'p, 'e) env_scheme \<Rightarrow> 'h \<Rightarrow> real \<Rightarrow> vec option \<Rightarrow> ('st, 'f, 'p, 'm) gim_scheme \<Rightarrow> ('st, 'f, 'p, 'm) gim_scheme" where
  "drawZoomOverlayForHand L h a po s =
     perform L (DrawGestureOverlayForHand h 0 (recentScaleFactor L s) a po False False False False) s"

definition drawZoomOverlayForPointable ::
  "('f, 'h, 'p, 'e) env_scheme \<Rightarrow> 'p \<Rightarrow> real \<Rightarrow> vec option \<Rightarrow> ('st, 'f, 'p, 'm) gim_scheme \<Rightarrow> ('st, 'f, 'p, 'm) gim_scheme" where
  "drawZoomOverlayForPointable L p a po s =
     perform L (DrawGestureOverlayForPointable p 0 (recentScaleFactor L s) a po False False False False) s"

section \<open>Filtered readings\<close>

definition pointableCountIsUnambiguous :: "('st, 'f, 'p, 'm) gim_scheme \<Rightarrow> bool" where
  "pointableCountIsUnambiguous s = filteredCategoryIsUnambiguous rolling_filter (m_filteredPointableCount s)"

text \<open>Reading an ambiguous category throws, here \<open>None\<close>; the code asks first.\<close>

definition pointableCount :: "('st, 'f, 'p, 'm) gim_scheme \<Rightarrow> nat option" where
  "pointableCount s = filteredCategory rolling_filter (m_filteredPointableCount s)"

text \<open>\<open>pointableCountIsUnambiguous() && P(pointableCount())\<close>.\<close>

definition count_is :: "(nat \<Rightarrow> bool) \<Rightarrow> ('st, 'f, 'p, 'm) gim_scheme \<Rightarrow> bool" where
  "count_is P s \<longleftrightarrow> pointableCountIsUnambiguous s \<and>
     (case pointableCount s of Some c \<Rightarrow> P c | None \<Rightarrow> False)"

definition rtsIsUnambiguous :: "('st, 'f, 'p, 'm) gim_scheme \<Rightarrow> bool" where
  "rtsIsUnambiguous s = filteredCategoryIsUnambiguous rolling_filter (m_filteredRTS s)"

definition rts :: "('st, 'f, 'p, 'm) gim_scheme \<Rightarrow> rts option" where
  "rts s = filteredCategory rolling_filter (m_filteredRTS s)"

definition fps :: "('st, 'f, 'p, 'm) gim_scheme \<Rightarrow> real" where
  "fps s = rm_Predict (m_FPS s) ! 0"

section \<open>Choosing pointables\<close>

text \<open>
  For every hand the loop remembers one pointable: the first it meets, replaced when the current
  frame's pointable \<^emph>\<open>with the hand's id\<close> is further back than the one at hand.
\<close>

definition best_pointable_step ::
  "('f, 'h, 'p, 'e) env_scheme \<Rightarrow> 'f \<Rightarrow> 'p \<Rightarrow> (int \<rightharpoonup> int) \<Rightarrow> (int \<rightharpoonup> int)" where
  "best_pointable_step L frame p best =
     (let hand = h_id L (p_hand L p) in
      case best hand of
        None \<Rightarrow> best(hand \<mapsto> p_id L p)
      | Some _ \<Rightarrow>
          if vz (p_tipPosition L (fr_pointable L frame hand)) > vz (p_tipPosition L p)
          then best(hand \<mapsto> p_id L p) else best)"

definition best_pointables :: "('f, 'h, 'p, 'e) env_scheme \<Rightarrow> 'f \<Rightarrow> 'p list \<Rightarrow> (int \<rightharpoonup> int)" where
  "best_pointables L frame ps = fold (best_pointable_step L frame) ps Map.empty"

definition discriminant :: "('f, 'h, 'p, 'e) env_scheme \<Rightarrow> 'p \<Rightarrow> 'p \<Rightarrow> real" where
  "discriminant L p best =
     160 * (1 - dot (p_direction L p) (p_direction L best)) +
     sqrt ((vz (p_tipPosition L p) - vz (p_tipPosition L best)) *
             (vz (p_tipPosition L p) - vz (p_tipPosition L best)) +
           (vy (p_tipPosition L p) - vy (p_tipPosition L best)) *
             (vy (p_tipPosition L p) - vy (p_tipPosition L best)))"

text \<open>Every pointable's hand is in the map when it is read.\<close>

definition irrelevant :: "('f, 'h, 'p, 'e) env_scheme \<Rightarrow> 'f \<Rightarrow> (int \<rightharpoonup> int) \<Rightarrow> 'p \<Rightarrow> bool" where
  "irrelevant L frame best p =
     (case best (h_id L (p_hand L p)) of
        None \<Rightarrow> False
      | Some i \<Rightarrow>
          p_touchZone L p = ZONE_NONE \<or> vz (p_direction L p) > 0 \<or>
          discriminant L p (fr_pointable L frame i) > 50)"

definition identifyRelevantPointables ::
  "('f, 'h, 'p, 'e) env_scheme \<Rightarrow> 'f \<Rightarrow> 'p list \<Rightarrow> 'p list" where
  "identifyRelevantPointables L frame pointables =
     filter (\<lambda>p. \<not> irrelevant L frame (best_pointables L frame pointables) p) pointables"

definition number_touching :: "('f, 'h, 'p, 'e) env_scheme \<Rightarrow> 'p list \<Rightarrow> nat" where
  "number_touching L ps = length (filter (\<lambda>p. p_touchZone L p = ZONE_TOUCHING) ps)"

definition identifyCollectivePointableZone ::
  "('f, 'h, 'p, 'e) env_scheme \<Rightarrow> 'p list \<Rightarrow> ('st, 'f, 'p, 'm) gim_scheme \<Rightarrow> zone" where
  "identifyCollectivePointableZone L pointables s =
     (if pointables = [] then ZONE_NONE
      else if count_is (\<lambda>c. number_touching L pointables = c) s \<or> number_touching L pointables \<ge> 3
      then ZONE_TOUCHING else ZONE_HOVERING)"

text \<open>The first pointable with the least depth.\<close>

fun foremost :: "('f, 'h, 'p, 'e) env_scheme \<Rightarrow> 'p list \<Rightarrow> 'p \<Rightarrow> 'p" where
  "foremost L [] best = best"
| "foremost L (p # ps) best =
     (if vz (p_stabilizedTipPosition L p) < vz (p_stabilizedTipPosition L best)
      then foremost L ps p else foremost L ps best)"

definition identifyForemostPointable :: "('f, 'h, 'p, 'e) env_scheme \<Rightarrow> 'p list \<Rightarrow> int" where
  "identifyForemostPointable L ps = (case ps of [] \<Rightarrow> -1 | p # _ \<Rightarrow> p_id L (foremost L ps p))"

definition foremostPointableIdOfHand :: "('f, 'h, 'p, 'e) env_scheme \<Rightarrow> 'h \<Rightarrow> int" where
  "foremostPointableIdOfHand L hand = identifyForemostPointable L (h_pointables L hand)"

definition setForemostPointable ::
  "('f, 'h, 'p, 'e) env_scheme \<Rightarrow> 'p list \<Rightarrow> ('st, 'f, 'p, 'm) gim_scheme \<Rightarrow> int" where
  "setForemostPointable L ps s =
     (if count_is (\<lambda>c. c = length (m_relevantPointables s)) s \<or> \<not> pointableCountIsUnambiguous s
      then identifyForemostPointable L ps else -1)"

definition resetFavoritePointableId ::
  "('st, 'f, 'p, 'm) gim_scheme \<Rightarrow> ('st, 'f, 'p, 'm) gim_scheme" where
  "resetFavoritePointableId s = s\<lparr>m_favoritePointableId := m_foremostPointableId s\<rparr>"

text \<open>\<open>favoritePointableId()\<close> may reset the favourite before it returns it.\<close>

definition favour :: "('f, 'h, 'p, 'e) env_scheme \<Rightarrow> ('st, 'f, 'p, 'm) gim_scheme \<Rightarrow> ('st, 'f, 'p, 'm) gim_scheme" where
  "favour L s =
     (if m_favoritePointableId s < 0 \<or>
         \<not> p_valid L (fr_pointable L (m_currentFrame s) (m_favoritePointableId s))
      then resetFavoritePointableId s else s)"

definition favoritePointableId ::
  "('f, 'h, 'p, 'e) env_scheme \<Rightarrow> ('st, 'f, 'p, 'm) gim_scheme \<Rightarrow> int \<times> ('st, 'f, 'p, 'm) gim_scheme" where
  "favoritePointableId L s = (m_favoritePointableId (favour L s), favour L s)"

section \<open>One frame\<close>

text \<open>
  The probabilities of rotation, translation and scaling since the frame that is at least 20 ms
  old; the assertion wants them to add up to 0 or 1.
\<close>

definition rtsProbabilityVector ::
  "('f, 'h, 'p, 'e) env_scheme \<Rightarrow> ('st, 'f, 'p, 'm) gim_scheme \<Rightarrow> rvec \<times> violation list" where
  "rtsProbabilityVector L s =
     (let v = (case getFrameHavingAgeAtLeast (m_timedFrameHistory s) (20 * MILLISECONDS) of
                 [] \<Rightarrow> []
               | (_, since) # _ \<Rightarrow>
                   [fr_rotationProbability L (m_currentFrame s) since,
                    fr_translationProbability L (m_currentFrame s) since,
                    fr_scaleProbability L (m_currentFrame s) since]);
          probability = sum_list v
      in (if probability = 0 then ambiguousProbabilityVector 3 else v,
          if probability = 0 \<or> \<bar>probability - 1\<bar> < 1 / 100000 then [] else [OwnerAssertion 251]))"

definition update_fps ::
  "('f, 'h, 'p, 'e) env_scheme \<Rightarrow> 'f \<Rightarrow> 'f \<Rightarrow> rolling \<Rightarrow> rolling" where
  "update_fps L frame since r =
     (if fr_valid L frame \<and> fr_valid L since \<and> fr_timestamp L frame > fr_timestamp L since
      then rm_Update r [of_int (SECONDS div (fr_timestamp L frame - fr_timestamp L since))] (m_zero 1) 1
      else r)"

definition count_category :: "nat \<Rightarrow> nat" where
  "count_category n = (if n < MAX_POINTABLES then n else MAX_POINTABLES - 1)"

record ('f, 'p, 's) gim_virtual =
  v_processFrameInternal :: "'s \<Rightarrow> 's outcome"
  v_identifyRelevantPointables :: "'f \<Rightarrow> 'p list \<Rightarrow> 'p list"
  v_identifyCollectivePointableZone :: "'p list \<Rightarrow> 's \<Rightarrow> zone"
  v_setForemostPointable :: "'p list \<Rightarrow> 's \<Rightarrow> int"

text \<open>
  \<open>processFrame\<close> up to the call of \<open>processFrameInternal\<close>. An unknown category would throw; the
  size is clipped to the categories, so \<open>None\<close> does not arise.
\<close>

definition observe_frame ::
  "('f, 'h, 'p, 'e) env_scheme \<Rightarrow> ('f, 'p, ('st, 'f, 'p, 'm) gim_scheme) gim_virtual \<Rightarrow> 'f \<Rightarrow> 'f \<Rightarrow>
   ('st, 'f, 'p, 'm) gim_scheme \<Rightarrow> ('st, 'f, 'p, 'm) gim_scheme option" where
  "observe_frame L V frame since s0 =
     (let s1 = (sm_assert (addFrame_in_order (fr_timestamp L frame) (m_timedFrameHistory s0))
                  (OwnerAssertion 109) s0)
            \<lparr>m_timedFrameHistory := addFrame (fr_timestamp L frame) frame (m_timedFrameHistory s0),
             m_interactionBox := fr_normalizePoint L frame,
             m_currentFrame := frame, m_sinceFrame := since\<rparr>;
          s2 = s1\<lparr>m_relevantPointables := v_identifyRelevantPointables V frame (fr_pointables L frame)\<rparr>;
          s3 = s2\<lparr>m_collectiveZone := v_identifyCollectivePointableZone V (m_relevantPointables s2) s2\<rparr>;
          n = length (m_relevantPointables s3)
      in case updateWithCategory rolling_filter (count_category n) 1 (m_filteredPointableCount s3) of
           None \<Rightarrow> None
         | Some count \<Rightarrow>
             (let s4 = s3\<lparr>m_filteredPointableCount := count\<rparr>;
                  (pv, vs) = rtsProbabilityVector L s4;
                  s5 = s4\<lparr>m_filteredRTS := updateWithProbabilityVector rolling_filter pv 1 (m_filteredRTS s4),
                         sm_violations := sm_violations s4 @ vs\<rparr>;
                  s6 = s5\<lparr>m_FPS := update_fps L frame since (m_FPS s5)\<rparr>;
                  s7 = s6\<lparr>m_filteredRTS := with_filter (SetWindow (fps s6 / 20)) (m_filteredRTS s6),
                         m_filteredPointableCount :=
                           with_filter (SetWindow (fps s6 / 15)) (m_filteredPointableCount s6)\<rparr>
              in Some (s7\<lparr>m_foremostPointableId :=
                   v_setForemostPointable V (m_relevantPointables s7) s7\<rparr>)))"

definition processFrame ::
  "('f, 'h, 'p, 'e) env_scheme \<Rightarrow> ('f, 'p, ('st, 'f, 'p, 'm) gim_scheme) gim_virtual \<Rightarrow> 'f \<Rightarrow> 'f \<Rightarrow>
   ('st, 'f, 'p, 'm) gim_scheme \<Rightarrow> ('st, 'f, 'p, 'm) gim_scheme outcome" where
  "processFrame L V frame since s =
     (case observe_frame L V frame since s of
        None \<Rightarrow> Crash
      | Some s1 \<Rightarrow> v_processFrameInternal V s1)"

section \<open>What the helpers leave alone\<close>

lemma effects_frame [simp]:
  "sm_logger (effects e s) = sm_logger s" "sm_ignore_input (effects e s) = sm_ignore_input s"
  "sm_running (effects e s) = sm_running s" "sm_current (effects e s) = sm_current s"
  "sm_next (effects e s) = sm_next s" "sm_log (effects e s) = sm_log s"
  "gm_numOverlayImages (effects e s) = gm_numOverlayImages s"
  "m_currentFrame (effects e s) = m_currentFrame s" "m_sinceFrame (effects e s) = m_sinceFrame s"
  "m_timedFrameHistory (effects e s) = m_timedFrameHistory s"
  "m_relevantPointables (effects e s) = m_relevantPointables s"
  "m_flushOverlay (effects e s) = m_flushOverlay s"
  "m_collectiveZone (effects e s) = m_collectiveZone s"
  "m_filteredPointableCount (effects e s) = m_filteredPointableCount s"
  "m_filteredRTS (effects e s) = m_filteredRTS s" "m_FPS (effects e s) = m_FPS s"
  "m_interactionBox (effects e s) = m_interactionBox s"
  "m_foremostPointableId (effects e s) = m_foremostPointableId s"
  "m_favoritePointableId (effects e s) = m_favoritePointableId s"
  "gim.more (effects e s) = gim.more s"
  by (simp_all add: effects_def Let_def split: prod.split)

lemma effects_out [simp]: "out (effects e s) = out s @ fst (snd (snd e))"
  by (simp add: effects_def Let_def split: prod.split)

lemma effects_violations [simp]: "sm_violations (effects e s) = sm_violations s @ snd (snd (snd e))"
  by (simp add: effects_def Let_def split: prod.split)

lemma effects_tracker [simp]:
  "m_positionalDeltaTracker (effects e s) = fst e" "m_touchEvent (effects e s) = fst (snd e)"
  by (simp_all add: effects_def Let_def split: prod.split)

lemma effect_here_simps [simp]:
  "fst (effect_here s as vs t) = t" "fst (snd (effect_here s as vs t)) = m_touchEvent s"
  "fst (snd (snd (effect_here s as vs t))) = as" "snd (snd (snd (effect_here s as vs t))) = vs"
  by (simp_all add: effect_here_def)

lemma perform_frame [simp]:
  "sm_logger (perform L c s) = sm_logger s" "sm_ignore_input (perform L c s) = sm_ignore_input s"
  "sm_running (perform L c s) = sm_running s" "sm_current (perform L c s) = sm_current s"
  "sm_next (perform L c s) = sm_next s" "sm_log (perform L c s) = sm_log s"
  "gm_numOverlayImages (perform L c s) = gm_numOverlayImages s"
  "m_currentFrame (perform L c s) = m_currentFrame s" "m_sinceFrame (perform L c s) = m_sinceFrame s"
  "m_timedFrameHistory (perform L c s) = m_timedFrameHistory s"
  "m_relevantPointables (perform L c s) = m_relevantPointables s"
  "m_flushOverlay (perform L c s) = m_flushOverlay s"
  "m_collectiveZone (perform L c s) = m_collectiveZone s"
  "m_filteredPointableCount (perform L c s) = m_filteredPointableCount s"
  "m_filteredRTS (perform L c s) = m_filteredRTS s" "m_FPS (perform L c s) = m_FPS s"
  "m_interactionBox (perform L c s) = m_interactionBox s"
  "m_foremostPointableId (perform L c s) = m_foremostPointableId s"
  "m_favoritePointableId (perform L c s) = m_favoritePointableId s"
  "gim.more (perform L c s) = gim.more s"
  "out (perform L c s) = out s @ fst (snd (snd (call_fx L c s)))"
  "sm_violations (perform L c s) = sm_violations s @ snd (snd (snd (call_fx L c s)))"
  by (simp_all add: perform_def)

lemma emit_frame [simp]:
  "sm_logger (emit as s) = sm_logger s" "sm_ignore_input (emit as s) = sm_ignore_input s"
  "sm_running (emit as s) = sm_running s" "sm_current (emit as s) = sm_current s"
  "sm_next (emit as s) = sm_next s" "sm_log (emit as s) = sm_log s"
  "gm_numOverlayImages (emit as s) = gm_numOverlayImages s"
  "m_currentFrame (emit as s) = m_currentFrame s" "m_sinceFrame (emit as s) = m_sinceFrame s"
  "m_timedFrameHistory (emit as s) = m_timedFrameHistory s"
  "m_relevantPointables (emit as s) = m_relevantPointables s"
  "m_flushOverlay (emit as s) = m_flushOverlay s"
  "m_collectiveZone (emit as s) = m_collectiveZone s"
  "m_filteredPointableCount (emit as s) = m_filteredPointableCount s"
  "m_filteredRTS (emit as s) = m_filteredRTS s" "m_FPS (emit as s) = m_FPS s"
  "m_interactionBox (emit as s) = m_interactionBox s"
  "m_foremostPointableId (emit as s) = m_foremostPointableId s"
  "m_favoritePointableId (emit as s) = m_favoritePointableId s"
  "m_positionalDeltaTracker (emit as s) = m_positionalDeltaTracker s"
  "m_touchEvent (emit as s) = m_touchEvent s" "gim.more (emit as s) = gim.more s"
  "out (emit as s) = out s @ as" "sm_violations (emit as s) = sm_violations s"
  by (simp_all add: emit_def)

lemma favour_frame [simp]:
  "sm_logger (favour L s) = sm_logger s" "sm_ignore_input (favour L s) = sm_ignore_input s"
  "sm_running (favour L s) = sm_running s" "sm_current (favour L s) = sm_current s"
  "sm_next (favour L s) = sm_next s" "sm_log (favour L s) = sm_log s"
  "gm_numOverlayImages (favour L s) = gm_numOverlayImages s"
  "m_currentFrame (favour L s) = m_currentFrame s" "m_sinceFrame (favour L s) = m_sinceFrame s"
  "m_timedFrameHistory (favour L s) = m_timedFrameHistory s"
  "m_relevantPointables (favour L s) = m_relevantPointables s"
  "m_flushOverlay (favour L s) = m_flushOverlay s"
  "m_collectiveZone (favour L s) = m_collectiveZone s"
  "m_filteredPointableCount (favour L s) = m_filteredPointableCount s"
  "m_filteredRTS (favour L s) = m_filteredRTS s" "m_FPS (favour L s) = m_FPS s"
  "m_interactionBox (favour L s) = m_interactionBox s"
  "m_foremostPointableId (favour L s) = m_foremostPointableId s"
  "m_positionalDeltaTracker (favour L s) = m_positionalDeltaTracker s"
  "m_touchEvent (favour L s) = m_touchEvent s" "gim.more (favour L s) = gim.more s"
  "out (favour L s) = out s" "sm_violations (favour L s) = sm_violations s"
  by (simp_all add: favour_def resetFavoritePointableId_def)

lemma favour_idem: "favour L (favour L s) = favour L s"
  by (simp add: favour_def resetFavoritePointableId_def)

lemma favour_cases: "favour L s = s \<or> favour L s = s\<lparr>m_favoritePointableId := m_foremostPointableId s\<rparr>"
  by (simp add: favour_def resetFavoritePointableId_def)

text \<open>The actions each helper may emit.\<close>

abbreviation effect_actions :: "effect \<Rightarrow> action list" where "effect_actions e \<equiv> fst (snd (snd e))"
abbreviation effect_violations :: "effect \<Rightarrow> violation list" where
  "effect_violations e \<equiv> snd (snd (snd e))"

lemma core_is_drawing:
  "list_all is_drawing (drawGestureOverlayCore L a b c d e f g h i j k l)"
  unfolding drawGestureOverlayCore_def small_dot_def Let_def by simp

lemma draw_is_drawing [simp]:
  "list_all is_drawing (effect_actions (drawOverlayForPointable_fx L p i a dt s))"
  "list_all is_drawing (effect_actions (drawOverlayForHand_fx L h i a s))"
  "list_all is_drawing (effect_actions (drawGestureOverlayForHand_fx L h r sc a po b1 b2 b3 b4 s))"
  "list_all is_drawing (effect_actions (drawGestureOverlayForPointable_fx L p r sc a po b1 b2 b3 b4 s))"
     apply (simp add: drawOverlayForPointable_fx_def Let_def split: prod.split)
    apply (simp add: drawOverlayForHand_fx_def Let_def split: prod.split)
   apply (simp add: drawGestureOverlayForHand_fx_def Let_def core_is_drawing split: prod.split)
  apply (simp add: drawGestureOverlayForPointable_fx_def Let_def core_is_drawing split: prod.split)
  done

lemma touch_points_silent [simp]:
  "effect_actions (addTouchPointForHand_fx L h b s) = []"
  "effect_actions (addTouchPointForPointable_fx L i p b dt s) = []"
  "effect_violations (addTouchPointForHand_fx L h b s) = []"
  "effect_violations (addTouchPointForPointable_fx L i p b dt s) = []"
  by (simp_all add: addTouchPointForHand_fx_def addTouchPointForPointable_fx_def Let_def split: prod.split)

lemma draw_violations [simp]:
  "effect_violations (drawOverlayForPointable_fx L p i a dt s) = []"
  "effect_violations (drawOverlayForHand_fx L h i a s) = []"
  "effect_violations (drawGestureOverlayForHand_fx L h r 1 a po b1 False b3 b4 s) = []"
  "effect_violations (drawGestureOverlayForPointable_fx L p r 1 a po b1 False b3 b4 s) = []"
  by (simp_all add: drawOverlayForPointable_fx_def drawOverlayForHand_fx_def
      drawGestureOverlayForHand_fx_def drawGestureOverlayForPointable_fx_def overlay_asserts_def
      Let_def split: prod.split)

lemma cursor_violations [simp]:
  "effect_violations (fst (setAbsoluteCursorPositionHand_fx L h s)) = []"
  "effect_violations (fst (setAbsoluteCursorPositionPointable_fx L p s)) = []"
  by (simp_all add: setAbsoluteCursorPositionHand_fx_def setAbsoluteCursorPositionPointable_fx_def
      Let_def split: prod.split)

lemma cursor_quiet [simp]:
  "buttons (effect_actions (fst (setAbsoluteCursorPositionHand_fx L h s))) d = d"
  "buttons (effect_actions (fst (setAbsoluteCursorPositionPointable_fx L p s))) d = d"
  "gestures (effect_actions (fst (setAbsoluteCursorPositionHand_fx L h s))) g = g"
  "gestures (effect_actions (fst (setAbsoluteCursorPositionPointable_fx L p s))) g = g"
  by (auto simp: setAbsoluteCursorPositionHand_fx_def setAbsoluteCursorPositionPointable_fx_def
      setAbsoluteCursorPosition_def Let_def button_step_quiet gesture_step_quiet split: prod.splits)

lemma draw_quiet [simp]:
  "buttons (effect_actions (drawOverlayForPointable_fx L p i a dt s)) d = d"
  "buttons (effect_actions (drawOverlayForHand_fx L h i a s)) d = d"
  "buttons (effect_actions (drawGestureOverlayForHand_fx L h r sc a po b1 b2 b3 b4 s)) d = d"
  "buttons (effect_actions (drawGestureOverlayForPointable_fx L p r sc a po b1 b2 b3 b4 s)) d = d"
  "gestures (effect_actions (drawOverlayForPointable_fx L p i a dt s)) g = g"
  "gestures (effect_actions (drawOverlayForHand_fx L h i a s)) g = g"
  "gestures (effect_actions (drawGestureOverlayForHand_fx L h r sc a po b1 b2 b3 b4 s)) g = g"
  "gestures (effect_actions (drawGestureOverlayForPointable_fx L p r sc a po b1 b2 b3 b4 s)) g = g"
  by (simp_all add: drawings_quiet)

lemma hide_icons_quiet [simp]: "buttons (hide_icons i j) d = d" "gestures (hide_icons i j) g = g"
  by (simp_all add: drawings_quiet hide_icons_def list_all_iff)

lemma call_quiet [simp]:
  "buttons (effect_actions (call_fx L c s)) d = d" "gestures (effect_actions (call_fx L c s)) g = g"
  by (cases c; simp)+

text \<open>The calls that keep every assertion, and the readings the calls leave alone.\<close>

fun call_safe :: "('f, 'h, 'p, 'e) env_scheme \<Rightarrow> ('h, 'p) call \<Rightarrow> bool" where
  "call_safe L (DrawGestureOverlayForHand h r sc a po dh dv vg hg) \<longleftrightarrow> 0 \<le> sc \<and> \<not> (dh \<and> dv)"
| "call_safe L (DrawGestureOverlayForPointable p r sc a po dh dv vg hg) \<longleftrightarrow> 0 \<le> sc \<and> \<not> (dh \<and> dv)"
| "call_safe L (TrackHand h) \<longleftrightarrow> h_valid L h"
| "call_safe L (TrackPointable p) \<longleftrightarrow> p_valid L p"
| "call_safe L c \<longleftrightarrow> True"

lemma call_safe_violations [simp]: "call_safe L c \<Longrightarrow> effect_violations (call_fx L c s) = []"
  by (cases c)
    (auto simp: drawGestureOverlayForHand_fx_def drawGestureOverlayForPointable_fx_def
      overlay_asserts_def Let_def split: prod.split)

lemma touches_ok_perform [simp]:
  "touches_ok (m_touchEvent (perform L c s)) \<longleftrightarrow> touches_ok (m_touchEvent s)"
proof -
  have "touches_ok (fst (snd (call_fx L c s))) \<longleftrightarrow> touches_ok (m_touchEvent s)"
    by (cases c) (auto simp: drawOverlayForPointable_fx_def drawOverlayForHand_fx_def
        drawGestureOverlayForHand_fx_def drawGestureOverlayForPointable_fx_def
        addTouchPointForHand_fx_def addTouchPointForPointable_fx_def effect_here_def
        setAbsoluteCursorPositionHand_fx_def setAbsoluteCursorPositionPointable_fx_def Let_def
        addTouchPoint_def split: prod.split)
  then show ?thesis by (simp add: perform_def)
qed

section \<open>The readings of a well-formed manager\<close>

definition gim_ok :: "('st, 'f, 'p, 'm) gim_scheme \<Rightarrow> bool" where
  "gim_ok s \<longleftrightarrow>
     pointable_count_filter.cf_good (m_filteredPointableCount s) \<and>
     m_categories (m_filteredPointableCount s) = [0..<MAX_POINTABLES] \<and>
     m_uniformCategorizationThreshold (m_filteredPointableCount s) = 8 / 10 \<and>
     rts_filter.cf_good (m_filteredRTS s) \<and>
     m_categories (m_filteredRTS s) = [ROTATING, TRANSLATING, SCALING] \<and>
     m_uniformCategorizationThreshold (m_filteredRTS s) = 9 / 10 \<and>
     th_sorted (th_pairs (m_timedFrameHistory s)) \<and>
     m_historyDuration (m_timedFrameHistory s) = 500 * MILLISECONDS \<and>
     touches_ok (m_touchEvent s)"

lemma count_is_iff:
  "gim_ok s \<Longrightarrow> count_is P s \<longleftrightarrow> (\<exists>c<MAX_POINTABLES. pointableCount s = Some c \<and> P c)"
proof -
  assume ok: "gim_ok s"
  let ?F = "m_filteredPointableCount s"
  have g: "pointable_count_filter.cf_good ?F" and c: "m_categories ?F = [0..<MAX_POINTABLES]"
    using ok by (auto simp: gim_ok_def)
  note d = pointable_count_filter.decision [OF g]
  have "c < MAX_POINTABLES" if "pointableCount s = Some c" for c
    using d(2) [of c] that \<open>m_categories ?F = _\<close>
    by (auto simp: pointableCount_def MAX_POINTABLES_def)
  then show ?thesis
    using d(3) by (auto simp: count_is_def pointableCount_def pointableCountIsUnambiguous_def
        split: option.splits)
qed

lemma unambiguous_iff: "gim_ok s \<Longrightarrow> pointableCountIsUnambiguous s \<longleftrightarrow> pointableCount s \<noteq> None"
  using pointable_count_filter.decision(3) [of "m_filteredPointableCount s"]
  by (simp add: gim_ok_def pointableCount_def pointableCountIsUnambiguous_def)

lemma rts_unambiguous_iff: "gim_ok s \<Longrightarrow> rtsIsUnambiguous s \<longleftrightarrow> rts s \<noteq> None"
  using rts_filter.decision(3) [of "m_filteredRTS s"]
  by (simp add: gim_ok_def rts_def rtsIsUnambiguous_def)

text \<open>Every pointable's hand is found in the map of best pointables.\<close>

lemma best_pointables_total:
  "p \<in> set ps \<Longrightarrow> best_pointables L frame ps (h_id L (p_hand L p)) \<noteq> None"
proof -
  have "best h \<noteq> None \<or> h \<in> (\<lambda>p. h_id L (p_hand L p)) ` set ps \<Longrightarrow>
        fold (best_pointable_step L frame) ps best h \<noteq> None" for best h
  proof (induction ps arbitrary: best)
    case (Cons q ps)
    then show ?case
      by (auto simp: best_pointable_step_def Let_def split: option.splits intro!: Cons.IH)
  qed simp
  then show "p \<in> set ps \<Longrightarrow> best_pointables L frame ps (h_id L (p_hand L p)) \<noteq> None"
    unfolding best_pointables_def by blast
qed

lemma foremost_least:
  "foremost L ps b \<in> insert b (set ps) \<and>
   (\<forall>q\<in>insert b (set ps). vz (p_stabilizedTipPosition L (foremost L ps b)) \<le> vz (p_stabilizedTipPosition L q))"
proof (induction L ps b rule: foremost.induct)
  case (2 L p ps best)
  then show ?case by (cases "vz (p_stabilizedTipPosition L p) < vz (p_stabilizedTipPosition L best)") auto
qed simp

section \<open>A frame keeps the manager well formed\<close>

lemma ensure_SetWindow:
  "ensureValuesAreCached rolling_filter (with_filter (SetWindow w) c)
     = with_filter (SetWindow w) (ensureValuesAreCached rolling_filter c)"
  by (simp add: ensureValuesAreCached_def with_filter_def rolling_filter_def Let_def split: prod.split)

lemma with_filter_fields [simp]:
  "m_categories (with_filter g c) = m_categories c" "m_indexMap (with_filter g c) = m_indexMap c"
  "m_valuesAreCached (with_filter g c) = m_valuesAreCached c"
  "m_uniformCategorizationThreshold (with_filter g c) = m_uniformCategorizationThreshold c"
  "(with_filter g c)\<lparr>m_valuesAreCached := b\<rparr> = with_filter g (c\<lparr>m_valuesAreCached := b\<rparr>)"
  by (simp_all add: with_filter_def)

lemma cf_good_SetWindow:
  "pointable_count_filter.cf_good c \<Longrightarrow> pointable_count_filter.cf_good (with_filter (SetWindow w) c)"
  "rts_filter.cf_good d \<Longrightarrow> rts_filter.cf_good (with_filter (SetWindow w) d)"
  by (auto simp: pointable_count_filter.cf_good_def rts_filter.cf_good_def ensure_SetWindow)
    (auto simp: with_filter_def rolling_good_SetWindow)

text \<open>The three probabilities the SDK reports are a distribution or all zero.\<close>

definition sdk_probabilities :: "('f, 'h, 'p, 'e) env_scheme \<Rightarrow> bool" where
  "sdk_probabilities L \<longleftrightarrow>
     (\<forall>f g. let v = [fr_rotationProbability L f g, fr_translationProbability L f g,
                     fr_scaleProbability L f g]
            in list_all (\<lambda>x. 0 \<le> x) v \<and> (sum_list v = 0 \<or> sum_list v = 1))"

lemma rtsProbabilityVector_ok:
  assumes "sdk_probabilities L"
  shows "prob_vec 3 (fst (rtsProbabilityVector L s))" "snd (rtsProbabilityVector L s) = []"
proof -
  note am = rts_filter.prob_vec_ambiguous
  show "prob_vec 3 (fst (rtsProbabilityVector L s))"
    using am assms
    by (auto simp: rtsProbabilityVector_def sdk_probabilities_def prob_vec_def Let_def
        split: list.splits prod.splits)
  show "snd (rtsProbabilityVector L s) = []"
  proof (cases "getFrameHavingAgeAtLeast (m_timedFrameHistory s) (20 * MILLISECONDS)")
    case (Cons q qs)
    let ?v = "[fr_rotationProbability L (m_currentFrame s) (snd q),
      fr_translationProbability L (m_currentFrame s) (snd q),
      fr_scaleProbability L (m_currentFrame s) (snd q)]"
    have "sum_list ?v = 0 \<or> sum_list ?v = 1"
      using assms by (auto simp: sdk_probabilities_def Let_def)
    moreover have "snd (rtsProbabilityVector L s) =
        (if sum_list ?v = 0 \<or> \<bar>sum_list ?v - 1\<bar> < 1 / 100000 then [] else [OwnerAssertion 251])"
      by (cases q) (simp add: rtsProbabilityVector_def Cons Let_def)
    ultimately show ?thesis by (elim disjE) (simp_all only:, simp_all)
  qed (simp add: rtsProbabilityVector_def)
qed

lemma update_count_ok:
  assumes "pointable_count_filter.cf_good c" "m_categories c = [0..<MAX_POINTABLES]"
  shows "\<exists>d. updateWithCategory rolling_filter (count_category n) 1 c = Some d \<and> pointable_count_filter.cf_good d \<and> m_categories d = [0..<MAX_POINTABLES] \<and>
       m_uniformCategorizationThreshold d = m_uniformCategorizationThreshold c"
proof -
  let ?x = "count_category n"
  have "?x \<in> set (m_categories c)" by (simp add: assms(2) MAX_POINTABLES_def count_category_def)
  from pointable_count_filter.cf_good_updateWithCategory [OF assms(1) this, of 1]
  obtain d where "updateWithCategory rolling_filter ?x 1 c = Some d" "pointable_count_filter.cf_good d"
    by auto
  then show ?thesis
    using assms(2) by (auto simp: updateWithCategory_def updateWithProbabilityVector_def split: option.splits)
qed

lemma observe_frame_ok:
  assumes ok: "gim_ok s" and ord: "addFrame_in_order (fr_timestamp L frame) (m_timedFrameHistory s)"
    and pr: "sdk_probabilities L"
  obtains t where "observe_frame L V frame since s = Some t" "gim_ok t"
    "m_currentFrame t = frame" "m_sinceFrame t = since"
    "sm_current t = sm_current s" "sm_next t = sm_next s" "sm_running t = sm_running s"
    "sm_logger t = sm_logger s"
    "sm_violations t = sm_violations s" "out t = out s" "gim.more t = gim.more s"
proof -
  have h: "th_sorted (th_pairs (addFrame (fr_timestamp L frame) frame (m_timedFrameHistory s)))"
    using ok ord by (simp add: gim_ok_def th_sorted_addFrame)
  from ok have "pointable_count_filter.cf_good (m_filteredPointableCount s)"
    "m_categories (m_filteredPointableCount s) = [0..<MAX_POINTABLES]" by (auto simp: gim_ok_def)
  note c = update_count_ok [OF this]
  note p = rtsProbabilityVector_ok [OF pr]
  have r: "prob_vec 3 q \<Longrightarrow>
      rts_filter.cf_good (updateWithProbabilityVector rolling_filter q 1 (m_filteredRTS s))" for q
    using ok by (intro rts_filter.cf_good_update) (auto simp: gim_ok_def)
  have rf: "m_categories (updateWithProbabilityVector rolling_filter q 1 (m_filteredRTS s)) =
        m_categories (m_filteredRTS s)"
    "m_uniformCategorizationThreshold (updateWithProbabilityVector rolling_filter q 1 (m_filteredRTS s)) =
        m_uniformCategorizationThreshold (m_filteredRTS s)" for q
    by (simp_all add: updateWithProbabilityVector_def)
  define ps where "ps = v_identifyRelevantPointables V frame (fr_pointables L frame)"
  from c [of "length ps"] obtain d where d:
    "updateWithCategory rolling_filter (count_category (length ps)) 1 (m_filteredPointableCount s) = Some d"
    "pointable_count_filter.cf_good d" "m_categories d = [0..<MAX_POINTABLES]"
    "m_uniformCategorizationThreshold d = m_uniformCategorizationThreshold (m_filteredPointableCount s)"
    by blast
  have a: "sm_assert (addFrame_in_order (fr_timestamp L frame) (m_timedFrameHistory s)) v s = s" for v
    using ord by simp
  have "case observe_frame L V frame since s of None \<Rightarrow> False | Some t \<Rightarrow>
      gim_ok t \<and> m_currentFrame t = frame \<and> m_sinceFrame t = since \<and>
      sm_current t = sm_current s \<and> sm_next t = sm_next s \<and> sm_running t = sm_running s \<and>
      sm_logger t = sm_logger s \<and> sm_violations t = sm_violations s \<and> out t = out s \<and>
      gim.more t = gim.more s"
    unfolding observe_frame_def Let_def a
    using ok h d rf
    by (simp add: gim_ok_def cf_good_SetWindow r [OF p(1)] p(2) split_beta ps_def [symmetric])
  then show thesis using that by (auto split: option.splits)
qed

section \<open>Construction\<close>

lemma new_filter_ok:
  assumes "0 < n" "length cs = n" "distinct cs"
  shows "\<exists>c. CategoricalFilter rolling_filter cs (RollingMean n) t = Inr c \<and> m_categories c = cs \<and>
    m_uniformCategorizationThreshold c = t"
proof -
  obtain m where "index_map cs 0 [] = Inr m"
    using index_map_distinct [of cs "[]" 0] assms(3) by auto
  then show ?thesis
    by (simp add: CategoricalFilter_def cf_reset_def updateWithProbabilityVector_def Let_def)
qed

lemma gim_new:
  "\<exists>g. GestureInteractionManager L = Inr g \<and> gim_ok g \<and> out g = [] \<and> machine.truncate g = sm_new \<and>
     m_timedFrameHistory g = TimedHistory (500 * MILLISECONDS)"
proof -
  obtain c where c: "CategoricalFilter rolling_filter [0..<MAX_POINTABLES] (RollingMean MAX_POINTABLES) (8 / 10) = Inr c"
    "m_categories c = [0..<MAX_POINTABLES]" "m_uniformCategorizationThreshold c = 8 / 10"
    using new_filter_ok [of MAX_POINTABLES "[0..<MAX_POINTABLES]" "8 / 10"] by (auto simp: MAX_POINTABLES_def)
  obtain r where r: "CategoricalFilter rolling_filter [ROTATING, TRANSLATING, SCALING] (RollingMean 3) (9 / 10) = Inr r"
    "m_categories r = [ROTATING, TRANSLATING, SCALING]" "m_uniformCategorizationThreshold r = 9 / 10"
    using new_filter_ok [of 3 "[ROTATING, TRANSLATING, SCALING]" "9 / 10"] by auto
  have "pointable_count_filter.cf_good c"
    using c(1) by (intro pointable_count_filter.cf_good_new [OF _ rolling_fresh_new, of "[0..<10]" "8 / 10"])
      (simp_all add: MAX_POINTABLES_def)
  moreover have "rts_filter.cf_good r"
    using r(1) by (intro rts_filter.cf_good_new [OF _ rolling_fresh_new, of "[ROTATING, TRANSLATING, SCALING]" "9 / 10"])
      simp_all
  ultimately show ?thesis
    using c r by (simp add: GestureInteractionManager_def new_filter_def gim_ok_def cf_good_SetWindow
        TimedHistory_def machine.defs gim.defs sm_new_def)
qed

end
