(* ===== verification/Basic_Mode.thy ===== *)
theory Basic_Mode
  imports Interaction_Manager
begin

text \<open>
  The basic (and intro) mode, \<open>source/GestureInteraction/BasicMode.cpp\<close>: a state machine with one
  state per handler, run once per frame. The static configuration flags are a record that the
  handlers receive; \<open>UseMouseOutput\<close> comes from the platform. A \<open>case\<close> that falls through to the
  next one is a prefix that changes the state only when its own input arrives. Members that the
  constructor leaves uninitialised are arguments of the constructor.
\<close>

section \<open>State\<close>

datatype bm_state =
    State_BasicMode_0Pointables_NoInteraction
  | State_BasicMode_1Pointable_Hovering
  | State_BasicMode_1Pointable_ClickCooldown
  | State_BasicMode_2PlusPointables_Hovering
  | State_BasicMode_2PlusPointables_Scrolling
  | State_BasicMode_2Hands_Hovering
  | State_BasicMode_2Hands_GestureRecognition
  | State_BasicMode_2Hands_Rotating
  | State_BasicMode_2Hands_Zooming
  | State_BasicMode_2Hands_Touch
  | State_BasicMode_Palm_GestureRecognition
  | State_BasicMode_Palm_Swipe

abbreviation OMB_PROCESS_FRAME :: sm_input where "OMB_PROCESS_FRAME \<equiv> 0"
abbreviation OMB_LOST_FOCUS :: sm_input where "OMB_LOST_FOCUS \<equiv> 1"

record bm_config =
  DisableClicking :: bool
  DisablePalmSwipe :: bool
  DisableHorizontalScrolling :: bool
  TranslationScaleFactor :: real
  ZoomScaleFactor :: real

definition bm_config_default :: bm_config where
  "bm_config_default = \<lparr>DisableClicking = False, DisablePalmSwipe = True,
     DisableHorizontalScrolling = True, TranslationScaleFactor = 3 / 2, ZoomScaleFactor = 3 / 2\<rparr>"

definition SetIntroMode :: "bm_config \<Rightarrow> bm_config" where
  "SetIntroMode c = c\<lparr>DisableClicking := True, DisablePalmSwipe := False\<rparr>"

definition SetBasicMode :: "bm_config \<Rightarrow> bm_config" where
  "SetBasicMode c = c\<lparr>DisableClicking := False, DisablePalmSwipe := True\<rparr>"

record ('f, 'p) basic = "(bm_state, 'f, 'p) gim" +
  m_drawOverlays :: bool
  m_noTouching :: bool
  m_clickDuration :: int
  m_clickNumber :: int
  m_clickDown :: bool
  m_lastClickTime :: int
  m_lastClickLocation :: vec
  m_gestureStart :: 'f
  m_clickDownScreenPosition :: vec
  m_scrollStartPosition :: vec
  m_scrollDrawCount :: int
  m_lastNumIcons :: int
  m_charmsMode :: int
  m_lastStateChangeTime :: int
  m_favoriteHandId :: int
  m_clickPointable :: 'p
  m_updateCursor :: bool

definition BasicMode ::
  "('f, 'h, 'p, 'e) env_scheme \<Rightarrow> int \<Rightarrow> int \<Rightarrow> int \<Rightarrow> categorical_error + ('f, 'p) basic" where
  "BasicMode L scrollDrawCount lastStateChangeTime favoriteHandId =
     (case GestureInteractionManager L of
        Inl e \<Rightarrow> Inl e
      | Inr g \<Rightarrow> Inr (gim.extend g
          (basic.fields True True 0 0 False 0 0 (invalid_frame L) 0 0 scrollDrawCount 0 (-1)
             lastStateChangeTime favoriteHandId (invalid_pointable L) True)))"

type_synonym ('f, 'p) bm = "('f, 'p) basic"

section \<open>Helpers\<close>

definition now :: "('f, 'h, 'p, 'e) env_scheme \<Rightarrow> ('f, 'p) bm \<Rightarrow> int" where
  "now L s = fr_timestamp L (m_currentFrame s)"

definition pointable :: "('f, 'h, 'p, 'e) env_scheme \<Rightarrow> ('f, 'p) bm \<Rightarrow> int \<Rightarrow> 'p" where
  "pointable L s i = fr_pointable L (m_currentFrame s) i"

definition favorite_hand :: "('f, 'h, 'p, 'e) env_scheme \<Rightarrow> ('f, 'p) bm \<Rightarrow> 'h" where
  "favorite_hand L s = fr_hand L (m_currentFrame s) (m_favoriteHandId s)"

definition favorite_pointable :: "('f, 'h, 'p, 'e) env_scheme \<Rightarrow> ('f, 'p) bm \<Rightarrow> 'p" where
  "favorite_pointable L s = pointable L s (m_favoritePointableId s)"

definition fade_alpha :: "('f, 'h, 'p, 'e) env_scheme \<Rightarrow> ('f, 'p) bm \<Rightarrow> real" where
  "fade_alpha L s = alphaFromTimeVisible (seconds_between (now L s) (m_lastStateChangeTime s))"

text \<open>The overriding cursor methods: they do nothing while the cursor is frozen.\<close>

definition bm_setAbsoluteCursorPositionHand ::
  "('f, 'h, 'p, 'e) env_scheme \<Rightarrow> ('f, 'p) bm \<Rightarrow> ('f, 'p) bm" where
  "bm_setAbsoluteCursorPositionHand L s =
     (if \<not> m_updateCursor s then s
      else perform L (SetAbsoluteCursorPositionHand (favorite_hand L s)) s)"

definition bm_setAbsoluteCursorPositionPointable ::
  "('f, 'h, 'p, 'e) env_scheme \<Rightarrow> ('f, 'p) bm \<Rightarrow> ('f, 'p) bm" where
  "bm_setAbsoluteCursorPositionPointable L s =
     (if \<not> m_updateCursor s then s
      else (let s1 = favour L s in
            perform L (SetAbsoluteCursorPositionPointable (favorite_pointable L s1)) s1))"

text \<open>The same with \<open>&m_clickDownScreenPosition\<close> as the output.\<close>

definition bm_setClickPosition :: "('f, 'h, 'p, 'e) env_scheme \<Rightarrow> ('f, 'p) bm \<Rightarrow> ('f, 'p) bm" where
  "bm_setClickPosition L s =
     (if \<not> m_updateCursor s then s
      else (let s1 = favour L s;
                p = favorite_pointable L s1;
                s2 = perform L (SetAbsoluteCursorPositionPointable p) s1
            in case snd (setAbsoluteCursorPositionPointable_fx L p s1) of
                 None \<Rightarrow> s2
               | Some pos \<Rightarrow> s2\<lparr>m_clickDownScreenPosition := pos\<rparr>))"

definition generateScrollBetweenFrames ::
  "('f, 'h, 'p, 'e) env_scheme \<Rightarrow> bm_config \<Rightarrow> 'f \<Rightarrow> 'f \<Rightarrow> action list" where
  "generateScrollBetweenFrames L c cur since =
     (let tr = fr_translation L cur since;
          dt = fr_timestamp L cur - fr_timestamp L since;
          t = vscale (damp_at tr (of_int dt / of_int SECONDS)) tr;
          dx = (if DisableHorizontalScrolling c then 0 else TranslationScaleFactor c * vx t);
          dy = - TranslationScaleFactor c * vy t
      in [ApplyScroll dx dy dt])"

definition generateDesktopSwipeBetweenFrames ::
  "('f, 'h, 'p, 'e) env_scheme \<Rightarrow> 'f \<Rightarrow> 'f \<Rightarrow> action list" where
  "generateDesktopSwipeBetweenFrames L cur since =
     (let tr = fr_translation L cur since;
          dt = fr_timestamp L cur - fr_timestamp L since;
          t = vscale (damp_at tr (of_int dt / of_int SECONDS)) tr
      in [ApplyDesktopSwipe (vx t) (- vy t)])"

text \<open>The foremost pointables of the first two forward-pointing hands, when there are two.\<close>

definition two_hands :: "('f, 'h, 'p, 'e) env_scheme \<Rightarrow> 'f \<Rightarrow> (int \<times> int) option" where
  "two_hands L frame =
     (let hands = fr_hands L frame in
      if length hands > 1 then
        (case filter (\<lambda>h. h_pointables L h \<noteq> [] \<and> vz (h_direction L h) < 0) hands of
           h1 # h2 # _ \<Rightarrow> Some (foremostPointableIdOfHand L h1, foremostPointableIdOfHand L h2)
         | _ \<Rightarrow> None)
      else None)"

definition shouldBeInMultiHandMode ::
  "('f, 'h, 'p, 'e) env_scheme \<Rightarrow> ('f, 'p) bm \<Rightarrow> (int \<times> int) option" where
  "shouldBeInMultiHandMode L s = two_hands L (m_currentFrame s)"

definition multi_hand :: "('f, 'h, 'p, 'e) env_scheme \<Rightarrow> ('f, 'p) bm \<Rightarrow> bool" where
  "multi_hand L s \<longleftrightarrow> shouldBeInMultiHandMode L s \<noteq> None"

definition palm_swipe :: "('f, 'h, 'p, 'e) env_scheme \<Rightarrow> bm_config \<Rightarrow> 'f \<Rightarrow> bool" where
  "palm_swipe L c frame \<longleftrightarrow>
     (case fr_hands L frame of
        [] \<Rightarrow> False
      | h # _ \<Rightarrow> \<not> DisablePalmSwipe c \<and> \<bar>vx (h_palmNormal L h)\<bar> \<ge> 3 / 4 \<and>
          vz (h_palmPosition L h) \<le> 150)"

definition shouldBeInPalmSwipeMode ::
  "('f, 'h, 'p, 'e) env_scheme \<Rightarrow> bm_config \<Rightarrow> ('f, 'p) bm \<Rightarrow> bool" where
  "shouldBeInPalmSwipeMode L c s \<longleftrightarrow> palm_swipe L c (m_currentFrame s)"

definition hasFingersTouching :: "('f, 'h, 'p, 'e) env_scheme \<Rightarrow> 'h \<Rightarrow> bool" where
  "hasFingersTouching L hand \<longleftrightarrow>
     h_valid L hand \<and> list_ex (\<lambda>p. p_touchZone L p = ZONE_TOUCHING) (h_pointables L hand)"

definition bm_goto :: "bm_state \<Rightarrow> ('f, 'p) bm \<Rightarrow> ('f, 'p) bm" where
  "bm_goto st s = SetNextState (Some st) s"

text \<open>The state \<open>BasicMode_TransitionTo_NPointables_NoInteraction\<close> chooses.\<close>

definition n_pointables_state ::
  "('f, 'h, 'p, 'e) env_scheme \<Rightarrow> bm_config \<Rightarrow> ('f, 'p) bm \<Rightarrow> bm_state" where
  "n_pointables_state L c s =
     (if multi_hand L s then State_BasicMode_2Hands_Hovering
      else if shouldBeInPalmSwipeMode L c s then State_BasicMode_Palm_GestureRecognition
      else (let pointable_count =
              (if pointableCountIsUnambiguous s
               then (case pointableCount s of Some k \<Rightarrow> k | None \<Rightarrow> 0) else 0) in
            if pointable_count = 0 then State_BasicMode_0Pointables_NoInteraction
            else if pointable_count = 1 then
              (if DisableClicking c then State_BasicMode_2PlusPointables_Hovering
               else State_BasicMode_1Pointable_Hovering)
            else State_BasicMode_2PlusPointables_Hovering))"

definition BasicMode_TransitionTo_NPointables_NoInteraction ::
  "('f, 'h, 'p, 'e) env_scheme \<Rightarrow> bm_config \<Rightarrow> ('f, 'p) bm \<Rightarrow> ('f, 'p) bm" where
  "BasicMode_TransitionTo_NPointables_NoInteraction L c s =
     bm_goto (n_pointables_state L c s) (s\<lparr>m_lastStateChangeTime := now L s\<rparr>)"

text \<open>The condition on top of most handlers, for the counts that leave the group.\<close>

definition group_changed ::
  "('f, 'h, 'p, 'e) env_scheme \<Rightarrow> bm_config \<Rightarrow> (nat \<Rightarrow> bool) \<Rightarrow> ('f, 'p) bm \<Rightarrow> bool" where
  "group_changed L c leaves s \<longleftrightarrow>
     count_is leaves s \<or> multi_hand L s \<or> shouldBeInPalmSwipeMode L c s"

section \<open>The handlers\<close>

type_synonym ('f, 'p) bm_result = "bool \<times> ('f, 'p) bm"

definition h_0Pointables_NoInteraction ::
  "('f, 'h, 'p, 'e) env_scheme \<Rightarrow> bm_config \<Rightarrow> sm_input \<Rightarrow> ('f, 'p) bm \<Rightarrow> ('f, 'p) bm_result" where
  "h_0Pointables_NoInteraction L c input s =
     (if input = SM_ENTER \<or> input = OMB_PROCESS_FRAME then
        (let s1 = (if input = SM_ENTER then s\<lparr>m_updateCursor := True, m_drawOverlays := True\<rparr> else s) in
         if group_changed L c (\<lambda>k. k > 0) s1
         then (True, BasicMode_TransitionTo_NPointables_NoInteraction L c s1)
         else
           (let s2 = emit (hide_icons 0 (gm_numOverlayImages s1)) s1;
                s3 = perform L ClearTracker s2
            in (True, s3\<lparr>m_charmsMode := -1\<rparr>)))
      else if input = OMB_LOST_FOCUS then (True, s)
      else (False, s))"

text \<open>A click: down at the favourite pointable, counted with the previous ones.\<close>

definition click_down :: "('f, 'h, 'p, 'e) env_scheme \<Rightarrow> ('f, 'p) bm \<Rightarrow> ('f, 'p) bm" where
  "click_down L s =
     (let s1 = bm_setClickPosition L s;
          stale = now L s1 - m_lastClickTime s1 > 3 * SECONDS \<or>
                  distanceTo (m_clickDownScreenPosition s1) (m_lastClickLocation s1) > 50 \<or>
                  m_clickNumber s1 = 3;
          n = (if stale then 0 else m_clickNumber s1) + 1
      in emit [ClickDown 0 n]
           (s1\<lparr>m_clickNumber := n, m_clickDown := True,
               m_lastClickLocation := m_clickDownScreenPosition s1\<rparr>))"

text \<open>
  The Windows 8 charms helper; \<open>applyCharms\<close> does nothing on other platforms. The driver's rule
  for the mode is that of \<open>OSInteractionWin.cpp\<close>.
\<close>

definition charms_mode :: "vec \<Rightarrow> int \<Rightarrow> int \<Rightarrow> int" where
  "charms_mode aspect numPointablesActive charmsMode =
     (if charmsMode = 0 \<and> numPointablesActive = 1 then
        (if vx aspect \<ge> 107 / 100 then 1
         else if vx aspect \<le> - 7 / 100 then 2
         else if vy aspect \<le> - 7 / 100 then 3
         else charmsMode)
      else if vx aspect \<ge> 5 / 100 \<and> vx aspect \<le> 95 / 100 \<and>
              vy aspect \<ge> 5 / 100 \<and> vy aspect \<le> 95 / 100 then 0
      else charmsMode)"

definition apply_charms :: "('f, 'h, 'p, 'e) env_scheme \<Rightarrow> vec \<Rightarrow> ('f, 'p) bm \<Rightarrow> ('f, 'p) bm" where
  "apply_charms L aspect s =
     (let n = int (length (m_relevantPointables s)) in
      if e_platform L = Windows
      then emit [ApplyCharms aspect n (m_charmsMode s)]
             (s\<lparr>m_charmsMode := charms_mode aspect n (m_charmsMode s)\<rparr>)
      else s)"

definition charms_helper :: "('f, 'h, 'p, 'e) env_scheme \<Rightarrow> 'p \<Rightarrow> ('f, 'p) bm \<Rightarrow> ('f, 'p) bm" where
  "charms_helper L p s =
     (if e_touchVersion L = 8 \<and> e_useCharmHelper L then
        (let s1 = (if p_valid L p then perform L (TrackPointable p) s else s);
             normPos = m_interactionBox s1 (getTrackedPosition (m_positionalDeltaTracker s1)) False;
             (_, aspect, _) = normalizedToAspect (e_overlay L) normPos 1 False
         in apply_charms L aspect s1)
      else s)"

definition h_1Pointable_Hovering ::
  "('f, 'h, 'p, 'e) env_scheme \<Rightarrow> bm_config \<Rightarrow> sm_input \<Rightarrow> ('f, 'p) bm \<Rightarrow> ('f, 'p) bm_result" where
  "h_1Pointable_Hovering L c input s =
     (if input = OMB_LOST_FOCUS then (True, bm_goto State_BasicMode_0Pointables_NoInteraction s)
      else if input = SM_ENTER \<or> input = OMB_PROCESS_FRAME then
        (let s1 = (if input = SM_ENTER
                   then resetFavoritePointableId (s\<lparr>m_updateCursor := True, m_drawOverlays := True\<rparr>)
                   else s);
             s2 = favour L s1;
             p = favorite_pointable L s2
         in if group_changed L c (\<lambda>k. k \<noteq> 1) s2
            then (True, BasicMode_TransitionTo_NPointables_NoInteraction L c s2)
            else if m_collectiveZone s2 = ZONE_TOUCHING then
              (let s3 = (if UseMouseOutput L then click_down L s2
                         else (let q = fr_pointable L (m_sinceFrame s2) (m_favoritePointableId s2) in
                               perform L (AddTouchPointForPointable (m_favoritePointableId s2) q True True)
                                 (s2\<lparr>m_clickPointable := q\<rparr>)))
               in (True, bm_goto State_BasicMode_1Pointable_ClickCooldown
                           (s3\<lparr>m_lastClickTime := now L s3\<rparr>)))
            else
              (let s3 = (if UseMouseOutput L then bm_setAbsoluteCursorPositionPointable L s2
                         else perform L (AddTouchPointForPointable (m_favoritePointableId s2) p False True) s2);
                   s4 = charms_helper L p s3;
                   s5 = perform L (DrawOverlayForPointable p 0 (fade_alpha L s4) True) s4
               in (True, s5\<lparr>m_lastNumIcons := m_lastNumIcons s5 + 1\<rparr>)))
      else (False, s))"

definition h_1Pointable_ClickCooldown ::
  "('f, 'h, 'p, 'e) env_scheme \<Rightarrow> bm_config \<Rightarrow> sm_input \<Rightarrow> ('f, 'p) bm \<Rightarrow> ('f, 'p) bm_result" where
  "h_1Pointable_ClickCooldown L c input s =
     (if input = OMB_LOST_FOCUS then (True, bm_goto State_BasicMode_0Pointables_NoInteraction s)
      else if input = SM_EXIT then
        (let s1 = (if m_clickDown s then
                     (if UseMouseOutput L
                      then emit [ClickUp 0 (m_clickNumber s)] (s\<lparr>m_clickDown := False\<rparr>)
                      else (let s0 = favour L s in
                            perform L (AddTouchPointForPointable (m_favoritePointableId s0)
                                         (m_clickPointable s0) False True) s0))
                   else s)
         in (True, s1\<lparr>m_clickDuration := 0\<rparr>))
      else if input = SM_ENTER \<or> input = OMB_PROCESS_FRAME then
        (if group_changed L c (\<lambda>k. k \<noteq> 1) s
         then (True, BasicMode_TransitionTo_NPointables_NoInteraction L c s)
         else if m_collectiveZone s \<noteq> ZONE_TOUCHING
         then (True, bm_goto State_BasicMode_1Pointable_Hovering s)
         else
           (let s1 = favour L (s\<lparr>m_clickDuration := now L s - m_lastClickTime s\<rparr>);
                p = favorite_pointable L s1;
                s2 = (if m_clickDuration s1 > 150 * MILLISECONDS then
                        (let t1 = (if m_clickDown s1 then
                                     (if UseMouseOutput L
                                      then emit [ClickUp 0 (m_clickNumber s1)] (s1\<lparr>m_clickDown := False\<rparr>)
                                      else perform L (AddTouchPointForPointable (m_favoritePointableId s1)
                                             (m_clickPointable s1) False True) (s1\<lparr>m_clickDown := False\<rparr>))
                                   else s1)
                         in if UseMouseOutput L then bm_setAbsoluteCursorPositionPointable L t1 else t1)
                      else if \<not> UseMouseOutput L
                      then perform L (AddTouchPointForPointable (m_favoritePointableId s1)
                             (m_clickPointable s1) True True) s1
                      else s1);
                s3 = perform L (DrawOverlayForPointable p 0 (fade_alpha L s2) True) s2
            in (True, s3\<lparr>m_lastNumIcons := m_lastNumIcons s3 + 1\<rparr>)))
      else (False, s))"

text \<open>
  The part of the hovering handler behind its group check. The hand's id is that of the favourite
  pointable's hand, -1 without one.
\<close>

definition hover_2Plus ::
  "('f, 'h, 'p, 'e) env_scheme \<Rightarrow> bm_config \<Rightarrow> ('f, 'p) bm \<Rightarrow> ('f, 'p) bm_result" where
  "hover_2Plus L c s =
     (let s1 = favour L s; p = favorite_pointable L s1 in
      if m_favoriteHandId s1 < 0 \<and> \<not> p_valid L p then (True, s1)
      else
        (let s2 = (if m_favoriteHandId s1 < 0
                   then s1\<lparr>m_favoriteHandId := h_id L (p_hand L p)\<rparr> else s1)
         in if m_favoriteHandId s2 < 0 then
              (let s3 = (if \<not> UseMouseOutput L
                         then perform L (AddTouchPointForPointable (m_favoritePointableId s2) p False True) s2
                         else s2);
                   s4 = perform L (DrawOverlayForPointable p 0 (fade_alpha L s3) True) s3
               in (True, s4\<lparr>m_lastNumIcons := m_lastNumIcons s4 + 5\<rparr>))
            else
              (let hand = favorite_hand L s2 in
               if \<not> h_valid L hand
               then (True, BasicMode_TransitionTo_NPointables_NoInteraction L c s2)
               else if hasFingersTouching L hand
               then (True, bm_goto State_BasicMode_2PlusPointables_Scrolling s2)
               else
                 (let s3 = (if \<not> UseMouseOutput L
                            then perform L (AddTouchPointForHand hand False) s2 else s2);
                      s4 = (if h_valid L hand then perform L (TrackHand hand) s3 else s3);
                      s5 = perform L (drawScrollOverlayForHand hand 1) s4
                  in (True, s5\<lparr>m_lastNumIcons := m_lastNumIcons s5 + 5\<rparr>)))))"

definition h_2PlusPointables_Hovering ::
  "('f, 'h, 'p, 'e) env_scheme \<Rightarrow> bm_config \<Rightarrow> sm_input \<Rightarrow> ('f, 'p) bm \<Rightarrow> ('f, 'p) bm_result" where
  "h_2PlusPointables_Hovering L c input s =
     (if input = OMB_LOST_FOCUS then (True, bm_goto State_BasicMode_0Pointables_NoInteraction s)
      else if input = SM_ENTER \<or> input = OMB_PROCESS_FRAME then
        (let s1 = (if input = SM_ENTER
                   then favour L ((resetFavoritePointableId (s\<lparr>m_drawOverlays := True\<rparr>))
                                    \<lparr>m_favoriteHandId := -1\<rparr>)
                   else s)
         in if input = SM_ENTER \<and> m_favoritePointableId s1 = -1 then (True, s1)
            else
              (let s2 = (if input = SM_ENTER \<and> UseMouseOutput L
                         then s1\<lparr>m_lastStateChangeTime := now L s1\<rparr> else s1)
               in if group_changed L c (\<lambda>k. (DisableClicking c \<and> k = 0) \<or> (\<not> DisableClicking c \<and> k < 2)) s2
                  then (True, BasicMode_TransitionTo_NPointables_NoInteraction L c s2)
                  else hover_2Plus L c s2))
      else (False, s))"

definition h_2PlusPointables_Scrolling ::
  "('f, 'h, 'p, 'e) env_scheme \<Rightarrow> bm_config \<Rightarrow> sm_input \<Rightarrow> ('f, 'p) bm \<Rightarrow> ('f, 'p) bm_result" where
  "h_2PlusPointables_Scrolling L c input s =
     (if input = OMB_LOST_FOCUS then (True, bm_goto State_BasicMode_0Pointables_NoInteraction s)
      else if input = SM_ENTER then
        (let s1 = s\<lparr>m_drawOverlays := True, m_scrollDrawCount := 0\<rparr>;
             s2 = (if UseMouseOutput L then s1\<lparr>m_lastStateChangeTime := now L s1\<rparr> else s1);
             hand = favorite_hand L s2;
             s3 = sm_assert (h_valid L hand) (OwnerAssertion 502) s2;
             s4 = (if UseMouseOutput L
                   then emit [BeginGesture GestureScroll] (bm_setAbsoluteCursorPositionHand L s3)
                   else perform L (AddTouchPointForHand hand True) s3)
         in (True, if m_updateCursor s4
                   then s4\<lparr>m_scrollStartPosition := getTrackedPosition (m_positionalDeltaTracker s4)\<rparr>
                   else s4))
      else if input = SM_EXIT then
        (let s1 = (if UseMouseOutput L then emit [EndGesture] s
                   else (let hand = favorite_hand L s in
                         perform L (AddTouchPointForHand hand False)
                           (sm_assert (h_valid L hand) (OwnerAssertion 523) s)))
         in (True, s1\<lparr>m_flushOverlay := True\<rparr>))
      else if input = OMB_PROCESS_FRAME then
        (let hand = favorite_hand L s in
         if group_changed L c (\<lambda>k. k = 0) s \<or> \<not> h_valid L hand \<or> \<not> hasFingersTouching L hand
         then (True, BasicMode_TransitionTo_NPointables_NoInteraction L c s)
         else
           (let s1 = (if UseMouseOutput L
                      then emit (generateScrollBetweenFrames L c (m_currentFrame s) (m_sinceFrame s)) s
                      else perform L (AddTouchPointForHand hand True) s);
                s2 = (if h_valid L hand then perform L (TrackHand hand) s1 else s1);
                s3 = (if UseMouseOutput L
                      then perform L (DrawGestureOverlayForHand hand 0 1 (1 - 4 / 10 * fade_alpha L s2)
                                        None False False True False) s2
                      else perform L (DrawGestureOverlayForHand hand 0 1 (fade_alpha L s2)
                                        None False False True True) s2)
            in (True, s3\<lparr>m_lastNumIcons := m_lastNumIcons s3 + 5\<rparr>)))
      else (False, s))"

text \<open>The overlays of the two pointables, drawn untracked.\<close>

definition draw_two :: "('f, 'h, 'p, 'e) env_scheme \<Rightarrow> int \<Rightarrow> int \<Rightarrow> ('f, 'p) bm \<Rightarrow> ('f, 'p) bm" where
  "draw_two L i1 i2 s =
     (let a = fade_alpha L s;
          s1 = perform L (DrawOverlayForPointable (pointable L s i1) 0 a False) s;
          s2 = s1\<lparr>m_lastNumIcons := m_lastNumIcons s1 + 1\<rparr>;
          s3 = perform L (DrawOverlayForPointable (pointable L s2 i2) 1 a False) s2
      in s3\<lparr>m_lastNumIcons := m_lastNumIcons s3 + 1\<rparr>)"

definition h_2Hands_Hovering ::
  "('f, 'h, 'p, 'e) env_scheme \<Rightarrow> bm_config \<Rightarrow> sm_input \<Rightarrow> ('f, 'p) bm \<Rightarrow> ('f, 'p) bm_result" where
  "h_2Hands_Hovering L c input s =
     (if input = OMB_LOST_FOCUS then (True, bm_goto State_BasicMode_0Pointables_NoInteraction s)
      else if input = SM_ENTER \<or> input = OMB_PROCESS_FRAME then
        (let s1 = (if input = SM_ENTER
                   then resetFavoritePointableId (s\<lparr>m_updateCursor := True, m_drawOverlays := True\<rparr>)
                   else s)
         in case shouldBeInMultiHandMode L s1 of
              None \<Rightarrow> (True, BasicMode_TransitionTo_NPointables_NoInteraction L c s1)
            | Some (i1, i2) \<Rightarrow>
                if m_collectiveZone s1 = ZONE_TOUCHING
                then (True, bm_goto (if UseMouseOutput L then State_BasicMode_2Hands_GestureRecognition
                                     else State_BasicMode_2Hands_Touch) s1)
                else
                  (let s2 = (if UseMouseOutput L
                             then perform L (SetAbsoluteCursorPositionPointable (pointable L s1 i1)) s1
                             else perform L (AddTouchPointForPointable i2 (pointable L s1 i2) False False)
                                   (perform L (AddTouchPointForPointable i1 (pointable L s1 i1) False False) s1))
                   in (True, draw_two L i1 i2 s2)))
      else (False, s))"

definition h_2Hands_GestureRecognition ::
  "('f, 'h, 'p, 'e) env_scheme \<Rightarrow> bm_config \<Rightarrow> sm_input \<Rightarrow> ('f, 'p) bm \<Rightarrow> ('f, 'p) bm_result" where
  "h_2Hands_GestureRecognition L c input s =
     (if input = OMB_LOST_FOCUS then (True, bm_goto State_BasicMode_0Pointables_NoInteraction s)
      else if input = SM_ENTER \<or> input = OMB_PROCESS_FRAME then
        (let s1 = (if input = SM_ENTER
                   then s\<lparr>m_updateCursor := True, m_drawOverlays := True, m_gestureStart := m_currentFrame s\<rparr>
                   else s)
         in case shouldBeInMultiHandMode L s1 of
              None \<Rightarrow> (True, BasicMode_TransitionTo_NPointables_NoInteraction L c s1)
            | Some (i1, i2) \<Rightarrow>
                if m_noTouching s1 \<and> m_collectiveZone s1 \<noteq> ZONE_TOUCHING
                then (True, bm_goto State_BasicMode_2Hands_Hovering s1)
                else
                  (let settled = now L s1 - fr_timestamp L (m_gestureStart s1) \<ge> 20 * MILLISECONDS \<and>
                                 rtsIsUnambiguous s1 in
                   if settled \<and> rts s1 = Some ROTATING
                   then (True, bm_goto State_BasicMode_2Hands_Rotating s1)
                   else if settled \<and> rts s1 = Some SCALING
                   then (True, bm_goto State_BasicMode_2Hands_Zooming s1)
                   else (True, draw_two L i1 i2 s1)))
      else (False, s))"

text \<open>\<open>Leap::RAD_TO_DEG\<close> is 180 over pi.\<close>

definition degrees :: "real \<Rightarrow> real" where "degrees r = 180 / pi * r"

definition h_2Hands_Rotating ::
  "('f, 'h, 'p, 'e) env_scheme \<Rightarrow> bm_config \<Rightarrow> sm_input \<Rightarrow> ('f, 'p) bm \<Rightarrow> ('f, 'p) bm_result" where
  "h_2Hands_Rotating L c input s =
     (if input = OMB_LOST_FOCUS then (True, bm_goto State_BasicMode_0Pointables_NoInteraction s)
      else if input = SM_ENTER then
        (True, emit [BeginGesture GestureRotate,
                     ApplyRotation (- degrees (fr_rotationAngleZ L (m_currentFrame s) (m_gestureStart s)))]
                 (s\<lparr>m_updateCursor := True, m_drawOverlays := True\<rparr>))
      else if input = SM_EXIT then (True, emit [EndGesture] s)
      else if input = OMB_PROCESS_FRAME then
        (case shouldBeInMultiHandMode L s of
           None \<Rightarrow> (True, BasicMode_TransitionTo_NPointables_NoInteraction L c s)
         | Some (i1, i2) \<Rightarrow>
             if m_noTouching s \<and> m_collectiveZone s \<noteq> ZONE_TOUCHING
             then (True, bm_goto State_BasicMode_2Hands_Hovering s)
             else
               (True, draw_two L i1 i2 (emit
                  [ApplyRotation (- degrees (fr_rotationAngleZ L (m_currentFrame s) (m_sinceFrame s)))] s)))
      else (False, s))"

definition h_2Hands_Zooming ::
  "('f, 'h, 'p, 'e) env_scheme \<Rightarrow> bm_config \<Rightarrow> sm_input \<Rightarrow> ('f, 'p) bm \<Rightarrow> ('f, 'p) bm_result" where
  "h_2Hands_Zooming L c input s =
     (if input = OMB_LOST_FOCUS then (True, bm_goto State_BasicMode_0Pointables_NoInteraction s)
      else if input = SM_ENTER then
        (True, emit [BeginGesture GestureZoom,
                     ApplyZoom (1 + ZoomScaleFactor c *
                       (fr_scaleFactor L (m_currentFrame s) (m_gestureStart s) - 1))]
                 (s\<lparr>m_updateCursor := True, m_drawOverlays := True\<rparr>))
      else if input = SM_EXIT then (True, emit [EndGesture] s)
      else if input = OMB_PROCESS_FRAME then
        (case shouldBeInMultiHandMode L s of
           None \<Rightarrow> (True, BasicMode_TransitionTo_NPointables_NoInteraction L c s)
         | Some (i1, i2) \<Rightarrow>
             if m_noTouching s \<and> m_collectiveZone s \<noteq> ZONE_TOUCHING
             then (True, bm_goto State_BasicMode_2Hands_Hovering s)
             else
               (True, draw_two L i1 i2 (emit
                  [ApplyZoom (1 + ZoomScaleFactor c *
                     (fr_scaleFactor L (m_currentFrame s) (m_sinceFrame s) - 1))] s)))
      else (False, s))"

text \<open>After its zone check this handler goes on even when it has requested a transition.\<close>

definition h_2Hands_Touch ::
  "('f, 'h, 'p, 'e) env_scheme \<Rightarrow> bm_config \<Rightarrow> sm_input \<Rightarrow> ('f, 'p) bm \<Rightarrow> ('f, 'p) bm_result" where
  "h_2Hands_Touch L c input s =
     (if input = OMB_LOST_FOCUS then (True, bm_goto State_BasicMode_0Pointables_NoInteraction s)
      else if input = SM_ENTER \<or> input = OMB_PROCESS_FRAME then
        (let s1 = (if input = SM_ENTER then s\<lparr>m_updateCursor := True, m_drawOverlays := True\<rparr> else s)
         in case shouldBeInMultiHandMode L s1 of
              None \<Rightarrow> (True, BasicMode_TransitionTo_NPointables_NoInteraction L c s1)
            | Some (i1, i2) \<Rightarrow>
                (let s2 = (if m_collectiveZone s1 \<noteq> ZONE_TOUCHING
                           then bm_goto State_BasicMode_2Hands_Hovering s1 else s1);
                     s3 = perform L (AddTouchPointForPointable i1 (pointable L s2 i1) True False) s2;
                     s4 = perform L (AddTouchPointForPointable i2 (pointable L s3 i2) True False) s3
                 in (True, draw_two L i1 i2 s4)))
      else (False, s))"

text \<open>These two handlers go on after requesting a transition, so a second one may replace it.\<close>

definition h_Palm_GestureRecognition ::
  "('f, 'h, 'p, 'e) env_scheme \<Rightarrow> bm_config \<Rightarrow> sm_input \<Rightarrow> ('f, 'p) bm \<Rightarrow> ('f, 'p) bm_result" where
  "h_Palm_GestureRecognition L c input s =
     (if input = OMB_LOST_FOCUS then (True, bm_goto State_BasicMode_0Pointables_NoInteraction s)
      else if input = SM_ENTER \<or> input = OMB_PROCESS_FRAME then
        (let s1 = (if input = SM_ENTER then s\<lparr>m_gestureStart := m_currentFrame s\<rparr> else s);
             s2 = (if \<not> shouldBeInPalmSwipeMode L c s1
                   then BasicMode_TransitionTo_NPointables_NoInteraction L c s1 else s1);
             s3 = (if now L s2 - fr_timestamp L (m_gestureStart s2) \<ge> 100 * MILLISECONDS \<and>
                      rtsIsUnambiguous s2 \<and> rts s2 = Some TRANSLATING
                   then bm_goto State_BasicMode_Palm_Swipe s2 else s2)
         in (True, s3))
      else if input = SM_EXIT then (True, s)
      else (False, s))"

definition h_Palm_Swipe ::
  "('f, 'h, 'p, 'e) env_scheme \<Rightarrow> bm_config \<Rightarrow> sm_input \<Rightarrow> ('f, 'p) bm \<Rightarrow> ('f, 'p) bm_result" where
  "h_Palm_Swipe L c input s =
     (if input = OMB_LOST_FOCUS then (True, bm_goto State_BasicMode_0Pointables_NoInteraction s)
      else if input = SM_ENTER then (True, emit [BeginGesture GestureDesktopSwipeHorizontal] s)
      else if input = SM_EXIT then (True, emit [EndGesture] s)
      else if input = OMB_PROCESS_FRAME then
        (let s1 = (if \<not> shouldBeInPalmSwipeMode L c s
                   then BasicMode_TransitionTo_NPointables_NoInteraction L c s else s)
         in (True, emit (generateDesktopSwipeBetweenFrames L (m_currentFrame s1) (m_sinceFrame s1)) s1))
      else (False, s))"

primrec bm_handler ::
  "('f, 'h, 'p, 'e) env_scheme \<Rightarrow> bm_config \<Rightarrow> bm_state \<Rightarrow> sm_input \<Rightarrow> ('f, 'p) bm \<Rightarrow> ('f, 'p) bm_result" where
  "bm_handler L c State_BasicMode_0Pointables_NoInteraction = h_0Pointables_NoInteraction L c"
| "bm_handler L c State_BasicMode_1Pointable_Hovering = h_1Pointable_Hovering L c"
| "bm_handler L c State_BasicMode_1Pointable_ClickCooldown = h_1Pointable_ClickCooldown L c"
| "bm_handler L c State_BasicMode_2PlusPointables_Hovering = h_2PlusPointables_Hovering L c"
| "bm_handler L c State_BasicMode_2PlusPointables_Scrolling = h_2PlusPointables_Scrolling L c"
| "bm_handler L c State_BasicMode_2Hands_Hovering = h_2Hands_Hovering L c"
| "bm_handler L c State_BasicMode_2Hands_GestureRecognition = h_2Hands_GestureRecognition L c"
| "bm_handler L c State_BasicMode_2Hands_Rotating = h_2Hands_Rotating L c"
| "bm_handler L c State_BasicMode_2Hands_Zooming = h_2Hands_Zooming L c"
| "bm_handler L c State_BasicMode_2Hands_Touch = h_2Hands_Touch L c"
| "bm_handler L c State_BasicMode_Palm_GestureRecognition = h_Palm_GestureRecognition L c"
| "bm_handler L c State_BasicMode_Palm_Swipe = h_Palm_Swipe L c"

section \<open>The mode\<close>

definition bm_Initialize ::
  "('f, 'h, 'p, 'e) env_scheme \<Rightarrow> bm_config \<Rightarrow> ('f, 'p) bm \<Rightarrow> ('f, 'p) bm outcome" where
  "bm_Initialize L c s =
     (if \<not> IsInitialized s then Initialize (bm_handler L c) State_BasicMode_0Pointables_NoInteraction s
      else Done s)"

definition bm_clear_overlays :: "('f, 'h, 'p, 'e) env_scheme \<Rightarrow> ('f, 'p) bm \<Rightarrow> ('f, 'p) bm" where
  "bm_clear_overlays L s =
     (if e_platform L = Apple then
        (if m_flushOverlay s
         then (emit (hide_icons 0 (gm_numOverlayImages s)) s)\<lparr>m_lastNumIcons := 0\<rparr> else s)
      else (emit (hide_icons (m_lastNumIcons s) (gm_numOverlayImages s)) s)\<lparr>m_lastNumIcons := 0\<rparr>)"

definition bm_processFrameInternal ::
  "('f, 'h, 'p, 'e) env_scheme \<Rightarrow> bm_config \<Rightarrow> ('f, 'p) bm \<Rightarrow> ('f, 'p) bm outcome" where
  "bm_processFrameInternal L c s =
     bind_outcome (bm_Initialize L c (s\<lparr>m_noTouching := number_touching L (m_relevantPointables s) = 0\<rparr>))
       (\<lambda>s1. bind_outcome (RunCurrentState (bm_handler L c) OMB_PROCESS_FRAME (bm_clear_overlays L s1))
         (\<lambda>s2. let s3 = flushOverlay L s2 in
               Done (if \<not> UseMouseOutput L then emitTouchEvent s3 else s3)))"

definition bm_stopActiveEvents ::
  "('f, 'h, 'p, 'e) env_scheme \<Rightarrow> bm_config \<Rightarrow> ('f, 'p) bm \<Rightarrow> ('f, 'p) bm outcome" where
  "bm_stopActiveEvents L c s = RunCurrentState (bm_handler L c) OMB_LOST_FOCUS s"

text \<open>The destructor, followed by that of the base class.\<close>

definition bm_destroy ::
  "('f, 'h, 'p, 'e) env_scheme \<Rightarrow> bm_config \<Rightarrow> ('f, 'p) bm \<Rightarrow> ('f, 'p) bm outcome" where
  "bm_destroy L c s = bind_outcome (Shutdown (bm_handler L c) s) (\<lambda>t. Done (gim_destroy L (flushOverlay L t)))"

definition bm_virtual ::
  "('f, 'h, 'p, 'e) env_scheme \<Rightarrow> bm_config \<Rightarrow> ('f, 'p, ('f, 'p) bm) gim_virtual" where
  "bm_virtual L c =
     \<lparr>v_processFrameInternal = bm_processFrameInternal L c,
      v_identifyRelevantPointables = identifyRelevantPointables L,
      v_identifyCollectivePointableZone = identifyCollectivePointableZone L,
      v_setForemostPointable = setForemostPointable L\<rparr>"

definition bm_processFrame ::
  "('f, 'h, 'p, 'e) env_scheme \<Rightarrow> bm_config \<Rightarrow> 'f \<Rightarrow> 'f \<Rightarrow> ('f, 'p) bm \<Rightarrow> ('f, 'p) bm outcome" where
  "bm_processFrame L c frame since s = processFrame L (bm_virtual L c) frame since s"

end
