(* ===== verification/Basic_Refinement.thy ===== *)
theory Basic_Refinement
  imports Basic_Mode
begin

text \<open>
  An abstract basic mode: what its transitions, clicks and gestures depend on, with the overlays,
  the cursor, the touch points and the amounts of the gestures left out. The button and the
  gesture are the states of the monitors of \<open>Leap_Api\<close> over everything emitted so far, and
  \<open>a_kept\<close> holds what the handlers leave alone of the manager's filters and history. Every
  handler of \<open>Basic_Mode\<close> refines its abstract counterpart, so the machine does, and whatever the
  abstract machine guarantees holds of the code's.
\<close>

section \<open>Abstract states\<close>

record 'f bm_abs = "bm_state machine" +
  a_frame :: 'f
  a_count_unamb :: bool
  a_count :: "nat option"
  a_rts_unamb :: bool
  a_rts :: "rts option"
  a_zone :: zone
  a_noTouching :: bool
  a_clickDown :: bool
  a_lastClickTime :: int
  a_gestureStart :: 'f
  a_favoriteHandId :: int
  a_favorite :: int
  a_foremost :: int
  a_button :: "bool option"
  a_gesture :: "u32 option"
  a_kept :: "(nat, rolling) categorical \<times> (rts, rolling) categorical \<times> 'f timed_history \<times> bool"

definition bm_abs :: "('f, 'p) bm \<Rightarrow> 'f bm_abs" where
  "bm_abs s =
     \<lparr>sm_logger = sm_logger s, sm_ignore_input = sm_ignore_input s, sm_running = sm_running s,
      sm_current = sm_current s, sm_next = sm_next s, sm_log = sm_log s,
      sm_violations = sm_violations s,
      a_frame = m_currentFrame s, a_count_unamb = pointableCountIsUnambiguous s,
      a_count = pointableCount s, a_rts_unamb = rtsIsUnambiguous s, a_rts = rts s,
      a_zone = m_collectiveZone s, a_noTouching = m_noTouching s, a_clickDown = m_clickDown s,
      a_lastClickTime = m_lastClickTime s, a_gestureStart = m_gestureStart s,
      a_favoriteHandId = m_favoriteHandId s, a_favorite = m_favoritePointableId s,
      a_foremost = m_foremostPointableId s, a_button = buttons (out s) (Some False),
      a_gesture = gestures (out s) (Some GestureNone),
      a_kept = (m_filteredPointableCount s, m_filteredRTS s, m_timedFrameHistory s,
                touches_ok (m_touchEvent s))\<rparr>"

section \<open>Abstract operations\<close>

definition a_emit :: "action list \<Rightarrow> 'f bm_abs \<Rightarrow> 'f bm_abs" where
  "a_emit as a = a\<lparr>a_button := buttons as (a_button a), a_gesture := gestures as (a_gesture a)\<rparr>"

text \<open>The effect of each kind of action on the monitors.\<close>

definition a_press :: "'f bm_abs \<Rightarrow> 'f bm_abs" where
  "a_press a = a\<lparr>a_button := (case a_button a of Some False \<Rightarrow> Some True | _ \<Rightarrow> None)\<rparr>"

definition a_unpress :: "'f bm_abs \<Rightarrow> 'f bm_abs" where
  "a_unpress a = a\<lparr>a_button := (case a_button a of Some True \<Rightarrow> Some False | _ \<Rightarrow> None)\<rparr>"

definition a_begin :: "u32 \<Rightarrow> 'f bm_abs \<Rightarrow> 'f bm_abs" where
  "a_begin g a =
     a\<lparr>a_gesture := (case a_gesture a of Some t \<Rightarrow> if t = GestureNone then Some g else None | None \<Rightarrow> None)\<rparr>"

definition a_end :: "'f bm_abs \<Rightarrow> 'f bm_abs" where
  "a_end a =
     a\<lparr>a_gesture := (case a_gesture a of Some t \<Rightarrow> if t \<noteq> GestureNone then Some GestureNone else None
                                        | None \<Rightarrow> None)\<rparr>"

definition a_inside :: "u32 list \<Rightarrow> 'f bm_abs \<Rightarrow> 'f bm_abs" where
  "a_inside gs a =
     a\<lparr>a_gesture := (case a_gesture a of Some t \<Rightarrow> if t \<in> set gs then Some t else None | None \<Rightarrow> None)\<rparr>"

definition a_favour :: "('f, 'h, 'p, 'e) env_scheme \<Rightarrow> 'f bm_abs \<Rightarrow> 'f bm_abs" where
  "a_favour L a =
     (if a_favorite a < 0 \<or> \<not> p_valid L (fr_pointable L (a_frame a) (a_favorite a))
      then a\<lparr>a_favorite := a_foremost a\<rparr> else a)"

definition a_group ::
  "('f, 'h, 'p, 'e) env_scheme \<Rightarrow> bm_config \<Rightarrow> (nat \<Rightarrow> bool) \<Rightarrow> 'f bm_abs \<Rightarrow> bool" where
  "a_group L c leaves a \<longleftrightarrow>
     (a_count_unamb a \<and> (case a_count a of Some k \<Rightarrow> leaves k | None \<Rightarrow> False)) \<or>
     two_hands L (a_frame a) \<noteq> None \<or> palm_swipe L c (a_frame a)"

definition a_dest :: "('f, 'h, 'p, 'e) env_scheme \<Rightarrow> bm_config \<Rightarrow> 'f bm_abs \<Rightarrow> bm_state" where
  "a_dest L c a =
     (if two_hands L (a_frame a) \<noteq> None then State_BasicMode_2Hands_Hovering
      else if palm_swipe L c (a_frame a) then State_BasicMode_Palm_GestureRecognition
      else (let k = (if a_count_unamb a then (case a_count a of Some k \<Rightarrow> k | None \<Rightarrow> 0) else 0) in
            if k = 0 then State_BasicMode_0Pointables_NoInteraction
            else if k = 1 then
              (if DisableClicking c then State_BasicMode_2PlusPointables_Hovering
               else State_BasicMode_1Pointable_Hovering)
            else State_BasicMode_2PlusPointables_Hovering))"

definition a_goto :: "bm_state \<Rightarrow> 'f bm_abs \<Rightarrow> 'f bm_abs" where
  "a_goto st a = SetNextState (Some st) a"

definition a_to_n :: "('f, 'h, 'p, 'e) env_scheme \<Rightarrow> bm_config \<Rightarrow> 'f bm_abs \<Rightarrow> 'f bm_abs" where
  "a_to_n L c a = a_goto (a_dest L c a) a"

abbreviation a_hand :: "('f, 'h, 'p, 'e) env_scheme \<Rightarrow> 'f bm_abs \<Rightarrow> 'h" where
  "a_hand L a \<equiv> fr_hand L (a_frame a) (a_favoriteHandId a)"

abbreviation a_pointable :: "('f, 'h, 'p, 'e) env_scheme \<Rightarrow> 'f bm_abs \<Rightarrow> 'p" where
  "a_pointable L a \<equiv> fr_pointable L (a_frame a) (a_favorite a)"

section \<open>Abstract handlers\<close>

type_synonym 'f a_result = "bool \<times> 'f bm_abs"

definition a_0Pointables ::
  "('f, 'h, 'p, 'e) env_scheme \<Rightarrow> bm_config \<Rightarrow> sm_input \<Rightarrow> 'f bm_abs \<Rightarrow> 'f a_result" where
  "a_0Pointables L c input a =
     (if input = SM_ENTER \<or> input = OMB_PROCESS_FRAME
      then (True, if a_group L c (\<lambda>k. k > 0) a then a_to_n L c a else a)
      else (input = OMB_LOST_FOCUS, a))"

definition a_1Hovering ::
  "('f, 'h, 'p, 'e) env_scheme \<Rightarrow> bm_config \<Rightarrow> sm_input \<Rightarrow> 'f bm_abs \<Rightarrow> 'f a_result" where
  "a_1Hovering L c input a =
     (if input = OMB_LOST_FOCUS then (True, a_goto State_BasicMode_0Pointables_NoInteraction a)
      else if input = SM_ENTER \<or> input = OMB_PROCESS_FRAME then
        (let b = a_favour L (if input = SM_ENTER then a\<lparr>a_favorite := a_foremost a\<rparr> else a) in
         if a_group L c (\<lambda>k. k \<noteq> 1) b then (True, a_to_n L c b)
         else if a_zone b = ZONE_TOUCHING then
           (True, a_goto State_BasicMode_1Pointable_ClickCooldown
              ((if UseMouseOutput L then (a_press b)\<lparr>a_clickDown := True\<rparr> else b)
                 \<lparr>a_lastClickTime := fr_timestamp L (a_frame b)\<rparr>))
         else (True, b))
      else (False, a))"

definition a_release :: "('f, 'h, 'p, 'e) env_scheme \<Rightarrow> 'f bm_abs \<Rightarrow> 'f bm_abs" where
  "a_release L a =
     (if UseMouseOutput L then a_unpress (a\<lparr>a_clickDown := False\<rparr>) else a\<lparr>a_clickDown := False\<rparr>)"

definition a_ClickCooldown ::
  "('f, 'h, 'p, 'e) env_scheme \<Rightarrow> bm_config \<Rightarrow> sm_input \<Rightarrow> 'f bm_abs \<Rightarrow> 'f a_result" where
  "a_ClickCooldown L c input a =
     (if input = OMB_LOST_FOCUS then (True, a_goto State_BasicMode_0Pointables_NoInteraction a)
      else if input = SM_EXIT then
        (True, if a_clickDown a then (if UseMouseOutput L then a_release L a else a_favour L a) else a)
      else if input = SM_ENTER \<or> input = OMB_PROCESS_FRAME then
        (if a_group L c (\<lambda>k. k \<noteq> 1) a then (True, a_to_n L c a)
         else if a_zone a \<noteq> ZONE_TOUCHING then (True, a_goto State_BasicMode_1Pointable_Hovering a)
         else
           (let b = a_favour L a in
            (True, if fr_timestamp L (a_frame b) - a_lastClickTime b > 150 * MILLISECONDS \<and> a_clickDown b
                   then a_release L b else b)))
      else (False, a))"

definition a_hover_2Plus ::
  "('f, 'h, 'p, 'e) env_scheme \<Rightarrow> bm_config \<Rightarrow> 'f bm_abs \<Rightarrow> 'f a_result" where
  "a_hover_2Plus L c a =
     (let b = a_favour L a in
      if a_favoriteHandId b < 0 \<and> \<not> p_valid L (a_pointable L b) then (True, b)
      else
        (let d = (if a_favoriteHandId b < 0
                  then b\<lparr>a_favoriteHandId := h_id L (p_hand L (a_pointable L b))\<rparr> else b) in
         if a_favoriteHandId d < 0 then (True, d)
         else if \<not> h_valid L (a_hand L d) then (True, a_to_n L c d)
         else if hasFingersTouching L (a_hand L d)
         then (True, a_goto State_BasicMode_2PlusPointables_Scrolling d)
         else (True, d)))"

definition a_2Hovering ::
  "('f, 'h, 'p, 'e) env_scheme \<Rightarrow> bm_config \<Rightarrow> sm_input \<Rightarrow> 'f bm_abs \<Rightarrow> 'f a_result" where
  "a_2Hovering L c input a =
     (if input = OMB_LOST_FOCUS then (True, a_goto State_BasicMode_0Pointables_NoInteraction a)
      else if input = SM_ENTER \<or> input = OMB_PROCESS_FRAME then
        (let b = (if input = SM_ENTER
                  then a_favour L (a\<lparr>a_favorite := a_foremost a, a_favoriteHandId := -1\<rparr>) else a) in
         if input = SM_ENTER \<and> a_favorite b = -1 then (True, b)
         else if a_group L c (\<lambda>k. (DisableClicking c \<and> k = 0) \<or> (\<not> DisableClicking c \<and> k < 2)) b
         then (True, a_to_n L c b)
         else a_hover_2Plus L c b)
      else (False, a))"

definition a_Scrolling ::
  "('f, 'h, 'p, 'e) env_scheme \<Rightarrow> bm_config \<Rightarrow> sm_input \<Rightarrow> 'f bm_abs \<Rightarrow> 'f a_result" where
  "a_Scrolling L c input a =
     (if input = OMB_LOST_FOCUS then (True, a_goto State_BasicMode_0Pointables_NoInteraction a)
      else if input = SM_ENTER then
        (let b = sm_assert (h_valid L (a_hand L a)) (OwnerAssertion 502) a in
         (True, if UseMouseOutput L then a_begin GestureScroll b else b))
      else if input = SM_EXIT then
        (True, if UseMouseOutput L then a_end a
               else sm_assert (h_valid L (a_hand L a)) (OwnerAssertion 523) a)
      else if input = OMB_PROCESS_FRAME then
        (if a_group L c (\<lambda>k. k = 0) a \<or> \<not> h_valid L (a_hand L a) \<or>
            \<not> hasFingersTouching L (a_hand L a)
         then (True, a_to_n L c a)
         else (True, if UseMouseOutput L then a_inside [GestureScroll] a else a))
      else (False, a))"

definition a_2Hands_Hovering ::
  "('f, 'h, 'p, 'e) env_scheme \<Rightarrow> bm_config \<Rightarrow> sm_input \<Rightarrow> 'f bm_abs \<Rightarrow> 'f a_result" where
  "a_2Hands_Hovering L c input a =
     (if input = OMB_LOST_FOCUS then (True, a_goto State_BasicMode_0Pointables_NoInteraction a)
      else if input = SM_ENTER \<or> input = OMB_PROCESS_FRAME then
        (let b = (if input = SM_ENTER then a\<lparr>a_favorite := a_foremost a\<rparr> else a) in
         if two_hands L (a_frame b) = None then (True, a_to_n L c b)
         else if a_zone b = ZONE_TOUCHING
         then (True, a_goto (if UseMouseOutput L then State_BasicMode_2Hands_GestureRecognition
                             else State_BasicMode_2Hands_Touch) b)
         else (True, b))
      else (False, a))"

definition a_GestureRecognition ::
  "('f, 'h, 'p, 'e) env_scheme \<Rightarrow> bm_config \<Rightarrow> sm_input \<Rightarrow> 'f bm_abs \<Rightarrow> 'f a_result" where
  "a_GestureRecognition L c input a =
     (if input = OMB_LOST_FOCUS then (True, a_goto State_BasicMode_0Pointables_NoInteraction a)
      else if input = SM_ENTER \<or> input = OMB_PROCESS_FRAME then
        (let b = (if input = SM_ENTER then a\<lparr>a_gestureStart := a_frame a\<rparr> else a);
             settled = fr_timestamp L (a_frame b) - fr_timestamp L (a_gestureStart b) \<ge> 20 * MILLISECONDS \<and>
               a_rts_unamb b in
         if two_hands L (a_frame b) = None then (True, a_to_n L c b)
         else if a_noTouching b \<and> a_zone b \<noteq> ZONE_TOUCHING
         then (True, a_goto State_BasicMode_2Hands_Hovering b)
         else if settled \<and> a_rts b = Some ROTATING then (True, a_goto State_BasicMode_2Hands_Rotating b)
         else if settled \<and> a_rts b = Some SCALING then (True, a_goto State_BasicMode_2Hands_Zooming b)
         else (True, b))
      else (False, a))"

text \<open>Rotating and zooming differ in the gesture they begin and apply.\<close>

definition a_two_hand_gesture ::
  "('f, 'h, 'p, 'e) env_scheme \<Rightarrow> bm_config \<Rightarrow> u32 \<Rightarrow> sm_input \<Rightarrow> 'f bm_abs \<Rightarrow> 'f a_result" where
  "a_two_hand_gesture L c g input a =
     (if input = OMB_LOST_FOCUS then (True, a_goto State_BasicMode_0Pointables_NoInteraction a)
      else if input = SM_ENTER then (True, a_inside [g] (a_begin g a))
      else if input = SM_EXIT then (True, a_end a)
      else if input = OMB_PROCESS_FRAME then
        (if two_hands L (a_frame a) = None then (True, a_to_n L c a)
         else if a_noTouching a \<and> a_zone a \<noteq> ZONE_TOUCHING
         then (True, a_goto State_BasicMode_2Hands_Hovering a)
         else (True, a_inside [g] a))
      else (False, a))"

definition a_2Hands_Touch ::
  "('f, 'h, 'p, 'e) env_scheme \<Rightarrow> bm_config \<Rightarrow> sm_input \<Rightarrow> 'f bm_abs \<Rightarrow> 'f a_result" where
  "a_2Hands_Touch L c input a =
     (if input = OMB_LOST_FOCUS then (True, a_goto State_BasicMode_0Pointables_NoInteraction a)
      else if input = SM_ENTER \<or> input = OMB_PROCESS_FRAME then
        (if two_hands L (a_frame a) = None then (True, a_to_n L c a)
         else (True, if a_zone a \<noteq> ZONE_TOUCHING then a_goto State_BasicMode_2Hands_Hovering a else a))
      else (False, a))"

definition a_Palm_GestureRecognition ::
  "('f, 'h, 'p, 'e) env_scheme \<Rightarrow> bm_config \<Rightarrow> sm_input \<Rightarrow> 'f bm_abs \<Rightarrow> 'f a_result" where
  "a_Palm_GestureRecognition L c input a =
     (if input = OMB_LOST_FOCUS then (True, a_goto State_BasicMode_0Pointables_NoInteraction a)
      else if input = SM_ENTER \<or> input = OMB_PROCESS_FRAME then
        (let b = (if input = SM_ENTER then a\<lparr>a_gestureStart := a_frame a\<rparr> else a);
             d = (if \<not> palm_swipe L c (a_frame b) then a_to_n L c b else b)
         in (True,
             if fr_timestamp L (a_frame d) - fr_timestamp L (a_gestureStart d) \<ge> 100 * MILLISECONDS \<and>
                a_rts_unamb d \<and> a_rts d = Some TRANSLATING
             then a_goto State_BasicMode_Palm_Swipe d else d))
      else (input = SM_EXIT, a))"

definition a_Palm_Swipe ::
  "('f, 'h, 'p, 'e) env_scheme \<Rightarrow> bm_config \<Rightarrow> sm_input \<Rightarrow> 'f bm_abs \<Rightarrow> 'f a_result" where
  "a_Palm_Swipe L c input a =
     (if input = OMB_LOST_FOCUS then (True, a_goto State_BasicMode_0Pointables_NoInteraction a)
      else if input = SM_ENTER then (True, a_begin GestureDesktopSwipeHorizontal a)
      else if input = SM_EXIT then (True, a_end a)
      else if input = OMB_PROCESS_FRAME then
        (True, a_inside [GestureDesktopSwipeHorizontal, GestureDesktopSwipeVertical]
                 (if \<not> palm_swipe L c (a_frame a) then a_to_n L c a else a))
      else (False, a))"

primrec a_handler ::
  "('f, 'h, 'p, 'e) env_scheme \<Rightarrow> bm_config \<Rightarrow> bm_state \<Rightarrow> sm_input \<Rightarrow> 'f bm_abs \<Rightarrow> 'f a_result" where
  "a_handler L c State_BasicMode_0Pointables_NoInteraction = a_0Pointables L c"
| "a_handler L c State_BasicMode_1Pointable_Hovering = a_1Hovering L c"
| "a_handler L c State_BasicMode_1Pointable_ClickCooldown = a_ClickCooldown L c"
| "a_handler L c State_BasicMode_2PlusPointables_Hovering = a_2Hovering L c"
| "a_handler L c State_BasicMode_2PlusPointables_Scrolling = a_Scrolling L c"
| "a_handler L c State_BasicMode_2Hands_Hovering = a_2Hands_Hovering L c"
| "a_handler L c State_BasicMode_2Hands_GestureRecognition = a_GestureRecognition L c"
| "a_handler L c State_BasicMode_2Hands_Rotating = a_two_hand_gesture L c GestureRotate"
| "a_handler L c State_BasicMode_2Hands_Zooming = a_two_hand_gesture L c GestureZoom"
| "a_handler L c State_BasicMode_2Hands_Touch = a_2Hands_Touch L c"
| "a_handler L c State_BasicMode_Palm_GestureRecognition = a_Palm_GestureRecognition L c"
| "a_handler L c State_BasicMode_Palm_Swipe = a_Palm_Swipe L c"

section \<open>The abstraction of the operations\<close>

named_theorems bm_abs_simps \<open>the abstraction of each operation of the mode\<close>

lemma perform_basic [simp]:
  "m_drawOverlays (perform L k s) = m_drawOverlays s"
  "m_noTouching (perform L k s) = m_noTouching s"
  "m_clickDuration (perform L k s) = m_clickDuration s"
  "m_clickNumber (perform L k s) = m_clickNumber s" "m_clickDown (perform L k s) = m_clickDown s"
  "m_lastClickTime (perform L k s) = m_lastClickTime s"
  "m_lastClickLocation (perform L k s) = m_lastClickLocation s"
  "m_gestureStart (perform L k s) = m_gestureStart s"
  "m_clickDownScreenPosition (perform L k s) = m_clickDownScreenPosition s"
  "m_scrollStartPosition (perform L k s) = m_scrollStartPosition s"
  "m_scrollDrawCount (perform L k s) = m_scrollDrawCount s"
  "m_lastNumIcons (perform L k s) = m_lastNumIcons s"
  "m_charmsMode (perform L k s) = m_charmsMode s"
  "m_lastStateChangeTime (perform L k s) = m_lastStateChangeTime s"
  "m_favoriteHandId (perform L k s) = m_favoriteHandId s"
  "m_clickPointable (perform L k s) = m_clickPointable s"
  "m_updateCursor (perform L k s) = m_updateCursor s"
  by (simp_all add: perform_def effects_def split_beta Let_def)

lemma emit_basic [simp]:
  "m_drawOverlays (emit as s) = m_drawOverlays s" "m_noTouching (emit as s) = m_noTouching s"
  "m_clickDuration (emit as s) = m_clickDuration s" "m_clickNumber (emit as s) = m_clickNumber s"
  "m_clickDown (emit as s) = m_clickDown s" "m_lastClickTime (emit as s) = m_lastClickTime s"
  "m_lastClickLocation (emit as s) = m_lastClickLocation s"
  "m_gestureStart (emit as s) = m_gestureStart s"
  "m_clickDownScreenPosition (emit as s) = m_clickDownScreenPosition s"
  "m_scrollStartPosition (emit as s) = m_scrollStartPosition s"
  "m_scrollDrawCount (emit as s) = m_scrollDrawCount s"
  "m_lastNumIcons (emit as s) = m_lastNumIcons s" "m_charmsMode (emit as s) = m_charmsMode s"
  "m_lastStateChangeTime (emit as s) = m_lastStateChangeTime s"
  "m_favoriteHandId (emit as s) = m_favoriteHandId s"
  "m_clickPointable (emit as s) = m_clickPointable s"
  "m_updateCursor (emit as s) = m_updateCursor s"
  by (simp_all add: emit_def)

lemma favour_basic [simp]:
  "m_drawOverlays (favour L s) = m_drawOverlays s" "m_noTouching (favour L s) = m_noTouching s"
  "m_clickDuration (favour L s) = m_clickDuration s"
  "m_clickNumber (favour L s) = m_clickNumber s" "m_clickDown (favour L s) = m_clickDown s"
  "m_lastClickTime (favour L s) = m_lastClickTime s"
  "m_lastClickLocation (favour L s) = m_lastClickLocation s"
  "m_gestureStart (favour L s) = m_gestureStart s"
  "m_clickDownScreenPosition (favour L s) = m_clickDownScreenPosition s"
  "m_scrollStartPosition (favour L s) = m_scrollStartPosition s"
  "m_scrollDrawCount (favour L s) = m_scrollDrawCount s"
  "m_lastNumIcons (favour L s) = m_lastNumIcons s" "m_charmsMode (favour L s) = m_charmsMode s"
  "m_lastStateChangeTime (favour L s) = m_lastStateChangeTime s"
  "m_favoriteHandId (favour L s) = m_favoriteHandId s"
  "m_clickPointable (favour L s) = m_clickPointable s"
  "m_updateCursor (favour L s) = m_updateCursor s"
  by (simp_all add: favour_def resetFavoritePointableId_def)

lemmas reading_defs = pointableCountIsUnambiguous_def pointableCount_def rtsIsUnambiguous_def rts_def

lemma bm_abs_machine [simp]:
  "sm_logger (bm_abs s) = sm_logger s" "sm_ignore_input (bm_abs s) = sm_ignore_input s"
  "sm_running (bm_abs s) = sm_running s" "sm_current (bm_abs s) = sm_current s"
  "sm_next (bm_abs s) = sm_next s" "sm_log (bm_abs s) = sm_log s"
  "sm_violations (bm_abs s) = sm_violations s"
  by (simp_all add: bm_abs_def)

lemma bm_abs_machine_updates [simp]:
  "bm_abs (s\<lparr>sm_running := b\<rparr>) = (bm_abs s)\<lparr>sm_running := b\<rparr>"
  "bm_abs (s\<lparr>sm_current := x\<rparr>) = (bm_abs s)\<lparr>sm_current := x\<rparr>"
  "bm_abs (s\<lparr>sm_next := y\<rparr>) = (bm_abs s)\<lparr>sm_next := y\<rparr>"
  "bm_abs (s\<lparr>sm_log := l\<rparr>) = (bm_abs s)\<lparr>sm_log := l\<rparr>"
  "bm_abs (s\<lparr>sm_violations := v\<rparr>) = (bm_abs s)\<lparr>sm_violations := v\<rparr>"
  by (simp_all add: bm_abs_def reading_defs)

lemma bm_abs_updates [bm_abs_simps]:
  "bm_abs (s\<lparr>m_updateCursor := b\<rparr>) = bm_abs s" "bm_abs (s\<lparr>m_drawOverlays := b\<rparr>) = bm_abs s"
  "bm_abs (s\<lparr>m_clickDuration := i\<rparr>) = bm_abs s" "bm_abs (s\<lparr>m_clickNumber := i\<rparr>) = bm_abs s"
  "bm_abs (s\<lparr>m_lastClickLocation := v\<rparr>) = bm_abs s"
  "bm_abs (s\<lparr>m_clickDownScreenPosition := v\<rparr>) = bm_abs s"
  "bm_abs (s\<lparr>m_scrollStartPosition := v\<rparr>) = bm_abs s" "bm_abs (s\<lparr>m_scrollDrawCount := i\<rparr>) = bm_abs s"
  "bm_abs (s\<lparr>m_lastNumIcons := i\<rparr>) = bm_abs s" "bm_abs (s\<lparr>m_charmsMode := i\<rparr>) = bm_abs s"
  "bm_abs (s\<lparr>m_lastStateChangeTime := i\<rparr>) = bm_abs s" "bm_abs (s\<lparr>m_clickPointable := q\<rparr>) = bm_abs s"
  "bm_abs (s\<lparr>m_flushOverlay := b\<rparr>) = bm_abs s"
  "bm_abs (s\<lparr>m_clickDown := b\<rparr>) = (bm_abs s)\<lparr>a_clickDown := b\<rparr>"
  "bm_abs (s\<lparr>m_lastClickTime := i\<rparr>) = (bm_abs s)\<lparr>a_lastClickTime := i\<rparr>"
  "bm_abs (s\<lparr>m_gestureStart := f\<rparr>) = (bm_abs s)\<lparr>a_gestureStart := f\<rparr>"
  "bm_abs (s\<lparr>m_favoriteHandId := i\<rparr>) = (bm_abs s)\<lparr>a_favoriteHandId := i\<rparr>"
  "bm_abs (s\<lparr>m_favoritePointableId := i\<rparr>) = (bm_abs s)\<lparr>a_favorite := i\<rparr>"
  by (simp_all add: bm_abs_def reading_defs)

lemma bm_abs_emit [bm_abs_simps]: "bm_abs (emit as s) = a_emit as (bm_abs s)"
  by (simp add: bm_abs_def a_emit_def reading_defs)

lemma bm_abs_perform [bm_abs_simps]: "call_safe L k \<Longrightarrow> bm_abs (perform L k s) = bm_abs s"
  by (simp add: bm_abs_def reading_defs)

lemma bm_abs_favour [bm_abs_simps]: "bm_abs (favour L s) = a_favour L (bm_abs s)"
  by (simp add: favour_def a_favour_def resetFavoritePointableId_def bm_abs_updates)
    (simp add: bm_abs_def)

lemma bm_abs_reset [bm_abs_simps]:
  "bm_abs (resetFavoritePointableId s) = (bm_abs s)\<lparr>a_favorite := a_foremost (bm_abs s)\<rparr>"
  by (simp add: resetFavoritePointableId_def bm_abs_updates) (simp add: bm_abs_def)

lemma bm_abs_assert [bm_abs_simps]: "bm_abs (sm_assert b v s) = sm_assert b v (bm_abs s)"
  by (simp add: sm_assert_def)

lemma bm_abs_SetNextState: "bm_abs (SetNextState st s) = SetNextState st (bm_abs s)"
  by (simp add: SetNextState_def Let_def bm_abs_assert)

lemma bm_abs_goto [bm_abs_simps]: "bm_abs (bm_goto st s) = a_goto st (bm_abs s)"
  by (simp add: bm_goto_def a_goto_def bm_abs_SetNextState)

text \<open>The readings of a state are those of its abstraction.\<close>

lemma bm_readings [bm_abs_simps]:
  "now L s = fr_timestamp L (a_frame (bm_abs s))"
  "favorite_hand L s = a_hand L (bm_abs s)" "favorite_pointable L s = a_pointable L (bm_abs s)"
  "shouldBeInMultiHandMode L s = two_hands L (a_frame (bm_abs s))"
  "shouldBeInPalmSwipeMode L c s = palm_swipe L c (a_frame (bm_abs s))"
  "group_changed L c P s = a_group L c P (bm_abs s)"
  "n_pointables_state L c s = a_dest L c (bm_abs s)"
  "rtsIsUnambiguous s = a_rts_unamb (bm_abs s)" "rts s = a_rts (bm_abs s)"
  "m_collectiveZone s = a_zone (bm_abs s)" "m_noTouching s = a_noTouching (bm_abs s)"
  "m_clickDown s = a_clickDown (bm_abs s)" "m_lastClickTime s = a_lastClickTime (bm_abs s)"
  "m_gestureStart s = a_gestureStart (bm_abs s)" "m_currentFrame s = a_frame (bm_abs s)"
  "m_favoriteHandId s = a_favoriteHandId (bm_abs s)"
  "m_favoritePointableId s = a_favorite (bm_abs s)"
  by (simp_all add: bm_abs_def now_def favorite_hand_def favorite_pointable_def pointable_def
      shouldBeInMultiHandMode_def shouldBeInPalmSwipeMode_def group_changed_def a_group_def
      count_is_def multi_hand_def n_pointables_state_def a_dest_def)

lemma bm_abs_to_n [bm_abs_simps]:
  "bm_abs (BasicMode_TransitionTo_NPointables_NoInteraction L c s) = a_to_n L c (bm_abs s)"
  by (simp add: BasicMode_TransitionTo_NPointables_NoInteraction_def a_to_n_def bm_abs_simps)

section \<open>Simulation\<close>

lemma a_favour_frame [simp]:
  "sm_running (a_favour L a) = sm_running a" "sm_current (a_favour L a) = sm_current a"
  "sm_next (a_favour L a) = sm_next a" "sm_logger (a_favour L a) = sm_logger a"
  "sm_violations (a_favour L a) = sm_violations a"
  "a_frame (a_favour L a) = a_frame a" "a_zone (a_favour L a) = a_zone a"
  "a_count_unamb (a_favour L a) = a_count_unamb a" "a_count (a_favour L a) = a_count a"
  "a_rts_unamb (a_favour L a) = a_rts_unamb a" "a_rts (a_favour L a) = a_rts a"
  "a_noTouching (a_favour L a) = a_noTouching a" "a_clickDown (a_favour L a) = a_clickDown a"
  "a_lastClickTime (a_favour L a) = a_lastClickTime a"
  "a_gestureStart (a_favour L a) = a_gestureStart a" "a_button (a_favour L a) = a_button a"
  "a_favoriteHandId (a_favour L a) = a_favoriteHandId a" "a_gesture (a_favour L a) = a_gesture a"
  "a_kept (a_favour L a) = a_kept a"
  by (simp_all add: a_favour_def)

lemma a_favour_idem [simp]: "a_favour L (a_favour L a) = a_favour L a"
  by (simp add: a_favour_def)

lemma a_favour_clicked [simp]:
  "a_favour L (a\<lparr>a_lastClickTime := i\<rparr>) = (a_favour L a)\<lparr>a_lastClickTime := i\<rparr>"
  "a_favour L (a\<lparr>a_clickDown := b\<rparr>) = (a_favour L a)\<lparr>a_clickDown := b\<rparr>"
  "a_favour L (a_press a) = a_press (a_favour L a)"
  "a_favour L (a_unpress a) = a_unpress (a_favour L a)"
  by (simp_all add: a_favour_def a_press_def a_unpress_def)

lemma a_goto_frame [simp]:
  "sm_logger (a_goto st a) = sm_logger a" "sm_running (a_goto st a) = sm_running a"
  "sm_current (a_goto st a) = sm_current a" "sm_log (a_goto st a) = sm_log a"
  "a_frame (a_goto st a) = a_frame a" "a_count_unamb (a_goto st a) = a_count_unamb a"
  "a_count (a_goto st a) = a_count a" "a_rts_unamb (a_goto st a) = a_rts_unamb a"
  "a_rts (a_goto st a) = a_rts a" "a_zone (a_goto st a) = a_zone a"
  "a_noTouching (a_goto st a) = a_noTouching a" "a_clickDown (a_goto st a) = a_clickDown a"
  "a_lastClickTime (a_goto st a) = a_lastClickTime a"
  "a_gestureStart (a_goto st a) = a_gestureStart a"
  "a_favoriteHandId (a_goto st a) = a_favoriteHandId a" "a_favorite (a_goto st a) = a_favorite a"
  "a_foremost (a_goto st a) = a_foremost a" "a_button (a_goto st a) = a_button a"
  "a_gesture (a_goto st a) = a_gesture a"
  "a_kept (a_goto st a) = a_kept a"
  by (simp_all add: a_goto_def SetNextState_def Let_def sm_assert_def)

lemma a_to_n_frame [simp]:
  "sm_logger (a_to_n L c a) = sm_logger a" "sm_running (a_to_n L c a) = sm_running a"
  "sm_current (a_to_n L c a) = sm_current a" "sm_log (a_to_n L c a) = sm_log a"
  "a_frame (a_to_n L c a) = a_frame a" "a_count_unamb (a_to_n L c a) = a_count_unamb a"
  "a_count (a_to_n L c a) = a_count a" "a_rts_unamb (a_to_n L c a) = a_rts_unamb a"
  "a_rts (a_to_n L c a) = a_rts a" "a_zone (a_to_n L c a) = a_zone a"
  "a_noTouching (a_to_n L c a) = a_noTouching a" "a_clickDown (a_to_n L c a) = a_clickDown a"
  "a_lastClickTime (a_to_n L c a) = a_lastClickTime a"
  "a_gestureStart (a_to_n L c a) = a_gestureStart a"
  "a_favoriteHandId (a_to_n L c a) = a_favoriteHandId a"
  "a_favorite (a_to_n L c a) = a_favorite a" "a_foremost (a_to_n L c a) = a_foremost a"
  "a_button (a_to_n L c a) = a_button a" "a_gesture (a_to_n L c a) = a_gesture a"
  "a_kept (a_to_n L c a) = a_kept a"
  by (simp_all add: a_to_n_def)

lemma a_press_frame [simp]:
  "sm_logger (a_press a) = sm_logger a" "sm_ignore_input (a_press a) = sm_ignore_input a"
  "sm_running (a_press a) = sm_running a" "sm_current (a_press a) = sm_current a"
  "sm_next (a_press a) = sm_next a" "sm_log (a_press a) = sm_log a"
  "sm_violations (a_press a) = sm_violations a" "a_frame (a_press a) = a_frame a"
  "a_count_unamb (a_press a) = a_count_unamb a" "a_count (a_press a) = a_count a"
  "a_rts_unamb (a_press a) = a_rts_unamb a" "a_rts (a_press a) = a_rts a"
  "a_zone (a_press a) = a_zone a" "a_noTouching (a_press a) = a_noTouching a"
  "a_clickDown (a_press a) = a_clickDown a" "a_lastClickTime (a_press a) = a_lastClickTime a"
  "a_gestureStart (a_press a) = a_gestureStart a"
  "a_favoriteHandId (a_press a) = a_favoriteHandId a" "a_favorite (a_press a) = a_favorite a"
  "a_foremost (a_press a) = a_foremost a" "a_gesture (a_press a) = a_gesture a"
  "a_kept (a_press a) = a_kept a"
  by (simp_all add: a_press_def)

lemma a_unpress_frame [simp]:
  "sm_logger (a_unpress a) = sm_logger a" "sm_ignore_input (a_unpress a) = sm_ignore_input a"
  "sm_running (a_unpress a) = sm_running a" "sm_current (a_unpress a) = sm_current a"
  "sm_next (a_unpress a) = sm_next a" "sm_log (a_unpress a) = sm_log a"
  "sm_violations (a_unpress a) = sm_violations a" "a_frame (a_unpress a) = a_frame a"
  "a_count_unamb (a_unpress a) = a_count_unamb a" "a_count (a_unpress a) = a_count a"
  "a_rts_unamb (a_unpress a) = a_rts_unamb a" "a_rts (a_unpress a) = a_rts a"
  "a_zone (a_unpress a) = a_zone a" "a_noTouching (a_unpress a) = a_noTouching a"
  "a_clickDown (a_unpress a) = a_clickDown a" "a_lastClickTime (a_unpress a) = a_lastClickTime a"
  "a_gestureStart (a_unpress a) = a_gestureStart a"
  "a_favoriteHandId (a_unpress a) = a_favoriteHandId a" "a_favorite (a_unpress a) = a_favorite a"
  "a_foremost (a_unpress a) = a_foremost a" "a_gesture (a_unpress a) = a_gesture a"
  "a_kept (a_unpress a) = a_kept a"
  by (simp_all add: a_unpress_def)

lemma a_begin_frame [simp]:
  "sm_logger (a_begin g a) = sm_logger a" "sm_ignore_input (a_begin g a) = sm_ignore_input a"
  "sm_running (a_begin g a) = sm_running a" "sm_current (a_begin g a) = sm_current a"
  "sm_next (a_begin g a) = sm_next a" "sm_log (a_begin g a) = sm_log a"
  "sm_violations (a_begin g a) = sm_violations a" "a_frame (a_begin g a) = a_frame a"
  "a_count_unamb (a_begin g a) = a_count_unamb a" "a_count (a_begin g a) = a_count a"
  "a_rts_unamb (a_begin g a) = a_rts_unamb a" "a_rts (a_begin g a) = a_rts a"
  "a_zone (a_begin g a) = a_zone a" "a_noTouching (a_begin g a) = a_noTouching a"
  "a_clickDown (a_begin g a) = a_clickDown a" "a_lastClickTime (a_begin g a) = a_lastClickTime a"
  "a_gestureStart (a_begin g a) = a_gestureStart a"
  "a_favoriteHandId (a_begin g a) = a_favoriteHandId a" "a_favorite (a_begin g a) = a_favorite a"
  "a_foremost (a_begin g a) = a_foremost a" "a_button (a_begin g a) = a_button a"
  "a_kept (a_begin g a) = a_kept a"
  by (simp_all add: a_begin_def)

lemma a_end_frame [simp]:
  "sm_logger (a_end a) = sm_logger a" "sm_ignore_input (a_end a) = sm_ignore_input a"
  "sm_running (a_end a) = sm_running a" "sm_current (a_end a) = sm_current a"
  "sm_next (a_end a) = sm_next a" "sm_log (a_end a) = sm_log a"
  "sm_violations (a_end a) = sm_violations a" "a_frame (a_end a) = a_frame a"
  "a_count_unamb (a_end a) = a_count_unamb a" "a_count (a_end a) = a_count a"
  "a_rts_unamb (a_end a) = a_rts_unamb a" "a_rts (a_end a) = a_rts a"
  "a_zone (a_end a) = a_zone a" "a_noTouching (a_end a) = a_noTouching a"
  "a_clickDown (a_end a) = a_clickDown a" "a_lastClickTime (a_end a) = a_lastClickTime a"
  "a_gestureStart (a_end a) = a_gestureStart a" "a_favoriteHandId (a_end a) = a_favoriteHandId a"
  "a_favorite (a_end a) = a_favorite a" "a_foremost (a_end a) = a_foremost a"
  "a_button (a_end a) = a_button a"
  "a_kept (a_end a) = a_kept a"
  by (simp_all add: a_end_def)

lemma a_inside_frame [simp]:
  "sm_logger (a_inside gs a) = sm_logger a" "sm_ignore_input (a_inside gs a) = sm_ignore_input a"
  "sm_running (a_inside gs a) = sm_running a" "sm_current (a_inside gs a) = sm_current a"
  "sm_next (a_inside gs a) = sm_next a" "sm_log (a_inside gs a) = sm_log a"
  "sm_violations (a_inside gs a) = sm_violations a" "a_frame (a_inside gs a) = a_frame a"
  "a_count_unamb (a_inside gs a) = a_count_unamb a" "a_count (a_inside gs a) = a_count a"
  "a_rts_unamb (a_inside gs a) = a_rts_unamb a" "a_rts (a_inside gs a) = a_rts a"
  "a_zone (a_inside gs a) = a_zone a" "a_noTouching (a_inside gs a) = a_noTouching a"
  "a_clickDown (a_inside gs a) = a_clickDown a"
  "a_lastClickTime (a_inside gs a) = a_lastClickTime a"
  "a_gestureStart (a_inside gs a) = a_gestureStart a"
  "a_favoriteHandId (a_inside gs a) = a_favoriteHandId a"
  "a_favorite (a_inside gs a) = a_favorite a" "a_foremost (a_inside gs a) = a_foremost a"
  "a_button (a_inside gs a) = a_button a"
  "a_kept (a_inside gs a) = a_kept a"
  by (simp_all add: a_inside_def)

lemma a_emit_Nil [simp]: "a_emit [] a = a"
  by (simp add: a_emit_def)

lemma a_emit_Cons [simp]:
  "a_emit (ClickDown b n # as) a = a_emit as (a_press a)"
  "a_emit (ClickUp b n # as) a = a_emit as (a_unpress a)"
  "a_emit (BeginGesture g # as) a = a_emit as (a_begin g a)"
  "a_emit (EndGesture # as) a = a_emit as (a_end a)"
  "a_emit (ApplyZoom z # as) a = a_emit as (a_inside [GestureZoom] a)"
  "a_emit (ApplyRotation z # as) a = a_emit as (a_inside [GestureRotate] a)"
  "a_emit (ApplyScroll x y i # as) a = a_emit as (a_inside [GestureScroll] a)"
  "a_emit (ApplyDesktopSwipe x y # as) a =
     a_emit as (a_inside [GestureDesktopSwipeHorizontal, GestureDesktopSwipeVertical] a)"
  by (auto simp: a_emit_def a_press_def a_unpress_def a_begin_def a_end_def a_inside_def
      button_step_def gesture_step_def split: option.split bool.split)

lemma a_emit_quiet [simp]:
  "a_emit (hide_icons i j) a = a" "a_emit [ApplyCharms v n m] a = a"
  "a_emit [FlushOverlay] a = a" "a_emit [EmitTouchEvent ts] a = a"
  by (auto simp: a_emit_def button_step_quiet gesture_step_quiet)

text \<open>One binding, condition or case of a handler at a time.\<close>

abbreviation sim :: "('f, 'p) bm_result \<Rightarrow> 'f a_result \<Rightarrow> bool" where
  "sim r ar \<equiv> map_prod id bm_abs r = ar"

lemma sim_let_if:
  "(b \<Longrightarrow> sim (Let e f) A) \<Longrightarrow> (\<not> b \<Longrightarrow> sim (Let e' f) A) \<Longrightarrow> sim (Let (if b then e else e') f) A"
  by simp

lemma sim_let_state:
  "(\<And>x. bm_abs x = bm_abs e \<Longrightarrow> sim (f x) A) \<Longrightarrow> sim (Let (e :: ('f, 'p) bm) f) A"
  by simp

lemma sim_let: "(\<And>x. x = e \<Longrightarrow> sim (f x) A) \<Longrightarrow> sim (Let e f) A"
  by simp

lemma sim_if: "(b \<Longrightarrow> sim r A) \<Longrightarrow> (\<not> b \<Longrightarrow> sim r' A) \<Longrightarrow> sim (if b then r else r') A"
  by simp

lemma sim_option:
  "(x = None \<Longrightarrow> sim r A) \<Longrightarrow> (\<And>i j. x = Some (i, j) \<Longrightarrow> sim (r' i j) A) \<Longrightarrow>
   sim (case x of None \<Rightarrow> r | Some (i, j) \<Rightarrow> r' i j) A"
  by (auto split: option.split)

lemma abs_let_state:
  "(\<And>x. bm_abs x = bm_abs e \<Longrightarrow> bm_abs (f x) = A) \<Longrightarrow> bm_abs (Let (e :: ('f, 'p) bm) f) = A"
  by simp

lemma abs_let: "(\<And>x. bm_abs (f x) = A) \<Longrightarrow> bm_abs (Let e f) = A"
  by simp

lemmas sim_intros = sim_let_if sim_let_state sim_let sim_if sim_option
lemmas abs_intros = abs_let_state abs_let
lemmas abs_if = if_distrib [of bm_abs]

text \<open>The composite helpers.\<close>

lemma abs_cursor_pointable [bm_abs_simps]:
  "a_favour L (bm_abs s) = bm_abs s \<Longrightarrow>
   bm_abs (bm_setAbsoluteCursorPositionPointable L s) = bm_abs s"
  by (simp add: bm_setAbsoluteCursorPositionPointable_def bm_abs_simps Let_def)

lemma abs_cursor_hand [bm_abs_simps]: "bm_abs (bm_setAbsoluteCursorPositionHand L s) = bm_abs s"
  by (simp add: bm_setAbsoluteCursorPositionHand_def bm_abs_simps)

lemma abs_click_position [bm_abs_simps]:
  "a_favour L (bm_abs s) = bm_abs s \<Longrightarrow> bm_abs (bm_setClickPosition L s) = bm_abs s"
  by (simp add: bm_setClickPosition_def bm_abs_simps Let_def split: option.split)

lemma abs_click_down [bm_abs_simps]:
  "a_favour L (bm_abs s) = bm_abs s \<Longrightarrow>
   bm_abs (click_down L s) = (a_press (bm_abs s))\<lparr>a_clickDown := True\<rparr>"
  unfolding click_down_def
  by (intro abs_intros) (simp add: bm_abs_simps a_press_def)

lemma abs_charms [bm_abs_simps]: "bm_abs (charms_helper L p s) = bm_abs s"
  by (simp add: charms_helper_def apply_charms_def bm_abs_simps Let_def split: prod.split)

lemma abs_draw_two [bm_abs_simps]: "bm_abs (draw_two L i j s) = bm_abs s"
  by (simp add: draw_two_def bm_abs_simps Let_def)

end
