(* ===== verification/Basic_Simulation.thy ===== *)
theory Basic_Simulation
  imports Basic_Refinement
begin

text \<open>
  Every handler of the basic mode is simulated by its abstract counterpart, so the mode's machine
  refines the abstract one of \<open>Basic_Refinement\<close>.
\<close>

text \<open>The handlers.\<close>

lemma sim_0Pointables: "sim (h_0Pointables_NoInteraction L c i s) (a_0Pointables L c i (bm_abs s))"
  unfolding h_0Pointables_NoInteraction_def
  by (intro sim_intros) (simp_all add: a_0Pointables_def bm_abs_simps abs_if Let_def)

lemma sim_1Hovering: "sim (h_1Pointable_Hovering L c i s) (a_1Hovering L c i (bm_abs s))"
  unfolding h_1Pointable_Hovering_def
  by (intro sim_intros) (simp_all add: a_1Hovering_def bm_abs_simps abs_if Let_def)

lemma sim_ClickCooldown: "sim (h_1Pointable_ClickCooldown L c i s) (a_ClickCooldown L c i (bm_abs s))"
  unfolding h_1Pointable_ClickCooldown_def
  apply (intro sim_if)
      apply (simp_all add: a_ClickCooldown_def bm_abs_simps abs_if Let_def a_release_def)[4]
   apply (rule sim_let)
   apply (rule sim_let)
   apply (intro sim_intros)
        apply (simp_all add: a_ClickCooldown_def bm_abs_simps abs_if Let_def a_release_def)
  done

lemma sim_hover_2Plus: "sim (hover_2Plus L c s) (a_hover_2Plus L c (bm_abs s))"
  unfolding hover_2Plus_def
  by (intro sim_intros) (simp_all add: a_hover_2Plus_def bm_abs_simps abs_if Let_def)

lemma sim_2Hovering: "sim (h_2PlusPointables_Hovering L c i s) (a_2Hovering L c i (bm_abs s))"
  unfolding h_2PlusPointables_Hovering_def
  by (intro sim_intros) (simp_all add: a_2Hovering_def bm_abs_simps abs_if Let_def sim_hover_2Plus)

lemma a_emit_scroll [simp]:
  "a_emit (generateScrollBetweenFrames L c f g) a = a_inside [GestureScroll] a"
  by (simp add: generateScrollBetweenFrames_def Let_def)

lemma sim_Scrolling: "sim (h_2PlusPointables_Scrolling L c i s) (a_Scrolling L c i (bm_abs s))"
  unfolding h_2PlusPointables_Scrolling_def
  apply (intro sim_if)
      apply (simp add: a_Scrolling_def bm_abs_simps)
     apply (intro sim_intros)[1]
      apply (simp_all add: a_Scrolling_def bm_abs_simps abs_if Let_def)[4]
    apply (simp add: a_Scrolling_def bm_abs_simps abs_if Let_def)
   apply (simp only: Let_def [of "favorite_hand L s"])
   apply (rule sim_if)
    apply (simp add: a_Scrolling_def bm_abs_simps)
   apply (simp only: bm_readings)
   apply (rule trans [of _ "(True, if UseMouseOutput L then a_inside [GestureScroll] (bm_abs s) else bm_abs s)"])
    apply (intro sim_intros; simp (no_asm_simp) add: bm_abs_simps abs_if)
   apply (simp add: a_Scrolling_def bm_abs_simps)
  apply (simp add: a_Scrolling_def)
  done

lemma sim_2Hands_Hovering: "sim (h_2Hands_Hovering L c i s) (a_2Hands_Hovering L c i (bm_abs s))"
  unfolding h_2Hands_Hovering_def
  by (intro sim_intros) (simp_all add: a_2Hands_Hovering_def bm_abs_simps abs_if Let_def)

lemma sim_GestureRecognition: "sim (h_2Hands_GestureRecognition L c i s) (a_GestureRecognition L c i (bm_abs s))"
  unfolding h_2Hands_GestureRecognition_def
  by (intro sim_intros) (auto simp: a_GestureRecognition_def bm_abs_simps abs_if Let_def time_units)

lemma sim_Rotating: "sim (h_2Hands_Rotating L c i s) (a_two_hand_gesture L c GestureRotate i (bm_abs s))"
  unfolding h_2Hands_Rotating_def
  by (intro sim_intros) (auto simp: a_two_hand_gesture_def bm_abs_simps abs_if Let_def)

lemma sim_Zooming: "sim (h_2Hands_Zooming L c i s) (a_two_hand_gesture L c GestureZoom i (bm_abs s))"
  unfolding h_2Hands_Zooming_def
  by (intro sim_intros) (auto simp: a_two_hand_gesture_def bm_abs_simps abs_if Let_def)

lemma sim_2Hands_Touch: "sim (h_2Hands_Touch L c i s) (a_2Hands_Touch L c i (bm_abs s))"
  unfolding h_2Hands_Touch_def
  by (intro sim_intros) (simp_all add: a_2Hands_Touch_def bm_abs_simps abs_if Let_def)

lemma sim_Palm_GestureRecognition: "sim (h_Palm_GestureRecognition L c i s) (a_Palm_GestureRecognition L c i (bm_abs s))"
  unfolding h_Palm_GestureRecognition_def
  by (intro sim_intros; auto simp add: a_Palm_GestureRecognition_def bm_abs_simps abs_if Let_def time_units)

lemma a_emit_swipe [simp]:
  "a_emit (generateDesktopSwipeBetweenFrames L f g) a =
     a_inside [GestureDesktopSwipeHorizontal, GestureDesktopSwipeVertical] a"
  by (simp add: generateDesktopSwipeBetweenFrames_def Let_def)

lemma sim_Palm_Swipe: "sim (h_Palm_Swipe L c i s) (a_Palm_Swipe L c i (bm_abs s))"
  unfolding h_Palm_Swipe_def
  by (intro sim_intros) (simp_all add: a_Palm_Swipe_def bm_abs_simps abs_if)

lemma handler_simulates: "sim (bm_handler L c st i s) (a_handler L c st i (bm_abs s))"
  by (cases st) (simp_all add: sim_0Pointables sim_1Hovering sim_ClickCooldown sim_2Hovering
      sim_Scrolling sim_2Hands_Hovering sim_GestureRecognition sim_Rotating sim_Zooming
      sim_2Hands_Touch sim_Palm_GestureRecognition sim_Palm_Swipe)

interpretation basic: machine_refinement "bm_handler L c" "a_handler L c" bm_abs for L c
  by unfold_locales (simp_all add: handler_simulates)

end
