(* ===== verification/Basic_Safety.thy ===== *)
theory Basic_Safety
  imports Basic_Simulation
begin

text \<open>
  What the basic mode guarantees: within one frame its transitions settle, however the states call
  for each other; with mouse output every press is released before the next and no assertion of
  the machine or the mode fails; on every platform each gesture is begun, applied and ended in
  turn. All of it is shown of the abstract machine and carried over by the simulation.
\<close>

section \<open>Settling\<close>

text \<open>The state that entering a state asks for, as a function of the current frame's view.\<close>

definition enter_next ::
  "('f, 'h, 'p, 'e) env_scheme \<Rightarrow> bm_config \<Rightarrow> 'f bm_abs \<Rightarrow> bm_state \<Rightarrow> bm_state option" where
  "enter_next L c a st =
     sm_next (snd (a_handler L c st SM_ENTER (a\<lparr>sm_running := True, sm_next := None, sm_current := Some st\<rparr>)))"

definition same_view :: "'f bm_abs \<Rightarrow> 'f bm_abs \<Rightarrow> bool" where
  "same_view a b \<longleftrightarrow>
     a_frame a = a_frame b \<and> a_count_unamb a = a_count_unamb b \<and> a_count a = a_count b \<and>
     a_zone a = a_zone b \<and> a_noTouching a = a_noTouching b \<and> a_foremost a = a_foremost b \<and>
     a_kept a = a_kept b"

definition touching_hand :: "('f, 'h, 'p, 'e) env_scheme \<Rightarrow> 'f bm_abs \<Rightarrow> bool" where
  "touching_hand L a \<longleftrightarrow>
     (let p = fr_pointable L (a_frame a) (a_foremost a) in
      p_valid L p \<and> 0 \<le> h_id L (p_hand L p) \<and>
      hasFingersTouching L (fr_hand L (a_frame a) (h_id L (p_hand L p))))"

named_theorems bm_handlers \<open>the abstract handlers\<close>

lemmas [bm_handlers] = a_0Pointables_def a_1Hovering_def a_ClickCooldown_def a_hover_2Plus_def
  a_2Hovering_def a_Scrolling_def a_2Hands_Hovering_def a_GestureRecognition_def
  a_two_hand_gesture_def a_2Hands_Touch_def a_Palm_GestureRecognition_def a_Palm_Swipe_def
  a_release_def

lemma next_goto [simp]:
  "sm_running a \<Longrightarrow> sm_current a = Some st \<Longrightarrow> sm_next (a_goto x a) = Some x"
  "sm_running a \<Longrightarrow> sm_current a = Some st \<Longrightarrow> sm_next (a_to_n L c a) = Some (a_dest L c a)"
  by (simp_all add: a_to_n_def a_goto_def)

lemma group_dest_view [simp]:
  "a_group L c P (a_favour L a) = a_group L c P a" "a_dest L c (a_favour L a) = a_dest L c a"
  "a_group L c P (a\<lparr>a_favorite := i\<rparr>) = a_group L c P a"
  "a_dest L c (a\<lparr>a_favorite := i\<rparr>) = a_dest L c a"
  "a_group L c P (a\<lparr>a_favoriteHandId := i\<rparr>) = a_group L c P a"
  "a_dest L c (a\<lparr>a_favoriteHandId := i\<rparr>) = a_dest L c a"
  "a_group L c P (a\<lparr>a_gestureStart := f\<rparr>) = a_group L c P a"
  "a_dest L c (a\<lparr>a_gestureStart := f\<rparr>) = a_dest L c a"
  "a_group L c P (a\<lparr>sm_running := b, sm_next := n, sm_current := k\<rparr>) = a_group L c P a"
  "a_dest L c (a\<lparr>sm_running := b, sm_next := n, sm_current := k\<rparr>) = a_dest L c a"
  by (simp_all add: a_group_def a_dest_def)

lemma enter_next_simps:
  "enter_next L c a State_BasicMode_0Pointables_NoInteraction =
     (if a_group L c (\<lambda>k. k > 0) a then Some (a_dest L c a) else None)"
  "enter_next L c a State_BasicMode_1Pointable_Hovering =
     (if a_group L c (\<lambda>k. k \<noteq> 1) a then Some (a_dest L c a)
      else if a_zone a = ZONE_TOUCHING then Some State_BasicMode_1Pointable_ClickCooldown else None)"
  "enter_next L c a State_BasicMode_1Pointable_ClickCooldown =
     (if a_group L c (\<lambda>k. k \<noteq> 1) a then Some (a_dest L c a)
      else if a_zone a \<noteq> ZONE_TOUCHING then Some State_BasicMode_1Pointable_Hovering else None)"
  "enter_next L c a State_BasicMode_2PlusPointables_Scrolling = None"
  "enter_next L c a State_BasicMode_2Hands_Hovering =
     (if two_hands L (a_frame a) = None then Some (a_dest L c a)
      else if a_zone a = ZONE_TOUCHING
      then Some (if UseMouseOutput L then State_BasicMode_2Hands_GestureRecognition
                 else State_BasicMode_2Hands_Touch)
      else None)"
  "enter_next L c a State_BasicMode_2Hands_GestureRecognition =
     (if two_hands L (a_frame a) = None then Some (a_dest L c a)
      else if a_noTouching a \<and> a_zone a \<noteq> ZONE_TOUCHING then Some State_BasicMode_2Hands_Hovering
      else None)"
  "enter_next L c a State_BasicMode_2Hands_Rotating = None"
  "enter_next L c a State_BasicMode_2Hands_Zooming = None"
  "enter_next L c a State_BasicMode_2Hands_Touch =
     (if two_hands L (a_frame a) = None then Some (a_dest L c a)
      else if a_zone a \<noteq> ZONE_TOUCHING then Some State_BasicMode_2Hands_Hovering else None)"
  "enter_next L c a State_BasicMode_Palm_GestureRecognition =
     (if palm_swipe L c (a_frame a) then None else Some (a_dest L c a))"
  "enter_next L c a State_BasicMode_Palm_Swipe = None"
  by (simp_all add: enter_next_def bm_handlers Let_def time_units)

lemma enter_next_2Plus:
  assumes "sdk_hands L"
  shows "enter_next L c a State_BasicMode_2PlusPointables_Hovering =
     (if a_foremost a = -1 then None
      else if a_group L c (\<lambda>k. (DisableClicking c \<and> k = 0) \<or> (\<not> DisableClicking c \<and> k < 2)) a
      then Some (a_dest L c a)
      else if touching_hand L a then Some State_BasicMode_2PlusPointables_Scrolling else None)"
  using assms
  by (simp add: enter_next_def bm_handlers Let_def touching_hand_def sdk_hands_def a_favour_def)

lemma enter_next_view:
  assumes "sdk_hands L" and v: "same_view a b"
  shows "enter_next L c a st = enter_next L c b st"
proof -
  have g: "a_group L c P a = a_group L c P b" "a_dest L c a = a_dest L c b"
    "touching_hand L a = touching_hand L b" for P
    using v by (simp_all add: same_view_def a_group_def a_dest_def touching_hand_def)
  show ?thesis
    using v by (cases st) (simp_all add: enter_next_simps enter_next_2Plus [OF assms(1)] g same_view_def)
qed

text \<open>No frame makes the mode enter more than three states in a row.\<close>

lemma enter_chain:
  assumes L: "sdk_hands L"
    and one: "enter_next L c a st = Some s1" and two: "enter_next L c a s1 = Some s2"
  shows "enter_next L c a s2 = None"
  using one two
  by (cases st; cases "two_hands L (a_frame a) = None"; cases "palm_swipe L c (a_frame a)";
      cases "a_count_unamb a"; cases "a_count a"; cases "DisableClicking c")
    (auto simp: enter_next_simps enter_next_2Plus [OF L] a_group_def a_dest_def Let_def
      split: if_splits)

definition depth :: "('f, 'h, 'p, 'e) env_scheme \<Rightarrow> bm_config \<Rightarrow> 'f bm_abs \<Rightarrow> bm_state \<Rightarrow> nat" where
  "depth L c a st =
     (case enter_next L c a st of
        None \<Rightarrow> 1
      | Some s1 \<Rightarrow> (case enter_next L c a s1 of None \<Rightarrow> 2 | Some s2 \<Rightarrow> 3))"

lemma depth_falls:
  "sdk_hands L \<Longrightarrow> enter_next L c a st = Some s1 \<Longrightarrow> depth L c a s1 < depth L c a st"
  using enter_chain [of L c a st s1] by (auto simp: depth_def split: option.split)

definition settle_rank :: "('f, 'h, 'p, 'e) env_scheme \<Rightarrow> bm_config \<Rightarrow> 'f bm_abs \<Rightarrow> nat" where
  "settle_rank L c a = (case sm_next a of None \<Rightarrow> 0 | Some st \<Rightarrow> depth L c a st)"

section \<open>Transitions of the abstract machine\<close>

lemma view_frame [simp]:
  "a_foremost (a_favour L a) = a_foremost a"
  "same_view a a" "same_view (a_favour L a) b = same_view a b" "same_view (a_goto x a) b = same_view a b"
  "same_view (a_to_n L c a) b = same_view a b" "same_view (a_press a) b = same_view a b"
  "same_view (a_unpress a) b = same_view a b" "same_view (a_begin g a) b = same_view a b"
  "same_view (a_end a) b = same_view a b" "same_view (a_inside gs a) b = same_view a b"
  "same_view (sm_assert q v a) b = same_view a b"
  by (auto simp: same_view_def a_favour_def sm_assert_def)

lemma view_updates [simp]:
  "same_view (a\<lparr>sm_running := r\<rparr>) b = same_view a b" "same_view (a\<lparr>sm_next := n\<rparr>) b = same_view a b"
  "same_view (a\<lparr>sm_current := k\<rparr>) b = same_view a b"
  "same_view (a\<lparr>a_clickDown := q\<rparr>) b = same_view a b"
  "same_view (a\<lparr>a_lastClickTime := i\<rparr>) b = same_view a b"
  "same_view (a\<lparr>a_gestureStart := f\<rparr>) b = same_view a b"
  "same_view (a\<lparr>a_favorite := i\<rparr>) b = same_view a b"
  "same_view (a\<lparr>a_favoriteHandId := i\<rparr>) b = same_view a b"
  by (simp_all add: same_view_def)

lemma handler_view [simp]: "same_view (snd (a_handler L c st i a)) b = same_view a b"
  by (cases st) (simp_all add: bm_handlers Let_def)

lemma handler_machine [simp]:
  "sm_current (snd (a_handler L c st i a)) = sm_current a"
  "sm_running (snd (a_handler L c st i a)) = sm_running a"
  "sm_logger (snd (a_handler L c st i a)) = sm_logger a"
  by (cases st; simp add: bm_handlers Let_def)+

lemma exit_next [simp]: "sm_next (snd (a_handler L c st SM_EXIT a)) = sm_next a"
  by (cases st) (simp_all add: bm_handlers Let_def a_press_def)

text \<open>A transition is the exit of the current state followed by the entry of the next.\<close>

definition exited :: "('f, 'h, 'p, 'e) env_scheme \<Rightarrow> bm_config \<Rightarrow> bm_state \<Rightarrow> 'f bm_abs \<Rightarrow> 'f bm_abs" where
  "exited L c st a = snd (a_handler L c st SM_EXIT (a\<lparr>sm_next := None, sm_running := True\<rparr>))"

definition entered :: "('f, 'h, 'p, 'e) env_scheme \<Rightarrow> bm_config \<Rightarrow> bm_state \<Rightarrow> 'f bm_abs \<Rightarrow> 'f bm_abs" where
  "entered L c nxt a =
     (snd (a_handler L c nxt SM_ENTER (a\<lparr>sm_running := True, sm_next := None, sm_current := Some nxt\<rparr>)))
       \<lparr>sm_running := False\<rparr>"

lemma transition_eq:
  assumes "\<not> sm_logger a" "sm_current a = Some st"
  shows "sm_transition (a_handler L c) nxt a = entered L c nxt (exited L c st a)"
proof -
  let ?e = "exited L c st a"
  have e: "sm_next ?e = None" "\<not> sm_logger ?e" "sm_current ?e = Some st"
    using assms by (simp_all add: exited_def)
  have "snd (call_state (a_handler L c) SM_EXIT (a\<lparr>sm_next := None\<rparr>)) = ?e\<lparr>sm_running := False\<rparr>"
    using assms by (simp add: call_state_quiet exited_def)
  with e have t: "sm_transition (a_handler L c) nxt a =
      (snd (a_handler L c nxt SM_ENTER (?e\<lparr>sm_current := Some nxt, sm_running := True\<rparr>)))
        \<lparr>sm_running := False\<rparr>"
    by (simp add: sm_transition_def call_state_quiet)
  have "?e\<lparr>sm_current := Some nxt, sm_running := True\<rparr>
      = ?e\<lparr>sm_running := True, sm_next := None, sm_current := Some nxt\<rparr>"
    using e(1) by (cases ?e) simp
  with t show ?thesis unfolding entered_def by (simp only:)
qed

lemma entered_facts [simp]:
  "same_view (entered L c nxt a) b = same_view a b" "sm_logger (entered L c nxt a) = sm_logger a"
  "sm_current (entered L c nxt a) = Some nxt" "sm_next (entered L c nxt a) = enter_next L c a nxt"
  "sm_running (entered L c nxt a) = False"
  by (simp_all add: entered_def enter_next_def)

lemma exited_facts [simp]:
  "same_view (exited L c st a) b = same_view a b" "sm_logger (exited L c st a) = sm_logger a"
  "sm_current (exited L c st a) = sm_current a" "sm_next (exited L c st a) = None"
  by (simp_all add: exited_def)

text \<open>Settling needs what the SDK documents of hands, so the condition is part of being ready.\<close>

definition settling :: "('f, 'h, 'p, 'e) env_scheme \<Rightarrow> 'f bm_abs \<Rightarrow> bool" where
  "settling L a \<longleftrightarrow> sdk_hands L \<and> \<not> sm_logger a \<and> sm_current a \<noteq> None"

interpretation settle: ranked_owner "a_handler L c" "settling L" "settle_rank L c" for L c
proof unfold_locales
  fix a nxt
  assume r: "settling L a" and n: "sm_next a = Some nxt"
  then obtain st where t: "sm_transition (a_handler L c) nxt a = entered L c nxt (exited L c st a)"
    by (metis settling_def transition_eq option.exhaust)
  show "settling L (sm_transition (a_handler L c) nxt a)"
    using r by (simp add: t settling_def)
  assume "sm_next (sm_transition (a_handler L c) nxt a) \<noteq> None"
  then obtain s1 where s1: "enter_next L c a nxt = Some s1"
    and s1': "sm_next (sm_transition (a_handler L c) nxt a) = Some s1"
    using r enter_next_view [of L "exited L c st a" a c nxt] by (auto simp: t settling_def)
  have "depth L c (sm_transition (a_handler L c) nxt a) s1 = depth L c a s1"
    using r enter_next_view [of L "sm_transition (a_handler L c) nxt a" a c]
    by (simp add: depth_def t settling_def split: option.split)
  with depth_falls [OF _ s1] r n s1'
  show "settle_rank L c (sm_transition (a_handler L c) nxt a) < settle_rank L c a"
    by (simp add: settle_rank_def settling_def)
qed

section \<open>Presses, gestures and assertions\<close>

definition gesture_of :: "('f, 'h, 'p, 'e) env_scheme \<Rightarrow> bm_state \<Rightarrow> u32" where
  "gesture_of L st =
     (case st of
        State_BasicMode_2PlusPointables_Scrolling \<Rightarrow> if UseMouseOutput L then GestureScroll else GestureNone
      | State_BasicMode_2Hands_Rotating \<Rightarrow> GestureRotate
      | State_BasicMode_2Hands_Zooming \<Rightarrow> GestureZoom
      | State_BasicMode_Palm_Swipe \<Rightarrow> GestureDesktopSwipeHorizontal
      | _ \<Rightarrow> GestureNone)"

text \<open>The assertion of l. 523 is the only one that may fail, and only with touch output.\<close>

definition allowed_violations :: "('f, 'h, 'p, 'e) env_scheme \<Rightarrow> violation set" where
  "allowed_violations L = (if UseMouseOutput L then {} else {OwnerAssertion 523})"

definition bm_safe :: "('f, 'h, 'p, 'e) env_scheme \<Rightarrow> 'f bm_abs \<Rightarrow> bool" where
  "bm_safe L a \<longleftrightarrow>
     (\<exists>st. sm_current a = Some st \<and> a_gesture a = Some (gesture_of L st)) \<and>
     a_button a = Some (a_clickDown a) \<and>
     (a_clickDown a \<longrightarrow> UseMouseOutput L \<and>
        (sm_current a = Some State_BasicMode_1Pointable_ClickCooldown \<or>
         sm_current a = Some State_BasicMode_1Pointable_Hovering \<and>
         sm_next a = Some State_BasicMode_1Pointable_ClickCooldown)) \<and>
     set (sm_violations a) \<subseteq> allowed_violations L \<and>
     (sm_next a = Some State_BasicMode_2PlusPointables_Scrolling \<longrightarrow> h_valid L (a_hand L a))"

text \<open>Between the exit of a state and the entry of the next.\<close>

definition between :: "('f, 'h, 'p, 'e) env_scheme \<Rightarrow> bm_state \<Rightarrow> 'f bm_abs \<Rightarrow> bool" where
  "between L nxt a \<longleftrightarrow>
     a_gesture a = Some GestureNone \<and> a_button a = Some (a_clickDown a) \<and>
     (a_clickDown a \<longrightarrow> UseMouseOutput L \<and> nxt = State_BasicMode_1Pointable_ClickCooldown) \<and>
     set (sm_violations a) \<subseteq> allowed_violations L \<and>
     (nxt = State_BasicMode_2PlusPointables_Scrolling \<longrightarrow> h_valid L (a_hand L a))"

lemma goto_eq [simp]:
  "sm_running a \<Longrightarrow> sm_current a = Some st \<Longrightarrow> a_goto x a = a\<lparr>sm_next := Some x\<rparr>"
  "sm_running a \<Longrightarrow> sm_current a = Some st \<Longrightarrow> a_to_n L c a = a\<lparr>sm_next := Some (a_dest L c a)\<rparr>"
  by (simp_all add: a_to_n_def a_goto_def)

lemma dest_not_gesture [simp]:
  "a_dest L c a \<noteq> State_BasicMode_2PlusPointables_Scrolling"
  "a_dest L c a \<noteq> State_BasicMode_1Pointable_ClickCooldown"
  by (simp_all add: a_dest_def Let_def)

lemma dest_favour [simp]: "a_dest L c (a_favour L a) = a_dest L c a"
  by (rule group_dest_view)

lemmas monitor_defs = a_press_def a_unpress_def a_begin_def a_end_def a_inside_def

lemma exit_between:
  assumes "bm_safe L a" "sm_current a = Some st" "sm_next a = Some nxt"
  shows "between L nxt (exited L c st a)"
  using assms unfolding exited_def
  by (cases st) (auto simp: bm_handlers bm_safe_def between_def gesture_of_def monitor_defs Let_def
      allowed_violations_def sm_assert_def a_favour_def)

lemma enter_safe:
  assumes "sdk_hands L" "between L nxt a"
  shows "bm_safe L (entered L c nxt a)"
  using assms unfolding entered_def
  by (cases nxt) (auto simp: bm_handlers bm_safe_def between_def gesture_of_def monitor_defs Let_def
      allowed_violations_def sm_assert_def time_units)

definition user_input :: "sm_input \<Rightarrow> bool" where
  "user_input i \<longleftrightarrow> i = OMB_PROCESS_FRAME \<or> i = OMB_LOST_FOCUS"

lemma handled_safe:
  assumes "bm_safe L a" "sm_current a = Some st" "sm_next a = None" "sm_running a" "user_input i"
  shows "fst (a_handler L c st i a)" "bm_safe L (snd (a_handler L c st i a))"
proof -
  show "fst (a_handler L c st i a)"
    using assms(5) by (cases st) (auto simp: bm_handlers user_input_def Let_def)
  show "bm_safe L (snd (a_handler L c st i a))"
    using assms
    by (cases st) (auto simp: bm_handlers bm_safe_def gesture_of_def user_input_def monitor_defs Let_def)
qed

lemma kept [simp]:
  "a_kept (snd (a_handler L c st i a)) = a_kept a" "a_kept (entered L c nxt a) = a_kept a"
  "a_kept (exited L c st a) = a_kept a"
  using handler_view [of L c st i a a] entered_facts(1) [of L c nxt a a] exited_facts(1) [of L c st a a]
  by (simp_all add: same_view_def)

definition bm_ready ::
  "('f, 'h, 'p, 'e) env_scheme \<Rightarrow> (nat, rolling) categorical \<times> (rts, rolling) categorical \<times>
     'f timed_history \<times> bool \<Rightarrow> 'f bm_abs \<Rightarrow> bool" where
  "bm_ready L k a \<longleftrightarrow> settling L a \<and> bm_safe L a \<and> \<not> sm_running a \<and> a_kept a = k"

lemma safe_transition:
  assumes "bm_ready L k a" "sm_next a = Some nxt"
  shows "bm_ready L k (sm_transition (a_handler L c) nxt a)"
proof -
  obtain st where st: "sm_current a = Some st"
    using assms(1) by (auto simp: bm_ready_def settling_def)
  with assms have "bm_safe L (entered L c nxt (exited L c st a))"
    by (intro enter_safe exit_between) (simp_all add: bm_ready_def settling_def)
  with st assms show ?thesis
    by (simp add: bm_ready_def settling_def transition_eq)
qed

interpretation basic_owner: ranked_owner "a_handler L c" "bm_ready L k" "settle_rank L c" for L c k
  by unfold_locales
    (use safe_transition in blast, use settle.transition_rank in \<open>blast dest: bm_ready_def [THEN iffD1]\<close>)

text \<open>The first call of a run, before any transition, and the first entry.\<close>

lemma abs_first_ready:
  assumes "bm_ready L k a" "sm_next a = None" "user_input i"
  shows "bm_ready L k (sm_first (a_handler L c) i a)"
proof -
  obtain st where st: "sm_current a = Some st"
    using assms(1) by (auto simp: bm_ready_def settling_def)
  let ?a = "a\<lparr>sm_next := None, sm_running := True\<rparr>"
  have "bm_safe L ?a" using assms by (simp add: bm_ready_def bm_safe_def)
  from handled_safe [OF this _ _ _ assms(3), of st c] st
  have h: "fst (a_handler L c st i ?a)" "bm_safe L (snd (a_handler L c st i ?a))" by simp_all
  have i: "i \<noteq> SM_INVALID" "i \<noteq> SM_EXIT" "i \<le> SM_HIGHEST_USER_INPUT_VALUE"
    using assms(3) by (auto simp: user_input_def)
  have "sm_first (a_handler L c) i a = (snd (a_handler L c st i ?a))\<lparr>sm_running := False\<rparr>"
    using assms st h(1) i by (simp add: sm_first_def bm_ready_def settling_def call_state_quiet)
  with h(2) st assms(1) show ?thesis by (simp add: bm_ready_def settling_def bm_safe_def)
qed

lemma first_entry:
  "\<not> sm_logger a \<Longrightarrow> \<not> sm_running a \<Longrightarrow>
   sm_first (a_handler L c) SM_ENTER (a\<lparr>sm_current := Some st\<rparr>) = entered L c st a"
proof -
  assume "\<not> sm_logger a" "\<not> sm_running a"
  then have "sm_first (a_handler L c) SM_ENTER (a\<lparr>sm_current := Some st\<rparr>) =
      (snd (a_handler L c st SM_ENTER (a\<lparr>sm_current := Some st, sm_next := None, sm_running := True\<rparr>)))
        \<lparr>sm_running := False\<rparr>"
    by (simp add: sm_first_def call_state_quiet)
  moreover have "a\<lparr>sm_current := Some st, sm_next := None, sm_running := True\<rparr>
      = a\<lparr>sm_running := True, sm_next := None, sm_current := Some st\<rparr>" by simp
  ultimately show ?thesis unfolding entered_def by (simp only:)
qed

lemma abs_run_ready:
  assumes "bm_ready L k a" "sm_next a = None" "user_input i"
  shows "\<exists>b. RunCurrentState (a_handler L c) i a = Done b \<and> bm_ready L k b \<and> sm_next b = None"
proof -
  have "i \<le> SM_HIGHEST_USER_INPUT_VALUE" using assms(3) by (auto simp: user_input_def)
  with basic_owner.run_returns [OF _ abs_first_ready [OF assms]] assms(1)
  show ?thesis by (simp add: RunCurrentState_def bm_ready_def settling_def)
qed

definition bm_unborn :: "('f, 'h, 'p, 'e) env_scheme \<Rightarrow> 'f bm_abs \<Rightarrow> bool" where
  "bm_unborn L a \<longleftrightarrow> sm_current a = None \<and> between L State_BasicMode_0Pointables_NoInteraction a"

lemma abs_initialize_ready:
  assumes "sdk_hands L" "bm_unborn L a" "\<not> sm_logger a" "\<not> sm_running a"
  shows "\<exists>b. Initialize (a_handler L c) State_BasicMode_0Pointables_NoInteraction a = Done b \<and>
    bm_ready L (a_kept a) b \<and> sm_next b = None"
proof -
  let ?st = State_BasicMode_0Pointables_NoInteraction
  let ?a = "a\<lparr>sm_current := Some ?st\<rparr>"
  have "bm_ready L (a_kept a) (sm_first (a_handler L c) SM_ENTER ?a)"
    using assms enter_safe [of L ?st a c] by (simp add: first_entry bm_ready_def settling_def bm_unborn_def)
  from basic_owner.run_returns [OF _ this] assms show ?thesis
    by (simp add: Initialize_def Let_def bm_unborn_def)
qed

end
