(* ===== verification/Basic_Lifecycle.thy ===== *)
theory Basic_Lifecycle
  imports Basic_Safety
begin

text \<open>
  The life of a \<open>BasicMode\<close> object: construction, frames and losses of focus in any order, and
  destruction, with what holds between any two of them.
\<close>

section \<open>The invariant between calls\<close>

definition kept_ok ::
  "(nat, rolling) categorical \<times> (rts, rolling) categorical \<times> 'f timed_history \<times> bool \<Rightarrow> bool" where
  "kept_ok k =
     (case k of (count, kind, history, ordered) \<Rightarrow>
        pointable_count_filter.cf_good count \<and> m_categories count = [0..<MAX_POINTABLES] \<and>
        m_uniformCategorizationThreshold count = 8 / 10 \<and>
        rts_filter.cf_good kind \<and> m_categories kind = [ROTATING, TRANSLATING, SCALING] \<and>
        m_uniformCategorizationThreshold kind = 9 / 10 \<and>
        th_sorted (th_pairs history) \<and> m_historyDuration history = 500 * MILLISECONDS \<and> ordered)"

lemma gim_ok_kept: "gim_ok s \<longleftrightarrow> kept_ok (a_kept (bm_abs s))"
  by (simp add: gim_ok_def kept_ok_def bm_abs_def)

definition bm_inv :: "('f, 'h, 'p, 'e) env_scheme \<Rightarrow> ('f, 'p) bm \<Rightarrow> bool" where
  "bm_inv L s \<longleftrightarrow>
     gim_ok s \<and> \<not> sm_logger s \<and> \<not> sm_running s \<and> sm_next s = None \<and>
     (if IsInitialized s then bm_safe L (bm_abs s) else bm_unborn L (bm_abs s))"

lemma bm_inv_ready:
  assumes "bm_ready L (a_kept (bm_abs s)) (bm_abs t)" "sm_next t = None" "gim_ok s"
  shows "bm_inv L t \<and> IsInitialized t"
proof -
  have "gim_ok t"
    using assms by (simp add: gim_ok_kept bm_ready_def)
  with assms show ?thesis
    by (simp add: bm_inv_def bm_ready_def settling_def IsInitialized_def)
qed

lemma ready_of_inv:
  "bm_inv L s \<Longrightarrow> IsInitialized s \<Longrightarrow> sdk_hands L \<Longrightarrow> bm_ready L (a_kept (bm_abs s)) (bm_abs s)"
  by (simp add: bm_inv_def bm_ready_def settling_def IsInitialized_def)

lemma map_outcome_Done: "map_outcome f x = Done b \<longleftrightarrow> (\<exists>t. x = Done t \<and> b = f t)"
  by (cases x) auto

lemma run_inv:
  assumes "bm_inv L s" "IsInitialized s" "sdk_hands L" "user_input i"
  shows "\<exists>t. RunCurrentState (bm_handler L c) i s = Done t \<and> bm_inv L t \<and> IsInitialized t"
proof -
  have r: "bm_ready L (a_kept (bm_abs s)) (bm_abs s)" "sm_next (bm_abs s) = None"
    using ready_of_inv [OF assms(1-3)] assms(1) by (simp_all add: bm_inv_def)
  from abs_run_ready [OF r assms(4), of c] obtain b
    where b: "RunCurrentState (a_handler L c) i (bm_abs s) = Done b"
      "bm_ready L (a_kept (bm_abs s)) b" "sm_next b = None" by blast
  from b(1) obtain t where "RunCurrentState (bm_handler L c) i s = Done t" "b = bm_abs t"
    by (auto simp: basic.abs_run [symmetric] map_outcome_Done)
  with b(2,3) assms(1) bm_inv_ready [of L s t] show ?thesis by (auto simp: bm_inv_def)
qed

lemma initialize_inv:
  assumes "bm_inv L s" "sdk_hands L"
  shows "\<exists>t. bm_Initialize L c s = Done t \<and> bm_inv L t \<and> IsInitialized t"
proof (cases "IsInitialized s")
  case True
  with assms show ?thesis by (simp add: bm_Initialize_def)
next
  case False
  with assms abs_initialize_ready [of L "bm_abs s" c] obtain b
    where b: "Initialize (a_handler L c) State_BasicMode_0Pointables_NoInteraction (bm_abs s) = Done b"
      "bm_ready L (a_kept (bm_abs s)) b" "sm_next b = None" by (auto simp: bm_inv_def)
  from b(1) obtain t where "Initialize (bm_handler L c) State_BasicMode_0Pointables_NoInteraction s = Done t"
    "b = bm_abs t"
    by (auto simp: basic.abs_initialize [symmetric] map_outcome_Done)
  with b(2,3) assms(1) False bm_inv_ready [of L s t] show ?thesis
    by (auto simp: bm_inv_def bm_Initialize_def)
qed

lemma bm_inv_cong:
  assumes "bm_inv L s" "gim_ok t"
    "sm_logger t = sm_logger s" "sm_running t = sm_running s" "sm_next t = sm_next s"
    "sm_current t = sm_current s" "sm_violations t = sm_violations s"
    "buttons (out t) (Some False) = buttons (out s) (Some False)"
    "gestures (out t) (Some GestureNone) = gestures (out s) (Some GestureNone)"
    "m_clickDown t = m_clickDown s"
  shows "bm_inv L t"
  using assms
  by (auto simp: bm_inv_def IsInitialized_def bm_safe_def bm_unborn_def between_def bm_abs_def)

lemma bm_inv_gim: "bm_inv L s \<Longrightarrow> gim_ok s"
  by (simp add: bm_inv_def)

lemma gim_ok_trimmings [simp]:
  "gim_ok (s\<lparr>m_noTouching := b\<rparr>) = gim_ok s" "gim_ok (s\<lparr>m_lastNumIcons := i\<rparr>) = gim_ok s"
  "gim_ok (emit as s) = gim_ok s" "gim_ok s \<Longrightarrow> gim_ok (emitTouchEvent s)"
  by (simp_all add: gim_ok_def emitTouchEvent_def)

lemma bm_inv_trimmings:
  assumes "bm_inv L s"
  shows "bm_inv L (s\<lparr>m_noTouching := b\<rparr>)" "bm_inv L (bm_clear_overlays L s)"
    "bm_inv L (flushOverlay L s)" "bm_inv L (emitTouchEvent s)"
  using bm_inv_gim [OF assms]
  by (auto intro!: bm_inv_cong [OF assms] simp: bm_clear_overlays_def flushOverlay_def
      button_step_quiet gesture_step_quiet) (simp_all add: emitTouchEvent_def button_step_quiet gesture_step_quiet)

lemma trimmings_initialized [simp]:
  "IsInitialized (bm_clear_overlays L s) = IsInitialized s" "IsInitialized (flushOverlay L s) = IsInitialized s"
  "IsInitialized (emitTouchEvent s) = IsInitialized s"
  by (simp_all add: IsInitialized_def bm_clear_overlays_def flushOverlay_def emitTouchEvent_def)

lemma processFrameInternal_inv:
  assumes "bm_inv L s" "sdk_hands L"
  shows "\<exists>t. bm_processFrameInternal L c s = Done t \<and> bm_inv L t \<and> IsInitialized t"
proof -
  obtain s1 where s1: "bm_Initialize L c (s\<lparr>m_noTouching := number_touching L (m_relevantPointables s) = 0\<rparr>) = Done s1"
    "bm_inv L s1" "IsInitialized s1"
    using initialize_inv [OF bm_inv_trimmings(1) [OF assms(1)] assms(2)] by blast
  obtain s2 where "RunCurrentState (bm_handler L c) OMB_PROCESS_FRAME (bm_clear_overlays L s1) = Done s2"
    "bm_inv L s2" "IsInitialized s2"
    using run_inv [OF bm_inv_trimmings(2) [OF s1(2)] _ assms(2), of OMB_PROCESS_FRAME c] s1(3)
    by (auto simp: user_input_def)
  with s1 show ?thesis
    by (auto simp: bm_processFrameInternal_def Let_def intro: bm_inv_trimmings)
qed

lemma processFrame_inv:
  assumes "bm_inv L s" "sdk_hands L" "sdk_probabilities L"
    and "addFrame_in_order (fr_timestamp L frame) (m_timedFrameHistory s)"
  shows "\<exists>t. bm_processFrame L c frame since s = Done t \<and> bm_inv L t \<and> IsInitialized t"
proof -
  have "gim_ok s" using assms(1) by (simp add: bm_inv_def)
  from observe_frame_ok [OF this assms(4,3)] obtain t
    where o: "observe_frame L (bm_virtual L c) frame since s = Some t" "gim_ok t"
      "sm_current t = sm_current s" "sm_next t = sm_next s" "sm_running t = sm_running s"
      "sm_logger t = sm_logger s" "sm_violations t = sm_violations s" "out t = out s"
      "gim.more t = gim.more s" by metis
  have "m_clickDown t = m_clickDown s" using o(9) by (cases t; cases s) simp
  with o bm_inv_cong [OF assms(1) o(2)] have "bm_inv L t" by simp
  from processFrameInternal_inv [OF this assms(2), of c] o(1) show ?thesis
    by (simp add: bm_processFrame_def processFrame_def bm_virtual_def)
qed

lemma stopActiveEvents_inv:
  assumes "bm_inv L s" "IsInitialized s" "sdk_hands L"
  shows "\<exists>t. bm_stopActiveEvents L c s = Done t \<and> bm_inv L t \<and> IsInitialized t"
  using run_inv [OF assms, of OMB_LOST_FOCUS c] by (simp add: bm_stopActiveEvents_def user_input_def)

lemma new_inv:
  fixes L :: "('f, 'h, 'p, 'e) env_scheme"
  shows "\<exists>s. BasicMode L n t i = Inr s \<and> bm_inv L s \<and> \<not> IsInitialized s \<and>
    th_pairs (m_timedFrameHistory s) = []"
proof -
  obtain g :: "(bm_state, 'f, 'p) gim" where g: "GestureInteractionManager L = Inr g" "gim_ok g"
    "out g = []" "machine.truncate g = sm_new"
    "m_timedFrameHistory g = TimedHistory (500 * MILLISECONDS)"
    using gim_new by blast
  then show ?thesis
    by (cases g) (auto simp: BasicMode_def bm_inv_def IsInitialized_def bm_unborn_def between_def
        bm_abs_def gim.defs basic.defs machine.defs sm_new_def gim_ok_def TimedHistory_def)
qed

section \<open>Reachable states\<close>

text \<open>
  The configuration is static, so it may change between calls. A frame is no older than the one
  before it, which is what the SDK's frame history delivers. \<open>stopActiveEvents\<close> before the first
  frame would call through a null state.
\<close>

inductive bm_reachable :: "('f, 'h, 'p, 'e) env_scheme \<Rightarrow> ('f, 'p) bm \<Rightarrow> bool" for L where
  new: "BasicMode L n t i = Inr s \<Longrightarrow> bm_reachable L s"
| frame: "bm_reachable L s \<Longrightarrow> addFrame_in_order (fr_timestamp L f) (m_timedFrameHistory s) \<Longrightarrow>
    bm_processFrame L c f since s = Done t \<Longrightarrow> bm_reachable L t"
| lost_focus: "bm_reachable L s \<Longrightarrow> IsInitialized s \<Longrightarrow> bm_stopActiveEvents L c s = Done t \<Longrightarrow>
    bm_reachable L t"

lemma reachable_inv:
  assumes "bm_reachable L s" "sdk_hands L" "sdk_probabilities L"
  shows "bm_inv L s"
  using assms
proof (induction rule: bm_reachable.induct)
  case (new n t i s)
  then show ?case using new_inv [of L n t i] by auto
next
  case (frame s f c since t)
  then show ?case using processFrame_inv [of L s f c since] by auto
next
  case (lost_focus s c t)
  then show ?case using stopActiveEvents_inv [of L s c] by auto
qed

end
