(* ===== verification/Sample_Sdk.thy ===== *)
theory Sample_Sdk
  imports Interaction_Manager
begin

text \<open>
  A small SDK, on which the theorems about the modes are applied: a frame is a time and a list of
  pointables, each on a hand or on none; every motion it reports is zero. It meets what the
  development assumes of the SDK.
\<close>

record s_pointable =
  sp_id :: int
  sp_hand :: int
  sp_zone :: zone
  sp_tip :: vec

type_synonym s_hand = "int \<times> s_pointable list"

record s_frame =
  sf_time :: int
  sf_pointables :: "s_pointable list"

definition s_invalid :: s_pointable where
  "s_invalid = \<lparr>sp_id = -1, sp_hand = -1, sp_zone = ZONE_NONE, sp_tip = 0\<rparr>"

definition s_hand_of :: "s_frame \<Rightarrow> int \<Rightarrow> s_hand" where
  "s_hand_of f i =
     (let ps = filter (\<lambda>p. sp_hand p = i) (sf_pointables f) in if 0 \<le> i \<and> ps \<noteq> [] then (i, ps) else (-1, []))"

definition s_pointable_of :: "s_frame \<Rightarrow> int \<Rightarrow> s_pointable" where
  "s_pointable_of f i =
     (case find (\<lambda>p. sp_id p = i \<and> 0 \<le> i) (sf_pointables f) of None \<Rightarrow> s_invalid | Some p \<Rightarrow> p)"

definition s_screen :: LPVirtualScreen where
  "s_screen = LPVirtualScreen [\<lparr>m_screenID = 0, m_screenIndex = 0, 
     m_bounds = LPRectMake 0 0 1000 1000, m_isPrimary = True\<rparr>]"

definition sample :: "platform \<Rightarrow> (s_frame, s_hand, s_pointable) env" where
  "sample p =
     \<lparr>fr_timestamp = sf_time, fr_valid = (\<lambda>f. True),
      fr_hands = (\<lambda>f. map (s_hand_of f) (remdups (filter (\<lambda>i. 0 \<le> i) (map sp_hand (sf_pointables f))))),
      fr_pointables = sf_pointables, fr_hand = s_hand_of, fr_pointable = s_pointable_of,
      fr_normalizePoint = (\<lambda>f v clamp. vscale (1 / 1000) v), fr_translation = (\<lambda>f g. 0),
      fr_rotationProbability = (\<lambda>f g. 0), fr_translationProbability = (\<lambda>f g. 0),
      fr_scaleProbability = (\<lambda>f g. 0), fr_rotationAngleZ = (\<lambda>f g. 0), fr_scaleFactor = (\<lambda>f g. 1),
      invalid_frame = \<lparr>sf_time = 0, sf_pointables = []\<rparr>, invalid_hand = (-1, []),
      invalid_pointable = s_invalid,
      h_id = fst, h_valid = (\<lambda>h. 0 \<le> fst h), h_pointables = snd, h_direction = (\<lambda>h. Vec 0 0 (-1)),
      h_palmNormal = (\<lambda>h. Vec 0 (-1) 0), h_palmPosition = (\<lambda>h. 0), h_palmVelocity = (\<lambda>h. 0),
      h_stabilizedPalmPosition = (\<lambda>h. 0), h_timeVisible = (\<lambda>h. 1), h_frame_id = (\<lambda>h. 0),
      p_id = sp_id, p_valid = (\<lambda>p. 0 \<le> sp_id p), p_hand = (\<lambda>p. (sp_hand p, [p])),
      p_touchZone = sp_zone, p_touchDistance = (\<lambda>p. if sp_zone p = ZONE_TOUCHING then -1 else 1),
      p_direction = (\<lambda>p. Vec 0 0 (-1)), p_tipPosition = sp_tip, p_stabilizedTipPosition = sp_tip,
      p_tipVelocity = (\<lambda>p. 0), p_timeVisible = (\<lambda>p. 1), p_frame_id = (\<lambda>p. 0),
      e_platform = p,
      e_overlay = initializeOverlay None (\<lambda>i. False) (OverlayDriver s_screen),
      e_touchAvailable = True, e_touchVersion = 8, e_useCharmHelper = False\<rparr>"

lemma sample_hands: "sdk_hands (sample p)"
proof -
  have "0 \<le> fst (s_hand_of f (sp_hand q))" if "s_pointable_of f i = q" "0 \<le> sp_hand q" for f i q
  proof -
    have "q \<in> set (sf_pointables f)"
      using that by (auto simp: s_pointable_of_def s_invalid_def find_Some_iff split: option.splits)
    with that(2) show ?thesis by (auto simp: s_hand_of_def Let_def filter_empty_conv)
  qed
  then show ?thesis by (simp add: sdk_hands_def sample_def)
qed

lemma sample_ids: "sdk_ids (sample p)"
  by (auto simp: sdk_ids_def sample_def s_hand_of_def s_pointable_of_def s_invalid_def Let_def
      find_Some_iff split: option.splits)

lemma sample_probabilities: "sdk_probabilities (sample p)"
  by (simp add: sdk_probabilities_def sample_def)

lemma sample_platform [simp]: "e_platform (sample p) = p"
  by (simp add: sample_def)

text \<open>Frames with no pointable, at given times.\<close>

definition s_empty :: "int \<Rightarrow> s_frame" where "s_empty t = \<lparr>sf_time = t, sf_pointables = []\<rparr>"

lemma sample_timestamp [simp]: "fr_timestamp (sample p) (s_empty t) = t"
  by (simp add: sample_def s_empty_def)

end
