(* ===== verification/Basic_Properties.thy ===== *)
theory Basic_Properties
  imports Basic_Lifecycle Sample_Sdk
begin

text \<open>
  What the basic mode promises its users, over every sequence of frames and losses of focus, and
  the one assertion it can fail. The hypotheses on the SDK are those of \<open>Leap_Api\<close> and
  \<open>Interaction_Manager\<close>: a frame knows the hands of its pointables, and the probabilities it
  reports of two frames are nonnegative and add up to one or to zero.
\<close>

section \<open>A first state of the sample\<close>

lemma sample_start:
  obtains s where "BasicMode (sample p) 0 0 0 = Inr s" "bm_reachable (sample p) s"
    "th_pairs (m_timedFrameHistory s) = []"
  using new_inv [of "sample p" 0 0 0] bm_reachable.new by blast

lemma first_in_order: "th_pairs h = [] \<Longrightarrow> addFrame_in_order t h"
  by (simp add: addFrame_in_order_def)

section \<open>Destruction\<close>

lemma exit_releases:
  assumes "bm_ready L k a" "sm_next a = None" "sm_current a = Some st"
  shows "between L State_BasicMode_0Pointables_NoInteraction (exited L c st a)"
proof -
  let ?a = "a\<lparr>sm_next := Some State_BasicMode_0Pointables_NoInteraction\<rparr>"
  have "bm_safe L ?a"
    using assms by (auto simp: bm_ready_def bm_safe_def)
  from exit_between [OF this, of st State_BasicMode_0Pointables_NoInteraction c] assms(3)
  show ?thesis by (simp add: exited_def)
qed

lemma shutdown_clean:
  assumes "bm_ready L k a" "sm_next a = None"
  shows "\<exists>b. Shutdown (a_handler L c) a = Done b \<and> sm_current b = None \<and>
    between L State_BasicMode_0Pointables_NoInteraction b"
proof -
  obtain st where st: "sm_current a = Some st" using assms(1) by (auto simp: bm_ready_def settling_def)
  let ?e = "(exited L c st a)\<lparr>sm_running := False\<rparr>"
  have "sm_first (a_handler L c) SM_EXIT a = ?e"
    using assms st by (simp add: sm_first_def call_state_quiet bm_ready_def settling_def exited_def)
  then have "Shutdown (a_handler L c) a = Done (?e\<lparr>sm_current := None\<rparr>)"
    using assms st by (simp add: Shutdown_def RunCurrentStatePrivate_def bm_ready_def)
  moreover have "between L State_BasicMode_0Pointables_NoInteraction (?e\<lparr>sm_current := None\<rparr>)"
    using exit_releases [OF assms st] by (simp add: between_def)
  ultimately show ?thesis by simp
qed

lemma destroy_clean:
  assumes "bm_inv L s" "sdk_hands L"
  shows "\<exists>t. bm_destroy L c s = Done t \<and> sm_current t = None \<and>
    between L State_BasicMode_0Pointables_NoInteraction (bm_abs t)"
proof -
  have "\<exists>t. Shutdown (bm_handler L c) s = Done t \<and> sm_current t = None \<and>
    between L State_BasicMode_0Pointables_NoInteraction (bm_abs t)"
  proof (cases "IsInitialized s")
    case True
    have n: "sm_next (bm_abs s) = None" using assms(1) by (simp add: bm_inv_def)
    from shutdown_clean [OF ready_of_inv [OF assms(1) True assms(2)] n, of c] obtain b
      where b: "Shutdown (a_handler L c) (bm_abs s) = Done b" "sm_current b = None"
        "between L State_BasicMode_0Pointables_NoInteraction b" by blast
    from b(1) obtain t where "Shutdown (bm_handler L c) s = Done t" "b = bm_abs t"
      by (auto simp: basic.abs_shutdown [symmetric] map_outcome_Done)
    with b show ?thesis by auto
  next
    case False
    with assms show ?thesis
      by (simp add: Shutdown_def Let_def IsInitialized_def bm_inv_def bm_unborn_def)
  qed
  then obtain t where t: "Shutdown (bm_handler L c) s = Done t" "sm_current t = None"
    "between L State_BasicMode_0Pointables_NoInteraction (bm_abs t)" by blast
  then have "between L State_BasicMode_0Pointables_NoInteraction (bm_abs (gim_destroy L (flushOverlay L t)))"
    by (auto simp: flushOverlay_def gim_destroy_def between_def bm_abs_def button_step_quiet gesture_step_quiet)
  with t show ?thesis by (simp add: bm_destroy_def flushOverlay_def gim_destroy_def)
qed

section \<open>Frames\<close>

text \<open>
  C3 Every frame is processed to its end. Whatever came before, as long as frames arrive in order,
  \<open>processFrame\<close> of the basic mode returns: the filter is never asked for an unknown category, no
  null state is called, and the states, which call for each other while they are entered, settle.
\<close>

theorem basic_frame_returns:
  assumes "bm_reachable L s" "sdk_hands L" "sdk_probabilities L"
    and "addFrame_in_order (fr_timestamp L f) (m_timedFrameHistory s)"
  shows "\<exists>t. bm_processFrame L c f since s = Done t \<and> IsInitialized t \<and> bm_reachable L t"
proof -
  obtain t where t: "bm_processFrame L c f since s = Done t" "IsInitialized t"
    using processFrame_inv [OF reachable_inv [OF assms(1-3)] assms(2-4)] by blast
  from bm_reachable.frame [OF assms(1,4) t(1)] t show ?thesis by blast
qed

theorem basic_frame_returns_witness:
  "\<exists>s t. BasicMode (sample Apple) 0 0 0 = Inr s \<and>
     bm_processFrame (sample Apple) bm_config_default (s_empty 0) (s_empty 0) s = Done t"
proof -
  obtain s where s: "BasicMode (sample Apple) 0 0 0 = Inr s" "bm_reachable (sample Apple) s"
    "th_pairs (m_timedFrameHistory s) = []"
    using sample_start by blast
  from basic_frame_returns [OF s(2) sample_hands sample_probabilities first_in_order [OF s(3)],
      where f = "s_empty 0" and c = bm_config_default and since = "s_empty 0"] s(1)
  show ?thesis by blast
qed

text \<open>
  C4 Clicks are bracketed. Over everything the mode has emitted, a button is pressed only when it is
  up and released only when it is down, and between two calls it is down exactly when
  \<open>m_clickDown\<close> says so, which only happens with mouse output and in the cool-down state.
\<close>

theorem basic_clicks_bracketed:
  assumes "bm_reachable L s" "sdk_hands L" "sdk_probabilities L"
  shows "buttons (out s) (Some False) = Some (m_clickDown s) \<and>
    (m_clickDown s \<longrightarrow>
       UseMouseOutput L \<and> sm_current s = Some State_BasicMode_1Pointable_ClickCooldown)"
  using reachable_inv [OF assms]
  by (auto simp: bm_inv_def bm_safe_def bm_unborn_def between_def bm_abs_def split: if_splits)

theorem basic_clicks_bracketed_witness:
  "\<exists>s. BasicMode (sample Apple) 0 0 0 = Inr s \<and> buttons (out s) (Some False) = Some (m_clickDown s)"
  using sample_start [of Apple] basic_clicks_bracketed [OF _ sample_hands sample_probabilities]
  by metis

text \<open>
  C5 Gestures are bracketed. No gesture begins inside another, none ends that was not begun, each
  amount applied belongs to the gesture begun, and between two calls the gesture in progress is the
  one of the current state.
\<close>

theorem basic_gestures_bracketed:
  assumes "bm_reachable L s" "sdk_hands L" "sdk_probabilities L"
  shows "gestures (out s) (Some GestureNone) =
    Some (case sm_current s of None \<Rightarrow> GestureNone | Some st \<Rightarrow> gesture_of L st)"
  using reachable_inv [OF assms]
  by (auto simp: bm_inv_def bm_safe_def bm_unborn_def between_def bm_abs_def split: if_splits)

theorem basic_gestures_bracketed_witness:
  "\<exists>s. BasicMode (sample Windows) 0 0 0 = Inr s \<and>
     gestures (out s) (Some GestureNone) =
       Some (case sm_current s of None \<Rightarrow> GestureNone | Some st \<Rightarrow> gesture_of (sample Windows) st)"
  using sample_start [of Windows] basic_gestures_bracketed [OF _ sample_hands sample_probabilities]
  by metis

text \<open>
  C6 No assertion fails with mouse output: not one of the state machine (a transition outside a
  state or while exiting, an input left unhandled), of the frame history, of the filters' readers or
  of the mode. With touch output only the assertion on leaving the scrolling state may fail.
\<close>

theorem basic_assertions_hold:
  assumes "bm_reachable L s" "sdk_hands L" "sdk_probabilities L"
  shows "set (sm_violations s) \<subseteq> (if UseMouseOutput L then {} else {OwnerAssertion 523})"
  using reachable_inv [OF assms]
  by (auto simp: bm_inv_def bm_safe_def bm_unborn_def between_def bm_abs_def allowed_violations_def
      split: if_splits)

theorem basic_assertions_hold_witness:
  "\<exists>s. BasicMode (sample Linux) 0 0 0 = Inr s \<and>
     set (sm_violations s) \<subseteq> (if UseMouseOutput (sample Linux) then {} else {OwnerAssertion 523})"
  using sample_start [of Linux] basic_assertions_hold [OF _ sample_hands sample_probabilities]
  by metis

text \<open>
  Destruction leaves nothing held. Whenever the mode is destroyed, its last actions release the
  button and end the gesture that were in progress, and only those, without a failed assertion.
\<close>

theorem basic_destroy_releases:
  assumes "bm_reachable L s" "sdk_hands L" "sdk_probabilities L"
  shows "\<exists>t. bm_destroy L c s = Done t \<and> \<not> IsInitialized t \<and>
    buttons (out t) (Some False) = Some False \<and> gestures (out t) (Some GestureNone) = Some GestureNone \<and>
    set (sm_violations t) \<subseteq> (if UseMouseOutput L then {} else {OwnerAssertion 523})"
proof -
  obtain t where t: "bm_destroy L c s = Done t" "sm_current t = None"
    "between L State_BasicMode_0Pointables_NoInteraction (bm_abs t)"
    using destroy_clean [OF reachable_inv [OF assms] assms(2)] by blast
  then show ?thesis
    by (auto simp: between_def bm_abs_def allowed_violations_def IsInitialized_def)
qed

theorem basic_destroy_releases_witness:
  "\<exists>s t. BasicMode (sample Apple) 0 0 0 = Inr s \<and> bm_destroy (sample Apple) bm_config_default s = Done t \<and>
     buttons (out t) (Some False) = Some False"
proof -
  obtain s where s: "BasicMode (sample Apple) 0 0 0 = Inr s" "bm_reachable (sample Apple) s"
    using sample_start by blast
  from basic_destroy_releases [OF s(2) sample_hands sample_probabilities, of bm_config_default] s(1)
  show ?thesis by blast
qed

text \<open>
  C7 The mode's machine refines the abstract one. For every state, input and configuration, running
  the concrete handlers and then abstracting is the same as running the abstract handlers, transition
  loop included: the same outcome, the same next state, the same assertions, the same presses and
  gestures.
\<close>

theorem basic_refines:
  "map_outcome bm_abs (RunCurrentState (bm_handler L c) i s) = RunCurrentState (a_handler L c) i (bm_abs s)"
  by (rule basic.abs_run)

section \<open>Losing the hand\<close>

lemma violations_grow:
  assumes "sm_running a" "sm_current a = Some k"
  shows "set (sm_violations a) \<subseteq> set (sm_violations (snd (a_handler L c st i a)))"
  using assms by (cases st) (auto simp: bm_handlers Let_def sm_assert_def)

lemma transition_violations:
  assumes "\<not> sm_logger a" "sm_current a = Some st"
  shows "set (sm_violations a) \<subseteq> set (sm_violations (sm_transition (a_handler L c) nxt a))"
proof -
  have "set (sm_violations a) \<subseteq> set (sm_violations (exited L c st a))"
    using violations_grow [of "a\<lparr>sm_next := None, sm_running := True\<rparr>" st L c st SM_EXIT] assms
    by (simp add: exited_def)
  also have "\<dots> \<subseteq> set (sm_violations (entered L c nxt (exited L c st a)))"
    using violations_grow [of "(exited L c st a)\<lparr>sm_running := True, sm_next := None, sm_current := Some nxt\<rparr>"
        nxt L c nxt SM_ENTER] by (simp add: entered_def)
  finally show ?thesis using assms by (simp add: transition_eq)
qed

lemma recorded_owner:
  "ranked_owner (a_handler L c) (\<lambda>a. bm_ready L k a \<and> v \<in> set (sm_violations a)) (settle_rank L c)"
proof
  fix a nxt
  assume a: "bm_ready L k a \<and> v \<in> set (sm_violations a)" and n: "sm_next a = Some nxt"
  then obtain st where "sm_current a = Some st" by (auto simp: bm_ready_def settling_def)
  with a n transition_violations [of a st L c nxt]
  show "bm_ready L k (sm_transition (a_handler L c) nxt a) \<and>
      v \<in> set (sm_violations (sm_transition (a_handler L c) nxt a))"
    using safe_transition [of L k a nxt c] by (auto simp: bm_ready_def settling_def)
  assume "sm_next (sm_transition (a_handler L c) nxt a) \<noteq> None"
  with a n basic_owner.transition_rank show "settle_rank L c (sm_transition (a_handler L c) nxt a) < settle_rank L c a"
    by blast
qed

lemma scrolling_hand_lost:
  assumes r: "bm_ready L k a" "sm_next a = None"
    and st: "sm_current a = Some State_BasicMode_2PlusPointables_Scrolling"
    and w: "\<not> UseMouseOutput L" "\<not> h_valid L (a_hand L a)"
  shows "\<exists>b. RunCurrentState (a_handler L c) OMB_PROCESS_FRAME a = Done b \<and>
    OwnerAssertion 523 \<in> set (sm_violations b)"
proof -
  let ?d = "a_dest L c a"
  let ?f = "sm_first (a_handler L c) OMB_PROCESS_FRAME a"
  have f: "?f = a\<lparr>sm_next := Some ?d\<rparr>"
  proof -
    have "a_dest L c (a\<lparr>sm_next := None, sm_running := True\<rparr>) = a_dest L c a"
      by (simp add: a_dest_def)
    then have "?f = a\<lparr>sm_next := Some ?d, sm_running := False\<rparr>"
      using r st w by (simp add: sm_first_def call_state_quiet bm_ready_def settling_def bm_handlers)
    also have "\<dots> = a\<lparr>sm_next := Some ?d\<rparr>"
      using r(1) by (cases a) (simp add: bm_ready_def)
    finally show ?thesis .
  qed
  have ready: "bm_ready L k ?f"
    using abs_first_ready [OF r, of OMB_PROCESS_FRAME c] by (simp add: user_input_def)
  let ?t = "sm_transition (a_handler L c) ?d ?f"
  have "OwnerAssertion 523 \<in> set (sm_violations (exited L c State_BasicMode_2PlusPointables_Scrolling ?f))"
    using w by (simp add: f exited_def bm_handlers sm_assert_def)
  moreover have "?t = entered L c ?d (exited L c State_BasicMode_2PlusPointables_Scrolling ?f)"
    using r st by (intro transition_eq) (simp_all add: f bm_ready_def settling_def)
  ultimately have "OwnerAssertion 523 \<in> set (sm_violations ?t)"
    using violations_grow [of "(exited L c State_BasicMode_2PlusPointables_Scrolling ?f)
        \<lparr>sm_running := True, sm_next := None, sm_current := Some ?d\<rparr>" ?d L c ?d SM_ENTER]
    by (auto simp: entered_def)
  moreover have "bm_ready L k ?t" using safe_transition [OF ready] by (simp add: f)
  ultimately obtain b where "sm_loop (a_handler L c) ?t = Some b" "OwnerAssertion 523 \<in> set (sm_violations b)"
    using ranked_owner.loop_returns [OF recorded_owner [of L c k "OwnerAssertion 523"], of ?t] by blast
  moreover have "sm_loop (a_handler L c) ?f = sm_loop (a_handler L c) ?t"
    by (rule sm_loop_step) (simp add: f)
  ultimately show ?thesis
    using st by (simp add: RunCurrentState_def RunCurrentStatePrivate_def)
qed

text \<open>
  C25 With touch output, losing the hand while scrolling fails an assertion. When the hand has left
  the frame, the scrolling state asks for a transition, and its own exit then asserts (l. 523) that
  the hand is valid. \<open>bm_inv\<close> is what holds between calls, so nothing else needs to have gone wrong.
\<close>

theorem basic_scrolling_asserts:
  assumes "bm_inv L s" "sdk_hands L" "e_platform L = Windows"
    and "sm_current s = Some State_BasicMode_2PlusPointables_Scrolling"
    and "\<not> h_valid L (fr_hand L (m_currentFrame s) (m_favoriteHandId s))"
  shows "\<exists>t. RunCurrentState (bm_handler L c) OMB_PROCESS_FRAME s = Done t \<and>
    OwnerAssertion 523 \<in> set (sm_violations t)"
proof -
  have r: "bm_ready L (a_kept (bm_abs s)) (bm_abs s)"
    using assms(1,2,4) by (intro ready_of_inv) (simp_all add: IsInitialized_def)
  have "\<not> h_valid L (a_hand L (bm_abs s))" "\<not> UseMouseOutput L"
    using assms(3,5) by (simp_all add: bm_abs_def mouse_output_def)
  with scrolling_hand_lost [OF r, of c] assms(1,4) obtain b
    where "RunCurrentState (a_handler L c) OMB_PROCESS_FRAME (bm_abs s) = Done b"
      "OwnerAssertion 523 \<in> set (sm_violations b)" by (auto simp: bm_inv_def)
  then show ?thesis
    by (auto simp: basic.abs_run [symmetric] map_outcome_Done)
qed

theorem basic_scrolling_asserts_witness:
  "\<exists>s t. RunCurrentState (bm_handler (sample Windows) bm_config_default) OMB_PROCESS_FRAME s = Done t \<and>
     sm_violations s = [] \<and> OwnerAssertion 523 \<in> set (sm_violations t)"
proof -
  let ?L = "sample Windows"
  obtain s where s: "bm_reachable ?L s" "\<not> IsInitialized s"
    using new_inv [of ?L 0 0 0] bm_reachable.new by blast
  let ?s = "s\<lparr>sm_current := Some State_BasicMode_2PlusPointables_Scrolling, sm_violations := [],
    m_currentFrame := s_empty 0, m_favoriteHandId := 1\<rparr>"
  have "bm_inv ?L s" using reachable_inv [OF s(1) sample_hands sample_probabilities] .
  then have "bm_inv ?L ?s"
    using s(2) by (auto simp: bm_inv_def bm_safe_def bm_unborn_def between_def bm_abs_def gim_ok_def
        IsInitialized_def gesture_of_def mouse_output_def)
  moreover have "\<not> h_valid ?L (fr_hand ?L (s_empty 0) 1)"
    by (simp add: sample_def s_hand_of_def s_empty_def)
  ultimately obtain t where "RunCurrentState (bm_handler ?L bm_config_default) OMB_PROCESS_FRAME ?s = Done t"
    "OwnerAssertion 523 \<in> set (sm_violations t)"
    using basic_scrolling_asserts [of ?L ?s bm_config_default] sample_hands [of Windows] by auto
  moreover have "sm_violations ?s = []" by simp
  ultimately show ?thesis by blast
qed

end
