(* ===== verification/Touch_Injectors.thy ===== *)
theory Touch_Injectors
  imports Touches Screens
begin

text \<open>
  The three back ends of the touch manager on Windows: \<open>TouchManagerWin8.cpp\<close> (a queue of contacts
  that \<open>FinishFrame\<close> injects in one call), \<open>TouchManagerWin7Driver.cpp\<close> (one report to the driver
  per call) and \<open>TouchManagerWin7Undocumented.cpp\<close> (messages to a captured window). A call of the
  system is recorded in the state; what the system answers is a parameter.
\<close>

unbundle bit_operations_syntax

section \<open>Windows 8\<close>

abbreviation POINTER_FLAG_INRANGE :: u32 where "POINTER_FLAG_INRANGE \<equiv> 0x2"
abbreviation POINTER_FLAG_INCONTACT :: u32 where "POINTER_FLAG_INCONTACT \<equiv> 0x4"
abbreviation POINTER_FLAG_DOWN :: u32 where "POINTER_FLAG_DOWN \<equiv> 0x10000"
abbreviation POINTER_FLAG_UPDATE :: u32 where "POINTER_FLAG_UPDATE \<equiv> 0x20000"
abbreviation POINTER_FLAG_UP :: u32 where "POINTER_FLAG_UP \<equiv> 0x40000"
abbreviation MAX_TOUCH_COUNT :: u32 where "MAX_TOUCH_COUNT \<equiv> 256"

record contact =
  c_touchMask :: u32
  c_orientation :: int
  c_pressure :: int
  c_rcContact :: "int \<times> int \<times> int \<times> int"  \<comment> \<open>left, top, right, bottom\<close>
  c_pointerFlags :: u32
  c_pointerId :: u32
  c_location :: "int \<times> int"

record win8 =
  m_TouchQueue :: "contact list"
  injected :: "contact list list"

definition mk_contact :: "Touch \<Rightarrow> u32 \<Rightarrow> contact" where
  "mk_contact touch pointerFlags =
     (let x = trunc (t_x touch - 0.5); y = trunc (t_y touch + 0.5) in
      \<lparr>c_touchMask = 0x1 OR 0x2 OR 0x4, c_orientation = 90, c_pressure = 32000,
       c_rcContact = (x - 2, y - 2, x + 2, y + 2),
       c_pointerFlags = pointerFlags, c_pointerId = t_id touch mod MAX_TOUCH_COUNT,
       c_location = (x, y)\<rparr>)"

definition TranslateAndSend8 :: "Touch \<Rightarrow> u32 \<Rightarrow> win8 \<Rightarrow> win8" where
  "TranslateAndSend8 touch pointerFlags w =
     w\<lparr>m_TouchQueue := m_TouchQueue w @ [mk_contact touch pointerFlags]\<rparr>"

definition AddTouch8 :: "Touch \<Rightarrow> win8 \<Rightarrow> win8" where
  "AddTouch8 touch w =
     (if t_touching touch
      then TranslateAndSend8 touch
             (POINTER_FLAG_INRANGE OR POINTER_FLAG_INCONTACT OR POINTER_FLAG_DOWN) w
      else TranslateAndSend8 touch (POINTER_FLAG_INRANGE OR POINTER_FLAG_UPDATE) w)"

definition UpdateTouch8 :: "Touch \<Rightarrow> Touch \<Rightarrow> win8 \<Rightarrow> win8" where
  "UpdateTouch8 oldTouch newTouch w =
     (if t_touching newTouch \<and> t_touching oldTouch
      then TranslateAndSend8 newTouch
             (POINTER_FLAG_INRANGE OR POINTER_FLAG_INCONTACT OR POINTER_FLAG_UPDATE) w
      else if t_touching newTouch \<and> \<not> t_touching oldTouch
      then TranslateAndSend8 newTouch
             (POINTER_FLAG_INRANGE OR POINTER_FLAG_INCONTACT OR POINTER_FLAG_DOWN) w
      else if \<not> t_touching newTouch \<and> t_touching oldTouch
      then TranslateAndSend8 oldTouch (POINTER_FLAG_INRANGE OR POINTER_FLAG_UP) w
      else TranslateAndSend8 newTouch (POINTER_FLAG_INRANGE OR POINTER_FLAG_UPDATE) w)"

definition RemoveTouch8 :: "Touch \<Rightarrow> win8 \<Rightarrow> win8" where
  "RemoveTouch8 oldTouch w =
     (if t_touching oldTouch then TranslateAndSend8 oldTouch POINTER_FLAG_UP w
      else TranslateAndSend8 oldTouch POINTER_FLAG_UPDATE w)"

definition FinishFrame8 :: "win8 \<Rightarrow> win8" where
  "FinishFrame8 w =
     (if m_TouchQueue w \<noteq> []
      then w\<lparr>injected := injected w @ [m_TouchQueue w], m_TouchQueue := []\<rparr> else w)"

definition TouchManagerWin8 :: "win8 touch_backend" where
  "TouchManagerWin8 = \<lparr>AddTouch = AddTouch8, UpdateTouch = UpdateTouch8, RemoveTouch = RemoveTouch8,
     FinishFrame = FinishFrame8, OnRemoveAllTouches = id\<rparr>"

subsection \<open>The pointer protocol\<close>

text \<open>
  What the injection interface documents for a contact: it goes down only when it is up, it is
  updated in contact only when it is down, it comes up only when it is down, and it hovers only
  when it is up. The monitor's state is the set of pointers that are down.
\<close>

definition pointer_step :: "contact \<Rightarrow> u32 set \<Rightarrow> u32 set option" where
  "pointer_step c D =
     (let i = c_pointerId c; f = c_pointerFlags c in
      if f AND POINTER_FLAG_DOWN \<noteq> 0 then (if i \<in> D then None else Some (insert i D))
      else if f AND POINTER_FLAG_UP \<noteq> 0 then (if i \<in> D then Some (D - {i}) else None)
      else if f AND POINTER_FLAG_INCONTACT \<noteq> 0 then (if i \<in> D then Some D else None)
      else (if i \<in> D then None else Some D))"

fun pointer_run :: "contact list \<Rightarrow> u32 set \<Rightarrow> u32 set option" where
  "pointer_run [] D = Some D"
| "pointer_run (c # cs) D = (case pointer_step c D of None \<Rightarrow> None | Some D' \<Rightarrow> pointer_run cs D')"

lemma pointer_run_append:
  "pointer_run (xs @ ys) D = (case pointer_run xs D of None \<Rightarrow> None | Some D' \<Rightarrow> pointer_run ys D')"
  by (induction xs arbitrary: D) (auto split: option.split)

definition sent :: "win8 \<Rightarrow> contact list" where
  "sent w = concat (injected w) @ m_TouchQueue w"

definition down_ids :: "touches \<Rightarrow> u32 set" where
  "down_ids ts = (\<lambda>t. t_id t mod MAX_TOUCH_COUNT) ` {t \<in> set ts. t_touching t}"

definition win8_inv :: "touches \<Rightarrow> win8 \<Rightarrow> bool" where
  "win8_inv ts w \<longleftrightarrow> pointer_run (sent w) {} = Some (down_ids ts)"

lemma sent_simps [simp]:
  "sent (TranslateAndSend8 t f w) = sent w @ [mk_contact t f]"
  "sent (FinishFrame8 w) = sent w"
  by (auto simp: sent_def TranslateAndSend8_def FinishFrame8_def)

lemma mk_contact_fields [simp]:
  "c_pointerId (mk_contact t f) = t_id t mod MAX_TOUCH_COUNT" "c_pointerFlags (mk_contact t f) = f"
  by (simp_all add: mk_contact_def Let_def)

lemma win8_inv_send:
  "win8_inv ts w \<Longrightarrow>
   win8_inv ts' (TranslateAndSend8 t f w) \<longleftrightarrow> pointer_step (mk_contact t f) (down_ids ts) = Some (down_ids ts')"
  by (auto simp: win8_inv_def pointer_run_append split: option.split)

lemma down_ids_member:
  assumes "inj_on (\<lambda>i. i mod MAX_TOUCH_COUNT) A" "t_id ` set ts \<subseteq> A" "i \<in> A"
  shows "i mod MAX_TOUCH_COUNT \<in> down_ids ts \<longleftrightarrow> (\<exists>s\<in>set ts. t_id s = i \<and> t_touching s)"
proof
  assume "i mod MAX_TOUCH_COUNT \<in> down_ids ts"
  then obtain s where s: "s \<in> set ts" "t_touching s" "t_id s mod MAX_TOUCH_COUNT = i mod MAX_TOUCH_COUNT"
    unfolding down_ids_def by (metis (mono_tags, lifting) imageE mem_Collect_eq)
  moreover from s(1) assms(2) have "t_id s \<in> A" by blast
  ultimately have "t_id s = i" using inj_onD [OF assms(1)] assms(3) by blast
  with s show "\<exists>s\<in>set ts. t_id s = i \<and> t_touching s" by blast
qed (auto simp: down_ids_def)

lemma down_ids_insert:
  "t_id t \<notin> t_id ` set ts \<Longrightarrow> down_ids (insert_touch t ts) =
     (if t_touching t then insert (t_id t mod MAX_TOUCH_COUNT) (down_ids ts) else down_ids ts)"
proof -
  assume "t_id t \<notin> t_id ` set ts"
  then have "set (insert_touch t ts) = insert t (set ts)" by (induction ts) auto
  then show ?thesis by (auto simp: down_ids_def)
qed

lemma down_ids_erase:
  assumes "inj_on (\<lambda>i. i mod MAX_TOUCH_COUNT) A" "t_id ` set ts \<subseteq> A" "i \<in> A"
  shows "down_ids (erase_touch i ts) = down_ids ts - {i mod MAX_TOUCH_COUNT}"
proof -
  have "t_id s mod MAX_TOUCH_COUNT = i mod MAX_TOUCH_COUNT \<longleftrightarrow> t_id s = i" if "s \<in> set ts" for s
  proof -
    have "t_id s \<in> A" using that assms(2) by blast
    then show ?thesis using inj_onD [OF assms(1)] assms(3) by blast
  qed
  then have "{s \<in> set (erase_touch i ts). t_touching s}
      = {s \<in> set ts. t_touching s \<and> t_id s mod MAX_TOUCH_COUNT \<noteq> i mod MAX_TOUCH_COUNT}"
    by (auto simp: erase_touch_def)
  then show ?thesis by (auto simp: down_ids_def)
qed

lemma win8_provider:
  assumes inj: "inj_on (\<lambda>i. i mod MAX_TOUCH_COUNT) A"
  shows "touch_provider TouchManagerWin8 A win8_inv"
proof
  fix ts :: touches and d :: win8 and t p :: Touch
  assume inv: "win8_inv ts d" and ok: "touches_ok ts" and sub: "t_id ` set ts \<subseteq> A"
  {
    assume new: "t_id t \<in> A" "t_id t \<notin> t_id ` set ts"
    have "t_id t mod MAX_TOUCH_COUNT \<notin> down_ids ts"
      using down_ids_member [OF inj sub new(1)] new(2) by (metis imageI)
    then show "win8_inv (insert_touch t ts) (AddTouch TouchManagerWin8 t d)"
      by (simp add: TouchManagerWin8_def AddTouch8_def win8_inv_send [OF inv] pointer_step_def
          Let_def down_ids_insert [OF new(2)])
  next
    assume p: "p \<in> set ts" "t_id p = t_id t"
    have mem: "t_id t mod MAX_TOUCH_COUNT \<in> down_ids ts \<longleftrightarrow> t_touching p"
    proof -
      have "t_id t \<in> A" using p sub by force
      from down_ids_member [OF inj sub this] show ?thesis
        using p touches_unique [OF ok] by metis
    qed
    have abs: "t_id t \<notin> t_id ` set (erase_touch (t_id t) ts)" by (auto simp: erase_touch_def)
    have er: "down_ids (erase_touch (t_id t) ts) = down_ids ts - {t_id t mod MAX_TOUCH_COUNT}"
      using p sub by (intro down_ids_erase [OF inj sub]) force
    show "win8_inv (insert_touch t (erase_touch (t_id t) ts)) (UpdateTouch TouchManagerWin8 p t d)"
      using mem p(2)
      by (auto simp: TouchManagerWin8_def UpdateTouch8_def win8_inv_send [OF inv] pointer_step_def
          Let_def down_ids_insert [OF abs] er)
  next
    assume t: "t \<in> set ts"
    have er: "down_ids (erase_touch (t_id t) ts) = down_ids ts - {t_id t mod MAX_TOUCH_COUNT}"
      using t sub by (intro down_ids_erase [OF inj sub]) force
    have mem: "t_id t mod MAX_TOUCH_COUNT \<in> down_ids ts \<longleftrightarrow> t_touching t"
    proof -
      have "t_id t \<in> A" using t sub by force
      from down_ids_member [OF inj sub this] show ?thesis
        using t touches_unique [OF ok] by metis
    qed
    then show "win8_inv (erase_touch (t_id t) ts) (RemoveTouch TouchManagerWin8 t d)"
      by (auto simp: TouchManagerWin8_def RemoveTouch8_def win8_inv_send [OF inv] pointer_step_def
          Let_def er)
  }
qed (auto simp: TouchManagerWin8_def win8_inv_def)

interpretation win8: touch_provider TouchManagerWin8 "{i. i < MAX_TOUCH_COUNT}" win8_inv
  by (rule win8_provider) (auto simp: inj_on_def mod_word_less)

section \<open>The Windows 7 driver\<close>

record report =
  r_id :: u8
  r_touching :: bool
  r_x :: real
  r_y :: real
  r_width :: real
  r_height :: real

record win7driver =
  w7_virtualScreen :: LPVirtualScreen
  reports :: "report list"

definition NormalizeTouch :: "LPVirtualScreen \<Rightarrow> Touch \<Rightarrow> Touch" where
  "NormalizeTouch v touch =
     (let q = Normalize (LPPoint (t_x touch) (t_y touch)) True v in setPos (px q) (py q) touch)"

definition SendReport :: "Touch \<Rightarrow> win7driver \<Rightarrow> win7driver" where
  "SendReport touch w =
     (let n = NormalizeTouch (w7_virtualScreen w) touch in
      w\<lparr>reports := reports w @ [\<lparr>r_id = ucast (t_id n), r_touching = t_touching n,
          r_x = t_x n, r_y = t_y n, r_width = 0.5, r_height = 0.5\<rparr>]\<rparr>)"

definition AddTouch7 :: "Touch \<Rightarrow> win7driver \<Rightarrow> win7driver" where
  "AddTouch7 touchDenorm w = SendReport touchDenorm w"

definition UpdateTouch7 :: "Touch \<Rightarrow> Touch \<Rightarrow> win7driver \<Rightarrow> win7driver" where
  "UpdateTouch7 oldTouch touchDenorm w = SendReport touchDenorm w"

definition RemoveTouch7 :: "Touch \<Rightarrow> win7driver \<Rightarrow> win7driver" where
  "RemoveTouch7 touchDenorm w = SendReport touchDenorm w"

definition TouchManagerWin7Driver :: "win7driver touch_backend" where
  "TouchManagerWin7Driver = \<lparr>AddTouch = AddTouch7, UpdateTouch = UpdateTouch7,
     RemoveTouch = RemoveTouch7, FinishFrame = id, OnRemoveAllTouches = id\<rparr>"

section \<open>Windows 7 without a driver\<close>

abbreviation TOUCHEVENTF_MOVE :: u32 where "TOUCHEVENTF_MOVE \<equiv> 0x1"
abbreviation TOUCHEVENTF_DOWN :: u32 where "TOUCHEVENTF_DOWN \<equiv> 0x2"
abbreviation TOUCHEVENTF_UP :: u32 where "TOUCHEVENTF_UP \<equiv> 0x4"
abbreviation TOUCHEVENTF_INRANGE :: u32 where "TOUCHEVENTF_INRANGE \<equiv> 0x8"
abbreviation TOUCHEVENTF_PRIMARY :: u32 where "TOUCHEVENTF_PRIMARY \<equiv> 0x10"

text \<open>A window handle is a number, the null handle is \<open>None\<close>.\<close>

record touch_message =
  tm_hwnd :: "nat option"
  tm_x :: int
  tm_y :: int
  tm_id :: u32
  tm_flags :: u32

record win7u =
  m_capture :: "nat option"
  m_primaryTouchID :: u32
  messages :: "touch_message list"

text \<open>
  The search for a child window after the message computes a local handle that nothing uses, so
  it is not translated.
\<close>

definition TranslateAndSend7 ::
  "(nat option \<Rightarrow> bool) \<Rightarrow> nat option \<Rightarrow> Touch \<Rightarrow> u32 \<Rightarrow> win7u \<Rightarrow> win7u" where
  "TranslateAndSend7 isTouchWindow hwnd touch dwFlags w =
     (if isTouchWindow hwnd
      then w\<lparr>messages := messages w @ [\<lparr>tm_hwnd = hwnd, tm_x = trunc (100 * t_x touch),
             tm_y = trunc (100 * t_y touch), tm_id = t_id touch, tm_flags = dwFlags\<rparr>]\<rparr>
      else w)"

definition AddTouch7u ::
  "(int \<times> int \<Rightarrow> nat option) \<Rightarrow> (nat option \<Rightarrow> bool) \<Rightarrow> Touch \<Rightarrow> win7u \<Rightarrow> win7u" where
  "AddTouch7u windowAt isTouchWindow touch w =
     (let (w1, f) =
        (if m_capture w = None
         then (w\<lparr>m_capture := windowAt (trunc (t_x touch), trunc (t_y touch)),
                 m_primaryTouchID := t_id touch\<rparr>, TOUCHEVENTF_PRIMARY)
         else (w, 0));
          dwFlags = f OR (TOUCHEVENTF_INRANGE OR (if t_touching touch then TOUCHEVENTF_DOWN else 0))
      in TranslateAndSend7 isTouchWindow (m_capture w1) touch dwFlags w1)"

definition UpdateTouch7u :: "(nat option \<Rightarrow> bool) \<Rightarrow> Touch \<Rightarrow> Touch \<Rightarrow> win7u \<Rightarrow> win7u" where
  "UpdateTouch7u isTouchWindow oldTouch touch w =
     (if m_capture w = None then w
      else TranslateAndSend7 isTouchWindow (m_capture w) touch
             (TOUCHEVENTF_INRANGE OR
               (if t_touching touch
                then (if t_touching oldTouch then TOUCHEVENTF_DOWN else TOUCHEVENTF_MOVE)
                else (if t_touching oldTouch then TOUCHEVENTF_MOVE else TOUCHEVENTF_UP))) w)"

definition RemoveTouch7u :: "(nat option \<Rightarrow> bool) \<Rightarrow> Touch \<Rightarrow> win7u \<Rightarrow> win7u" where
  "RemoveTouch7u isTouchWindow touch w =
     TranslateAndSend7 isTouchWindow (m_capture w) touch TOUCHEVENTF_UP w"

definition OnRemoveAllTouches7u :: "win7u \<Rightarrow> win7u" where
  "OnRemoveAllTouches7u w = w\<lparr>m_capture := None\<rparr>"

definition TouchManagerWin7Undocumented ::
  "(int \<times> int \<Rightarrow> nat option) \<Rightarrow> (nat option \<Rightarrow> bool) \<Rightarrow> win7u touch_backend" where
  "TouchManagerWin7Undocumented windowAt isTouchWindow =
     \<lparr>AddTouch = AddTouch7u windowAt isTouchWindow, UpdateTouch = UpdateTouch7u isTouchWindow,
      RemoveTouch = RemoveTouch7u isTouchWindow, FinishFrame = id,
      OnRemoveAllTouches = OnRemoveAllTouches7u\<rparr>"

lemma win7u_drained:
  "touches_ok old \<Longrightarrow>
   m_capture (snd (setTouches (TouchManagerWin7Undocumented wa tw) [] (old, d))) = None"
  by (simp add: setTouches_eq TouchManagerWin7Undocumented_def OnRemoveAllTouches7u_def)

text \<open>
  Messages go to touch windows only: the invariant of this back end.
\<close>

definition win7u_inv :: "(nat option \<Rightarrow> bool) \<Rightarrow> touches \<Rightarrow> win7u \<Rightarrow> bool" where
  "win7u_inv isTouchWindow ts w \<longleftrightarrow> list_all (\<lambda>m. isTouchWindow (tm_hwnd m)) (messages w)"

lemma win7u_inv_send:
  "win7u_inv tw ts w \<Longrightarrow> win7u_inv tw ts' (TranslateAndSend7 tw h t f w)"
  "win7u_inv tw ts w \<Longrightarrow> win7u_inv tw ts' w"
  "win7u_inv tw ts w \<Longrightarrow> win7u_inv tw ts' (w\<lparr>m_capture := c, m_primaryTouchID := i\<rparr>)"
  "win7u_inv tw ts w \<Longrightarrow> win7u_inv tw ts' (w\<lparr>m_capture := c\<rparr>)"
  by (simp_all add: win7u_inv_def TranslateAndSend7_def)

interpretation win7u:
  touch_provider "TouchManagerWin7Undocumented wa tw" UNIV "win7u_inv tw" for wa tw
  by unfold_locales
    (auto simp: TouchManagerWin7Undocumented_def AddTouch7u_def UpdateTouch7u_def RemoveTouch7u_def
      OnRemoveAllTouches7u_def Let_def intro: win7u_inv_send)

end
