(* ===== verification/Touch_Properties.thy ===== *)
theory Touch_Properties
  imports Touch_Injectors
begin

text \<open>
  What the touch manager and its back ends promise: the managed set follows the set handed over,
  each change is one call, and the contacts injected on Windows 8 obey the pointer protocol.
\<close>

section \<open>The manager\<close>

text \<open>
  C28 \<open>setTouches\<close> is exact. Whatever the back end, afterwards the manager holds just the new touches,
  and the calls made are: one removal for each old touch that is gone, then, in id order, one update
  for each touch that stays and one addition for each new one, then \<open>FinishFrame\<close>, and
  \<open>OnRemoveAllTouches\<close> when none is left.
\<close>

theorem set_touches_exact:
  assumes "touches_ok old" "touches_ok new"
  shows "setTouches B new (old, d) =
    (new, (if new = [] then OnRemoveAllTouches B else id)
            (FinishFrame B (arrivals B old new (removals B new old d))))"
  using assms by (rule setTouches_eq)

text \<open>A back end that keeps a log, to see the calls in order.\<close>

definition logging_backend :: "string touch_backend" where
  "logging_backend = \<lparr>AddTouch = \<lambda>t d. d @ ''a'', UpdateTouch = \<lambda>s t d. d @ ''u'',
     RemoveTouch = \<lambda>t d. d @ ''r'', FinishFrame = \<lambda>d. d @ ''f'', OnRemoveAllTouches = \<lambda>d. d @ ''0''\<rparr>"

theorem set_touches_exact_witness:
  "setTouches logging_backend [mk_Touch 2 0 5 5 True, mk_Touch 3 0 6 6 False]
     ([mk_Touch 1 0 1 1 True, mk_Touch 2 0 4 4 True], []) =
   ([mk_Touch 2 0 5 5 True, mk_Touch 3 0 6 6 False], ''ruaf'')"
proof -
  have "touches_ok [mk_Touch 1 0 1 1 True, mk_Touch 2 0 4 4 True]"
    "touches_ok [mk_Touch 2 0 5 5 True, mk_Touch 3 0 6 6 False]"
    by (simp_all add: mk_Touch_def)
  from set_touches_exact [OF this, of logging_backend "[]"] show ?thesis
    by (simp add: logging_backend_def removals_def arrivals_def find_touch_def mk_Touch_def)
qed

section \<open>Windows 8\<close>

text \<open>The manager driven by a sequence of touch sets.\<close>

definition run_touches :: "'d touch_backend \<Rightarrow> touches list \<Rightarrow> 'd \<Rightarrow> 'd touch_manager" where
  "run_touches B tss d = fold (setTouches B) tss ([], d)"

lemma run_touches_last:
  "list_all touches_ok tss \<Longrightarrow> fst (run_touches B tss d) = (if tss = [] then [] else last tss)"
proof (induction tss rule: rev_induct)
  case (snoc ts tss)
  then have "touches_ok (fst (run_touches B tss d))"
    by (auto simp: list_all_iff split: if_splits)
  with snoc.prems setTouches_eq [of "fst (run_touches B tss d)" ts B "snd (run_touches B tss d)"]
  show ?case by (simp add: run_touches_def)
qed (simp add: run_touches_def)

lemma win8_runs:
  assumes "list_all touches_ok tss" "\<forall>ts\<in>set tss. \<forall>t\<in>set ts. t_id t < MAX_TOUCH_COUNT"
  shows "win8.managed (run_touches TouchManagerWin8 tss \<lparr>m_TouchQueue = [], injected = []\<rparr>)"
  using assms
proof (induction tss rule: rev_induct)
  case (snoc ts tss)
  then show ?case
    using win8.setTouches_managed [of "run_touches TouchManagerWin8 tss \<lparr>m_TouchQueue = [], injected = []\<rparr>" ts]
    by (auto simp: run_touches_def)
qed (simp add: run_touches_def win8.managed_def win8_inv_def sent_def down_ids_def)

text \<open>
  C26 Every contact injected on Windows 8 obeys the pointer protocol: over any sequence of touch sets
  with ids below the touch count, a pointer goes down only when it is up, moves in contact and comes
  up only when it is down, and the pointers left down are those of the last set's touching points.
\<close>

theorem win8_protocol:
  assumes "list_all touches_ok tss" "\<forall>ts\<in>set tss. \<forall>t\<in>set ts. t_id t < MAX_TOUCH_COUNT"
  shows "pointer_run (sent (snd (run_touches TouchManagerWin8 tss \<lparr>m_TouchQueue = [], injected = []\<rparr>))) {} =
    Some (down_ids (if tss = [] then [] else last tss))"
proof -
  obtain ts w where "run_touches TouchManagerWin8 tss \<lparr>m_TouchQueue = [], injected = []\<rparr> = (ts, w)"
    by fastforce
  with win8_runs [OF assms] run_touches_last [OF assms(1), of TouchManagerWin8 "\<lparr>m_TouchQueue = [], injected = []\<rparr>"]
  show ?thesis by (simp only: win8.managed_def win8_inv_def fst_conv snd_conv prod.case)
qed

theorem win8_protocol_witness:
  "pointer_run (sent (snd (run_touches TouchManagerWin8 [[mk_Touch 5 0 1 1 True], []]
     \<lparr>m_TouchQueue = [], injected = []\<rparr>))) {} = Some {}"
  using win8_protocol [of "[[mk_Touch 5 0 1 1 True], []]"] by (simp add: mk_Touch_def down_ids_def)

text \<open>
  The ids must stay below the touch count. The back end reduces an id modulo 256, so two touching
  points whose ids differ by 256 become the same pointer, which goes down twice.
\<close>

theorem win8_id_collision:
  assumes "t_touching s" "t_touching t" "t_id s mod MAX_TOUCH_COUNT = t_id t mod MAX_TOUCH_COUNT"
    and "t_id s < t_id t"
  shows "pointer_run (sent (snd (setTouches TouchManagerWin8 [s, t] ([], \<lparr>m_TouchQueue = [], injected = []\<rparr>)))) {} =
    None"
  using assms
  by (simp add: setTouches_eq removals_def arrivals_def find_touch_def TouchManagerWin8_def AddTouch8_def
      FinishFrame8_def TranslateAndSend8_def sent_def pointer_step_def Let_def)

theorem win8_id_collision_witness:
  "pointer_run (sent (snd (setTouches TouchManagerWin8 [mk_Touch 1 0 2 2 True, mk_Touch 257 0 3 3 True]
     ([], \<lparr>m_TouchQueue = [], injected = []\<rparr>)))) {} = None"
  by (rule win8_id_collision) (simp_all add: mk_Touch_def)

section \<open>Windows 7\<close>

text \<open>
  The driver of Windows 7 is never told that a touching point has gone. Removing a touch sends the
  same report as updating it: its \<open>touching\<close> flag unchanged.
\<close>

theorem win7_removal_still_touching:
  "RemoveTouch7 t w = UpdateTouch7 s t w \<and> r_touching (last (reports (RemoveTouch7 t w))) = t_touching t"
  by (simp add: RemoveTouch7_def UpdateTouch7_def SendReport_def NormalizeTouch_def setPos_def Let_def)

end
