(* ===== verification/Bounded_Queue.thy ===== *)
theory Bounded_Queue
  imports Prelude
begin

text \<open>
  The circular queue of \<open>source/Utility/BoundedQueue.h\<close>. The template's \<open>maxSize\<close> is an argument;
  the array is a list of that length. \<open>size_t\<close> counters are naturals with the wrap-around of the
  decrement written out: \<open>Dequeue\<close> does not check for an empty queue.
\<close>

record 'a bqueue =
  m_Data :: "'a list"
  m_CurFront :: nat
  m_CurBack :: nat
  m_CurSize :: nat

definition size_t_max :: nat where "size_t_max = 2 ^ 64"

definition Reset :: "'a bqueue \<Rightarrow> 'a bqueue" where
  "Reset q = q\<lparr>m_CurFront := 0, m_CurBack := 0, m_CurSize := 0\<rparr>"

text \<open>The array starts out holding default-constructed elements.\<close>

definition BoundedQueue :: "nat \<Rightarrow> 'a \<Rightarrow> 'a bqueue" where
  "BoundedQueue N dflt =
     Reset \<lparr>m_Data = replicate N dflt, m_CurFront = 0, m_CurBack = 0, m_CurSize = 0\<rparr>"

definition Enqueue :: "nat \<Rightarrow> 'a \<Rightarrow> 'a bqueue \<Rightarrow> bool \<times> 'a bqueue" where
  "Enqueue N x q =
     (if m_CurSize q = N then (False, q)
      else (True, q\<lparr>m_Data := (m_Data q)[m_CurBack q := x],
                    m_CurBack := (m_CurBack q + 1) mod N,
                    m_CurSize := m_CurSize q + 1\<rparr>))"

definition Dequeue :: "nat \<Rightarrow> 'a bqueue \<Rightarrow> 'a \<times> 'a bqueue" where
  "Dequeue N q =
     (m_Data q ! m_CurFront q,
      q\<lparr>m_CurFront := (m_CurFront q + 1) mod N,
        m_CurSize := (m_CurSize q + size_t_max - 1) mod size_t_max\<rparr>)"

definition PeekFront :: "nat \<Rightarrow> nat \<Rightarrow> 'a bqueue \<Rightarrow> 'a" where
  "PeekFront N idx q = m_Data q ! ((m_CurFront q + idx) mod N)"

definition Size :: "'a bqueue \<Rightarrow> nat" where "Size q = m_CurSize q"
definition IsEmpty :: "'a bqueue \<Rightarrow> bool" where "IsEmpty q \<longleftrightarrow> m_CurSize q = 0"
definition IsFull :: "nat \<Rightarrow> 'a bqueue \<Rightarrow> bool" where "IsFull N q \<longleftrightarrow> m_CurSize q = N"

section \<open>Representation invariant and abstraction\<close>

definition bq_inv :: "nat \<Rightarrow> 'a bqueue \<Rightarrow> bool" where
  "bq_inv N q \<longleftrightarrow> 0 < N \<and> N < size_t_max \<and> length (m_Data q) = N \<and> m_CurFront q < N \<and>
     m_CurSize q \<le> N \<and> m_CurBack q = (m_CurFront q + m_CurSize q) mod N"

definition bq_list :: "nat \<Rightarrow> 'a bqueue \<Rightarrow> 'a list" where
  "bq_list N q = map (\<lambda>i. m_Data q ! ((m_CurFront q + i) mod N)) [0..<m_CurSize q]"

lemma length_bq_list [simp]: "length (bq_list N q) = Size q"
  by (simp add: bq_list_def Size_def)

lemma bq_inv_new: "0 < N \<Longrightarrow> N < size_t_max \<Longrightarrow> bq_inv N (BoundedQueue N d)"
  by (simp add: bq_inv_def BoundedQueue_def Reset_def)

lemma bq_inv_Reset: "bq_inv N q \<Longrightarrow> bq_inv N (Reset q)"
  by (simp add: bq_inv_def Reset_def)

lemma bq_list_Reset [simp]: "bq_list N (Reset q) = []"
  by (simp add: bq_list_def Reset_def)

lemma bq_inv_Enqueue:
  assumes "bq_inv N q"
  shows "bq_inv N (snd (Enqueue N x q))"
  using assms by (auto simp: bq_inv_def Enqueue_def mod_Suc_eq)

lemma mod_offset_neq:
  assumes "i < (s::nat)" "s < N"
  shows "(f + i) mod N \<noteq> (f + s) mod N"
proof
  assume "(f + i) mod N = (f + s) mod N"
  with assms have "N dvd (f + s) - (f + i)" by (metis mod_eq_dvd_iff_nat add_left_mono less_imp_le)
  then have "N dvd s - i" by simp
  with assms show False by (simp add: nat_dvd_not_less)
qed

lemma bq_list_Enqueue:
  assumes "bq_inv N q" and "\<not> IsFull N q"
  shows "bq_list N (snd (Enqueue N x q)) = bq_list N q @ [x]"
proof -
  from assms have s: "m_CurSize q < N" and l: "length (m_Data q) = N"
    and b: "m_CurBack q = (m_CurFront q + m_CurSize q) mod N" and n: "0 < N"
    by (auto simp: bq_inv_def IsFull_def)
  have "(m_Data q)[m_CurBack q := x] ! ((m_CurFront q + i) mod N)
          = m_Data q ! ((m_CurFront q + i) mod N)" if "i < m_CurSize q" for i
    using mod_offset_neq [OF that s, of "m_CurFront q"] b by (metis nth_list_update_neq)
  moreover have "(m_Data q)[m_CurBack q := x] ! ((m_CurFront q + m_CurSize q) mod N) = x"
    using b l n by simp
  ultimately show ?thesis
    using s by (simp add: bq_list_def Enqueue_def)
qed

lemma bq_inv_Dequeue:
  assumes "bq_inv N q" and "\<not> IsEmpty q"
  shows "bq_inv N (snd (Dequeue N q))"
proof -
  from assms have z: "0 < m_CurSize q" "m_CurSize q \<le> N" "N < size_t_max"
    by (auto simp: bq_inv_def IsEmpty_def)
  then have "(m_CurSize q + size_t_max - 1) mod size_t_max = m_CurSize q - 1"
    by (metis Nat.add_diff_assoc2 One_nat_def Suc_leI le_less_trans less_imp_diff_less mod_add_self2
        mod_less)
  moreover have "(m_CurFront q + m_CurSize q) mod N
     = ((m_CurFront q + 1) mod N + (m_CurSize q - 1)) mod N"
  proof -
    have "((m_CurFront q + 1) mod N + (m_CurSize q - 1)) mod N
            = (m_CurFront q + 1 + (m_CurSize q - 1)) mod N"
      by (rule mod_add_left_eq)
    also have "m_CurFront q + 1 + (m_CurSize q - 1) = m_CurFront q + m_CurSize q"
      using z by simp
    finally show ?thesis by simp
  qed
  ultimately show ?thesis
    using assms by (auto simp: bq_inv_def Dequeue_def)
qed

lemma bq_list_Dequeue:
  assumes "bq_inv N q" and "\<not> IsEmpty q"
  shows "bq_list N q = fst (Dequeue N q) # bq_list N (snd (Dequeue N q))"
proof -
  from assms have z: "0 < m_CurSize q" "m_CurSize q \<le> N" "N < size_t_max" "m_CurFront q < N"
    by (auto simp: bq_inv_def IsEmpty_def)
  then have sz: "(m_CurSize q + size_t_max - 1) mod size_t_max = m_CurSize q - 1"
    by (metis Nat.add_diff_assoc2 One_nat_def Suc_leI le_less_trans less_imp_diff_less mod_add_self2
        mod_less)
  have "[0..<m_CurSize q] = 0 # map Suc [0..<m_CurSize q - 1]"
    using z by (metis Suc_pred' map_Suc_upt upt_conv_Cons)
  then show ?thesis
    using z sz by (simp add: bq_list_def Dequeue_def mod_add_left_eq)
qed

lemma Size_Dequeue:
  assumes "bq_inv N q" and "\<not> IsEmpty q"
  shows "Size q = Suc (Size (snd (Dequeue N q)))"
  using bq_list_Dequeue [OF assms] by (metis length_bq_list length_Cons)

lemma PeekFront_nth: "bq_inv N q \<Longrightarrow> i < Size q \<Longrightarrow> PeekFront N i q = bq_list N q ! i"
  by (simp add: PeekFront_def bq_list_def Size_def)

section \<open>The contract its clients use\<close>

text \<open>
  A bounded first-in first-out buffer. The one client keeps a moving window: it drops the oldest
  element when the buffer is full and then appends.
\<close>

locale bounded_fifo =
  fixes cap :: nat
    and inv :: "'q \<Rightarrow> bool"
    and contents :: "'q \<Rightarrow> 'a list"
    and full :: "'q \<Rightarrow> bool"
    and enq :: "'a \<Rightarrow> 'q \<Rightarrow> bool \<times> 'q"
    and deq :: "'q \<Rightarrow> 'a \<times> 'q"
  assumes cap_pos: "0 < cap"
    and bounded: "inv q \<Longrightarrow> length (contents q) \<le> cap"
    and full_iff: "inv q \<Longrightarrow> full q \<longleftrightarrow> length (contents q) = cap"
    and inv_enq: "inv q \<Longrightarrow> inv (snd (enq x q))"
    and contents_enq: "inv q \<Longrightarrow> \<not> full q \<Longrightarrow> contents (snd (enq x q)) = contents q @ [x]"
    and inv_deq: "inv q \<Longrightarrow> contents q \<noteq> [] \<Longrightarrow> inv (snd (deq q))"
    and contents_deq: "inv q \<Longrightarrow> contents q \<noteq> [] \<Longrightarrow> contents (snd (deq q)) = tl (contents q)"
    and front_deq: "inv q \<Longrightarrow> contents q \<noteq> [] \<Longrightarrow> fst (deq q) = hd (contents q)"
begin

lemma window_step:
  assumes "inv q"
  defines "q' \<equiv> (if full q then snd (deq q) else q)"
  shows "inv (snd (enq x q'))" and "contents (snd (enq x q')) = last_n cap (contents q @ [x])"
proof -
  have ne: "full q \<Longrightarrow> contents q \<noteq> []"
    using full_iff [OF assms(1)] cap_pos by auto
  have i: "inv q'"
    unfolding q'_def using assms(1) inv_deq ne by auto
  have nf: "\<not> full q'"
  proof (cases "full q")
    case True
    then have "length (contents q') = cap - 1"
      unfolding q'_def using contents_deq [OF assms(1) ne] full_iff [OF assms(1)] by simp
    with full_iff [OF i] cap_pos show ?thesis by simp
  next
    case False
    then show ?thesis by (simp add: q'_def)
  qed
  from i show "inv (snd (enq x q'))" by (rule inv_enq)
  have "contents q' @ [x] = last_n cap (contents q @ [x])"
  proof (cases "full q")
    case True
    then show ?thesis
      unfolding q'_def using contents_deq [OF assms(1) ne] full_iff [OF assms(1)]
        last_n_drop1 [of "contents q" cap x] cap_pos by simp
  next
    case False
    with full_iff [OF assms(1)] bounded [OF assms(1)]
    have "length (contents q @ [x]) \<le> cap" by simp
    with False show ?thesis by (simp add: q'_def)
  qed
  then show "contents (snd (enq x q')) = last_n cap (contents q @ [x])"
    using contents_enq [OF i nf] by simp
qed

end

text \<open>The momentum history of a scroll gesture holds eleven points.\<close>

interpretation momentum_window:
  bounded_fifo "11" "bq_inv 11" "bq_list 11" "IsFull 11" "Enqueue 11" "Dequeue 11"
proof unfold_locales
  fix q :: "'a bqueue" and x :: 'a
  have ne: "bq_list 11 q \<noteq> [] \<longleftrightarrow> \<not> IsEmpty q"
    by (metis IsEmpty_def Size_def length_0_conv length_bq_list)
  show "0 < (11::nat)" by simp
  show "bq_inv 11 q \<Longrightarrow> length (bq_list 11 q) \<le> 11"
    by (simp add: bq_inv_def Size_def)
  show "bq_inv 11 q \<Longrightarrow> IsFull 11 q = (length (bq_list 11 q) = 11)"
    by (simp add: IsFull_def Size_def)
  show "bq_inv 11 q \<Longrightarrow> bq_inv 11 (snd (Enqueue 11 x q))"
    by (rule bq_inv_Enqueue)
  show "bq_inv 11 q \<Longrightarrow> \<not> IsFull 11 q \<Longrightarrow> bq_list 11 (snd (Enqueue 11 x q)) = bq_list 11 q @ [x]"
    by (rule bq_list_Enqueue)
  show "bq_inv 11 q \<Longrightarrow> bq_list 11 q \<noteq> [] \<Longrightarrow> bq_inv 11 (snd (Dequeue 11 q))"
    by (simp add: ne bq_inv_Dequeue)
  show "bq_inv 11 q \<Longrightarrow> bq_list 11 q \<noteq> [] \<Longrightarrow> bq_list 11 (snd (Dequeue 11 q)) = tl (bq_list 11 q)"
    using bq_list_Dequeue ne by (metis list.sel(3))
  show "bq_inv 11 q \<Longrightarrow> bq_list 11 q \<noteq> [] \<Longrightarrow> fst (Dequeue 11 q) = hd (bq_list 11 q)"
    using bq_list_Dequeue ne by (metis list.sel(1))
qed

end
