(* ===== verification/Utility_Properties.thy ===== *)
theory Utility_Properties
  imports Bounded_Queue Timed_History Delta_Tracker Screens Aligned_Box Categorical_Filter Overlay_Driver
begin

text \<open>
  What the utilities promise to the rest of the program: the queue, the frame history, the position
  tracker, the screens, the box, the categorical filter and the overlay's image choice.
\<close>

section \<open>The bounded queue\<close>

text \<open>
  C40 The circular queue is a first-in-first-out queue of bounded size. Under its representation
  invariant, which every operation keeps, an element is added at the back unless the queue is full,
  when it is refused; the front is the one removed; and the i-th from the front is the one peeked.
\<close>

theorem queue_is_fifo:
  assumes "bq_inv N q"
  shows "bq_inv N (snd (Enqueue N x q)) \<and>
    (if IsFull N q then Enqueue N x q = (False, q)
     else fst (Enqueue N x q) \<and> bq_list N (snd (Enqueue N x q)) = bq_list N q @ [x]) \<and>
    (\<not> IsEmpty q \<longrightarrow> bq_inv N (snd (Dequeue N q)) \<and>
       bq_list N q = fst (Dequeue N q) # bq_list N (snd (Dequeue N q))) \<and>
    (\<forall>i<Size q. PeekFront N i q = bq_list N q ! i)"
  using assms bq_inv_Enqueue [OF assms] bq_list_Enqueue [OF assms] bq_inv_Dequeue [OF assms]
    bq_list_Dequeue [OF assms] PeekFront_nth [OF assms]
  by (auto simp: Enqueue_def IsFull_def)

theorem queue_is_fifo_witness:
  "bq_list 2 (snd (Enqueue 2 (7::nat) (BoundedQueue 2 0))) = bq_list 2 (BoundedQueue 2 0) @ [7]"
proof -
  have "bq_inv 2 (BoundedQueue 2 (0::nat))" by (rule bq_inv_new) (simp_all add: size_t_max_def)
  moreover have "\<not> IsFull 2 (BoundedQueue 2 (0::nat))"
    by (simp add: IsFull_def BoundedQueue_def Reset_def)
  ultimately show ?thesis using queue_is_fifo [of 2 "BoundedQueue 2 (0::nat)" 7] by simp
qed

section \<open>The frame history\<close>

text \<open>A history that never purges.\<close>

definition whole_history :: "(int \<times> 'f) list \<Rightarrow> int \<Rightarrow> 'f timed_history" where
  "whole_history fs d = \<lparr>th_pairs = rev fs, m_historyDuration = d\<rparr>"

definition recorded_history :: "(int \<times> 'f) list \<Rightarrow> int \<Rightarrow> 'f timed_history" where
  "recorded_history fs d = fold (\<lambda>(t, f) h. addFrame t f h) fs (TimedHistory d)"

definition first_frame :: "(int \<times> 'f) list \<Rightarrow> (int \<times> 'f) option" where
  "first_frame ps = (case ps of [] \<Rightarrow> None | p # _ \<Rightarrow> Some p)"

text \<open>What was purged lies behind a pair that already covers the duration.\<close>

definition covers :: "int \<Rightarrow> (int \<times> 'f) list \<Rightarrow> (int \<times> 'f) list \<Rightarrow> bool" where
  "covers d kept all \<longleftrightarrow>
     (\<exists>ds. all = kept @ ds \<and> (ds \<noteq> [] \<longrightarrow> (\<exists>p\<in>set kept. fst (hd kept) - fst p \<ge> d)))"

lemma purge_back_covers:
  "\<exists>ds. ps = ds @ purge_back r d ps \<and> (ds \<noteq> [] \<longrightarrow> (\<exists>p\<in>set (purge_back r d ps). r - fst p \<ge> d))"
proof (induction r d ps rule: purge_back.induct)
  case (1 r d p q ps)
  show ?case
  proof (cases "r - fst q \<ge> d")
    case True
    with 1 obtain ds where ds: "q # ps = ds @ purge_back r d (q # ps)"
      "ds \<noteq> [] \<longrightarrow> (\<exists>p\<in>set (purge_back r d (q # ps)). r - fst p \<ge> d)" by blast
    have "\<exists>x\<in>set (purge_back r d (q # ps)). r - fst x \<ge> d"
    proof (cases ds)
      case Nil
      with ds(1) True show ?thesis by (metis append_Nil list.set_intros(1))
    qed (use ds(2) in simp)
    with True ds(1) show ?thesis by (intro exI [of _ "p # ds"]) simp
  qed simp
qed simp_all

lemma covers_add:
  assumes "covers d (th_pairs h) all" "m_historyDuration h = d" "addFrame_in_order t h"
  shows "covers d (th_pairs (addFrame t f h)) ((t, f) # all)"
proof -
  let ?ps = "(t, f) # th_pairs h"
  obtain ds where ds: "all = th_pairs h @ ds"
    "ds \<noteq> [] \<longrightarrow> (\<exists>p\<in>set (th_pairs h). fst (hd (th_pairs h)) - fst p \<ge> d)"
    using assms(1) by (auto simp: covers_def)
  let ?k = "rev (purge_back t d (rev ?ps))"
  have k: "th_pairs (addFrame t f h) = ?k"
    using purge_pairs [of "h\<lparr>th_pairs := ?ps\<rparr>" "(t, f)" "th_pairs h"] assms(2) by (simp add: addFrame_def)
  obtain es where es: "rev ?ps = es @ purge_back t d (rev ?ps)"
    "es \<noteq> [] \<longrightarrow> (\<exists>p\<in>set (purge_back t d (rev ?ps)). t - fst p \<ge> d)"
    using purge_back_covers [of "rev ?ps" t d] by blast
  have all: "(t, f) # all = ?k @ rev es @ ds"
  proof -
    have pk: "?ps = ?k @ rev es" by (metis es(1) rev_append rev_rev_ident)
    have "(t, f) # all = ?ps @ ds" using ds(1) by simp
    also have "\<dots> = (?k @ rev es) @ ds" by (rule arg_cong [OF pk, of "\<lambda>x. x @ ds"])
    finally show ?thesis by (simp only: append_assoc)
  qed
  have hd: "fst (hd ?k) = t"
    using purge_back_last [of "rev ?ps" t d] by (simp add: hd_rev)
  have "\<exists>p\<in>set ?k. t - fst p \<ge> d" if "rev es @ ds \<noteq> []"
  proof (cases "es = []")
    case True
    with that ds(2) obtain p where p: "p \<in> set (th_pairs h)" "fst (hd (th_pairs h)) - fst p \<ge> d" by auto
    moreover from p(1) assms(3) have "t \<ge> fst (hd (th_pairs h))" by (auto simp: addFrame_in_order_def)
    moreover from True es(1) have "set ?k = set ?ps" by (metis append_Nil set_rev)
    ultimately show ?thesis by (intro bexI [of _ p]) auto
  qed (use es(2) in simp)
  with all hd show ?thesis unfolding covers_def k by (intro exI [of _ "rev es @ ds"]) simp
qed

lemma covers_lookup:
  assumes "covers d kept all" "age \<le> d" "kept \<noteq> []"
  shows "first_frame (skip_younger (fst (hd kept)) age kept) =
    first_frame (skip_younger (fst (hd kept)) age all)"
proof -
  obtain ds where ds: "all = kept @ ds" "ds \<noteq> [] \<longrightarrow> (\<exists>p\<in>set kept. fst (hd kept) - fst p \<ge> d)"
    using assms(1) by (auto simp: covers_def)
  show ?thesis
  proof (cases "ds = []")
    case False
    with ds(2) obtain p where "p \<in> set kept" "fst (hd kept) - fst p \<ge> d" by blast
    with assms(2) have "\<exists>p\<in>set kept. \<not> fst (hd kept) - fst p < age" by (intro bexI [of _ p]) simp_all
    from dropWhile_prefix_kept [OF this ds(1)] show ?thesis
      by (auto simp: skip_younger_def first_frame_def ds(1) dropWhile_append split: list.split)
  qed (simp add: ds(1))
qed

lemma recorded_covers:
  assumes "sorted (map fst fs)"
  shows "covers d (th_pairs (recorded_history fs d)) (rev fs) \<and>
    m_historyDuration (recorded_history fs d) = d \<and>
    (fs \<noteq> [] \<longrightarrow> th_pairs (recorded_history fs d) \<noteq> [] \<and>
       hd (th_pairs (recorded_history fs d)) = last fs)"
  using assms
proof (induction fs rule: rev_induct)
  case Nil
  then show ?case by (simp add: recorded_history_def TimedHistory_def covers_def)
next
  case (snoc p fs)
  obtain t f where p: "p = (t, f)" by (cases p)
  let ?h = "recorded_history fs d"
  have IH: "covers d (th_pairs ?h) (rev fs)" "m_historyDuration ?h = d"
    "fs \<noteq> [] \<Longrightarrow> th_pairs ?h \<noteq> [] \<and> hd (th_pairs ?h) = last fs"
    using snoc by (auto simp: sorted_append)
  have "addFrame_in_order t ?h"
  proof (cases "fs = []")
    case True
    then show ?thesis by (simp add: addFrame_in_order_def recorded_history_def TimedHistory_def)
  next
    case False
    with snoc.prems IH(3) p show ?thesis by (auto simp: addFrame_in_order_def sorted_append)
  qed
  from covers_add [OF IH(1,2) this, of f] addFrame_hd [of t f ?h] IH(2) show ?case
    by (auto simp: recorded_history_def p)
qed

text \<open>
  C38 Purging never loses an answer. After any frames in time order, looking up the frame of a given
  age finds exactly what it would find had no frame ever been discarded, for every age within the
  history's duration.
\<close>

theorem history_lookup_exact:
  assumes "sorted (map fst fs)" "age \<le> d"
  shows "first_frame (getFrameHavingAgeAtLeast (recorded_history fs d) age) =
    first_frame (getFrameHavingAgeAtLeast (whole_history fs d) age)"
proof (cases "fs = []")
  case True
  then show ?thesis by (simp add: recorded_history_def whole_history_def TimedHistory_def)
next
  case False
  with recorded_covers [OF assms(1), of d] obtain ps
    where ps: "th_pairs (recorded_history fs d) = last fs # ps" "covers d (last fs # ps) (rev fs)"
    by (metis list.collapse)
  moreover have l: "rev fs = last fs # tl (rev fs)" using False by (cases fs rule: rev_cases) simp_all
  have "getFrameHavingAgeAtLeast (whole_history fs d) age = skip_younger (fst (last fs)) age (rev fs)"
    unfolding getFrameHavingAgeAtLeast_def whole_history_def by (subst l) simp
  ultimately show ?thesis
    using covers_lookup [OF ps(2) assms(2)] by (simp add: getFrameHavingAgeAtLeast_def)
qed

theorem history_lookup_exact_witness:
  "first_frame (getFrameHavingAgeAtLeast (recorded_history [(0, ''a''), (3, ''b''), (9, ''c'')] 5) 4) =
   first_frame (getFrameHavingAgeAtLeast (whole_history [(0, ''a''), (3, ''b''), (9, ''c'')] 5) 4)"
  by (rule history_lookup_exact) simp_all

section \<open>The position tracker\<close>

text \<open>
  The tracked position never jumps when its source changes. A fresh tracker takes the position;
  a change of hand or of pointable leaves the tracked position where it was; otherwise it moves by
  as much as the source has moved.
\<close>

theorem tracker_continuous:
  "getTrackedPosition (setPosition h p v t) =
    (if m_handId t = -1 \<and> m_pointableId t = -1 then v
     else if accumulateDelta h p t then getTrackedPosition t
     else getTrackedPosition t + (v - m_position t))"
  using tracked_when_switching [of h p t v] tracked_when_not_switching [of h p t v]
  by (auto simp: setPosition_def getTrackedPosition_def)

text \<open>
  A change of hand does not use the new position directly. The header documents that the delta is
  then cleared; the code keeps the old tracked position whatever the new one is.
\<close>

theorem tracker_keeps_other_hand:
  assumes "h \<noteq> -1" "m_handId t \<noteq> -1" "h \<noteq> m_handId t"
  shows "getTrackedPosition (setPosition h p v t) = getTrackedPosition t"
  using assms by (intro tracked_when_switching) (simp add: accumulateDelta_def)

theorem tracker_keeps_other_hand_witness:
  "getTrackedPosition (setPosition 2 (-1) (Vec 5 0 0) (setPosition 1 (-1) (Vec 1 0 0) tr_clear)) \<noteq> Vec 5 0 0"
  using tracker_keeps_other_hand [of 2 "setPosition 1 (-1) (Vec 1 0 0) tr_clear" "-1" "Vec 5 0 0"]
  by (simp add: setPosition_def tr_clear_def getTrackedPosition_def plus_vec_def zero_vec_def)

section \<open>Screens\<close>

text \<open>
  C39 Clipping puts every point on a screen, and on the right one. On a set of screens of at least a
  pixel each, the clipped point lies on an active screen, no screen's clipping is closer to the
  original point, and a point that is on a screen already is not moved. As a position beyond the
  right or the bottom edge is put one unit before it, the clipped point need not be the nearest of
  all real points of the screens; but no point of any screen that is a unit or more away from the
  right and bottom edges, such as the corner of a pixel, is nearer.
\<close>

theorem clip_to_screens:
  assumes "vs_ok v" "ClipPosition p v = (q, k)"
  shows "on_screen v q \<and> k < length (m_activeScreens v) \<and>
    q = clip_to_rect (m_bounds (m_activeScreens v ! k)) p \<and>
    (\<forall>s\<in>set (m_activeScreens v). distance_squared p q \<le> distance_squared p (clip_to_rect (m_bounds s) p)) \<and>
    (\<forall>s\<in>set (m_activeScreens v). \<forall>r. has_room (m_bounds s) r \<longrightarrow> distance_squared p q \<le> distance_squared p r) \<and>
    (on_screen v p \<longrightarrow> q = p)"
proof -
  have "m_activeScreens v \<noteq> []" using assms(1) by (simp add: vs_ok_def)
  note best = ClipPosition_best [OF this assms(2)]
  have "distance_squared p q \<le> distance_squared p r"
    if "s \<in> set (m_activeScreens v)" "has_room (m_bounds s) r" for s r
    using best(3) [OF that(1)] clip_to_rect_nearest [OF that(2), of p] by linarith
  with best ClipPosition_on_screen [OF assms(1), of p] ClipPosition_id [of v p] assms(2)
  show ?thesis by auto
qed

definition two_screens :: LPVirtualScreen where
  "two_screens = LPVirtualScreen
     [\<lparr>m_screenID = 1, m_screenIndex = 0, m_bounds = LPRectMake 0 0 100 50, m_isPrimary = True\<rparr>,
      \<lparr>m_screenID = 2, m_screenIndex = 1, m_bounds = LPRectMake 100 10 80 60, m_isPrimary = False\<rparr>]"

lemmas two_screens_defs = two_screens_def LPVirtualScreen_def Update_def active_screens_def rect_defs
  Let_def

lemma two_screens_ok: "vs_ok two_screens"
  by (auto simp: vs_ok_def two_screens_defs pixel_sized_def)

theorem clip_to_screens_witness:
  "on_screen two_screens (fst (ClipPosition (LPPoint 150 5) two_screens)) \<and>
   distance_squared (LPPoint 150 5) (fst (ClipPosition (LPPoint 150 5) two_screens))
     \<le> distance_squared (LPPoint 150 5) (LPPoint 99 49)"
proof -
  let ?s = "\<lparr>m_screenID = 1, m_screenIndex = 0, m_bounds = LPRectMake 0 0 100 50, m_isPrimary = True\<rparr>"
  have "?s \<in> set (m_activeScreens two_screens)" by (simp add: two_screens_defs)
  moreover have "has_room (m_bounds ?s) (LPPoint 99 49)" by (simp add: has_room_def rect_defs)
  ultimately show ?thesis
    using clip_to_screens [OF two_screens_ok prod.collapse [symmetric], of "LPPoint 150 5"] by blast
qed

text \<open>
  Normalised and denormalised positions correspond one to one, on the active and on the detected
  bounds, unless the bounds are degenerate.
\<close>

theorem normalize_roundtrip:
  assumes "0 < sz_width (rect_size (Bounds a v))" "0 < sz_height (rect_size (Bounds a v))"
  shows "Normalize (Denormalize p a v) a v = p \<and> Denormalize (Normalize p a v) a v = p"
  using assms by (rule Normalize_Denormalize)

theorem normalize_roundtrip_witness:
  "Denormalize (Normalize (LPPoint 3 4) True two_screens) True two_screens = LPPoint 3 4"
  using normalize_roundtrip [of True two_screens]
  by (simp add: two_screens_defs Bounds_def ComputeBounds_def LPRectUnion_def Let_def)

section \<open>The box\<close>

text \<open>
  The sphere test of the box is exact: a sphere intersects a valid box exactly when some point of
  the box is within the radius. The closest point it relies on is the nearest of all.
\<close>

theorem sphere_test_exact:
  assumes "box_dim n b" "IsValid b" "length p = n"
  shows "SphereIntersect b p r \<longleftrightarrow> (\<exists>q. Contains b q \<and> squaredNorm (map2 (-) p q) \<le> r * r)"
  using assms by (rule SphereIntersect_iff)

theorem sphere_test_exact_witness:
  "\<exists>q. Contains (Box [0, 0] [1, 1]) q \<and> squaredNorm (map2 (-) [2, 0] q) \<le> 1 * 1"
  using sphere_test_exact [of 2 "Box [0, 0] [1, 1]" "[2, 0]" 1]
  by (simp add: box_dim_def IsValid_def Box_def SphereIntersect_def ClosestPoint_def squaredNorm_def)

section \<open>The categorical filter\<close>

text \<open>
  C37 The filter's decision is sound and unique. For a filter over ten categories in good order, and a
  threshold above one half as every filter of the program has, the answer is unambiguous exactly
  when a category has at least the threshold's probability, that category is the answer, no other
  category has as much, and the probabilities are nonnegative and add up to one.
\<close>

theorem filter_decision:
  assumes good: "pointable_count_filter.cf_good c" and t: "1 / 2 < m_uniformCategorizationThreshold c"
  defines "P \<equiv> probabilityVector rolling_filter c"
  shows "prob_vec 10 P \<and>
    (filteredCategory rolling_filter c = Some x \<longleftrightarrow>
       (\<exists>i<10. m_categories c ! i = x \<and> P ! i \<ge> m_uniformCategorizationThreshold c \<and>
          (\<forall>j<10. j \<noteq> i \<longrightarrow> P ! j < m_uniformCategorizationThreshold c)))"
proof -
  let ?t = "m_uniformCategorizationThreshold c"
  have P: "prob_vec 10 P" unfolding P_def by (rule pointable_count_filter.normalised [OF good])
  have one: "P ! j < ?t" if "i < 10" "j < 10" "i \<noteq> j" "P ! i \<ge> ?t" for i j
    using prob_vec_two [OF P that(1,2,3)] that(4) t by linarith
  have d: "distinct (m_categories c)" "length (m_categories c) = 10"
    using good by (simp_all add: pointable_count_filter.cf_good_def)
  show ?thesis
  proof (intro conjI iffI)
    assume "filteredCategory rolling_filter c = Some x"
    from pointable_count_filter.decision(2) [OF good this] one
    show "\<exists>i<10. m_categories c ! i = x \<and> P ! i \<ge> ?t \<and> (\<forall>j<10. j \<noteq> i \<longrightarrow> P ! j < ?t)"
      unfolding P_def by blast
  next
    assume "\<exists>i<10. m_categories c ! i = x \<and> P ! i \<ge> ?t \<and> (\<forall>j<10. j \<noteq> i \<longrightarrow> P ! j < ?t)"
    then obtain i where i: "i < 10" "m_categories c ! i = x" "P ! i \<ge> ?t"
      "\<forall>j<10. j \<noteq> i \<longrightarrow> P ! j < ?t" by blast
    then obtain y where y: "filteredCategory rolling_filter c = Some y"
      using pointable_count_filter.decision(1,3) [OF good] by (auto simp: P_def)
    from pointable_count_filter.decision(2) [OF good y] obtain k where
      k: "k < 10" "m_categories c ! k = y" "P ! k \<ge> ?t" unfolding P_def by blast
    with i have "k = i" by force
    with k i y show "filteredCategory rolling_filter c = Some x" by simp
  qed (rule P)
qed

theorem filter_decision_witness:
  "\<exists>c :: (nat, rolling) categorical. CategoricalFilter rolling_filter [0..<10] (RollingMean 10) (8 / 10) = Inr c \<and>
     prob_vec 10 (probabilityVector rolling_filter c)"
proof -
  obtain m where "index_map [0::nat..<10] 0 [] = Inr m"
    using index_map_distinct [of "[0::nat..<10]" "[]" 0] by auto
  then obtain c :: "(nat, rolling) categorical"
    where c: "CategoricalFilter rolling_filter [0..<10] (RollingMean 10) (8 / 10) = Inr c"
      "m_uniformCategorizationThreshold c = 8 / 10"
    by (simp add: CategoricalFilter_def cf_reset_def updateWithProbabilityVector_def Let_def)
  have "pointable_count_filter.cf_good c"
    using c(1) by (intro pointable_count_filter.cf_good_new [OF _ rolling_fresh_new, of "[0..<10]" "8 / 10"]) simp_all
  from filter_decision [OF this, of 0] c show ?thesis by auto
qed

section \<open>The overlay driver\<close>

text \<open>
  A clamped position is always a pixel of some screen: \<open>normalizedToScreen\<close> composes the aspect
  correction, the box's clamp, the denormalising and the clipping so that the overlay and the cursor
  never leave the screens.
\<close>

theorem screen_position_visible:
  assumes "vs_ok (m_virtualScreen ov)" "normalizedToScreen ov p s True = (ok, out, cv)"
  shows "on_screen (m_virtualScreen ov) (LPPoint (vx out) (vy out))"
  using assms by (rule normalizedToScreen_on_screen)

theorem screen_position_visible_witness:
  "\<exists>ok out cv. normalizedToScreen (OverlayDriver two_screens) (Vec 7 (-3) 2) 1 True = (ok, out, cv) \<and>
     on_screen two_screens (LPPoint (vx out) (vy out))"
proof -
  have v: "m_virtualScreen (OverlayDriver two_screens) = two_screens" by (simp add: OverlayDriver_def)
  obtain ok out cv where o: "normalizedToScreen (OverlayDriver two_screens) (Vec 7 (-3) 2) 1 True = (ok, out, cv)"
    by (cases "normalizedToScreen (OverlayDriver two_screens) (Vec 7 (-3) 2) 1 True")
  from screen_position_visible [OF _ o] two_screens_ok v o show ?thesis by auto
qed

end
