(* ===== verification/Heartbeat_Timer.thy ===== *)
theory Heartbeat_Timer
  imports Prelude
begin

text \<open>
  The timer thread of \<open>source/Utility/Heartbeat.cpp\<close>. A step is what happens under one hold of the
  mutex, and the steps interleave freely. A caller's operation is one step, except for the second
  \<open>Start\<close>, which is two (\<open>SetTimeout\<close> is a single store without the lock). The thread lets go of the
  mutex while it waits, and from its copy of the callback to the end of the call: between the copy
  and the beginning of the call it is at \<open>Copied\<close>, and any operation may come in between. A wait may
  end for any reason (a notification, the time out, spuriously), so a waiting thread may always wake
  up. The callbacks are of a type \<open>'c\<close>, an empty \<open>std::function\<close> is \<open>None\<close>, and the calls are logged
  when they begin.
\<close>

section \<open>State\<close>

datatype vigilance = Terminated | Active | Running | Resetting

primrec vigilance_nat :: "vigilance \<Rightarrow> nat" where
  "vigilance_nat Terminated = 0" | "vigilance_nat Active = 1"
| "vigilance_nat Running = 2" | "vigilance_nat Resetting = 3"

lemma vigilance_nat_inj: "vigilance_nat a = vigilance_nat b \<Longrightarrow> a = b"
  by (cases a; cases b) auto

instantiation vigilance :: linorder
begin

definition less_eq_vigilance_def: "a \<le> b \<longleftrightarrow> vigilance_nat a \<le> vigilance_nat b"
definition less_vigilance_def: "a < b \<longleftrightarrow> vigilance_nat a < vigilance_nat b"

instance
  by standard (auto simp: less_eq_vigilance_def less_vigilance_def dest: vigilance_nat_inj)

end

lemma vigilance_order [simp]:
  "Active < v \<longleftrightarrow> v = Running \<or> v = Resetting"
  "v < Running \<longleftrightarrow> v = Terminated \<or> v = Active"
  "Active \<le> v \<longleftrightarrow> v \<noteq> Terminated"
  by (cases v; simp add: less_eq_vigilance_def less_vigilance_def)+

text \<open>
  Where the thread is: in the wait for a state other than active, in the timed wait, past the copy of
  the callback with the lock released, inside the callback, or returned.
\<close>

datatype 'c thread_pc =
  AwaitActivity | AwaitPulse | Copied "'c option" | Calling "'c option" | Returned

record 'c heartbeat =
  m_Callback :: "'c option"
  m_Timeout :: u32
  m_vigilance :: vigilance
  hb_pc :: "'c thread_pc"
  hb_calls :: "'c option list"

definition Heartbeat :: "u32 \<Rightarrow> 'c option \<Rightarrow> 'c heartbeat" where
  "Heartbeat timeout callback =
     \<lparr>m_Callback = callback, m_Timeout = timeout, m_vigilance = Active, hb_pc = AwaitActivity,
      hb_calls = []\<rparr>"

section \<open>The callers' operations\<close>

definition SetTimeout :: "u32 \<Rightarrow> 'c heartbeat \<Rightarrow> 'c heartbeat" where
  "SetTimeout t b = b\<lparr>m_Timeout := t\<rparr>"

definition Stop :: "'c heartbeat \<Rightarrow> 'c heartbeat" where
  "Stop b = (if m_vigilance b > Active then b\<lparr>m_vigilance := Active\<rparr> else b)"

definition Start :: "'c heartbeat \<Rightarrow> bool \<times> 'c heartbeat" where
  "Start b =
     (if m_Callback b = None \<or> m_vigilance b \<noteq> Active then (False, b)
      else (True, b\<lparr>m_vigilance := Running\<rparr>))"

definition install :: "'c option \<Rightarrow> 'c heartbeat \<Rightarrow> 'c heartbeat" where
  "install callback b = b\<lparr>m_Callback := callback\<rparr>"

text \<open>The lock is released between the two halves of the second \<open>Start\<close>.\<close>

definition Start_with :: "'c option \<Rightarrow> 'c heartbeat \<Rightarrow> bool \<times> 'c heartbeat" where
  "Start_with callback b = Start (install callback b)"

definition Restart :: "'c heartbeat \<Rightarrow> bool \<times> 'c heartbeat" where
  "Restart b =
     (if m_vigilance b < Running \<or> m_Callback b = None then (False, b)
      else (True, b\<lparr>m_vigilance := Resetting\<rparr>))"

text \<open>The destructor up to its \<open>join\<close>, which returns once the thread has.\<close>

definition terminate :: "'c heartbeat \<Rightarrow> 'c heartbeat" where
  "terminate b = b\<lparr>m_vigilance := Terminated\<rparr>"

definition joined :: "'c heartbeat \<Rightarrow> bool" where
  "joined b \<longleftrightarrow> hb_pc b = Returned"

section \<open>The thread\<close>

text \<open>
  The condition of the inner loop, from its beginning to the wait or to its end. At its end the lock
  is still held: the outer condition is evaluated in the same step, and either waits or ends the
  thread.
\<close>

definition outer_condition :: "'c heartbeat \<Rightarrow> 'c heartbeat" where
  "outer_condition b =
     (if m_vigilance b = Active then b\<lparr>hb_pc := AwaitActivity\<rparr> else b\<lparr>hb_pc := Returned\<rparr>)"

definition await_pulse :: "'c heartbeat \<Rightarrow> 'c heartbeat" where
  "await_pulse b =
     (let b1 = (if m_vigilance b = Resetting then b\<lparr>m_vigilance := Running\<rparr> else b) in
      if m_vigilance b1 = Running then b1\<lparr>hb_pc := AwaitPulse\<rparr>
      else outer_condition b1)"

text \<open>
  One step of the thread: \<open>None\<close> when it is blocked or has returned. The rest of the inner condition
  runs when the timed wait ends.
\<close>

definition thread_step :: "'c heartbeat \<Rightarrow> 'c heartbeat option" where
  "thread_step b =
     (case hb_pc b of
        AwaitActivity \<Rightarrow>
          (if m_vigilance b = Active then None
           else if m_vigilance b \<ge> Active then Some (await_pulse b)
           else Some (b\<lparr>hb_pc := Returned\<rparr>))
      | AwaitPulse \<Rightarrow>
          (if m_vigilance b = Resetting then Some (await_pulse b)
           else if m_vigilance b = Running then Some (b\<lparr>hb_pc := Copied (m_Callback b)\<rparr>)
           else Some (outer_condition b))
      | Copied c \<Rightarrow> Some (b\<lparr>hb_pc := Calling c, hb_calls := hb_calls b @ [c]\<rparr>)
      | Calling c \<Rightarrow> Some (await_pulse b)
      | Returned \<Rightarrow> None)"

section \<open>Interleavings\<close>

datatype 'c hb_event = OpStop | OpStart | OpInstall "'c option" | OpRestart | OpSetTimeout u32 | OpTerminate | Tick

inductive hb_step :: "'c heartbeat \<Rightarrow> 'c hb_event \<Rightarrow> 'c heartbeat \<Rightarrow> bool" where
  stop: "hb_step b OpStop (Stop b)"
| start: "hb_step b OpStart (snd (Start b))"
| install: "hb_step b (OpInstall c) (install c b)"
| restart: "hb_step b OpRestart (snd (Restart b))"
| timeout: "hb_step b (OpSetTimeout t) (SetTimeout t b)"
| terminate: "hb_step b OpTerminate (terminate b)"
| tick: "thread_step b = Some b' \<Longrightarrow> hb_step b Tick b'"

inductive_cases hb_tickE: "hb_step b Tick b'"
inductive_simps hb_step_simps [simp]:
  "hb_step b OpStop b'" "hb_step b OpStart b'" "hb_step b (OpInstall c) b'" "hb_step b OpRestart b'"
  "hb_step b (OpSetTimeout t) b'" "hb_step b OpTerminate b'" "hb_step b Tick b'"

inductive hb_run :: "'c heartbeat \<Rightarrow> 'c hb_event list \<Rightarrow> 'c heartbeat \<Rightarrow> bool" where
  nil: "hb_run b [] b"
| snoc: "hb_run b es b1 \<Longrightarrow> hb_step b1 e b2 \<Longrightarrow> hb_run b (es @ [e]) b2"

lemmas hb_defs = Stop_def Start_def install_def Restart_def SetTimeout_def terminate_def
  thread_step_def await_pulse_def outer_condition_def Let_def


section \<open>Silence and termination\<close>

lemma hb_run_invariant:
  assumes "hb_run b es b'" "P b"
    and "\<And>b1 e b2. P b1 \<Longrightarrow> e \<in> set es \<Longrightarrow> hb_step b1 e b2 \<Longrightarrow> P b2"
  shows "P b'"
  using assms
proof (induction rule: hb_run.induct)
  case (snoc b es b1 e b2)
  have "P b1" by (rule snoc.IH [OF snoc.prems(1)]) (rule snoc.prems(2), simp_all)
  then show ?case by (rule snoc.prems(2) [OF _ _ snoc.hyps(2)]) simp
qed

text \<open>
  A stopped timer that is not started again decides on no call. One that the thread had already
  copied when the timer was stopped may still begin, and one that was under way may still run.
\<close>

definition pending :: "'c heartbeat \<Rightarrow> 'c option list" where
  "pending b = (case hb_pc b of Copied c \<Rightarrow> [c] | _ \<Rightarrow> [])"

definition silent :: "'c option list \<Rightarrow> 'c heartbeat \<Rightarrow> bool" where
  "silent cs b \<longleftrightarrow> \<not> m_vigilance b > Active \<and> hb_calls b @ pending b = cs"

lemma silent_step: "silent cs b \<Longrightarrow> e \<noteq> OpStart \<Longrightarrow> hb_step b e b' \<Longrightarrow> silent cs b'"
  by (cases e; cases "m_vigilance b"; cases "hb_pc b")
    (auto simp: silent_def pending_def hb_defs)

text \<open>
  The call that was copied does begin after the stop when the thread is the slower one: a caller of
  \<open>Stop\<close> cannot rely on silence at once.
\<close>

lemma call_begins_after_stop:
  assumes "hb_pc b = AwaitPulse" "m_vigilance b = Running" "m_Callback b = Some c"
  shows "\<exists>b1 b2. hb_step b Tick b1 \<and> hb_run (Stop b1) [Tick] b2 \<and>
    hb_calls (Stop b1) = hb_calls b \<and> hb_calls b2 = hb_calls b @ [Some c]"
proof -
  let ?b1 = "b\<lparr>hb_pc := Copied (Some c)\<rparr>"
  let ?b2 = "(Stop ?b1)\<lparr>hb_pc := Calling (Some c), hb_calls := hb_calls b @ [Some c]\<rparr>"
  have "hb_run (Stop ?b1) ([] @ [Tick]) ?b2"
    by (rule hb_run.snoc [OF hb_run.nil]) (simp add: assms hb_defs)
  moreover have "hb_step b Tick ?b1" by (simp add: assms hb_defs)
  moreover have "hb_calls (Stop ?b1) = hb_calls b" by (simp add: Stop_def)
  ultimately show ?thesis by (intro exI [of _ ?b1] exI [of _ ?b2]) simp
qed

text \<open>What the thread has still to do once the timer is being destroyed.\<close>

definition steps_to_return :: "'c heartbeat \<Rightarrow> nat" where
  "steps_to_return b =
     (case hb_pc b of Copied c \<Rightarrow> 2 | Calling c \<Rightarrow> 1 | AwaitPulse \<Rightarrow> 1 | AwaitActivity \<Rightarrow> 1 | Returned \<Rightarrow> 0)"

lemma steps_bounded: "steps_to_return b \<le> 2"
  by (simp add: steps_to_return_def split: thread_pc.split)

lemma steps_joined: "steps_to_return b = 0 \<longleftrightarrow> joined b"
  by (simp add: steps_to_return_def joined_def split: thread_pc.split)

lemma terminated_step:
  assumes "m_vigilance b = Terminated" "hb_step b e b'"
  shows "m_vigilance b' = Terminated \<and> steps_to_return b' = steps_to_return b - (if e = Tick then 1 else 0)"
  using assms by (cases e; cases "hb_pc b") (auto simp: hb_defs steps_to_return_def)

lemma terminated_never_blocked:
  "m_vigilance b = Terminated \<Longrightarrow> thread_step b = None \<Longrightarrow> joined b"
  by (simp add: thread_step_def joined_def split: thread_pc.splits)

lemma terminated_run:
  assumes "hb_run b es b'" "m_vigilance b = Terminated"
  shows "m_vigilance b' = Terminated \<and> steps_to_return b' = steps_to_return b - length (filter ((=) Tick) es)"
  using assms
proof (induction rule: hb_run.induct)
  case (snoc b es b1 e b2)
  then show ?case using terminated_step [of b1 e b2] by auto
qed simp

end
