(* ===== verification/Gesture_Device.thy ===== *)
theory Gesture_Device
  imports Bounded_Queue Heartbeat_Timer Screens Leap_Api
begin

text \<open>
  The gesture synthesiser of \<open>source/OSInteraction/LPGesture.cpp\<close>: it turns the zooms, rotations,
  scrolls and swipes of a mode into events of the system, and keeps a scroll going with a timer after
  it has ended. The events posted are recorded. Each operation and each tick of the timer is modelled
  as one step. In the code only \<open>applyScroll\<close> and \<open>applyDesktopSwipe\<close> take the scroll mutex, and
  \<open>begin\<close>, \<open>end\<close>, \<open>applyZoom\<close> and \<open>applyRotation\<close> do not: that a tick comes in the middle of one of
  these is not modelled.
\<close>

unbundle bit_operations_syntax

section \<open>Constants\<close>

abbreviation kIOHIDGestureMotionNone :: nat where "kIOHIDGestureMotionNone \<equiv> 0"
abbreviation kIOHIDGestureMotionHorizontalX :: nat where "kIOHIDGestureMotionHorizontalX \<equiv> 1"
abbreviation kIOHIDGestureMotionVerticalY :: nat where "kIOHIDGestureMotionVerticalY \<equiv> 2"

abbreviation kIOHIDSwipeNone :: u32 where "kIOHIDSwipeNone \<equiv> 0"
abbreviation kIOHIDSwipeUp :: u32 where "kIOHIDSwipeUp \<equiv> 1"
abbreviation kIOHIDSwipeDown :: u32 where "kIOHIDSwipeDown \<equiv> 2"
abbreviation kIOHIDSwipeLeft :: u32 where "kIOHIDSwipeLeft \<equiv> 4"
abbreviation kIOHIDSwipeRight :: u32 where "kIOHIDSwipeRight \<equiv> 8"

abbreviation kIOHIDEventTypeNULL :: u32 where "kIOHIDEventTypeNULL \<equiv> 0"
abbreviation kIOHIDEventTypeRotation :: u32 where "kIOHIDEventTypeRotation \<equiv> 5"
abbreviation kIOHIDEventTypeScroll :: u32 where "kIOHIDEventTypeScroll \<equiv> 6"
abbreviation kIOHIDEventTypeZoom :: u32 where "kIOHIDEventTypeZoom \<equiv> 8"
abbreviation kIOHIDEventTypeDockSwipe :: u32 where "kIOHIDEventTypeDockSwipe \<equiv> 23"
abbreviation kIOHIDEventTypeGestureBegan :: u32 where "kIOHIDEventTypeGestureBegan \<equiv> 61"
abbreviation kIOHIDEventTypeGestureEnded :: u32 where "kIOHIDEventTypeGestureEnded \<equiv> 62"

abbreviation PhaseUndefined :: u16 where "PhaseUndefined \<equiv> 0"
abbreviation PhaseBegan :: u16 where "PhaseBegan \<equiv> 1"
abbreviation PhaseChanged :: u16 where "PhaseChanged \<equiv> 2"
abbreviation PhaseEnded :: u16 where "PhaseEnded \<equiv> 4"
abbreviation PhaseCancelled :: u16 where "PhaseCancelled \<equiv> 8"

abbreviation MomentumPhaseUndefined :: u32 where "MomentumPhaseUndefined \<equiv> 0"
abbreviation MomentumPhaseBegan :: u32 where "MomentumPhaseBegan \<equiv> 1"
abbreviation MomentumPhaseChanged :: u32 where "MomentumPhaseChanged \<equiv> 2"
abbreviation MomentumPhaseEnded :: u32 where "MomentumPhaseEnded \<equiv> 3"

abbreviation kIOHIDDigitizerEventPosition :: u32 where "kIOHIDDigitizerEventPosition \<equiv> 4"
abbreviation kIOHIDDigitizerEventStart :: u32 where "kIOHIDDigitizerEventStart \<equiv> 0x100"
abbreviation kIOHIDDigitizerEventStop :: u32 where "kIOHIDDigitizerEventStop \<equiv> 8"

section \<open>Events\<close>

text \<open>
  A Quartz event is its kind, its location and the fields set on it, in order; the fields without a
  public name have a number. Its time stamp is the system's. On Windows a wheel event is sent.
\<close>

datatype cg_field = Field nat | DeltaAxis1 | FixedPtDeltaAxis1 | DeltaAxis2 | FixedPtDeltaAxis2
  | PointDeltaAxis1 | PointDeltaAxis2

datatype sys_event =
    CGGesture u32 LPPoint "(cg_field \<times> real) list"
  | CGScrollWheel "(cg_field \<times> real) list"
  | MouseWheel u32
  | MouseHWheel u32

text \<open>What the system answers: the kind of gesture events, the wheel's characters and lines.\<close>

record gesture_env =
  ge_platform :: platform
  ge_EventTypeGesture :: u32
  ge_wheelChars :: "u32 option"
  ge_wheelLines :: "u32 option"

record lp_gesture =
  m_eventMask :: u32
  m_windowsEventTimer :: int
  m_type :: u32
  g_position :: LPPoint
  m_momentumTimer :: "unit heartbeat"
  m_momentumFPS :: real
  m_momentumHistory :: "LPPoint bqueue"
  m_momentum :: LPPoint
  m_phase :: u16
  m_momentumPhase :: u32
  m_scrollPartialLine :: LPPoint
  m_scrollPartialPixel :: LPPoint
  m_horizontalPixelsPerLine :: real
  m_verticalPixelsPerLine :: real
  m_desktopSwipeDistance :: real
  m_desktopSwipeDistanceDelta :: real
  m_desktopSwipeDistanceThreshold :: real
  m_desktopSwipeDirection :: u32
  posted :: "sys_event list"

definition LPGesture :: "real \<Rightarrow> real \<Rightarrow> lp_gesture" where
  "LPGesture fx fy =
     \<lparr>m_eventMask = 0, m_windowsEventTimer = 0, m_type = GestureNone, g_position = LPPoint fx fy,
      m_momentumTimer = Heartbeat 8 (Some ()), m_momentumFPS = 1000 / 8,
      m_momentumHistory = BoundedQueue 11 LPPointZero, m_momentum = LPPointZero,
      m_phase = PhaseUndefined, m_momentumPhase = MomentumPhaseUndefined,
      m_scrollPartialLine = LPPointZero, m_scrollPartialPixel = LPPointZero,
      m_horizontalPixelsPerLine = 1, m_verticalPixelsPerLine = 1,
      m_desktopSwipeDistance = 0, m_desktopSwipeDistanceDelta = 0,
      m_desktopSwipeDistanceThreshold = 0, m_desktopSwipeDirection = kIOHIDSwipeNone, posted = []\<rparr>"

definition setPosition_gesture :: "real \<Rightarrow> real \<Rightarrow> lp_gesture \<Rightarrow> lp_gesture" where
  "setPosition_gesture fx fy g = g\<lparr>g_position := LPPoint fx fy\<rparr>"

definition getEventTypeFromGestureType :: "u32 \<Rightarrow> u32" where
  "getEventTypeFromGestureType t =
     (if t = GestureZoom then kIOHIDEventTypeZoom
      else if t = GestureRotate then kIOHIDEventTypeRotation
      else if t = GestureScroll then kIOHIDEventTypeScroll
      else if t = GestureDesktopSwipeHorizontal \<or> t = GestureDesktopSwipeVertical
      then kIOHIDEventTypeDockSwipe
      else kIOHIDEventTypeNULL)"

definition phaseToEventMask :: "u16 \<Rightarrow> lp_gesture \<Rightarrow> u32" where
  "phaseToEventMask phase g =
     (let mask = (if phase AND PhaseBegan \<noteq> 0 then kIOHIDDigitizerEventStart else 0) in
      if phase AND PhaseEnded \<noteq> 0 then mask OR kIOHIDDigitizerEventStop
      else if mask \<noteq> 0 then mask OR kIOHIDDigitizerEventPosition else m_eventMask g)"

definition of_w :: "'a::len word \<Rightarrow> real" where "of_w w = real_of_int (uint w)"

definition post :: "sys_event \<Rightarrow> lp_gesture \<Rightarrow> lp_gesture" where
  "post e g = g\<lparr>posted := posted g @ [e]\<rparr>"

text \<open>A created event and the fields set on it before it is posted.\<close>

definition createEvent :: "gesture_env \<Rightarrow> u32 \<Rightarrow> lp_gesture \<Rightarrow> (cg_field \<times> real) list \<Rightarrow> sys_event" where
  "createEvent E t g fs =
     CGGesture (if t = kIOHIDEventTypeDockSwipe then 30 else ge_EventTypeGesture E) (g_position g)
       ((Field 110, of_w t) #
        (if t \<noteq> kIOHIDEventTypeGestureBegan \<and> t \<noteq> kIOHIDEventTypeGestureEnded
         then [(Field 133, of_w (phaseToEventMask (m_phase g) g))] else []) @ fs)"

section \<open>Zoom, rotation and swipes\<close>

definition phase_changed :: "lp_gesture \<Rightarrow> lp_gesture" where
  "phase_changed g = (if m_phase g = PhaseBegan then g\<lparr>m_phase := PhaseChanged\<rparr> else g)"

definition applyZoom :: "gesture_env \<Rightarrow> real \<Rightarrow> lp_gesture \<Rightarrow> bool \<times> lp_gesture" where
  "applyZoom E zoom g =
     (if m_type g = GestureZoom
      then (True, phase_changed
        (if ge_platform E = Apple then post (createEvent E kIOHIDEventTypeZoom g [(Field 113, zoom)]) g else g))
      else (False, g))"

definition applyRotation :: "gesture_env \<Rightarrow> real \<Rightarrow> lp_gesture \<Rightarrow> bool \<times> lp_gesture" where
  "applyRotation E rotation g =
     (if m_type g = GestureRotate
      then (True, phase_changed
        (if ge_platform E = Apple
         then post (createEvent E kIOHIDEventTypeRotation g [(Field 113, rotation)]) g else g))
      else (False, g))"

text \<open>Which trigger a swipe at a distance sends, in the direction and with the threshold so far.\<close>

definition swipe_trigger :: "u32 \<Rightarrow> u32 \<Rightarrow> u32 \<Rightarrow> real \<Rightarrow> real \<Rightarrow> u32 \<times> real" where
  "swipe_trigger swipePositive swipeNegative direction distance threshold =
     (if direction = swipeNegative then
        (if distance < threshold then (kIOHIDSwipeNone, distance)
         else if distance \<ge> threshold + 5 / 100 then (swipePositive, threshold)
         else (kIOHIDSwipeNone, threshold))
      else if direction = swipePositive then
        (if distance > threshold then (kIOHIDSwipeNone, distance)
         else if distance \<le> threshold - 5 / 100 then (swipeNegative, threshold)
         else (kIOHIDSwipeNone, threshold))
      else if distance \<ge> 5 / 100 then (swipePositive, threshold)
      else if distance \<le> - (5 / 100) then (swipeNegative, threshold)
      else (kIOHIDSwipeNone, threshold))"

definition dock_swipe :: "gesture_env \<Rightarrow> real \<Rightarrow> real \<Rightarrow> lp_gesture \<Rightarrow> lp_gesture" where
  "dock_swipe E dx0 dy0 g =
     (let event = createEvent E kIOHIDEventTypeDockSwipe g;
          dx = dx0 * - (1 / 300); dy = dy0 * (1 / 300);
          vertical = (m_type g = GestureDesktopSwipeVertical);
          swipePositive = (if vertical then kIOHIDSwipeDown else kIOHIDSwipeLeft);
          swipeNegative = (if vertical then kIOHIDSwipeUp else kIOHIDSwipeRight);
          delta = (if vertical then dy else dx);
          motion = (if vertical then kIOHIDGestureMotionVerticalY else kIOHIDGestureMotionHorizontalX);
          distance = m_desktopSwipeDistance g + delta;
          (swipe, threshold) = swipe_trigger swipePositive swipeNegative (m_desktopSwipeDirection g)
             distance (m_desktopSwipeDistanceThreshold g);
          g1 = g\<lparr>m_desktopSwipeDistanceDelta := delta, m_desktopSwipeDistance := distance,
                 m_desktopSwipeDistanceThreshold := threshold\<rparr>;
          g2 = (if swipe \<noteq> kIOHIDSwipeNone
                then g1\<lparr>m_desktopSwipeDistanceThreshold := distance, m_desktopSwipeDirection := swipe\<rparr>
                else g1)
      in post (event ([(Field 123, real motion)] @
           (if swipe \<noteq> kIOHIDSwipeNone then [(Field 115, of_w swipe)] else []) @
           [(Field 124, distance), (Field 125, dx), (Field 126, dy), (Field 132, of_w (m_phase g2)),
            (Field 133, of_w kIOHIDDigitizerEventPosition), (Field 134, of_w (m_phase g2)),
            (Field 136, 1), (Field 138, 3)])) g2)"

definition applyDesktopSwipe :: "gesture_env \<Rightarrow> real \<Rightarrow> real \<Rightarrow> lp_gesture \<Rightarrow> bool \<times> lp_gesture" where
  "applyDesktopSwipe E dx dy g =
     (if m_type g = GestureDesktopSwipeHorizontal \<or> m_type g = GestureDesktopSwipeVertical
      then (True, phase_changed (if ge_platform E = Apple then dock_swipe E dx dy g else g))
      else (False, g))"

section \<open>Scrolling\<close>

text \<open>\<open>round\<close> of the C library rounds halves away from zero.\<close>

definition c_round :: "real \<Rightarrow> int" where
  "c_round x = (if x \<ge> 0 then \<lfloor>x + 1 / 2\<rfloor> else \<lceil>x - 1 / 2\<rceil>)"

definition ppmm :: real where "ppmm = 120 / (254 / 10)"

definition reset_momentum :: "lp_gesture \<Rightarrow> lp_gesture" where
  "reset_momentum g = g\<lparr>m_momentumHistory := Reset (m_momentumHistory g), m_momentum := LPPointZero\<rparr>"

definition record_momentum :: "real \<Rightarrow> real \<Rightarrow> int \<Rightarrow> lp_gesture \<Rightarrow> lp_gesture" where
  "record_momentum dx dy timeDiff g =
     (let dt_inv = 1000000 / real_of_int timeDiff / m_momentumFPS g;
          h = m_momentumHistory g;
          h1 = (if IsFull 11 h then snd (Dequeue 11 h) else h)
      in g\<lparr>m_momentumHistory := snd (Enqueue 11 (LPPoint (dx * dt_inv) (dy * dt_inv)) h1)\<rparr>)"

text \<open>The first part of \<open>applyScroll\<close>, and whether it goes on to emit events.\<close>

definition update_momentum ::
  "real \<Rightarrow> real \<Rightarrow> real \<Rightarrow> real \<Rightarrow> int \<Rightarrow> lp_gesture \<Rightarrow> bool \<times> lp_gesture" where
  "update_momentum pX pY dx dy timeDiff g =
     (if m_momentumPhase g \<noteq> MomentumPhaseUndefined then
        (if \<bar>pX\<bar> < 15 / 10 \<and> \<bar>pY\<bar> < 15 / 10 then
           (let g1 = reset_momentum g in
            if m_momentumPhase g1 = MomentumPhaseBegan
            then (m_phase g1 = PhaseEnded, g1\<lparr>m_momentumPhase := MomentumPhaseUndefined\<rparr>)
            else (True, g1\<lparr>m_momentumPhase := MomentumPhaseEnded,
                            m_momentumTimer := Stop (m_momentumTimer g1)\<rparr>))
         else
           (let scale = (if px (m_momentum g) > 4 / 10 \<or> py (m_momentum g) > 4 / 10
                         then 98 / 100 else 96 / 100)
            in (True, g\<lparr>m_momentum := LPPoint (px (m_momentum g) * scale) (py (m_momentum g) * scale)\<rparr>)))
      else if m_phase g \<noteq> PhaseEnded then
        (if \<bar>dx\<bar> \<le> 1 / 10000000 \<and> \<bar>dy\<bar> \<le> 1 / 10000000 then (False, reset_momentum g)
         else if timeDiff > 0 \<and> timeDiff < 1000000 then (True, record_momentum dx dy timeDiff g)
         else (True, reset_momentum g))
      else (True, g))"

text \<open>The wheel events of Windows, and the scroll events of the Macintosh.\<close>

definition wheel_events :: "int \<Rightarrow> int \<Rightarrow> sys_event list" where
  "wheel_events ilx ily =
     (if ily \<noteq> 0 then [MouseWheel (of_int (ily * 2))] else []) @
     (if ilx \<noteq> 0 then [MouseHWheel (of_int (- ilx * 2))] else [])"

definition scroll_events :: "gesture_env \<Rightarrow> int \<Rightarrow> int \<Rightarrow> int \<Rightarrow> int \<Rightarrow> lp_gesture \<Rightarrow> sys_event list" where
  "scroll_events E pX pY ilx ily g =
     (if m_phase g \<noteq> PhaseUndefined
      then [createEvent E kIOHIDEventTypeScroll g
              [(Field 113, real_of_int pX), (Field 119, real_of_int pY), (Field 123, 0x80000000),
               (Field 132, of_w (m_phase g)), (Field 135, 1)]] else []) @
     [CGScrollWheel
        ((if ily \<noteq> 0 then [(DeltaAxis1, real_of_int ily), (FixedPtDeltaAxis1, real_of_int (ily * 65536))] else []) @
         (if ilx \<noteq> 0 then [(DeltaAxis2, real_of_int ilx), (FixedPtDeltaAxis2, real_of_int (ilx * 65536))] else []) @
         [(PointDeltaAxis1, real_of_int pY), (PointDeltaAxis2, real_of_int pX), (Field 99, of_w (m_phase g)),
          (Field 123, of_w (m_momentumPhase g)), (Field 137, 1)])]"

definition take_pixels :: "real \<Rightarrow> real \<Rightarrow> lp_gesture \<Rightarrow> int \<times> int \<times> lp_gesture" where
  "take_pixels pX pY g =
     (let x = px (m_scrollPartialPixel g) + pX; y = py (m_scrollPartialPixel g) + pY in
      (c_round x, c_round y,
       g\<lparr>m_scrollPartialPixel := LPPoint (x - real_of_int (c_round x)) (y - real_of_int (c_round y))\<rparr>))"

definition flush_lines :: "lp_gesture \<Rightarrow> int \<times> int \<times> lp_gesture" where
  "flush_lines g =
     (let x = px (m_scrollPartialLine g); y = py (m_scrollPartialLine g) in
      (\<lfloor>x\<rfloor>, \<lfloor>y\<rfloor>, g\<lparr>m_scrollPartialLine := LPPoint (x - real_of_int \<lfloor>x\<rfloor>) (y - real_of_int \<lfloor>y\<rfloor>)\<rparr>))"

text \<open>Windows posts lines at most every \<open>windowsUpdateRate\<close> microseconds.\<close>

definition take_lines :: "gesture_env \<Rightarrow> real \<Rightarrow> real \<Rightarrow> int \<Rightarrow> lp_gesture \<Rightarrow> int \<times> int \<times> lp_gesture" where
  "take_lines E lx ly timeDiff g =
     (let g1 = g\<lparr>m_scrollPartialLine := LPPoint (px (m_scrollPartialLine g) + lx)
                                                (py (m_scrollPartialLine g) + ly)\<rparr>
      in if ge_platform E = Windows then
           (let g2 = g1\<lparr>m_windowsEventTimer := m_windowsEventTimer g1 + timeDiff\<rparr> in
            if m_windowsEventTimer g2 \<ge> 100000 div 60
            then (let (ilx, ily, g3) = flush_lines g2 in (ilx, ily, g3\<lparr>m_windowsEventTimer := 0\<rparr>))
            else (0, 0, g2))
         else flush_lines g1)"

definition next_phase :: "lp_gesture \<Rightarrow> lp_gesture" where
  "next_phase g =
     (if m_phase g = PhaseBegan then g\<lparr>m_phase := PhaseChanged\<rparr>
      else if m_momentumPhase g = MomentumPhaseBegan then g\<lparr>m_momentumPhase := MomentumPhaseChanged\<rparr>
      else if m_momentumPhase g = MomentumPhaseEnded then g\<lparr>m_momentumPhase := MomentumPhaseUndefined\<rparr>
      else g)"

definition emit_scroll ::
  "gesture_env \<Rightarrow> real \<Rightarrow> real \<Rightarrow> real \<Rightarrow> real \<Rightarrow> int \<Rightarrow> lp_gesture \<Rightarrow> lp_gesture" where
  "emit_scroll E pX pY lx ly timeDiff g =
     (let (ipx, ipy, g1) = take_pixels pX pY g;
          (ilx, ily, g2) = take_lines E lx ly timeDiff g1;
          es = (case ge_platform E of Apple \<Rightarrow> scroll_events E ipx ipy ilx ily g2
                  | Windows \<Rightarrow> wheel_events ilx ily | Linux \<Rightarrow> [])
      in next_phase (g2\<lparr>posted := posted g2 @ es\<rparr>))"

definition applyScroll_gesture ::
  "gesture_env \<Rightarrow> real \<Rightarrow> real \<Rightarrow> int \<Rightarrow> lp_gesture \<Rightarrow> bool \<times> lp_gesture" where
  "applyScroll_gesture E dx dy timeDiff g =
     (if m_type g = GestureScroll \<or> m_momentumPhase g \<noteq> MomentumPhaseUndefined then
        (let pX = dx * ppmm; pY = dy * ppmm;
             lx = pX / m_horizontalPixelsPerLine g; ly = pY / m_verticalPixelsPerLine g;
             (go, g1) = update_momentum pX pY dx dy timeDiff g
         in if go then (True, emit_scroll E pX pY lx ly timeDiff g1) else (False, g1))
      else (False, g))"

definition applyMomentum :: "gesture_env \<Rightarrow> lp_gesture \<Rightarrow> lp_gesture" where
  "applyMomentum E g =
     (if m_momentumPhase g \<noteq> MomentumPhaseUndefined
      then snd (applyScroll_gesture E (px (m_momentum g)) (py (m_momentum g))
                  (trunc (1000000 / m_momentumFPS g)) g)
      else g)"

section \<open>Beginning and ending\<close>

text \<open>A parameter of the system that cannot be read, or that is zero, counts as three lines.\<close>

definition wheel_parameter :: "u32 option \<Rightarrow> real" where
  "wheel_parameter answer =
     (case answer of Some param \<Rightarrow> if param \<noteq> 0 then of_w param else 3 | None \<Rightarrow> 3)"

definition begun :: "gesture_env \<Rightarrow> u32 \<Rightarrow> lp_gesture \<Rightarrow> lp_gesture" where
  "begun E t g =
     g\<lparr>m_type := t, m_momentumPhase := MomentumPhaseUndefined, m_phase := PhaseBegan,
       m_momentumHistory := Reset (m_momentumHistory g), m_momentum := LPPointZero,
       m_scrollPartialLine := LPPointZero, m_scrollPartialPixel := LPPointZero,
       m_horizontalPixelsPerLine :=
         (case ge_platform E of Apple \<Rightarrow> 10 | Windows \<Rightarrow> wheel_parameter (ge_wheelChars E) | Linux \<Rightarrow> 12),
       m_verticalPixelsPerLine :=
         (case ge_platform E of Apple \<Rightarrow> 10 | Windows \<Rightarrow> wheel_parameter (ge_wheelLines E) | Linux \<Rightarrow> 12),
       m_desktopSwipeDistance := 0, m_desktopSwipeDistanceDelta := 0,
       m_desktopSwipeDistanceThreshold := 0, m_desktopSwipeDirection := kIOHIDSwipeNone\<rparr>"

definition stop_momentum :: "gesture_env \<Rightarrow> lp_gesture \<Rightarrow> lp_gesture" where
  "stop_momentum E g =
     (if m_momentumPhase g \<noteq> MomentumPhaseUndefined
      then snd (applyScroll_gesture E 0 0 0 (g\<lparr>m_momentumTimer := Stop (m_momentumTimer g)\<rparr>))
      else g)"

definition begin_gesture :: "gesture_env \<Rightarrow> u32 \<Rightarrow> lp_gesture \<Rightarrow> bool \<times> lp_gesture" where
  "begin_gesture E t g =
     (if m_type g = GestureNone \<and> getEventTypeFromGestureType t \<noteq> kIOHIDEventTypeNULL then
        (let g2 = begun E t (stop_momentum E g);
             g3 = (if ge_platform E = Apple \<and> t \<noteq> GestureDesktopSwipeHorizontal \<and> t \<noteq> GestureDesktopSwipeVertical
                   then post (createEvent E kIOHIDEventTypeGestureBegan g2
                                [(Field 115, of_w (getEventTypeFromGestureType t))]) g2
                   else g2)
         in (True, if t = GestureZoom then snd (applyZoom E 0 g3)
                   else if t = GestureRotate then snd (applyRotation E 0 g3) else g3))
      else (False, g))"

text \<open>The largest recorded move, which starts the momentum, is found while the history is emptied.\<close>

definition larger_move :: "LPPoint \<Rightarrow> LPPoint \<times> real \<Rightarrow> LPPoint \<times> real" where
  "larger_move m b =
     (let b1 = (if \<bar>px m\<bar> > snd b then (m, \<bar>px m\<bar>) else b) in
      if \<bar>py m\<bar> > snd b1 then (m, \<bar>py m\<bar>) else b1)"

fun drain :: "nat \<Rightarrow> LPPoint bqueue \<Rightarrow> LPPoint \<times> real \<Rightarrow> LPPoint bqueue \<times> LPPoint \<times> real" where
  "drain 0 q b = (q, b)"
| "drain (Suc n) q b =
     (if IsEmpty q then (q, b)
      else (let (m, q1) = Dequeue 11 q in drain n q1 (larger_move m b)))"

definition start_momentum :: "lp_gesture \<Rightarrow> lp_gesture" where
  "start_momentum g =
     (let numHistory = Size (m_momentumHistory g);
          (h, m, _) = drain numHistory (m_momentumHistory g) (LPPointZero, 0);
          g1 = g\<lparr>m_momentumHistory := h, m_momentum := m\<rparr>
      in if numHistory \<noteq> 0
         then g1\<lparr>m_momentumPhase := MomentumPhaseBegan,
                 m_momentumTimer := snd (Start_with (Some ()) (m_momentumTimer g1))\<rparr>
         else g1)"

text \<open>The closing event of the Macintosh. A swipe that did not go far enough is cancelled.\<close>

definition closing_event :: "gesture_env \<Rightarrow> lp_gesture \<Rightarrow> lp_gesture" where
  "closing_event E g =
     (if m_type g = GestureDesktopSwipeHorizontal \<or> m_type g = GestureDesktopSwipeVertical then
        (let cancel = \<bar>m_desktopSwipeDistance g\<bar> < 1 / 2 \<and>
               (\<bar>m_desktopSwipeDistanceDelta g\<bar> < 1 / 100 \<or>
                m_desktopSwipeDistance g * m_desktopSwipeDistanceDelta g < 0);
             g1 = (if cancel then g\<lparr>m_phase := PhaseCancelled\<rparr> else g)
         in post (createEvent E kIOHIDEventTypeDockSwipe g
              [(Field 124, m_desktopSwipeDistance g1), (Field 132, of_w (m_phase g1)),
               (Field 134, of_w (m_phase g1)), (Field 136, 1), (Field 138, 3),
               (Field 123, real (if m_type g = GestureDesktopSwipeHorizontal
                                 then kIOHIDGestureMotionHorizontalX else kIOHIDGestureMotionVerticalY))]) g1)
      else post (createEvent E kIOHIDEventTypeGestureEnded g
             [(Field 115, of_w (getEventTypeFromGestureType (m_type g))),
              (Field 123, real kIOHIDGestureMotionNone)]) g)"

definition end_gesture :: "gesture_env \<Rightarrow> lp_gesture \<Rightarrow> bool \<times> lp_gesture" where
  "end_gesture E g =
     (if m_type g \<noteq> GestureNone \<and> (m_phase g = PhaseBegan \<or> m_phase g = PhaseChanged) then
        (let g1 = g\<lparr>m_phase := PhaseEnded\<rparr>;
             g2 = (if m_type g1 = GestureZoom then snd (applyZoom E 0 g1)
                   else if m_type g1 = GestureRotate then snd (applyRotation E 0 g1) else g1);
             g3 = (if ge_platform E = Apple then closing_event E g2 else g2);
             g4 = (if m_type g3 = GestureScroll
                   then start_momentum ((snd (applyScroll_gesture E 0 0 0
                          (g3\<lparr>m_momentumTimer := Stop (m_momentumTimer g3)\<rparr>)))\<lparr>m_momentum := LPPointZero\<rparr>)
                   else g3)
         in (True, g4\<lparr>m_type := GestureNone, m_phase := PhaseUndefined\<rparr>))
      else (False, g))"

section \<open>What each operation leaves alone\<close>

lemma post_frame [simp]:
  "m_type (post e g) = m_type g" "m_phase (post e g) = m_phase g"
  "m_momentumPhase (post e g) = m_momentumPhase g" "m_momentumHistory (post e g) = m_momentumHistory g"
  "m_momentumTimer (post e g) = m_momentumTimer g" "m_momentum (post e g) = m_momentum g"
  "m_momentumFPS (post e g) = m_momentumFPS g" "posted (post e g) = posted g @ [e]"
  "m_scrollPartialLine (post e g) = m_scrollPartialLine g"
  "m_scrollPartialPixel (post e g) = m_scrollPartialPixel g"
  "m_horizontalPixelsPerLine (post e g) = m_horizontalPixelsPerLine g"
  "m_verticalPixelsPerLine (post e g) = m_verticalPixelsPerLine g"
  by (simp_all add: post_def)

lemma phase_changed_frame [simp]:
  "m_type (phase_changed g) = m_type g"
  "m_phase (phase_changed g) = (if m_phase g = PhaseBegan then PhaseChanged else m_phase g)"
  "m_momentumPhase (phase_changed g) = m_momentumPhase g"
  "m_momentumHistory (phase_changed g) = m_momentumHistory g"
  "m_momentumTimer (phase_changed g) = m_momentumTimer g" "m_momentum (phase_changed g) = m_momentum g"
  "m_momentumFPS (phase_changed g) = m_momentumFPS g" "posted (phase_changed g) = posted g"
  "m_scrollPartialLine (phase_changed g) = m_scrollPartialLine g"
  "m_scrollPartialPixel (phase_changed g) = m_scrollPartialPixel g"
  "m_horizontalPixelsPerLine (phase_changed g) = m_horizontalPixelsPerLine g"
  "m_verticalPixelsPerLine (phase_changed g) = m_verticalPixelsPerLine g"
  by (simp_all add: phase_changed_def)

text \<open>The parts of a swipe event that matter.\<close>

lemma dock_swipe_frame [simp]:
  "m_type (dock_swipe E dx dy g) = m_type g" "m_phase (dock_swipe E dx dy g) = m_phase g"
  "m_momentumPhase (dock_swipe E dx dy g) = m_momentumPhase g"
  "m_momentumHistory (dock_swipe E dx dy g) = m_momentumHistory g"
  "m_momentumTimer (dock_swipe E dx dy g) = m_momentumTimer g"
  "m_momentum (dock_swipe E dx dy g) = m_momentum g" "m_momentumFPS (dock_swipe E dx dy g) = m_momentumFPS g"
  "m_horizontalPixelsPerLine (dock_swipe E dx dy g) = m_horizontalPixelsPerLine g"
  "m_verticalPixelsPerLine (dock_swipe E dx dy g) = m_verticalPixelsPerLine g"
  by (simp_all add: dock_swipe_def Let_def split: prod.split)

lemma take_lines_frame:
  assumes "take_lines E lx ly td g = (ilx, ily, g')"
  shows "m_type g' = m_type g" "m_phase g' = m_phase g" "m_momentumPhase g' = m_momentumPhase g"
    "m_momentumHistory g' = m_momentumHistory g" "m_momentumTimer g' = m_momentumTimer g"
    "m_momentum g' = m_momentum g" "m_momentumFPS g' = m_momentumFPS g"
    "m_horizontalPixelsPerLine g' = m_horizontalPixelsPerLine g"
    "m_verticalPixelsPerLine g' = m_verticalPixelsPerLine g"
    "m_scrollPartialPixel g' = m_scrollPartialPixel g" "posted g' = posted g"
  using assms by (auto simp: take_lines_def flush_lines_def Let_def split: if_splits)

lemma take_pixels_frame:
  assumes "take_pixels pX pY g = (ipx, ipy, g')"
  shows "m_type g' = m_type g" "m_phase g' = m_phase g" "m_momentumPhase g' = m_momentumPhase g"
    "m_momentumHistory g' = m_momentumHistory g" "m_momentumTimer g' = m_momentumTimer g"
    "m_momentum g' = m_momentum g" "m_momentumFPS g' = m_momentumFPS g"
    "m_horizontalPixelsPerLine g' = m_horizontalPixelsPerLine g"
    "m_verticalPixelsPerLine g' = m_verticalPixelsPerLine g"
    "m_scrollPartialLine g' = m_scrollPartialLine g" "posted g' = posted g"
  using assms by (auto simp: take_pixels_def Let_def)

lemma next_phase_frame [simp]:
  "m_type (next_phase g) = m_type g" "m_momentumHistory (next_phase g) = m_momentumHistory g"
  "m_phase (next_phase g) = (if m_phase g = PhaseBegan then PhaseChanged else m_phase g)"
  "m_momentumTimer (next_phase g) = m_momentumTimer g" "m_momentum (next_phase g) = m_momentum g"
  "m_momentumFPS (next_phase g) = m_momentumFPS g" "posted (next_phase g) = posted g"
  "m_horizontalPixelsPerLine (next_phase g) = m_horizontalPixelsPerLine g"
  "m_verticalPixelsPerLine (next_phase g) = m_verticalPixelsPerLine g"
  "m_scrollPartialPixel (next_phase g) = m_scrollPartialPixel g"
  "m_scrollPartialLine (next_phase g) = m_scrollPartialLine g"
  by (simp_all add: next_phase_def)

text \<open>The momentum's phase moves on with an event, unless that event is the first of a gesture.\<close>

definition next_momentum_phase :: "u16 \<Rightarrow> u32 \<Rightarrow> u32" where
  "next_momentum_phase phase mph =
     (if phase = PhaseBegan then mph
      else if mph = MomentumPhaseBegan then MomentumPhaseChanged
      else if mph = MomentumPhaseEnded then MomentumPhaseUndefined else mph)"

lemma next_phase_momentum [simp]:
  "m_momentumPhase (next_phase g) = next_momentum_phase (m_phase g) (m_momentumPhase g)"
  by (simp add: next_phase_def next_momentum_phase_def)

lemma emit_scroll_frame [simp]:
  "m_type (emit_scroll E pX pY lx ly td g) = m_type g"
  "m_phase (emit_scroll E pX pY lx ly td g) = (if m_phase g = PhaseBegan then PhaseChanged else m_phase g)"
  "m_momentumPhase (emit_scroll E pX pY lx ly td g) = next_momentum_phase (m_phase g) (m_momentumPhase g)"
  "m_momentumHistory (emit_scroll E pX pY lx ly td g) = m_momentumHistory g"
  "m_momentumTimer (emit_scroll E pX pY lx ly td g) = m_momentumTimer g"
  "m_momentum (emit_scroll E pX pY lx ly td g) = m_momentum g"
  "m_momentumFPS (emit_scroll E pX pY lx ly td g) = m_momentumFPS g"
  "m_horizontalPixelsPerLine (emit_scroll E pX pY lx ly td g) = m_horizontalPixelsPerLine g"
  "m_verticalPixelsPerLine (emit_scroll E pX pY lx ly td g) = m_verticalPixelsPerLine g"
proof -
  obtain ipx ipy g1 where 1: "take_pixels pX pY g = (ipx, ipy, g1)"
    by (cases "take_pixels pX pY g")
  obtain ilx ily g2 where 2: "take_lines E lx ly td g1 = (ilx, ily, g2)"
    by (cases "take_lines E lx ly td g1")
  note f = take_pixels_frame [OF 1] take_lines_frame [OF 2]
  show "m_type (emit_scroll E pX pY lx ly td g) = m_type g"
    "m_phase (emit_scroll E pX pY lx ly td g) = (if m_phase g = PhaseBegan then PhaseChanged else m_phase g)"
    "m_momentumPhase (emit_scroll E pX pY lx ly td g) = next_momentum_phase (m_phase g) (m_momentumPhase g)"
    "m_momentumHistory (emit_scroll E pX pY lx ly td g) = m_momentumHistory g"
    "m_momentumTimer (emit_scroll E pX pY lx ly td g) = m_momentumTimer g"
    "m_momentum (emit_scroll E pX pY lx ly td g) = m_momentum g"
    "m_momentumFPS (emit_scroll E pX pY lx ly td g) = m_momentumFPS g"
    "m_horizontalPixelsPerLine (emit_scroll E pX pY lx ly td g) = m_horizontalPixelsPerLine g"
    "m_verticalPixelsPerLine (emit_scroll E pX pY lx ly td g) = m_verticalPixelsPerLine g"
    by (simp_all add: emit_scroll_def 1 2 f Let_def)
qed

section \<open>The device's invariant\<close>

definition g_inv :: "lp_gesture \<Rightarrow> bool" where
  "g_inv g \<longleftrightarrow> bq_inv 11 (m_momentumHistory g) \<and> m_momentumFPS g = 125 \<and>
     m_Callback (m_momentumTimer g) = Some () \<and> m_vigilance (m_momentumTimer g) \<noteq> Terminated \<and>
     m_phase g \<in> {PhaseUndefined, PhaseBegan, PhaseChanged} \<and>
     (m_type g = GestureNone \<longleftrightarrow> m_phase g = PhaseUndefined) \<and>
     (m_type g \<noteq> GestureNone \<longrightarrow> m_momentumPhase g = MomentumPhaseUndefined) \<and>
     m_momentumPhase g \<in> {MomentumPhaseUndefined, MomentumPhaseBegan, MomentumPhaseChanged} \<and>
     (m_momentumPhase g \<noteq> MomentumPhaseUndefined \<longrightarrow> m_vigilance (m_momentumTimer g) > Active) \<and>
     m_horizontalPixelsPerLine g > 0 \<and> m_verticalPixelsPerLine g > 0"

lemma g_inv_new: "g_inv (LPGesture fx fy)"
  by (simp add: g_inv_def LPGesture_def Heartbeat_def bq_inv_new size_t_max_def)

lemma Stop_facts [simp]:
  "m_Callback (Stop b) = m_Callback b"
  "m_vigilance (Stop b) = (if m_vigilance b = Terminated then Terminated else Active)"
  by (cases "m_vigilance b"; simp add: Stop_def)+

lemma bq_inv_record: "bq_inv 11 (m_momentumHistory g) \<Longrightarrow> bq_inv 11 (m_momentumHistory (record_momentum dx dy td g))"
  using momentum_window.window_step(1) [of "m_momentumHistory g"] by (simp add: record_momentum_def Let_def)

lemma record_momentum_frame [simp]:
  "m_type (record_momentum dx dy td g) = m_type g" "m_phase (record_momentum dx dy td g) = m_phase g"
  "m_momentumPhase (record_momentum dx dy td g) = m_momentumPhase g"
  "m_momentumTimer (record_momentum dx dy td g) = m_momentumTimer g"
  "m_momentum (record_momentum dx dy td g) = m_momentum g"
  "m_momentumFPS (record_momentum dx dy td g) = m_momentumFPS g"
  "m_horizontalPixelsPerLine (record_momentum dx dy td g) = m_horizontalPixelsPerLine g"
  "m_verticalPixelsPerLine (record_momentum dx dy td g) = m_verticalPixelsPerLine g"
  by (simp_all add: record_momentum_def Let_def)

lemma update_momentum_frame:
  assumes "update_momentum pX pY dx dy td g = (go, g')"
  shows "m_type g' = m_type g" "m_phase g' = m_phase g" "m_momentumFPS g' = m_momentumFPS g"
    "m_horizontalPixelsPerLine g' = m_horizontalPixelsPerLine g"
    "m_verticalPixelsPerLine g' = m_verticalPixelsPerLine g"
    "bq_inv 11 (m_momentumHistory g) \<Longrightarrow> bq_inv 11 (m_momentumHistory g')"
    "m_Callback (m_momentumTimer g') = m_Callback (m_momentumTimer g)"
    "m_vigilance (m_momentumTimer g') = Terminated \<longleftrightarrow> m_vigilance (m_momentumTimer g) = Terminated"
  using assms
  by (auto simp: update_momentum_def reset_momentum_def bq_inv_Reset bq_inv_record Let_def split: if_splits)

text \<open>What becomes of the momentum's phase and timer in one call.\<close>

lemma update_momentum_phase:
  assumes "update_momentum pX pY dx dy td g = (go, g')"
  shows "m_momentumPhase g' =
      (if m_momentumPhase g = MomentumPhaseUndefined \<or> \<not> (\<bar>pX\<bar> < 15 / 10 \<and> \<bar>pY\<bar> < 15 / 10)
       then m_momentumPhase g
       else if m_momentumPhase g = MomentumPhaseBegan then MomentumPhaseUndefined else MomentumPhaseEnded)"
    and "m_momentumPhase g' \<noteq> MomentumPhaseEnded \<Longrightarrow> m_momentumTimer g' = m_momentumTimer g"
  using assms by (auto simp: update_momentum_def reset_momentum_def Let_def split: if_splits)

lemma applyScroll_frame:
  assumes "applyScroll_gesture E dx dy td g = (r, g')"
  shows "m_type g' = m_type g" "m_momentumFPS g' = m_momentumFPS g"
    "m_horizontalPixelsPerLine g' = m_horizontalPixelsPerLine g"
    "m_verticalPixelsPerLine g' = m_verticalPixelsPerLine g"
    "m_phase g' = (if r \<and> m_phase g = PhaseBegan then PhaseChanged else m_phase g)"
    "bq_inv 11 (m_momentumHistory g) \<Longrightarrow> bq_inv 11 (m_momentumHistory g')"
    "m_Callback (m_momentumTimer g') = m_Callback (m_momentumTimer g)"
    "m_vigilance (m_momentumTimer g') = Terminated \<longleftrightarrow> m_vigilance (m_momentumTimer g) = Terminated"
  using assms
  by (auto simp: applyScroll_gesture_def Let_def update_momentum_frame split: if_splits prod.splits)

lemma g_inv_applyScroll:
  assumes "g_inv g" "applyScroll_gesture E dx dy td g = (r, g')"
  shows "g_inv g'"
proof -
  note f = applyScroll_frame [OF assms(2)]
  have m: "m_momentumPhase g' \<in> {MomentumPhaseUndefined, MomentumPhaseBegan, MomentumPhaseChanged} \<and>
     (m_momentumPhase g' \<noteq> MomentumPhaseUndefined \<longrightarrow>
        m_momentumPhase g \<noteq> MomentumPhaseUndefined \<and> m_momentumTimer g' = m_momentumTimer g)"
  proof (cases "m_type g = GestureScroll \<or> m_momentumPhase g \<noteq> MomentumPhaseUndefined")
    case False
    with assms show ?thesis by (auto simp: applyScroll_gesture_def)
  next
    case True
    obtain go g1 where u: "update_momentum (dx * ppmm) (dy * ppmm) dx dy td g = (go, g1)"
      by (cases "update_momentum (dx * ppmm) (dy * ppmm) dx dy td g")
    from assms(2) True u have g': "g' = (if go then emit_scroll E (dx * ppmm) (dy * ppmm)
        (dx * ppmm / m_horizontalPixelsPerLine g) (dy * ppmm / m_verticalPixelsPerLine g) td g1 else g1)"
      by (auto simp: applyScroll_gesture_def Let_def)
    have t: "m_type g \<noteq> GestureNone \<Longrightarrow> m_momentumPhase g = MomentumPhaseUndefined"
      and p: "m_phase g = PhaseBegan \<Longrightarrow> m_momentumPhase g = MomentumPhaseUndefined"
      and s: "m_momentumPhase g \<in> {MomentumPhaseUndefined, MomentumPhaseBegan, MomentumPhaseChanged}"
      using assms(1) by (auto simp: g_inv_def)
    from assms(1) have "m_phase g \<noteq> PhaseEnded" by (auto simp: g_inv_def)
    then have ng: "\<not> go" if "m_momentumPhase g1 \<noteq> m_momentumPhase g" "m_momentumPhase g = MomentumPhaseBegan"
      using u that by (auto simp: update_momentum_def reset_momentum_def Let_def split: if_splits)
    have go: "go" if "m_momentumPhase g1 = MomentumPhaseEnded"
      using u that s by (auto simp: update_momentum_def reset_momentum_def Let_def split: if_splits)
    show ?thesis
      using update_momentum_phase [OF u] update_momentum_frame [OF u] s p ng go
      by (auto simp: g' next_momentum_phase_def split: if_splits)
  qed
  from assms(1) f m show ?thesis by (auto simp: g_inv_def)
qed

lemma g_inv_phase_changed: "g_inv g \<Longrightarrow> g_inv (phase_changed g)"
  by (auto simp: g_inv_def)

lemma g_inv_post: "g_inv (post e g) = g_inv g"
  by (simp add: g_inv_def)

lemma g_inv_dock_swipe: "g_inv (dock_swipe E dx dy g) = g_inv g"
  by (simp add: g_inv_def)

lemma g_inv_applyZoom: "g_inv g \<Longrightarrow> g_inv (snd (applyZoom E z g))"
  by (simp add: applyZoom_def g_inv_phase_changed g_inv_post)

lemma g_inv_applyRotation: "g_inv g \<Longrightarrow> g_inv (snd (applyRotation E z g))"
  by (simp add: applyRotation_def g_inv_phase_changed g_inv_post)

lemma g_inv_applyDesktopSwipe: "g_inv g \<Longrightarrow> g_inv (snd (applyDesktopSwipe E dx dy g))"
  by (simp add: applyDesktopSwipe_def g_inv_phase_changed g_inv_dock_swipe)

lemma g_inv_applyMomentum: "g_inv g \<Longrightarrow> g_inv (applyMomentum E g)"
  unfolding applyMomentum_def by (auto intro: g_inv_applyScroll simp: prod_eq_iff)

lemma applyZoom_frame [simp]:
  "m_type (snd (applyZoom E z g)) = m_type g"
  "m_phase (snd (applyZoom E z g)) =
     (if m_type g = GestureZoom \<and> m_phase g = PhaseBegan then PhaseChanged else m_phase g)"
  "m_momentumPhase (snd (applyZoom E z g)) = m_momentumPhase g"
  "m_momentumHistory (snd (applyZoom E z g)) = m_momentumHistory g"
  "m_momentumTimer (snd (applyZoom E z g)) = m_momentumTimer g"
  "m_momentumFPS (snd (applyZoom E z g)) = m_momentumFPS g"
  "m_horizontalPixelsPerLine (snd (applyZoom E z g)) = m_horizontalPixelsPerLine g"
  "m_verticalPixelsPerLine (snd (applyZoom E z g)) = m_verticalPixelsPerLine g"
  by (simp_all add: applyZoom_def)

lemma applyRotation_frame [simp]:
  "m_type (snd (applyRotation E z g)) = m_type g"
  "m_phase (snd (applyRotation E z g)) =
     (if m_type g = GestureRotate \<and> m_phase g = PhaseBegan then PhaseChanged else m_phase g)"
  "m_momentumPhase (snd (applyRotation E z g)) = m_momentumPhase g"
  "m_momentumHistory (snd (applyRotation E z g)) = m_momentumHistory g"
  "m_momentumTimer (snd (applyRotation E z g)) = m_momentumTimer g"
  "m_momentumFPS (snd (applyRotation E z g)) = m_momentumFPS g"
  "m_horizontalPixelsPerLine (snd (applyRotation E z g)) = m_horizontalPixelsPerLine g"
  "m_verticalPixelsPerLine (snd (applyRotation E z g)) = m_verticalPixelsPerLine g"
  by (simp_all add: applyRotation_def)

lemma applyDesktopSwipe_type [simp]: "m_type (snd (applyDesktopSwipe E dx dy g)) = m_type g"
  by (simp add: applyDesktopSwipe_def)

text \<open>A gesture of the five kinds begins when none is active.\<close>

definition gesture_kind :: "u32 \<Rightarrow> bool" where
  "gesture_kind t \<longleftrightarrow> t \<in> {GestureScroll, GestureZoom, GestureRotate, GestureDesktopSwipeHorizontal,
     GestureDesktopSwipeVertical}"

lemma event_type_known: "getEventTypeFromGestureType t \<noteq> kIOHIDEventTypeNULL \<longleftrightarrow> gesture_kind t"
  by (auto simp: getEventTypeFromGestureType_def gesture_kind_def)

lemma wheel_parameter_pos: "wheel_parameter a > 0"
proof -
  have "0 < of_w p" if "p \<noteq> 0" for p :: u32
    unfolding of_w_def of_int_0_less_iff using that uint_ge_0 [of p] uint_0_iff [of p] by linarith
  then show ?thesis by (simp add: wheel_parameter_def split: option.split)
qed

lemma stop_momentum_kept:
  assumes "g_inv g"
  shows "bq_inv 11 (m_momentumHistory (stop_momentum E g)) \<and> m_momentumFPS (stop_momentum E g) = 125 \<and>
    m_Callback (m_momentumTimer (stop_momentum E g)) = Some () \<and>
    m_vigilance (m_momentumTimer (stop_momentum E g)) \<noteq> Terminated"
proof -
  obtain r g1 where a: "applyScroll_gesture E 0 0 0 (g\<lparr>m_momentumTimer := Stop (m_momentumTimer g)\<rparr>) = (r, g1)"
    by (cases "applyScroll_gesture E 0 0 0 (g\<lparr>m_momentumTimer := Stop (m_momentumTimer g)\<rparr>)")
  show ?thesis using assms applyScroll_frame [OF a] by (simp add: stop_momentum_def a g_inv_def)
qed

lemma g_inv_begun:
  assumes "g_inv g" "gesture_kind t"
  shows "g_inv (begun E t (stop_momentum E g))"
  using assms(2) stop_momentum_kept [OF assms(1), of E]
  by (cases "ge_platform E")
    (auto simp: begun_def g_inv_def gesture_kind_def bq_inv_Reset wheel_parameter_pos)

lemma begin_gesture_result:
  assumes "g_inv g"
  shows "fst (begin_gesture E t g) \<longleftrightarrow> m_type g = GestureNone \<and> gesture_kind t"
    and "m_type (snd (begin_gesture E t g)) = (if fst (begin_gesture E t g) then t else m_type g)"
    and "g_inv (snd (begin_gesture E t g))"
proof -
  have b: "m_type (begun E u g') = u" for u g' by (simp add: begun_def)
  show "fst (begin_gesture E t g) \<longleftrightarrow> m_type g = GestureNone \<and> gesture_kind t"
    by (simp add: begin_gesture_def Let_def event_type_known)
  show "m_type (snd (begin_gesture E t g)) = (if fst (begin_gesture E t g) then t else m_type g)"
    by (simp add: begin_gesture_def Let_def b)
  show "g_inv (snd (begin_gesture E t g))"
    using assms by (simp add: begin_gesture_def Let_def event_type_known g_inv_begun g_inv_post
        g_inv_applyZoom g_inv_applyRotation)
qed

lemma drain_empties:
  assumes "bq_inv 11 q"
  shows "bq_inv 11 (fst (drain n q b)) \<and> Size (fst (drain n q b)) = Size q - n"
  using assms
proof (induction n q b rule: drain.induct)
  case (2 n q b)
  show ?case
  proof (cases "IsEmpty q")
    case False
    then have "bq_inv 11 (snd (Dequeue 11 q))" "Size q = Suc (Size (snd (Dequeue 11 q)))"
      using bq_inv_Dequeue [OF 2(2)] Size_Dequeue [OF 2(2)] by auto
    with False 2 show ?thesis
      by (simp add: Let_def split_beta)
  qed (use 2 in \<open>simp_all add: Size_def IsEmpty_def\<close>)
qed simp

text \<open>The starting momentum is the largest of the recorded moves, and there is one if any were made.\<close>

lemma drain_larger:
  assumes "bq_inv 11 q" "n = Size q"
  shows "snd (drain n q b) = fold larger_move (bq_list 11 q) b"
  using assms
proof (induction n q b rule: drain.induct)
  case (1 q b)
  then have "bq_list 11 q = []" by (metis length_0_conv length_bq_list)
  then show ?case by simp
next
  case (2 n q b)
  then have ne: "\<not> IsEmpty q" by (simp add: IsEmpty_def Size_def)
  obtain m q1 where d: "Dequeue 11 q = (m, q1)" by (cases "Dequeue 11 q")
  have "Size q1 = n" "bq_inv 11 q1" "bq_list 11 q = m # bq_list 11 q1"
    using Size_Dequeue [OF 2(2) ne] bq_inv_Dequeue [OF 2(2) ne] bq_list_Dequeue [OF 2(2) ne] 2(3) d
    by simp_all
  with 2(1) [OF ne d [symmetric] refl] ne d show ?case by simp
qed

lemma start_momentum_frame [simp]:
  "m_type (start_momentum g) = m_type g" "m_phase (start_momentum g) = m_phase g"
  "m_momentumFPS (start_momentum g) = m_momentumFPS g"
  "m_horizontalPixelsPerLine (start_momentum g) = m_horizontalPixelsPerLine g"
  "m_verticalPixelsPerLine (start_momentum g) = m_verticalPixelsPerLine g"
  "m_momentumPhase (start_momentum g) =
     (if Size (m_momentumHistory g) \<noteq> 0 then MomentumPhaseBegan else m_momentumPhase g)"
  "m_momentumTimer (start_momentum g) =
     (if Size (m_momentumHistory g) \<noteq> 0 then snd (Start_with (Some ()) (m_momentumTimer g))
      else m_momentumTimer g)"
  by (simp_all add: start_momentum_def Let_def split: prod.split)

lemma start_momentum_history:
  "bq_inv 11 (m_momentumHistory g) \<Longrightarrow> bq_inv 11 (m_momentumHistory (start_momentum g))"
  using drain_empties [of "m_momentumHistory g" "Size (m_momentumHistory g)" "(LPPointZero, 0)"]
  by (auto simp: start_momentum_def Let_def split: prod.split)

lemma closing_event_frame [simp]:
  "m_type (closing_event E g) = m_type g" "m_momentumPhase (closing_event E g) = m_momentumPhase g"
  "m_momentumHistory (closing_event E g) = m_momentumHistory g"
  "m_momentumTimer (closing_event E g) = m_momentumTimer g"
  "m_momentumFPS (closing_event E g) = m_momentumFPS g"
  "m_horizontalPixelsPerLine (closing_event E g) = m_horizontalPixelsPerLine g"
  "m_verticalPixelsPerLine (closing_event E g) = m_verticalPixelsPerLine g"
  by (simp_all add: closing_event_def Let_def)

lemma end_gesture_result:
  assumes "g_inv g"
  shows "fst (end_gesture E g) \<longleftrightarrow> m_type g \<noteq> GestureNone"
    and "m_type (snd (end_gesture E g)) = GestureNone"
    and "g_inv (snd (end_gesture E g))"
proof -
  show "fst (end_gesture E g) \<longleftrightarrow> m_type g \<noteq> GestureNone"
    using assms by (auto simp: end_gesture_def Let_def g_inv_def)
  show "m_type (snd (end_gesture E g)) = GestureNone"
    using assms by (auto simp: end_gesture_def Let_def g_inv_def)
  show "g_inv (snd (end_gesture E g))"
  proof (cases "m_type g = GestureNone")
    case True
    with assms show ?thesis by (simp add: end_gesture_def)
  next
    case False
    define g3 where "g3 = (let g1 = g\<lparr>m_phase := PhaseEnded\<rparr>;
        g2 = (if m_type g1 = GestureZoom then snd (applyZoom E 0 g1)
              else if m_type g1 = GestureRotate then snd (applyRotation E 0 g1) else g1)
      in if ge_platform E = Apple then closing_event E g2 else g2)"
    have f3: "m_type g3 = m_type g" "m_momentumPhase g3 = m_momentumPhase g"
      "m_momentumHistory g3 = m_momentumHistory g" "m_momentumTimer g3 = m_momentumTimer g"
      "m_momentumFPS g3 = m_momentumFPS g" "m_horizontalPixelsPerLine g3 = m_horizontalPixelsPerLine g"
      "m_verticalPixelsPerLine g3 = m_verticalPixelsPerLine g"
      by (simp_all add: g3_def Let_def)
    obtain r g4 where a: "applyScroll_gesture E 0 0 0 (g3\<lparr>m_momentumTimer := Stop (m_momentumTimer g3)\<rparr>) = (r, g4)"
      by (cases "applyScroll_gesture E 0 0 0 (g3\<lparr>m_momentumTimer := Stop (m_momentumTimer g3)\<rparr>)")
    have e: "snd (end_gesture E g) = (if m_type g3 = GestureScroll then start_momentum (g4\<lparr>m_momentum := LPPointZero\<rparr>) else g3)
          \<lparr>m_type := GestureNone, m_phase := PhaseUndefined\<rparr>"
      using False assms a by (auto simp: end_gesture_def g_inv_def Let_def g3_def)
    have u: "m_momentumPhase g = MomentumPhaseUndefined" using assms False by (simp add: g_inv_def)
    then have m4: "m_momentumPhase g4 = MomentumPhaseUndefined" "m_momentumTimer g4 = Stop (m_momentumTimer g3)"
      using a f3(2) by (auto simp: applyScroll_gesture_def Let_def update_momentum_def reset_momentum_def
          next_momentum_phase_def split: if_splits)
    note f4 = applyScroll_frame [OF a]
    show ?thesis
      unfolding e using assms f3 f4 m4 u
      by (auto simp: g_inv_def start_momentum_history Start_with_def Start_def install_def)
  qed
qed

section \<open>Scrolling never drifts\<close>

text \<open>What a posted wheel event moves along one of its axes, and the sum of all.\<close>

definition axis :: "cg_field \<Rightarrow> sys_event \<Rightarrow> real" where
  "axis a e =
     (case e of CGScrollWheel fs \<Rightarrow> (case map_of fs a of Some v \<Rightarrow> v | None \<Rightarrow> 0) | _ \<Rightarrow> 0)"

definition axis_total :: "cg_field \<Rightarrow> lp_gesture \<Rightarrow> real" where
  "axis_total a g = sum_list (map (axis a) (posted g))"

lemma axis_simps [simp]:
  "axis a (createEvent E t g fs) = 0"
  "axis a (CGScrollWheel fs) = (case map_of fs a of Some v \<Rightarrow> v | None \<Rightarrow> 0)"
  by (simp_all add: axis_def createEvent_def)

lemma c_round_error: "\<bar>x - real_of_int (c_round x)\<bar> \<le> 1 / 2"
  unfolding c_round_def abs_le_iff by (auto; linarith)

lemma floor_error: "0 \<le> x - real_of_int \<lfloor>x\<rfloor>" "x - real_of_int \<lfloor>x\<rfloor> < 1"
  by linarith+

lemma emit_scroll_apple:
  assumes "ge_platform E = Apple" "emit_scroll E pX pY lx ly td g = g'"
  shows "axis_total PointDeltaAxis2 g' + px (m_scrollPartialPixel g') =
           axis_total PointDeltaAxis2 g + px (m_scrollPartialPixel g) + pX"
    "axis_total PointDeltaAxis1 g' + py (m_scrollPartialPixel g') =
           axis_total PointDeltaAxis1 g + py (m_scrollPartialPixel g) + pY"
    "axis_total DeltaAxis2 g' + px (m_scrollPartialLine g') =
           axis_total DeltaAxis2 g + px (m_scrollPartialLine g) + lx"
    "axis_total DeltaAxis1 g' + py (m_scrollPartialLine g') =
           axis_total DeltaAxis1 g + py (m_scrollPartialLine g) + ly"
    "\<bar>px (m_scrollPartialPixel g')\<bar> \<le> 1 / 2" "\<bar>py (m_scrollPartialPixel g')\<bar> \<le> 1 / 2"
    "0 \<le> px (m_scrollPartialLine g')" "px (m_scrollPartialLine g') < 1"
    "0 \<le> py (m_scrollPartialLine g')" "py (m_scrollPartialLine g') < 1"
  using assms(1)
  by (simp_all flip: assms(2) add: emit_scroll_def take_pixels_def take_lines_def flush_lines_def Let_def
      axis_total_def scroll_events_def c_round_error [simplified] floor_error)

text \<open>The state while a scroll gesture is on.\<close>

definition scrolling :: "lp_gesture \<Rightarrow> bool" where
  "scrolling g \<longleftrightarrow> m_type g = GestureScroll \<and> m_momentumPhase g = MomentumPhaseUndefined \<and>
     m_phase g \<noteq> PhaseEnded"

text \<open>A move that is too small to be told from none is dropped.\<close>

definition a_move :: "real \<Rightarrow> real \<Rightarrow> bool" where
  "a_move dx dy \<longleftrightarrow> \<not> (\<bar>dx\<bar> \<le> 1 / 10000000 \<and> \<bar>dy\<bar> \<le> 1 / 10000000)"

lemma g_inv_scrolling: "g_inv g \<Longrightarrow> m_type g = GestureScroll \<Longrightarrow> scrolling g"
  by (auto simp: g_inv_def scrolling_def)

lemma update_momentum_scrolling:
  assumes "scrolling g"
  shows "fst (update_momentum pX pY dx dy td g) \<longleftrightarrow> a_move dx dy"
    and "m_scrollPartialPixel (snd (update_momentum pX pY dx dy td g)) = m_scrollPartialPixel g"
    and "m_scrollPartialLine (snd (update_momentum pX pY dx dy td g)) = m_scrollPartialLine g"
    and "posted (snd (update_momentum pX pY dx dy td g)) = posted g"
    and "m_momentumPhase (snd (update_momentum pX pY dx dy td g)) = MomentumPhaseUndefined"
  using assms by (auto simp: update_momentum_def scrolling_def a_move_def reset_momentum_def
      record_momentum_def Let_def)

lemma applyScroll_scrolling:
  assumes "scrolling g"
  shows "fst (applyScroll_gesture E dx dy td g) \<longleftrightarrow> a_move dx dy"
    and "scrolling (snd (applyScroll_gesture E dx dy td g))"
proof -
  obtain go g1 where u: "update_momentum (dx * ppmm) (dy * ppmm) dx dy td g = (go, g1)"
    by (cases "update_momentum (dx * ppmm) (dy * ppmm) dx dy td g")
  note m = update_momentum_scrolling [OF assms, of "dx * ppmm" "dy * ppmm" dx dy td, unfolded u, simplified]
  show "fst (applyScroll_gesture E dx dy td g) \<longleftrightarrow> a_move dx dy"
    using assms m by (simp add: applyScroll_gesture_def scrolling_def u Let_def)
  show "scrolling (snd (applyScroll_gesture E dx dy td g))"
    using assms m update_momentum_frame [OF u]
    by (simp add: applyScroll_gesture_def scrolling_def u next_momentum_phase_def Let_def)
qed

text \<open>The account of a scroll gesture: what has been posted, up to what is carried over.\<close>

definition account :: "gesture_env \<Rightarrow> lp_gesture \<Rightarrow> real \<Rightarrow> real \<Rightarrow> lp_gesture \<Rightarrow> bool" where
  "account E g0 sx sy g \<longleftrightarrow> scrolling g \<and>
     m_horizontalPixelsPerLine g = m_horizontalPixelsPerLine g0 \<and>
     m_verticalPixelsPerLine g = m_verticalPixelsPerLine g0 \<and>
     axis_total PointDeltaAxis2 g + px (m_scrollPartialPixel g) = axis_total PointDeltaAxis2 g0 + sx * ppmm \<and>
     axis_total PointDeltaAxis1 g + py (m_scrollPartialPixel g) = axis_total PointDeltaAxis1 g0 + sy * ppmm \<and>
     axis_total DeltaAxis2 g + px (m_scrollPartialLine g) =
       axis_total DeltaAxis2 g0 + sx * ppmm / m_horizontalPixelsPerLine g0 \<and>
     axis_total DeltaAxis1 g + py (m_scrollPartialLine g) =
       axis_total DeltaAxis1 g0 + sy * ppmm / m_verticalPixelsPerLine g0 \<and>
     \<bar>px (m_scrollPartialPixel g)\<bar> \<le> 1 / 2 \<and> \<bar>py (m_scrollPartialPixel g)\<bar> \<le> 1 / 2 \<and>
     0 \<le> px (m_scrollPartialLine g) \<and> px (m_scrollPartialLine g) < 1 \<and>
     0 \<le> py (m_scrollPartialLine g) \<and> py (m_scrollPartialLine g) < 1"

lemma account_step:
  assumes "account E g0 sx sy g" "ge_platform E = Apple"
  shows "account E g0 (if a_move dx dy then sx + dx else sx) (if a_move dx dy then sy + dy else sy)
           (snd (applyScroll_gesture E dx dy td g))"
proof -
  have s: "scrolling g" using assms(1) by (simp add: account_def)
  obtain go g1 where u: "update_momentum (dx * ppmm) (dy * ppmm) dx dy td g = (go, g1)"
    by (cases "update_momentum (dx * ppmm) (dy * ppmm) dx dy td g")
  note m = update_momentum_scrolling [OF s, of "dx * ppmm" "dy * ppmm" dx dy td, unfolded u, simplified]
  note f = update_momentum_frame [OF u]
  have t: "axis_total a g1 = axis_total a g" for a using m(4) by (simp add: axis_total_def)
  have e: "snd (applyScroll_gesture E dx dy td g) =
      (if a_move dx dy then emit_scroll E (dx * ppmm) (dy * ppmm) (dx * ppmm / m_horizontalPixelsPerLine g)
         (dy * ppmm / m_verticalPixelsPerLine g) td g1 else g1)"
    using s m by (simp add: applyScroll_gesture_def scrolling_def u Let_def)
  show ?thesis
  proof (cases "a_move dx dy")
    case False
    with assms(1) e m f t applyScroll_scrolling(2) [OF s, of E dx dy td] show ?thesis by (simp add: account_def)
  next
    case True
    note a = emit_scroll_apple [OF assms(2) refl, of "dx * ppmm" "dy * ppmm" "dx * ppmm / m_horizontalPixelsPerLine g"
        "dy * ppmm / m_verticalPixelsPerLine g" td g1]
    show ?thesis
      using assms(1) e True m f t a applyScroll_scrolling(2) [OF s, of E dx dy td]
      by (simp add: account_def add_divide_distrib distrib_right)
  qed
qed

section \<open>Momentum dies out\<close>

text \<open>A tick of the timer scales the momentum down, until it is less than a pixel and a half.\<close>

definition slow :: "LPPoint \<Rightarrow> bool" where
  "slow m \<longleftrightarrow> \<bar>px m * ppmm\<bar> < 15 / 10 \<and> \<bar>py m * ppmm\<bar> < 15 / 10"

lemma applyMomentum_fast:
  assumes "m_momentumPhase g \<noteq> MomentumPhaseUndefined" "\<not> slow (m_momentum g)"
  shows "\<exists>c. 0 \<le> c \<and> c \<le> 98 / 100 \<and>
    m_momentum (applyMomentum E g) = LPPoint (px (m_momentum g) * c) (py (m_momentum g) * c) \<and>
    m_momentumTimer (applyMomentum E g) = m_momentumTimer g \<and> m_phase (applyMomentum E g) =
      (if m_phase g = PhaseBegan then PhaseChanged else m_phase g) \<and>
    m_momentumPhase (applyMomentum E g) = next_momentum_phase (m_phase g) (m_momentumPhase g)"
  using assms
  by (auto simp: applyMomentum_def applyScroll_gesture_def update_momentum_def slow_def Let_def
      intro!: exI [of _ "if px (m_momentum g) > 4 / 10 \<or> py (m_momentum g) > 4 / 10 then 98 / 100 else 96 / 100"])

lemma applyMomentum_slow:
  assumes "slow (m_momentum g)" "m_phase g = PhaseUndefined"
    "m_momentumPhase g \<in> {MomentumPhaseBegan, MomentumPhaseChanged}"
  shows "m_momentumPhase (applyMomentum E g) = MomentumPhaseUndefined"
    and "m_momentumTimer (applyMomentum E g) =
      (if m_momentumPhase g = MomentumPhaseBegan then m_momentumTimer g else Stop (m_momentumTimer g))"
  using assms
  by (auto simp: applyMomentum_def applyScroll_gesture_def update_momentum_def slow_def Let_def
      reset_momentum_def next_momentum_phase_def)

end
