(* ===== verification/OS_Interaction.thy ===== *)
theory OS_Interaction
  imports Gesture_Device Touch_Injectors
begin

text \<open>
  The operating system driver: \<open>source/OSInteraction/OSInteraction.cpp\<close> and its classes for Windows,
  the Macintosh and Linux (most of whose methods are still empty). The virtual methods are selected
  by the platform. What the system answers (the cursor's position, key codes) is a parameter of each
  call, and what is sent to it is recorded.
\<close>

section \<open>State\<close>

abbreviation NUM_BUTTONS :: int where "NUM_BUTTONS \<equiv> 8"

abbreviation KEYEVENTF_EXTENDEDKEY :: u32 where "KEYEVENTF_EXTENDEDKEY \<equiv> 1"
abbreviation KEYEVENTF_KEYUP :: u32 where "KEYEVENTF_KEYUP \<equiv> 2"
abbreviation VK_TAB :: u16 where "VK_TAB \<equiv> 0x09"
abbreviation VK_CONTROL :: u16 where "VK_CONTROL \<equiv> 0x11"
abbreviation VK_LWIN :: u16 where "VK_LWIN \<equiv> 0x5B"

record key_input =
  ki_vk :: u16
  ki_flags :: u32

text \<open>
  Calls of \<open>SendInput\<close> (buttons, an absolute move over the virtual desk, a sequence of keys) and events
  posted on the Macintosh (buttons with their click count, moves with whether the button is held,
  keys).
\<close>

datatype os_input =
    MouseLeft bool
  | MouseMove int int
  | KeyInputs "key_input list"
  | CGMouseButton bool LPPoint int
  | CGMouseMove bool LPPoint
  | CGKey u16 bool

record 'd os_env = gesture_env +
  oe_cursor :: "LPPoint option"
  oe_vkKeyScan :: "char \<Rightarrow> u16"
  oe_keyCode :: "int \<Rightarrow> u16"
  oe_backend :: "'d touch_backend"
  oe_newManager :: "'d option"
  oe_managerVersion :: int

record 'd os_driver =
  o_virtualScreen :: LPVirtualScreen
  o_gesture :: lp_gesture
  m_movingCursor :: bool
  m_buttonDown :: bool
  m_clickedButtons :: "bool list"
  m_touchManager :: "'d touch_manager option"
  m_useCharmHelper :: bool
  o_sent :: "os_input list"

text \<open>The constructor leaves the buttons as they are in memory: they are its arguments.\<close>

definition OSInteractionDriver :: "bool \<Rightarrow> bool list \<Rightarrow> LPVirtualScreen \<Rightarrow> 'd os_driver" where
  "OSInteractionDriver buttonDown clickedButtons v =
     \<lparr>o_virtualScreen = v, o_gesture = LPGesture 0 0, m_movingCursor = False, m_buttonDown = buttonDown,
      m_clickedButtons = clickedButtons, m_touchManager = None, m_useCharmHelper = True, o_sent = []\<rparr>"

definition SendInput :: "os_input \<Rightarrow> 'd os_driver \<Rightarrow> 'd os_driver" where
  "SendInput i d = d\<lparr>o_sent := o_sent d @ [i]\<rparr>"

text \<open>\<open>TouchManager::New\<close>: the first back end that is supported.\<close>

datatype manager_class = Class_Win8 | Class_Win7Driver | Class_Win7Undocumented

definition TouchManager_New :: "platform \<Rightarrow> bool \<Rightarrow> bool \<Rightarrow> bool \<Rightarrow> manager_class option" where
  "TouchManager_New p win8 win7driver win7undocumented =
     (if p = Windows then
        (if win8 then Some Class_Win8 else if win7driver then Some Class_Win7Driver
         else if win7undocumented then Some Class_Win7Undocumented else None)
      else None)"

definition manager_Version :: "manager_class \<Rightarrow> int" where
  "manager_Version c = (case c of Class_Win8 \<Rightarrow> 8 | Class_Win7Driver \<Rightarrow> 7 | Class_Win7Undocumented \<Rightarrow> 7)"

definition initializeTouch :: "'d os_env \<Rightarrow> 'd os_driver \<Rightarrow> bool \<times> 'd os_driver" where
  "initializeTouch E d =
     (if ge_platform E = Windows
      then (oe_newManager E \<noteq> None, d\<lparr>m_touchManager := map_option (\<lambda>x. ([], x)) (oe_newManager E)\<rparr>)
      else (True, d))"

section \<open>Buttons\<close>

definition set_clicked :: "int \<Rightarrow> bool \<Rightarrow> 'd os_driver \<Rightarrow> 'd os_driver" where
  "set_clicked button b d =
     (if button \<ge> 0 \<and> button < NUM_BUTTONS
      then d\<lparr>m_clickedButtons := (m_clickedButtons d)[nat button := b]\<rparr> else d)"

definition isClickedDown :: "int \<Rightarrow> 'd os_driver \<Rightarrow> bool" where
  "isClickedDown button d =
     (if button \<ge> 0 \<and> button < NUM_BUTTONS then m_clickedButtons d ! nat button else False)"

definition click_number :: "int \<Rightarrow> int" where
  "click_number number = (if number < 1 then 1 else if number > 3 then 3 else number)"

definition win_clickDown :: "int \<Rightarrow> int \<Rightarrow> 'd os_driver \<Rightarrow> 'd os_driver" where
  "win_clickDown button number d = set_clicked button True (SendInput (MouseLeft True) d)"

definition mac_clickDown :: "int \<Rightarrow> int \<Rightarrow> 'd os_driver \<Rightarrow> 'd os_driver" where
  "mac_clickDown button number d =
     set_clicked button True
       ((SendInput (CGMouseButton True (vs_position (o_virtualScreen d)) (click_number number)) d)
          \<lparr>m_buttonDown := True\<rparr>)"

definition clickDown :: "'d os_env \<Rightarrow> int \<Rightarrow> int \<Rightarrow> 'd os_driver \<Rightarrow> 'd os_driver" where
  "clickDown E =
     (case ge_platform E of Windows \<Rightarrow> win_clickDown | Apple \<Rightarrow> mac_clickDown | Linux \<Rightarrow> (\<lambda>b n d. d))"

definition win_clickUp :: "int \<Rightarrow> int \<Rightarrow> 'd os_driver \<Rightarrow> 'd os_driver" where
  "win_clickUp button number d = SendInput (MouseLeft False) (set_clicked button False d)"

definition mac_clickUp :: "int \<Rightarrow> int \<Rightarrow> 'd os_driver \<Rightarrow> 'd os_driver" where
  "mac_clickUp button number d =
     (let d1 = set_clicked button False d in
      (SendInput (CGMouseButton False (vs_position (o_virtualScreen d1)) (click_number number)) d1)
        \<lparr>m_buttonDown := False\<rparr>)"

definition clickUp :: "'d os_env \<Rightarrow> int \<Rightarrow> int \<Rightarrow> 'd os_driver \<Rightarrow> 'd os_driver" where
  "clickUp E =
     (case ge_platform E of Windows \<Rightarrow> win_clickUp | Apple \<Rightarrow> mac_clickUp | Linux \<Rightarrow> (\<lambda>b n d. d))"

lemmas click_defs = clickDown_def win_clickDown_def mac_clickDown_def clickUp_def win_clickUp_def mac_clickUp_def

section \<open>The cursor\<close>

definition move_to :: "LPPoint \<Rightarrow> 'd os_driver \<Rightarrow> LPPoint \<times> 'd os_driver" where
  "move_to p d = (let (q, v) = SetPosition p (o_virtualScreen d) in (q, d\<lparr>o_virtualScreen := v\<rparr>))"

definition add_cursor :: "'d os_env \<Rightarrow> LPPoint \<Rightarrow> LPPoint" where
  "add_cursor E p = (case oe_cursor E of Some c \<Rightarrow> LPPoint (px p + px c) (py p + py c) | None \<Rightarrow> p)"

definition win_setCursorPosition :: "'d os_env \<Rightarrow> real \<Rightarrow> real \<Rightarrow> bool \<Rightarrow> 'd os_driver \<Rightarrow> 'd os_driver" where
  "win_setCursorPosition E fx fy absolute d =
     (let position = (if absolute then LPPoint (fx + 1 / 2) (fy + 1 / 2) else add_cursor E (LPPoint fx fy));
          (clipped, d1) = move_to position d;
          n = Normalize clipped False (o_virtualScreen d1)
      in SendInput (MouseMove (trunc (65535 * px n + 1 / 2)) (trunc (65535 * py n + 1 / 2))) d1)"

definition mac_setCursorPosition :: "'d os_env \<Rightarrow> real \<Rightarrow> real \<Rightarrow> bool \<Rightarrow> 'd os_driver \<Rightarrow> 'd os_driver" where
  "mac_setCursorPosition E fx fy absolute d =
     (let position = (if absolute then LPPoint fx fy else add_cursor E (LPPoint fx fy));
          (clipped, d1) = move_to position d
      in SendInput (CGMouseMove (m_buttonDown d1) clipped) d1)"

definition setCursorPosition :: "'d os_env \<Rightarrow> real \<Rightarrow> real \<Rightarrow> bool \<Rightarrow> 'd os_driver \<Rightarrow> 'd os_driver" where
  "setCursorPosition E =
     (case ge_platform E of Windows \<Rightarrow> win_setCursorPosition E | Apple \<Rightarrow> mac_setCursorPosition E
        | Linux \<Rightarrow> (\<lambda>x y a d. d))"

lemmas cursor_defs = setCursorPosition_def win_setCursorPosition_def mac_setCursorPosition_def

text \<open>A position that cannot be read counts as the origin on Windows; on the Macintosh it always can.\<close>

definition sync_to :: "LPPoint \<Rightarrow> 'd os_driver \<Rightarrow> 'd os_driver" where
  "sync_to position d =
     (let (p, d1) = move_to position d
      in d1\<lparr>o_gesture := setPosition_gesture (px p) (py p) (o_gesture d1)\<rparr>)"

definition win_syncPosition :: "'d os_env \<Rightarrow> 'd os_driver \<Rightarrow> 'd os_driver" where
  "win_syncPosition E d = sync_to (case oe_cursor E of Some c \<Rightarrow> c | None \<Rightarrow> LPPointZero) d"

definition mac_syncPosition :: "'d os_env \<Rightarrow> 'd os_driver \<Rightarrow> 'd os_driver" where
  "mac_syncPosition E d = sync_to (add_cursor E LPPointZero) d"

definition syncPosition :: "'d os_env \<Rightarrow> 'd os_driver \<Rightarrow> 'd os_driver" where
  "syncPosition E =
     (case ge_platform E of Windows \<Rightarrow> win_syncPosition E | Apple \<Rightarrow> mac_syncPosition E | Linux \<Rightarrow> id)"

section \<open>Gestures\<close>

definition with_gesture ::
  "(lp_gesture \<Rightarrow> bool \<times> lp_gesture) \<Rightarrow> 'd os_driver \<Rightarrow> bool \<times> 'd os_driver" where
  "with_gesture f d = (let (r, g) = f (o_gesture d) in (r, d\<lparr>o_gesture := g\<rparr>))"

definition os_beginGesture :: "'d os_env \<Rightarrow> u32 \<Rightarrow> 'd os_driver \<Rightarrow> bool \<times> 'd os_driver" where
  "os_beginGesture E t d = with_gesture (begin_gesture (gesture_env.truncate E) t) (syncPosition E d)"

definition os_endGesture :: "'d os_env \<Rightarrow> 'd os_driver \<Rightarrow> bool \<times> 'd os_driver" where
  "os_endGesture E d = with_gesture (end_gesture (gesture_env.truncate E)) (syncPosition E d)"

definition os_applyZoom :: "'d os_env \<Rightarrow> real \<Rightarrow> 'd os_driver \<Rightarrow> bool \<times> 'd os_driver" where
  "os_applyZoom E zoom d = with_gesture (applyZoom (gesture_env.truncate E) (zoom - 1)) (syncPosition E d)"

definition os_applyRotation :: "'d os_env \<Rightarrow> real \<Rightarrow> 'd os_driver \<Rightarrow> bool \<times> 'd os_driver" where
  "os_applyRotation E rotation d =
     with_gesture (applyRotation (gesture_env.truncate E) rotation) (syncPosition E d)"

definition os_applyScroll :: "'d os_env \<Rightarrow> real \<Rightarrow> real \<Rightarrow> int \<Rightarrow> 'd os_driver \<Rightarrow> bool \<times> 'd os_driver" where
  "os_applyScroll E dx dy timeDiff d =
     with_gesture (applyScroll_gesture (gesture_env.truncate E) dx dy timeDiff) (syncPosition E d)"

definition os_applyDesktopSwipe :: "'d os_env \<Rightarrow> real \<Rightarrow> real \<Rightarrow> 'd os_driver \<Rightarrow> bool \<times> 'd os_driver" where
  "os_applyDesktopSwipe E dx dy d =
     with_gesture (applyDesktopSwipe (gesture_env.truncate E) dx dy) (syncPosition E d)"

definition win_cancelGestureEvents :: "'d os_env \<Rightarrow> 'd os_driver \<Rightarrow> 'd os_driver" where
  "win_cancelGestureEvents E d =
     (let d1 = d\<lparr>m_movingCursor := False\<rparr>;
          d2 = d1\<lparr>m_touchManager := map_option (clearTouches (oe_backend E)) (m_touchManager d1)\<rparr>
      in snd (os_endGesture E d2))"

definition mac_cancelGestureEvents :: "'d os_env \<Rightarrow> 'd os_driver \<Rightarrow> 'd os_driver" where
  "mac_cancelGestureEvents E d = snd (os_endGesture E (d\<lparr>m_movingCursor := False\<rparr>))"

definition linux_cancelGestureEvents :: "'d os_env \<Rightarrow> 'd os_driver \<Rightarrow> 'd os_driver" where
  "linux_cancelGestureEvents E d = snd (os_endGesture E d)"

definition cancelGestureEvents :: "'d os_env \<Rightarrow> 'd os_driver \<Rightarrow> 'd os_driver" where
  "cancelGestureEvents E =
     (case ge_platform E of Windows \<Rightarrow> win_cancelGestureEvents E | Apple \<Rightarrow> mac_cancelGestureEvents E
        | Linux \<Rightarrow> linux_cancelGestureEvents E)"

section \<open>Touches\<close>

definition clip_touch :: "LPVirtualScreen \<Rightarrow> Touch \<Rightarrow> Touch" where
  "clip_touch v t = (let p = fst (ClipPosition (LPPoint (t_x t) (t_y t)) v) in setPos (px p) (py p) t)"

definition clip_touches :: "LPVirtualScreen \<Rightarrow> touches \<Rightarrow> touches" where
  "clip_touches v ts = fold (\<lambda>t. insert_touch (clip_touch v t)) ts []"

definition os_emitTouchEvent :: "'d os_env \<Rightarrow> touches \<Rightarrow> 'd os_driver \<Rightarrow> 'd os_driver" where
  "os_emitTouchEvent E evt d =
     (if ge_platform E = Windows
      then d\<lparr>m_touchManager :=
               map_option (setTouches (oe_backend E) (clip_touches (o_virtualScreen d) evt)) (m_touchManager d)\<rparr>
      else d)"

definition touchAvailable :: "'d os_env \<Rightarrow> 'd os_driver \<Rightarrow> bool" where
  "touchAvailable E d \<longleftrightarrow> ge_platform E = Windows \<and> m_touchManager d \<noteq> None"

definition touchVersion :: "'d os_env \<Rightarrow> 'd os_driver \<Rightarrow> int" where
  "touchVersion E d =
     (if ge_platform E = Windows then (if m_touchManager d \<noteq> None then oe_managerVersion E else 0) else 1)"

definition numTouchScreens :: "'d os_env \<Rightarrow> 'd os_driver \<Rightarrow> int" where
  "numTouchScreens E d =
     (if ge_platform E = Windows \<and> m_touchManager d \<noteq> None
      then int (length (m_activeScreens (o_virtualScreen d))) else 0)"

definition useCharmHelper :: "'d os_env \<Rightarrow> 'd os_driver \<Rightarrow> bool" where
  "useCharmHelper E d \<longleftrightarrow> ge_platform E = Windows \<and> m_useCharmHelper d"

section \<open>Keys\<close>

definition windowsKeyDown :: "u16 \<Rightarrow> key_input" where "windowsKeyDown key = \<lparr>ki_vk = key, ki_flags = 0\<rparr>"
definition windowsKeyUp :: "u16 \<Rightarrow> key_input" where
  "windowsKeyUp key = \<lparr>ki_vk = key, ki_flags = KEYEVENTF_KEYUP\<rparr>"

text \<open>The keys go down in order and up in the reverse order.\<close>

definition windowsKeyCombo :: "u16 list \<Rightarrow> 'd os_driver \<Rightarrow> 'd os_driver" where
  "windowsKeyCombo ks = SendInput (KeyInputs (map windowsKeyDown ks @ map windowsKeyUp (rev ks)))"

definition applyCharms :: "'d os_env \<Rightarrow> vec \<Rightarrow> int \<Rightarrow> int \<Rightarrow> 'd os_driver \<Rightarrow> int \<times> 'd os_driver" where
  "applyCharms E aspect numPointablesActive charmsMode d =
     (if ge_platform E \<noteq> Windows then (charmsMode, d)
      else if charmsMode = 0 \<and> numPointablesActive = 1 then
        (if vx aspect \<ge> 107 / 100 then (1, windowsKeyCombo [VK_LWIN, oe_vkKeyScan E CHR ''c''] d)
         else if vx aspect \<le> - 7 / 100 then (2, windowsKeyCombo [VK_LWIN, VK_CONTROL, VK_TAB] d)
         else if vy aspect \<le> - 7 / 100 then (3, windowsKeyCombo [VK_LWIN, oe_vkKeyScan E CHR ''z''] d)
         else (charmsMode, d))
      else if vx aspect \<ge> 5 / 100 \<and> vx aspect \<le> 95 / 100 \<and> vy aspect \<ge> 5 / 100 \<and> vy aspect \<le> 95 / 100
      then (0, d) else (charmsMode, d))"

definition key_event :: "int \<Rightarrow> bool \<Rightarrow> key_input" where
  "key_event key down =
     \<lparr>ki_vk = of_int key, ki_flags = (if down then KEYEVENTF_EXTENDEDKEY else KEYEVENTF_EXTENDEDKEY OR KEYEVENTF_KEYUP)\<rparr>"

definition emitKeyboardEvent :: "'d os_env \<Rightarrow> int \<Rightarrow> bool \<Rightarrow> 'd os_driver \<Rightarrow> 'd os_driver" where
  "emitKeyboardEvent E key down d =
     (case ge_platform E of
        Windows \<Rightarrow> SendInput (KeyInputs [key_event key down]) d
      | Apple \<Rightarrow> SendInput (CGKey (oe_keyCode E key) down) d
      | Linux \<Rightarrow> d)"

definition keyDown :: "'d os_env \<Rightarrow> int \<Rightarrow> 'd os_driver \<Rightarrow> 'd os_driver" where
  "keyDown E code = emitKeyboardEvent E code True"

definition keyUp :: "'d os_env \<Rightarrow> int \<Rightarrow> 'd os_driver \<Rightarrow> 'd os_driver" where
  "keyUp E code = emitKeyboardEvent E code False"

definition emitKeyboardEvents :: "'d os_env \<Rightarrow> int list \<Rightarrow> bool \<Rightarrow> 'd os_driver \<Rightarrow> 'd os_driver" where
  "emitKeyboardEvents E keys down d =
     (if ge_platform E = Windows \<and> keys \<noteq> []
      then SendInput (KeyInputs (map (\<lambda>k. key_event k down) keys)) d else d)"

definition useDefaultScreen :: "bool \<Rightarrow> LPScreen list \<Rightarrow> 'd os_driver \<Rightarrow> 'd os_driver" where
  "useDefaultScreen use screens d = d\<lparr>o_virtualScreen := UseDefaultScreen use screens (o_virtualScreen d)\<rparr>"

section \<open>Performing what a mode asks for\<close>

text \<open>
  The manager forwards each request of a mode to the driver. The result of a gesture call is whether
  the device accepted it; the requests for the overlay do not reach this driver.
\<close>

definition os_act :: "'d os_env \<Rightarrow> action \<Rightarrow> 'd os_driver \<Rightarrow> bool \<times> 'd os_driver" where
  "os_act E a d =
     (case a of
        SetCursorPosition x y absolute \<Rightarrow> (True, setCursorPosition E x y absolute d)
      | ClickDown b n \<Rightarrow> (True, clickDown E b n d)
      | ClickUp b n \<Rightarrow> (True, clickUp E b n d)
      | BeginGesture t \<Rightarrow> os_beginGesture E t d
      | EndGesture \<Rightarrow> os_endGesture E d
      | ApplyZoom z \<Rightarrow> os_applyZoom E z d
      | ApplyRotation r \<Rightarrow> os_applyRotation E r d
      | ApplyScroll dx dy t \<Rightarrow> os_applyScroll E dx dy t d
      | ApplyDesktopSwipe dx dy \<Rightarrow> os_applyDesktopSwipe E dx dy d
      | ApplyCharms v n c \<Rightarrow> (True, snd (applyCharms E v n c d))
      | EmitTouchEvent ts \<Rightarrow> (True, os_emitTouchEvent E ts d)
      | _ \<Rightarrow> (True, d))"

text \<open>
  A scroll that does not move is not carried out, which the device reports as a refusal. A sequence of
  requests is accepted when these scrolls are refused and nothing else is.
\<close>

definition idle_scroll :: "action \<Rightarrow> bool" where
  "idle_scroll a \<longleftrightarrow> (case a of ApplyScroll dx dy t \<Rightarrow> \<not> a_move dx dy | _ \<Rightarrow> False)"

fun os_run :: "('d os_env \<times> action) list \<Rightarrow> 'd os_driver \<Rightarrow> bool \<times> 'd os_driver" where
  "os_run [] d = (True, d)"
| "os_run ((E, a) # as) d =
     (let (r, d1) = os_act E a d; (rs, d2) = os_run as d1 in ((r \<longleftrightarrow> \<not> idle_scroll a) \<and> rs, d2))"

definition legal_gesture :: "action \<Rightarrow> bool" where
  "legal_gesture a \<longleftrightarrow> (case a of BeginGesture t \<Rightarrow> gesture_kind t | _ \<Rightarrow> True)"

section \<open>The device follows the mode's gestures\<close>

lemma move_to_frame [simp]:
  "o_gesture (snd (move_to p d)) = o_gesture d" "m_buttonDown (snd (move_to p d)) = m_buttonDown d"
  "m_clickedButtons (snd (move_to p d)) = m_clickedButtons d" "o_sent (snd (move_to p d)) = o_sent d"
  "m_touchManager (snd (move_to p d)) = m_touchManager d"
  by (simp_all add: move_to_def split: prod.split)

lemma syncPosition_frame [simp]:
  "m_type (o_gesture (syncPosition E d)) = m_type (o_gesture d)"
  "g_inv (o_gesture (syncPosition E d)) = g_inv (o_gesture d)"
  "m_buttonDown (syncPosition E d) = m_buttonDown d"
  "m_clickedButtons (syncPosition E d) = m_clickedButtons d" "o_sent (syncPosition E d) = o_sent d"
  "m_touchManager (syncPosition E d) = m_touchManager d"
  by (cases "ge_platform E"; simp add: syncPosition_def win_syncPosition_def mac_syncPosition_def sync_to_def
      Let_def split_beta setPosition_gesture_def g_inv_def)+

lemma with_gesture_parts [simp]:
  "fst (with_gesture f d) = fst (f (o_gesture d))"
  "o_gesture (snd (with_gesture f d)) = snd (f (o_gesture d))"
  "m_buttonDown (snd (with_gesture f d)) = m_buttonDown d"
  "m_clickedButtons (snd (with_gesture f d)) = m_clickedButtons d"
  "o_sent (snd (with_gesture f d)) = o_sent d" "m_touchManager (snd (with_gesture f d)) = m_touchManager d"
  by (simp_all add: with_gesture_def split: prod.split)

lemma quiet_gesture [simp]:
  "o_gesture (SendInput i d) = o_gesture d" "o_gesture (set_clicked b w d) = o_gesture d"
  "o_gesture (clickDown E b n d) = o_gesture d" "o_gesture (clickUp E b n d) = o_gesture d"
  "o_gesture (setCursorPosition E x y absolute d) = o_gesture d"
  "o_gesture (snd (applyCharms E v n c d)) = o_gesture d" "o_gesture (os_emitTouchEvent E ts d) = o_gesture d"
proof -
  show s: "o_gesture (SendInput i d) = o_gesture d" for i and d :: "'a os_driver" by (simp add: SendInput_def)
  show k: "o_gesture (set_clicked b w d) = o_gesture d" for b w and d :: "'a os_driver"
    by (simp add: set_clicked_def)
  show "o_gesture (clickDown E b n d) = o_gesture d" "o_gesture (clickUp E b n d) = o_gesture d"
    by (cases "ge_platform E"; simp add: click_defs s k Let_def)+
  show "o_gesture (setCursorPosition E x y absolute d) = o_gesture d"
    by (cases "ge_platform E") (simp_all add: cursor_defs s Let_def split_beta)
  show "o_gesture (snd (applyCharms E v n c d)) = o_gesture d"
    by (simp add: applyCharms_def windowsKeyCombo_def s)
  show "o_gesture (os_emitTouchEvent E ts d) = o_gesture d" by (simp add: os_emitTouchEvent_def)
qed

lemma applyScroll_type: "m_type (snd (applyScroll_gesture E dx dy td g)) = m_type g"
  by (cases "applyScroll_gesture E dx dy td g") (simp add: applyScroll_frame(1))

lemma os_act_gesture:
  assumes "g_inv (o_gesture d)" "legal_gesture a" "gesture_step a (Some (m_type (o_gesture d))) = Some t"
  shows "g_inv (o_gesture (snd (os_act E a d))) \<and> m_type (o_gesture (snd (os_act E a d))) = t \<and>
    (fst (os_act E a d) \<longleftrightarrow> \<not> idle_scroll a)"
proof (cases a)
  case (BeginGesture k)
  with assms begin_gesture_result [of "o_gesture (syncPosition E d)" "gesture_env.truncate E" k] show ?thesis
    by (auto simp: os_act_def os_beginGesture_def legal_gesture_def gesture_step_def idle_scroll_def split: if_splits)
next
  case EndGesture
  with assms end_gesture_result [of "o_gesture (syncPosition E d)" "gesture_env.truncate E"] show ?thesis
    by (auto simp: os_act_def os_endGesture_def gesture_step_def idle_scroll_def split: if_splits)
next
  case (ApplyScroll dx dy td)
  have "g_inv (snd (applyScroll_gesture (gesture_env.truncate E) dx dy td (o_gesture (syncPosition E d))))"
    using g_inv_applyScroll [of "o_gesture (syncPosition E d)"] assms(1) by (metis prod.collapse syncPosition_frame(2))
  moreover have "fst (applyScroll_gesture (gesture_env.truncate E) dx dy td (o_gesture (syncPosition E d))) \<longleftrightarrow>
      a_move dx dy"
  proof -
    from assms(3) ApplyScroll have "m_type (o_gesture d) = GestureScroll"
      by (simp add: gesture_step_def split: if_splits)
    then have "scrolling (o_gesture (syncPosition E d))"
      using g_inv_scrolling [of "o_gesture (syncPosition E d)"] assms(1) by simp
    then show ?thesis by (rule applyScroll_scrolling(1))
  qed
  ultimately show ?thesis using ApplyScroll assms
    by (auto simp: os_act_def os_applyScroll_def gesture_step_def applyScroll_type idle_scroll_def split: if_splits)
qed (use assms in \<open>auto simp: idle_scroll_def os_act_def os_applyZoom_def os_applyRotation_def os_applyDesktopSwipe_def
    g_inv_phase_changed g_inv_post g_inv_dock_swipe gesture_step_def applyZoom_def
    applyRotation_def applyDesktopSwipe_def split: if_splits\<close>)

lemma gesture_step_None [simp]: "gesture_step a None = None"
  by (simp add: gesture_step_def)

lemma gestures_None [simp]: "gestures as None = None"
  by (induction as) simp_all

lemma os_run_gestures:
  assumes "g_inv (o_gesture d)" "list_all (\<lambda>p. legal_gesture (snd p)) eas"
    "gestures (map snd eas) (Some (m_type (o_gesture d))) = Some t"
  shows "fst (os_run eas d) \<and> g_inv (o_gesture (snd (os_run eas d))) \<and> m_type (o_gesture (snd (os_run eas d))) = t"
  using assms
proof (induction eas d rule: os_run.induct)
  case (2 E a as d)
  obtain u where u: "gesture_step a (Some (m_type (o_gesture d))) = Some u"
    using 2(4) by (cases "gesture_step a (Some (m_type (o_gesture d)))") simp_all
  obtain r d1 where d1: "os_act E a d = (r, d1)" by (cases "os_act E a d")
  from 2(2,3) u have "g_inv (o_gesture d1) \<and> m_type (o_gesture d1) = u \<and> (r \<longleftrightarrow> \<not> idle_scroll a)"
    using os_act_gesture [of d a u E] d1 by simp
  with 2(1) [OF d1 [symmetric]] 2(3,4) u d1 show ?case by (simp add: Let_def split: prod.split)
qed simp

section \<open>The mouse the system sees\<close>

text \<open>
  The system's view of the left button: it goes down only when up and up only when down, and on the
  Macintosh a move is reported as a drag exactly while it is down.
\<close>

definition mouse_step :: "os_input \<Rightarrow> bool option \<Rightarrow> bool option" where
  "mouse_step i s =
     (case s of None \<Rightarrow> None | Some down \<Rightarrow>
        (case i of
           MouseLeft b \<Rightarrow> if b = down then None else Some b
         | CGMouseButton b p n \<Rightarrow> if b = down then None else Some b
         | CGMouseMove held p \<Rightarrow> if held = down then Some down else None
         | _ \<Rightarrow> Some down))"

definition mouse :: "os_input list \<Rightarrow> bool option \<Rightarrow> bool option" where
  "mouse is s = fold mouse_step is s"

lemma mouse_simps [simp]:
  "mouse [] s = s" "mouse (i # is) s = mouse is (mouse_step i s)"
  "mouse (is @ js) s = mouse js (mouse is s)"
  by (simp_all add: mouse_def)

lemma set_clicked_frame [simp]:
  "o_sent (set_clicked b w d) = o_sent d" "m_buttonDown (set_clicked b w d) = m_buttonDown d"
  "o_virtualScreen (set_clicked b w d) = o_virtualScreen d"
  by (simp_all add: set_clicked_def)

lemma SendInput_frame [simp]:
  "o_sent (SendInput i d) = o_sent d @ [i]" "m_buttonDown (SendInput i d) = m_buttonDown d"
  by (simp_all add: SendInput_def)

definition mouse_agrees :: "platform \<Rightarrow> bool \<Rightarrow> 'd os_driver \<Rightarrow> bool" where
  "mouse_agrees P down d \<longleftrightarrow> mouse (o_sent d) (Some False) = Some down \<and> (P = Apple \<longrightarrow> m_buttonDown d = down)"

lemma os_act_quiet:
  "\<not> is_button a \<Longrightarrow> \<not> (\<exists>x y r. a = SetCursorPosition x y r) \<Longrightarrow>
   mouse (o_sent (snd (os_act E a d))) s = mouse (o_sent d) s \<and> m_buttonDown (snd (os_act E a d)) = m_buttonDown d"
  by (cases a) (auto simp: os_act_def os_beginGesture_def os_endGesture_def os_applyZoom_def os_applyRotation_def
      os_applyScroll_def os_applyDesktopSwipe_def os_emitTouchEvent_def applyCharms_def windowsKeyCombo_def
      mouse_step_def split: option.split)

lemma os_act_mouse:
  assumes "ge_platform E = P" "P \<noteq> Linux" "mouse_agrees P b d" "button_step a (Some b) = Some b'"
  shows "mouse_agrees P b' (snd (os_act E a d))"
proof (cases "is_button a \<or> (\<exists>x y r. a = SetCursorPosition x y r)")
  case True
  with assms show ?thesis
    by (cases a; cases P)
      (auto simp: os_act_def click_defs cursor_defs mouse_agrees_def mouse_step_def
        button_step_def Let_def split_beta split: if_splits)
next
  case False
  with assms os_act_quiet [of a E d "Some False"] button_step_quiet [of a "Some b"] show ?thesis
    by (auto simp: mouse_agrees_def)
qed

lemma button_step_None [simp]: "button_step a None = None"
  by (simp add: button_step_def)

lemma buttons_None [simp]: "buttons as None = None"
  by (induction as) simp_all

lemma os_run_mouse:
  assumes "P \<noteq> Linux" "list_all (\<lambda>p. ge_platform (fst p) = P) eas" "mouse_agrees P b d"
    "buttons (map snd eas) (Some b) = Some b'"
  shows "mouse_agrees P b' (snd (os_run eas d))"
  using assms(2-)
proof (induction eas d arbitrary: b rule: os_run.induct)
  case (2 E a as d)
  obtain c where c: "button_step a (Some b) = Some c"
    using 2(4) by (cases "button_step a (Some b)") simp_all
  obtain r d1 where d1: "os_act E a d = (r, d1)" by (cases "os_act E a d")
  have "mouse_agrees P c d1"
    using os_act_mouse [OF _ assms(1) 2(3) c, of E] 2(2) d1 by simp
  with 2(1) [OF d1 [symmetric]] 2(2,4) c d1 show ?case by (simp add: Let_def split_beta)
qed simp

section \<open>Positions stay on the screens\<close>

text \<open>A virtual screen as \<open>Update\<close> leaves it.\<close>

definition vs_built :: "LPVirtualScreen \<Rightarrow> bool" where
  "vs_built v \<longleftrightarrow> m_detectedBounds v = ComputeBounds (m_detectedScreens v) \<and>
     set (m_activeScreens v) \<subseteq> set (m_detectedScreens v)"

lemma vs_built_LPVirtualScreen: "vs_built (LPVirtualScreen screens)"
  by (simp add: vs_built_def LPVirtualScreen_def Update_def Let_def active_screens_subset)

lemma vs_built_UseDefaultScreen: "vs_built v \<Longrightarrow> vs_built (UseDefaultScreen use screens v)"
  by (simp add: vs_built_def UseDefaultScreen_def Update_def Let_def active_screens_subset)

lemma SetPosition_parts:
  assumes "SetPosition p v = (q, v')"
  shows "q = fst (ClipPosition p v)" "Bounds a v' = Bounds a v" "vs_ok v' = vs_ok v" "vs_built v' = vs_built v"
  using assms by (auto simp: SetPosition_def Bounds_def vs_ok_def vs_built_def split: prod.splits)

lemma on_screen_in_bounds:
  assumes "vs_built v" "on_screen v p"
  shows "LPRectContainsPoint (m_detectedBounds v) p"
  using assms by (auto simp: vs_built_def on_screen_def list_ex_iff intro: ComputeBounds_contains)

lemma Normalize_in_unit:
  assumes "LPRectContainsPoint (Bounds a v) p"
  shows "0 \<le> px (Normalize p a v)" "px (Normalize p a v) < 1" "0 \<le> py (Normalize p a v)" "py (Normalize p a v) < 1"
  using assms
  by (auto simp: Normalize_def LPRectContainsPoint_def LPRectGetMinX_def LPRectGetMinY_def LPRectGetMaxX_def
      LPRectGetMaxY_def Let_def divide_simps)

lemma trunc_range: "0 \<le> x \<Longrightarrow> x < 1 \<Longrightarrow> 0 \<le> trunc (65535 * x + 1 / 2) \<and> trunc (65535 * x + 1 / 2) \<le> 65535"
  unfolding trunc_def by (auto; linarith)

text \<open>A set of touches is clipped point by point; ids and order stay.\<close>

lemma clip_touch_id [simp]: "t_id (clip_touch v t) = t_id t" "t_touching (clip_touch v t) = t_touching t"
  by (simp_all add: clip_touch_def Let_def setPos_def)

lemma insert_touch_last:
  "\<forall>s\<in>set ts. t_id s < t_id t \<Longrightarrow> insert_touch t ts = ts @ [t]"
  by (induction ts) auto

lemma clip_touches_map:
  assumes "touches_ok ts"
  shows "clip_touches v ts = map (clip_touch v) ts"
proof -
  have "fold (\<lambda>t. insert_touch (clip_touch v t)) ts acc = acc @ map (clip_touch v) ts"
    if "\<forall>s\<in>set acc. \<forall>t\<in>set ts. t_id s < t_id t" for acc
    using assms that
  proof (induction ts arbitrary: acc)
    case (Cons t ts)
    from Cons.prems have "insert_touch (clip_touch v t) acc = acc @ [clip_touch v t]"
      by (intro insert_touch_last) auto
    with Cons show ?case by auto
  qed simp
  then show ?thesis by (simp add: clip_touches_def)
qed

lemma clip_touch_on_screen:
  "vs_ok v \<Longrightarrow> on_screen v (LPPoint (t_x (clip_touch v t)) (t_y (clip_touch v t)))"
  using ClipPosition_on_screen [of v "LPPoint (t_x t) (t_y t)"] by (simp add: clip_touch_def Let_def setPos_def)

end
