(* ===== verification/Device_Properties.thy ===== *)
theory Device_Properties
  imports OS_Interaction Utility_Properties
begin

text \<open>
  What the timer, the gesture synthesiser and the operating system driver promise, alone and together.
\<close>

section \<open>The timer\<close>

text \<open>
  C36 A stopped timer comes to rest. However the operations and the timer's thread interleave, once the
  timer is stopped, and until it is started again, the only call that can begin is the one that the
  thread had already copied when the lock was released; if it had copied none, none begins. The
  calls begun so far and the one copied are together what they were at the stop, whatever else is
  done to the timer, and the timer stays stopped.
\<close>

theorem timer_stop_silences:
  assumes "hb_run (Stop b) es b'" "OpStart \<notin> set es"
  shows "hb_calls b' @ pending b' = hb_calls b @ pending b \<and> length (pending b) \<le> 1 \<and>
    m_vigilance b' \<le> Active"
proof -
  have "silent (hb_calls b @ pending b) (Stop b)" by (auto simp: silent_def pending_def Stop_def)
  from hb_run_invariant [where P = "silent (hb_calls b @ pending b)", OF assms(1) this]
  have "silent (hb_calls b @ pending b) b'"
    using assms(2) silent_step by metis
  moreover have "length (pending b) \<le> 1" by (simp add: pending_def split: thread_pc.split)
  ultimately show ?thesis unfolding silent_def not_less by blast
qed

text \<open>The thread has copied the callback when the timer is stopped; its call begins, and no other.\<close>

theorem timer_stop_silences_witness:
  "\<exists>b'. hb_run (Stop \<lparr>m_Callback = Some (5::nat), m_Timeout = 8, m_vigilance = Running,
        hb_pc = Copied (Some 5), hb_calls = []\<rparr>) [OpRestart, Tick, Tick] b' \<and>
      hb_calls b' @ pending b' = [Some 5] \<and> m_vigilance b' \<le> Active"
proof -
  let ?b = "\<lparr>m_Callback = Some (5::nat), m_Timeout = 8, m_vigilance = Running,
        hb_pc = Copied (Some 5), hb_calls = []\<rparr>"
  have r0: "hb_run (Stop ?b) ([] @ [OpRestart]) (Stop ?b)"
    by (rule hb_run.snoc [OF hb_run.nil]) (simp add: hb_defs)
  have r1: "hb_run (Stop ?b) (([] @ [OpRestart]) @ [Tick])
      ((Stop ?b)\<lparr>hb_pc := Calling (Some 5), hb_calls := [Some 5]\<rparr>)"
    by (rule hb_run.snoc [OF r0]) (simp add: hb_defs)
  have r2: "hb_run (Stop ?b) ((([] @ [OpRestart]) @ [Tick]) @ [Tick])
      ((Stop ?b)\<lparr>hb_pc := AwaitActivity, hb_calls := [Some 5]\<rparr>)"
    by (rule hb_run.snoc [OF r1]) (simp add: hb_defs)
  from timer_stop_silences [OF r2] have "m_vigilance ((Stop ?b)\<lparr>hb_pc := AwaitActivity, hb_calls := [Some 5]\<rparr>) \<le> Active \<and>
    hb_calls ((Stop ?b)\<lparr>hb_pc := AwaitActivity, hb_calls := [Some 5]\<rparr>) @
    pending ((Stop ?b)\<lparr>hb_pc := AwaitActivity, hb_calls := [Some 5]\<rparr>) = [Some 5]"
    by (simp add: pending_def)
  with r2 show ?thesis by auto
qed

text \<open>
  C35 Destroying the timer ends. Once the destructor has set the state, no step of any thread undoes it;
  the timer's thread is never blocked again and returns after at most two of its own steps, so the
  destructor's join returns.
\<close>

theorem timer_destroy_joins:
  assumes "hb_run (terminate b) es b'"
  shows "(length (filter ((=) Tick) es) \<ge> 2 \<longrightarrow> joined b') \<and> (thread_step b' = None \<longrightarrow> joined b')"
proof -
  have t: "m_vigilance (terminate b) = Terminated" by (simp add: terminate_def)
  from terminated_run [OF assms t] steps_bounded [of "terminate b"] steps_joined [of b']
    terminated_never_blocked [of b']
  show ?thesis by auto
qed

theorem timer_destroy_joins_witness:
  "\<exists>b'. hb_run (terminate (snd (Start (Heartbeat 8 (Some ()))))) [Tick] b' \<and> joined b'"
proof -
  let ?b = "terminate (snd (Start (Heartbeat 8 (Some ()))))"
  have r: "hb_run ?b ([] @ [Tick]) (?b\<lparr>hb_pc := Returned\<rparr>)"
    by (rule hb_run.snoc [OF hb_run.nil]) (simp add: hb_defs Heartbeat_def)
  have "thread_step (?b\<lparr>hb_pc := Returned\<rparr>) = None" by (simp add: thread_step_def)
  with timer_destroy_joins [OF r] r show ?thesis by auto
qed

text \<open>
  A restart does not call back. The header documents that \<open>Restart\<close> invokes the callback at once;
  the thread it wakes up waits a whole period again, and has made no call.
\<close>

theorem timer_restart_waits:
  assumes "hb_pc b = AwaitPulse" "m_vigilance b = Running" "m_Callback b = Some c"
  shows "fst (Restart b) \<and> thread_step (snd (Restart b)) = Some b"
  using assms by (cases b) (simp add: Restart_def thread_step_def await_pulse_def Let_def)

theorem timer_restart_waits_witness:
  "thread_step (snd (Restart \<lparr>m_Callback = Some (5::nat), m_Timeout = 8, m_vigilance = Running,
      hb_pc = AwaitPulse, hb_calls = []\<rparr>)) =
   Some \<lparr>m_Callback = Some 5, m_Timeout = 8, m_vigilance = Running, hb_pc = AwaitPulse, hb_calls = []\<rparr>"
  by (rule timer_restart_waits [THEN conjunct2]) simp_all

section \<open>The gesture device\<close>

text \<open>
  C29 The device accepts every gesture call of a well-behaved mode. If the requests bracket their
  gestures and begin known kinds only, every call is accepted, each scroll that moves included, and
  the device's gesture is the one in progress. The calls that are refused are exactly the scrolls
  that do not move (no more than a ten-millionth in either direction).
\<close>

theorem gestures_accepted:
  assumes "g_inv (o_gesture d)" "list_all (\<lambda>p. legal_gesture (snd p)) eas"
    "gestures (map snd eas) (Some (m_type (o_gesture d))) = Some t"
  shows "fst (os_run eas d) \<and> m_type (o_gesture (snd (os_run eas d))) = t"
  using os_run_gestures [OF assms] by simp

definition mac_env :: "unit os_env" where
  "mac_env = \<lparr>ge_platform = Apple, ge_EventTypeGesture = 29, ge_wheelChars = None, ge_wheelLines = None,
     oe_cursor = Some (LPPoint 5 5), oe_vkKeyScan = (\<lambda>c. 0), oe_keyCode = (\<lambda>k. 0),
     oe_backend = \<lparr>AddTouch = (\<lambda>t d. d), UpdateTouch = (\<lambda>s t d. d), RemoveTouch = (\<lambda>t d. d),
       FinishFrame = id, OnRemoveAllTouches = id\<rparr>, oe_newManager = None, oe_managerVersion = 0\<rparr>"

definition fresh_driver :: "unit os_driver" where
  "fresh_driver = OSInteractionDriver False (replicate 8 False) two_screens"

theorem gestures_accepted_witness:
  "fst (os_run (map (Pair mac_env) [BeginGesture GestureZoom, ApplyZoom 2, EndGesture,
      BeginGesture GestureScroll, ApplyScroll 3 0 8000, ApplyScroll 0 0 8000, EndGesture]) fresh_driver)"
  using gestures_accepted [of fresh_driver "map (Pair mac_env) [BeginGesture GestureZoom, ApplyZoom 2, EndGesture,
      BeginGesture GestureScroll, ApplyScroll 3 0 8000, ApplyScroll 0 0 8000, EndGesture]" GestureNone]
  by (simp add: fresh_driver_def OSInteractionDriver_def g_inv_new legal_gesture_def gesture_kind_def
      gesture_step_def LPGesture_def [of 0 0, THEN arg_cong [of _ _ m_type]])

definition scroll_path :: "(real \<times> real \<times> int) list \<Rightarrow> real \<times> real" where
  "scroll_path ms = (sum_list (map (\<lambda>(dx, dy, t). if a_move dx dy then dx else 0) ms),
                     sum_list (map (\<lambda>(dx, dy, t). if a_move dx dy then dy else 0) ms))"

definition run_scroll :: "gesture_env \<Rightarrow> (real \<times> real \<times> int) list \<Rightarrow> lp_gesture \<Rightarrow> lp_gesture" where
  "run_scroll E ms g = fold (\<lambda>(dx, dy, t) g. snd (applyScroll_gesture E dx dy t g)) ms g"

lemma run_scroll_account:
  "ge_platform E = Apple \<Longrightarrow> account E g 0 0 g \<Longrightarrow>
   account E g (fst (scroll_path ms)) (snd (scroll_path ms)) (run_scroll E ms g)"
proof (induction ms rule: rev_induct)
  case (snoc m ms)
  obtain dx dy t where m: "m = (dx, dy, t)" by (cases m)
  have "account E g (fst (scroll_path ms)) (snd (scroll_path ms)) (run_scroll E ms g)"
    by (rule snoc.IH [OF snoc.prems])
  from account_step [OF this snoc.prems(1), of dx dy t] show ?case
    by (cases "a_move dx dy") (simp_all add: m scroll_path_def run_scroll_def)
qed (simp add: scroll_path_def run_scroll_def)

text \<open>
  C31 Scrolling never drifts. From the beginning of a scroll gesture on the Macintosh, after any moves,
  the pixels posted are those of the hand's whole path to within half a pixel, and the lines those of
  the path to within one line, however the path is cut into moves. Only moves too small to be told from
  none are dropped.
\<close>

theorem scroll_never_drifts:
  assumes "ge_platform E = Apple" "g_inv g" "m_type g = GestureNone"
  defines "b \<equiv> snd (begin_gesture E GestureScroll g)"
  shows "\<bar>axis_total PointDeltaAxis2 (run_scroll E ms b) - axis_total PointDeltaAxis2 b
            - fst (scroll_path ms) * ppmm\<bar> \<le> 1 / 2 \<and>
    \<bar>axis_total PointDeltaAxis1 (run_scroll E ms b) - axis_total PointDeltaAxis1 b
            - snd (scroll_path ms) * ppmm\<bar> \<le> 1 / 2 \<and>
    \<bar>axis_total DeltaAxis2 (run_scroll E ms b) - axis_total DeltaAxis2 b
            - fst (scroll_path ms) * ppmm / 10\<bar> < 1 \<and>
    \<bar>axis_total DeltaAxis1 (run_scroll E ms b) - axis_total DeltaAxis1 b
            - snd (scroll_path ms) * ppmm / 10\<bar> < 1"
proof -
  have r: "fst (begin_gesture E GestureScroll g)"
    using begin_gesture_result(1) [OF assms(2), of E GestureScroll] assms(3) by (simp add: gesture_kind_def)
  have b: "m_horizontalPixelsPerLine b = 10" "m_verticalPixelsPerLine b = 10"
    "m_scrollPartialPixel b = LPPointZero" "m_scrollPartialLine b = LPPointZero" "m_phase b = PhaseBegan"
    "m_momentumPhase b = MomentumPhaseUndefined" "m_type b = GestureScroll"
    using assms(1,3) by (simp_all add: b_def begin_gesture_def begun_def Let_def getEventTypeFromGestureType_def)
  then have "account E b 0 0 b" by (simp add: account_def scrolling_def)
  from run_scroll_account [OF assms(1) this, of ms]
  show ?thesis unfolding account_def b abs_le_iff abs_less_iff by (elim conjE, intro conjI; linarith)
qed

theorem scroll_never_drifts_witness:
  "\<bar>axis_total PointDeltaAxis2 (run_scroll (gesture_env.truncate mac_env) [(1 / 3, 0, 100), (1 / 3, 0, 100)]
      (snd (begin_gesture (gesture_env.truncate mac_env) GestureScroll (LPGesture 0 0))))
    - axis_total PointDeltaAxis2 (snd (begin_gesture (gesture_env.truncate mac_env) GestureScroll (LPGesture 0 0)))
    - 2 / 3 * ppmm\<bar> \<le> 1 / 2"
proof -
  have "ge_platform (gesture_env.truncate mac_env) = Apple" "m_type (LPGesture 0 0) = GestureNone"
    by (simp_all add: mac_env_def gesture_env.defs LPGesture_def)
  from scroll_never_drifts [OF this(1) g_inv_new this(2), of "[(1 / 3, 0, 100), (1 / 3, 0, 100)]", THEN conjunct1]
  show ?thesis by (simp add: scroll_path_def a_move_def)
qed

definition ticks :: "gesture_env \<Rightarrow> nat \<Rightarrow> lp_gesture \<Rightarrow> lp_gesture" where
  "ticks E n g = (applyMomentum E ^^ n) g"

lemma ticks_simps [simp]: "ticks E 0 g = g" "ticks E (Suc n) g = applyMomentum E (ticks E n g)"
  by (simp_all add: ticks_def)

definition gliding :: "lp_gesture \<Rightarrow> bool" where
  "gliding g \<longleftrightarrow> m_phase g = PhaseUndefined \<and> m_momentumPhase g \<in> {MomentumPhaseBegan, MomentumPhaseChanged}"

lemma ticks_glide:
  assumes "gliding g" "\<forall>k<n. gliding (ticks E k g) \<and> \<not> slow (m_momentum (ticks E k g))"
  shows "gliding (ticks E n g) \<and> (\<exists>c. 0 \<le> c \<and> c \<le> (98 / 100) ^ n \<and>
    m_momentum (ticks E n g) = LPPoint (px (m_momentum g) * c) (py (m_momentum g) * c))"
  using assms(2)
proof (induction n)
  case 0
  then show ?case using assms(1) by (auto intro: exI [of _ 1])
next
  case (Suc n)
  then obtain c where c: "0 \<le> c" "c \<le> (98 / 100) ^ n" "gliding (ticks E n g)"
    "m_momentum (ticks E n g) = LPPoint (px (m_momentum g) * c) (py (m_momentum g) * c)" by auto
  moreover have "\<not> slow (m_momentum (ticks E n g))" using Suc.prems by simp
  ultimately obtain e where e: "0 \<le> e" "e \<le> 98 / 100"
    "m_momentum (applyMomentum E (ticks E n g)) = LPPoint (px (m_momentum (ticks E n g)) * e) (py (m_momentum (ticks E n g)) * e)"
    "gliding (applyMomentum E (ticks E n g))"
    using applyMomentum_fast [of "ticks E n g" E] by (auto simp: gliding_def next_momentum_phase_def)
  have "c * e \<le> (98 / 100) ^ n * (98 / 100)" using c(1,2) e(1,2) by (intro mult_mono) simp_all
  with c e show ?case by (auto intro!: exI [of _ "c * e"])
qed

lemma eventually_slow: "\<exists>n. \<forall>c. 0 \<le> c \<longrightarrow> c \<le> (98 / 100) ^ n \<longrightarrow> slow (LPPoint (px m * c) (py m * c))"
proof -
  define B where "B = max \<bar>px m * ppmm\<bar> \<bar>py m * ppmm\<bar> + 1"
  have B: "B > 0" by (simp add: B_def add_nonneg_pos le_max_iff_disj)
  obtain n where n: "(98 / 100 :: real) ^ n < 1 / B" using real_arch_pow_inv [of "1 / B" "98 / 100"] B by auto
  have "slow (LPPoint (px m * c) (py m * c))" if c: "0 \<le> c" "c \<le> (98 / 100) ^ n" for c
  proof -
    have "c < 1 / B" using c n by linarith
    then have "c * B < 1" using B by (simp add: field_simps)
    moreover have "\<bar>px m * c * ppmm\<bar> \<le> c * B" "\<bar>py m * c * ppmm\<bar> \<le> c * B"
      using c(1) mult_left_mono [of "\<bar>px m * ppmm\<bar>" B c] mult_left_mono [of "\<bar>py m * ppmm\<bar>" B c]
      by (auto simp: B_def abs_mult mult.commute mult.left_commute)
    ultimately show ?thesis by (simp add: slow_def)
  qed
  then show ?thesis by blast
qed

text \<open>
  C32 Momentum dies out. After a scroll has ended the timer keeps it going with ever smaller moves: each
  tick's momentum is at most 0.98 times the one before and points the same way, and after finitely many
  ticks the momentum is over.
\<close>

theorem momentum_dies_out:
  assumes "g_inv g" "m_type g = GestureNone"
  shows "\<exists>n. m_momentumPhase (ticks E n g) = MomentumPhaseUndefined \<and>
    (\<forall>k<n. \<exists>c. 0 \<le> c \<and> c \<le> (98 / 100) ^ k \<and>
       m_momentum (ticks E k g) = LPPoint (px (m_momentum g) * c) (py (m_momentum g) * c))"
proof (cases "m_momentumPhase g = MomentumPhaseUndefined")
  case True
  then show ?thesis by (auto intro: exI [of _ 0])
next
  case False
  with assms have g: "gliding g" by (auto simp: g_inv_def gliding_def)
  obtain N where N: "\<forall>c. 0 \<le> c \<longrightarrow> c \<le> (98 / 100) ^ N \<longrightarrow> slow (LPPoint (px (m_momentum g) * c) (py (m_momentum g) * c))"
    using eventually_slow by blast
  let ?stop = "\<lambda>k. slow (m_momentum (ticks E k g)) \<or> \<not> gliding (ticks E k g)"
  have ex: "\<exists>k. ?stop k"
  proof (rule ccontr)
    assume "\<not> (\<exists>k. ?stop k)"
    with ticks_glide [OF g, of N E] N show False by metis
  qed
  define n where "n = (LEAST k. ?stop k)"
  have before: "\<forall>k<n. gliding (ticks E k g) \<and> \<not> slow (m_momentum (ticks E k g))"
  proof (intro allI impI)
    fix k assume "k < n"
    then have "\<not> ?stop k" unfolding n_def by (rule not_less_Least)
    then show "gliding (ticks E k g) \<and> \<not> slow (m_momentum (ticks E k g))" by blast
  qed
  have "?stop n" unfolding n_def by (rule LeastI_ex [OF ex])
  moreover have at: "gliding (ticks E n g)" using ticks_glide [OF g before] by blast
  ultimately have "m_momentumPhase (ticks E (Suc n) g) = MomentumPhaseUndefined"
    using applyMomentum_slow(1) [of "ticks E n g" E] by (auto simp: gliding_def)
  moreover have "\<exists>c. 0 \<le> c \<and> c \<le> (98 / 100) ^ k \<and>
      m_momentum (ticks E k g) = LPPoint (px (m_momentum g) * c) (py (m_momentum g) * c)" if "k < Suc n" for k
    using ticks_glide [OF g, of k E] before that by auto
  ultimately show ?thesis by blast
qed

theorem momentum_dies_out_witness:
  "\<exists>n. m_momentumPhase (ticks (gesture_env.truncate mac_env) n
     ((LPGesture 0 0)\<lparr>m_momentumPhase := MomentumPhaseBegan, m_momentum := LPPoint 3 4,
        m_momentumTimer := snd (Start (Heartbeat 8 (Some ())))\<rparr>)) = MomentumPhaseUndefined"
proof -
  have "g_inv ((LPGesture 0 0)\<lparr>m_momentumPhase := MomentumPhaseBegan, m_momentum := LPPoint 3 4,
      m_momentumTimer := snd (Start (Heartbeat 8 (Some ())))\<rparr>)"
    using g_inv_new [of 0 0] by (simp add: g_inv_def LPGesture_def Start_def Heartbeat_def)
  from momentum_dies_out [OF this] show ?thesis by (auto simp: LPGesture_def)
qed

text \<open>
  A scroll that ends with little momentum leaves the timer running. The first tick ends the momentum
  but only the branch for a later tick stops the timer, which then ticks for nothing every eight
  milliseconds until the next scroll ends.
\<close>

theorem momentum_timer_left_running:
  assumes "g_inv g" "m_type g = GestureNone" "m_momentumPhase g = MomentumPhaseBegan" "slow (m_momentum g)"
  shows "m_momentumPhase (ticks E (Suc n) g) = MomentumPhaseUndefined \<and>
    m_vigilance (m_momentumTimer (ticks E (Suc n) g)) > Active"
proof (induction n)
  case 0
  then show ?case
    using assms applyMomentum_slow [of g E] by (auto simp: g_inv_def)
next
  case (Suc n)
  have "ticks E (Suc (Suc n)) g = ticks E (Suc n) g"
    unfolding ticks_simps(2) [of E "Suc n"] using Suc.IH by (simp add: applyMomentum_def)
  with Suc.IH show ?case by metis
qed

theorem momentum_timer_left_running_witness:
  "m_vigilance (m_momentumTimer (ticks (gesture_env.truncate mac_env) (Suc 1000)
     ((LPGesture 0 0)\<lparr>m_momentumPhase := MomentumPhaseBegan,
        m_momentumTimer := snd (Start (Heartbeat 8 (Some ())))\<rparr>))) > Active"
proof -
  let ?g = "(LPGesture 0 0)\<lparr>m_momentumPhase := MomentumPhaseBegan,
      m_momentumTimer := snd (Start (Heartbeat 8 (Some ())))\<rparr>"
  have "g_inv ?g" "m_type ?g = GestureNone" "m_momentumPhase ?g = MomentumPhaseBegan" "slow (m_momentum ?g)"
    using g_inv_new [of 0 0] by (simp_all add: g_inv_def LPGesture_def Start_def Heartbeat_def slow_def)
  from momentum_timer_left_running [OF this, of "gesture_env.truncate mac_env" 1000] show ?thesis by blast
qed

section \<open>The driver\<close>

text \<open>
  C34 The system sees the mode's clicks. On Windows and on the Macintosh, if the mode presses and releases
  in turn then so does the driver; and on the Macintosh a move is posted as a drag exactly while the
  button is down.
\<close>

theorem mouse_follows_mode:
  assumes "P \<noteq> Linux" "list_all (\<lambda>p. ge_platform (fst p) = P) eas"
    "o_sent d = []" "\<not> m_buttonDown d" "buttons (map snd eas) (Some False) = Some b"
  shows "mouse (o_sent (snd (os_run eas d))) (Some False) = Some b"
  using os_run_mouse [OF assms(1,2) _ assms(5), of d] assms(3,4) by (simp add: mouse_agrees_def)

theorem mouse_follows_mode_witness:
  "mouse (o_sent (snd (os_run (map (Pair mac_env)
     [SetCursorPosition 1 2 True, ClickDown 0 1, SetCursorPosition 3 4 True, ClickUp 0 1]) fresh_driver)))
     (Some False) = Some False"
  by (rule mouse_follows_mode [where P = Apple])
    (simp_all add: mac_env_def fresh_driver_def OSInteractionDriver_def button_step_def)

text \<open>
  The cursor sent to Windows is always in range. Wherever the mode puts it, relative or absolute, the
  coordinates of the move lie between 0 and 65535, and the driver's own position is on a screen.
\<close>

theorem cursor_in_range:
  assumes "ge_platform E = Windows" "vs_ok (o_virtualScreen d)" "vs_built (o_virtualScreen d)"
  shows "\<exists>x y. o_sent (setCursorPosition E fx fy absolute d) = o_sent d @ [MouseMove x y] \<and>
    0 \<le> x \<and> x \<le> 65535 \<and> 0 \<le> y \<and> y \<le> 65535 \<and>
    on_screen (o_virtualScreen d) (vs_position (o_virtualScreen (setCursorPosition E fx fy absolute d)))"
proof -
  define p where "p = (if absolute then LPPoint (fx + 1 / 2) (fy + 1 / 2) else add_cursor E (LPPoint fx fy))"
  obtain q v where q: "SetPosition p (o_virtualScreen d) = (q, v)" by fastforce
  note parts = SetPosition_parts [OF q]
  have on: "on_screen (o_virtualScreen d) q" using ClipPosition_on_screen [OF assms(2)] parts(1) by simp
  have "LPRectContainsPoint (Bounds False v) q"
    using on_screen_in_bounds [OF assms(3) on] parts(2) by (simp add: Bounds_def)
  from Normalize_in_unit [OF this] trunc_range
  have r: "0 \<le> trunc (65535 * px (Normalize q False v) + 1 / 2)" "trunc (65535 * px (Normalize q False v) + 1 / 2) \<le> 65535"
    "0 \<le> trunc (65535 * py (Normalize q False v) + 1 / 2)" "trunc (65535 * py (Normalize q False v) + 1 / 2) \<le> 65535"
    by auto
  have m: "move_to p d = (q, d\<lparr>o_virtualScreen := v\<rparr>)" by (simp add: move_to_def q)
  have "vs_position v = q" using q by (auto simp: SetPosition_def split: prod.splits)
  then have "o_sent (setCursorPosition E fx fy absolute d) = o_sent d @
        [MouseMove (trunc (65535 * px (Normalize q False v) + 1 / 2)) (trunc (65535 * py (Normalize q False v) + 1 / 2))] \<and>
      vs_position (o_virtualScreen (setCursorPosition E fx fy absolute d)) = q"
    using assms(1) m by (simp add: cursor_defs p_def [symmetric] Let_def SendInput_def)
  with r on show ?thesis by metis
qed

definition win_env :: "win8 os_env" where
  "win_env = \<lparr>ge_platform = Windows, ge_EventTypeGesture = 0, ge_wheelChars = None, ge_wheelLines = Some 3,
     oe_cursor = None, oe_vkKeyScan = (\<lambda>c. 67), oe_keyCode = (\<lambda>k. 0), oe_backend = TouchManagerWin8,
     oe_newManager = Some \<lparr>m_TouchQueue = [], injected = []\<rparr>, oe_managerVersion = 8\<rparr>"

definition win_driver :: "win8 os_driver" where
  "win_driver = snd (initializeTouch win_env (OSInteractionDriver False (replicate 8 False) two_screens))"

lemma win_driver_parts:
  "o_virtualScreen win_driver = two_screens" "o_gesture win_driver = LPGesture 0 0"
  "m_touchManager win_driver = Some ([], \<lparr>m_TouchQueue = [], injected = []\<rparr>)"
  "ge_platform win_env = Windows" "oe_backend win_env = TouchManagerWin8"
  by (simp_all add: win_driver_def initializeTouch_def win_env_def OSInteractionDriver_def)

theorem cursor_in_range_witness:
  "\<exists>x y. o_sent (setCursorPosition win_env 1000000 (-7) True win_driver) = o_sent win_driver @ [MouseMove x y] \<and>
     0 \<le> x \<and> x \<le> 65535"
  using cursor_in_range [of win_env win_driver 1000000 "-7" True] vs_built_LPVirtualScreen two_screens_ok
  by (auto simp: win_driver_parts two_screens_def)

definition win8_ok :: "win8 os_driver \<Rightarrow> bool" where
  "win8_ok d \<longleftrightarrow> (case m_touchManager d of None \<Rightarrow> True | Some m \<Rightarrow> win8.managed m)"

lemma clip_touches_ok:
  assumes "touches_ok ts"
  shows "touches_ok (clip_touches v ts)" "t_id ` set (clip_touches v ts) = t_id ` set ts"
    "down_ids (clip_touches v ts) = down_ids ts"
proof -
  have "{t \<in> clip_touch v ` set ts. t_touching t} = clip_touch v ` {t \<in> set ts. t_touching t}" by auto
  then show "down_ids (clip_touches v ts) = down_ids ts"
    by (simp add: clip_touches_map [OF assms] down_ids_def image_image)
  show "touches_ok (clip_touches v ts)" "t_id ` set (clip_touches v ts) = t_id ` set ts"
    using assms unfolding clip_touches_map [OF assms] by (simp_all add: touches_ok_def comp_def image_image)
qed

lemma setTouches_new: "touches_ok (fst m) \<Longrightarrow> touches_ok ts \<Longrightarrow> fst (setTouches B ts m) = ts"
  using setTouches_eq [of "fst m" ts B "snd m"] by simp

text \<open>
  C33 The touches of a frame reach the system, on the screens. With the back end of Windows 8, touches
  with ids below its number of pointers are managed one for one, clipped to the screens, and the
  contacts injected over the driver's whole life keep to the pointer protocol.
\<close>

theorem touches_reach_screen:
  assumes "ge_platform E = Windows" "oe_backend E = TouchManagerWin8" "vs_ok (o_virtualScreen d)"
    "m_touchManager d = Some m" "win8_ok d" "touches_ok evt" "\<forall>t\<in>set evt. t_id t < MAX_TOUCH_COUNT"
  shows "\<exists>ts w. m_touchManager (os_emitTouchEvent E evt d) = Some (ts, w) \<and>
    map t_id ts = map t_id evt \<and> map t_touching ts = map t_touching evt \<and>
    (\<forall>t\<in>set ts. on_screen (o_virtualScreen d) (LPPoint (t_x t) (t_y t))) \<and>
    pointer_run (sent w) {} = Some (down_ids evt) \<and> win8_ok (os_emitTouchEvent E evt d)"
proof -
  let ?ts = "clip_touches (o_virtualScreen d) evt"
  let ?m = "setTouches TouchManagerWin8 ?ts m"
  have m: "win8.managed m" using assms(4,5) by (simp add: win8_ok_def)
  note c = clip_touches_ok [OF assms(6), of "o_virtualScreen d"]
  have "t_id ` set ?ts \<subseteq> {i. i < MAX_TOUCH_COUNT}" unfolding c(2) using assms(7) by auto
  with m c(1) have m': "win8.managed ?m" by (intro win8.setTouches_managed)
  have ts: "fst ?m = ?ts" using m c(1) by (intro setTouches_new) (simp_all add: win8.managed_def)
  have e: "m_touchManager (os_emitTouchEvent E evt d) = Some (?ts, snd ?m)"
    using assms(1,2,4) ts by (simp add: os_emitTouchEvent_def prod_eq_iff)
  moreover have "pointer_run (sent (snd ?m)) {} = Some (down_ids evt)"
    using m' ts c(3) unfolding win8.managed_def win8_inv_def by simp
  moreover have "\<forall>t\<in>set ?ts. on_screen (o_virtualScreen d) (LPPoint (t_x t) (t_y t))"
    using clip_touch_on_screen [OF assms(3)] by (auto simp: clip_touches_map [OF assms(6)])
  moreover have "(?ts, snd ?m) = ?m" using ts by (metis prod.collapse)
  with m' have "win8_ok (os_emitTouchEvent E evt d)" unfolding win8_ok_def e option.case by metis
  ultimately show ?thesis by (simp add: clip_touches_map [OF assms(6)] comp_def)
qed

lemma win_driver_ok: "win8_ok win_driver"
  by (simp add: win8_ok_def win_driver_parts win8.managed_def win8_inv_def sent_def down_ids_def)

theorem touches_reach_screen_witness:
  "\<exists>ts w. m_touchManager (os_emitTouchEvent win_env [mk_Touch 3 0 (-50) 9000 True] win_driver) = Some (ts, w) \<and>
     pointer_run (sent w) {} = Some {3}"
proof -
  let ?t = "mk_Touch 3 0 (-50) 9000 True"
  have "t_touching ?t" "t_id ?t = 3" by (simp_all add: mk_Touch_def)
  then have d: "down_ids [?t] = {3}" using down_ids_insert [of ?t "[]"] by (simp add: down_ids_def)
  have "vs_ok (o_virtualScreen win_driver)" "touches_ok [?t]" "\<forall>t\<in>set [?t]. t_id t < MAX_TOUCH_COUNT"
    using two_screens_ok by (simp_all add: win_driver_parts mk_Touch_def)
  from touches_reach_screen [OF win_driver_parts(4,5) this(1) win_driver_parts(3) win_driver_ok this(2,3)]
  show ?thesis unfolding d by blast
qed

text \<open>
  C30 Cancelling releases everything on Windows with the touch back end of Windows 8.
  \<open>cancelGestureEvents\<close>, which the program calls when it loses the focus, the device or its mode, ends
  the gesture in progress and lifts every touch: no pointer is left down. The back ends for Windows 7
  are not covered: there \<open>RemoveTouch\<close> of the driver's back end does not lift a contact.
\<close>

theorem cancel_releases_all:
  assumes "ge_platform E = Windows" "oe_backend E = TouchManagerWin8" "g_inv (o_gesture d)" "win8_ok d"
  shows "m_type (o_gesture (cancelGestureEvents E d)) = GestureNone \<and>
    (case m_touchManager (cancelGestureEvents E d) of
       None \<Rightarrow> m_touchManager d = None
     | Some (ts, w) \<Rightarrow> ts = [] \<and> pointer_run (sent w) {} = Some {})"
proof -
  let ?d = "d\<lparr>m_movingCursor := False, m_touchManager := map_option (clearTouches TouchManagerWin8) (m_touchManager d)\<rparr>"
  have c: "cancelGestureEvents E d = snd (os_endGesture E ?d)"
    using assms(1,2) by (simp add: cancelGestureEvents_def win_cancelGestureEvents_def)
  have "m_type (o_gesture (cancelGestureEvents E d)) = GestureNone"
    using end_gesture_result(2) [of "o_gesture (syncPosition E ?d)" "gesture_env.truncate E"] assms(3)
    by (simp add: c os_endGesture_def)
  moreover have clr: "fst (clearTouches TouchManagerWin8 m) = [] \<and>
      pointer_run (sent (snd (clearTouches TouchManagerWin8 m))) {} = Some {}" if "win8.managed m" for m
  proof -
    have "win8.managed (clearTouches TouchManagerWin8 m)"
      using that by (simp add: clearTouches_def win8.setTouches_managed)
    moreover have "fst (clearTouches TouchManagerWin8 m) = []"
      using that by (simp add: clearTouches_def setTouches_new win8.managed_def)
    ultimately show ?thesis by (simp add: win8.managed_def win8_inv_def down_ids_def)
  qed
  moreover have "m_touchManager (cancelGestureEvents E d) = map_option (clearTouches TouchManagerWin8) (m_touchManager d)"
    by (simp add: c os_endGesture_def)
  moreover have "win8.managed m" if "m_touchManager d = Some m" for m
    using assms(4) that by (simp add: win8_ok_def)
  ultimately show ?thesis by (cases "m_touchManager d") (simp_all add: split_beta)
qed

theorem cancel_releases_all_witness:
  "\<exists>w. m_touchManager (cancelGestureEvents win_env (os_emitTouchEvent win_env [mk_Touch 3 0 5 5 True] win_driver)) =
     Some ([], w) \<and> pointer_run (sent w) {} = Some {}"
proof -
  let ?d = "os_emitTouchEvent win_env [mk_Touch 3 0 5 5 True] win_driver"
  obtain m where m: "m_touchManager ?d = Some m" by (simp add: os_emitTouchEvent_def win_driver_parts)
  have "win8.managed (setTouches TouchManagerWin8 (clip_touches two_screens [mk_Touch 3 0 5 5 True])
      ([], \<lparr>m_TouchQueue = [], injected = []\<rparr>))"
    using win_driver_ok
    by (intro win8.setTouches_managed) (auto simp: win8_ok_def win_driver_parts clip_touches_map mk_Touch_def)
  then have "win8_ok ?d" by (simp add: win8_ok_def os_emitTouchEvent_def win_driver_parts)
  moreover have "g_inv (o_gesture ?d)" by (simp add: win_driver_parts g_inv_new)
  ultimately have "case m_touchManager (cancelGestureEvents win_env ?d) of
       None \<Rightarrow> m_touchManager ?d = None | Some (ts, w) \<Rightarrow> ts = [] \<and> pointer_run (sent w) {} = Some {}"
    using cancel_releases_all [OF win_driver_parts(4,5)] by blast
  with m show ?thesis by (auto split: option.splits prod.splits)
qed

end
