(* ===== verification/Mode_Owner.thy ===== *)
theory Mode_Owner
  imports Machine
begin

text \<open>
  What the gesture modes have in common as owners of a state machine. A mode names what holds while
  a state is current, what holds between the exit of one state and the entry of the next, and a
  rank that falls whenever entering a state asks for another one; from the handlers' laws about
  these the locale derives that initialising, running and shutting down the machine return and
  keep them.
\<close>

definition exited_by ::
  "('st, 'm) handler \<Rightarrow> 'st \<Rightarrow> ('st, 'm) machine_scheme \<Rightarrow> ('st, 'm) machine_scheme" where
  "exited_by H st s = snd (H st SM_EXIT (s\<lparr>sm_next := None, sm_running := True\<rparr>))"

definition entered_by ::
  "('st, 'm) handler \<Rightarrow> 'st \<Rightarrow> ('st, 'm) machine_scheme \<Rightarrow> ('st, 'm) machine_scheme" where
  "entered_by H nxt s =
     (snd (H nxt SM_ENTER (s\<lparr>sm_running := True, sm_next := None, sm_current := Some nxt\<rparr>)))
       \<lparr>sm_running := False\<rparr>"

locale mode_owner =
  fixes H :: "('st, 'm) handler"
    and inputs :: "sm_input \<Rightarrow> bool"
    and safe :: "('st, 'm) machine_scheme \<Rightarrow> bool"
    and between :: "'st \<Rightarrow> ('st, 'm) machine_scheme \<Rightarrow> bool"
    and released :: "('st, 'm) machine_scheme \<Rightarrow> bool"
    and rank :: "'st \<Rightarrow> ('st, 'm) machine_scheme \<Rightarrow> nat"
  assumes user_inputs: "inputs i \<Longrightarrow> i \<noteq> SM_INVALID \<and> i \<noteq> SM_EXIT \<and> i \<le> SM_HIGHEST_USER_INPUT_VALUE"
    and handler_fields:
      "sm_current (snd (H st i s)) = sm_current s" "sm_running (snd (H st i s)) = sm_running s"
      "sm_logger (snd (H st i s)) = sm_logger s"
    and exit_asks_nothing: "sm_next (snd (H st SM_EXIT s)) = sm_next s"
    and safe_running: "safe (s\<lparr>sm_running := b\<rparr>) \<longleftrightarrow> safe s"
    and released_running: "released (s\<lparr>sm_running := b\<rparr>) \<longleftrightarrow> released s"
    and released_current: "released (s\<lparr>sm_current := k\<rparr>) \<longleftrightarrow> released s"
    and handled: "safe s \<Longrightarrow> sm_current s = Some st \<Longrightarrow> sm_next s = None \<Longrightarrow> sm_running s \<Longrightarrow>
      inputs i \<Longrightarrow> fst (H st i s) \<and> safe (snd (H st i s))"
    and leave: "safe s \<Longrightarrow> sm_current s = Some st \<Longrightarrow> sm_next s = Some nxt \<Longrightarrow>
      between nxt (exited_by H st s)"
    and leave_rank: "safe s \<Longrightarrow> sm_current s = Some st \<Longrightarrow> sm_next s = Some nxt \<Longrightarrow>
      rank nxt (exited_by H st s) = rank nxt s"
    and release: "safe s \<Longrightarrow> sm_current s = Some st \<Longrightarrow> sm_next s = None \<Longrightarrow>
      released (exited_by H st s)"
    and enter: "between nxt s \<Longrightarrow> safe (entered_by H nxt s)"
    and enter_rank: "between nxt s \<Longrightarrow> sm_next (entered_by H nxt s) = Some n \<Longrightarrow>
      rank n (entered_by H nxt s) < rank nxt s"
begin

definition ready :: "('st, 'm) machine_scheme \<Rightarrow> bool" where
  "ready s \<longleftrightarrow> safe s \<and> \<not> sm_logger s \<and> \<not> sm_running s \<and> sm_current s \<noteq> None"

definition settle :: "('st, 'm) machine_scheme \<Rightarrow> nat" where
  "settle s = (case sm_next s of None \<Rightarrow> 0 | Some st \<Rightarrow> rank st s)"

lemma entered_fields:
  "sm_logger (entered_by H nxt s) = sm_logger s" "sm_current (entered_by H nxt s) = Some nxt"
  "sm_running (entered_by H nxt s) = False"
  by (simp_all add: entered_by_def handler_fields)

lemma exited_fields:
  "sm_logger (exited_by H st s) = sm_logger s" "sm_current (exited_by H st s) = sm_current s"
  "sm_next (exited_by H st s) = None" "sm_running (exited_by H st s) = True"
  by (simp_all add: exited_by_def handler_fields exit_asks_nothing)

lemma transition_parts:
  assumes "\<not> sm_logger s" "sm_current s = Some st"
  shows "sm_transition H nxt s = entered_by H nxt (exited_by H st s)"
proof -
  let ?e = "exited_by H st s"
  have "snd (call_state H SM_EXIT (s\<lparr>sm_next := None\<rparr>)) = ?e\<lparr>sm_running := False\<rparr>"
    using assms by (simp add: call_state_quiet exited_by_def)
  then have "sm_transition H nxt s =
      (snd (H nxt SM_ENTER (?e\<lparr>sm_current := Some nxt, sm_running := True\<rparr>)))\<lparr>sm_running := False\<rparr>"
    using assms by (simp add: sm_transition_def call_state_quiet exited_fields)
  moreover have "?e\<lparr>sm_current := Some nxt, sm_running := True\<rparr>
      = ?e\<lparr>sm_running := True, sm_next := None, sm_current := Some nxt\<rparr>"
    using exited_fields(3) [of st s] by (cases ?e) simp
  ultimately show ?thesis unfolding entered_by_def by (simp only:)
qed

sublocale ranked_owner H ready settle
proof
  fix s nxt
  assume r: "ready s" and n: "sm_next s = Some nxt"
  then obtain st where st: "sm_current s = Some st" by (auto simp: ready_def)
  let ?e = "exited_by H st s"
  have t: "sm_transition H nxt s = entered_by H nxt ?e"
    using r st by (intro transition_parts) (simp_all add: ready_def)
  have b: "between nxt ?e" using r st n by (intro leave) (simp_all add: ready_def)
  show "ready (sm_transition H nxt s)"
    using r enter [OF b] by (simp add: t ready_def entered_fields exited_fields)
  assume "sm_next (sm_transition H nxt s) \<noteq> None"
  then obtain m where "sm_next (entered_by H nxt ?e) = Some m" by (auto simp: t)
  with enter_rank [OF b this] leave_rank [of s st nxt] r st n
  show "settle (sm_transition H nxt s) < settle s" by (simp add: t settle_def ready_def)
qed

lemma first_ready:
  assumes "ready s" "sm_next s = None" "inputs i"
  shows "ready (sm_first H i s)"
proof -
  obtain st where st: "sm_current s = Some st" using assms(1) by (auto simp: ready_def)
  have u: "s\<lparr>sm_next := None\<rparr> = s" using assms(2) by (cases s) simp
  let ?s = "s\<lparr>sm_running := True\<rparr>"
  have "fst (H st i ?s) \<and> safe (snd (H st i ?s))"
    using assms st by (intro handled) (simp_all add: ready_def safe_running)
  then have h: "fst (H st i ?s)" "safe (snd (H st i ?s))" by simp_all
  have "sm_first H i s = (snd (H st i ?s))\<lparr>sm_running := False\<rparr>"
    using assms st h(1) user_inputs [OF assms(3)] by (simp add: sm_first_def u ready_def call_state_quiet)
  with h(2) st assms(1) show ?thesis by (simp add: ready_def safe_running handler_fields)
qed

lemma run_ready:
  assumes "ready s" "sm_next s = None" "inputs i"
  shows "\<exists>t. RunCurrentState H i s = Done t \<and> ready t \<and> sm_next t = None"
  using run_returns [OF _ first_ready [OF assms]] assms(1) user_inputs [OF assms(3)]
  by (simp add: RunCurrentState_def ready_def)

lemma initialize_ready:
  assumes "between st s" "sm_current s = None" "\<not> sm_logger s" "\<not> sm_running s"
  shows "\<exists>t. Initialize H st s = Done t \<and> ready t \<and> sm_next t = None"
proof -
  let ?s = "s\<lparr>sm_current := Some st\<rparr>"
  have "sm_first H SM_ENTER ?s =
      (snd (H st SM_ENTER (?s\<lparr>sm_next := None, sm_running := True\<rparr>)))\<lparr>sm_running := False\<rparr>"
    using assms(3,4) by (simp add: sm_first_def call_state_quiet)
  moreover have "?s\<lparr>sm_next := None, sm_running := True\<rparr> =
      s\<lparr>sm_running := True, sm_next := None, sm_current := Some st\<rparr>" by simp
  ultimately have "sm_first H SM_ENTER ?s = entered_by H st s"
    unfolding entered_by_def by (simp only:)
  moreover have "ready (entered_by H st s)"
    using assms enter by (simp add: ready_def entered_fields)
  ultimately have "ready (sm_first H SM_ENTER ?s)" by simp
  from run_returns [OF _ this] assms show ?thesis by (simp add: Initialize_def)
qed

lemma shutdown_released:
  assumes "ready s" "sm_next s = None"
  shows "\<exists>t. Shutdown H s = Done t \<and> sm_current t = None \<and> released t"
proof -
  obtain st where st: "sm_current s = Some st" using assms(1) by (auto simp: ready_def)
  let ?e = "(exited_by H st s)\<lparr>sm_running := False\<rparr>"
  have "sm_first H SM_EXIT s = ?e"
    using assms st by (simp add: sm_first_def call_state_quiet ready_def exited_by_def exit_asks_nothing)
  then have "Shutdown H s = Done (?e\<lparr>sm_current := None\<rparr>)"
    using assms st by (simp add: Shutdown_def RunCurrentStatePrivate_def ready_def exited_fields)
  moreover have "released (?e\<lparr>sm_current := None\<rparr>)"
    using release [OF _ st assms(2)] assms(1) by (simp add: ready_def released_running released_current)
  ultimately show ?thesis by simp
qed

end

text \<open>
  The life of a mode between calls: unborn until its first frame initialises the machine, then in
  some state with no transition pending.
\<close>

locale mode_life = mode_owner +
  fixes start :: 'a
  assumes unborn: "between start s \<Longrightarrow> released s"
begin

definition alive :: "('a, 'b) machine_scheme \<Rightarrow> bool" where
  "alive s \<longleftrightarrow>
     \<not> sm_logger s \<and> \<not> sm_running s \<and> sm_next s = None \<and>
     (if IsInitialized s then safe s else between start s)"

lemma alive_ready: "alive s \<Longrightarrow> IsInitialized s \<Longrightarrow> ready s \<and> sm_next s = None"
  by (simp add: alive_def ready_def IsInitialized_def)

lemma ready_alive: "ready s \<Longrightarrow> sm_next s = None \<Longrightarrow> alive s \<and> IsInitialized s"
  by (simp add: alive_def ready_def IsInitialized_def)

lemma run_alive:
  assumes "alive s" "IsInitialized s" "inputs i"
  shows "\<exists>t. RunCurrentState H i s = Done t \<and> alive t \<and> IsInitialized t"
  using run_ready [of s i] alive_ready [OF assms(1,2)] assms(3) ready_alive by metis

lemma initialize_alive:
  assumes "alive s"
  shows "\<exists>t. (if \<not> IsInitialized s then Initialize H start s else Done s) = Done t \<and>
    alive t \<and> IsInitialized t"
proof (cases "IsInitialized s")
  case True
  with assms show ?thesis by simp
next
  case False
  with assms have "between start s" "sm_current s = None" "\<not> sm_logger s" "\<not> sm_running s"
    by (simp_all add: alive_def IsInitialized_def)
  from initialize_ready [OF this] False ready_alive show ?thesis by auto
qed

lemma shutdown_alive:
  assumes "alive s"
  shows "\<exists>t. Shutdown H s = Done t \<and> \<not> IsInitialized t \<and> released t"
proof (cases "IsInitialized s")
  case True
  with shutdown_released [of s] alive_ready [OF assms] show ?thesis by (auto simp: IsInitialized_def)
next
  case False
  with assms unborn [of s] show ?thesis by (simp add: Shutdown_def Let_def alive_def IsInitialized_def)
qed

end

end
