(* ===== verification/Gesture_Only.thy ===== *)
theory Gesture_Only
  imports Interaction_Manager Mode_Owner
begin

text \<open>
  The gesture-only mode, \<open>source/GestureInteraction/GestureOnlyMode.cpp\<close>: it moves no cursor and
  presses no button, it recognises scrolls and swipes from how many pointables the frames of the
  last tenth of a second showed. A frame runs its state machine up to three times: with the count
  that has won, with the touching of the favourite hand, and with the frame itself.

  A handler's \<open>case\<close> that falls through to the next is a prefix that changes the state only when its
  own input arrives. Members that the constructor leaves uninitialised are arguments of the
  constructor.
\<close>

section \<open>State\<close>

datatype go_state =
    State_GestureRecognition
  | State_Cooldown
  | State_2Fingers_Hovering
  | State_2Fingers_Scrolling
  | State_3PlusFingers_SwipeVertical
  | State_3PlusFingers_SwipeHorizontal
  | State_Palm_Swipe

abbreviation OMGO_PROCESS_FRAME :: sm_input where "OMGO_PROCESS_FRAME \<equiv> 0"
abbreviation OMGO_LOST_FOCUS :: sm_input where "OMGO_LOST_FOCUS \<equiv> 1"
abbreviation OMGO_COUNT_UNCERTAIN :: sm_input where "OMGO_COUNT_UNCERTAIN \<equiv> 2"
abbreviation OMGO_COUNT_TWO :: sm_input where "OMGO_COUNT_TWO \<equiv> 3"
abbreviation OMGO_COUNT_THREEPLUS :: sm_input where "OMGO_COUNT_THREEPLUS \<equiv> 4"
abbreviation OMGO_COUNT_OTHER :: sm_input where "OMGO_COUNT_OTHER \<equiv> 5"
abbreviation OMGO_COUNT_PALM :: sm_input where "OMGO_COUNT_PALM \<equiv> 6"
abbreviation OMGO_TOUCHING :: sm_input where "OMGO_TOUCHING \<equiv> 7"
abbreviation OMGO_NOT_TOUCHING :: sm_input where "OMGO_NOT_TOUCHING \<equiv> 8"

datatype count_bucket = PCBC_TWO | PCBC_THREEPLUS | PCBC_OTHER | PCBC_PALM

definition GestureRecognitionDuration :: int where
  "GestureRecognitionDuration = 100 * MILLISECONDS"
definition BUCKET_THRESHOLD :: real where "BUCKET_THRESHOLD = 3 / 4"
definition BUCKET_THRESHOLD_LOW :: real where "BUCKET_THRESHOLD_LOW = 1 / 2"
definition go_TranslationScaleFactor :: real where "go_TranslationScaleFactor = 3 / 2"

record ('f, 'p) gesture_only = "(go_state, 'f, 'p) gim" +
  go_noTouching :: bool
  go_justScrolled :: bool
  go_gestureStart :: 'f
  go_cooldownStartTime :: int
  go_lastStateChangeTime :: int
  go_timedCountHistory :: "count_bucket timed_history"
  go_pointableCountBucket :: "count_bucket \<Rightarrow> real"
  go_favoriteHandId :: int

type_synonym ('f, 'p) go = "('f, 'p) gesture_only"
type_synonym ('f, 'p) go_result = "bool \<times> ('f, 'p) go"

definition GestureOnlyMode ::
  "('f, 'h, 'p, 'e) env_scheme \<Rightarrow> int \<Rightarrow> int \<Rightarrow> (count_bucket \<Rightarrow> real) \<Rightarrow>
   categorical_error + ('f, 'p) go" where
  "GestureOnlyMode L cooldownStartTime lastStateChangeTime buckets =
     (case GestureInteractionManager L of
        Inl e \<Rightarrow> Inl e
      | Inr g \<Rightarrow> Inr (gim.extend g
          (gesture_only.fields True False (invalid_frame L) cooldownStartTime lastStateChangeTime
             (TimedHistory (500 * MILLISECONDS)) buckets (-1))))"

section \<open>Helpers\<close>

definition go_now :: "('f, 'h, 'p, 'e) env_scheme \<Rightarrow> ('f, 'p) go \<Rightarrow> int" where
  "go_now L s = fr_timestamp L (m_currentFrame s)"

definition go_hand :: "('f, 'h, 'p, 'e) env_scheme \<Rightarrow> ('f, 'p) go \<Rightarrow> 'h" where
  "go_hand L s = fr_hand L (m_currentFrame s) (go_favoriteHandId s)"

definition go_pointable :: "('f, 'h, 'p, 'e) env_scheme \<Rightarrow> ('f, 'p) go \<Rightarrow> 'p" where
  "go_pointable L s = fr_pointable L (m_currentFrame s) (m_favoritePointableId s)"

definition go_fade :: "('f, 'h, 'p, 'e) env_scheme \<Rightarrow> ('f, 'p) go \<Rightarrow> real" where
  "go_fade L s = alphaFromTimeVisible (seconds_between (go_now L s) (go_lastStateChangeTime s))"

definition go_goto :: "go_state \<Rightarrow> ('f, 'p) go \<Rightarrow> ('f, 'p) go" where
  "go_goto st s = SetNextState (Some st) s"

definition damped_translation :: "('f, 'h, 'p, 'e) env_scheme \<Rightarrow> 'f \<Rightarrow> 'f \<Rightarrow> vec \<Rightarrow> vec" where
  "damped_translation L cur since t =
     vscale (damp_at t (seconds_between (fr_timestamp L cur) (fr_timestamp L since))) t"

definition go_generateScrollBetweenFrames ::
  "('f, 'h, 'p, 'e) env_scheme \<Rightarrow> 'f \<Rightarrow> 'f \<Rightarrow> action list" where
  "go_generateScrollBetweenFrames L cur since =
     (let tr = fr_translation L cur since;
          t = damped_translation L cur since (Vec (vx tr) (vy tr) 0)
      in [ApplyScroll (go_TranslationScaleFactor * vx t) (- go_TranslationScaleFactor * vy t)
            (fr_timestamp L cur - fr_timestamp L since)])"

definition go_generateDesktopSwipeBetweenFrames ::
  "('f, 'h, 'p, 'e) env_scheme \<Rightarrow> 'f \<Rightarrow> 'f \<Rightarrow> action list" where
  "go_generateDesktopSwipeBetweenFrames L cur since =
     (let t = damped_translation L cur since (fr_translation L cur since)
      in [ApplyDesktopSwipe (vx t) (- vy t)])"

definition go_shouldBeInPalmSwipeMode :: "('f, 'h, 'p, 'e) env_scheme \<Rightarrow> ('f, 'p) go \<Rightarrow> bool" where
  "go_shouldBeInPalmSwipeMode L s =
     (let p = fr_pointable L (m_currentFrame s) (m_foremostPointableId s);
          hand = (if p_valid L p then Some (p_hand L p)
                  else (case fr_hands L (m_currentFrame s) of [] \<Rightarrow> None | h # _ \<Rightarrow> Some h))
      in case hand of
           None \<Rightarrow> False
         | Some h \<Rightarrow> h_valid L h \<and> \<bar>vx (h_palmNormal L h)\<bar> \<ge> 3 / 4)"

definition go_hasFingersTouching :: "('f, 'h, 'p, 'e) env_scheme \<Rightarrow> 'h \<Rightarrow> bool" where
  "go_hasFingersTouching L hand \<longleftrightarrow>
     h_valid L hand \<and> list_ex (\<lambda>p. p_touchZone L p = ZONE_TOUCHING) (h_pointables L hand)"

text \<open>This mode also drops pointables that point steeply up or down.\<close>

definition go_identifyRelevantPointables ::
  "('f, 'h, 'p, 'e) env_scheme \<Rightarrow> 'f \<Rightarrow> 'p list \<Rightarrow> 'p list" where
  "go_identifyRelevantPointables L frame pointables =
     filter (\<lambda>p. \<not> (irrelevant L frame (best_pointables L frame pointables) p \<or>
                    \<bar>vy (p_direction L p)\<bar> > 6 / 10)) pointables"

section \<open>The handlers\<close>

text \<open>The swipe a movement of three or more pointables selects, if any.\<close>

definition swipe_direction :: "vec \<Rightarrow> go_state option" where
  "swipe_direction t =
     (let d = sqrt (vx t * vx t + vy t * vy t) in
      if d \<ge> 50 \<and> d > 2 * \<bar>vz t\<bar> then
        (if \<bar>vx t\<bar> > 2 * \<bar>vy t\<bar> + 1 then Some State_3PlusFingers_SwipeHorizontal
         else if \<bar>vy t\<bar> > 2 * \<bar>vx t\<bar> + 1 then Some State_3PlusFingers_SwipeVertical
         else None)
      else None)"

definition go_GestureRecognition ::
  "('f, 'h, 'p, 'e) env_scheme \<Rightarrow> sm_input \<Rightarrow> ('f, 'p) go \<Rightarrow> ('f, 'p) go_result" where
  "go_GestureRecognition L input s =
     (let s1 = (perform L ClearTracker s)\<lparr>go_justScrolled := False\<rparr> in
      case getFrameHavingAgeAtLeast (m_timedFrameHistory s1) GestureRecognitionDuration of
        [] \<Rightarrow> (True, s1)
      | (_, frame) # _ \<Rightarrow>
          if input = OMGO_COUNT_PALM then (True, go_goto State_Palm_Swipe s1)
          else if input = OMGO_COUNT_TWO
          then (True, go_goto State_2Fingers_Hovering (s1\<lparr>go_gestureStart := frame\<rparr>))
          else if input = OMGO_COUNT_THREEPLUS then
            (True, case swipe_direction (fr_translation L (m_currentFrame s1) frame) of
                     None \<Rightarrow> s1 | Some st \<Rightarrow> go_goto st s1)
          else (True, s1))"

definition go_Cooldown ::
  "('f, 'h, 'p, 'e) env_scheme \<Rightarrow> sm_input \<Rightarrow> ('f, 'p) go \<Rightarrow> ('f, 'p) go_result" where
  "go_Cooldown L input s =
     (if input = OMGO_LOST_FOCUS then (True, go_goto State_GestureRecognition s)
      else if input = SM_ENTER \<or> input = OMGO_PROCESS_FRAME then
        (let s1 = (if input = SM_ENTER then s\<lparr>go_cooldownStartTime := go_now L s\<rparr> else s) in
         (True, if go_now L s1 - go_cooldownStartTime s1 \<ge> 500 * MILLISECONDS
                then go_goto State_GestureRecognition s1 else s1))
      else (True, s))"

text \<open>The members of the two-finger states that follow the hand.\<close>

definition go_enter_hovering :: "('f, 'h, 'p, 'e) env_scheme \<Rightarrow> ('f, 'p) go \<Rightarrow> ('f, 'p) go" where
  "go_enter_hovering L s =
     (let s1 = (resetFavoritePointableId s)\<lparr>go_lastStateChangeTime := go_now L s\<rparr>;
          s2 = favour L s1;
          hand = p_hand L (go_pointable L s2)
      in s2\<lparr>go_favoriteHandId := (if h_valid L hand then h_id L hand else -1)\<rparr>)"

definition go_hover :: "('f, 'h, 'p, 'e) env_scheme \<Rightarrow> ('f, 'p) go \<Rightarrow> ('f, 'p) go" where
  "go_hover L s =
     (let s1 = favour L s; p = go_pointable L s1 in
      if \<not> p_valid L p then s1
      else
        (let s2 = (if go_favoriteHandId s1 < 0 \<and> h_valid L (p_hand L p)
                   then s1\<lparr>go_favoriteHandId := h_id L (p_hand L p)\<rparr> else s1)
         in if go_favoriteHandId s2 < 0
            then perform L (drawScrollOverlayForPointable p (go_fade L s2)) (perform L (TrackPointable p) s2)
            else (let hand = go_hand L s2 in
                  perform L (drawScrollOverlayForHand hand 1) (perform L (TrackHand hand) s2))))"

definition go_2Fingers_Hovering ::
  "('f, 'h, 'p, 'e) env_scheme \<Rightarrow> sm_input \<Rightarrow> ('f, 'p) go \<Rightarrow> ('f, 'p) go_result" where
  "go_2Fingers_Hovering L input s =
     (if input = OMGO_LOST_FOCUS then (True, go_goto State_GestureRecognition s)
      else if input = SM_ENTER then (True, go_enter_hovering L s)
      else if input = OMGO_TOUCHING then (True, go_goto State_2Fingers_Scrolling s)
      else if input = OMGO_COUNT_OTHER \<or> input = OMGO_COUNT_PALM \<or> input = OMGO_COUNT_THREEPLUS \<or>
              input = OMGO_COUNT_UNCERTAIN
      then (True, go_goto (if go_justScrolled s then State_Cooldown else State_GestureRecognition) s)
      else if input = OMGO_PROCESS_FRAME then (True, go_hover L s)
      else (True, s))"

definition go_place_cursor :: "('f, 'h, 'p, 'e) env_scheme \<Rightarrow> ('f, 'p) go \<Rightarrow> ('f, 'p) go" where
  "go_place_cursor L s =
     (let hand = go_hand L s; s1 = favour L s; p = go_pointable L s1 in
      if h_valid L hand then perform L (SetAbsoluteCursorPositionHand hand) s1
      else if h_valid L (p_hand L p)
      then perform L (SetAbsoluteCursorPositionHand (p_hand L p))
             (s1\<lparr>go_favoriteHandId := h_id L (p_hand L p)\<rparr>)
      else perform L (SetAbsoluteCursorPositionPointable p) s1)"

definition go_scroll :: "('f, 'h, 'p, 'e) env_scheme \<Rightarrow> ('f, 'p) go \<Rightarrow> ('f, 'p) go" where
  "go_scroll L s =
     (let hand = go_hand L s; s1 = favour L s; p = go_pointable L s1;
          s2 = emit (go_generateScrollBetweenFrames L (m_currentFrame s1) (m_sinceFrame s1)) s1;
          alphaMult = 1 - 4 / 10 * go_fade L s2
      in if h_valid L hand
         then perform L (drawScrollOverlayForHand hand alphaMult) (perform L (TrackHand hand) s2)
         else perform L (drawScrollOverlayForPointable p alphaMult) (perform L (TrackPointable p) s2))"

definition go_2Fingers_Scrolling ::
  "('f, 'h, 'p, 'e) env_scheme \<Rightarrow> sm_input \<Rightarrow> ('f, 'p) go \<Rightarrow> ('f, 'p) go_result" where
  "go_2Fingers_Scrolling L input s =
     (if input = OMGO_LOST_FOCUS then (True, go_goto State_GestureRecognition s)
      else if input = SM_ENTER then
        (True, emit [BeginGesture GestureScroll]
           (go_place_cursor L (s\<lparr>go_justScrolled := True, go_lastStateChangeTime := go_now L s\<rparr>)))
      else if input = SM_EXIT then (True, (emit [EndGesture] s)\<lparr>m_flushOverlay := True\<rparr>)
      else if input = OMGO_NOT_TOUCHING then (True, go_goto State_2Fingers_Hovering s)
      else if input = OMGO_COUNT_UNCERTAIN \<or> input = OMGO_COUNT_THREEPLUS \<or>
              input = OMGO_COUNT_OTHER \<or> input = OMGO_COUNT_PALM
      then (True, go_goto State_GestureRecognition s)
      else if input = OMGO_PROCESS_FRAME then (True, go_scroll L s)
      else (True, s))"

text \<open>Both swipes of three or more fingers, which differ in the gesture they begin.\<close>

definition go_swipe ::
  "('f, 'h, 'p, 'e) env_scheme \<Rightarrow> u32 \<Rightarrow> sm_input \<Rightarrow> ('f, 'p) go \<Rightarrow> ('f, 'p) go_result" where
  "go_swipe L gesture input s =
     (if input = OMGO_LOST_FOCUS then (True, go_goto State_GestureRecognition s)
      else if input = SM_ENTER \<or> input = OMGO_PROCESS_FRAME then
        (let s1 = (if input = SM_ENTER then emit [BeginGesture gesture] s else s) in
         (True, case getFrameHavingAgeAtLeast (m_timedFrameHistory s1) (100 * MILLISECONDS) of
                  [] \<Rightarrow> s1
                | (_, frame) # _ \<Rightarrow>
                    go_goto State_Cooldown
                      (emit (go_generateDesktopSwipeBetweenFrames L (m_currentFrame s1) frame) s1)))
      else if input = SM_EXIT then (True, emit [EndGesture] s)
      else (True, s))"

definition go_3PlusFingers_SwipeVertical ::
  "('f, 'h, 'p, 'e) env_scheme \<Rightarrow> sm_input \<Rightarrow> ('f, 'p) go \<Rightarrow> ('f, 'p) go_result" where
  "go_3PlusFingers_SwipeVertical L = go_swipe L GestureDesktopSwipeVertical"

definition go_3PlusFingers_SwipeHorizontal ::
  "('f, 'h, 'p, 'e) env_scheme \<Rightarrow> sm_input \<Rightarrow> ('f, 'p) go \<Rightarrow> ('f, 'p) go_result" where
  "go_3PlusFingers_SwipeHorizontal L = go_swipe L GestureDesktopSwipeHorizontal"

text \<open>
  A palm swipe is applied when the state is left, over the tenth of a second before the counts
  began to change.
\<close>

definition palm_lag :: int where
  "palm_lag = trunc ((1 - BUCKET_THRESHOLD_LOW) * of_int GestureRecognitionDuration)"

definition go_Palm_Swipe ::
  "('f, 'h, 'p, 'e) env_scheme \<Rightarrow> sm_input \<Rightarrow> ('f, 'p) go \<Rightarrow> ('f, 'p) go_result" where
  "go_Palm_Swipe L input s =
     (if input = OMGO_LOST_FOCUS then (True, go_goto State_GestureRecognition s)
      else if input = SM_ENTER then (True, emit [BeginGesture GestureDesktopSwipeHorizontal] s)
      else if input = SM_EXIT then
        (True, emit [EndGesture]
           (case (getFrameHavingAgeAtLeast (m_timedFrameHistory s) (100 * MILLISECONDS + palm_lag),
                  getFrameHavingAgeAtLeast (m_timedFrameHistory s) palm_lag) of
              ((_, older) # _, (_, newer) # _) \<Rightarrow>
                emit (go_generateDesktopSwipeBetweenFrames L newer older) s
            | _ \<Rightarrow> s))
      else if input = OMGO_COUNT_UNCERTAIN \<or> input = OMGO_COUNT_TWO \<or>
              input = OMGO_COUNT_THREEPLUS \<or> input = OMGO_COUNT_OTHER
      then (True, go_goto State_Cooldown s)
      else (True, s))"

primrec go_handler ::
  "('f, 'h, 'p, 'e) env_scheme \<Rightarrow> go_state \<Rightarrow> sm_input \<Rightarrow> ('f, 'p) go \<Rightarrow> ('f, 'p) go_result" where
  "go_handler L State_GestureRecognition = go_GestureRecognition L"
| "go_handler L State_Cooldown = go_Cooldown L"
| "go_handler L State_2Fingers_Hovering = go_2Fingers_Hovering L"
| "go_handler L State_2Fingers_Scrolling = go_2Fingers_Scrolling L"
| "go_handler L State_3PlusFingers_SwipeVertical = go_3PlusFingers_SwipeVertical L"
| "go_handler L State_3PlusFingers_SwipeHorizontal = go_3PlusFingers_SwipeHorizontal L"
| "go_handler L State_Palm_Swipe = go_Palm_Swipe L"

section \<open>One frame\<close>

definition go_category :: "('f, 'h, 'p, 'e) env_scheme \<Rightarrow> ('f, 'p) go \<Rightarrow> count_bucket" where
  "go_category L s =
     (if go_shouldBeInPalmSwipeMode L s then PCBC_PALM
      else if length (m_relevantPointables s) > 0 \<and> length (m_relevantPointables s) \<le> 2 then PCBC_TWO
      else if length (m_relevantPointables s) > 2 then PCBC_THREEPLUS
      else PCBC_OTHER)"

text \<open>The categories younger than the recognition time; none when the history is too short.\<close>

definition count_window :: "count_bucket timed_history \<Rightarrow> count_bucket list option" where
  "count_window h =
     (case getFrameHavingAgeAtLeast h GestureRecognitionDuration of
        [] \<Rightarrow> None
      | rest \<Rightarrow> Some (map snd (take (length (th_pairs h) - length rest) (th_pairs h))))"

definition count_buckets :: "count_bucket timed_history \<Rightarrow> count_bucket \<Rightarrow> real" where
  "count_buckets h c =
     (case count_window h of
        None \<Rightarrow> (if c = PCBC_OTHER then 1 else 0)
      | Some w \<Rightarrow> real (count_list w c) / real (length w))"

text \<open>The input that the counts select, if any.\<close>

definition count_input :: "(count_bucket \<Rightarrow> real) \<Rightarrow> sm_input option" where
  "count_input b =
     (if b PCBC_TWO \<ge> BUCKET_THRESHOLD then Some OMGO_COUNT_TWO
      else if b PCBC_THREEPLUS \<ge> BUCKET_THRESHOLD then Some OMGO_COUNT_THREEPLUS
      else if b PCBC_OTHER \<ge> BUCKET_THRESHOLD then Some OMGO_COUNT_OTHER
      else if b PCBC_PALM \<ge> BUCKET_THRESHOLD then Some OMGO_COUNT_PALM
      else if b PCBC_TWO < BUCKET_THRESHOLD_LOW \<and> b PCBC_THREEPLUS < BUCKET_THRESHOLD_LOW \<and>
              b PCBC_OTHER < BUCKET_THRESHOLD_LOW \<and> b PCBC_PALM < BUCKET_THRESHOLD_LOW
      then Some OMGO_COUNT_UNCERTAIN
      else None)"

text \<open>The condition for a touching event may reset the favourite pointable.\<close>

definition touch_input ::
  "('f, 'h, 'p, 'e) env_scheme \<Rightarrow> ('f, 'p) go \<Rightarrow> sm_input option \<times> ('f, 'p) go" where
  "touch_input L s =
     (if go_noTouching s then (Some OMGO_NOT_TOUCHING, s)
      else if go_hasFingersTouching L (go_hand L s) then (Some OMGO_TOUCHING, s)
      else if \<not> h_valid L (go_hand L s) then
        (let s1 = favour L s in
         (if p_touchZone L (go_pointable L s1) = ZONE_TOUCHING then Some OMGO_TOUCHING else None, s1))
      else (None, s))"

definition go_run ::
  "('f, 'h, 'p, 'e) env_scheme \<Rightarrow> sm_input option \<Rightarrow> ('f, 'p) go \<Rightarrow> ('f, 'p) go outcome" where
  "go_run L i s = (case i of None \<Rightarrow> Done s | Some input \<Rightarrow> RunCurrentState (go_handler L) input s)"

definition go_record_count :: "('f, 'h, 'p, 'e) env_scheme \<Rightarrow> ('f, 'p) go \<Rightarrow> ('f, 'p) go" where
  "go_record_count L s =
     (let s1 = sm_assert (addFrame_in_order (go_now L s) (go_timedCountHistory s)) (OwnerAssertion 109) s
      in s1\<lparr>go_timedCountHistory := addFrame (go_now L s) (go_category L s) (go_timedCountHistory s1),
           go_noTouching := number_touching L (m_relevantPointables s1) = 0\<rparr>)"

definition go_Initialize ::
  "('f, 'h, 'p, 'e) env_scheme \<Rightarrow> ('f, 'p) go \<Rightarrow> ('f, 'p) go outcome" where
  "go_Initialize L s =
     (if \<not> IsInitialized s then Initialize (go_handler L) State_GestureRecognition s else Done s)"

definition go_fill_buckets :: "('f, 'p) go \<Rightarrow> ('f, 'p) go" where
  "go_fill_buckets s =
     (sm_assert (count_window (go_timedCountHistory s) \<noteq> Some []) (OwnerAssertion 78) s)
       \<lparr>go_pointableCountBucket := count_buckets (go_timedCountHistory s)\<rparr>"

definition go_clear_overlays :: "('f, 'h, 'p, 'e) env_scheme \<Rightarrow> ('f, 'p) go \<Rightarrow> ('f, 'p) go" where
  "go_clear_overlays L s =
     (if e_platform L = Apple \<and> m_flushOverlay s then emit (hide_icons 0 (gm_numOverlayImages s)) s else s)"

definition go_processFrameInternal ::
  "('f, 'h, 'p, 'e) env_scheme \<Rightarrow> ('f, 'p) go \<Rightarrow> ('f, 'p) go outcome" where
  "go_processFrameInternal L s =
     bind_outcome (go_Initialize L (go_record_count L s))
       (\<lambda>s1. let s2 = go_fill_buckets s1 in
          bind_outcome (go_run L (count_input (go_pointableCountBucket s2)) s2)
            (\<lambda>s3. case touch_input L s3 of (i, s4) \<Rightarrow>
               bind_outcome (go_run L i s4)
                 (\<lambda>s5. bind_outcome
                    (RunCurrentState (go_handler L) OMGO_PROCESS_FRAME (go_clear_overlays L s5))
                    (\<lambda>s6. Done (flushOverlay L s6)))))"

definition go_stopActiveEvents ::
  "('f, 'h, 'p, 'e) env_scheme \<Rightarrow> ('f, 'p) go \<Rightarrow> ('f, 'p) go outcome" where
  "go_stopActiveEvents L s = RunCurrentState (go_handler L) OMGO_LOST_FOCUS s"

definition go_destroy ::
  "('f, 'h, 'p, 'e) env_scheme \<Rightarrow> ('f, 'p) go \<Rightarrow> ('f, 'p) go outcome" where
  "go_destroy L s = bind_outcome (Shutdown (go_handler L) s) (\<lambda>t. Done (gim_destroy L t))"

definition go_virtual ::
  "('f, 'h, 'p, 'e) env_scheme \<Rightarrow> ('f, 'p, ('f, 'p) go) gim_virtual" where
  "go_virtual L =
     \<lparr>v_processFrameInternal = go_processFrameInternal L,
      v_identifyRelevantPointables = go_identifyRelevantPointables L,
      v_identifyCollectivePointableZone = identifyCollectivePointableZone L,
      v_setForemostPointable = (\<lambda>ps s. identifyForemostPointable L ps)\<rparr>"

definition go_processFrame ::
  "('f, 'h, 'p, 'e) env_scheme \<Rightarrow> 'f \<Rightarrow> 'f \<Rightarrow> ('f, 'p) go \<Rightarrow> ('f, 'p) go outcome" where
  "go_processFrame L frame since s = processFrame L (go_virtual L) frame since s"

end
