(* ===== verification/Gesture_Only_Safety.thy ===== *)
theory Gesture_Only_Safety
  imports Gesture_Only
begin

text \<open>
  What every state of the gesture-only mode keeps, and its life between calls. The mode is a
  \<open>mode_life\<close>: only the swipes of three or more fingers ask for another state when they are entered,
  and that state asks for none.
\<close>

section \<open>Fields the helpers leave alone\<close>

lemma perform_go [simp]:
  "go_noTouching (perform L k s) = go_noTouching s"
  "go_justScrolled (perform L k s) = go_justScrolled s"
  "go_gestureStart (perform L k s) = go_gestureStart s"
  "go_cooldownStartTime (perform L k s) = go_cooldownStartTime s"
  "go_lastStateChangeTime (perform L k s) = go_lastStateChangeTime s"
  "go_timedCountHistory (perform L k s) = go_timedCountHistory s"
  "go_pointableCountBucket (perform L k s) = go_pointableCountBucket s"
  "go_favoriteHandId (perform L k s) = go_favoriteHandId s"
  by (simp_all add: perform_def effects_def split_beta Let_def)

lemma emit_go [simp]:
  "go_noTouching (emit as s) = go_noTouching s" "go_justScrolled (emit as s) = go_justScrolled s"
  "go_gestureStart (emit as s) = go_gestureStart s"
  "go_cooldownStartTime (emit as s) = go_cooldownStartTime s"
  "go_lastStateChangeTime (emit as s) = go_lastStateChangeTime s"
  "go_timedCountHistory (emit as s) = go_timedCountHistory s"
  "go_pointableCountBucket (emit as s) = go_pointableCountBucket s"
  "go_favoriteHandId (emit as s) = go_favoriteHandId s"
  by (simp_all add: emit_def)

lemma favour_go [simp]:
  "go_noTouching (favour L s) = go_noTouching s" "go_justScrolled (favour L s) = go_justScrolled s"
  "go_gestureStart (favour L s) = go_gestureStart s"
  "go_cooldownStartTime (favour L s) = go_cooldownStartTime s"
  "go_lastStateChangeTime (favour L s) = go_lastStateChangeTime s"
  "go_timedCountHistory (favour L s) = go_timedCountHistory s"
  "go_pointableCountBucket (favour L s) = go_pointableCountBucket s"
  "go_favoriteHandId (favour L s) = go_favoriteHandId s"
  by (simp_all add: favour_def resetFavoritePointableId_def)

lemma go_goto_inside [simp]:
  "sm_running s \<Longrightarrow> sm_current s = Some c \<Longrightarrow> go_goto st s = s\<lparr>sm_next := Some st\<rparr>"
  by (simp add: go_goto_def)

section \<open>What the states keep\<close>

primrec go_gesture :: "go_state \<Rightarrow> u32" where
  "go_gesture State_GestureRecognition = GestureNone"
| "go_gesture State_Cooldown = GestureNone"
| "go_gesture State_2Fingers_Hovering = GestureNone"
| "go_gesture State_2Fingers_Scrolling = GestureScroll"
| "go_gesture State_3PlusFingers_SwipeVertical = GestureDesktopSwipeVertical"
| "go_gesture State_3PlusFingers_SwipeHorizontal = GestureDesktopSwipeHorizontal"
| "go_gesture State_Palm_Swipe = GestureDesktopSwipeHorizontal"

text \<open>
  What no handler changes: the base class's filters, history and touch set, the frame, and the
  history of counts.
\<close>

type_synonym 'f go_kept =
  "(nat, rolling) categorical \<times> (rts, rolling) categorical \<times> 'f timed_history \<times> bool \<times> 'f \<times>
   count_bucket timed_history"

definition go_kept :: "('f, 'p) go \<Rightarrow> 'f go_kept" where
  "go_kept s =
     (m_filteredPointableCount s, m_filteredRTS s, m_timedFrameHistory s, touches_ok (m_touchEvent s),
      m_currentFrame s, go_timedCountHistory s)"

text \<open>The tracker's two assertions on its argument are the only ones that may fail.\<close>

definition tracker_assertions :: "violation set" where
  "tracker_assertions = {OwnerAssertion 52, OwnerAssertion 56}"

definition go_between :: "'f go_kept \<Rightarrow> go_state \<Rightarrow> ('f, 'p) go \<Rightarrow> bool" where
  "go_between k nxt s \<longleftrightarrow>
     go_kept s = k \<and> buttons (out s) (Some False) = Some False \<and>
     set (sm_violations s) \<subseteq> tracker_assertions \<and>
     gestures (out s) (Some GestureNone) = Some GestureNone"

definition go_safe :: "'f go_kept \<Rightarrow> ('f, 'p) go \<Rightarrow> bool" where
  "go_safe k s \<longleftrightarrow>
     go_kept s = k \<and> buttons (out s) (Some False) = Some False \<and>
     set (sm_violations s) \<subseteq> tracker_assertions \<and>
     (\<exists>st. sm_current s = Some st \<and> gestures (out s) (Some GestureNone) = Some (go_gesture st))"

definition go_released :: "'f go_kept \<Rightarrow> ('f, 'p) go \<Rightarrow> bool" where
  "go_released k = go_between k State_GestureRecognition"

definition go_rank :: "go_state \<Rightarrow> ('f, 'p) go \<Rightarrow> nat" where
  "go_rank st s =
     (if st = State_3PlusFingers_SwipeVertical \<or> st = State_3PlusFingers_SwipeHorizontal then 1 else 0)"

definition go_input :: "sm_input \<Rightarrow> bool" where "go_input i \<longleftrightarrow> i \<le> OMGO_NOT_TOUCHING"

lemma go_input_cases:
  assumes "go_input i"
  shows "i \<in> {0, 1, 2, 3, 4, 5, 6, 7, 8}"
proof -
  have "unat i \<le> 8" using assms by (simp add: go_input_def word_le_nat_alt)
  then have "unat i \<in> {0, 1, 2, 3, 4, 5, 6, 7, 8}" by auto
  then have "word_of_nat (unat i) \<in> (word_of_nat ` {0, 1, 2, 3, 4, 5, 6, 7, 8} :: u32 set)" by blast
  then show ?thesis by simp
qed

named_theorems go_handlers \<open>the handlers and what they are made of\<close>

lemmas [go_handlers] = go_GestureRecognition_def go_Cooldown_def go_2Fingers_Hovering_def
  go_2Fingers_Scrolling_def go_3PlusFingers_SwipeVertical_def go_3PlusFingers_SwipeHorizontal_def
  go_swipe_def go_Palm_Swipe_def

text \<open>The parts of the two-finger states.\<close>

lemma go_applies [simp]:
  "gestures (go_generateScrollBetweenFrames L f g) (Some GestureScroll) = Some GestureScroll"
  "gestures (go_generateDesktopSwipeBetweenFrames L f g) (Some GestureDesktopSwipeHorizontal) =
     Some GestureDesktopSwipeHorizontal"
  "gestures (go_generateDesktopSwipeBetweenFrames L f g) (Some GestureDesktopSwipeVertical) =
     Some GestureDesktopSwipeVertical"
  "buttons (go_generateScrollBetweenFrames L f g) d = d"
  "buttons (go_generateDesktopSwipeBetweenFrames L f g) d = d"
  by (simp_all add: go_generateScrollBetweenFrames_def go_generateDesktopSwipeBetweenFrames_def
      gesture_step_def button_step_quiet Let_def)

definition go_same :: "('f, 'p) go \<Rightarrow> ('f, 'p) go \<Rightarrow> bool" where
  "go_same t s \<longleftrightarrow>
     sm_current t = sm_current s \<and> sm_running t = sm_running s \<and> sm_logger t = sm_logger s \<and>
     sm_next t = sm_next s \<and> go_kept t = go_kept s \<and>
     (set (sm_violations s) \<subseteq> tracker_assertions \<longrightarrow> set (sm_violations t) \<subseteq> tracker_assertions) \<and>
     buttons (out t) (Some False) = buttons (out s) (Some False)"

lemma go_sameD:
  assumes "go_same t s"
  shows "sm_current t = sm_current s" "sm_running t = sm_running s" "sm_logger t = sm_logger s"
    "sm_next t = sm_next s" "go_kept t = go_kept s"
    "buttons (out t) (Some False) = buttons (out s) (Some False)"
    "set (sm_violations s) \<subseteq> tracker_assertions \<Longrightarrow> set (sm_violations t) \<subseteq> tracker_assertions"
  using assms by (simp_all add: go_same_def)

lemma go_parts_same:
  "go_same (go_enter_hovering L s) s" "go_same (go_hover L s) s" "go_same (go_place_cursor L s) s"
  "go_same (go_scroll L s) s"
  by (simp_all add: go_same_def go_kept_def go_enter_hovering_def go_hover_def go_place_cursor_def
      go_scroll_def Let_def resetFavoritePointableId_def tracker_assertions_def)

lemmas go_parts [simp] = go_parts_same [THEN go_sameD(1)] go_parts_same [THEN go_sameD(2)]
  go_parts_same [THEN go_sameD(3)] go_parts_same [THEN go_sameD(4)] go_parts_same [THEN go_sameD(5)]
  go_parts_same [THEN go_sameD(6)] go_parts_same [THEN go_sameD(7)]

lemma go_parts_gestures [simp]:
  "gestures (out (go_enter_hovering L s)) g = gestures (out s) g"
  "gestures (out (go_hover L s)) g = gestures (out s) g"
  "gestures (out (go_place_cursor L s)) g = gestures (out s) g"
  "gestures (out s) g = Some GestureScroll \<Longrightarrow> gestures (out (go_scroll L s)) g = Some GestureScroll"
  by (simp_all add: go_enter_hovering_def go_hover_def go_place_cursor_def go_scroll_def Let_def
      resetFavoritePointableId_def)

lemma go_kept_updates [simp]:
  "go_kept (s\<lparr>sm_running := b\<rparr>) = go_kept s" "go_kept (s\<lparr>sm_next := n\<rparr>) = go_kept s"
  "go_kept (s\<lparr>sm_current := c\<rparr>) = go_kept s" "go_kept (s\<lparr>sm_violations := vs\<rparr>) = go_kept s"
  "go_kept (s\<lparr>go_justScrolled := b\<rparr>) = go_kept s" "go_kept (s\<lparr>go_gestureStart := f\<rparr>) = go_kept s"
  "go_kept (s\<lparr>go_cooldownStartTime := i\<rparr>) = go_kept s"
  "go_kept (s\<lparr>go_lastStateChangeTime := i\<rparr>) = go_kept s"
  "go_kept (s\<lparr>go_favoriteHandId := i\<rparr>) = go_kept s" "go_kept (s\<lparr>m_flushOverlay := b\<rparr>) = go_kept s"
  "go_kept (s\<lparr>m_favoritePointableId := i\<rparr>) = go_kept s"
  "go_kept (emit as s) = go_kept s" "go_kept (perform L q s) = go_kept s" "go_kept (favour L s) = go_kept s"
  by (simp_all add: go_kept_def)

section \<open>The handlers\<close>

lemma go_handler_fields [simp]:
  "sm_current (snd (go_handler L st i s)) = sm_current s"
  "sm_running (snd (go_handler L st i s)) = sm_running s"
  "sm_logger (snd (go_handler L st i s)) = sm_logger s"
  by (cases st; simp add: go_handlers go_goto_def SetNextState_def Let_def split: list.split option.split)+

lemma go_exit_next [simp]: "sm_next (snd (go_handler L st SM_EXIT s)) = sm_next s"
  by (cases st) (simp_all add: go_handlers Let_def split: list.split)

lemma go_clear_tracker [simp]:
  "set (sm_violations s) \<subseteq> tracker_assertions \<Longrightarrow>
   set (sm_violations (perform L ClearTracker s)) \<subseteq> tracker_assertions"
  by simp

lemma go_leave:
  assumes "go_safe k s" "sm_current s = Some st"
  shows "go_between k nxt (exited_by (go_handler L) st s)"
  using assms unfolding exited_by_def
  by (cases st)
    (auto simp: go_handlers go_safe_def go_between_def gesture_step_def button_step_quiet Let_def
      split: list.split)

lemma go_enter:
  assumes "go_between k nxt s"
  shows "go_safe k (entered_by (go_handler L) nxt s)"
  using assms unfolding entered_by_def
  by (cases nxt)
    (auto simp: go_handlers go_safe_def go_between_def gesture_step_def button_step_quiet Let_def
      time_units split: list.split option.split)

lemma go_enter_asks:
  assumes "sm_next (entered_by (go_handler L) nxt s) = Some n"
  shows "(nxt = State_3PlusFingers_SwipeVertical \<or> nxt = State_3PlusFingers_SwipeHorizontal) \<and>
    n = State_Cooldown"
  using assms unfolding entered_by_def
  by (cases nxt) (auto simp: go_handlers go_now_def Let_def time_units split: list.splits)

lemma go_handled:
  assumes "go_safe k s" "sm_current s = Some st" "sm_running s" "go_input i"
  shows "fst (go_handler L st i s) \<and> go_safe k (snd (go_handler L st i s))"
proof
  show "fst (go_handler L st i s)"
    by (cases st) (simp_all add: go_handlers Let_def split: list.split)
  show "go_safe k (snd (go_handler L st i s))"
    using assms(1-3) go_input_cases [OF assms(4)]
    by (cases st)
      (auto simp: go_handlers go_safe_def gesture_step_def button_step_quiet Let_def
        split: list.split option.split)
qed

interpretation go_owner: mode_life "go_handler L" go_input "go_safe k" "go_between k" "go_released k" go_rank
  State_GestureRecognition for L k
proof unfold_locales
  show "i \<noteq> SM_INVALID \<and> i \<noteq> SM_EXIT \<and> i \<le> SM_HIGHEST_USER_INPUT_VALUE" if "go_input i" for i
    using go_input_cases [OF that] by auto
  show "go_between k nxt (exited_by (go_handler L) st s)"
    if "go_safe k s" "sm_current s = Some st" for s st nxt
    using go_leave [OF that] .
  show "go_released k (exited_by (go_handler L) st s)"
    if "go_safe k s" "sm_current s = Some st" for s st
    using go_leave [OF that] by (simp add: go_released_def)
  show "go_safe k (entered_by (go_handler L) nxt s)" if "go_between k nxt s" for nxt s
    using go_enter [OF that] .
  show "go_rank n (entered_by (go_handler L) nxt s) < go_rank nxt s"
    if "sm_next (entered_by (go_handler L) nxt s) = Some n" for n nxt s
    using go_enter_asks [OF that] by (auto simp: go_rank_def)
  show "fst (go_handler L st i s) \<and> go_safe k (snd (go_handler L st i s))"
    if "go_safe k s" "sm_current s = Some st" "sm_running s" "go_input i" for s st i
    using go_handled [OF that] .
qed (simp_all add: go_safe_def go_between_def go_released_def go_rank_def)

end
