(* ===== verification/Gesture_Only_Properties.thy ===== *)
theory Gesture_Only_Properties
  imports Gesture_Only_Safety Sample_Sdk
begin

text \<open>
  The life of a \<open>GestureOnlyMode\<close> object and what it promises: every frame is processed to its end,
  its gestures are bracketed and it presses nothing, the counts select at most one event, and the
  only assertions it can fail are those of the position tracker.
\<close>

section \<open>Counting\<close>

lemma count_window_nonempty:
  assumes "th_pairs h = p # ps"
  shows "count_window h \<noteq> Some []"
proof -
  let ?rest = "getFrameHavingAgeAtLeast h GestureRecognitionDuration"
  have "?rest = dropWhile (\<lambda>q. fst p - fst q < GestureRecognitionDuration) ps"
    using assms by (simp add: getFrameHavingAgeAtLeast_def skip_younger_def
        GestureRecognitionDuration_def time_units)
  then have "length ?rest < length (th_pairs h)"
    using assms by (simp add: length_dropWhile_le le_imp_less_Suc)
  then show ?thesis
    using assms by (auto simp: count_window_def split: list.split)
qed

lemma count_list_total:
  "count_list w PCBC_TWO + count_list w PCBC_THREEPLUS + count_list w PCBC_OTHER +
     count_list w PCBC_PALM = length w"
proof (induction w)
  case (Cons c w)
  then show ?case by (cases c) auto
qed simp

lemma count_buckets_shares:
  assumes "th_pairs h \<noteq> []"
  shows "0 \<le> count_buckets h c"
    "count_buckets h PCBC_TWO + count_buckets h PCBC_THREEPLUS + count_buckets h PCBC_OTHER +
       count_buckets h PCBC_PALM = 1"
proof -
  show "0 \<le> count_buckets h c" by (simp add: count_buckets_def split: option.split)
  obtain p ps where p: "th_pairs h = p # ps" using assms by (cases "th_pairs h") auto
  show "count_buckets h PCBC_TWO + count_buckets h PCBC_THREEPLUS + count_buckets h PCBC_OTHER +
       count_buckets h PCBC_PALM = 1"
  proof (cases "count_window h")
    case None
    then show ?thesis by (simp add: count_buckets_def)
  next
    case (Some w)
    with count_window_nonempty [OF p] have "0 < real (length w)" by auto
    moreover have "real (count_list w PCBC_TWO) + real (count_list w PCBC_THREEPLUS) +
        real (count_list w PCBC_OTHER) + real (count_list w PCBC_PALM) = real (length w)"
      using count_list_total [of w] by linarith
    ultimately show ?thesis
      using Some by (simp add: count_buckets_def add_divide_distrib [symmetric])
  qed
qed

primrec bucket_event :: "count_bucket \<Rightarrow> sm_input" where
  "bucket_event PCBC_TWO = OMGO_COUNT_TWO"
| "bucket_event PCBC_THREEPLUS = OMGO_COUNT_THREEPLUS"
| "bucket_event PCBC_OTHER = OMGO_COUNT_OTHER"
| "bucket_event PCBC_PALM = OMGO_COUNT_PALM"

text \<open>
  C12 The counts select at most one event, and the order of the tests is immaterial. Once a frame has
  been recorded the four shares are nonnegative and add up to one; the event of a category is sent
  exactly when its share reaches three quarters, the uncertain event exactly when every share is
  below one half, and in between none is sent.
\<close>

theorem count_decision:
  assumes "th_pairs h \<noteq> []"
  shows "(\<forall>c. 0 \<le> count_buckets h c) \<and>
    count_buckets h PCBC_TWO + count_buckets h PCBC_THREEPLUS + count_buckets h PCBC_OTHER +
      count_buckets h PCBC_PALM = 1 \<and>
    (\<forall>c. count_input (count_buckets h) = Some (bucket_event c) \<longleftrightarrow> 3 / 4 \<le> count_buckets h c) \<and>
    (count_input (count_buckets h) = Some OMGO_COUNT_UNCERTAIN \<longleftrightarrow> (\<forall>c. count_buckets h c < 1 / 2))"
proof -
  let ?b = "count_buckets h"
  note n = count_buckets_shares(1) [OF assms] and t = count_buckets_shares(2) [OF assms]
  have all: "(\<forall>c. P c) \<longleftrightarrow> P PCBC_TWO \<and> P PCBC_THREEPLUS \<and> P PCBC_OTHER \<and> P PCBC_PALM" for P
    by (metis count_bucket.exhaust)
  note e = n [of PCBC_TWO] n [of PCBC_THREEPLUS] n [of PCBC_OTHER] n [of PCBC_PALM] t
  have "count_input ?b = Some (bucket_event c) \<longleftrightarrow> 3 / 4 \<le> ?b c" for c
    using e by (cases c) (auto simp: count_input_def BUCKET_THRESHOLD_def BUCKET_THRESHOLD_LOW_def)
  moreover have "count_input ?b = Some OMGO_COUNT_UNCERTAIN \<longleftrightarrow> (\<forall>c. ?b c < 1 / 2)"
    unfolding all using e by (auto simp: count_input_def BUCKET_THRESHOLD_def BUCKET_THRESHOLD_LOW_def)
  ultimately show ?thesis using n t by simp
qed

definition sample_counts :: "count_bucket timed_history" where
  "sample_counts =
     \<lparr>th_pairs = [(200000, PCBC_TWO), (150000, PCBC_TWO), (140000, PCBC_TWO), (120000, PCBC_OTHER),
                  (90000, PCBC_PALM)], m_historyDuration = 500000\<rparr>"

theorem count_decision_witness:
  "count_input (count_buckets sample_counts) = Some OMGO_COUNT_TWO"
proof -
  have "3 / 4 \<le> count_buckets sample_counts PCBC_TWO"
    by (simp add: sample_counts_def count_buckets_def count_window_def getFrameHavingAgeAtLeast_def
        skip_younger_def GestureRecognitionDuration_def time_units)
  with count_decision [of sample_counts] show ?thesis
    by (auto simp: sample_counts_def dest: spec [of _ PCBC_TWO])
qed

section \<open>The invariant between calls\<close>

text \<open>The newest count is no newer than the newest frame.\<close>

definition counts_follow :: "'f timed_history \<Rightarrow> count_bucket timed_history \<Rightarrow> bool" where
  "counts_follow frames counts \<longleftrightarrow>
     th_pairs counts = [] \<or>
     th_pairs frames \<noteq> [] \<and> fst (hd (th_pairs counts)) \<le> fst (hd (th_pairs frames))"

definition go_inv :: "('f, 'p) go \<Rightarrow> bool" where
  "go_inv s \<longleftrightarrow>
     gim_ok s \<and> counts_follow (m_timedFrameHistory s) (go_timedCountHistory s) \<and>
     go_owner.alive (go_kept s) s"

lemma go_keptD:
  assumes "go_kept t = go_kept s"
  shows "gim_ok t \<longleftrightarrow> gim_ok s" "m_timedFrameHistory t = m_timedFrameHistory s"
    "go_timedCountHistory t = go_timedCountHistory s" "m_currentFrame t = m_currentFrame s"
  using assms by (simp_all add: go_kept_def gim_ok_def)

lemma go_alive_kept: "go_owner.alive k t \<Longrightarrow> go_kept t = k"
  by (simp add: go_owner.alive_def go_safe_def go_between_def split: if_splits)

lemma go_inv_alive:
  assumes "go_inv s" "go_owner.alive (go_kept s) t"
  shows "go_inv t \<and> go_kept t = go_kept s"
  using assms go_alive_kept [OF assms(2)] go_keptD [of t s] by (simp add: go_inv_def)

lemma go_run_inv:
  assumes "go_inv s" "IsInitialized s" "go_input i"
  shows "\<exists>t. RunCurrentState (go_handler L) i s = Done t \<and> go_inv t \<and> IsInitialized t \<and>
    go_kept t = go_kept s"
  using go_owner.run_alive [OF _ assms(2,3), of "go_kept s" L] assms(1) go_inv_alive [OF assms(1)]
  by (auto simp: go_inv_def)

lemma go_option_run_inv:
  assumes "go_inv s" "IsInitialized s" "\<And>j. i = Some j \<Longrightarrow> go_input j"
  shows "\<exists>t. go_run L i s = Done t \<and> go_inv t \<and> IsInitialized t \<and> go_kept t = go_kept s"
  using go_run_inv [OF assms(1,2)] assms by (cases i) (auto simp: go_run_def)

lemma go_Initialize_inv:
  assumes "go_inv s"
  shows "\<exists>t. go_Initialize L s = Done t \<and> go_inv t \<and> IsInitialized t \<and> go_kept t = go_kept s"
  using go_owner.initialize_alive [of "go_kept s" s L] assms go_inv_alive [OF assms]
  unfolding go_Initialize_def go_inv_def by blast

text \<open>Steps that change only what the invariant does not depend on.\<close>

lemma go_inv_cong:
  assumes "go_inv s" "go_kept t = go_kept s" "sm_current t = sm_current s" "sm_next t = sm_next s"
    "sm_running t = sm_running s" "sm_logger t = sm_logger s" "sm_violations t = sm_violations s"
    "buttons (out t) (Some False) = buttons (out s) (Some False)"
    "gestures (out t) (Some GestureNone) = gestures (out s) (Some GestureNone)"
  shows "go_inv t \<and> (IsInitialized t \<longleftrightarrow> IsInitialized s)"
  using assms go_keptD [OF assms(2)]
  by (auto simp: go_inv_def go_owner.alive_def go_safe_def go_between_def IsInitialized_def)

lemma go_trimmings:
  assumes "go_inv s"
  shows "go_inv (favour L s)" "go_inv (go_clear_overlays L s)" "go_inv (flushOverlay L s)"
    "go_inv (gim_destroy L s)"
    "IsInitialized (favour L s) \<longleftrightarrow> IsInitialized s"
    "IsInitialized (go_clear_overlays L s) \<longleftrightarrow> IsInitialized s"
    "IsInitialized (flushOverlay L s) \<longleftrightarrow> IsInitialized s"
    "go_kept (favour L s) = go_kept s" "go_kept (go_clear_overlays L s) = go_kept s"
    "go_kept (flushOverlay L s) = go_kept s"
  using go_inv_cong [OF assms, of "favour L s"] go_inv_cong [OF assms, of "go_clear_overlays L s"]
    go_inv_cong [OF assms, of "flushOverlay L s"] go_inv_cong [OF assms, of "gim_destroy L s"]
  by (simp_all add: go_clear_overlays_def flushOverlay_def gim_destroy_def button_step_quiet
      gesture_step_quiet)

lemma go_record_count_inv:
  assumes "go_inv s" "th_pairs (m_timedFrameHistory s) = (go_now L s, f) # rest"
  shows "go_inv (go_record_count L s)"
    "th_pairs (go_timedCountHistory (go_record_count L s)) \<noteq> []"
proof -
  have o: "addFrame_in_order (go_now L s) (go_timedCountHistory s)"
    using assms by (auto simp: go_inv_def counts_follow_def addFrame_in_order_def)
  obtain qs where q: "th_pairs (addFrame (go_now L s) (go_category L s) (go_timedCountHistory s)) =
      (go_now L s, go_category L s) # qs"
    using addFrame_hd [of "go_now L s" "go_category L s" "go_timedCountHistory s"] by blast
  show "go_inv (go_record_count L s)"
    using assms q
    by (auto simp: go_record_count_def o Let_def go_inv_def go_owner.alive_def counts_follow_def gim_ok_def
        IsInitialized_def go_safe_def go_between_def)
  show "th_pairs (go_timedCountHistory (go_record_count L s)) \<noteq> []"
    using q by (simp add: go_record_count_def o Let_def)
qed

lemma go_fill_buckets_inv:
  assumes "go_inv s" "th_pairs (go_timedCountHistory s) \<noteq> []"
  shows "go_inv (go_fill_buckets s)" "IsInitialized (go_fill_buckets s) \<longleftrightarrow> IsInitialized s"
    "go_kept (go_fill_buckets s) = go_kept s"
proof -
  have w: "count_window (go_timedCountHistory s) \<noteq> Some []"
    using assms(2) count_window_nonempty by (cases "th_pairs (go_timedCountHistory s)") auto
  have k: "go_kept (go_fill_buckets s) = go_kept s"
    by (simp add: go_fill_buckets_def w go_kept_def)
  then show "go_kept (go_fill_buckets s) = go_kept s" .
  from go_inv_cong [OF assms(1) k]
  show "go_inv (go_fill_buckets s)" "IsInitialized (go_fill_buckets s) \<longleftrightarrow> IsInitialized s"
    by (simp_all add: go_fill_buckets_def w)
qed

lemma count_input_valid: "count_input b = Some i \<Longrightarrow> go_input i"
  by (auto simp: count_input_def go_input_def word_le_nat_alt split: if_splits)

lemma touch_input_inv:
  assumes "go_inv s" "touch_input L s = (i, t)"
  shows "go_inv t" "IsInitialized t \<longleftrightarrow> IsInitialized s" "go_kept t = go_kept s"
    "i = Some j \<Longrightarrow> go_input j"
  using assms go_trimmings [OF assms(1), of L]
  by (auto simp: touch_input_def go_input_def word_le_nat_alt Let_def split: if_splits)

lemma go_processFrameInternal_inv:
  assumes "go_inv s" "th_pairs (m_timedFrameHistory s) = (go_now L s, f) # rest"
  shows "\<exists>t. go_processFrameInternal L s = Done t \<and> go_inv t \<and> IsInitialized t"
proof -
  note r = go_record_count_inv [OF assms]
  obtain s1 where s1: "go_Initialize L (go_record_count L s) = Done s1" "go_inv s1" "IsInitialized s1"
    "go_kept s1 = go_kept (go_record_count L s)" using go_Initialize_inv [OF r(1)] by blast
  have c: "th_pairs (go_timedCountHistory s1) \<noteq> []" using r(2) go_keptD(3) [OF s1(4)] by simp
  note b = go_fill_buckets_inv [OF s1(2) c]
  let ?s2 = "go_fill_buckets s1"
  obtain s3 where s3: "go_run L (count_input (go_pointableCountBucket ?s2)) ?s2 = Done s3" "go_inv s3"
    "IsInitialized s3"
    using go_option_run_inv [OF b(1), of "count_input (go_pointableCountBucket ?s2)" L] b(2) s1(3)
      count_input_valid by blast
  obtain i s4 where s4: "touch_input L s3 = (i, s4)" by fastforce
  note t = touch_input_inv [OF s3(2) s4]
  obtain s5 where s5: "go_run L i s4 = Done s5" "go_inv s5" "IsInitialized s5"
    using go_option_run_inv [OF t(1), of i L] t(2,4) s3(3) by blast
  note cl = go_trimmings [OF s5(2), of L]
  obtain s6 where s6: "RunCurrentState (go_handler L) OMGO_PROCESS_FRAME (go_clear_overlays L s5) = Done s6"
    "go_inv s6" "IsInitialized s6"
    using go_run_inv [OF cl(2), of OMGO_PROCESS_FRAME L] cl(6) s5(3) by (auto simp: go_input_def)
  from s1(1) s3(1) s4 s5(1) s6 go_trimmings [OF s6(2), of L] show ?thesis
    by (simp add: go_processFrameInternal_def Let_def)
qed

lemma observe_frame_history:
  "observe_frame L V frame since s = Some t \<Longrightarrow>
   m_timedFrameHistory t = addFrame (fr_timestamp L frame) frame (m_timedFrameHistory s)"
  by (auto simp: observe_frame_def Let_def split: option.splits prod.splits)

lemma go_processFrame_inv:
  assumes "go_inv s" "sdk_probabilities L"
    and ord: "addFrame_in_order (fr_timestamp L frame) (m_timedFrameHistory s)"
  shows "\<exists>t. go_processFrame L frame since s = Done t \<and> go_inv t \<and> IsInitialized t"
proof -
  have "gim_ok s" using assms(1) by (simp add: go_inv_def)
  from observe_frame_ok [OF this ord assms(2)] obtain t
    where t: "observe_frame L (go_virtual L) frame since s = Some t" "gim_ok t" "m_currentFrame t = frame"
      "sm_current t = sm_current s" "sm_next t = sm_next s" "sm_running t = sm_running s"
      "sm_logger t = sm_logger s" "sm_violations t = sm_violations s" "out t = out s"
      "gim.more t = gim.more s" by metis
  obtain qs where q: "th_pairs (m_timedFrameHistory t) = (fr_timestamp L frame, frame) # qs"
    using observe_frame_history [OF t(1)]
      addFrame_hd [of "fr_timestamp L frame" frame "m_timedFrameHistory s"] by auto
  have c: "go_timedCountHistory t = go_timedCountHistory s" using t(10) by (cases t; cases s) simp
  have "counts_follow (m_timedFrameHistory t) (go_timedCountHistory t)"
    using assms(1) ord q
    by (auto simp: c go_inv_def counts_follow_def addFrame_in_order_def)
  with assms(1) t have "go_inv t"
    by (auto simp: go_inv_def go_owner.alive_def go_safe_def go_between_def IsInitialized_def)
  moreover have "th_pairs (m_timedFrameHistory t) = (go_now L t, frame) # qs"
    using q t(3) by (simp add: go_now_def)
  ultimately show ?thesis
    using go_processFrameInternal_inv [of t L frame qs] t(1)
    by (simp add: go_processFrame_def processFrame_def go_virtual_def)
qed

lemma go_new_inv:
  fixes L :: "('f, 'h, 'p, 'e) env_scheme"
  shows "\<exists>s. GestureOnlyMode L i j b = Inr s \<and> go_inv s \<and> \<not> IsInitialized s \<and>
    th_pairs (m_timedFrameHistory s) = []"
proof -
  obtain g :: "(go_state, 'f, 'p) gim" where g: "GestureInteractionManager L = Inr g" "gim_ok g"
    "out g = []" "machine.truncate g = sm_new"
    "m_timedFrameHistory g = TimedHistory (500 * MILLISECONDS)"
    using gim_new by blast
  then show ?thesis
    by (cases g) (auto simp: GestureOnlyMode_def go_inv_def go_owner.alive_def IsInitialized_def go_between_def
        gim.defs gesture_only.defs machine.defs sm_new_def gim_ok_def TimedHistory_def
        counts_follow_def go_kept_def)
qed

section \<open>Reachable states\<close>

inductive go_reachable :: "('f, 'h, 'p, 'e) env_scheme \<Rightarrow> ('f, 'p) go \<Rightarrow> bool" for L where
  new: "GestureOnlyMode L i j b = Inr s \<Longrightarrow> go_reachable L s"
| frame: "go_reachable L s \<Longrightarrow> addFrame_in_order (fr_timestamp L f) (m_timedFrameHistory s) \<Longrightarrow>
    go_processFrame L f since s = Done t \<Longrightarrow> go_reachable L t"
| lost_focus: "go_reachable L s \<Longrightarrow> IsInitialized s \<Longrightarrow> go_stopActiveEvents L s = Done t \<Longrightarrow>
    go_reachable L t"

lemma go_reachable_inv:
  assumes "go_reachable L s" "sdk_probabilities L"
  shows "go_inv s"
  using assms
proof (induction rule: go_reachable.induct)
  case (new i j b s)
  then show ?case using go_new_inv [of L i j b] by auto
next
  case (frame s f since t)
  then show ?case using go_processFrame_inv [of s L f since] by auto
next
  case (lost_focus s t)
  then show ?case
    using go_run_inv [of s OMGO_LOST_FOCUS L] by (auto simp: go_stopActiveEvents_def go_input_def)
qed

lemma go_sample_start:
  obtains s where "GestureOnlyMode (sample p) 0 0 (\<lambda>c. 0) = Inr s" "go_reachable (sample p) s"
    "th_pairs (m_timedFrameHistory s) = []"
  using go_new_inv [of "sample p" 0 0 "\<lambda>c. 0"] go_reachable.new by blast

section \<open>The mode's promises\<close>

text \<open>
  C11 Every frame of the gesture-only mode is processed to its end. Whatever came before, as long as
  frames arrive in order, \<open>processFrame\<close> returns, with up to three runs of the state machine, each of
  which settles.
\<close>

theorem gesture_only_frame_returns:
  assumes "go_reachable L s" "sdk_probabilities L"
    and "addFrame_in_order (fr_timestamp L f) (m_timedFrameHistory s)"
  shows "\<exists>t. go_processFrame L f since s = Done t \<and> IsInitialized t \<and> go_reachable L t"
proof -
  obtain t where t: "go_processFrame L f since s = Done t" "IsInitialized t"
    using go_processFrame_inv [OF go_reachable_inv [OF assms(1,2)] assms(2,3)] by blast
  from go_reachable.frame [OF assms(1,3) t(1)] t show ?thesis by blast
qed

theorem gesture_only_frame_returns_witness:
  "\<exists>s t. GestureOnlyMode (sample Windows) 0 0 (\<lambda>c. 0) = Inr s \<and>
     go_processFrame (sample Windows) (s_empty 0) (s_empty 0) s = Done t"
proof -
  obtain s where s: "GestureOnlyMode (sample Windows) 0 0 (\<lambda>c. 0) = Inr s" "go_reachable (sample Windows) s"
    "th_pairs (m_timedFrameHistory s) = []"
    using go_sample_start by blast
  then have "addFrame_in_order (fr_timestamp (sample Windows) (s_empty 0)) (m_timedFrameHistory s)"
    by (simp add: addFrame_in_order_def)
  from gesture_only_frame_returns [OF s(2) sample_probabilities this, where since = "s_empty 0"] s(1)
  show ?thesis by blast
qed

text \<open>
  C10 The gesture-only mode brackets its gestures and clicks nothing. Over everything it has emitted no
  gesture begins inside another, none ends that was not begun and each amount belongs to the gesture
  begun; between two calls the gesture in progress is the one of the current state and the button is
  up. The only assertions it can fail are the position tracker's on an invalid hand or pointable.
\<close>

theorem gesture_only_bracketed:
  assumes "go_reachable L s" "sdk_probabilities L"
  shows "gestures (out s) (Some GestureNone) =
      Some (case sm_current s of None \<Rightarrow> GestureNone | Some st \<Rightarrow> go_gesture st) \<and>
    buttons (out s) (Some False) = Some False \<and>
    set (sm_violations s) \<subseteq> {OwnerAssertion 52, OwnerAssertion 56}"
  using go_reachable_inv [OF assms]
  by (auto simp: go_inv_def go_owner.alive_def go_safe_def go_between_def tracker_assertions_def
      IsInitialized_def split: if_splits)

theorem gesture_only_bracketed_witness:
  "\<exists>s. GestureOnlyMode (sample Apple) 0 0 (\<lambda>c. 0) = Inr s \<and>
     gestures (out s) (Some GestureNone) =
       Some (case sm_current s of None \<Rightarrow> GestureNone | Some st \<Rightarrow> go_gesture st)"
proof -
  obtain s where s: "GestureOnlyMode (sample Apple) 0 0 (\<lambda>c. 0) = Inr s" "go_reachable (sample Apple) s"
    using go_sample_start by blast
  from gesture_only_bracketed [OF s(2) sample_probabilities] s(1) show ?thesis by blast
qed

text \<open>
  Destroying the gesture-only mode at any moment ends the gesture in progress: what it has emitted
  by then is a complete sequence of gestures.
\<close>

theorem gesture_only_destroy_releases:
  assumes "go_reachable L s" "sdk_probabilities L"
  shows "\<exists>t. go_destroy L s = Done t \<and> \<not> IsInitialized t \<and>
    gestures (out t) (Some GestureNone) = Some GestureNone"
proof -
  have "go_owner.alive (go_kept s) s" using go_reachable_inv [OF assms] by (simp add: go_inv_def)
  from go_owner.shutdown_alive [OF this, of L] show ?thesis
    by (auto simp: go_destroy_def gim_destroy_def go_released_def go_between_def IsInitialized_def
        gesture_step_quiet)
qed

theorem gesture_only_destroy_releases_witness:
  "\<exists>s t. GestureOnlyMode (sample Linux) 0 0 (\<lambda>c. 0) = Inr s \<and> go_destroy (sample Linux) s = Done t \<and>
     gestures (out t) (Some GestureNone) = Some GestureNone"
proof -
  obtain s where s: "GestureOnlyMode (sample Linux) 0 0 (\<lambda>c. 0) = Inr s" "go_reachable (sample Linux) s"
    using go_sample_start by blast
  from gesture_only_destroy_releases [OF s(2) sample_probabilities] s(1) show ?thesis by blast
qed

text \<open>
  Losing the hand while hovering fails an assertion. The hovering state keeps the id of the hand it
  follows; once that hand has left the frame and another pointable is the favourite, the state hands
  the invalid hand to the position tracker, which asserts (l. 52) that it is valid. The state does
  not change, so the assertion fails again with every such frame.
\<close>

theorem gesture_only_tracks_lost_hand:
  assumes "go_inv s" "sm_current s = Some State_2Fingers_Hovering"
    and "0 \<le> go_favoriteHandId s"
    and "\<not> h_valid L (fr_hand L (m_currentFrame s) (go_favoriteHandId s))"
    and "p_valid L (fr_pointable L (m_currentFrame s) (m_favoritePointableId s))"
    and "0 \<le> m_favoritePointableId s"
  shows "\<exists>t. RunCurrentState (go_handler L) OMGO_PROCESS_FRAME s = Done t \<and>
    OwnerAssertion 52 \<in> set (sm_violations t) \<and> sm_current t = Some State_2Fingers_Hovering"
proof -
  have i: "\<not> sm_logger s" "\<not> sm_running s" "sm_next s = None"
    using assms(1) by (simp_all add: go_inv_def go_owner.alive_def)
  have "favour L (s\<lparr>sm_next := None, sm_running := True\<rparr>) = s\<lparr>sm_next := None, sm_running := True\<rparr>"
    using assms(5,6) by (simp add: favour_def)
  then have "OwnerAssertion 52 \<in> set (sm_violations (go_hover L (s\<lparr>sm_next := None, sm_running := True\<rparr>)))"
    using assms(3-5) by (simp add: go_hover_def go_pointable_def go_hand_def Let_def)
  then have "OwnerAssertion 52 \<in> set (sm_violations (sm_first (go_handler L) OMGO_PROCESS_FRAME s))"
    and "sm_next (sm_first (go_handler L) OMGO_PROCESS_FRAME s) = None"
    and "sm_current (sm_first (go_handler L) OMGO_PROCESS_FRAME s) = Some State_2Fingers_Hovering"
    using i assms(2) by (simp_all add: sm_first_def call_state_quiet go_handlers)
  then show ?thesis
    using assms(2) by (simp add: RunCurrentState_def RunCurrentStatePrivate_def)
qed

theorem gesture_only_tracks_lost_hand_witness:
  "\<exists>s t. go_inv s \<and> sm_violations s = [] \<and>
     RunCurrentState (go_handler (sample Apple)) OMGO_PROCESS_FRAME s = Done t \<and>
     OwnerAssertion 52 \<in> set (sm_violations t)"
proof -
  let ?L = "sample Apple"
  let ?f = "\<lparr>sf_time = 0, sf_pointables = [\<lparr>sp_id = 3, sp_hand = 8, sp_zone = ZONE_HOVERING, sp_tip = 0\<rparr>]\<rparr>"
  obtain s where s: "go_reachable ?L s" "\<not> IsInitialized s"
    using go_new_inv [of ?L 0 0 "\<lambda>c. 0"] go_reachable.new by blast
  let ?s = "s\<lparr>sm_current := Some State_2Fingers_Hovering, sm_violations := [], m_currentFrame := ?f,
    go_favoriteHandId := 7, m_favoritePointableId := 3\<rparr>"
  have "go_inv s" using go_reachable_inv [OF s(1) sample_probabilities] .
  then have "go_inv ?s"
    using s(2) by (auto simp: go_inv_def go_owner.alive_def go_safe_def go_between_def gim_ok_def
        IsInitialized_def go_kept_def)
  moreover have "\<not> h_valid ?L (fr_hand ?L ?f 7)" "p_valid ?L (fr_pointable ?L ?f 3)"
    by (simp_all add: sample_def s_hand_of_def s_pointable_of_def)
  ultimately obtain t where "RunCurrentState (go_handler ?L) OMGO_PROCESS_FRAME ?s = Done t"
    "OwnerAssertion 52 \<in> set (sm_violations t)"
    using gesture_only_tracks_lost_hand [of ?s ?L] by auto
  moreover have "sm_violations ?s = []" by simp
  ultimately show ?thesis using \<open>go_inv ?s\<close> by blast
qed

end
