(* ===== verification/Finger_Mouse.thy ===== *)
theory Finger_Mouse
  imports Interaction_Manager Mode_Owner
begin

text \<open>
  The finger mouse, \<open>source/GestureInteraction/FingerMouse.cpp\<close>: the advanced mode where touch input is
  not available. Its states come in groups for no finger, one, two, three or more, and a vertical
  palm; a change of the filtered count leaves the group, a change of zone moves within it. It always
  works with mouse output. The static configuration is a record that the handlers receive; the
  constants that select the accelerated movements are false, and both branches are modelled.

  A \<open>case\<close> that falls through to the next one is a prefix that changes the state only when its own
  input arrives. Members the constructor leaves uninitialised, and the system version it asks for,
  are arguments of the constructor.
\<close>

section \<open>State\<close>

datatype fm_state =
    State_FingerMouse_0Fingers_NoInteraction
  | State_FingerMouse_1Finger_Hovering
  | State_FingerMouse_1Finger_Clicking
  | State_FingerMouse_1Finger_Dragging
  | State_FingerMouse_2Fingers_Hovering
  | State_FingerMouse_2Fingers_GestureRecognition
  | State_FingerMouse_2Fingers_Rotating
  | State_FingerMouse_2Fingers_Scrolling
  | State_FingerMouse_2Fingers_Zooming
  | State_FingerMouse_3PlusFingers_NoInteraction
  | State_FingerMouse_3PlusFingers_Hovering
  | State_FingerMouse_3PlusFingers_GestureRecognition
  | State_FingerMouse_3PlusFingers_SwipeVertical
  | State_FingerMouse_3PlusFingers_SwipeHorizontal
  | State_FingerMouse_Palm_GestureRecognition
  | State_FingerMouse_Palm_Swipe

abbreviation OMFM_PROCESS_FRAME :: sm_input where "OMFM_PROCESS_FRAME \<equiv> 0"
abbreviation OMFM_LOST_FOCUS :: sm_input where "OMFM_LOST_FOCUS \<equiv> 1"

datatype cursor_move_type = ONE_FINGER_ONLY | ANY_HOVER | ALWAYS

record fm_config =
  Use3PlusFingerGestures :: bool
  UseRotateandZoom :: bool
  DisableAllOverlays :: bool
  CursorMoveType :: cursor_move_type
  fm_ZoomScaleFactor :: real
  fm_TranslationScaleFactor :: real

definition fm_config_default :: fm_config where
  "fm_config_default = \<lparr>Use3PlusFingerGestures = True, UseRotateandZoom = True,
     DisableAllOverlays = False, CursorMoveType = ANY_HOVER, fm_ZoomScaleFactor = 3 / 2,
     fm_TranslationScaleFactor = 3 / 2\<rparr>"

definition UseAcceleratedScrolling :: bool where "UseAcceleratedScrolling = False"
definition UseAcceleratedDesktopSwipe :: bool where "UseAcceleratedDesktopSwipe = False"
definition HoverDurationToActivateDrag :: int where
  "HoverDurationToActivateDrag = 500 * MILLISECONDS"

record ('f, 'p) finger_mouse = "(fm_state, 'f, 'p) gim" +
  fm_drawOverlays :: bool
  fm_noTouching :: bool
  fm_clickDuration :: int
  fm_clickEligibleForDrag :: bool
  fm_clickNumber :: int
  fm_deferClickUpForDrag :: bool
  fm_lastClickTime :: int
  fm_lastClickLocation :: vec
  fm_gestureStart :: 'f
  fm_clickDownScreenPosition :: vec
  fm_mountainLionOrNewer :: bool

type_synonym ('f, 'p) fm = "('f, 'p) finger_mouse"
type_synonym ('f, 'p) fm_result = "bool \<times> ('f, 'p) fm"

definition FingerMouse ::
  "('f, 'h, 'p, 'e) env_scheme \<Rightarrow> bool \<Rightarrow> bool \<Rightarrow> bool \<Rightarrow> categorical_error + ('f, 'p) fm" where
  "FingerMouse L clickEligible deferClickUp mountainLion =
     (case GestureInteractionManager L of
        Inl e \<Rightarrow> Inl e
      | Inr g \<Rightarrow> Inr (gim.extend g
          (finger_mouse.fields True True 0 clickEligible 0 deferClickUp 0 0 (invalid_frame L) 0
             (e_platform L = Apple \<and> mountainLion))))"

section \<open>Overlays\<close>

definition fm_now :: "('f, 'h, 'p, 'e) env_scheme \<Rightarrow> ('f, 'p) fm \<Rightarrow> int" where
  "fm_now L s = fr_timestamp L (m_currentFrame s)"

text \<open>\<open>m_currentFrame.pointable(favoritePointableId())\<close>, once the favourite has been brought up to date.\<close>

definition fm_pointable :: "('f, 'h, 'p, 'e) env_scheme \<Rightarrow> ('f, 'p) fm \<Rightarrow> 'p" where
  "fm_pointable L s = fr_pointable L (m_currentFrame s) (m_favoritePointableId s)"

definition overlays_off :: "fm_config \<Rightarrow> ('f, 'p) fm \<Rightarrow> bool" where
  "overlays_off c s \<longleftrightarrow> \<not> fm_drawOverlays s \<or> DisableAllOverlays c"

text \<open>The radius that shows the progress of a drag.\<close>

definition drag_radius :: "('f, 'p) fm \<Rightarrow> real \<Rightarrow> real \<Rightarrow> real" where
  "drag_radius s touchDistance parameter =
     (let radius = touchDistanceToRadius touchDistance in
      if sm_current s = Some State_FingerMouse_1Finger_Clicking \<and> fm_clickEligibleForDrag s
      then (1 - parameter) * radius + parameter * 30 * (7 / 10) * (8 / 10)
      else if sm_current s = Some State_FingerMouse_1Finger_Dragging then 30 * (7 / 10)
      else if touchDistance < 0 then 10
      else radius)"

definition drag_progress :: "('f, 'p) fm \<Rightarrow> real" where
  "drag_progress s = of_int (fm_clickDuration s) / of_int HoverDurationToActivateDrag"

definition fm_DrawOverlays ::
  "('f, 'h, 'p, 'e) env_scheme \<Rightarrow> fm_config \<Rightarrow> ('f, 'p) fm \<Rightarrow> ('f, 'p) fm" where
  "fm_DrawOverlays L c s =
     (if overlays_off c s then s
      else emit (map (overlay_icon L (\<lambda>p. drag_radius s (p_touchDistance L p) (min (drag_progress s) 1)) s)
                   [0..gm_numOverlayImages s - 1]) s)"

definition DrawPointingOverlay ::
  "('f, 'h, 'p, 'e) env_scheme \<Rightarrow> fm_config \<Rightarrow> ('f, 'p) fm \<Rightarrow> ('f, 'p) fm" where
  "DrawPointingOverlay L c s =
     (if overlays_off c s then s
      else (let s1 = favour L s in perform L (DrawOverlayForPointable (fm_pointable L s1) 0 1 True) s1))"

definition DrawClickingOrDraggingOverlay ::
  "('f, 'h, 'p, 'e) env_scheme \<Rightarrow> fm_config \<Rightarrow> ('f, 'p) fm \<Rightarrow> ('f, 'p) fm" where
  "DrawClickingOrDraggingOverlay L c s =
     (if overlays_off c s then s
      else
        (let s1 = favour L s; p = fm_pointable L s1 in
         if \<not> p_valid L p then s1
         else
           (let s2 = perform L (TrackPointable p) s1;
                (_, scr, clampVec) =
                  to_screen L (m_interactionBox s2) (getTrackedPosition (m_positionalDeltaTracker s2)) True;
                touchDistance = p_touchDistance L p
            in emit [DrawRasterIcon 0 (vx scr) (vy scr) True (p_tipVelocity L p) touchDistance
                       (drag_radius s2 touchDistance (drag_progress s2)) (magnitude clampVec)
                       (alphaFromTimeVisible (p_timeVisible L p))] s2)))"

text \<open>A gesture's overlay is drawn for the favourite pointable's hand, or for the pointable itself.\<close>

definition for_hand_or_pointable ::
  "('f, 'h, 'p, 'e) env_scheme \<Rightarrow> fm_config \<Rightarrow> ('h \<Rightarrow> ('f, 'p) fm \<Rightarrow> ('f, 'p) fm) \<Rightarrow>
   ('p \<Rightarrow> ('f, 'p) fm \<Rightarrow> ('f, 'p) fm) \<Rightarrow> ('f, 'p) fm \<Rightarrow> ('f, 'p) fm" where
  "for_hand_or_pointable L c drawHand drawPointable s =
     (if overlays_off c s then s
      else
        (let s1 = favour L s; p = fm_pointable L s1; hand = p_hand L p in
         if \<not> p_valid L p then s1
         else if \<not> h_valid L hand then drawPointable p s1
         else drawHand hand s1))"

definition DrawScrollOverlay ::
  "('f, 'h, 'p, 'e) env_scheme \<Rightarrow> fm_config \<Rightarrow> ('f, 'p) fm \<Rightarrow> ('f, 'p) fm" where
  "DrawScrollOverlay L c =
     for_hand_or_pointable L c (\<lambda>h. perform L (drawScrollOverlayForHand h 1))
       (\<lambda>p. perform L (drawScrollOverlayForPointable p 1))"

definition DrawRotateOverlay ::
  "('f, 'h, 'p, 'e) env_scheme \<Rightarrow> fm_config \<Rightarrow> ('f, 'p) fm \<Rightarrow> ('f, 'p) fm" where
  "DrawRotateOverlay L c =
     for_hand_or_pointable L c (\<lambda>h. drawRotateOverlayForHand L h 1 None)
       (\<lambda>p. drawRotateOverlayForPointable L p 1 None)"

definition DrawZoomOverlay ::
  "('f, 'h, 'p, 'e) env_scheme \<Rightarrow> fm_config \<Rightarrow> ('f, 'p) fm \<Rightarrow> ('f, 'p) fm" where
  "DrawZoomOverlay L c =
     for_hand_or_pointable L c (\<lambda>h. drawZoomOverlayForHand L h 1 None)
       (\<lambda>p. drawZoomOverlayForPointable L p 1 None)"

definition DrawDesktopSwipeOverlay ::
  "('f, 'h, 'p, 'e) env_scheme \<Rightarrow> fm_config \<Rightarrow> bool \<Rightarrow> ('f, 'p) fm \<Rightarrow> ('f, 'p) fm" where
  "DrawDesktopSwipeOverlay L c glow =
     for_hand_or_pointable L c
       (\<lambda>h. perform L (DrawGestureOverlayForHand h 0 1 1 None True False glow glow))
       (\<lambda>p. perform L (DrawGestureOverlayForPointable p 0 1 1 None True False glow glow))"

definition DrawVerticalPalmOverlay ::
  "('f, 'h, 'p, 'e) env_scheme \<Rightarrow> fm_config \<Rightarrow> ('f, 'p) fm \<Rightarrow> ('f, 'p) fm" where
  "DrawVerticalPalmOverlay L c s =
     (if overlays_off c s then s
      else
        (let s1 = favour L s; p = fm_pointable L s1;
             hand = (if p_valid L p then Some (p_hand L p)
                     else (case fr_hands L (m_currentFrame s1) of [] \<Rightarrow> None | h # _ \<Rightarrow> Some h))
         in case hand of
              None \<Rightarrow> s1
            | Some h \<Rightarrow>
                if h_valid L h
                then perform L (DrawGestureOverlayForHand h 0 1 1 None False True False False) s1
                else perform L (DrawGestureOverlayForPointable p 0 1 1 None False True False False) s1))"

section \<open>Cursor, scrolls and swipes\<close>

text \<open>
  \<open>setDeltaTrackedAbsoluteCursorPosition\<close> for a hand or a pointable does what the base class's methods
  do; the cursor follows the favourite pointable's hand when there is one.
\<close>

definition move_cursor :: "('f, 'h, 'p, 'e) env_scheme \<Rightarrow> ('f, 'p) fm \<Rightarrow> ('f, 'p) fm" where
  "move_cursor L s =
     (let s1 = favour L s; p = fm_pointable L s1 in
      if h_valid L (p_hand L p) then perform L (SetAbsoluteCursorPositionHand (p_hand L p)) s1
      else perform L (SetAbsoluteCursorPositionPointable p) s1)"

definition move_cursor_to_pointable :: "('f, 'h, 'p, 'e) env_scheme \<Rightarrow> ('f, 'p) fm \<Rightarrow> ('f, 'p) fm" where
  "move_cursor_to_pointable L s =
     (let s1 = favour L s in perform L (SetAbsoluteCursorPositionPointable (fm_pointable L s1)) s1)"

text \<open>The same with \<open>&m_clickDownScreenPosition\<close> as the output.\<close>

definition fm_setClickPosition :: "('f, 'h, 'p, 'e) env_scheme \<Rightarrow> ('f, 'p) fm \<Rightarrow> ('f, 'p) fm" where
  "fm_setClickPosition L s =
     (let s1 = favour L s; p = fm_pointable L s1;
          s2 = perform L (SetAbsoluteCursorPositionPointable p) s1
      in case snd (setAbsoluteCursorPositionPointable_fx L p s1) of
           None \<Rightarrow> s2
         | Some pos \<Rightarrow> s2\<lparr>fm_clickDownScreenPosition := pos\<rparr>)"

definition cdGain :: "real \<Rightarrow> real \<Rightarrow> real \<Rightarrow> real" where
  "cdGain mag maxVelocity initialPower =
     82378 / 100000 * ((mag / maxVelocity) * exp (1 - mag / maxVelocity)) powr initialPower"

definition average_tip_velocity :: "('f, 'h, 'p, 'e) env_scheme \<Rightarrow> 'f \<Rightarrow> vec" where
  "average_tip_velocity L frame =
     (let ps = fr_pointables L frame in
      vscale (1 / real (length ps)) (fold (\<lambda>p a. a + p_tipVelocity L p) ps 0))"

text \<open>The accelerated amounts, none when the frame has no pointable.\<close>

definition accelerated ::
  "('f, 'h, 'p, 'e) env_scheme \<Rightarrow> 'f \<Rightarrow> real \<Rightarrow> real \<Rightarrow> (real \<times> real) option" where
  "accelerated L frame maxVelocity initialPower =
     (if fr_pointables L frame = [] then None
      else
        (let v = average_tip_velocity L frame;
             gain = cdGain (sqrt (vx v * vx v + vy v * vy v)) maxVelocity initialPower
         in Some (gain * vx v, - 1 * gain * vy v)))"

definition fm_damped :: "('f, 'h, 'p, 'e) env_scheme \<Rightarrow> 'f \<Rightarrow> 'f \<Rightarrow> vec" where
  "fm_damped L cur since =
     (let t = fr_translation L cur since in
      vscale (damp_at t (seconds_between (fr_timestamp L cur) (fr_timestamp L since))) t)"

definition fm_generateScrollBetweenFrames ::
  "('f, 'h, 'p, 'e) env_scheme \<Rightarrow> fm_config \<Rightarrow> 'f \<Rightarrow> 'f \<Rightarrow> action list" where
  "fm_generateScrollBetweenFrames L c cur since =
     (let k = fm_TranslationScaleFactor c; t = fm_damped L cur since;
          amount = (if UseAcceleratedScrolling then accelerated L cur 40000 (66 / 100)
                    else Some (k * vx t, - k * vy t))
      in case amount of
           None \<Rightarrow> []
         | Some (dx, dy) \<Rightarrow> [ApplyScroll dx dy (fr_timestamp L cur - fr_timestamp L since)])"

definition fm_generateDesktopSwipeBetweenFrames ::
  "('f, 'h, 'p, 'e) env_scheme \<Rightarrow> 'f \<Rightarrow> 'f \<Rightarrow> action list" where
  "fm_generateDesktopSwipeBetweenFrames L cur since =
     (let t = fm_damped L cur since;
          amount = (if UseAcceleratedDesktopSwipe then accelerated L cur 80000 (4 / 10)
                    else Some (vx t, - vy t))
      in case amount of None \<Rightarrow> [] | Some (dx, dy) \<Rightarrow> [ApplyDesktopSwipe dx dy])"

section \<open>Conditions\<close>

text \<open>The hand of the foremost pointable, or the first hand of the frame without one.\<close>

definition palm_hand :: "('f, 'h, 'p, 'e) env_scheme \<Rightarrow> ('f, 'p) fm \<Rightarrow> 'h option" where
  "palm_hand L s =
     (let p = fr_pointable L (m_currentFrame s) (m_foremostPointableId s) in
      if p_valid L p then Some (p_hand L p)
      else (case fr_hands L (m_currentFrame s) of [] \<Rightarrow> None | h # _ \<Rightarrow> Some h))"

definition fm_shouldBeInPalmSwipeMode ::
  "('f, 'h, 'p, 'e) env_scheme \<Rightarrow> fm_config \<Rightarrow> ('f, 'p) fm \<Rightarrow> bool" where
  "fm_shouldBeInPalmSwipeMode L c s =
     (case palm_hand L s of
        None \<Rightarrow> False
      | Some h \<Rightarrow> h_valid L h \<and> Use3PlusFingerGestures c \<and> \<bar>vx (h_palmNormal L h)\<bar> \<ge> 3 / 4)"

text \<open>
  The zone of several pointables is the greatest of theirs: \<open>identifyCollectivePointableZone\<close> of this
  mode overrides the base class's.
\<close>

definition greatest_zone :: "('f, 'h, 'p, 'e) env_scheme \<Rightarrow> 'p list \<Rightarrow> zone" where
  "greatest_zone L ps = fold (\<lambda>p m. if m < p_touchZone L p then p_touchZone L p else m) ps ZONE_NONE"

definition fm_goto :: "fm_state \<Rightarrow> ('f, 'p) fm \<Rightarrow> ('f, 'p) fm" where
  "fm_goto st s = SetNextState (Some st) s"

definition fm_group_state ::
  "('f, 'h, 'p, 'e) env_scheme \<Rightarrow> fm_config \<Rightarrow> ('f, 'p) fm \<Rightarrow> fm_state" where
  "fm_group_state L c s =
     (if Use3PlusFingerGestures c \<and> fm_shouldBeInPalmSwipeMode L c s
      then State_FingerMouse_Palm_GestureRecognition
      else
        (let fingerCount = (if pointableCountIsUnambiguous s
                            then (case pointableCount s of Some k \<Rightarrow> k | None \<Rightarrow> 0) else 0) in
         if fingerCount = 0 then State_FingerMouse_0Fingers_NoInteraction
         else if fingerCount = 1 then State_FingerMouse_1Finger_Hovering
         else if fingerCount = 2 then State_FingerMouse_2Fingers_Hovering
         else if Use3PlusFingerGestures c then State_FingerMouse_3PlusFingers_NoInteraction
         else State_FingerMouse_2Fingers_Hovering))"

definition FingerMouse_TransitionTo_NFingers_NoInteraction ::
  "('f, 'h, 'p, 'e) env_scheme \<Rightarrow> fm_config \<Rightarrow> ('f, 'p) fm \<Rightarrow> ('f, 'p) fm" where
  "FingerMouse_TransitionTo_NFingers_NoInteraction L c s = fm_goto (fm_group_state L c s) s"

text \<open>The counts that leave a group, or a vertical palm.\<close>

definition fm_leaves ::
  "('f, 'h, 'p, 'e) env_scheme \<Rightarrow> fm_config \<Rightarrow> (nat \<Rightarrow> bool) \<Rightarrow> ('f, 'p) fm \<Rightarrow> bool" where
  "fm_leaves L c P s \<longleftrightarrow> count_is P s \<or> fm_shouldBeInPalmSwipeMode L c s"

section \<open>The handlers\<close>

definition fm_0Fingers_NoInteraction ::
  "('f, 'h, 'p, 'e) env_scheme \<Rightarrow> fm_config \<Rightarrow> sm_input \<Rightarrow> ('f, 'p) fm \<Rightarrow> ('f, 'p) fm_result" where
  "fm_0Fingers_NoInteraction L c input s =
     (if input = OMFM_LOST_FOCUS then (True, s)
      else if input = SM_ENTER \<or> input = OMFM_PROCESS_FRAME then
        (let s1 = (if input = SM_ENTER then perform L ClearTracker (s\<lparr>fm_drawOverlays := True\<rparr>) else s) in
         (True, if fm_leaves L c (\<lambda>k. k > 0) s1 then FingerMouse_TransitionTo_NFingers_NoInteraction L c s1 else s1))
      else (False, s))"

definition fm_1Finger_Hovering ::
  "('f, 'h, 'p, 'e) env_scheme \<Rightarrow> fm_config \<Rightarrow> sm_input \<Rightarrow> ('f, 'p) fm \<Rightarrow> ('f, 'p) fm_result" where
  "fm_1Finger_Hovering L c input s =
     (if input = OMFM_LOST_FOCUS then (True, fm_goto State_FingerMouse_0Fingers_NoInteraction s)
      else if input = SM_ENTER \<or> input = OMFM_PROCESS_FRAME then
        (let s1 = (if input = SM_ENTER then resetFavoritePointableId (s\<lparr>fm_drawOverlays := True\<rparr>) else s) in
         if fm_leaves L c (\<lambda>k. k \<noteq> 1) s1 then (True, FingerMouse_TransitionTo_NFingers_NoInteraction L c s1)
         else if m_collectiveZone s1 = ZONE_TOUCHING
         then (True, fm_goto State_FingerMouse_1Finger_Clicking s1)
         else (True, move_cursor_to_pointable L (DrawPointingOverlay L c s1)))
      else (False, s))"

text \<open>The down click of \<open>SM_ENTER\<close>, counted with the previous ones.\<close>

definition fm_click_down :: "('f, 'h, 'p, 'e) env_scheme \<Rightarrow> ('f, 'p) fm \<Rightarrow> ('f, 'p) fm" where
  "fm_click_down L s =
     (let s1 = fm_setClickPosition L s;
          stale = fm_now L s1 - fm_lastClickTime s1 > 3 * SECONDS \<or>
                  distanceTo (fm_clickDownScreenPosition s1) (fm_lastClickLocation s1) > 50 \<or>
                  fm_clickNumber s1 = 3;
          n = (if stale then 0 else fm_clickNumber s1) + 1
      in emit [ClickDown 0 n]
           (s1\<lparr>fm_clickNumber := n, fm_deferClickUpForDrag := False, fm_clickEligibleForDrag := True,
               fm_lastClickTime := fm_now L s1, fm_lastClickLocation := fm_clickDownScreenPosition s1\<rparr>))"

text \<open>Holding the click in place for long enough turns it into a drag.\<close>

definition fm_hold :: "('f, 'h, 'p, 'e) env_scheme \<Rightarrow> ('f, 'p) fm \<Rightarrow> ('f, 'p) fm" where
  "fm_hold L s =
     (let s1 = s\<lparr>fm_clickDuration := fm_now L s - fm_lastClickTime s\<rparr>;
          (_, scr, _) =
            to_screen L (m_interactionBox s1) (getTrackedPosition (m_positionalDeltaTracker s1)) True;
          s2 = (if distanceTo (fm_lastClickLocation s1) scr \<ge> 50
                then s1\<lparr>fm_clickEligibleForDrag := False\<rparr> else s1)
      in if fm_clickEligibleForDrag s2 \<and> fm_clickDuration s2 > HoverDurationToActivateDrag
         then fm_goto State_FingerMouse_1Finger_Dragging
                (s2\<lparr>fm_deferClickUpForDrag := True, fm_clickNumber := 0\<rparr>)
         else s2)"

text \<open>Entering the state goes on to the click even when it has requested a transition.\<close>

definition fm_1Finger_Clicking ::
  "('f, 'h, 'p, 'e) env_scheme \<Rightarrow> fm_config \<Rightarrow> sm_input \<Rightarrow> ('f, 'p) fm \<Rightarrow> ('f, 'p) fm_result" where
  "fm_1Finger_Clicking L c input s =
     (if input = OMFM_LOST_FOCUS then (True, fm_goto State_FingerMouse_0Fingers_NoInteraction s)
      else if input = SM_ENTER then
        (let s1 = s\<lparr>fm_drawOverlays := True\<rparr>;
             s2 = (if fm_leaves L c (\<lambda>k. k = 0) s1 then FingerMouse_TransitionTo_NFingers_NoInteraction L c s1 else s1)
         in (True, fm_click_down L s2))
      else if input = SM_EXIT then
        (let s1 = (if \<not> fm_deferClickUpForDrag s then emit [ClickUp 0 (fm_clickNumber s)] s else s)
         in (True, s1\<lparr>fm_clickDuration := 0\<rparr>))
      else if input = OMFM_PROCESS_FRAME then
        (if fm_leaves L c (\<lambda>k. k \<noteq> 1) s then (True, FingerMouse_TransitionTo_NFingers_NoInteraction L c s)
         else if m_collectiveZone s \<noteq> ZONE_TOUCHING
         then (True, fm_goto State_FingerMouse_1Finger_Hovering s)
         else (True, fm_hold L (DrawClickingOrDraggingOverlay L c s)))
      else (False, s))"

definition fm_1Finger_Dragging ::
  "('f, 'h, 'p, 'e) env_scheme \<Rightarrow> fm_config \<Rightarrow> sm_input \<Rightarrow> ('f, 'p) fm \<Rightarrow> ('f, 'p) fm_result" where
  "fm_1Finger_Dragging L c input s =
     (if input = OMFM_LOST_FOCUS then (True, fm_goto State_FingerMouse_0Fingers_NoInteraction s)
      else if input = SM_ENTER \<or> input = OMFM_PROCESS_FRAME then
        (let s1 = (if input = SM_ENTER then s\<lparr>fm_drawOverlays := True\<rparr> else s) in
         if fm_leaves L c (\<lambda>k. k \<noteq> 1) s1 then (True, FingerMouse_TransitionTo_NFingers_NoInteraction L c s1)
         else if m_collectiveZone s1 \<noteq> ZONE_TOUCHING
         then (True, fm_goto State_FingerMouse_1Finger_Hovering s1)
         else (True, move_cursor_to_pointable L (DrawClickingOrDraggingOverlay L c s1)))
      else if input = SM_EXIT then (True, emit [ClickUp 0 (fm_clickNumber s)] s)
      else (False, s))"

definition fm_2Fingers_Hovering ::
  "('f, 'h, 'p, 'e) env_scheme \<Rightarrow> fm_config \<Rightarrow> sm_input \<Rightarrow> ('f, 'p) fm \<Rightarrow> ('f, 'p) fm_result" where
  "fm_2Fingers_Hovering L c input s =
     (if input = OMFM_LOST_FOCUS then (True, fm_goto State_FingerMouse_0Fingers_NoInteraction s)
      else if input = SM_ENTER \<or> input = OMFM_PROCESS_FRAME then
        (let s1 = (if input = SM_ENTER then resetFavoritePointableId (s\<lparr>fm_drawOverlays := True\<rparr>) else s) in
         if fm_leaves L c (\<lambda>k. k \<noteq> 2 \<and> (Use3PlusFingerGestures c \<or> k < 3)) s1 then (True, FingerMouse_TransitionTo_NFingers_NoInteraction L c s1)
         else if m_collectiveZone s1 = ZONE_TOUCHING
         then (True, fm_goto (if UseRotateandZoom c then State_FingerMouse_2Fingers_GestureRecognition
                              else State_FingerMouse_2Fingers_Scrolling) s1)
         else (True, move_cursor L (DrawScrollOverlay L c s1)))
      else (False, s))"

text \<open>The gesture that has won since the frame a tenth of a second ago, if any.\<close>

definition two_finger_gesture :: "('f, 'h, 'p, 'e) env_scheme \<Rightarrow> ('f, 'p) fm \<Rightarrow> fm_state option" where
  "two_finger_gesture L s =
     (case getFrameHavingAgeAtLeast (m_timedFrameHistory s) (100 * MILLISECONDS) of
        [] \<Rightarrow> None
      | (_, frame) # _ \<Rightarrow>
          (let cur = m_currentFrame s; t = fr_translation L cur frame;
               velocity = sqrt (vx t * vx t + vy t * vy t) /
                 seconds_between (fr_timestamp L cur) (fr_timestamp L frame)
           in if fr_rotationProbability L cur frame > 3 / 4 then Some State_FingerMouse_2Fingers_Rotating
              else if fr_scaleProbability L cur frame > 3 / 4 then Some State_FingerMouse_2Fingers_Zooming
              else if fr_translationProbability L cur frame > 3 / 4 \<and> velocity > 50
              then Some State_FingerMouse_2Fingers_Scrolling
              else None))"

definition fm_2Fingers_GestureRecognition ::
  "('f, 'h, 'p, 'e) env_scheme \<Rightarrow> fm_config \<Rightarrow> sm_input \<Rightarrow> ('f, 'p) fm \<Rightarrow> ('f, 'p) fm_result" where
  "fm_2Fingers_GestureRecognition L c input s =
     (if input = OMFM_LOST_FOCUS then (True, fm_goto State_FingerMouse_0Fingers_NoInteraction s)
      else if input = SM_ENTER \<or> input = OMFM_PROCESS_FRAME then
        (let s1 = (if input = SM_ENTER
                   then move_cursor L (s\<lparr>fm_drawOverlays := True, fm_gestureStart := m_currentFrame s\<rparr>)
                   else s) in
         if fm_leaves L c (\<lambda>k. k = 0) s1 then (True, FingerMouse_TransitionTo_NFingers_NoInteraction L c s1)
         else if fm_noTouching s1 \<and> m_collectiveZone s1 \<noteq> ZONE_TOUCHING
         then (True, fm_goto State_FingerMouse_2Fingers_Hovering s1)
         else
           (let s2 = DrawScrollOverlay L c s1 in
            (True, case two_finger_gesture L s2 of None \<Rightarrow> s2 | Some st \<Rightarrow> fm_goto st s2)))
      else (False, s))"

text \<open>
  What rotating, scrolling and zooming do with a frame: leave the group, go back to hovering, or
  carry on with the gesture. The cursor moves only when it always does.
\<close>

definition always_move :: "('f, 'h, 'p, 'e) env_scheme \<Rightarrow> fm_config \<Rightarrow> ('f, 'p) fm \<Rightarrow> ('f, 'p) fm" where
  "always_move L c s = (if CursorMoveType c = ALWAYS then move_cursor L s else s)"

definition two_finger_frame ::
  "('f, 'h, 'p, 'e) env_scheme \<Rightarrow> fm_config \<Rightarrow> (('f, 'p) fm \<Rightarrow> ('f, 'p) fm) \<Rightarrow> ('f, 'p) fm \<Rightarrow> ('f, 'p) fm" where
  "two_finger_frame L c go_on s =
     (if fm_leaves L c (\<lambda>k. k = 0) s then FingerMouse_TransitionTo_NFingers_NoInteraction L c s
      else if fm_noTouching s \<and> m_collectiveZone s \<noteq> ZONE_TOUCHING
      then fm_goto State_FingerMouse_2Fingers_Hovering s
      else go_on s)"

definition fm_degrees :: "real \<Rightarrow> real" where "fm_degrees r = 180 / pi * r"

definition fm_2Fingers_Rotating ::
  "('f, 'h, 'p, 'e) env_scheme \<Rightarrow> fm_config \<Rightarrow> sm_input \<Rightarrow> ('f, 'p) fm \<Rightarrow> ('f, 'p) fm_result" where
  "fm_2Fingers_Rotating L c input s =
     (if input = OMFM_LOST_FOCUS then (True, fm_goto State_FingerMouse_0Fingers_NoInteraction s)
      else if input = SM_ENTER then
        (True, emit [BeginGesture GestureRotate,
                     ApplyRotation (- fm_degrees (fr_rotationAngleZ L (m_currentFrame s) (fm_gestureStart s)))]
                 (s\<lparr>fm_drawOverlays := True\<rparr>))
      else if input = SM_EXIT then (True, emit [EndGesture] s)
      else if input = OMFM_PROCESS_FRAME then
        (True, two_finger_frame L c
           (\<lambda>s1. emit [ApplyRotation (- fm_degrees (fr_rotationAngleZ L (m_currentFrame s1) (m_sinceFrame s1)))]
              (always_move L c (DrawRotateOverlay L c s1))) s)
      else (False, s))"

definition fm_2Fingers_Scrolling ::
  "('f, 'h, 'p, 'e) env_scheme \<Rightarrow> fm_config \<Rightarrow> sm_input \<Rightarrow> ('f, 'p) fm \<Rightarrow> ('f, 'p) fm_result" where
  "fm_2Fingers_Scrolling L c input s =
     (if input = OMFM_LOST_FOCUS then (True, fm_goto State_FingerMouse_0Fingers_NoInteraction s)
      else if input = SM_ENTER then
        (True, emit (BeginGesture GestureScroll #
                     fm_generateScrollBetweenFrames L c (m_currentFrame s) (fm_gestureStart s))
                 (s\<lparr>fm_drawOverlays := True\<rparr>))
      else if input = SM_EXIT then (True, emit [EndGesture] s)
      else if input = OMFM_PROCESS_FRAME then
        (True, two_finger_frame L c
           (\<lambda>s1. always_move L c (DrawScrollOverlay L c
              (emit (fm_generateScrollBetweenFrames L c (m_currentFrame s1) (m_sinceFrame s1)) s1))) s)
      else (False, s))"

definition zoom_amount :: "fm_config \<Rightarrow> real \<Rightarrow> real" where
  "zoom_amount c scaleFactor = 1 + fm_ZoomScaleFactor c * (scaleFactor - 1)"

definition fm_2Fingers_Zooming ::
  "('f, 'h, 'p, 'e) env_scheme \<Rightarrow> fm_config \<Rightarrow> sm_input \<Rightarrow> ('f, 'p) fm \<Rightarrow> ('f, 'p) fm_result" where
  "fm_2Fingers_Zooming L c input s =
     (if input = OMFM_LOST_FOCUS then (True, fm_goto State_FingerMouse_0Fingers_NoInteraction s)
      else if input = SM_ENTER then
        (True, emit [BeginGesture GestureZoom,
                     ApplyZoom (zoom_amount c (fr_scaleFactor L (m_currentFrame s) (fm_gestureStart s)))]
                 (s\<lparr>fm_drawOverlays := True\<rparr>))
      else if input = SM_EXIT then (True, emit [EndGesture] s)
      else if input = OMFM_PROCESS_FRAME then
        (True, two_finger_frame L c
           (\<lambda>s1. emit [ApplyZoom (zoom_amount c (fr_scaleFactor L (m_currentFrame s1) (m_sinceFrame s1)))]
              (always_move L c (DrawZoomOverlay L c s1))) s)
      else (False, s))"

definition fm_3PlusFingers_NoInteraction ::
  "('f, 'h, 'p, 'e) env_scheme \<Rightarrow> fm_config \<Rightarrow> sm_input \<Rightarrow> ('f, 'p) fm \<Rightarrow> ('f, 'p) fm_result" where
  "fm_3PlusFingers_NoInteraction L c input s =
     (if input = OMFM_LOST_FOCUS then (True, fm_goto State_FingerMouse_0Fingers_NoInteraction s)
      else if input = SM_ENTER \<or> input = OMFM_PROCESS_FRAME then
        (let s1 = (if input = SM_ENTER then resetFavoritePointableId (s\<lparr>fm_drawOverlays := True\<rparr>) else s) in
         (True,
          if fm_leaves L c (\<lambda>k. k < 3) s1 then FingerMouse_TransitionTo_NFingers_NoInteraction L c s1
          else if m_collectiveZone s1 = ZONE_HOVERING then fm_goto State_FingerMouse_3PlusFingers_Hovering s1
          else if m_collectiveZone s1 = ZONE_TOUCHING
          then fm_goto State_FingerMouse_3PlusFingers_GestureRecognition s1
          else always_move L c s1))
      else (False, s))"

definition fm_3PlusFingers_Hovering ::
  "('f, 'h, 'p, 'e) env_scheme \<Rightarrow> fm_config \<Rightarrow> sm_input \<Rightarrow> ('f, 'p) fm \<Rightarrow> ('f, 'p) fm_result" where
  "fm_3PlusFingers_Hovering L c input s =
     (if input = OMFM_LOST_FOCUS then (True, fm_goto State_FingerMouse_0Fingers_NoInteraction s)
      else if input = OMFM_PROCESS_FRAME then
        (True,
         if fm_leaves L c (\<lambda>k. k < 3) s then FingerMouse_TransitionTo_NFingers_NoInteraction L c s
         else if m_collectiveZone s = ZONE_NONE then fm_goto State_FingerMouse_3PlusFingers_NoInteraction s
         else if m_collectiveZone s = ZONE_TOUCHING
         then fm_goto State_FingerMouse_3PlusFingers_GestureRecognition s
         else
           (let s1 = DrawDesktopSwipeOverlay L c True s in
            if CursorMoveType c = ALWAYS \<or> CursorMoveType c = ANY_HOVER then move_cursor L s1 else s1))
      else (False, s))"

text \<open>The swipe that the translation since the start of the gesture selects, if any.\<close>

definition horizontal_wins :: "vec \<Rightarrow> bool" where
  "horizontal_wins t \<longleftrightarrow> \<bar>vx t\<bar> > 2 * \<bar>vy t\<bar> + 1"

definition vertical_wins :: "vec \<Rightarrow> bool" where
  "vertical_wins t \<longleftrightarrow> \<bar>vy t\<bar> > 2 * \<bar>vx t\<bar> + 1"

definition translating_for :: "('f, 'h, 'p, 'e) env_scheme \<Rightarrow> int \<Rightarrow> ('f, 'p) fm \<Rightarrow> bool" where
  "translating_for L duration s \<longleftrightarrow>
     fm_now L s - fr_timestamp L (fm_gestureStart s) \<ge> duration \<and> rtsIsUnambiguous s \<and>
     rts s = Some TRANSLATING"

definition fm_3PlusFingers_GestureRecognition ::
  "('f, 'h, 'p, 'e) env_scheme \<Rightarrow> fm_config \<Rightarrow> sm_input \<Rightarrow> ('f, 'p) fm \<Rightarrow> ('f, 'p) fm_result" where
  "fm_3PlusFingers_GestureRecognition L c input s =
     (if input = OMFM_LOST_FOCUS then (True, fm_goto State_FingerMouse_0Fingers_NoInteraction s)
      else if input = SM_ENTER \<or> input = OMFM_PROCESS_FRAME then
        (let s1 = (if input = SM_ENTER then s\<lparr>fm_gestureStart := m_currentFrame s\<rparr> else s) in
         if fm_leaves L c (\<lambda>k. k < 3) s1 then (True, FingerMouse_TransitionTo_NFingers_NoInteraction L c s1)
         else if m_collectiveZone s1 = ZONE_NONE
         then (True, fm_goto State_FingerMouse_3PlusFingers_NoInteraction s1)
         else if m_collectiveZone s1 = ZONE_HOVERING
         then (True, fm_goto State_FingerMouse_3PlusFingers_Hovering s1)
         else
           (let s2 = always_move L c (DrawDesktopSwipeOverlay L c False s1);
                t = fr_translation L (m_currentFrame s2) (fm_gestureStart s2)
            in (True,
                if translating_for L (10 * MILLISECONDS) s2 then
                  (if horizontal_wins t then fm_goto State_FingerMouse_3PlusFingers_SwipeHorizontal s2
                   else if vertical_wins t then fm_goto State_FingerMouse_3PlusFingers_SwipeVertical s2
                   else s2)
                else s2)))
      else (False, s))"

definition fm_swipe_on ::
  "('f, 'h, 'p, 'e) env_scheme \<Rightarrow> fm_config \<Rightarrow> bool \<Rightarrow> ('f, 'p) fm \<Rightarrow> ('f, 'p) fm" where
  "fm_swipe_on L c glow s =
     DrawDesktopSwipeOverlay L c glow
       (emit (fm_generateDesktopSwipeBetweenFrames L (m_currentFrame s) (m_sinceFrame s)) s)"

text \<open>A vertical swipe goes on after it has requested the horizontal one.\<close>

definition fm_3PlusFingers_SwipeVertical ::
  "('f, 'h, 'p, 'e) env_scheme \<Rightarrow> fm_config \<Rightarrow> sm_input \<Rightarrow> ('f, 'p) fm \<Rightarrow> ('f, 'p) fm_result" where
  "fm_3PlusFingers_SwipeVertical L c input s =
     (if input = OMFM_LOST_FOCUS then (True, fm_goto State_FingerMouse_0Fingers_NoInteraction s)
      else if input = SM_ENTER then
        (True, emit [BeginGesture GestureDesktopSwipeVertical] (s\<lparr>fm_drawOverlays := True\<rparr>))
      else if input = SM_EXIT then (True, emit [EndGesture] s)
      else if input = OMFM_PROCESS_FRAME then
        (True,
         if fm_leaves L c (\<lambda>k. k = 0) s then FingerMouse_TransitionTo_NFingers_NoInteraction L c s
         else if fm_noTouching s \<and> (m_collectiveZone s = ZONE_NONE \<or> m_collectiveZone s = ZONE_HOVERING)
         then fm_goto State_FingerMouse_3PlusFingers_NoInteraction s
         else
           (let s1 = (if fm_noTouching s \<and>
                         horizontal_wins (fr_translation L (m_currentFrame s) (m_sinceFrame s))
                      then fm_goto State_FingerMouse_3PlusFingers_SwipeHorizontal s else s)
            in fm_swipe_on L c False s1))
      else (False, s))"

definition fm_3PlusFingers_SwipeHorizontal ::
  "('f, 'h, 'p, 'e) env_scheme \<Rightarrow> fm_config \<Rightarrow> sm_input \<Rightarrow> ('f, 'p) fm \<Rightarrow> ('f, 'p) fm_result" where
  "fm_3PlusFingers_SwipeHorizontal L c input s =
     (if input = OMFM_LOST_FOCUS then (True, fm_goto State_FingerMouse_0Fingers_NoInteraction s)
      else if input = SM_ENTER then (True, emit [BeginGesture GestureDesktopSwipeHorizontal] s)
      else if input = SM_EXIT then (True, emit [EndGesture] s)
      else if input = OMFM_PROCESS_FRAME then
        (True,
         if fm_leaves L c (\<lambda>k. k = 0) s then FingerMouse_TransitionTo_NFingers_NoInteraction L c s
         else if fm_noTouching s \<and> (m_collectiveZone s = ZONE_NONE \<or> m_collectiveZone s = ZONE_HOVERING)
         then fm_goto State_FingerMouse_3PlusFingers_NoInteraction s
         else fm_swipe_on L c True s)
      else (False, s))"

definition fm_Palm_GestureRecognition ::
  "('f, 'h, 'p, 'e) env_scheme \<Rightarrow> fm_config \<Rightarrow> sm_input \<Rightarrow> ('f, 'p) fm \<Rightarrow> ('f, 'p) fm_result" where
  "fm_Palm_GestureRecognition L c input s =
     (if input = OMFM_LOST_FOCUS then (True, fm_goto State_FingerMouse_0Fingers_NoInteraction s)
      else if input = SM_ENTER \<or> input = OMFM_PROCESS_FRAME then
        (let s1 = (if input = SM_ENTER then s\<lparr>fm_gestureStart := m_currentFrame s\<rparr> else s) in
         (True,
          if \<not> fm_shouldBeInPalmSwipeMode L c s1 then FingerMouse_TransitionTo_NFingers_NoInteraction L c s1
          else
            (case palm_hand L s1 of
               None \<Rightarrow> FingerMouse_TransitionTo_NFingers_NoInteraction L c s1
             | Some hand \<Rightarrow>
                 if \<not> h_valid L hand then FingerMouse_TransitionTo_NFingers_NoInteraction L c s1
                 else
                   (let s2 = DrawVerticalPalmOverlay L c s1 in
                    if translating_for L (100 * MILLISECONDS) s2 \<and> vz (h_palmPosition L hand) \<le> 150
                    then fm_goto State_FingerMouse_Palm_Swipe s2 else s2))))
      else if input = SM_EXIT then (True, s)
      else (False, s))"

definition fm_Palm_Swipe ::
  "('f, 'h, 'p, 'e) env_scheme \<Rightarrow> fm_config \<Rightarrow> sm_input \<Rightarrow> ('f, 'p) fm \<Rightarrow> ('f, 'p) fm_result" where
  "fm_Palm_Swipe L c input s =
     (if input = OMFM_LOST_FOCUS then (True, fm_goto State_FingerMouse_0Fingers_NoInteraction s)
      else if input = SM_ENTER then (True, emit [BeginGesture GestureDesktopSwipeHorizontal] s)
      else if input = SM_EXIT then (True, emit [EndGesture] s)
      else if input = OMFM_PROCESS_FRAME then
        (True,
         if \<not> fm_shouldBeInPalmSwipeMode L c s then FingerMouse_TransitionTo_NFingers_NoInteraction L c s
         else
           (let s1 = DrawVerticalPalmOverlay L c s in
            emit (fm_generateDesktopSwipeBetweenFrames L (m_currentFrame s1) (m_sinceFrame s1)) s1))
      else (False, s))"

primrec fm_handler ::
  "('f, 'h, 'p, 'e) env_scheme \<Rightarrow> fm_config \<Rightarrow> fm_state \<Rightarrow> sm_input \<Rightarrow> ('f, 'p) fm \<Rightarrow> ('f, 'p) fm_result" where
  "fm_handler L c State_FingerMouse_0Fingers_NoInteraction = fm_0Fingers_NoInteraction L c"
| "fm_handler L c State_FingerMouse_1Finger_Hovering = fm_1Finger_Hovering L c"
| "fm_handler L c State_FingerMouse_1Finger_Clicking = fm_1Finger_Clicking L c"
| "fm_handler L c State_FingerMouse_1Finger_Dragging = fm_1Finger_Dragging L c"
| "fm_handler L c State_FingerMouse_2Fingers_Hovering = fm_2Fingers_Hovering L c"
| "fm_handler L c State_FingerMouse_2Fingers_GestureRecognition = fm_2Fingers_GestureRecognition L c"
| "fm_handler L c State_FingerMouse_2Fingers_Rotating = fm_2Fingers_Rotating L c"
| "fm_handler L c State_FingerMouse_2Fingers_Scrolling = fm_2Fingers_Scrolling L c"
| "fm_handler L c State_FingerMouse_2Fingers_Zooming = fm_2Fingers_Zooming L c"
| "fm_handler L c State_FingerMouse_3PlusFingers_NoInteraction = fm_3PlusFingers_NoInteraction L c"
| "fm_handler L c State_FingerMouse_3PlusFingers_Hovering = fm_3PlusFingers_Hovering L c"
| "fm_handler L c State_FingerMouse_3PlusFingers_GestureRecognition = fm_3PlusFingers_GestureRecognition L c"
| "fm_handler L c State_FingerMouse_3PlusFingers_SwipeVertical = fm_3PlusFingers_SwipeVertical L c"
| "fm_handler L c State_FingerMouse_3PlusFingers_SwipeHorizontal = fm_3PlusFingers_SwipeHorizontal L c"
| "fm_handler L c State_FingerMouse_Palm_GestureRecognition = fm_Palm_GestureRecognition L c"
| "fm_handler L c State_FingerMouse_Palm_Swipe = fm_Palm_Swipe L c"

section \<open>The mode\<close>

definition fm_Initialize ::
  "('f, 'h, 'p, 'e) env_scheme \<Rightarrow> fm_config \<Rightarrow> ('f, 'p) fm \<Rightarrow> ('f, 'p) fm outcome" where
  "fm_Initialize L c s =
     (if \<not> IsInitialized s then Initialize (fm_handler L c) State_FingerMouse_0Fingers_NoInteraction s
      else Done s)"

definition fm_clear_overlays :: "fm_config \<Rightarrow> ('f, 'p) fm \<Rightarrow> ('f, 'p) fm" where
  "fm_clear_overlays c s =
     (if m_flushOverlay s \<and> \<not> overlays_off c s
      then emit (hide_icons 0 (gm_numOverlayImages s)) s else s)"

definition fm_processFrameInternal ::
  "('f, 'h, 'p, 'e) env_scheme \<Rightarrow> fm_config \<Rightarrow> ('f, 'p) fm \<Rightarrow> ('f, 'p) fm outcome" where
  "fm_processFrameInternal L c s =
     bind_outcome (fm_Initialize L c (s\<lparr>fm_noTouching := number_touching L (m_relevantPointables s) = 0\<rparr>))
       (\<lambda>s1. bind_outcome (RunCurrentState (fm_handler L c) OMFM_PROCESS_FRAME (fm_clear_overlays c s1))
         (\<lambda>s2. Done (if m_flushOverlay s2 \<and> \<not> overlays_off c s2 then flushOverlay L s2 else s2)))"

definition fm_stopActiveEvents ::
  "('f, 'h, 'p, 'e) env_scheme \<Rightarrow> fm_config \<Rightarrow> ('f, 'p) fm \<Rightarrow> ('f, 'p) fm outcome" where
  "fm_stopActiveEvents L c s = RunCurrentState (fm_handler L c) OMFM_LOST_FOCUS s"

text \<open>The destructor, followed by that of the base class.\<close>

definition fm_destroy ::
  "('f, 'h, 'p, 'e) env_scheme \<Rightarrow> fm_config \<Rightarrow> ('f, 'p) fm \<Rightarrow> ('f, 'p) fm outcome" where
  "fm_destroy L c s =
     bind_outcome
       (Shutdown (fm_handler L c) (flushOverlay L (emit (hide_icons 0 (gm_numOverlayImages s)) s)))
       (\<lambda>t. Done (gim_destroy L t))"

definition fm_virtual ::
  "('f, 'h, 'p, 'e) env_scheme \<Rightarrow> fm_config \<Rightarrow> ('f, 'p, ('f, 'p) fm) gim_virtual" where
  "fm_virtual L c =
     \<lparr>v_processFrameInternal = fm_processFrameInternal L c,
      v_identifyRelevantPointables = identifyRelevantPointables L,
      v_identifyCollectivePointableZone = (\<lambda>ps s. greatest_zone L ps),
      v_setForemostPointable = setForemostPointable L\<rparr>"

definition fm_processFrame ::
  "('f, 'h, 'p, 'e) env_scheme \<Rightarrow> fm_config \<Rightarrow> 'f \<Rightarrow> 'f \<Rightarrow> ('f, 'p) fm \<Rightarrow> ('f, 'p) fm outcome" where
  "fm_processFrame L c frame since s = processFrame L (fm_virtual L c) frame since s"

end
