(* ===== verification/Finger_Mouse_Safety.thy ===== *)
theory Finger_Mouse_Safety
  imports Finger_Mouse
begin

text \<open>
  What every state of the finger mouse keeps. The mode is a \<open>mode_life\<close>: a rank on states, read off
  the frame's view, falls whenever entering a state asks for another one.
\<close>

section \<open>Fields the helpers leave alone\<close>

lemma perform_fm [simp]:
  "fm_drawOverlays (perform L k s) = fm_drawOverlays s" "fm_noTouching (perform L k s) = fm_noTouching s"
  "fm_clickDuration (perform L k s) = fm_clickDuration s"
  "fm_clickEligibleForDrag (perform L k s) = fm_clickEligibleForDrag s"
  "fm_clickNumber (perform L k s) = fm_clickNumber s"
  "fm_deferClickUpForDrag (perform L k s) = fm_deferClickUpForDrag s"
  "fm_lastClickTime (perform L k s) = fm_lastClickTime s"
  "fm_lastClickLocation (perform L k s) = fm_lastClickLocation s"
  "fm_gestureStart (perform L k s) = fm_gestureStart s"
  "fm_clickDownScreenPosition (perform L k s) = fm_clickDownScreenPosition s"
  by (simp_all add: perform_def effects_def split_beta Let_def)

lemma emit_fm [simp]:
  "fm_drawOverlays (emit as s) = fm_drawOverlays s" "fm_noTouching (emit as s) = fm_noTouching s"
  "fm_clickDuration (emit as s) = fm_clickDuration s"
  "fm_clickEligibleForDrag (emit as s) = fm_clickEligibleForDrag s"
  "fm_clickNumber (emit as s) = fm_clickNumber s"
  "fm_deferClickUpForDrag (emit as s) = fm_deferClickUpForDrag s"
  "fm_lastClickTime (emit as s) = fm_lastClickTime s"
  "fm_lastClickLocation (emit as s) = fm_lastClickLocation s"
  "fm_gestureStart (emit as s) = fm_gestureStart s"
  "fm_clickDownScreenPosition (emit as s) = fm_clickDownScreenPosition s"
  by (simp_all add: emit_def)

lemma favour_fm [simp]:
  "fm_drawOverlays (favour L s) = fm_drawOverlays s" "fm_noTouching (favour L s) = fm_noTouching s"
  "fm_clickDuration (favour L s) = fm_clickDuration s"
  "fm_clickEligibleForDrag (favour L s) = fm_clickEligibleForDrag s"
  "fm_clickNumber (favour L s) = fm_clickNumber s"
  "fm_deferClickUpForDrag (favour L s) = fm_deferClickUpForDrag s"
  "fm_lastClickTime (favour L s) = fm_lastClickTime s"
  "fm_lastClickLocation (favour L s) = fm_lastClickLocation s"
  "fm_gestureStart (favour L s) = fm_gestureStart s"
  "fm_clickDownScreenPosition (favour L s) = fm_clickDownScreenPosition s"
  by (simp_all add: favour_def resetFavoritePointableId_def)

lemma fm_goto_inside [simp]:
  "sm_running s \<Longrightarrow> sm_current s = Some q \<Longrightarrow> fm_goto st s = s\<lparr>sm_next := Some st\<rparr>"
  "sm_running s \<Longrightarrow> sm_current s = Some q \<Longrightarrow>
   FingerMouse_TransitionTo_NFingers_NoInteraction L c s = s\<lparr>sm_next := Some (fm_group_state L c s)\<rparr>"
  by (simp_all add: fm_goto_def FingerMouse_TransitionTo_NFingers_NoInteraction_def)

section \<open>The view of a frame\<close>

text \<open>
  What no handler changes: the base class's filters, history and touch set, the frame and what has
  been read off it.
\<close>

type_synonym 'f fm_view =
  "(nat, rolling) categorical \<times> (rts, rolling) categorical \<times> 'f timed_history \<times> bool \<times> 'f \<times> zone \<times>
   bool \<times> int"

definition fm_kept :: "('f, 'p) fm \<Rightarrow> 'f fm_view" where
  "fm_kept s =
     (m_filteredPointableCount s, m_filteredRTS s, m_timedFrameHistory s, touches_ok (m_touchEvent s),
      m_currentFrame s, m_collectiveZone s, fm_noTouching s, m_foremostPointableId s)"

lemma fm_kept_updates [simp]:
  "fm_kept (s\<lparr>sm_running := b\<rparr>) = fm_kept s" "fm_kept (s\<lparr>sm_next := n\<rparr>) = fm_kept s"
  "fm_kept (s\<lparr>sm_current := q\<rparr>) = fm_kept s" "fm_kept (s\<lparr>sm_violations := vs\<rparr>) = fm_kept s"
  "fm_kept (s\<lparr>fm_drawOverlays := b\<rparr>) = fm_kept s" "fm_kept (s\<lparr>fm_clickDuration := i\<rparr>) = fm_kept s"
  "fm_kept (s\<lparr>fm_clickEligibleForDrag := b\<rparr>) = fm_kept s" "fm_kept (s\<lparr>fm_clickNumber := i\<rparr>) = fm_kept s"
  "fm_kept (s\<lparr>fm_deferClickUpForDrag := b\<rparr>) = fm_kept s" "fm_kept (s\<lparr>fm_lastClickTime := i\<rparr>) = fm_kept s"
  "fm_kept (s\<lparr>fm_lastClickLocation := v\<rparr>) = fm_kept s" "fm_kept (s\<lparr>fm_gestureStart := f\<rparr>) = fm_kept s"
  "fm_kept (s\<lparr>fm_clickDownScreenPosition := v\<rparr>) = fm_kept s"
  "fm_kept (s\<lparr>m_favoritePointableId := i\<rparr>) = fm_kept s"
  "fm_kept (emit as s) = fm_kept s" "fm_kept (perform L a s) = fm_kept s" "fm_kept (favour L s) = fm_kept s"
  by (simp_all add: fm_kept_def)

text \<open>The readings of the view.\<close>

lemma fm_keptD:
  assumes "fm_kept t = fm_kept s"
  shows "count_is P t = count_is P s" "fm_shouldBeInPalmSwipeMode L c t = fm_shouldBeInPalmSwipeMode L c s"
    "fm_leaves L c P t = fm_leaves L c P s" "fm_group_state L c t = fm_group_state L c s"
    "m_collectiveZone t = m_collectiveZone s" "fm_noTouching t = fm_noTouching s"
    "gim_ok t = gim_ok s" "m_currentFrame t = m_currentFrame s"
proof -
  have e: "m_filteredPointableCount t = m_filteredPointableCount s" "m_filteredRTS t = m_filteredRTS s"
    "m_timedFrameHistory t = m_timedFrameHistory s"
    "touches_ok (m_touchEvent t) = touches_ok (m_touchEvent s)" "m_currentFrame t = m_currentFrame s"
    "m_collectiveZone t = m_collectiveZone s" "fm_noTouching t = fm_noTouching s"
    "m_foremostPointableId t = m_foremostPointableId s"
    using assms by (simp_all add: fm_kept_def)
  show "count_is P t = count_is P s" "fm_shouldBeInPalmSwipeMode L c t = fm_shouldBeInPalmSwipeMode L c s"
    "fm_leaves L c P t = fm_leaves L c P s" "fm_group_state L c t = fm_group_state L c s"
    "m_collectiveZone t = m_collectiveZone s" "fm_noTouching t = fm_noTouching s"
    "gim_ok t = gim_ok s" "m_currentFrame t = m_currentFrame s"
    unfolding count_is_def pointableCountIsUnambiguous_def pointableCount_def
      fm_shouldBeInPalmSwipeMode_def palm_hand_def fm_leaves_def fm_group_state_def gim_ok_def e
    by (rule refl)+
qed

section \<open>Ranks\<close>

primrec fm_wrong :: "('f, 'h, 'p, 'e) env_scheme \<Rightarrow> fm_config \<Rightarrow> ('f, 'p) fm \<Rightarrow> fm_state \<Rightarrow> bool" where
  "fm_wrong L c s State_FingerMouse_0Fingers_NoInteraction = fm_leaves L c (\<lambda>k. k > 0) s"
| "fm_wrong L c s State_FingerMouse_1Finger_Hovering = fm_leaves L c (\<lambda>k. k \<noteq> 1) s"
| "fm_wrong L c s State_FingerMouse_1Finger_Clicking = fm_leaves L c (\<lambda>k. k = 0) s"
| "fm_wrong L c s State_FingerMouse_1Finger_Dragging = fm_leaves L c (\<lambda>k. k \<noteq> 1) s"
| "fm_wrong L c s State_FingerMouse_2Fingers_Hovering =
     fm_leaves L c (\<lambda>k. k \<noteq> 2 \<and> (Use3PlusFingerGestures c \<or> k < 3)) s"
| "fm_wrong L c s State_FingerMouse_2Fingers_GestureRecognition = fm_leaves L c (\<lambda>k. k = 0) s"
| "fm_wrong L c s State_FingerMouse_2Fingers_Rotating = False"
| "fm_wrong L c s State_FingerMouse_2Fingers_Scrolling = False"
| "fm_wrong L c s State_FingerMouse_2Fingers_Zooming = False"
| "fm_wrong L c s State_FingerMouse_3PlusFingers_NoInteraction = fm_leaves L c (\<lambda>k. k < 3) s"
| "fm_wrong L c s State_FingerMouse_3PlusFingers_Hovering = False"
| "fm_wrong L c s State_FingerMouse_3PlusFingers_GestureRecognition = fm_leaves L c (\<lambda>k. k < 3) s"
| "fm_wrong L c s State_FingerMouse_3PlusFingers_SwipeVertical = False"
| "fm_wrong L c s State_FingerMouse_3PlusFingers_SwipeHorizontal = False"
| "fm_wrong L c s State_FingerMouse_Palm_GestureRecognition = (\<not> fm_shouldBeInPalmSwipeMode L c s)"
| "fm_wrong L c s State_FingerMouse_Palm_Swipe = False"

definition fm_rank :: "('f, 'h, 'p, 'e) env_scheme \<Rightarrow> fm_config \<Rightarrow> fm_state \<Rightarrow> ('f, 'p) fm \<Rightarrow> nat" where
  "fm_rank L c st s =
     (if fm_wrong L c s st then 4
      else case st of
          State_FingerMouse_1Finger_Hovering \<Rightarrow> 1
        | State_FingerMouse_1Finger_Dragging \<Rightarrow> if m_collectiveZone s = ZONE_TOUCHING then 0 else 2
        | State_FingerMouse_2Fingers_Hovering \<Rightarrow> 2
        | State_FingerMouse_2Fingers_GestureRecognition \<Rightarrow>
            if fm_noTouching s \<and> m_collectiveZone s \<noteq> ZONE_TOUCHING then 5 else 1
        | State_FingerMouse_3PlusFingers_NoInteraction \<Rightarrow> 1
        | State_FingerMouse_3PlusFingers_GestureRecognition \<Rightarrow>
            if m_collectiveZone s = ZONE_NONE then 2
            else if m_collectiveZone s = ZONE_HOVERING then 1 else 0
        | _ \<Rightarrow> 0)"

lemma fm_rank_cong: "fm_kept t = fm_kept s \<Longrightarrow> fm_rank L c st t = fm_rank L c st s"
proof -
  assume "fm_kept t = fm_kept s"
  note k = fm_keptD [OF this]
  have "fm_wrong L c t st = fm_wrong L c s st" by (cases st) (simp_all add: k)
  then show ?thesis by (simp only: fm_rank_def k)
qed

lemma count_is_mono: "count_is P s \<Longrightarrow> (\<And>k. P k \<Longrightarrow> Q k) \<Longrightarrow> count_is Q s"
  by (auto simp: count_is_def split: option.splits)

lemma fm_leaves_mono: "fm_leaves L c P s \<Longrightarrow> (\<And>k. P k \<Longrightarrow> Q k) \<Longrightarrow> fm_leaves L c Q s"
  unfolding fm_leaves_def using count_is_mono by blast

text \<open>The group that the count selects is not left again.\<close>

lemma palm_needs_config: "fm_shouldBeInPalmSwipeMode L c s \<Longrightarrow> Use3PlusFingerGestures c"
  by (auto simp: fm_shouldBeInPalmSwipeMode_def split: option.splits)

lemma group_state_right: "\<not> fm_wrong L c s (fm_group_state L c s)"
  using palm_needs_config [of L c s]
  by (auto simp: fm_group_state_def fm_leaves_def count_is_def Let_def split: option.splits)

lemma group_state_rank: "fm_rank L c (fm_group_state L c s) s < 4"
  using group_state_right [of L c s]
  by (auto simp: fm_rank_def fm_group_state_def Let_def)

lemma group_state_neq [simp]:
  "fm_group_state L c s \<noteq> State_FingerMouse_1Finger_Dragging"
  "State_FingerMouse_1Finger_Dragging \<noteq> fm_group_state L c s"
  by (auto simp: fm_group_state_def Let_def)

section \<open>What the overlays and the cursor leave alone\<close>

definition sdk_scales :: "('f, 'h, 'p, 'e) env_scheme \<Rightarrow> bool" where
  "sdk_scales L \<longleftrightarrow> (\<forall>f g. 0 \<le> fr_scaleFactor L f g)"

text \<open>
  The SDK documents that scale factors are positive; only a negative one fails the assertions of the
  gesture overlays.
\<close>

definition scale_assertions :: "('f, 'h, 'p, 'e) env_scheme \<Rightarrow> violation set" where
  "scale_assertions L = {v. \<not> sdk_scales L \<and> (v = OwnerAssertion 430 \<or> v = OwnerAssertion 464)}"

definition fm_same :: "('f, 'h, 'p, 'e) env_scheme \<Rightarrow> ('f, 'p) fm \<Rightarrow> ('f, 'p) fm \<Rightarrow> bool" where
  "fm_same L t s \<longleftrightarrow>
     sm_current t = sm_current s \<and> sm_running t = sm_running s \<and> sm_logger t = sm_logger s \<and>
     sm_next t = sm_next s \<and> fm_kept t = fm_kept s \<and>
     fm_deferClickUpForDrag t = fm_deferClickUpForDrag s \<and> fm_gestureStart t = fm_gestureStart s \<and>
     (set (sm_violations s) \<subseteq> scale_assertions L \<longrightarrow> set (sm_violations t) \<subseteq> scale_assertions L) \<and>
     buttons (out t) (Some False) = buttons (out s) (Some False) \<and>
     gestures (out t) (Some GestureNone) = gestures (out s) (Some GestureNone)"

lemma fm_same_refl: "fm_same L s s"
  by (simp add: fm_same_def)

lemma fm_same_trans: "fm_same L t s \<Longrightarrow> fm_same L u t \<Longrightarrow> fm_same L u s"
  by (simp add: fm_same_def)

lemma fm_same_favour: "fm_same L (favour L s) s"
  by (simp add: fm_same_def)

lemma fm_same_perform: "call_safe L a \<Longrightarrow> fm_same L (perform L a s) s"
  by (simp add: fm_same_def)

lemma fm_same_perform_favour: "call_safe L a \<Longrightarrow> fm_same L (perform L a (favour L s)) s"
  using fm_same_trans [OF fm_same_favour fm_same_perform] .

lemma recentScaleFactor_nonneg: "sdk_scales L \<Longrightarrow> 0 \<le> recentScaleFactor L s"
  by (auto simp: recentScaleFactor_def sdk_scales_def split: list.split)

lemma fm_same_zoom:
  "fm_same L (drawZoomOverlayForHand L h a po s) s" "fm_same L (drawZoomOverlayForPointable L p a po s) s"
proof -
  have v: "set (effect_violations (drawGestureOverlayForHand_fx L h r sc a po False False b1 b2 s))
      \<subseteq> (if 0 \<le> sc then {} else {OwnerAssertion 430})"
    "set (effect_violations (drawGestureOverlayForPointable_fx L p r sc a po False False b1 b2 s))
      \<subseteq> (if 0 \<le> sc then {} else {OwnerAssertion 464})" for r sc b1 b2
    by (auto simp: drawGestureOverlayForHand_fx_def drawGestureOverlayForPointable_fx_def
        overlay_asserts_def Let_def split: prod.split)
  have "set (effect_violations (drawGestureOverlayForHand_fx L h 0 (recentScaleFactor L s) a po False False b1 b2 s))
      \<subseteq> scale_assertions L"
    "set (effect_violations (drawGestureOverlayForPointable_fx L p 0 (recentScaleFactor L s) a po False False b1 b2 s))
      \<subseteq> scale_assertions L" for b1 b2
    using v [of 0 "recentScaleFactor L s" b1 b2] recentScaleFactor_nonneg [of L s]
    by (auto simp: scale_assertions_def split: if_splits)
  then show "fm_same L (drawZoomOverlayForHand L h a po s) s"
    "fm_same L (drawZoomOverlayForPointable L p a po s) s"
    by (simp_all add: drawZoomOverlayForHand_def drawZoomOverlayForPointable_def fm_same_def)
qed

lemma fm_same_rotate:
  "fm_same L (drawRotateOverlayForHand L h a po s) s" "fm_same L (drawRotateOverlayForPointable L p a po s) s"
  by (simp_all add: drawRotateOverlayForHand_def drawRotateOverlayForPointable_def fm_same_perform)

lemma fm_same_hand_or_pointable:
  assumes "\<And>h t. fm_same L (f h t) t" "\<And>p t. fm_same L (g p t) t"
  shows "fm_same L (for_hand_or_pointable L c f g s) s"
proof -
  have "fm_same L (f h (favour L s)) s" "fm_same L (g p (favour L s)) s" for h p
    using assms fm_same_favour fm_same_trans by blast+
  then show ?thesis
    by (simp add: for_hand_or_pointable_def Let_def fm_same_refl fm_same_favour)
qed

lemma fm_same_parts:
  "fm_same L (DrawPointingOverlay L c s) s" "fm_same L (DrawClickingOrDraggingOverlay L c s) s"
  "fm_same L (DrawScrollOverlay L c s) s" "fm_same L (DrawRotateOverlay L c s) s"
  "fm_same L (DrawZoomOverlay L c s) s" "fm_same L (DrawDesktopSwipeOverlay L c b s) s"
  "fm_same L (DrawVerticalPalmOverlay L c s) s"
  "fm_same L (move_cursor L s) s" "fm_same L (move_cursor_to_pointable L s) s"
  "fm_same L (always_move L c s) s" "fm_same L (fm_setClickPosition L s) s"
proof -
  show "fm_same L (DrawPointingOverlay L c s) s" "fm_same L (DrawVerticalPalmOverlay L c s) s"
    "fm_same L (move_cursor_to_pointable L s) s"
    by (simp_all add: DrawPointingOverlay_def DrawVerticalPalmOverlay_def move_cursor_to_pointable_def
        Let_def fm_same_refl fm_same_favour fm_same_perform_favour split: list.split option.split)
  show "fm_same L (DrawClickingOrDraggingOverlay L c s) s" "fm_same L (fm_setClickPosition L s) s"
    by (simp_all add: fm_same_def DrawClickingOrDraggingOverlay_def fm_setClickPosition_def Let_def
        split_beta button_step_quiet gesture_step_quiet split: option.split)
  show m: "fm_same L (move_cursor L s) s"
    by (simp add: move_cursor_def Let_def fm_same_perform_favour)
  then show "fm_same L (always_move L c s) s" by (simp add: always_move_def fm_same_refl)
  show "fm_same L (DrawScrollOverlay L c s) s" "fm_same L (DrawRotateOverlay L c s) s"
    "fm_same L (DrawZoomOverlay L c s) s" "fm_same L (DrawDesktopSwipeOverlay L c b s) s"
    by (simp_all add: DrawScrollOverlay_def DrawRotateOverlay_def DrawZoomOverlay_def
        DrawDesktopSwipeOverlay_def fm_same_hand_or_pointable fm_same_perform fm_same_rotate fm_same_zoom)
qed

lemma fm_sameD:
  assumes "fm_same L t s"
  shows "sm_current t = sm_current s" "sm_running t = sm_running s" "sm_logger t = sm_logger s"
    "sm_next t = sm_next s" "fm_kept t = fm_kept s"
    "fm_deferClickUpForDrag t = fm_deferClickUpForDrag s" "fm_gestureStart t = fm_gestureStart s"
    "buttons (out t) (Some False) = buttons (out s) (Some False)"
    "gestures (out t) (Some GestureNone) = gestures (out s) (Some GestureNone)"
    "set (sm_violations s) \<subseteq> scale_assertions L \<Longrightarrow> set (sm_violations t) \<subseteq> scale_assertions L"
  using assms by (simp_all add: fm_same_def)

lemmas fm_parts [simp] = fm_same_parts [THEN fm_sameD(1)] fm_same_parts [THEN fm_sameD(2)]
  fm_same_parts [THEN fm_sameD(3)] fm_same_parts [THEN fm_sameD(4)] fm_same_parts [THEN fm_sameD(5)]
  fm_same_parts [THEN fm_sameD(6)] fm_same_parts [THEN fm_sameD(7)] fm_same_parts [THEN fm_sameD(8)]
  fm_same_parts [THEN fm_sameD(9)] fm_same_parts [THEN fm_sameD(10)]

lemma fm_amounts [simp]:
  "gestures (fm_generateScrollBetweenFrames L c f g) (Some GestureScroll) = Some GestureScroll"
  "gestures (fm_generateDesktopSwipeBetweenFrames L f g) (Some GestureDesktopSwipeHorizontal) =
     Some GestureDesktopSwipeHorizontal"
  "gestures (fm_generateDesktopSwipeBetweenFrames L f g) (Some GestureDesktopSwipeVertical) =
     Some GestureDesktopSwipeVertical"
  "buttons (fm_generateScrollBetweenFrames L c f g) d = d"
  "buttons (fm_generateDesktopSwipeBetweenFrames L f g) d = d"
  by (simp_all add: fm_generateScrollBetweenFrames_def fm_generateDesktopSwipeBetweenFrames_def
      gesture_step_def button_step_quiet Let_def split: option.split)

section \<open>Holding and clicking\<close>

lemma fm_hold_parts:
  assumes "sm_running s" "sm_current s = Some q"
  shows "sm_current (fm_hold L s) = sm_current s" "sm_running (fm_hold L s) = sm_running s"
    "sm_logger (fm_hold L s) = sm_logger s" "fm_kept (fm_hold L s) = fm_kept s"
    "out (fm_hold L s) = out s" "sm_violations (fm_hold L s) = sm_violations s"
    "sm_next s = None \<Longrightarrow> \<not> fm_deferClickUpForDrag s \<Longrightarrow>
       fm_deferClickUpForDrag (fm_hold L s) \<longleftrightarrow>
       sm_next (fm_hold L s) = Some State_FingerMouse_1Finger_Dragging"
  using assms by (simp_all add: fm_hold_def Let_def split_beta)

lemma fm_click_down_parts [simp]:
  "sm_current (fm_click_down L s) = sm_current s" "sm_running (fm_click_down L s) = sm_running s"
  "sm_logger (fm_click_down L s) = sm_logger s" "sm_next (fm_click_down L s) = sm_next s"
  "fm_kept (fm_click_down L s) = fm_kept s" "\<not> fm_deferClickUpForDrag (fm_click_down L s)"
  "set (sm_violations s) \<subseteq> scale_assertions L \<Longrightarrow>
   set (sm_violations (fm_click_down L s)) \<subseteq> scale_assertions L"
  "buttons (out s) (Some False) = Some False \<Longrightarrow>
   buttons (out (fm_click_down L s)) (Some False) = Some True"
  "gestures (out (fm_click_down L s)) (Some GestureNone) = gestures (out s) (Some GestureNone)"
  by (simp_all add: fm_click_down_def Let_def button_step_def gesture_step_quiet)

section \<open>What the states keep\<close>

definition fm_gesture :: "fm_state \<Rightarrow> u32" where
  "fm_gesture st =
     (case st of
        State_FingerMouse_2Fingers_Rotating \<Rightarrow> GestureRotate
      | State_FingerMouse_2Fingers_Scrolling \<Rightarrow> GestureScroll
      | State_FingerMouse_2Fingers_Zooming \<Rightarrow> GestureZoom
      | State_FingerMouse_3PlusFingers_SwipeVertical \<Rightarrow> GestureDesktopSwipeVertical
      | State_FingerMouse_3PlusFingers_SwipeHorizontal \<Rightarrow> GestureDesktopSwipeHorizontal
      | State_FingerMouse_Palm_Swipe \<Rightarrow> GestureDesktopSwipeHorizontal
      | _ \<Rightarrow> GestureNone)"

definition fm_pressed :: "fm_state \<Rightarrow> bool" where
  "fm_pressed st \<longleftrightarrow>
     st = State_FingerMouse_1Finger_Clicking \<or> st = State_FingerMouse_1Finger_Dragging"

text \<open>
  Leaving the clicking state for a drag hands the pressed button over; in every other transition the
  button is up between the two states.
\<close>

definition fm_between ::
  "('f, 'h, 'p, 'e) env_scheme \<Rightarrow> 'f fm_view \<Rightarrow> fm_state \<Rightarrow> ('f, 'p) fm \<Rightarrow> bool" where
  "fm_between L k nxt s \<longleftrightarrow>
     fm_kept s = k \<and> set (sm_violations s) \<subseteq> scale_assertions L \<and>
     gestures (out s) (Some GestureNone) = Some GestureNone \<and>
     buttons (out s) (Some False) = Some (nxt = State_FingerMouse_1Finger_Dragging)"

definition fm_safe :: "('f, 'h, 'p, 'e) env_scheme \<Rightarrow> 'f fm_view \<Rightarrow> ('f, 'p) fm \<Rightarrow> bool" where
  "fm_safe L k s \<longleftrightarrow>
     fm_kept s = k \<and> set (sm_violations s) \<subseteq> scale_assertions L \<and>
     (\<exists>st. sm_current s = Some st \<and>
        gestures (out s) (Some GestureNone) = Some (fm_gesture st) \<and>
        buttons (out s) (Some False) = Some (fm_pressed st) \<and>
        (st = State_FingerMouse_1Finger_Clicking \<longrightarrow>
           (fm_deferClickUpForDrag s \<longleftrightarrow> sm_next s = Some State_FingerMouse_1Finger_Dragging)) \<and>
        (sm_next s = Some State_FingerMouse_1Finger_Dragging \<longrightarrow>
           st = State_FingerMouse_1Finger_Clicking))"

definition fm_released :: "('f, 'h, 'p, 'e) env_scheme \<Rightarrow> 'f fm_view \<Rightarrow> ('f, 'p) fm \<Rightarrow> bool" where
  "fm_released L k = fm_between L k State_FingerMouse_0Fingers_NoInteraction"

definition fm_input :: "sm_input \<Rightarrow> bool" where
  "fm_input i \<longleftrightarrow> i = OMFM_PROCESS_FRAME \<or> i = OMFM_LOST_FOCUS"

named_theorems fm_handlers \<open>the handlers\<close>

lemmas [fm_handlers] = fm_0Fingers_NoInteraction_def fm_1Finger_Hovering_def fm_1Finger_Clicking_def
  fm_1Finger_Dragging_def fm_2Fingers_Hovering_def fm_2Fingers_GestureRecognition_def
  fm_2Fingers_Rotating_def fm_2Fingers_Scrolling_def fm_2Fingers_Zooming_def two_finger_frame_def
  fm_3PlusFingers_NoInteraction_def fm_3PlusFingers_Hovering_def
  fm_3PlusFingers_GestureRecognition_def fm_3PlusFingers_SwipeVertical_def
  fm_3PlusFingers_SwipeHorizontal_def fm_swipe_on_def fm_Palm_GestureRecognition_def fm_Palm_Swipe_def
  resetFavoritePointableId_def

text \<open>A transition request changes at most the next state and the assertions.\<close>

lemma fm_goto_fields [simp]:
  "sm_current (fm_goto x s) = sm_current s" "sm_running (fm_goto x s) = sm_running s"
  "sm_logger (fm_goto x s) = sm_logger s"
  "sm_current (FingerMouse_TransitionTo_NFingers_NoInteraction L c s) = sm_current s"
  "sm_running (FingerMouse_TransitionTo_NFingers_NoInteraction L c s) = sm_running s"
  "sm_logger (FingerMouse_TransitionTo_NFingers_NoInteraction L c s) = sm_logger s"
  by (simp_all add: fm_goto_def FingerMouse_TransitionTo_NFingers_NoInteraction_def SetNextState_def
      Let_def)

lemma fm_hold_fields [simp]:
  "sm_current (fm_hold L s) = sm_current s" "sm_running (fm_hold L s) = sm_running s"
  "sm_logger (fm_hold L s) = sm_logger s"
  by (simp_all add: fm_hold_def Let_def split_beta)

lemma fm_handler_fields [simp]:
  "sm_current (snd (fm_handler L c st i s)) = sm_current s"
  "sm_running (snd (fm_handler L c st i s)) = sm_running s"
  "sm_logger (snd (fm_handler L c st i s)) = sm_logger s"
  by (cases st; simp add: fm_handlers Let_def split: option.split)+

lemma fm_exit_next [simp]: "sm_next (snd (fm_handler L c st SM_EXIT s)) = sm_next s"
  by (cases st) (simp_all add: fm_handlers Let_def)

lemma fm_leave:
  assumes "fm_safe L k s" "sm_current s = Some st" "sm_next s = Some nxt"
  shows "fm_between L k nxt (exited_by (fm_handler L c) st s)"
  using assms unfolding exited_by_def
  by (cases st)
    (auto simp: fm_handlers fm_safe_def fm_between_def fm_gesture_def fm_pressed_def gesture_step_def
      button_step_def Let_def)

lemma fm_release:
  assumes "fm_safe L k s" "sm_current s = Some st" "sm_next s = None"
  shows "fm_released L k (exited_by (fm_handler L c) st s)"
  using assms unfolding exited_by_def
  by (cases st)
    (auto simp: fm_handlers fm_safe_def fm_between_def fm_released_def fm_gesture_def fm_pressed_def
      gesture_step_def button_step_def Let_def)

lemma two_finger_gesture_range:
  "two_finger_gesture L s = Some st \<Longrightarrow>
   st = State_FingerMouse_2Fingers_Rotating \<or> st = State_FingerMouse_2Fingers_Zooming \<or>
   st = State_FingerMouse_2Fingers_Scrolling"
  by (auto simp: two_finger_gesture_def Let_def split: list.splits if_splits)

lemma two_finger_no_drag [simp]: "two_finger_gesture L s \<noteq> Some State_FingerMouse_1Finger_Dragging"
  using two_finger_gesture_range by blast

lemma fm_enter:
  assumes "fm_between L k nxt s"
  shows "fm_safe L k (entered_by (fm_handler L c) nxt s)"
  using assms unfolding entered_by_def
  by (cases nxt)
    (auto simp: fm_handlers fm_safe_def fm_between_def fm_gesture_def fm_pressed_def gesture_step_def
      button_step_quiet Let_def translating_for_def time_units split: option.split)

lemma fm_handled:
  assumes "fm_safe L k s" "sm_current s = Some st" "sm_next s = None" "sm_running s" "fm_input i"
  shows "fst (fm_handler L c st i s) \<and> fm_safe L k (snd (fm_handler L c st i s))"
proof
  show "fst (fm_handler L c st i s)"
    using assms(5) by (cases st) (auto simp: fm_handlers fm_input_def Let_def)
  show "fm_safe L k (snd (fm_handler L c st i s))"
  proof (cases "i = OMFM_LOST_FOCUS")
    case True
    with assms show ?thesis by (cases st) (simp_all add: fm_handlers fm_safe_def)
  next
    case False
    then have i: "i = OMFM_PROCESS_FRAME" using assms(5) by (simp add: fm_input_def)
    show ?thesis
      using assms(1-4) unfolding i
      by (cases st)
        (auto simp: fm_handlers fm_safe_def fm_gesture_def fm_pressed_def gesture_step_def
          button_step_quiet fm_hold_parts Let_def split: option.split)
  qed
qed

section \<open>Settling\<close>

text \<open>What entering a state asks for, in terms of the view before it is entered.\<close>

definition fm_asks :: "('f, 'h, 'p, 'e) env_scheme \<Rightarrow> fm_config \<Rightarrow> fm_state \<Rightarrow> ('f, 'p) fm \<Rightarrow> fm_state \<Rightarrow> bool" where
  "fm_asks L c nxt s n \<longleftrightarrow>
     (if fm_wrong L c s nxt then n = fm_group_state L c s
      else
        (nxt = State_FingerMouse_1Finger_Hovering \<and> m_collectiveZone s = ZONE_TOUCHING \<and>
           n = State_FingerMouse_1Finger_Clicking) \<or>
        (nxt = State_FingerMouse_1Finger_Dragging \<and> m_collectiveZone s \<noteq> ZONE_TOUCHING \<and>
           n = State_FingerMouse_1Finger_Hovering) \<or>
        (nxt = State_FingerMouse_2Fingers_Hovering \<and> m_collectiveZone s = ZONE_TOUCHING \<and>
           (n = State_FingerMouse_2Fingers_GestureRecognition \<or> n = State_FingerMouse_2Fingers_Scrolling)) \<or>
        (nxt = State_FingerMouse_2Fingers_GestureRecognition \<and> fm_noTouching s \<and>
           m_collectiveZone s \<noteq> ZONE_TOUCHING \<and> n = State_FingerMouse_2Fingers_Hovering) \<or>
        (nxt = State_FingerMouse_2Fingers_GestureRecognition \<and>
           \<not> (fm_noTouching s \<and> m_collectiveZone s \<noteq> ZONE_TOUCHING) \<and>
           (n = State_FingerMouse_2Fingers_Rotating \<or> n = State_FingerMouse_2Fingers_Zooming \<or>
            n = State_FingerMouse_2Fingers_Scrolling)) \<or>
        (nxt = State_FingerMouse_3PlusFingers_NoInteraction \<and>
           (m_collectiveZone s = ZONE_HOVERING \<and> n = State_FingerMouse_3PlusFingers_Hovering \<or>
            m_collectiveZone s = ZONE_TOUCHING \<and> n = State_FingerMouse_3PlusFingers_GestureRecognition)) \<or>
        (nxt = State_FingerMouse_3PlusFingers_GestureRecognition \<and>
           (m_collectiveZone s = ZONE_NONE \<and> n = State_FingerMouse_3PlusFingers_NoInteraction \<or>
            m_collectiveZone s = ZONE_HOVERING \<and> n = State_FingerMouse_3PlusFingers_Hovering)))"

lemma fm_asks_rank: "fm_asks L c nxt s n \<Longrightarrow> fm_rank L c n s < fm_rank L c nxt s"
proof (cases "fm_wrong L c s nxt")
  case True
  assume "fm_asks L c nxt s n"
  then show ?thesis using True group_state_rank [of L c s] by (simp add: fm_asks_def fm_rank_def)
next
  case False
  note le = fm_leaves_mono [of L c _ s]
  assume "fm_asks L c nxt s n"
  then show ?thesis
    using False le [of "\<lambda>k. k = 0" "\<lambda>k. k \<noteq> 1"]
      le [of "\<lambda>k. k = 0" "\<lambda>k. k \<noteq> 2 \<and> (Use3PlusFingerGestures c \<or> k < 3)"]
    by (auto simp: fm_asks_def fm_rank_def)
qed

lemmas fm_view_updates = fm_kept_updates [THEN fm_keptD(2)] fm_kept_updates [THEN fm_keptD(3)]
  fm_kept_updates [THEN fm_keptD(4)]

lemmas fm_view_parts = fm_same_parts [THEN fm_sameD(5), THEN fm_keptD(2)]
  fm_same_parts [THEN fm_sameD(5), THEN fm_keptD(3)] fm_same_parts [THEN fm_sameD(5), THEN fm_keptD(4)]
  fm_same_parts [THEN fm_sameD(5), THEN fm_keptD(5)] fm_same_parts [THEN fm_sameD(5), THEN fm_keptD(6)]
  fm_same_parts [THEN fm_sameD(5), THEN fm_keptD(8)]

lemma palm_hand_valid:
  "fm_shouldBeInPalmSwipeMode L c s \<Longrightarrow> \<exists>h. palm_hand L s = Some h \<and> h_valid L h"
  by (auto simp: fm_shouldBeInPalmSwipeMode_def split: option.splits)

lemma palm_hand_cong:
  assumes "m_currentFrame t = m_currentFrame s" "m_foremostPointableId t = m_foremostPointableId s"
  shows "palm_hand L t = palm_hand L s"
  unfolding palm_hand_def assms by (rule refl)

lemma fm_enter_asks:
  assumes "sm_next (entered_by (fm_handler L c) nxt s) = Some n"
  shows "fm_asks L c nxt s n"
proof (cases "nxt = State_FingerMouse_Palm_GestureRecognition")
  case True
  let ?s = "s\<lparr>sm_running := True, sm_next := None, sm_current := Some nxt, fm_gestureStart := m_currentFrame s\<rparr>"
  have p: "palm_hand L ?s = palm_hand L s" by (rule palm_hand_cong) simp_all
  with assms palm_hand_valid [of L c s] True show ?thesis
    unfolding entered_by_def
    by (auto simp: fm_handlers fm_asks_def fm_view_updates fm_view_parts Let_def translating_for_def
        fm_now_def time_units split: option.splits if_splits)
next
  case False
  with assms show ?thesis
    unfolding entered_by_def
    by (cases nxt)
      (auto simp: fm_handlers fm_asks_def fm_view_updates fm_view_parts Let_def translating_for_def
        fm_now_def time_units dest: two_finger_gesture_range split: option.splits if_splits)
qed

interpretation fm_owner: mode_life "fm_handler L c" fm_input "fm_safe L k" "fm_between L k"
  "fm_released L k" "fm_rank L c" State_FingerMouse_0Fingers_NoInteraction for L c k
proof unfold_locales
  show "i \<noteq> SM_INVALID \<and> i \<noteq> SM_EXIT \<and> i \<le> SM_HIGHEST_USER_INPUT_VALUE" if "fm_input i" for i
    using that by (auto simp: fm_input_def)
  show "fm_between L k nxt (exited_by (fm_handler L c) st s)"
    if "fm_safe L k s" "sm_current s = Some st" "sm_next s = Some nxt" for s st nxt
    using fm_leave [OF that] .
  show "fm_released L k (exited_by (fm_handler L c) st s)"
    if "fm_safe L k s" "sm_current s = Some st" "sm_next s = None" for s st
    using fm_release [OF that] .
  show "fm_safe L k (entered_by (fm_handler L c) nxt s)" if "fm_between L k nxt s" for nxt s
    using fm_enter [OF that] .
  show "fst (fm_handler L c st i s) \<and> fm_safe L k (snd (fm_handler L c st i s))"
    if "fm_safe L k s" "sm_current s = Some st" "sm_next s = None" "sm_running s" "fm_input i" for s st i
    using fm_handled [OF that] .
  show "fm_rank L c nxt (exited_by (fm_handler L c) st s) = fm_rank L c nxt s"
    if "fm_safe L k s" "sm_current s = Some st" "sm_next s = Some nxt" for s st nxt
    using fm_leave [OF that, of c] that(1) by (intro fm_rank_cong) (simp add: fm_between_def fm_safe_def)
  show "fm_rank L c n (entered_by (fm_handler L c) nxt s) < fm_rank L c nxt s"
    if "fm_between L k nxt s" "sm_next (entered_by (fm_handler L c) nxt s) = Some n" for n nxt s
  proof -
    have "fm_kept (entered_by (fm_handler L c) nxt s) = fm_kept s"
      using fm_enter [OF that(1), of c] that(1) by (simp add: fm_safe_def fm_between_def)
    from fm_rank_cong [OF this, of L c n] fm_asks_rank [OF fm_enter_asks [OF that(2)]]
    show ?thesis by (simp only:)
  qed
qed (simp_all add: fm_safe_def fm_between_def fm_released_def)

end
