(* ===== verification/Finger_Mouse_Properties.thy ===== *)
theory Finger_Mouse_Properties
  imports Finger_Mouse_Safety Sample_Sdk
begin

text \<open>
  The life of a \<open>FingerMouse\<close> object and what it promises: every frame is processed to its end, presses
  and gestures are bracketed, a click that is held in place becomes a drag without letting the button
  go, and no assertion fails as long as the SDK's scale factors are not negative.
\<close>

section \<open>The invariant between calls\<close>

abbreviation fm_alive ::
  "('f, 'h, 'p, 'e) env_scheme \<Rightarrow> 'f fm_view \<Rightarrow> ('f, 'p) fm \<Rightarrow> bool" where
  "fm_alive L k \<equiv>
     mode_life.alive (fm_safe L k) (fm_between L k) State_FingerMouse_0Fingers_NoInteraction"

definition fm_inv :: "('f, 'h, 'p, 'e) env_scheme \<Rightarrow> ('f, 'p) fm \<Rightarrow> bool" where
  "fm_inv L s \<longleftrightarrow> gim_ok s \<and> fm_alive L (fm_kept s) s"

lemma fm_alive_kept: "fm_alive L k t \<Longrightarrow> fm_kept t = k"
  by (simp add: fm_owner.alive_def fm_safe_def fm_between_def split: if_splits)

lemma fm_inv_alive:
  assumes "fm_inv L s" "fm_alive L (fm_kept s) t"
  shows "fm_inv L t"
  using assms fm_alive_kept [OF assms(2)] fm_keptD(7) [of t s] by (simp add: fm_inv_def)

lemma fm_run_inv:
  assumes "fm_inv L s" "IsInitialized s" "fm_input i"
  shows "\<exists>t. RunCurrentState (fm_handler L c) i s = Done t \<and> fm_inv L t \<and> IsInitialized t"
  using fm_owner.run_alive [OF _ assms(2,3), of L "fm_kept s" c] assms(1) fm_inv_alive [OF assms(1)]
  by (auto simp: fm_inv_def)

lemma fm_Initialize_inv:
  assumes "fm_inv L s"
  shows "\<exists>t. fm_Initialize L c s = Done t \<and> fm_inv L t \<and> IsInitialized t"
  using fm_owner.initialize_alive [of L "fm_kept s" s c] assms fm_inv_alive [OF assms]
  unfolding fm_Initialize_def fm_inv_def by blast

lemma fm_inv_cong:
  assumes "fm_inv L s" "gim_ok t" "sm_current t = sm_current s" "sm_next t = sm_next s"
    "sm_running t = sm_running s" "sm_logger t = sm_logger s" "sm_violations t = sm_violations s"
    "buttons (out t) (Some False) = buttons (out s) (Some False)"
    "gestures (out t) (Some GestureNone) = gestures (out s) (Some GestureNone)"
    "fm_deferClickUpForDrag t = fm_deferClickUpForDrag s"
  shows "fm_inv L t"
  using assms by (auto simp: fm_inv_def fm_owner.alive_def fm_safe_def fm_between_def IsInitialized_def)

lemma fm_gim_ok [simp]:
  "gim_ok (s\<lparr>fm_noTouching := b\<rparr>) = gim_ok s" "gim_ok (emit as s) = gim_ok s"
  by (simp_all add: gim_ok_def)

lemma fm_trimmings:
  assumes "fm_inv L s"
  shows "fm_inv L (s\<lparr>fm_noTouching := b\<rparr>)" "fm_inv L (fm_clear_overlays c s)"
    "fm_inv L (flushOverlay L s)" "fm_inv L (emit (hide_icons i j) s)"
proof -
  have g: "gim_ok s" using assms by (simp add: fm_inv_def)
  then show "fm_inv L (s\<lparr>fm_noTouching := b\<rparr>)" "fm_inv L (fm_clear_overlays c s)"
    "fm_inv L (flushOverlay L s)" "fm_inv L (emit (hide_icons i j) s)"
    by (auto intro!: fm_inv_cong [OF assms] simp: fm_clear_overlays_def flushOverlay_def
        button_step_quiet gesture_step_quiet)
qed

lemma fm_trimmings_initialized [simp]:
  "IsInitialized (fm_clear_overlays c s) = IsInitialized s"
  "IsInitialized (flushOverlay L s) = IsInitialized s"
  by (simp_all add: IsInitialized_def fm_clear_overlays_def flushOverlay_def)

lemma fm_processFrameInternal_inv:
  assumes "fm_inv L s"
  shows "\<exists>t. fm_processFrameInternal L c s = Done t \<and> fm_inv L t \<and> IsInitialized t"
proof -
  let ?s = "s\<lparr>fm_noTouching := number_touching L (m_relevantPointables s) = 0\<rparr>"
  obtain s1 where s1: "fm_Initialize L c ?s = Done s1" "fm_inv L s1" "IsInitialized s1"
    using fm_Initialize_inv [OF fm_trimmings(1) [OF assms]] by blast
  obtain s2 where s2: "RunCurrentState (fm_handler L c) OMFM_PROCESS_FRAME (fm_clear_overlays c s1) = Done s2"
    "fm_inv L s2" "IsInitialized s2"
    using fm_run_inv [OF fm_trimmings(2) [OF s1(2)], of c OMFM_PROCESS_FRAME c] s1(3)
    by (auto simp: fm_input_def)
  with s1(1) fm_trimmings(3) [OF s2(2)] show ?thesis
    by (simp add: fm_processFrameInternal_def)
qed

lemma fm_processFrame_inv:
  assumes "fm_inv L s" "sdk_probabilities L"
    and "addFrame_in_order (fr_timestamp L frame) (m_timedFrameHistory s)"
  shows "\<exists>t. fm_processFrame L c frame since s = Done t \<and> fm_inv L t \<and> IsInitialized t"
proof -
  have "gim_ok s" using assms(1) by (simp add: fm_inv_def)
  from observe_frame_ok [OF this assms(3,2)] obtain t
    where t: "observe_frame L (fm_virtual L c) frame since s = Some t" "gim_ok t"
      "sm_current t = sm_current s" "sm_next t = sm_next s" "sm_running t = sm_running s"
      "sm_logger t = sm_logger s" "sm_violations t = sm_violations s" "out t = out s"
      "gim.more t = gim.more s" by metis
  have "fm_deferClickUpForDrag t = fm_deferClickUpForDrag s" using t(9) by (cases t; cases s) simp
  with t fm_inv_cong [OF assms(1) t(2)] have "fm_inv L t" by simp
  from fm_processFrameInternal_inv [OF this, of c] t(1) show ?thesis
    by (simp add: fm_processFrame_def processFrame_def fm_virtual_def)
qed

lemma fm_new_inv:
  fixes L :: "('f, 'h, 'p, 'e) env_scheme"
  shows "\<exists>s. FingerMouse L e d m = Inr s \<and> fm_inv L s \<and> \<not> IsInitialized s \<and>
    th_pairs (m_timedFrameHistory s) = []"
proof -
  obtain g :: "(fm_state, 'f, 'p) gim" where g: "GestureInteractionManager L = Inr g" "gim_ok g"
    "out g = []" "machine.truncate g = sm_new"
    "m_timedFrameHistory g = TimedHistory (500 * MILLISECONDS)"
    using gim_new by blast
  then show ?thesis
    by (cases g) (auto simp: FingerMouse_def fm_inv_def fm_owner.alive_def IsInitialized_def
        fm_between_def gim.defs finger_mouse.defs machine.defs sm_new_def gim_ok_def TimedHistory_def)
qed

section \<open>Reachable states\<close>

inductive fm_reachable :: "('f, 'h, 'p, 'e) env_scheme \<Rightarrow> ('f, 'p) fm \<Rightarrow> bool" for L where
  new: "FingerMouse L e d m = Inr s \<Longrightarrow> fm_reachable L s"
| frame: "fm_reachable L s \<Longrightarrow> addFrame_in_order (fr_timestamp L f) (m_timedFrameHistory s) \<Longrightarrow>
    fm_processFrame L c f since s = Done t \<Longrightarrow> fm_reachable L t"
| lost_focus: "fm_reachable L s \<Longrightarrow> IsInitialized s \<Longrightarrow> fm_stopActiveEvents L c s = Done t \<Longrightarrow>
    fm_reachable L t"

lemma fm_reachable_inv:
  assumes "fm_reachable L s" "sdk_probabilities L"
  shows "fm_inv L s"
  using assms
proof (induction rule: fm_reachable.induct)
  case (new e d m s)
  then show ?case using fm_new_inv [of L e d m] by auto
next
  case (frame s f c since t)
  then show ?case using fm_processFrame_inv [of L s f c since] by auto
next
  case (lost_focus s c t)
  then show ?case
    using fm_run_inv [of L s OMFM_LOST_FOCUS c] by (auto simp: fm_stopActiveEvents_def fm_input_def)
qed

lemma fm_sample_start:
  obtains s where "FingerMouse (sample p) False False False = Inr s" "fm_reachable (sample p) s"
    "th_pairs (m_timedFrameHistory s) = []"
  using fm_new_inv [of "sample p" False False False] fm_reachable.new by blast

lemma sample_scales: "sdk_scales (sample p)"
  by (simp add: sdk_scales_def sample_def)

section \<open>The mode's promises\<close>

text \<open>
  C9 Every frame of the finger mouse is processed to its end. Whatever came before, as long as frames
  arrive in order, \<open>processFrame\<close> returns: its sixteen states call for each other while they are
  entered, and every chain of entries ends.
\<close>

theorem finger_mouse_frame_returns:
  assumes "fm_reachable L s" "sdk_probabilities L"
    and "addFrame_in_order (fr_timestamp L f) (m_timedFrameHistory s)"
  shows "\<exists>t. fm_processFrame L c f since s = Done t \<and> IsInitialized t \<and> fm_reachable L t"
proof -
  obtain t where t: "fm_processFrame L c f since s = Done t" "IsInitialized t"
    using fm_processFrame_inv [OF fm_reachable_inv [OF assms(1,2)] assms(2,3)] by blast
  from fm_reachable.frame [OF assms(1,3) t(1)] t show ?thesis by blast
qed

theorem finger_mouse_frame_returns_witness:
  "\<exists>s t. FingerMouse (sample Apple) False False False = Inr s \<and>
     fm_processFrame (sample Apple) fm_config_default (s_empty 0) (s_empty 0) s = Done t"
proof -
  obtain s where s: "FingerMouse (sample Apple) False False False = Inr s" "fm_reachable (sample Apple) s"
    "th_pairs (m_timedFrameHistory s) = []"
    using fm_sample_start by blast
  then have "addFrame_in_order (fr_timestamp (sample Apple) (s_empty 0)) (m_timedFrameHistory s)"
    by (simp add: addFrame_in_order_def)
  from finger_mouse_frame_returns [OF s(2) sample_probabilities this, where c = fm_config_default
      and since = "s_empty 0"] s(1)
  show ?thesis by blast
qed

text \<open>
  C8 The finger mouse brackets its clicks and its gestures. Over everything it has emitted presses and
  releases alternate, and between two calls the button is down exactly in the clicking and dragging
  states; gestures are begun, applied and ended in turn, and the one in progress is the current
  state's. With the scale factors the SDK documents no assertion fails.
\<close>

theorem finger_mouse_bracketed:
  assumes "fm_reachable L s" "sdk_probabilities L" "sdk_scales L"
  shows "buttons (out s) (Some False) =
      Some (case sm_current s of None \<Rightarrow> False | Some st \<Rightarrow> fm_pressed st) \<and>
    gestures (out s) (Some GestureNone) =
      Some (case sm_current s of None \<Rightarrow> GestureNone | Some st \<Rightarrow> fm_gesture st) \<and>
    sm_violations s = []"
  using fm_reachable_inv [OF assms(1,2)] assms(3)
  by (auto simp: fm_inv_def fm_owner.alive_def fm_safe_def fm_between_def scale_assertions_def
      IsInitialized_def split: if_splits)

theorem finger_mouse_bracketed_witness:
  "\<exists>s. FingerMouse (sample Linux) False False False = Inr s \<and>
     buttons (out s) (Some False) = Some (case sm_current s of None \<Rightarrow> False | Some st \<Rightarrow> fm_pressed st)"
proof -
  obtain s where s: "FingerMouse (sample Linux) False False False = Inr s" "fm_reachable (sample Linux) s"
    using fm_sample_start by blast
  from finger_mouse_bracketed [OF s(2) sample_probabilities sample_scales] s(1) show ?thesis by blast
qed

text \<open>
  Destroying the finger mouse at any moment leaves nothing held: its last actions release the
  button and end the gesture that were in progress.
\<close>

theorem finger_mouse_destroy_releases:
  assumes "fm_reachable L s" "sdk_probabilities L"
  shows "\<exists>t. fm_destroy L c s = Done t \<and> \<not> IsInitialized t \<and>
    buttons (out t) (Some False) = Some False \<and> gestures (out t) (Some GestureNone) = Some GestureNone"
proof -
  let ?s = "flushOverlay L (emit (hide_icons 0 (gm_numOverlayImages s)) s)"
  have "fm_inv L ?s" using fm_reachable_inv [OF assms] by (intro fm_trimmings)
  then have "fm_alive L (fm_kept ?s) ?s" by (simp add: fm_inv_def)
  from fm_owner.shutdown_alive [OF this, of c] show ?thesis
    by (auto simp: fm_destroy_def gim_destroy_def fm_released_def fm_between_def IsInitialized_def
        button_step_quiet gesture_step_quiet)
qed

theorem finger_mouse_destroy_releases_witness:
  "\<exists>s t. FingerMouse (sample Apple) False False False = Inr s \<and>
     fm_destroy (sample Apple) fm_config_default s = Done t \<and> buttons (out t) (Some False) = Some False"
proof -
  obtain s where s: "FingerMouse (sample Apple) False False False = Inr s" "fm_reachable (sample Apple) s"
    using fm_sample_start by blast
  from finger_mouse_destroy_releases [OF s(2) sample_probabilities] s(1) show ?thesis by blast
qed

section \<open>From a click to a drag\<close>

text \<open>What has been emitted between two states, when none of it presses or releases a button.\<close>

definition no_button_since :: "('f, 'p) fm \<Rightarrow> ('f, 'p) fm \<Rightarrow> bool" where
  "no_button_since s t \<longleftrightarrow> (\<exists>as. out t = out s @ as \<and> list_all (\<lambda>a. \<not> is_button a) as)"

lemma no_button_same: "out t = out s \<Longrightarrow> no_button_since s t"
  by (simp add: no_button_since_def)

lemma no_button_trans: "no_button_since s t \<Longrightarrow> no_button_since t u \<Longrightarrow> no_button_since s u"
  by (auto simp: no_button_since_def)

lemma no_button_emit: "list_all (\<lambda>a. \<not> is_button a) as \<Longrightarrow> no_button_since s (emit as s)"
  by (auto simp: no_button_since_def)

lemma no_button_cursor:
  "no_button_since s (perform L (SetAbsoluteCursorPositionPointable p) s)"
  by (auto simp: no_button_since_def setAbsoluteCursorPositionPointable_fx_def
      setAbsoluteCursorPosition_def Let_def split: prod.splits)

lemma no_button_parts:
  "no_button_since s (DrawClickingOrDraggingOverlay L c s)" "no_button_since s (move_cursor_to_pointable L s)"
proof -
  show "no_button_since s (DrawClickingOrDraggingOverlay L c s)"
    by (auto simp: DrawClickingOrDraggingOverlay_def no_button_since_def Let_def split_beta)
  show "no_button_since s (move_cursor_to_pointable L s)"
    using no_button_trans [OF no_button_same no_button_cursor, of "favour L s" s]
    by (simp add: move_cursor_to_pointable_def Let_def)
qed

definition hold_point :: "('f, 'h, 'p, 'e) env_scheme \<Rightarrow> ('f, 'p) fm \<Rightarrow> vec" where
  "hold_point L s =
     fst (snd (to_screen L (m_interactionBox s) (getTrackedPosition (m_positionalDeltaTracker s)) True))"

lemma fm_hold_drags:
  assumes "fm_clickEligibleForDrag s" "fm_now L s - fm_lastClickTime s > HoverDurationToActivateDrag"
    and "distanceTo (fm_lastClickLocation s) (hold_point L s) < 50"
    and "sm_running s" "sm_current s = Some q"
  shows "sm_next (fm_hold L s) = Some State_FingerMouse_1Finger_Dragging"
    "fm_deferClickUpForDrag (fm_hold L s)" "out (fm_hold L s) = out s"
proof -
  have "\<not> distanceTo (fm_lastClickLocation s) (hold_point L s) \<ge> 50" using assms(3) by simp
  then show "sm_next (fm_hold L s) = Some State_FingerMouse_1Finger_Dragging"
    "fm_deferClickUpForDrag (fm_hold L s)" "out (fm_hold L s) = out s"
    using assms by (simp_all add: fm_hold_def hold_point_def Let_def split_beta fm_now_def)
qed

lemma drag_overlay_fields [simp]:
  "fm_clickEligibleForDrag (DrawClickingOrDraggingOverlay L c s) = fm_clickEligibleForDrag s"
  "fm_lastClickTime (DrawClickingOrDraggingOverlay L c s) = fm_lastClickTime s"
  "fm_lastClickLocation (DrawClickingOrDraggingOverlay L c s) = fm_lastClickLocation s"
  "m_currentFrame (DrawClickingOrDraggingOverlay L c s) = m_currentFrame s"
  "m_interactionBox (DrawClickingOrDraggingOverlay L c s) = m_interactionBox s"
  by (simp_all add: DrawClickingOrDraggingOverlay_def Let_def split_beta)

text \<open>The overlay does not depend on whether the machine is inside a state.\<close>

lemma hold_point_running:
  "hold_point L (DrawClickingOrDraggingOverlay L c (s\<lparr>sm_running := b\<rparr>)) =
     hold_point L (DrawClickingOrDraggingOverlay L c s)"
  by (simp add: hold_point_def DrawClickingOrDraggingOverlay_def overlays_off_def favour_def
      fm_pointable_def resetFavoritePointableId_def perform_def setPositionToStabilizedPositionOf_pointable_def
      Let_def split_beta)

text \<open>
  A click held in place becomes a drag with the button still down. When the pointable has been
  touching for more than half a second within 50 pixels of where the click went down, the frame that
  finds this moves the machine to the dragging state, and nothing it emits presses or releases a
  button: the release is left to the end of the drag.
\<close>

theorem finger_mouse_drag_keeps_button:
  assumes "fm_inv L s" "sm_current s = Some State_FingerMouse_1Finger_Clicking"
    and "\<not> fm_leaves L c (\<lambda>k. k \<noteq> 1) s" "m_collectiveZone s = ZONE_TOUCHING"
    and "fm_clickEligibleForDrag s"
    and "fr_timestamp L (m_currentFrame s) - fm_lastClickTime s > 500 * MILLISECONDS"
    and "distanceTo (fm_lastClickLocation s) (hold_point L (DrawClickingOrDraggingOverlay L c s)) < 50"
  shows "\<exists>t as. RunCurrentState (fm_handler L c) OMFM_PROCESS_FRAME s = Done t \<and>
    sm_current t = Some State_FingerMouse_1Finger_Dragging \<and>
    out t = out s @ as \<and> list_all (\<lambda>a. \<not> is_button a) as"
proof -
  let ?H = "fm_handler L c"
  have i: "\<not> sm_logger s" "\<not> sm_running s" "sm_next s = None"
    using assms(1) by (simp_all add: fm_inv_def fm_owner.alive_def)
  have u: "s\<lparr>sm_next := None\<rparr> = s" using i(3) by (cases s) simp
  define d where "d = DrawClickingOrDraggingOverlay L c (s\<lparr>sm_running := True\<rparr>)"
  define h where "h = fm_hold L d"
  have h: "sm_next h = Some State_FingerMouse_1Finger_Dragging" "fm_deferClickUpForDrag h" "out h = out d"
    using fm_hold_drags [of d L State_FingerMouse_1Finger_Clicking] assms(2,5-7)
      hold_point_running [of L c True s]
    by (simp_all add: h_def d_def fm_now_def HoverDurationToActivateDrag_def)
  have f: "sm_first ?H OMFM_PROCESS_FRAME s = h\<lparr>sm_running := False\<rparr>"
    using i assms(2-4)
    by (simp add: sm_first_def u call_state_quiet fm_handlers fm_view_updates h_def d_def)
  have k: "fm_kept h = fm_kept s" "sm_current h = Some State_FingerMouse_1Finger_Clicking" "\<not> sm_logger h"
    using assms(2) i(1) by (simp_all add: h_def d_def fm_hold_parts)
  define e where "e = exited_by ?H State_FingerMouse_1Finger_Clicking (h\<lparr>sm_running := False\<rparr>)"
  have e: "fm_kept e = fm_kept s" "out e = out h"
    using h(2) k by (simp_all add: e_def exited_by_def fm_handlers)
  define e' where "e' = e\<lparr>sm_running := True, sm_next := None,
      sm_current := Some State_FingerMouse_1Finger_Dragging\<rparr>"
  define t where "t = entered_by ?H State_FingerMouse_1Finger_Dragging e"
  have e': "fm_kept (e'\<lparr>fm_drawOverlays := True\<rparr>) = fm_kept s" using e(1) by (simp add: e'_def)
  have t: "t = (move_cursor_to_pointable L
      (DrawClickingOrDraggingOverlay L c (e'\<lparr>fm_drawOverlays := True\<rparr>)))\<lparr>sm_running := False\<rparr>"
    using fm_keptD(3) [OF e', of L c "\<lambda>k. k \<noteq> 1"] fm_keptD(5) [OF e'] assms(3,4)
    by (simp add: t_def entered_by_def e'_def [symmetric] fm_handlers)
  have "sm_transition ?H State_FingerMouse_1Finger_Dragging (h\<lparr>sm_running := False\<rparr>) = t"
    using k by (simp add: fm_owner.transition_parts t_def e_def)
  moreover have n: "sm_next t = None" "sm_current t = Some State_FingerMouse_1Finger_Dragging"
    by (simp_all add: t e'_def)
  ultimately have "RunCurrentState ?H OMFM_PROCESS_FRAME s = Done t"
    using assms(2) h(1) sm_loop_step [of "h\<lparr>sm_running := False\<rparr>" State_FingerMouse_1Finger_Dragging ?H]
    by (simp add: RunCurrentState_def RunCurrentStatePrivate_def f)
  moreover have "no_button_since s t"
  proof -
    have "no_button_since s d"
      using no_button_parts(1) [of "s\<lparr>sm_running := True\<rparr>" L c] by (simp add: d_def no_button_since_def)
    moreover have "no_button_since d e'" by (intro no_button_same) (simp add: e'_def e(2) h(3))
    moreover have "no_button_since e' (e'\<lparr>fm_drawOverlays := True\<rparr>)" by (intro no_button_same) simp
    moreover have "no_button_since (e'\<lparr>fm_drawOverlays := True\<rparr>) t"
      using no_button_trans [OF no_button_parts(1) no_button_parts(2), of "e'\<lparr>fm_drawOverlays := True\<rparr>" L L c]
      by (simp add: t no_button_since_def)
    ultimately show ?thesis using no_button_trans by blast
  qed
  ultimately show ?thesis using n(2) by (auto simp: no_button_since_def)
qed

text \<open>A filter that has only ever seen one pointable.\<close>

definition one_pointable :: "(nat, rolling) categorical \<Rightarrow> (nat, rolling) categorical" where
  "one_pointable c =
     c\<lparr>m_filter := \<lparr>Sample = 1, NonZero = True, Integral = 1, P1 = [0, 1, 0, 0, 0, 0, 0, 0, 0, 0], P2 = []\<rparr>,
       m_valuesAreCached := False\<rparr>"

lemma one_pointable_good:
  "pointable_count_filter.cf_good c \<Longrightarrow> pointable_count_filter.cf_good (one_pointable c)"
  by (simp add: one_pointable_def pointable_count_filter.cf_good_def rolling_good_def prob_vec_def)

lemma one_pointable_count:
  assumes "m_filteredPointableCount s = one_pointable c" "m_categories c = [0..<10]"
    "m_uniformCategorizationThreshold c = 8 / 10"
  shows "\<not> count_is (\<lambda>k. k \<noteq> 1) s"
  by (simp add: count_is_def pointableCount_def pointableCountIsUnambiguous_def assms one_pointable_def
      filteredCategory_def filteredCategoryIsUnambiguous_def ensureValuesAreCached_def rolling_filter_def
      rm_Predict_def Let_def upt_rec)

theorem finger_mouse_drag_keeps_button_witness:
  "\<exists>s t. fm_inv (sample Apple) s \<and> buttons (out s) (Some False) = Some True \<and>
     RunCurrentState (fm_handler (sample Apple) (fm_config_default\<lparr>DisableAllOverlays := True\<rparr>))
       OMFM_PROCESS_FRAME s = Done t \<and>
     sm_current t = Some State_FingerMouse_1Finger_Dragging \<and> buttons (out t) (Some False) = Some True"
proof -
  let ?L = "sample Apple" and ?c = "fm_config_default\<lparr>DisableAllOverlays := True\<rparr>"
  obtain s where s: "fm_reachable ?L s" "\<not> IsInitialized s"
    using fm_new_inv [of ?L False False False] fm_reachable.new by blast
  let ?s = "s\<lparr>sm_current := Some State_FingerMouse_1Finger_Clicking, out := [ClickDown 0 1],
    m_currentFrame := s_empty 600000, m_collectiveZone := ZONE_TOUCHING,
    m_filteredPointableCount := one_pointable (m_filteredPointableCount s),
    fm_clickEligibleForDrag := True, fm_deferClickUpForDrag := False, fm_lastClickTime := 0,
    fm_lastClickLocation := hold_point ?L s\<rparr>"
  have i: "fm_inv ?L s" using fm_reachable_inv [OF s(1) sample_probabilities] .
  then have g: "gim_ok s" by (simp add: fm_inv_def)
  have "gim_ok ?s"
    using g by (simp add: gim_ok_def one_pointable_good) (simp add: one_pointable_def)
  then have v: "fm_inv ?L ?s"
    using i s(2) by (auto simp: fm_inv_def fm_owner.alive_def fm_safe_def fm_between_def IsInitialized_def
        fm_pressed_def fm_gesture_def button_step_def gesture_step_def)
  have "\<not> count_is (\<lambda>k. k \<noteq> 1) ?s"
    using g by (intro one_pointable_count [of _ "m_filteredPointableCount s"]) (simp_all add: gim_ok_def MAX_POINTABLES_def)
  moreover have "\<not> fm_shouldBeInPalmSwipeMode ?L ?c ?s"
    by (simp add: fm_shouldBeInPalmSwipeMode_def palm_hand_def sample_def s_empty_def split: option.split)
  ultimately have l: "\<not> fm_leaves ?L ?c (\<lambda>k. k \<noteq> 1) ?s" by (simp add: fm_leaves_def)
  have "distanceTo (fm_lastClickLocation ?s) (hold_point ?L (DrawClickingOrDraggingOverlay ?L ?c ?s)) < 50"
    by (simp add: DrawClickingOrDraggingOverlay_def overlays_off_def hold_point_def distanceTo_def
        magnitude_def magnitudeSquared_def dot_def)
  then obtain t as where t: "RunCurrentState (fm_handler ?L ?c) OMFM_PROCESS_FRAME ?s = Done t"
    "sm_current t = Some State_FingerMouse_1Finger_Dragging" "out t = out ?s @ as"
    "list_all (\<lambda>a. \<not> is_button a) as"
    using finger_mouse_drag_keeps_button [OF v _ l] by (auto simp: time_units)
  have "buttons (out t) (Some False) = Some True" "buttons (out ?s) (Some False) = Some True"
    using t(3,4) by (simp_all add: button_step_def buttons_quiet)
  with v t(1,2) show ?thesis by blast
qed

end
