(* ===== verification/Dynamic_Value.thy ===== *)
theory Dynamic_Value
  imports Prelude "HOL-Library.Char_ord" "HOL-Library.List_Lexorder" "HOL-Library.Monad_Syntax"
begin

text \<open>
  The dynamic values of \<open>source/Utility/Value.h\<close> and their text form, the writer and the conversions
  of \<open>source/Utility/Value.cpp\<close>. A value is a \<open>boost::any\<close>; the types the class knows are
  the constructors, and \<open>VOther\<close> stands for an object of any other type. Strings are lists of bytes.
  A hash is a \<open>std::map\<close>: a list of pairs in strictly increasing order of the keys.

  Floating point numbers are real numbers or one of the special values, since the writer tests for NaN.
  They are printed as the standard library's streams do by default: six significant digits, without
  trailing zeros, in exponent form when the exponent is below -4 or above 5.
\<close>

section \<open>Values\<close>

datatype ieee = Finite real | PosInf | NegInf | NaN

datatype dvalue =
    VNull
  | VString string
  | VInt "32 word"
  | VLongLong "64 word"
  | VDouble ieee
  | VBool bool
  | VUInt "32 word"
  | VULongLong "64 word"
  | VLongDouble ieee
  | VArray "dvalue list"
  | VHash "(string \<times> dvalue) list"
  | VOther

type_synonym hash = "(string \<times> dvalue) list"

definition IsHash :: "dvalue \<Rightarrow> bool" where
  "IsHash v \<longleftrightarrow> (case v of VHash _ \<Rightarrow> True | _ \<Rightarrow> False)"

definition IsNumeric :: "dvalue \<Rightarrow> bool" where
  "IsNumeric v \<longleftrightarrow> (case v of VInt _ \<Rightarrow> True | VDouble _ \<Rightarrow> True | VLongLong _ \<Rightarrow> True | VUInt _ \<Rightarrow> True
     | VULongLong _ \<Rightarrow> True | VLongDouble _ \<Rightarrow> True | _ \<Rightarrow> False)"

text \<open>The operations of a map: \<open>hash[key] = value\<close>, \<open>find\<close>.\<close>

fun map_set :: "'k::linorder \<Rightarrow> 'v \<Rightarrow> ('k \<times> 'v) list \<Rightarrow> ('k \<times> 'v) list" where
  "map_set k v [] = [(k, v)]"
| "map_set k v ((k', v') # h) =
     (if k < k' then (k, v) # (k', v') # h
      else if k = k' then (k, v) # h
      else (k', v') # map_set k v h)"

definition HashHas :: "dvalue \<Rightarrow> string \<Rightarrow> bool" where
  "HashHas v key \<longleftrightarrow> (case v of VHash h \<Rightarrow> map_of h key \<noteq> None | _ \<Rightarrow> False)"

definition HashGet :: "dvalue \<Rightarrow> string \<Rightarrow> dvalue" where
  "HashGet v key =
     (case v of VHash h \<Rightarrow> (case map_of h key of Some x \<Rightarrow> x | None \<Rightarrow> VNull) | _ \<Rightarrow> VNull)"

definition HashSet :: "dvalue \<Rightarrow> string \<Rightarrow> dvalue \<Rightarrow> dvalue \<times> bool" where
  "HashSet v key x = (case v of VHash h \<Rightarrow> (VHash (map_set key x h), True) | _ \<Rightarrow> (v, False))"

section \<open>Numbers as text\<close>

definition digit :: "nat \<Rightarrow> char" where "digit n = char_of (48 + n)"

definition digit_value :: "char \<Rightarrow> nat" where "digit_value c = of_char c - 48"

definition is_digit :: "char \<Rightarrow> bool" where
  "is_digit c \<longleftrightarrow> 48 \<le> (of_char c :: nat) \<and> (of_char c :: nat) \<le> 57"

fun show_nat :: "nat \<Rightarrow> string" where
  "show_nat n = (if n < 10 then [digit n] else show_nat (n div 10) @ [digit (n mod 10)])"

declare show_nat.simps [simp del]

definition show_int :: "int \<Rightarrow> string" where
  "show_int i = (if i < 0 then CHR ''-'' # show_nat (nat (- i)) else show_nat (nat i))"

definition read_nat :: "string \<Rightarrow> nat" where
  "read_nat ds = foldl (\<lambda>n c. 10 * n + digit_value c) 0 ds"

definition round_half_even :: "real \<Rightarrow> int" where
  "round_half_even x =
     (let f = \<lfloor>x\<rfloor>; d = x - of_int f in
      if d < 1 / 2 then f else if d > 1 / 2 then f + 1 else if even f then f else f + 1)"

text \<open>The decimal exponent of a positive number: the power of ten at or below it.\<close>

definition exponent10 :: "real \<Rightarrow> int" where
  "exponent10 x =
     (if x \<ge> 1 then int (length (show_nat (nat \<lfloor>x\<rfloor>))) - 1
      else - int (length (show_nat (nat (\<lceil>1 / x\<rceil> - 1)))))"

text \<open>The six significant digits of a positive number, as a number below a million, and its exponent.\<close>

definition significand :: "real \<Rightarrow> nat \<times> int" where
  "significand x =
     (let e = exponent10 x; m = nat (round_half_even (x * 10 powi (5 - e))) in
      if m = 1000000 then (100000, e + 1) else (m, e))"

definition strip_zeros :: "string \<Rightarrow> string" where
  "strip_zeros s = rev (dropWhile (\<lambda>c. c = CHR ''0'') (rev s))"

definition fraction_text :: "string \<Rightarrow> string" where
  "fraction_text ds = (if ds = [] then [] else CHR ''.'' # ds)"

definition show_exponent :: "int \<Rightarrow> string" where
  "show_exponent e =
     CHR ''e'' # (if e < 0 then CHR ''-'' else CHR ''+'') #
     (if \<bar>e\<bar> < 10 then CHR ''0'' # show_nat (nat \<bar>e\<bar>) else show_nat (nat \<bar>e\<bar>))"

text \<open>The whole part, the fraction and the exponent of a positive number's text.\<close>

definition show_parts :: "real \<Rightarrow> string \<times> string \<times> string" where
  "show_parts x =
     (let (m, e) = significand x; ds = show_nat m in
      if 0 \<le> e \<and> e < 6
      then (take (nat e + 1) ds, fraction_text (strip_zeros (drop (nat e + 1) ds)), [])
      else if - 4 \<le> e \<and> e < 0
      then (''0'', fraction_text (replicate (nat (- e - 1)) CHR ''0'' @ strip_zeros ds), [])
      else (take 1 ds, fraction_text (strip_zeros (drop 1 ds)), show_exponent e))"

definition show_positive :: "real \<Rightarrow> string" where
  "show_positive x = (let (whole, fraction, exponent) = show_parts x in whole @ fraction @ exponent)"

definition show_double :: "ieee \<Rightarrow> string" where
  "show_double d =
     (case d of
        Finite x \<Rightarrow> (if x = 0 then ''0'' else if x < 0 then CHR ''-'' # show_positive (- x)
                     else show_positive x)
      | PosInf \<Rightarrow> ''inf'' | NegInf \<Rightarrow> ''-inf'' | NaN \<Rightarrow> ''nan'')"

section \<open>The writer\<close>

definition escape_char :: "bool \<Rightarrow> char \<Rightarrow> string" where
  "escape_char escapeSlashes c =
     (if c = CHR 0x22 then [CHR 0x5C, CHR 0x22]
      else if c = CHR 0x5C then [CHR 0x5C, CHR 0x5C]
      else if c = CHR ''/'' then (if escapeSlashes then [CHR 0x5C, CHR ''/''] else [c])
      else if c = CHR 0x08 then [CHR 0x5C, CHR ''b'']
      else if c = CHR 0x0C then [CHR 0x5C, CHR ''f'']
      else if c = CHR 0x0A then [CHR 0x5C, CHR ''n'']
      else if c = CHR 0x0D then [CHR 0x5C, CHR ''r'']
      else if c = CHR 0x09 then [CHR 0x5C, CHR ''t'']
      else [c])"

text \<open>The loop over \<open>c_str()\<close> ends at the first NUL byte.\<close>

definition json_string :: "bool \<Rightarrow> string \<Rightarrow> string" where
  "json_string escapeSlashes s =
     CHR 0x22 # concat (map (escape_char escapeSlashes) (takeWhile (\<lambda>c. c \<noteq> CHR 0x00) s)) @ [CHR 0x22]"

definition new_line :: "int \<Rightarrow> string" where
  "new_line n = CHR 0x0A # replicate (nat n) CHR '' ''"

text \<open>An even indentation asks for pretty output, a negative one for no line break before the value.\<close>

definition pretty :: "bool \<Rightarrow> int \<Rightarrow> bool" where
  "pretty asJSON indent \<longleftrightarrow> asJSON \<and> even indent"

definition indentation :: "bool \<Rightarrow> int \<Rightarrow> string" where
  "indentation asJSON indent = (if pretty asJSON indent \<and> indent > 0 then new_line indent else [])"

definition nesting :: "bool \<Rightarrow> int \<Rightarrow> int" where
  "nesting asJSON indent = (if pretty asJSON indent \<and> \<not> indent > 0 then - indent else indent)"

definition string_text :: "bool \<Rightarrow> bool \<Rightarrow> string \<Rightarrow> string" where
  "string_text asJSON escapeSlashes s = (if asJSON then json_string escapeSlashes s else s)"

definition scalar_text :: "bool \<Rightarrow> bool \<Rightarrow> dvalue \<Rightarrow> string" where
  "scalar_text asJSON escapeSlashes v =
     (case v of
        VString s \<Rightarrow> string_text asJSON escapeSlashes s
      | VInt w \<Rightarrow> show_int (sint w)
      | VLongLong w \<Rightarrow> show_int (sint w)
      | VDouble d \<Rightarrow> (if d \<noteq> NaN then show_double d else ''null'')
      | VBool b \<Rightarrow> (if b then ''true'' else ''false'')
      | VNull \<Rightarrow> ''null''
      | VUInt w \<Rightarrow> show_int (uint w)
      | VULongLong w \<Rightarrow> show_int (uint w)
      | VLongDouble d \<Rightarrow> show_double d
      | _ \<Rightarrow> [])"

fun join :: "string list \<Rightarrow> string" where
  "join [] = []"
| "join [x] = x"
| "join (x # y # r) = x @ CHR '','' # join (y # r)"

text \<open>
  What \<open>toStream\<close> writes. Its answer is false exactly for an object of another type, and the writer
  ignores the answers for the elements of an array or a hash.
\<close>

fun stream_text :: "bool \<Rightarrow> bool \<Rightarrow> int \<Rightarrow> dvalue \<Rightarrow> string" where
  "stream_text asJSON esc indent (VArray xs) =
     (let n = nesting asJSON indent in
      indentation asJSON indent @ CHR ''['' #
      join (map (stream_text asJSON esc (n + 2)) xs) @
      (if pretty asJSON n then new_line n else []) @ '']'')"
| "stream_text asJSON esc indent (VHash h) =
     (let n = nesting asJSON indent in
      indentation asJSON indent @ CHR ''{'' #
      join (map (\<lambda>p. (if asJSON then indentation asJSON (n + 2) @ string_text asJSON esc (fst p) else fst p) @
                     CHR '':'' # (if pretty asJSON n then '' '' else []) @
                     stream_text asJSON esc (- (n + 2)) (snd p)) h) @
      (if pretty asJSON n \<and> n \<ge> 0 then new_line n else []) @ ''}'')"
| "stream_text asJSON esc indent v = indentation asJSON indent @ scalar_text asJSON esc v"

definition toStream :: "bool \<Rightarrow> bool \<Rightarrow> int \<Rightarrow> dvalue \<Rightarrow> string \<times> bool" where
  "toStream asJSON escapeSlashes indent v = (stream_text asJSON escapeSlashes indent v, v \<noteq> VOther)"

definition ToJSON :: "bool \<Rightarrow> bool \<Rightarrow> dvalue \<Rightarrow> string" where
  "ToJSON escapeSlashes prettify v = fst (toStream True escapeSlashes (if prettify then 0 else 1) v)"

text \<open>Two values are equal when their default text forms are.\<close>

definition value_eq :: "dvalue \<Rightarrow> dvalue \<Rightarrow> bool" where
  "value_eq v w \<longleftrightarrow> ToJSON True False v = ToJSON True False w"

section \<open>Conversions\<close>

text \<open>
  Reading an integer from a stream: white space, a sign and as many digits as follow; without a digit
  the result is 0, and a number out of range becomes the nearest one in range.
\<close>

definition is_space :: "char \<Rightarrow> bool" where
  "is_space c \<longleftrightarrow> c \<in> set [CHR '' '', CHR 0x09, CHR 0x0A, CHR 0x0B, CHR 0x0C, CHR 0x0D]"

definition read_signed :: "int \<Rightarrow> int \<Rightarrow> string \<Rightarrow> int" where
  "read_signed lo hi s =
     (let t = dropWhile is_space s;
          signed = (t \<noteq> [] \<and> (hd t = CHR ''-'' \<or> hd t = CHR ''+''));
          n = int (read_nat (takeWhile is_digit (if signed then tl t else t)))
      in if signed \<and> hd t = CHR ''-'' then max lo (- n) else min hi n)"

text \<open>A conversion of a number out of range is undefined; here it keeps the low bits.\<close>

definition ieee_trunc :: "ieee \<Rightarrow> int" where
  "ieee_trunc d = (case d of Finite x \<Rightarrow> trunc x | _ \<Rightarrow> 0)"

definition To_int :: "dvalue \<Rightarrow> 32 word" where
  "To_int v =
     (case v of
        VInt w \<Rightarrow> w
      | VDouble d \<Rightarrow> word_of_int (ieee_trunc d)
      | VString s \<Rightarrow> word_of_int (read_signed (- (2 ^ 31)) (2 ^ 31 - 1) s)
      | VBool b \<Rightarrow> of_bool b
      | VLongLong w \<Rightarrow> ucast w
      | VUInt w \<Rightarrow> w
      | VULongLong w \<Rightarrow> ucast w
      | VLongDouble d \<Rightarrow> word_of_int (ieee_trunc d)
      | _ \<Rightarrow> 0)"

definition ieee_nonzero :: "ieee \<Rightarrow> bool" where "ieee_nonzero d \<longleftrightarrow> d \<noteq> Finite 0"

definition To_bool :: "dvalue \<Rightarrow> bool" where
  "To_bool v =
     (case v of
        VBool b \<Rightarrow> b
      | VInt w \<Rightarrow> w \<noteq> 0
      | VDouble d \<Rightarrow> ieee_nonzero d
      | VString s \<Rightarrow> s \<noteq> [] \<and> s \<noteq> ''0'' \<and> s \<noteq> ''false''
      | VLongLong w \<Rightarrow> w \<noteq> 0
      | VUInt w \<Rightarrow> w \<noteq> 0
      | VULongLong w \<Rightarrow> w \<noteq> 0
      | VLongDouble d \<Rightarrow> ieee_nonzero d
      | VNull \<Rightarrow> False
      | _ \<Rightarrow> True)"

definition To_string :: "dvalue \<Rightarrow> string" where
  "To_string v =
     (case v of VString s \<Rightarrow> s
      | _ \<Rightarrow> (let (text, ok) = toStream False True (- 1) v in if ok then text else []))"

end
