(* ===== verification/Json_Parser.thy ===== *)
theory Json_Parser
  imports Dynamic_Value
begin

text \<open>
  The parser of \<open>source/Utility/Value.cpp\<close>. The stream is the list of bytes still to be read, an
  exception is \<open>None\<close>. Looking at the end of the stream sets its end-of-file state, after which every
  read fails; as nothing is left to read then, the list alone says the same. The parser's recursion
  is unbounded in the source and always ends here, since every loop consumes a byte.
\<close>

section \<open>Reading bytes\<close>

definition peekChar :: "string \<Rightarrow> char option" where
  "peekChar s = (case s of [] \<Rightarrow> None | c # _ \<Rightarrow> Some c)"

text \<open>\<open>peekChar(stream, true)\<close> answers NUL at the end.\<close>

definition peekOptional :: "string \<Rightarrow> char" where
  "peekOptional s = (case s of [] \<Rightarrow> CHR 0x00 | c # _ \<Rightarrow> c)"

definition getChar :: "string \<Rightarrow> (char \<times> string) option" where
  "getChar s = (case s of [] \<Rightarrow> None | c # r \<Rightarrow> Some (c, r))"

definition requireChar :: "char \<Rightarrow> string \<Rightarrow> string option" where
  "requireChar c s = (case s of [] \<Rightarrow> None | c' # r \<Rightarrow> if c' = c then Some r else None)"

fun requireChars :: "string \<Rightarrow> string \<Rightarrow> string option" where
  "requireChars [] s = Some s"
| "requireChars (c # cs) s = do { r \<leftarrow> requireChar c s; requireChars cs r }"

definition getDigit :: "string \<Rightarrow> (char \<times> string) option" where
  "getDigit s = do { c \<leftarrow> peekChar s; if is_digit c then getChar s else None }"

text \<open>\<open>while (getIfDigit(stream, c)) number += c;\<close>\<close>

definition getDigits :: "string \<Rightarrow> string \<times> string" where
  "getDigits s = (takeWhile is_digit s, dropWhile is_digit s)"

definition is_blank :: "char \<Rightarrow> bool" where
  "is_blank c \<longleftrightarrow> c \<in> set [CHR '' '', CHR 0x0A, CHR 0x0D, CHR 0x09, CHR 0x0C]"

definition skipWhitespace :: "string \<Rightarrow> string option" where
  "skipWhitespace s = (case dropWhile is_blank s of [] \<Rightarrow> None | c # r \<Rightarrow> Some (c # r))"

section \<open>Strings\<close>

definition getIfHexDigitAsNibble :: "string \<Rightarrow> (32 word \<times> string) option" where
  "getIfHexDigitAsNibble s =
     (let c = peekOptional s; n = of_char c :: nat in
      if is_digit c then Some (of_nat (n - 48), tl s)
      else if 65 \<le> n \<and> n \<le> 70 then Some (of_nat (n - 65 + 10), tl s)
      else if 97 \<le> n \<and> n \<le> 102 then Some (of_nat (n - 97 + 10), tl s)
      else None)"

definition getUnicode :: "string \<Rightarrow> (32 word \<times> string) option" where
  "getUnicode s0 = do {
     (u0, s1) \<leftarrow> getIfHexDigitAsNibble s0;
     (u1, s2) \<leftarrow> getIfHexDigitAsNibble s1;
     (u2, s3) \<leftarrow> getIfHexDigitAsNibble s2;
     (u3, s4) \<leftarrow> getIfHexDigitAsNibble s3;
     Some (or (or (or (push_bit 12 u0) (push_bit 8 u1)) (push_bit 4 u2)) u3, s4)
   }"

text \<open>\<open>static_cast<char>\<close> of an unsigned number.\<close>

definition byte :: "32 word \<Rightarrow> char" where "byte w = char_of (unat w)"

definition combine_surrogates :: "32 word \<Rightarrow> 32 word \<Rightarrow> 32 word" where
  "combine_surrogates unicode pair = 0x10000 + push_bit 10 (unicode - 0xD800) + (pair - 0xDC00)"

text \<open>The UTF-8 form of a code point, none above 0x10FFFF.\<close>

definition utf8 :: "32 word \<Rightarrow> string option" where
  "utf8 u =
     (if u \<le> 0x7F then Some [byte u]
      else if u \<le> 0x7FF then Some [byte (or 0xC0 (drop_bit 6 u)), byte (or 0x80 (and u 0x3F))]
      else if u \<le> 0xFFFF then
        Some [byte (or 0xE0 (drop_bit 12 u)), byte (or 0x80 (and (drop_bit 6 u) 0x3F)),
              byte (or 0x80 (and u 0x3F))]
      else if u \<le> 0x10FFFF then
        Some [byte (or 0xF0 (drop_bit 18 u)), byte (or 0x80 (and (drop_bit 12 u) 0x3F)),
              byte (or 0x80 (and (drop_bit 6 u) 0x3F)), byte (or 0x80 (and u 0x3F))]
      else None)"

text \<open>\<open>\\uXXXX\<close>, after the \<open>u\<close>: the bytes to append.\<close>

definition parse_unicode :: "string \<Rightarrow> (string \<times> string) option" where
  "parse_unicode s = do {
     (unicode, s1) \<leftarrow> getUnicode s;
     (u, s2) \<leftarrow> (if unicode \<ge> 0xD800 \<and> unicode \<le> 0xDBFF then do {
                  r1 \<leftarrow> requireChar CHR 0x5C s1;
                  r2 \<leftarrow> requireChar CHR ''u'' r1;
                  (pair, r3) \<leftarrow> getUnicode r2;
                  if pair < 0xDC00 \<or> pair > 0xDFFF then None
                  else Some (combine_surrogates unicode pair, r3)
                } else Some (unicode, s1));
     bytes \<leftarrow> utf8 u;
     Some (bytes, s2)
   }"

definition parse_escape :: "string \<Rightarrow> (string \<times> string) option" where
  "parse_escape s = do {
     (c, r) \<leftarrow> getChar s;
     if c = CHR 0x22 \<or> c = CHR 0x5C \<or> c = CHR ''/'' then Some ([c], r)
     else if c = CHR ''b'' then Some ([CHR 0x08], r)
     else if c = CHR ''f'' then Some ([CHR 0x0C], r)
     else if c = CHR ''n'' then Some ([CHR 0x0A], r)
     else if c = CHR ''r'' then Some ([CHR 0x0D], r)
     else if c = CHR ''t'' then Some ([CHR 0x09], r)
     else if c = CHR ''u'' then parse_unicode r
     else None
   }"

text \<open>The escapes read on, so the rest after one is shorter.\<close>

lemma getChar_shorter: "getChar s = Some (c, r) \<Longrightarrow> length r < length s"
  by (auto simp: getChar_def split: list.splits)

lemma requireChar_shorter: "requireChar c s = Some r \<Longrightarrow> length r < length s"
  by (auto simp: requireChar_def split: list.splits if_splits)

lemma nibble_shorter: "getIfHexDigitAsNibble s = Some (u, r) \<Longrightarrow> length r \<le> length s"
  by (auto simp: getIfHexDigitAsNibble_def Let_def split: if_splits)

lemma getUnicode_shorter: "getUnicode s = Some (u, r) \<Longrightarrow> length r \<le> length s"
  unfolding getUnicode_def by (fastforce simp: Option.bind_eq_Some_conv dest!: nibble_shorter)

lemma parse_unicode_shorter: "parse_unicode s = Some (bs, r) \<Longrightarrow> length r \<le> length s"
  unfolding parse_unicode_def
  by (fastforce simp: Option.bind_eq_Some_conv dest!: getUnicode_shorter requireChar_shorter split: if_splits)

lemma parse_escape_shorter: "parse_escape s = Some (bs, r) \<Longrightarrow> length r < length s"
  unfolding parse_escape_def
  by (auto simp: Option.bind_eq_Some_conv dest!: getChar_shorter parse_unicode_shorter split: if_splits)

text \<open>The loop of \<open>parseString\<close>, after the opening quote.\<close>

function parse_chars :: "string \<Rightarrow> string \<Rightarrow> (string \<times> string) option" where
  "parse_chars value s =
     (case s of
        [] \<Rightarrow> None
      | c # r \<Rightarrow>
          if c = CHR 0x22 then Some (value, r)
          else if c = CHR 0x5C then
            (case parse_escape r of
               None \<Rightarrow> None
             | Some (bytes, r') \<Rightarrow> parse_chars (value @ bytes) r')
          else parse_chars (value @ [c]) r)"
  by pat_completeness auto

termination
  by (relation "measure (\<lambda>(_, s). length s)") (auto dest: parse_escape_shorter)

declare parse_chars.simps [simp del]

definition parseString :: "string \<Rightarrow> (string \<times> string) option" where
  "parseString s = Option.bind (requireChar CHR 0x22 s) (parse_chars [])"

section \<open>Numbers\<close>

text \<open>The text of a number, and whether it has a fraction or an exponent.\<close>

definition scan_int :: "string \<Rightarrow> (string \<times> string) option" where
  "scan_int s = do {
     (c, r) \<leftarrow> getDigit s;
     if c \<noteq> CHR ''0'' then (let (ds, r') = getDigits r in Some (c # ds, r')) else Some ([c], r)
   }"

definition scan_fraction :: "string \<Rightarrow> (string \<times> string) option" where
  "scan_fraction s =
     (if peekOptional s = CHR ''.'' then do {
        (c, r) \<leftarrow> getDigit (tl s);
        let (ds, r') = getDigits r in Some (CHR ''.'' # c # ds, r')
      } else Some ([], s))"

definition scan_exponent :: "string \<Rightarrow> (string \<times> string) option" where
  "scan_exponent s =
     (let e = peekOptional s in
      if e = CHR ''E'' \<or> e = CHR ''e'' then do {
        c \<leftarrow> peekChar (tl s);
        let (sign, r) = (if c = CHR ''+'' \<or> c = CHR ''-'' then ([c], tl (tl s)) else ([], tl s));
        (d, r') \<leftarrow> getDigit r;
        let (ds, r'') = getDigits r' in Some (e # sign @ d # ds, r'')
      } else Some ([], s))"

text \<open>The value of a decimal: the digits, the fraction and the exponent, as the stream reads them.\<close>

definition decimal_value :: "string \<Rightarrow> string \<Rightarrow> string \<Rightarrow> real" where
  "decimal_value whole fraction exponent =
     (let ds = tl fraction; t = tl exponent;
          e = (if exponent = [] then 0
               else if hd t = CHR ''-'' then - int (read_nat (tl t))
               else if hd t = CHR ''+'' then int (read_nat (tl t))
               else int (read_nat t))
      in (of_nat (read_nat whole) + of_nat (read_nat ds) / 10 ^ length ds) * 10 powi e)"

text \<open>An integer takes the smallest type that holds it; one out of range is read as the nearest in range.\<close>

definition positive_value :: "nat \<Rightarrow> dvalue" where
  "positive_value n =
     (let value = min (int n) (2 ^ 64 - 1) in
      if value \<le> 2 ^ 31 - 1 then VInt (word_of_int value)
      else if value \<le> 2 ^ 32 - 1 then VUInt (word_of_int value)
      else VULongLong (word_of_int value))"

definition negative_value :: "nat \<Rightarrow> dvalue" where
  "negative_value n =
     (let value = max (- int n) (- (2 ^ 63)) in
      if value \<ge> - (2 ^ 31) then VInt (word_of_int value) else VLongLong (word_of_int value))"

definition number_value :: "bool \<Rightarrow> string \<Rightarrow> string \<Rightarrow> string \<Rightarrow> dvalue" where
  "number_value positive whole fraction exponent =
     (if fraction \<noteq> [] \<or> exponent \<noteq> [] then
        (let x = decimal_value whole fraction exponent
         in VDouble (Finite (if positive then x else - x)))
      else if positive then positive_value (read_nat whole)
      else negative_value (read_nat whole))"

definition parseNumber :: "string \<Rightarrow> (dvalue \<times> string) option" where
  "parseNumber s = do {
     c \<leftarrow> peekChar s;
     let positive = (c \<noteq> CHR ''-'');
     (whole, s1) \<leftarrow> scan_int (if positive then s else tl s);
     (fraction, s2) \<leftarrow> scan_fraction s1;
     (exponent, s3) \<leftarrow> scan_exponent s2;
     Some (number_value positive whole fraction exponent, s3)
   }"

section \<open>Values\<close>

text \<open>The key of a member and the colon after it.\<close>

definition parse_key :: "string \<Rightarrow> (string \<times> string) option" where
  "parse_key s = do {
     (key, s1) \<leftarrow> parseString s;
     s2 \<leftarrow> skipWhitespace s1;
     s3 \<leftarrow> requireChar CHR '':'' s2;
     Some (key, s3)
   }"

text \<open>Objects and arrays are loops that pass the hash and the array on.\<close>

function parseValue :: "string \<Rightarrow> (dvalue \<times> string) option"
  and parse_members :: "hash \<Rightarrow> string \<Rightarrow> (dvalue \<times> string) option"
  and parse_elements :: "dvalue list \<Rightarrow> string \<Rightarrow> (dvalue \<times> string) option"
where
  "parseValue s =
     (case skipWhitespace s of
        None \<Rightarrow> None
      | Some t \<Rightarrow>
          if hd t = CHR 0x7B then parse_members [] (tl t)
          else if hd t = CHR ''['' then parse_elements [] (tl t)
          else if hd t = CHR ''t'' then map_option (Pair (VBool True)) (requireChars ''true'' t)
          else if hd t = CHR ''f'' then map_option (Pair (VBool False)) (requireChars ''false'' t)
          else if hd t = CHR ''n'' then map_option (Pair VNull) (requireChars ''null'' t)
          else if hd t = CHR 0x22 then map_option (map_prod VString id) (parseString t)
          else parseNumber t)"
| "parse_members hash s =
     (case skipWhitespace s of
        None \<Rightarrow> None
      | Some t \<Rightarrow>
          if hd t = CHR '','' then (if hash = [] then None else parse_members hash (tl t))
          else if hd t = CHR 0x7D then Some (VHash hash, tl t)
          else
            (case parse_key t of
               None \<Rightarrow> None
             | Some (key, s3) \<Rightarrow>
                 (case parseValue s3 of
                    None \<Rightarrow> None
                  | Some (v, s4) \<Rightarrow> parse_members (map_set key v hash) s4)))"
| "parse_elements array s =
     (case skipWhitespace s of
        None \<Rightarrow> None
      | Some t \<Rightarrow>
          if hd t = CHR '','' then (if array = [] then None else parse_elements array (tl t))
          else if hd t = CHR '']'' then Some (VArray array, tl t)
          else
            (case parseValue t of
               None \<Rightarrow> None
             | Some (v, s1) \<Rightarrow> parse_elements (array @ [v]) s1))"
  by pat_completeness auto

text \<open>Every parser leaves less than it was given; with that the loops end.\<close>

lemma skipWhitespace_Some:
  "skipWhitespace s = Some t \<Longrightarrow> t \<noteq> [] \<and> t = dropWhile is_blank s \<and> length t \<le> length s"
  by (auto simp: skipWhitespace_def length_dropWhile_le simp flip: length_Cons split: list.splits)

lemma parse_chars_shorter: "parse_chars v s = Some (w, r) \<Longrightarrow> length r < length s"
proof (induction v s rule: parse_chars.induct)
  case (1 v s)
  then show ?case
    by (subst (asm) (3) parse_chars.simps)
      (fastforce split: list.splits if_splits option.splits dest: parse_escape_shorter)
qed

lemma parseString_shorter: "parseString s = Some (w, r) \<Longrightarrow> length r < length s"
  by (fastforce simp: parseString_def Option.bind_eq_Some_conv dest: requireChar_shorter parse_chars_shorter)

lemma getDigit_shorter: "getDigit s = Some (c, r) \<Longrightarrow> length r < length s"
  by (auto simp: getDigit_def Option.bind_eq_Some_conv dest: getChar_shorter split: if_splits)

lemma dropWhile_shorter [intro]: "length r \<le> n \<Longrightarrow> length (dropWhile P r) \<le> n"
  using length_dropWhile_le [of P r] by linarith

lemma scan_int_shorter: "scan_int s = Some (w, r) \<Longrightarrow> length r < length s"
  using length_dropWhile_le by (fastforce simp: scan_int_def getDigits_def Option.bind_eq_Some_conv
      dest: getDigit_shorter intro: le_less_trans split: if_splits)

lemma scan_fraction_shorter: "scan_fraction s = Some (w, r) \<Longrightarrow> length r \<le> length s"
  by (cases s) (auto simp: scan_fraction_def getDigits_def Option.bind_eq_Some_conv peekOptional_def
      dest!: getDigit_shorter split: if_splits)

lemma scan_exponent_shorter: "scan_exponent s = Some (w, r) \<Longrightarrow> length r \<le> length s"
  by (cases s) (auto simp: scan_exponent_def getDigits_def Option.bind_eq_Some_conv peekOptional_def
      Let_def peekChar_def dest!: getDigit_shorter split: if_splits list.splits)

lemma parseNumber_shorter: "parseNumber s = Some (v, r) \<Longrightarrow> length r < length s"
  by (cases s) (fastforce simp: parseNumber_def Option.bind_eq_Some_conv Let_def peekChar_def
      dest!: scan_int_shorter scan_fraction_shorter scan_exponent_shorter split: if_splits)+

lemma requireChars_shorter: "requireChars cs s = Some r \<Longrightarrow> length r + length cs \<le> length s"
  by (induction cs arbitrary: s) (fastforce simp: Option.bind_eq_Some_conv dest!: requireChar_shorter)+

lemma parse_key_shorter: "parse_key t = Some (k, r) \<Longrightarrow> length r < length t"
  by (fastforce simp: parse_key_def Option.bind_eq_Some_conv
      dest!: parseString_shorter skipWhitespace_Some requireChar_shorter)

lemma skip_shorter: "skipWhitespace s = Some t \<Longrightarrow> t \<noteq> [] \<and> length t \<le> length s"
  using skipWhitespace_Some by blast

lemma skip_tl: "skipWhitespace s = Some t \<Longrightarrow> length (tl t) < length s"
  using skip_shorter [of s t] by (cases t) auto

lemma parse_shorter:
  "parseValue_parse_members_parse_elements_dom (Inl s) \<Longrightarrow>
     parseValue s = Some (v, r) \<Longrightarrow> length r < length s"
  "parseValue_parse_members_parse_elements_dom (Inr (Inl (h, s))) \<Longrightarrow>
     parse_members h s = Some (v, r) \<Longrightarrow> length r < length s"
  "parseValue_parse_members_parse_elements_dom (Inr (Inr (a, s))) \<Longrightarrow>
     parse_elements a s = Some (v, r) \<Longrightarrow> length r < length s"
proof (induction s and h s and a s arbitrary: v r and v r and v r
    rule: parseValue_parse_members_parse_elements.pinduct)
  case (1 s)
  then obtain t where t: "skipWhitespace s = Some t"
    by (auto simp: parseValue.psimps split: option.splits)
  have l: "length (tl t) < length s" "length t \<le> length s" "t \<noteq> []"
    using skip_shorter [OF t] skip_tl [OF t] by simp_all
  have i: "hd t = CHR 0x7B \<Longrightarrow> parse_members [] (tl t) = Some (v, r) \<Longrightarrow> length r < length (tl t)"
    "hd t = CHR ''['' \<Longrightarrow> parse_elements [] (tl t) = Some (v, r) \<Longrightarrow> length r < length (tl t)"
    using 1(2,3) [OF t] by simp_all
  from 1(1,4) show ?case
    by (subst (asm) parseValue.psimps)
      (auto simp: t simp del: requireChars.simps split: if_splits
        dest!: i requireChars_shorter parseString_shorter parseNumber_shorter
        intro: less_trans [OF _ l(1)] less_le_trans [OF _ l(2)])
next
  case (2 hash s)
  then obtain t where t: "skipWhitespace s = Some t"
    by (auto simp: parse_members.psimps split: option.splits)
  have l: "length (tl t) < length s" "length t \<le> length s" using skip_shorter [OF t] skip_tl [OF t] by simp_all
  show ?case
  proof (cases "hd t = CHR '','' \<or> hd t = CHR 0x7D")
    case True
    with 2 t l show ?thesis by (fastforce simp: parse_members.psimps split: if_splits)
  next
    case False
    with 2(1,5) t obtain k s3 v' s4 where k: "parse_key t = Some (k, s3)" "parseValue s3 = Some (v', s4)"
      "parse_members (map_set k v' hash) s4 = Some (v, r)"
      by (auto simp: parse_members.psimps split: option.splits prod.splits)
    from 2(3,4) [OF t _ _ k(1) refl] False k l parse_key_shorter [OF k(1)] show ?thesis by fastforce
  qed
next
  case (3 array s)
  then obtain t where t: "skipWhitespace s = Some t"
    by (auto simp: parse_elements.psimps split: option.splits)
  have l: "length (tl t) < length s" "length t \<le> length s" using skip_shorter [OF t] skip_tl [OF t] by simp_all
  show ?case
  proof (cases "hd t = CHR '','' \<or> hd t = CHR '']''")
    case True
    with 3 t l show ?thesis by (fastforce simp: parse_elements.psimps split: if_splits)
  next
    case False
    with 3(1,5) t obtain v' s1 where k: "parseValue t = Some (v', s1)"
      "parse_elements (array @ [v']) s1 = Some (v, r)"
      by (auto simp: parse_elements.psimps split: option.splits prod.splits)
    from 3(3,4) [OF t] False k l show ?thesis by fastforce
  qed
qed

termination parseValue
proof (relation "measure (\<lambda>x. case x of Inl s \<Rightarrow> 2 * length s | Inr (Inl (_, s)) \<Rightarrow> 2 * length s
    | Inr (Inr (_, s)) \<Rightarrow> 2 * length s + 1)")
qed (auto dest!: skip_shorter skip_tl parse_key_shorter parse_shorter simp: neq_Nil_conv)

declare parseValue.simps [simp del] parse_members.simps [simp del] parse_elements.simps [simp del]

text \<open>\<open>FromJSON\<close> and the input operator: an exception leaves the value as it was.\<close>

definition read_value :: "string \<Rightarrow> dvalue \<Rightarrow> dvalue" where
  "read_value s old = (case parseValue s of None \<Rightarrow> old | Some (v, _) \<Rightarrow> v)"

definition FromJSON :: "string \<Rightarrow> dvalue" where "FromJSON s = read_value s VNull"

end
