(* ===== verification/Json_Roundtrip.thy ===== *)
theory Json_Roundtrip
  imports Json_Parser
begin

text \<open>
  What the parser makes of the writer's output: lemmas on numbers, strings, arrays and hashes that lead
  to the round trip of a whole value, at any indentation and with either treatment of slashes.
\<close>

section \<open>Digits\<close>

lemma of_char_digit [simp]: "d < 10 \<Longrightarrow> (of_char (digit d) :: nat) = 48 + d"
  by (simp add: digit_def)

lemma digit_simps [simp]: "d < 10 \<Longrightarrow> is_digit (digit d)" "d < 10 \<Longrightarrow> digit_value (digit d) = d"
  by (simp_all add: is_digit_def digit_value_def)

lemma digit_eq_0 [simp]: "d < 10 \<Longrightarrow> digit d = CHR ''0'' \<longleftrightarrow> d = 0"
  by (simp add: digit_def char_of_eq_iff take_bit_nat_eq_self)

lemma read_nat_snoc [simp]: "read_nat (ds @ [c]) = 10 * read_nat ds + digit_value c"
  by (simp add: read_nat_def)

lemma show_nat_digits: "\<forall>c\<in>set (show_nat n). is_digit c"
  by (induction n rule: show_nat.induct) (subst show_nat.simps, auto)

lemma show_nat_nonempty [simp]: "show_nat n \<noteq> []"
  by (subst show_nat.simps) simp

lemma read_show_nat [simp]: "read_nat (show_nat n) = n"
proof (induction n rule: show_nat.induct)
  case (1 n)
  show ?case
  proof (cases "n < 10")
    case True
    then show ?thesis by (subst show_nat.simps) (simp add: read_nat_def)
  next
    case False
    with 1 show ?thesis by (subst show_nat.simps) simp
  qed
qed

lemma show_nat_0 [simp]: "show_nat 0 = ''0''"
  by (subst show_nat.simps) simp

lemma hd_show_nat: "0 < n \<Longrightarrow> hd (show_nat n) \<noteq> CHR ''0''"
proof (induction n rule: show_nat.induct)
  case (1 n)
  show ?case
  proof (cases "n < 10")
    case True
    with 1 show ?thesis by (subst show_nat.simps) simp
  next
    case False
    with 1 show ?thesis by (subst show_nat.simps) simp
  qed
qed

section \<open>Numbers\<close>

text \<open>What may follow a number.\<close>

definition no_digit :: "string \<Rightarrow> bool" where "no_digit rest \<longleftrightarrow> \<not> is_digit (peekOptional rest)"

definition stops :: "string \<Rightarrow> bool" where
  "stops rest \<longleftrightarrow> no_digit rest \<and> peekOptional rest \<notin> {CHR ''.'', CHR ''E'', CHR ''e''}"

lemma getDigits_append:
  assumes "\<forall>c\<in>set ds. is_digit c" "no_digit rest"
  shows "getDigits (ds @ rest) = (ds, rest)"
proof -
  have "takeWhile is_digit rest = []" "dropWhile is_digit rest = rest"
    using assms(2) by (cases rest; simp add: no_digit_def peekOptional_def)+
  then show ?thesis using assms(1) by (simp add: getDigits_def)
qed

text \<open>The whole part of a number: zero, or digits that do not start with one.\<close>

definition whole_part :: "string \<Rightarrow> bool" where
  "whole_part ds \<longleftrightarrow> ds = ''0'' \<or> (ds \<noteq> [] \<and> hd ds \<noteq> CHR ''0'' \<and> (\<forall>c\<in>set ds. is_digit c))"

lemma is_digit_0 [simp]: "is_digit CHR ''0''" "\<not> is_digit CHR ''-''" "\<not> is_digit CHR 0x00"
  "\<not> is_digit CHR ''.''" "\<not> is_digit CHR ''e''" "\<not> is_digit CHR ''E''" "\<not> is_digit CHR ''+''"
  by (simp_all add: is_digit_def)

lemma scan_int_whole:
  assumes "whole_part ds" "no_digit rest"
  shows "scan_int (ds @ rest) = Some (ds, rest)"
  using assms getDigits_append [of "tl ds" rest]
  by (cases ds) (auto simp: whole_part_def scan_int_def getDigit_def peekChar_def getChar_def)

lemma whole_part_show_nat [simp]: "whole_part (show_nat n)"
  using show_nat_digits hd_show_nat by (cases "n = 0") (auto simp: whole_part_def)

lemma whole_part_head: "whole_part ds \<Longrightarrow> \<exists>c r. ds = c # r \<and> is_digit c"
  by (cases ds) (auto simp: whole_part_def)

text \<open>The fraction and the exponent, if there is one.\<close>

definition fraction_part :: "string \<Rightarrow> bool" where
  "fraction_part f \<longleftrightarrow> f = [] \<or> (\<exists>ds. ds \<noteq> [] \<and> (\<forall>c\<in>set ds. is_digit c) \<and> f = CHR ''.'' # ds)"

definition exponent_part :: "string \<Rightarrow> bool" where
  "exponent_part e \<longleftrightarrow> e = [] \<or>
     (\<exists>sign ds. sign \<in> {CHR ''+'', CHR ''-''} \<and> ds \<noteq> [] \<and> (\<forall>c\<in>set ds. is_digit c) \<and>
        e = CHR ''e'' # sign # ds)"

lemma getDigit_digits:
  assumes "ds \<noteq> []" "\<forall>c\<in>set ds. is_digit c"
  shows "getDigit (ds @ rest) = Some (hd ds, tl ds @ rest)"
  using assms by (cases ds) (auto simp: getDigit_def peekChar_def getChar_def)

lemma scan_fraction_text:
  assumes "fraction_part f" "no_digit rest" "peekOptional rest \<noteq> CHR ''.''"
  shows "scan_fraction (f @ rest) = Some (f, rest)"
proof (cases "f = []")
  case True
  with assms(3) show ?thesis by (simp add: scan_fraction_def)
next
  case False
  with assms(1) obtain ds where ds: "ds \<noteq> []" "\<forall>c\<in>set ds. is_digit c" "f = CHR ''.'' # ds"
    by (auto simp: fraction_part_def)
  have "getDigits (tl ds @ rest) = (tl ds, rest)"
    using ds(2) assms(2) by (intro getDigits_append) (auto dest: list.set_sel(2) [OF ds(1)])
  with getDigit_digits [OF ds(1,2), of rest] ds show ?thesis
    by (simp add: scan_fraction_def peekOptional_def)
qed

lemma scan_exponent_text:
  assumes "exponent_part e" "stops rest"
  shows "scan_exponent (e @ rest) = Some (e, rest)"
proof (cases "e = []")
  case True
  with assms(2) show ?thesis by (simp add: scan_exponent_def stops_def)
next
  case False
  with assms(1) obtain sign ds where ds: "sign \<in> {CHR ''+'', CHR ''-''}" "ds \<noteq> []"
    "\<forall>c\<in>set ds. is_digit c" "e = CHR ''e'' # sign # ds"
    unfolding exponent_part_def by blast
  have "getDigits (tl ds @ rest) = (tl ds, rest)"
    using ds(3) assms(2) by (intro getDigits_append) (auto simp: stops_def dest: list.set_sel(2) [OF ds(2)])
  with getDigit_digits [OF ds(2,3), of rest] ds show ?thesis
    by (auto simp: scan_exponent_def peekOptional_def peekChar_def)
qed

lemma part_heads:
  assumes "stops rest" "fraction_part f" "exponent_part e"
  shows "no_digit (f @ e @ rest)" "no_digit (e @ rest)" "peekOptional (e @ rest) \<noteq> CHR ''.''"
proof -
  show *: "no_digit (e @ rest)" "peekOptional (e @ rest) \<noteq> CHR ''.''"
    using assms(1,3) by (auto simp: exponent_part_def stops_def no_digit_def peekOptional_def)
  show "no_digit (f @ e @ rest)"
    using * assms(2) by (auto simp: fraction_part_def no_digit_def peekOptional_def)
qed

lemma parseNumber_parts:
  assumes "whole_part w" "fraction_part f" "exponent_part e" "stops rest"
  shows "parseNumber (w @ f @ e @ rest) = Some (number_value True w f e, rest)"
    "parseNumber (CHR ''-'' # w @ f @ e @ rest) = Some (number_value False w f e, rest)"
proof -
  obtain c r where c: "w = c # r" "is_digit c" using whole_part_head [OF assms(1)] by blast
  then have "c \<noteq> CHR ''-''" by auto
  with c show "parseNumber (w @ f @ e @ rest) = Some (number_value True w f e, rest)"
    "parseNumber (CHR ''-'' # w @ f @ e @ rest) = Some (number_value False w f e, rest)"
    using scan_int_whole [OF assms(1) part_heads(1) [OF assms(4,2,3)]]
      scan_fraction_text [OF assms(2) part_heads(2,3) [OF assms(4,2,3)]] scan_exponent_text [OF assms(3,4)]
    by (simp_all add: parseNumber_def peekChar_def)
qed

text \<open>The value with the smallest type that holds an integer.\<close>

definition integer_value :: "int \<Rightarrow> dvalue" where
  "integer_value i =
     (if - (2 ^ 31) \<le> i \<and> i < 2 ^ 31 then VInt (word_of_int i)
      else if i < 0 then VLongLong (word_of_int i)
      else if i < 2 ^ 32 then VUInt (word_of_int i)
      else VULongLong (word_of_int i))"

definition has_integer_type :: "int \<Rightarrow> bool" where
  "has_integer_type i \<longleftrightarrow> - (2 ^ 63) \<le> i \<and> i < 2 ^ 64"

lemma parsed_integers:
  "has_integer_type i \<Longrightarrow> i < 0 \<Longrightarrow> negative_value (nat (- i)) = integer_value i"
  "has_integer_type i \<Longrightarrow> \<not> i < 0 \<Longrightarrow> positive_value (nat i) = integer_value i"
  by (auto simp: has_integer_type_def integer_value_def negative_value_def positive_value_def Let_def min_def max_def)

lemma word_integers [simp]:
  "has_integer_type (sint (v :: 32 word))" "has_integer_type (uint v)"
  "has_integer_type (sint (w :: 64 word))" "has_integer_type (uint w)"
proof -
  have "- (2 ^ 31) \<le> sint v" "sint v < 2 ^ 31" "- (2 ^ 63) \<le> sint w" "sint w < 2 ^ 63"
    "0 \<le> uint v" "uint v < 2 ^ 32" "0 \<le> uint w" "uint w < 2 ^ 64"
    using sint_ge [of v] sint_lt [of v] sint_ge [of w] sint_lt [of w] uint_lt2p [of v] uint_lt2p [of w]
    by simp_all
  then show "has_integer_type (sint v)" "has_integer_type (uint v)"
    "has_integer_type (sint w)" "has_integer_type (uint w)"
    by (simp_all add: has_integer_type_def order_trans [OF _ uint_ge_0])
qed

lemma parseNumber_show_int:
  "stops rest \<Longrightarrow> has_integer_type i \<Longrightarrow> parseNumber (show_int i @ rest) = Some (integer_value i, rest)"
  using parseNumber_parts [of "show_nat n" "[]" "[]" rest for n] parsed_integers [of i]
  by (simp add: show_int_def number_value_def fraction_part_def exponent_part_def)

text \<open>The text of a floating point number is a number's text, and denotes what its parts denote.\<close>

lemma strip_zeros_digits: "\<forall>c\<in>set ds. is_digit c \<Longrightarrow> \<forall>c\<in>set (strip_zeros ds). is_digit c"
  by (auto simp: strip_zeros_def dest: set_dropWhileD)

lemma fraction_part_text: "\<forall>c\<in>set ds. is_digit c \<Longrightarrow> fraction_part (fraction_text ds)"
  by (auto simp: fraction_part_def fraction_text_def)

lemma exponent_part_show: "exponent_part (show_exponent e)"
  using show_nat_digits by (auto simp: exponent_part_def show_exponent_def)

lemma whole_part_take: "whole_part (take (Suc k) (show_nat n))"
proof (cases "n = 0")
  case True
  then show ?thesis by (simp add: whole_part_def)
next
  case False
  with show_nat_digits hd_show_nat [of n] show ?thesis
    by (auto simp: whole_part_def dest: in_set_takeD)
qed

lemma show_parts_ok:
  assumes "show_parts x = (w, f, e)"
  shows "whole_part w \<and> fraction_part f \<and> exponent_part e"
proof -
  have "\<forall>c\<in>set (strip_zeros (drop k (show_nat n))). is_digit c" for k n
    by (intro strip_zeros_digits ballI) (use show_nat_digits in \<open>auto dest: in_set_dropD\<close>)
  note d = this fraction_part_text [OF this] strip_zeros_digits [OF show_nat_digits]
  have "whole_part ''0''" "exponent_part []" by (simp_all add: whole_part_def exponent_part_def)
  with assms d exponent_part_show whole_part_take show ?thesis
    by (auto simp: show_parts_def Let_def split: prod.splits if_splits intro!: fraction_part_text)
qed

definition double_value :: "real \<Rightarrow> dvalue" where
  "double_value x =
     (if x = 0 then VInt 0
      else (let (w, f, e) = show_parts \<bar>x\<bar> in number_value (0 < x) w f e))"

lemma parseNumber_show_double:
  assumes "stops rest"
  shows "parseNumber (show_double (Finite x) @ rest) = Some (double_value x, rest)"
proof (cases "x = 0")
  case True
  with parseNumber_show_int [OF assms, of 0] show ?thesis
    by (simp add: show_double_def double_value_def show_int_def integer_value_def has_integer_type_def)
next
  case False
  obtain w f e where p: "show_parts \<bar>x\<bar> = (w, f, e)" by (cases "show_parts \<bar>x\<bar>")
  with show_parts_ok [OF p] parseNumber_parts [of w f e rest] assms False show ?thesis
    by (cases "0 < x") (auto simp: show_double_def double_value_def show_positive_def)
qed

section \<open>Strings\<close>

lemma parse_chars_unescape: "parse_chars v (escape_char e c @ s) = parse_chars (v @ [c]) s"
  by (subst parse_chars.simps, cases e)
    (auto simp: escape_char_def parse_escape_def getChar_def parse_chars.simps [of _ "_ # _"])

lemma parse_chars_text:
  "parse_chars v (concat (map (escape_char e) s) @ CHR 0x22 # rest) = Some (v @ s, rest)"
proof (induction s arbitrary: v)
  case Nil
  then show ?case by (simp add: parse_chars.simps)
next
  case (Cons c s)
  then show ?case by (simp add: parse_chars_unescape)
qed

text \<open>A string without NUL bytes comes back as it was.\<close>

lemma parseString_text:
  assumes "CHR 0x00 \<notin> set s"
  shows "parseString (json_string e s @ rest) = Some (s, rest)"
proof -
  have s: "takeWhile (\<lambda>c. c \<noteq> CHR 0x00) s = s" using assms by (auto simp: takeWhile_eq_all_conv)
  show ?thesis
    using parse_chars_text [of "[]" e s rest] by (simp add: json_string_def s parseString_def requireChar_def del: takeWhile_eq_all_conv)
qed

section \<open>What comes back\<close>

text \<open>
  Reading gives an integer the smallest type that holds it, a floating point number the value of its
  six digits, and null for NaN; everything else is unchanged.
\<close>

definition scalar_canon :: "dvalue \<Rightarrow> dvalue" where
  "scalar_canon v =
     (case v of
        VLongLong w \<Rightarrow> integer_value (sint w)
      | VUInt w \<Rightarrow> integer_value (uint w)
      | VULongLong w \<Rightarrow> integer_value (uint w)
      | VDouble d \<Rightarrow> (case d of Finite x \<Rightarrow> double_value x | _ \<Rightarrow> VNull)
      | VLongDouble d \<Rightarrow> (case d of Finite x \<Rightarrow> double_value x | _ \<Rightarrow> VNull)
      | _ \<Rightarrow> v)"

fun canon :: "dvalue \<Rightarrow> dvalue" where
  "canon (VArray xs) = VArray (map canon xs)"
| "canon (VHash h) = VHash (map (\<lambda>p. (fst p, canon (snd p))) h)"
| "canon v = scalar_canon v"

text \<open>The values that have a text: no infinity, no object of another type, no NUL byte in a string.\<close>

definition scalar_ok :: "dvalue \<Rightarrow> bool" where
  "scalar_ok v =
     (case v of
        VString s \<Rightarrow> CHR 0x00 \<notin> set s
      | VDouble d \<Rightarrow> d \<notin> {PosInf, NegInf}
      | VLongDouble d \<Rightarrow> d \<notin> {PosInf, NegInf, NaN}
      | VOther \<Rightarrow> False
      | _ \<Rightarrow> True)"

fun json_ok :: "dvalue \<Rightarrow> bool" where
  "json_ok (VArray xs) = (\<forall>x\<in>set xs. json_ok x)"
| "json_ok (VHash h) =
     (sorted_wrt (<) (map fst h) \<and> (\<forall>p\<in>set h. CHR 0x00 \<notin> set (fst p) \<and> json_ok (snd p)))"
| "json_ok v = scalar_ok v"

section \<open>White space\<close>

definition blank :: "string \<Rightarrow> bool" where "blank s \<longleftrightarrow> (\<forall>c\<in>set s. is_blank c)"

lemma skip_blank: "blank ws \<Longrightarrow> \<not> is_blank c \<Longrightarrow> skipWhitespace (ws @ c # r) = Some (c # r)"
  by (simp add: skipWhitespace_def blank_def dropWhile_append2)

lemma blank_simps [simp]: "blank []" "blank (indentation j i)" "blank (new_line n)" "blank '' ''"
  by (auto simp: blank_def indentation_def new_line_def is_blank_def)

text \<open>A text begins with a byte that is neither blank nor a separator.\<close>

definition begins :: "string \<Rightarrow> bool" where
  "begins t \<longleftrightarrow> t \<noteq> [] \<and> \<not> is_blank (hd t) \<and> hd t \<notin> {CHR '','', CHR '']'', CHR 0x7D}"

lemma digit_begins: "is_digit c \<Longrightarrow> begins (c # r) \<and>
    c \<notin> {CHR 0x7B, CHR ''['', CHR ''t'', CHR ''f'', CHR ''n'', CHR 0x22}"
  by (auto simp: is_digit_def begins_def is_blank_def)

lemma show_int_head: "\<exists>c r. show_int i = c # r \<and> (is_digit c \<or> c = CHR ''-'')"
  using whole_part_head [OF whole_part_show_nat, of "nat i"] by (auto simp: show_int_def)

lemma show_double_head: "\<exists>c r. show_double (Finite x) = c # r \<and> (is_digit c \<or> c = CHR ''-'')"
proof -
  obtain w f e where p: "show_parts x = (w, f, e)" by (cases "show_parts x")
  with whole_part_head [of w] show_parts_ok [OF p] show ?thesis
    by (auto simp: show_double_def show_positive_def)
qed

lemma skip_begins: "begins t \<Longrightarrow> blank ws \<Longrightarrow> skipWhitespace (ws @ t @ r) = Some (t @ r)"
  by (cases t) (auto simp: begins_def skip_blank)

lemma parseValue_blank: "blank ws \<Longrightarrow> parseValue (ws @ r) = parseValue r"
  by (simp add: parseValue.simps skipWhitespace_def blank_def dropWhile_append2)

section \<open>Values\<close>

lemma number_begins: "is_digit c \<or> c = CHR ''-'' \<Longrightarrow> begins (c # r)"
  using digit_begins by (auto simp: begins_def is_blank_def)

lemma parseValue_number:
  assumes "\<exists>c r. t = c # r \<and> (is_digit c \<or> c = CHR ''-'')"
  shows "parseValue (t @ rest) = parseNumber (t @ rest)"
proof -
  obtain c r where c: "t = c # r" "is_digit c \<or> c = CHR ''-''" using assms by blast
  then have "begins t" and n: "c \<notin> {CHR 0x7B, CHR ''['', CHR ''t'', CHR ''f'', CHR ''n'', CHR 0x22}"
    using number_begins [of c r] digit_begins [of c r] by auto
  with skip_begins [of t "[]" rest] c(1) have "skipWhitespace (c # r @ rest) = Some (c # r @ rest)" by simp
  with n c(1) show ?thesis by (simp add: parseValue.simps)
qed

lemma show_begins: "begins (show_int i)" "begins (show_double (Finite x))"
  using number_begins show_int_head [of i] show_double_head [of x] by metis+

lemma literal_begins: "begins ''null''" "begins ''true''" "begins ''false''" "begins (json_string e s)"
  by (simp_all add: begins_def is_blank_def json_string_def)

lemma scalar_begins:
  "scalar_ok v \<Longrightarrow> \<forall>xs h. v \<noteq> VArray xs \<and> v \<noteq> VHash h \<Longrightarrow> begins (scalar_text True e v)"
proof (cases v)
  case (VDouble d)
  assume "scalar_ok v"
  with VDouble show_begins show ?thesis
    by (cases d) (simp_all add: scalar_text_def scalar_ok_def literal_begins)
next
  case (VLongDouble d)
  assume "scalar_ok v"
  with VLongDouble show_begins show ?thesis
    by (cases d) (simp_all add: scalar_text_def scalar_ok_def)
qed (simp_all add: scalar_text_def scalar_ok_def show_begins string_text_def literal_begins)

lemma skip_text: "begins t \<Longrightarrow> skipWhitespace (t @ r) = Some (t @ r)"
  using skip_begins [of t "[]" r] by simp

lemma parse_literals:
  "parseValue (''null'' @ rest) = Some (VNull, rest)"
  "parseValue (''true'' @ rest) = Some (VBool True, rest)"
  "parseValue (''false'' @ rest) = Some (VBool False, rest)"
  using skip_text [OF literal_begins(1), of rest] skip_text [OF literal_begins(2), of rest]
    skip_text [OF literal_begins(3), of rest]
  by (simp_all add: parseValue.simps requireChar_def)

lemmas parse_literal_simps = parse_literals [simplified]

lemma parse_string_value:
  "CHR 0x00 \<notin> set s \<Longrightarrow> parseValue (json_string e s @ rest) = Some (VString s, rest)"
  using skip_text [OF literal_begins(4), of e s rest] parseString_text [of s e rest]
  by (simp add: parseValue.simps json_string_def)

lemma parse_numbers:
  assumes "stops rest"
  shows "has_integer_type i \<Longrightarrow> parseValue (show_int i @ rest) = Some (integer_value i, rest)"
    "parseValue (show_double (Finite x) @ rest) = Some (double_value x, rest)"
  using parseValue_number [OF show_int_head, of i rest] parseValue_number [OF show_double_head, of x rest]
    parseNumber_show_int [OF assms, of i] parseNumber_show_double [OF assms, of x]
  by simp_all

lemma integer_value_int [simp]: "integer_value (sint (w :: 32 word)) = VInt w"
  using sint_ge [of w] sint_lt [of w] by (simp add: integer_value_def)

lemma scalar_parses:
  assumes "scalar_ok v" "\<forall>xs h. v \<noteq> VArray xs \<and> v \<noteq> VHash h" "stops rest"
  shows "parseValue (scalar_text True e v @ rest) = Some (scalar_canon v, rest)"
proof (cases v)
  case (VDouble d)
  with assms show ?thesis
    by (cases d) (simp_all add: scalar_ok_def scalar_text_def scalar_canon_def parse_numbers parse_literal_simps)
next
  case (VLongDouble d)
  with assms show ?thesis
    by (cases d) (simp_all add: scalar_ok_def scalar_text_def scalar_canon_def parse_numbers)
qed (use assms in \<open>simp_all add: scalar_ok_def scalar_text_def scalar_canon_def string_text_def
      parse_numbers parse_literal_simps parse_string_value\<close>)

section \<open>Arrays and hashes\<close>

lemma stops_simps [simp]:
  "stops (CHR '','' # r)" "stops (CHR '']'' # r)" "stops (CHR 0x7D # r)" "is_blank c \<Longrightarrow> stops (c # r)"
  by (auto simp: stops_def no_digit_def peekOptional_def is_digit_def is_blank_def)

lemma stops_after:
  assumes "blank tail" "c \<in> {CHR '']'', CHR 0x7D}"
  shows "stops ((if ts \<noteq> [] then '','' else []) @ join ts @ tail @ c # rest)"
  using assms by (cases ts; cases tail) (auto simp: blank_def)

lemma join_Cons: "join (t # ts) = t @ (if ts = [] then [] else CHR '','' # join ts)"
  by (cases ts) simp_all

text \<open>The loop over the elements, after the opening bracket or after an element.\<close>

lemma parse_elements_text:
  assumes "\<forall>x\<in>set xs. \<forall>rest. stops rest \<longrightarrow> parseValue (T x @ rest) = Some (C x, rest)"
    and "\<forall>x\<in>set xs. \<exists>ws t. T x = ws @ t \<and> blank ws \<and> begins t" and "blank tail"
  shows "parse_elements acc ((if acc \<noteq> [] \<and> xs \<noteq> [] then '','' else []) @ join (map T xs) @ tail @ CHR '']'' # rest) =
    Some (VArray (acc @ map C xs), rest)"
  using assms(1,2)
proof (induction xs arbitrary: acc)
  case Nil
  then show ?case using skip_blank [OF assms(3), of "CHR '']''" rest]
    by (simp add: parse_elements.simps is_blank_def)
next
  case (Cons x xs)
  define after where "after = (if xs \<noteq> [] then '','' else []) @ join (map T xs) @ tail @ CHR '']'' # rest"
  obtain ws t where t: "T x = ws @ t" "blank ws" "begins t" using Cons.prems by auto
  have "stops after" using stops_after [OF assms(3), of "CHR '']''" "map T xs" rest] by (simp add: after_def)
  then have v: "parseValue (t @ after) = Some (C x, after)"
    using Cons.prems(1) t parseValue_blank [OF t(2), of "t @ after"] by simp
  have one: "parse_elements acc (T x @ after) = parse_elements (acc @ [C x]) after"
    using t v skip_begins [OF t(3,2), of after]
    by (subst parse_elements.simps) (cases t; simp add: begins_def)
  have comma: "parse_elements acc (CHR '','' # r) = parse_elements acc r" if "acc \<noteq> []" for r
    using that skip_blank [of "[]" "CHR '',''" r]
    by (subst parse_elements.simps) (simp add: is_blank_def)
  have "parse_elements (acc @ [C x]) after = Some (VArray (acc @ map C (x # xs)), rest)"
    using Cons.IH [of "acc @ [C x]"] Cons.prems by (simp add: after_def)
  moreover have "join (map T (x # xs)) @ tail @ CHR '']'' # rest = T x @ after"
    by (simp add: join_Cons after_def)
  ultimately show ?case using one comma by (cases "acc = []") simp_all
qed

lemma map_set_last: "\<forall>p\<in>set h. fst p < k \<Longrightarrow> map_set k v h = h @ [(k, v)]"
  by (induction h) auto

lemma parse_key_text:
  assumes "CHR 0x00 \<notin> set k" 
  shows "parse_key (json_string e k @ CHR '':'' # rest) = Some (k, rest)"
  using parseString_text [OF assms, of e "CHR '':'' # rest"] skip_blank [of "[]" "CHR '':''" rest]
  by (simp add: parse_key_def requireChar_def is_blank_def)

lemma parse_members_text:
  assumes "\<forall>p\<in>set ps. \<forall>rest. stops rest \<longrightarrow> parseValue (T p @ rest) = Some (C p, rest)"
    and "\<forall>p\<in>set ps. CHR 0x00 \<notin> set (fst p)" and "sorted_wrt (<) (map fst (h @ ps))"
    and "blank ws" "blank sp" "blank tail"
  shows "parse_members h ((if h \<noteq> [] \<and> ps \<noteq> [] then '','' else []) @
      join (map (\<lambda>p. ws @ json_string e (fst p) @ CHR '':'' # sp @ T p) ps) @ tail @ CHR 0x7D # rest) =
    Some (VHash (h @ map (\<lambda>p. (fst p, C p)) ps), rest)"
  using assms(1-3)
proof (induction ps arbitrary: h)
  case Nil
  then show ?case using skip_blank [OF assms(6), of "CHR 0x7D" rest]
    by (simp add: parse_members.simps is_blank_def)
next
  case (Cons p ps)
  let ?J = "\<lambda>p. ws @ json_string e (fst p) @ CHR '':'' # sp @ T p"
  define after where "after = (if ps \<noteq> [] then '','' else []) @ join (map ?J ps) @ tail @ CHR 0x7D # rest"
  have "stops after" using stops_after [OF assms(6), of "CHR 0x7D" "map ?J ps" rest] by (simp add: after_def)
  then have "parseValue (T p @ after) = Some (C p, after)" using Cons.prems(1) by simp
  then have v: "parseValue (sp @ T p @ after) = Some (C p, after)" using parseValue_blank [OF assms(5)] by simp
  have m: "map_set (fst p) (C p) h = h @ [(fst p, C p)]"
    using Cons.prems(3) by (intro map_set_last) (auto simp: sorted_wrt_append)
  have k: "parse_key (json_string e (fst p) @ CHR '':'' # sp @ T p @ after) = Some (fst p, sp @ T p @ after)"
    using parse_key_text Cons.prems(2) by simp
  have one: "parse_members h (?J p @ after) = parse_members (h @ [(fst p, C p)]) after"
    using v m k skip_begins [OF literal_begins(4) assms(4), of e "fst p" "CHR '':'' # sp @ T p @ after"]
    by (subst parse_members.simps) (simp add: json_string_def)
  have comma: "parse_members h (CHR '','' # r) = parse_members h r" if "h \<noteq> []" for r
    using that skip_blank [of "[]" "CHR '',''" r]
    by (subst parse_members.simps) (simp add: is_blank_def)
  have "parse_members (h @ [(fst p, C p)]) after = Some (VHash (h @ map (\<lambda>p. (fst p, C p)) (p # ps)), rest)"
    using Cons.IH [of "h @ [(fst p, C p)]"] Cons.prems by (simp add: after_def)
  moreover have "join (map ?J (p # ps)) @ tail @ CHR 0x7D # rest = ?J p @ after"
    by (simp add: join_Cons after_def)
  ultimately show ?case using one comma by (cases "h = []") simp_all
qed

section \<open>The round trip\<close>

lemma stream_text_scalar:
  "\<forall>xs h. v \<noteq> VArray xs \<and> v \<noteq> VHash h \<Longrightarrow> stream_text j e i v = indentation j i @ scalar_text j e v"
  by (cases v) simp_all

lemma canon_scalar: "\<forall>xs h. v \<noteq> VArray xs \<and> v \<noteq> VHash h \<Longrightarrow> canon v = scalar_canon v \<and> json_ok v = scalar_ok v"
  by (cases v) simp_all

lemma shaped: "begins t \<Longrightarrow> \<exists>ws t'. indentation j i @ t = ws @ t' \<and> blank ws \<and> begins t'"
  using blank_simps(2) by blast

lemma begins_brackets: "begins (CHR ''['' # r)" "begins (CHR 0x7B # r)"
  by (simp_all add: begins_def is_blank_def)

lemma text_shape:
  assumes "json_ok v"
  shows "\<exists>ws t. stream_text True e i v = ws @ t \<and> blank ws \<and> begins t"
proof (cases "\<exists>xs h. v = VArray xs \<or> v = VHash h")
  case True
  then show ?thesis by (elim exE disjE) (simp_all only: stream_text.simps Let_def shaped begins_brackets)
next
  case False
  with assms have "begins (scalar_text True e v)" using scalar_begins canon_scalar by simp
  with False show ?thesis by (simp add: stream_text_scalar shaped)
qed

lemma parse_brackets:
  "parseValue (CHR ''['' # r) = parse_elements [] r" "parseValue (CHR 0x7B # r) = parse_members [] r"
  using skip_blank [of "[]" "CHR ''[''" r] skip_blank [of "[]" "CHR 0x7B" r]
  by (simp_all add: parseValue.simps is_blank_def)

theorem text_parses:
  assumes "json_ok v" "stops rest"
  shows "parseValue (stream_text True e i v @ rest) = Some (canon v, rest)"
  using assms
proof (induction v arbitrary: i rest)
  case (VArray xs)
  let ?n = "nesting True i" and ?rest = "rest"
  have "parse_elements [] ((if [] \<noteq> ([] :: dvalue list) \<and> xs \<noteq> [] then '','' else []) @
      join (map (stream_text True e (?n + 2)) xs) @
      (if pretty True ?n then new_line ?n else []) @ CHR '']'' # rest) = Some (VArray ([] @ map canon xs), rest)"
    using VArray text_shape by (intro parse_elements_text) auto
  then show ?case by (simp add: Let_def parseValue_blank parse_brackets)
next
  case (VHash h)
  let ?n = "nesting True i"
  have "parse_members [] ((if [] \<noteq> ([] :: hash) \<and> h \<noteq> [] then '','' else []) @
      join (map (\<lambda>p. indentation True (?n + 2) @ json_string e (fst p) @ CHR '':'' #
          (if pretty True ?n then '' '' else []) @ stream_text True e (- (?n + 2)) (snd p)) h) @
      (if pretty True ?n \<and> ?n \<ge> 0 then new_line ?n else []) @ CHR 0x7D # rest) =
    Some (VHash ([] @ map (\<lambda>p. (fst p, canon (snd p))) h), rest)"
    using VHash by (intro parse_members_text) (auto intro: VHash.IH)
  then show ?case by (simp add: Let_def parseValue_blank parse_brackets string_text_def cong: if_cong)
qed (simp_all add: parseValue_blank scalar_parses)

end
