(* ===== verification/Json_Numbers.thy ===== *)
theory Json_Numbers
  imports Json_Roundtrip
begin

text \<open>
  How exact the text of a floating point number is: its six digits are the nearest ones, and reading
  the three parts of the text gives the number they stand for.
\<close>

section \<open>The digits of a number\<close>

lemma length_show_nat: "0 < n \<Longrightarrow> 10 ^ (length (show_nat n) - 1) \<le> n \<and> n < 10 ^ length (show_nat n)"
proof (induction n rule: show_nat.induct)
  case (1 n)
  show ?case
  proof (cases "n < 10")
    case True
    with 1 show ?thesis by (subst show_nat.simps) (simp add: show_nat.simps [of n])
  next
    case False
    define l where "l = length (show_nat (n div 10))"
    have "0 < l" by (simp add: l_def)
    from 1 False have "10 ^ (l - 1) \<le> n div 10 \<and> n div 10 < 10 ^ l" by (simp add: l_def)
    then have "10 * 10 ^ (l - 1) \<le> n" "n < 10 * 10 ^ l" by linarith+
    with \<open>0 < l\<close> have "10 ^ l \<le> n \<and> n < 10 ^ Suc l" by (simp add: power_eq_if)
    with False show ?thesis by (simp add: show_nat.simps [of n] l_def)
  qed
qed

lemma ten_powi: "10 powi int n = (10::real) ^ n" "10 powi (- int n) = 1 / (10::real) ^ n"
  by (simp_all add: power_int_minus divide_inverse)

lemma power10_nat: "10 ^ k \<le> n \<Longrightarrow> (10::real) ^ k \<le> real n" "n < 10 ^ k \<Longrightarrow> real n + 1 \<le> 10 ^ k"
  using of_nat_le_iff [where 'a = real, of "10 ^ k" n] of_nat_le_iff [where 'a = real, of "Suc n" "10 ^ k"]
  by (simp_all del: of_nat_le_iff)

lemma exponent10_bounds:
  assumes "0 < x"
  shows "10 powi exponent10 x \<le> x \<and> x < 10 powi (exponent10 x + 1)"
proof (cases "x \<ge> 1")
  case True
  define n where "n = nat \<lfloor>x\<rfloor>"
  define l where "l = length (show_nat n)"
  have n: "0 < n" "real n \<le> x" "x < real n + 1" using True by (simp_all add: n_def)
  have l: "0 < l" "10 ^ (l - 1) \<le> n" "n < 10 ^ l" using length_show_nat [OF n(1)] by (simp_all add: l_def)
  have "10 ^ (l - 1) \<le> x" using power10_nat(1) [OF l(2)] n by linarith
  moreover have "x < 10 ^ l" using power10_nat(2) [OF l(3)] n by linarith
  moreover have "exponent10 x = int (l - 1)" "exponent10 x + 1 = int l"
    using True l(1) by (simp_all add: exponent10_def n_def l_def of_nat_diff Suc_le_eq)
  ultimately show ?thesis by (simp only: ten_powi)
next
  case False
  define m where "m = nat (\<lceil>1 / x\<rceil> - 1)"
  define l where "l = length (show_nat m)"
  have y: "1 < 1 / x" using assms False by (simp add: field_simps)
  then have m: "0 < m" "real m < 1 / x" "1 / x \<le> real m + 1" by (simp_all add: m_def) linarith+
  have l: "0 < l" "10 ^ (l - 1) \<le> m" "m < 10 ^ l" using length_show_nat [OF m(1)] by (simp_all add: l_def)
  have "10 ^ (l - 1) < 1 / x" using power10_nat(1) [OF l(2)] m by linarith
  moreover have "1 / x \<le> 10 ^ l" using power10_nat(2) [OF l(3)] m by linarith
  ultimately have "x < 1 / 10 ^ (l - 1)" "1 / 10 ^ l \<le> x" using assms by (simp_all add: field_simps)
  moreover have "exponent10 x = - int l" "exponent10 x + 1 = - int (l - 1)"
    using False l(1) by (simp_all add: exponent10_def m_def l_def of_nat_diff Suc_le_eq)
  ultimately show ?thesis by (simp only: ten_powi)
qed

lemma round_half_even_error: "\<bar>of_int (round_half_even x) - x\<bar> \<le> 1 / 2"
proof -
  have "of_int \<lfloor>x\<rfloor> \<le> x" "x < of_int \<lfloor>x\<rfloor> + 1" by simp_all
  then show ?thesis by (auto simp: round_half_even_def Let_def abs_le_iff)
qed

text \<open>The significand has six digits and is within half a unit of the number.\<close>

lemma significand_exact:
  assumes "0 < x" "significand x = (m, e)"
  shows "100000 \<le> m \<and> m < 1000000 \<and> \<bar>of_nat m * 10 powi (e - 5) - x\<bar> \<le> 5 / 1000000 * x"
proof -
  define d where "d = exponent10 x"
  define z where "z = x * 10 powi (5 - d)"
  define k where "k = round_half_even z"
  have split: "10 powi (a + b) = 10 powi a * (10::real) powi b" for a b by (simp add: power_int_add)
  have d: "10 powi d \<le> x" "x < 10 powi (d + 1)" using exponent10_bounds [OF assms(1)] by (simp_all add: d_def)
  have "10 powi d * 10 powi (5 - d) \<le> z" "z < 10 powi (d + 1) * 10 powi (5 - d)"
    using d by (simp_all add: z_def)
  then have z: "100000 \<le> z" "z < 1000000" by (simp_all add: power_int_add [symmetric])
  have k: "\<bar>of_int k - z\<bar> \<le> 1 / 2" unfolding k_def by (rule round_half_even_error)
  with z have kb: "100000 \<le> k" "k \<le> 1000000" by linarith+
  have x: "x = z * 10 powi (d - 5)" by (simp add: z_def power_int_add [symmetric])
  have "\<bar>of_int k * 10 powi (d - 5) - x\<bar> = \<bar>of_int k - z\<bar> * 10 powi (d - 5)"
    by (simp add: x left_diff_distrib [symmetric] abs_mult)
  also have "\<dots> \<le> 1 / 2 * 10 powi (d - 5)" using k by (intro mult_right_mono) simp_all
  also have "\<dots> = 5 / 1000000 * 10 powi d" by (simp add: power_int_diff)
  also have "\<dots> \<le> 5 / 1000000 * x" using d by simp
  finally have err: "\<bar>of_int k * 10 powi (d - 5) - x\<bar> \<le> 5 / 1000000 * x" .
  have me: "(m, e) = (if nat k = 1000000 then (100000, d + 1) else (nat k, d))"
    using assms(2) by (simp only: significand_def Let_def d_def k_def z_def)
  show ?thesis
  proof (cases "nat k = 1000000")
    case True
    then have "of_nat m * 10 powi (e - 5) = of_int k * (10 :: real) powi (d - 5)"
      using me power_int_add [of "10::real" 1 "d - 5"] by (simp add: algebra_simps)
    with err True me show ?thesis by simp
  next
    case False
    with err me kb show ?thesis by auto
  qed
qed

section \<open>Reading the parts\<close>

lemma read_nat_Cons: "read_nat (c # ds) = digit_value c * 10 ^ length ds + read_nat ds"
  by (induction ds rule: rev_induct) (simp_all add: read_nat_def algebra_simps)

lemma read_nat_append: "read_nat (a @ b) = read_nat a * 10 ^ length b + read_nat b"
  by (induction b rule: rev_induct) (simp_all add: read_nat_def algebra_simps)

lemma digit_value_0 [simp]: "digit_value CHR ''0'' = 0" by (simp add: digit_value_def)

lemma read_zeros [simp]: "read_nat (replicate n CHR ''0'') = 0"
  by (induction n) (simp_all add: read_nat_Cons, simp add: read_nat_def)

definition fraction_value :: "string \<Rightarrow> real" where
  "fraction_value ds = of_nat (read_nat ds) / 10 ^ length ds"

lemma strip_zeros_snoc: "strip_zeros (ds @ [c]) = (if c = CHR ''0'' then strip_zeros ds else ds @ [c])"
  by (simp add: strip_zeros_def)

lemma fraction_value_zero: "fraction_value (ds @ ''0'') = fraction_value ds"
  by (simp add: fraction_value_def)

lemma fraction_strip: "fraction_value (strip_zeros ds) = fraction_value ds"
  by (induction ds rule: rev_induct)
    (simp_all add: strip_zeros_snoc fraction_value_zero, simp add: strip_zeros_def)

text \<open>The number that a value holds.\<close>

definition numeric :: "dvalue \<Rightarrow> real option" where
  "numeric v =
     (case v of
        VInt w \<Rightarrow> Some (of_int (sint w))
      | VLongLong w \<Rightarrow> Some (of_int (sint w))
      | VUInt w \<Rightarrow> Some (of_int (uint w))
      | VULongLong w \<Rightarrow> Some (of_int (uint w))
      | VDouble (Finite x) \<Rightarrow> Some x
      | VLongDouble (Finite x) \<Rightarrow> Some x
      | _ \<Rightarrow> None)"

definition exponent_value :: "string \<Rightarrow> int" where
  "exponent_value e =
     (if e = [] then 0
      else if hd (tl e) = CHR ''-'' then - int (read_nat (tl (tl e)))
      else if hd (tl e) = CHR ''+'' then int (read_nat (tl (tl e)))
      else int (read_nat (tl e)))"

lemma exponent_value_show: "exponent_value (show_exponent e) = e"
  by (simp add: exponent_value_def show_exponent_def read_nat_Cons)

lemma decimal_value_parts:
  "decimal_value w (fraction_text ds) e = (of_nat (read_nat w) + fraction_value ds) * 10 powi exponent_value e"
  by (simp add: decimal_value_def fraction_text_def fraction_value_def exponent_value_def Let_def
      read_nat_def)

lemma sint_small:
  assumes "n < 2 ^ 31"
  shows "sint (word_of_nat n :: 32 word) = int n" "sint (- word_of_nat n :: 32 word) = - int n"
proof -
  have "sint (word_of_int i :: 32 word) = i" if "- (2 ^ 31) \<le> i" "i < 2 ^ 31" for i
    using that by (simp only: sint_sbintrunc' len_of_numeral_defs) (simp add: signed_take_bit_int_eq_self)
  from this [of "int n"] this [of "- int n"] assms
  show "sint (word_of_nat n :: 32 word) = int n" "sint (- word_of_nat n :: 32 word) = - int n"
    by simp_all
qed

lemma numeric_number_value:
  assumes "read_nat w < 2 ^ 31"
  shows "numeric (number_value positive w (fraction_text ds) e) =
    Some (if positive then decimal_value w (fraction_text ds) e else - decimal_value w (fraction_text ds) e)"
proof (cases "fraction_text ds = [] \<and> e = []")
  case True
  with sint_small [OF assms] assms show ?thesis
    by (simp add: number_value_def positive_value_def negative_value_def numeric_def Let_def sint_small
        decimal_value_def read_nat_def)
next
  case False
  then show ?thesis by (auto simp: number_value_def numeric_def Let_def)
qed

lemma split_value:
  assumes "length ds = 6" "k \<le> 6"
  shows "of_nat (read_nat (take k ds)) + fraction_value (drop k ds) = of_nat (read_nat ds) * 10 powi (int k - 6)"
proof -
  have "read_nat ds = read_nat (take k ds) * 10 ^ (6 - k) + read_nat (drop k ds)"
    using read_nat_append [of "take k ds" "drop k ds"] assms by simp
  moreover have "(10 :: real) powi (int k - 6) = 1 / 10 ^ (6 - k)"
    using ten_powi(2) [of "6 - k"] assms(2) by (simp add: of_nat_diff)
  ultimately show ?thesis using assms by (simp add: fraction_value_def field_simps)
qed

lemma show_parts_value:
  assumes "0 < x" "show_parts x = (w, f, e)"
  shows "\<exists>ds. f = fraction_text ds \<and> read_nat w < 2 ^ 31 \<and>
    \<bar>decimal_value w f e - x\<bar> \<le> 5 / 1000000 * x"
proof -
  obtain m k where mk: "significand x = (m, k)" by (cases "significand x")
  note s = significand_exact [OF assms(1) mk]
  define ds where "ds = show_nat m"
  have l6: "length ds = 6"
  proof -
    have l: "10 ^ (length ds - 1) \<le> m" "m < 10 ^ length ds" using length_show_nat [of m] s by (simp_all add: ds_def)
    have "10 ^ (length ds - 1) < (10::nat) ^ 6" "(10::nat) ^ 5 < 10 ^ length ds" using l s by auto
    then have "length ds - 1 < 6" "5 < length ds"
      using power_less_imp_less_exp [of "10::nat" "length ds - 1" 6]
        power_less_imp_less_exp [of "10::nat" 5 "length ds"] by simp_all
    then show ?thesis by simp
  qed
  have r: "read_nat ds = m" by (simp add: ds_def)
  have "\<exists>fs. f = fraction_text fs \<and> read_nat w < 2 ^ 31 \<and>
      decimal_value w f e = of_nat m * 10 powi (k - 5)"
  proof (cases "0 \<le> k \<and> k < 6")
    case True
    define fs where "fs = strip_zeros (drop (nat k + 1) ds)"
    have p: "w = take (nat k + 1) ds" "f = fraction_text fs" "e = []"
      using assms(2) mk True by (simp_all add: show_parts_def Let_def ds_def fs_def)
    have "read_nat ds = read_nat w * 10 ^ (6 - (nat k + 1)) + read_nat (drop (nat k + 1) ds)"
      using read_nat_append [of w "drop (nat k + 1) ds"] p l6 by simp
    moreover have "read_nat w \<le> read_nat w * 10 ^ (6 - (nat k + 1))" by simp
    ultimately have "read_nat w \<le> m" using r by linarith
    moreover have "decimal_value w f e = of_nat m * 10 powi (k - 5)"
      using split_value [OF l6, of "nat k + 1"] True r nat_le_iff [of k 5]
      by (simp add: p decimal_value_parts exponent_value_def fs_def fraction_strip)
    ultimately show ?thesis using s p by auto
  next
    case no: False
    show ?thesis
    proof (cases "- 4 \<le> k \<and> k < 0")
      case True
      define z where "z = nat (- k - 1)"
      have p: "w = ''0''" "f = fraction_text (replicate z CHR ''0'' @ strip_zeros ds)" "e = []"
        using assms(2) mk True no by (simp_all add: show_parts_def Let_def ds_def z_def)
      have "fraction_value (replicate z CHR ''0'' @ t) = fraction_value t / 10 ^ z" for t
        by (simp add: fraction_value_def read_nat_append power_add)
      moreover have "k - 5 = - int (z + 6)" using True by (simp add: z_def)
      then have "(10 :: real) powi (k - 5) = 1 / 10 ^ z / 10 ^ 6" by (simp only: ten_powi(2) power_add divide_divide_eq_left)
      ultimately have "decimal_value w f e = of_nat m * 10 powi (k - 5)"
        using r l6 by (simp add: p decimal_value_parts exponent_value_def fraction_strip)
          (simp add: fraction_value_def read_nat_Cons read_nat_def)
      then show ?thesis using p by (auto simp: read_nat_Cons read_nat_def)
    next
      case False
      have p: "w = take 1 ds" "f = fraction_text (strip_zeros (drop 1 ds))" "e = show_exponent k"
        using assms(2) mk False no by (auto simp: show_parts_def Let_def ds_def)
      have "\<forall>c\<in>set w. digit_value c < 10" 
        using p show_nat_digits [of m] by (auto simp: ds_def is_digit_def digit_value_def dest!: in_set_takeD)
      then have "read_nat w < 10" using p(1) l6 by (cases ds) (auto simp: read_nat_def)
      moreover have "of_nat (read_nat w) + fraction_value (drop 1 ds) = of_nat m * (1 / 100000)"
        using split_value [OF l6, of 1] r by (simp add: p)
      then have "decimal_value w f e = of_nat m * 10 powi (k - 5)"
        by (simp add: p(2,3) decimal_value_parts exponent_value_show fraction_strip power_int_diff)
      ultimately show ?thesis using p by auto
    qed
  qed
  with s show ?thesis by auto
qed

text \<open>A finite number is read back within five millionths of itself.\<close>

lemma double_value_close: "\<exists>y. numeric (double_value x) = Some y \<and> \<bar>y - x\<bar> \<le> 5 / 1000000 * \<bar>x\<bar>"
proof (cases "x = 0")
  case True
  then show ?thesis by (simp add: double_value_def numeric_def)
next
  case False
  obtain w f e where p: "show_parts \<bar>x\<bar> = (w, f, e)" by (cases "show_parts \<bar>x\<bar>")
  obtain ds where d: "f = fraction_text ds" "read_nat w < 2 ^ 31"
    "\<bar>decimal_value w f e - \<bar>x\<bar>\<bar> \<le> 5 / 1000000 * \<bar>x\<bar>"
    using show_parts_value [OF _ p] False by auto
  have "\<bar>- decimal_value w f e - x\<bar> = \<bar>decimal_value w f e + x\<bar>" by linarith
  with False p d numeric_number_value [OF d(2), of "0 < x" ds e] show ?thesis
    by (cases "0 < x") (simp_all add: double_value_def)
qed

end
