(* ===== verification/Wide_Text.thy ===== *)
theory Wide_Text
  imports Json_Parser
begin

text \<open>
  The conversions between wide strings and UTF-8 of \<open>source/Utility/Value.cpp\<close>. A wide character is an
  unsigned number; whether \<open>wchar_t\<close> has 16 bits, as on Windows, or 32 is a parameter of the decoder.
  An exception ends the loop, and the bytes or characters written before it are the result.
\<close>

definition is_high :: "32 word \<Rightarrow> bool" where "is_high u \<longleftrightarrow> 0xD800 \<le> u \<and> u \<le> 0xDBFF"

definition is_low :: "32 word \<Rightarrow> bool" where "is_low u \<longleftrightarrow> 0xDC00 \<le> u \<and> u \<le> 0xDFFF"

fun convertWideStringToUTF8String :: "32 word list \<Rightarrow> string" where
  "convertWideStringToUTF8String [] = []"
| "convertWideStringToUTF8String (u # us) =
     (if is_high u then
        (case us of
           [] \<Rightarrow> []
         | pair # us' \<Rightarrow>
             if \<not> is_low pair then []
             else the (utf8 (combine_surrogates u pair)) @ convertWideStringToUTF8String us')
      else
        (case utf8 u of
           None \<Rightarrow> []
         | Some bytes \<Rightarrow> bytes @ convertWideStringToUTF8String us))"

definition char_code :: "char \<Rightarrow> 32 word" where "char_code c = word_of_nat (of_char c)"

text \<open>One byte: the code point so far and the bytes it still needs, unless the byte is out of place.\<close>

definition utf8_step :: "32 word \<Rightarrow> nat \<Rightarrow> 32 word \<Rightarrow> (32 word \<times> nat) option" where
  "utf8_step unicode remainingBytes c =
     (if c \<le> 0x7F then (if remainingBytes \<noteq> 0 then None else Some (c, 0))
      else if c \<le> 0xBF then
        (if remainingBytes \<noteq> 0
         then Some (or (push_bit 6 unicode) (and c 0x3F), remainingBytes - 1) else None)
      else if c \<le> 0xDF then Some (and c 0x1F, 1)
      else if c \<le> 0xEF then Some (and c 0x0F, 2)
      else if c \<le> 0xF7 then Some (and c 0x07, 3)
      else None)"

definition high_surrogate :: "32 word \<Rightarrow> 32 word" where
  "high_surrogate u = or 0xD800 (and (drop_bit 10 (u - 0x10000)) 0x3FF)"

definition low_surrogate :: "32 word \<Rightarrow> 32 word" where
  "low_surrogate u = or 0xDC00 (and u 0x3FF)"

fun utf8_loop :: "bool \<Rightarrow> 32 word \<Rightarrow> nat \<Rightarrow> string \<Rightarrow> 32 word list" where
  "utf8_loop wide16 unicode remainingBytes [] = []"
| "utf8_loop wide16 unicode remainingBytes (c # cs) =
     (case utf8_step unicode remainingBytes (char_code c) of
        None \<Rightarrow> []
      | Some (u, r) \<Rightarrow>
          if r \<noteq> 0 then utf8_loop wide16 u r cs
          else if wide16 \<and> u > 0xFFFF
          then high_surrogate u # low_surrogate u # utf8_loop wide16 (low_surrogate u) 0 cs
          else if u > 0x10FFFF then []
          else u # utf8_loop wide16 u 0 cs)"

definition convertUTF8StringToWideString :: "bool \<Rightarrow> string \<Rightarrow> 32 word list" where
  "convertUTF8StringToWideString wide16 s = utf8_loop wide16 0 0 s"

section \<open>The bytes of a code point\<close>

lemma take_bit_small: "k < 32 \<Longrightarrow> a < 2 ^ k \<longleftrightarrow> take_bit k a = (a :: 32 word)"
  by (simp add: take_bit_eq_mask mask_eq_iff word_2p_lem word_size)

lemma or_plus:
  fixes a x :: "32 word"
  assumes "x < 2 ^ k" "k < 32"
  shows "or (push_bit k a) x = push_bit k a + x"
proof -
  have "take_bit k x = x" using assms by (simp add: take_bit_small)
  then have "bit x n \<Longrightarrow> n < k" for n by (metis bit_take_bit_iff)
  then show ?thesis by (intro disjunctive_add [symmetric]) (fastforce simp: bit_push_bit_iff)
qed

lemma low_six: "and (a :: 32 word) 0x3F = take_bit 6 a"
  by (simp add: take_bit_eq_mask mask_eq_exp_minus_1)

lemma glue: "or (push_bit 6 (drop_bit 6 a)) (and a 0x3F) = (a :: 32 word)"
proof -
  have "and a 0x3F < (2 :: 32 word) ^ 6" by (simp only: take_bit_small low_six) simp
  from or_plus [OF this] show ?thesis by (simp add: low_six bits_ident)
qed

lemma mask_or:
  "and (or 0x80 (and a 0x3F)) 0x3F = and (a :: 32 word) 0x3F"
  "and (or 0xC0 a) 0x1F = and a (0x1F :: 32 word)"
  "and (or 0xE0 a) 0x0F = and a (0x0F :: 32 word)"
  "and (or 0xF0 a) 0x07 = and a (0x07 :: 32 word)"
  by (simp_all add: bit.conj_disj_distrib2 and.assoc)

lemma mask_small:
  "a < 0x20 \<Longrightarrow> and a (0x1F :: 32 word) = a"
  "a < 0x10 \<Longrightarrow> and a (0x0F :: 32 word) = a"
  "a < 0x08 \<Longrightarrow> and a (0x07 :: 32 word) = a"
  using take_bit_eq_mask [of 5 a] take_bit_eq_mask [of 4 a] take_bit_eq_mask [of 3 a]
    take_bit_small [of 5 a] take_bit_small [of 4 a] take_bit_small [of 3 a]
  by (simp_all add: mask_eq_exp_minus_1)

lemma or_heads:
  "a < 0x40 \<Longrightarrow> or 0x80 a = 0x80 + (a :: 32 word)"
  "a < 0x20 \<Longrightarrow> or 0xC0 a = 0xC0 + (a :: 32 word)"
  "a < 0x10 \<Longrightarrow> or 0xE0 a = 0xE0 + (a :: 32 word)"
  "a < 0x08 \<Longrightarrow> or 0xF0 a = 0xF0 + (a :: 32 word)"
  using or_plus [of a 6 2] or_plus [of a 5 6] or_plus [of a 4 14] or_plus [of a 3 30]
  by simp_all

lemma char_code_byte: "a \<le> 0xFF \<Longrightarrow> char_code (byte a) = a"
proof -
  assume "a \<le> 0xFF"
  then have "unat a < 256" by (simp add: word_le_nat_alt)
  then show ?thesis by (simp add: char_code_def byte_def take_bit_nat_eq_self)
qed

lemma cont_small: "and (a :: 32 word) 0x3F < 0x40"
  using take_bit_small [of 6 "take_bit 6 a"] by (simp add: low_six)

text \<open>The codes of the bytes, and where they lie.\<close>

lemma cont_byte:
  "char_code (byte (or 0x80 (and a 0x3F))) = or 0x80 (and a 0x3F)"
  "0x7F < or 0x80 (and (a :: 32 word) 0x3F)" "or 0x80 (and (a :: 32 word) 0x3F) \<le> 0xBF"
proof -
  have *: "or 0x80 (and a 0x3F) = 0x80 + and a 0x3F" using or_heads(1) cont_small by blast
  have "and a 0x3F \<le> 0x3F" by (rule word_and_le1)
  then have n: "unat (and a 0x3F) \<le> 63" by (simp add: word_le_nat_alt)
  then show "0x7F < or 0x80 (and a 0x3F)" "or 0x80 (and a 0x3F) \<le> 0xBF"
    unfolding * by (simp_all add: word_less_nat_alt word_le_nat_alt unat_word_ariths)
  then show "char_code (byte (or 0x80 (and a 0x3F))) = or 0x80 (and a 0x3F)"
    by (intro char_code_byte) (simp add: word_le_nat_alt)
qed

lemma head_bytes2:
  assumes "(a :: 32 word) < 0x20"
  shows "char_code (byte (or 0xC0 a)) = or 0xC0 a" "\<not> or 0xC0 a \<le> 0x7F" "\<not> or 0xC0 a \<le> 0xBF" "or 0xC0 a \<le> 0xDF"
proof -
  have *: "or 0xC0 a = 0xC0 + a" using or_heads(2) assms by blast
  have n: "unat a \<le> 31" using assms by (simp add: word_less_nat_alt)
  then show "\<not> or 0xC0 a \<le> 0x7F" "\<not> or 0xC0 a \<le> 0xBF" "or 0xC0 a \<le> 0xDF"
    unfolding * by (simp_all add: word_le_nat_alt unat_word_ariths)
  then show "char_code (byte (or 0xC0 a)) = or 0xC0 a"
    by (intro char_code_byte) (simp add: word_le_nat_alt)
qed

lemma head_bytes3:
  assumes "(a :: 32 word) < 0x10"
  shows "char_code (byte (or 0xE0 a)) = or 0xE0 a" "\<not> or 0xE0 a \<le> 0x7F" "\<not> or 0xE0 a \<le> 0xBF" "\<not> or 0xE0 a \<le> 0xDF" "or 0xE0 a \<le> 0xEF"
proof -
  have *: "or 0xE0 a = 0xE0 + a" using or_heads(3) assms by blast
  have n: "unat a \<le> 15" using assms by (simp add: word_less_nat_alt)
  then show "\<not> or 0xE0 a \<le> 0x7F" "\<not> or 0xE0 a \<le> 0xBF" "\<not> or 0xE0 a \<le> 0xDF" "or 0xE0 a \<le> 0xEF"
    unfolding * by (simp_all add: word_le_nat_alt unat_word_ariths)
  then show "char_code (byte (or 0xE0 a)) = or 0xE0 a"
    by (intro char_code_byte) (simp add: word_le_nat_alt)
qed

lemma head_bytes4:
  assumes "(a :: 32 word) < 0x08"
  shows "char_code (byte (or 0xF0 a)) = or 0xF0 a" "\<not> or 0xF0 a \<le> 0x7F" "\<not> or 0xF0 a \<le> 0xBF" "\<not> or 0xF0 a \<le> 0xDF" "\<not> or 0xF0 a \<le> 0xEF" "or 0xF0 a \<le> 0xF7"
proof -
  have *: "or 0xF0 a = 0xF0 + a" using or_heads(4) assms by blast
  have n: "unat a \<le> 7" using assms by (simp add: word_less_nat_alt)
  then show "\<not> or 0xF0 a \<le> 0x7F" "\<not> or 0xF0 a \<le> 0xBF" "\<not> or 0xF0 a \<le> 0xDF" "\<not> or 0xF0 a \<le> 0xEF" "or 0xF0 a \<le> 0xF7"
    unfolding * by (simp_all add: word_le_nat_alt unat_word_ariths)
  then show "char_code (byte (or 0xF0 a)) = or 0xF0 a"
    by (intro char_code_byte) (simp add: word_le_nat_alt)
qed

section \<open>Decoding what was encoded\<close>

lemma utf8_steps:
  "c \<le> 0x7F \<Longrightarrow> utf8_step v 0 c = Some (c, 0)"
  "0 < r \<Longrightarrow> utf8_step v r (or 0x80 (and a 0x3F)) = Some (or (push_bit 6 v) (and a 0x3F), r - 1)"
  "a < 0x20 \<Longrightarrow> utf8_step v r (or 0xC0 a) = Some (a, 1)"
  "a < 0x10 \<Longrightarrow> utf8_step v r (or 0xE0 a) = Some (a, 2)"
  "a < 0x08 \<Longrightarrow> utf8_step v r (or 0xF0 a) = Some (a, 3)"
proof -
  show "c \<le> 0x7F \<Longrightarrow> utf8_step v 0 c = Some (c, 0)" by (simp add: utf8_step_def)
  show "0 < r \<Longrightarrow> utf8_step v r (or 0x80 (and a 0x3F)) = Some (or (push_bit 6 v) (and a 0x3F), r - 1)"
    using cont_byte(2,3) [of a] by (simp add: utf8_step_def mask_or not_le)
  show "a < 0x20 \<Longrightarrow> utf8_step v r (or 0xC0 a) = Some (a, 1)"
    using head_bytes2(2-) [of a] by (simp add: utf8_step_def mask_or mask_small)
  show "a < 0x10 \<Longrightarrow> utf8_step v r (or 0xE0 a) = Some (a, 2)"
    using head_bytes3(2-) [of a] by (simp add: utf8_step_def mask_or mask_small)
  show "a < 0x08 \<Longrightarrow> utf8_step v r (or 0xF0 a) = Some (a, 3)"
    using head_bytes4(2-) [of a] by (simp add: utf8_step_def mask_or mask_small)
qed

text \<open>A code point as wide characters: itself, or two surrogates where it needs them.\<close>

definition wide_char :: "bool \<Rightarrow> 32 word \<Rightarrow> 32 word list" where
  "wide_char wide16 u = (if wide16 \<and> u > 0xFFFF then [high_surrogate u, low_surrogate u] else [u])"

lemma utf8_loop_start: "utf8_loop w x 0 cs = utf8_loop w 0 0 cs"
proof (cases cs)
  case (Cons c cs')
  have "utf8_step x 0 d = utf8_step 0 0 d" for d by (simp add: utf8_step_def)
  then show ?thesis using Cons by simp
qed simp

lemma drop_bit_small: "(u :: 32 word) \<le> 0x7FF \<Longrightarrow> drop_bit 6 u < 0x20"
    "(u :: 32 word) \<le> 0xFFFF \<Longrightarrow> drop_bit 12 u < 0x10" "(u :: 32 word) \<le> 0x10FFFF \<Longrightarrow> drop_bit 18 u < 0x08"
proof -
  have d: "unat (drop_bit k u) = unat u div 2 ^ k" for k
    using unsigned_less [where 'a = nat, of u]
    by (subst unsigned_drop_bit_eq) (simp add: take_bit_nat_eq_self drop_bit_eq_div)
  show "u \<le> 0x7FF \<Longrightarrow> drop_bit 6 u < 0x20" "u \<le> 0xFFFF \<Longrightarrow> drop_bit 12 u < 0x10"
    "u \<le> 0x10FFFF \<Longrightarrow> drop_bit 18 u < 0x08"
    by (simp_all only: word_le_nat_alt word_less_nat_alt d) (simp_all add: div_less_iff_less_mult)
qed

lemma glue_up: "or (push_bit 6 (drop_bit 12 a)) (and (drop_bit 6 a) 0x3F) = drop_bit 6 (a :: 32 word)"
  "or (push_bit 6 (drop_bit 18 a)) (and (drop_bit 12 a) 0x3F) = drop_bit 12 (a :: 32 word)"
  using glue [of "drop_bit 6 a"] glue [of "drop_bit 12 a"] by simp_all

lemma utf8_loop_char:
  assumes "utf8 u = Some bs"
  shows "utf8_loop w x 0 (bs @ cs) = wide_char w u @ utf8_loop w 0 0 cs"
proof -
  have u: "\<not> u > 0x10FFFF"
    using assms by (auto simp: utf8_def word_le_nat_alt word_less_nat_alt split: if_splits)
  have emitted: "(if w \<and> u > 0xFFFF
      then high_surrogate u # low_surrogate u # utf8_loop w (low_surrogate u) 0 cs
      else if u > 0x10FFFF then [] else u # utf8_loop w u 0 cs) = wide_char w u @ utf8_loop w 0 0 cs"
    using u by (simp add: wide_char_def utf8_loop_start [of _ u] utf8_loop_start [of _ "low_surrogate u"])
  consider "u \<le> 0x7F" | "\<not> u \<le> 0x7F" "u \<le> 0x7FF" | "\<not> u \<le> 0x7FF" "\<not> u \<le> 0x7F" "u \<le> 0xFFFF"
    | "\<not> u \<le> 0xFFFF" "\<not> u \<le> 0x7FF" "\<not> u \<le> 0x7F" "u \<le> 0x10FFFF"
    using u by fastforce
  then show ?thesis
  proof cases
    case 1
    then have "u \<le> 0xFF" by (simp add: word_le_nat_alt)
    with 1 assms emitted show ?thesis by (auto simp: utf8_def char_code_byte utf8_steps)
  next
    case 2
    with assms emitted drop_bit_small(1) [of u] show ?thesis
      by (auto simp: utf8_def cont_byte(1) head_bytes2(1) utf8_steps glue)
  next
    case 3
    with assms emitted drop_bit_small(2) [of u] show ?thesis
      by (auto simp: utf8_def cont_byte(1) head_bytes3(1) utf8_steps glue glue_up)
  next
    case 4
    with assms emitted drop_bit_small(3) [of u] show ?thesis
      by (auto simp: utf8_def cont_byte(1) head_bytes4(1) utf8_steps glue glue_up)
  qed
qed

section \<open>Surrogates\<close>

definition code_point :: "32 word \<Rightarrow> bool" where
  "code_point u \<longleftrightarrow> u \<le> 0x10FFFF \<and> \<not> is_high u \<and> \<not> is_low u"

lemma low_ten: "and (a :: 32 word) 0x3FF = take_bit 10 a"
  by (simp add: take_bit_eq_mask mask_eq_exp_minus_1)

lemma ten_small: "unat (take_bit 10 (a :: 32 word)) < 1024"
  using take_bit_small [of 10 "take_bit 10 a"] by (simp add: word_less_nat_alt)

lemma surrogates_plus:
  "high_surrogate u = 0xD800 + take_bit 10 (drop_bit 10 (u - 0x10000))"
  "low_surrogate u = 0xDC00 + take_bit 10 u"
proof -
  have "take_bit 10 a < (2 :: 32 word) ^ 10" for a by (simp only: take_bit_small) simp
  from or_plus [OF this, of 54] or_plus [OF this, of 55]
  show "high_surrogate u = 0xD800 + take_bit 10 (drop_bit 10 (u - 0x10000))"
    "low_surrogate u = 0xDC00 + take_bit 10 u"
    by (simp_all add: high_surrogate_def low_surrogate_def low_ten)
qed

lemma surrogates_ok: "is_high (high_surrogate u)" "is_low (low_surrogate u)"
  using ten_small [of "drop_bit 10 (u - 0x10000)"] ten_small [of u]
  by (simp_all add: is_high_def is_low_def surrogates_plus word_le_nat_alt unat_word_ariths)

lemma combine_split:
  assumes "\<not> u \<le> 0xFFFF" "u \<le> 0x10FFFF"
  shows "combine_surrogates (high_surrogate u) (low_surrogate u) = u"
proof -
  have n: "unat (u - 0x10000) = unat u - 65536"
    using assms by (simp add: word_le_nat_alt unat_sub)
  have "drop_bit 10 (u - 0x10000) < 2 ^ 10"
  proof -
    have "unat (drop_bit 10 (u - 0x10000)) = unat (u - 0x10000) div 1024"
      using unsigned_less [where 'a = nat, of "u - 0x10000"]
      by (subst unsigned_drop_bit_eq) (simp add: take_bit_nat_eq_self drop_bit_eq_div)
    with n assms(2) show ?thesis by (simp add: word_less_nat_alt word_le_nat_alt div_less_iff_less_mult)
  qed
  then have "take_bit 10 (drop_bit 10 (u - 0x10000)) = drop_bit 10 (u - 0x10000)"
    by (simp only: take_bit_small)
  moreover have "take_bit 10 u = take_bit 10 (u - 0x10000)"
  proof -
    have "unat u = unat (u - 0x10000) + 65536" using n assms(1) by (simp add: word_le_nat_alt)
    moreover have "(k + 65536) mod 1024 = k mod 1024" for k :: nat using mod_mult_self1 [of k 64 1024] by simp
    ultimately have "unat u mod 1024 = unat (u - 0x10000) mod 1024" by metis
    then have "unat (take_bit 10 u) = unat (take_bit 10 (u - 0x10000))"
      by (simp add: take_bit_eq_mod unat_mod)
    then show ?thesis by (rule unsigned_word_eqI)
  qed
  ultimately show ?thesis
    using bits_ident [of 10 "u - 0x10000"]
    by (simp add: combine_surrogates_def surrogates_plus algebra_simps)
qed

lemma utf8_total: "u \<le> 0x10FFFF \<Longrightarrow> \<exists>bs. utf8 u = Some bs"
  by (simp add: utf8_def)

lemma utf8_wide_char:
  assumes "code_point u"
  shows "convertWideStringToUTF8String (wide_char w u @ us) = the (utf8 u) @ convertWideStringToUTF8String us"
  using assms utf8_total [of u] combine_split [of u]
  by (auto simp: wide_char_def code_point_def surrogates_ok not_le split: option.splits)

text \<open>
  A text of code points, as wide characters of either width, is encoded to the UTF-8 of its code
  points, and comes back from it.
\<close>

definition wide_text :: "bool \<Rightarrow> 32 word list \<Rightarrow> 32 word list" where
  "wide_text w t = concat (map (wide_char w) t)"

definition utf8_text :: "32 word list \<Rightarrow> string" where
  "utf8_text t = concat (map (\<lambda>u. the (utf8 u)) t)"

lemma encode_wide_text:
  "\<forall>u\<in>set t. code_point u \<Longrightarrow> convertWideStringToUTF8String (wide_text w t) = utf8_text t"
  by (induction t) (simp_all add: wide_text_def utf8_text_def utf8_wide_char)

lemma decode_utf8_text:
  "\<forall>u\<in>set t. code_point u \<Longrightarrow> utf8_loop w 0 0 (utf8_text t) = wide_text w t"
proof (induction t)
  case (Cons u t)
  then obtain bs where "utf8 u = Some bs" using utf8_total by (auto simp: code_point_def)
  with Cons utf8_loop_char [OF this, of w 0 "utf8_text t"] show ?case
    by (simp add: wide_text_def utf8_text_def)
qed (simp add: wide_text_def utf8_text_def)

end
