(* ===== verification/Value_Properties.thy ===== *)
theory Value_Properties
  imports Json_Numbers Wide_Text
begin

text \<open>
  The properties of dynamic values: the text form of a value is read back, a number to within its six
  digits; the parser builds values of the JSON types only; equality of values is equality of what
  their texts mean; the parser accepts arrays that are not JSON; wide strings survive UTF-8.
\<close>

section \<open>The round trip\<close>

text \<open>
  C19 A value survives the trip through its text. For every value without infinities, foreign objects
  and NUL bytes, compact or indented, with slashes escaped or not, the parser reads back from
  \<open>ToJSON\<close>'s text the same strings, truth values, arrays and hashes; an integer comes back in the
  smallest type that holds it and a floating point number as what its six digits denote.
\<close>

theorem json_roundtrip:
  assumes "json_ok v"
  shows "FromJSON (ToJSON e p v) = canon v"
proof -
  have "stops []" by (simp add: stops_def no_digit_def peekOptional_def)
  from text_parses [OF assms this] show ?thesis
    by (simp add: FromJSON_def read_value_def ToJSON_def toStream_def)
qed

definition sample_value :: dvalue where
  "sample_value =
     VHash [(''mode'', VInt 2), (''names'', VArray [VString ''a/b'', VNull, VULongLong 7]), (''on'', VBool True)]"

lemma sample_value_ok: "json_ok sample_value"
  by (simp add: sample_value_def scalar_ok_def less_char_def)

theorem json_roundtrip_witness:
  "FromJSON (ToJSON True True sample_value) =
     VHash [(''mode'', VInt 2), (''names'', VArray [VString ''a/b'', VNull, VInt 7]), (''on'', VBool True)]"
  using json_roundtrip [OF sample_value_ok, of True True]
  by (simp add: sample_value_def scalar_canon_def integer_value_def)

text \<open>
  C21 A floating point number survives to six significant digits: the value read back from its text is a
  number, within five millionths of the original.
\<close>

theorem json_number_close:
  "\<exists>y. numeric (FromJSON (ToJSON e p (VDouble (Finite x)))) = Some y \<and> \<bar>y - x\<bar> \<le> 5 / 1000000 * \<bar>x\<bar>"
proof -
  have "stops []" by (simp add: stops_def no_digit_def peekOptional_def)
  from text_parses [OF _ this, of "VDouble (Finite x)" e "if p then 0 else 1"]
  have "FromJSON (ToJSON e p (VDouble (Finite x))) = double_value x"
    by (simp add: FromJSON_def read_value_def ToJSON_def toStream_def scalar_ok_def scalar_canon_def)
  with double_value_close [of x] show ?thesis by simp
qed

section \<open>Equality\<close>

text \<open>The values whose text is exact: those without floating point numbers.\<close>

fun exact :: "dvalue \<Rightarrow> bool" where
  "exact (VArray xs) = (\<forall>x\<in>set xs. exact x)"
| "exact (VHash h) = (\<forall>p\<in>set h. exact (snd p))"
| "exact (VDouble d) = False"
| "exact (VLongDouble d) = False"
| "exact v = True"

lemma integer_value_text:
  assumes "has_integer_type i"
  shows "stream_text j e n (integer_value i) = indentation j n @ show_int i"
proof -
  have "sint (word_of_int i :: 32 word) = i" if "- (2 ^ 31) \<le> i" "i < 2 ^ 31"
    using that by (simp only: sint_sbintrunc' len_of_numeral_defs) (simp add: signed_take_bit_int_eq_self)
  moreover have "sint (word_of_int i :: 64 word) = i" if "i < 0"
    using that assms unfolding has_integer_type_def
    by (simp only: sint_sbintrunc' len_of_numeral_defs) (simp add: signed_take_bit_int_eq_self)
  moreover have "uint (word_of_int i :: 32 word) = i" if "0 \<le> i" "i < 2 ^ 32"
    using that by (simp add: uint_word_of_int)
  moreover have "uint (word_of_int i :: 64 word) = i" if "0 \<le> i"
    using that assms by (simp add: uint_word_of_int has_integer_type_def)
  ultimately show ?thesis by (auto simp: integer_value_def scalar_text_def)
qed

lemma exact_text: "exact v \<Longrightarrow> stream_text True e i (canon v) = stream_text True e i v"
proof (induction v arbitrary: i)
  case (VArray xs)
  then have "map (stream_text True e k) (map canon xs) = map (stream_text True e k) xs" for k by simp
  then show ?case by (simp only: canon.simps stream_text.simps Let_def)
next
  case (VHash h)
  then have "stream_text True e k (canon (snd p)) = stream_text True e k (snd p)" if "p \<in> set h" for p k
    using that by (cases p) (auto simp: snds.simps)
  then show ?case by (simp add: Let_def comp_def cong: map_cong)
qed (simp_all add: scalar_canon_def integer_value_text scalar_text_def)

text \<open>
  C24 Equality of values compares what their texts mean. Two values that contain no floating point number,
  no foreign object and no NUL byte in a string or a key, and whose hashes have ordered keys as maps do, are
  equal for \<open>operator==\<close> exactly when they are the same up to the types of their integers. (A floating point
  number can equal an integer, and a string equals its part before a NUL byte.)
\<close>

theorem value_eq_exact:
  assumes "json_ok v" "json_ok w" "exact v" "exact w"
  shows "value_eq v w \<longleftrightarrow> canon v = canon w"
proof
  have s: "stops []" by (simp add: stops_def no_digit_def peekOptional_def)
  assume "value_eq v w"
  then have t: "stream_text True True 1 v = stream_text True True 1 w"
    by (simp add: value_eq_def ToJSON_def toStream_def)
  from text_parses [OF assms(1) s, of True 1] text_parses [OF assms(2) s, of True 1] t
  show "canon v = canon w" by simp
next
  assume "canon v = canon w"
  with exact_text [OF assms(3), of True 1] exact_text [OF assms(4), of True 1] show "value_eq v w"
    by (simp add: value_eq_def ToJSON_def toStream_def)
qed

theorem value_eq_exact_witness: "value_eq (VULongLong 7) (VInt 7) \<and> \<not> value_eq (VString ''7'') (VInt 7)"
  using value_eq_exact [of "VULongLong 7" "VInt 7"] value_eq_exact [of "VString ''7''" "VInt 7"]
  by (simp add: scalar_ok_def scalar_canon_def integer_value_def)

section \<open>The types of what is parsed\<close>

text \<open>
  The values the parser may build: no foreign object, no special number, the keys of a hash in order, and
  every integer in the smallest type that holds it.
\<close>

definition scalar_typed :: "dvalue \<Rightarrow> bool" where
  "scalar_typed v =
     (case v of
        VLongLong w \<Rightarrow> sint w < - (2 ^ 31)
      | VUInt w \<Rightarrow> 2 ^ 31 \<le> uint w
      | VULongLong w \<Rightarrow> 2 ^ 32 \<le> uint w
      | VDouble d \<Rightarrow> (case d of Finite x \<Rightarrow> True | _ \<Rightarrow> False)
      | VLongDouble d \<Rightarrow> False
      | VOther \<Rightarrow> False
      | _ \<Rightarrow> True)"

fun well_typed :: "dvalue \<Rightarrow> bool" where
  "well_typed (VArray xs) = (\<forall>x\<in>set xs. well_typed x)"
| "well_typed (VHash h) = (sorted_wrt (<) (map fst h) \<and> (\<forall>p\<in>set h. well_typed (snd p)))"
| "well_typed v = scalar_typed v"

lemma set_map_set: "set (map_set k v h) \<subseteq> insert (k, v) (set h)"
proof (induction h)
  case (Cons p h)
  then show ?case by (cases p) auto
qed simp

lemma fst_map_set: "fst ` set (map_set k v h) = insert k (fst ` set h)"
proof (induction h)
  case (Cons p h)
  then show ?case by (cases p) auto
qed simp

lemma sorted_map_set: "sorted_wrt (<) (map fst h) \<Longrightarrow> sorted_wrt (<) (map fst (map_set k v h))"
proof (induction h)
  case (Cons p h)
  then show ?case
    by (cases p) (auto simp: fst_map_set intro: less_trans)
qed simp

lemma positive_typed: "well_typed (positive_value n)"
proof -
  define v where "v = min (int n) (2 ^ 64 - 1)"
  have "uint (word_of_int k :: 32 word) = k" if "0 \<le> k" "k < 2 ^ 32" for k
    using that by (simp add: uint_word_of_int)
  moreover have "uint (word_of_int k :: 64 word) = k" if "0 \<le> k" "k < 2 ^ 64" for k
    using that by (simp add: uint_word_of_int)
  moreover have "0 \<le> v" "v < 2 ^ 64" by (simp_all add: v_def)
  ultimately show ?thesis
    unfolding positive_value_def v_def [symmetric] by (auto simp: scalar_typed_def Let_def)
qed

lemma negative_typed: "well_typed (negative_value n)"
proof -
  have "sint (word_of_int k :: 64 word) = k" if "- (2 ^ 63) \<le> k" "k < 0" for k
    using that by (simp only: sint_sbintrunc' len_of_numeral_defs) (simp add: signed_take_bit_int_eq_self)
  then show ?thesis by (auto simp: negative_value_def scalar_typed_def Let_def)
qed

lemma number_typed: "parseNumber s = Some (v, r) \<Longrightarrow> well_typed v"
  by (auto simp: parseNumber_def number_value_def scalar_typed_def Let_def positive_typed negative_typed
      split: bind_splits prod.splits)

lemma parse_typed:
  "parseValue s = Some (v, r) \<Longrightarrow> well_typed v"
  "parse_members h s = Some (v, r) \<Longrightarrow> well_typed (VHash h) \<Longrightarrow> well_typed v"
  "parse_elements a s = Some (v, r) \<Longrightarrow> well_typed (VArray a) \<Longrightarrow> well_typed v"
proof (induction s and h s and a s arbitrary: v r and v r and v r
    rule: parseValue_parse_members_parse_elements.induct)
  case (1 s)
  then show ?case
    by (auto simp: parseValue.simps [of s] scalar_typed_def simp del: requireChars.simps
        split: option.splits if_splits dest: number_typed)
next
  case (2 hash s)
  have "well_typed (VHash (map_set k x hash))" if "well_typed x" for k x
    using 2(5) that set_map_set [of k x hash] by (auto simp: sorted_map_set)
  with 2 show ?case
    by (auto simp: parse_members.simps [of hash s] simp del: well_typed.simps(2)
        split: option.splits if_splits)
next
  case (3 array s)
  then show ?case
    by (auto simp: parse_elements.simps [of array s] split: option.splits if_splits)
qed

text \<open>
  C22 The parser only builds values of the JSON types. Whatever the text, the value read from it has no
  object of a foreign type and no special number in it, the keys of its hashes are in order and
  distinct, and each of its integers has the smallest type that holds it.
\<close>

theorem parser_typed: "well_typed (FromJSON s)"
  using parse_typed(1) [of s] by (auto simp: FromJSON_def read_value_def scalar_typed_def split: option.splits)

section \<open>What is not JSON\<close>

text \<open>
  The parser accepts arrays whose elements no comma separates, and arrays with empty places: both
  are read as the array of the elements.
\<close>

theorem json_lenient_arrays:
  assumes "json_ok v" "json_ok w"
  shows "FromJSON (CHR ''['' # ToJSON e p v @ '' '' @ ToJSON e p w @ '']'') = VArray [canon v, canon w] \<and>
    FromJSON (CHR ''['' # ToJSON e p v @ '',,'' @ ToJSON e p w @ '',]'') = VArray [canon v, canon w]"
proof -
  have step: "parse_elements acc (stream_text True e i x @ r) = parse_elements (acc @ [canon x]) r"
    if "json_ok x" "stops r" for x acc i r
  proof -
    note x = that
    obtain ws t where t: "stream_text True e i x = ws @ t" "blank ws" "begins t"
      using text_shape [OF x(1)] by blast
    have "parseValue (t @ r) = Some (canon x, r)"
      using text_parses [OF x, of e i] parseValue_blank [OF t(2), of "t @ r"] t(1) by simp
    with t skip_begins [OF t(3,2), of r] show ?thesis
      by (subst parse_elements.simps) (cases t; simp add: begins_def)
  qed
  have blank: "parse_elements acc (CHR '' '' # r) = parse_elements acc r" for acc r
    by (simp add: parse_elements.simps skipWhitespace_def is_blank_def)
  have comma: "parse_elements (y # acc) (CHR '','' # r) = parse_elements (y # acc) r" for y acc r
    using skip_blank [of "[]" "CHR '',''" r] by (subst parse_elements.simps) (simp add: is_blank_def)
  have close: "parse_elements acc '']'' = Some (VArray acc, [])" for acc
    using skip_blank [of "[]" "CHR '']''" "[]"] by (subst parse_elements.simps) (simp add: is_blank_def)
  have "stops (CHR '' '' # r)" for r by (simp add: is_blank_def)
  with step comma close blank assms show ?thesis
    by (simp add: FromJSON_def read_value_def ToJSON_def toStream_def parse_brackets)
qed

theorem json_lenient_arrays_witness:
  "FromJSON ''[1 2]'' = VArray [VInt 1, VInt 2] \<and> FromJSON ''[1,,2,]'' = VArray [VInt 1, VInt 2]"
proof -
  have "ToJSON False False (VInt 1) = ''1''" "ToJSON False False (VInt 2) = ''2''"
    by (simp_all add: ToJSON_def toStream_def indentation_def pretty_def scalar_text_def show_int_def
        show_nat.simps digit_def char_of_def bit_0)
  with json_lenient_arrays [of "VInt 1" "VInt 2" False False] show ?thesis
    by (simp add: scalar_ok_def scalar_canon_def)
qed

section \<open>Wide strings\<close>

text \<open>
  C23 Wide strings survive UTF-8. A text of Unicode code points, written as wide characters of 16 bits with
  surrogate pairs or of 32 bits, is encoded without loss, and decoding the bytes gives the same text
  in either width.
\<close>

theorem wide_roundtrip:
  assumes "\<forall>u\<in>set t. code_point u"
  shows "convertUTF8StringToWideString w' (convertWideStringToUTF8String (wide_text w t)) = wide_text w' t"
  using assms by (simp add: convertUTF8StringToWideString_def encode_wide_text decode_utf8_text)

theorem wide_roundtrip_witness:
  "convertUTF8StringToWideString True (convertWideStringToUTF8String [0x41, 0xE9, 0x20AC, 0x1F600]) =
     [0x41, 0xE9, 0x20AC, 0xD83D, 0xDE00]"
  using wide_roundtrip [of "[0x41, 0xE9, 0x20AC, 0x1F600]" True False]
  by (simp add: code_point_def is_high_def is_low_def wide_text_def wide_char_def high_surrogate_def low_surrogate_def)

end
