(* ===== verification/Touch_Peripheral.thy ===== *)
theory Touch_Peripheral
  imports Basic_Mode
begin

text \<open>
  The touch mode of \<open>source/OSInteraction/TouchPeripheral.cpp\<close>: it has no state machine, and turns the
  fingers of each frame into one touch event and one row of icons. Its two members extend the
  record of the base class, whose machine it does not use.
\<close>

record ('f, 'p) touch_peripheral = "(unit, 'f, 'p) gim" +
  tp_charmsMode :: int
  tp_lastNumIcons :: int

type_synonym ('f, 'p) tp = "('f, 'p) touch_peripheral"

definition TouchPeripheral :: "('f, 'h, 'p, 'e) env_scheme \<Rightarrow> categorical_error + ('f, 'p) tp" where
  "TouchPeripheral L =
     (case GestureInteractionManager L of
        Inl e \<Rightarrow> Inl e
      | Inr g \<Rightarrow> Inr (gim.extend g (touch_peripheral.fields (-1) 0)))"

definition tp_applyCharms ::
  "('f, 'h, 'p, 'e) env_scheme \<Rightarrow> vec \<Rightarrow> int \<Rightarrow> ('f, 'p) tp \<Rightarrow> ('f, 'p) tp" where
  "tp_applyCharms L aspect n s =
     (if e_platform L = Windows
      then emit [ApplyCharms aspect n (tp_charmsMode s)]
             (s\<lparr>tp_charmsMode := charms_mode aspect n (tp_charmsMode s)\<rparr>)
      else s)"

text \<open>The place of a pointable on the screen, in units of its sides, and how far outside it is.\<close>

definition tp_aspect ::
  "('f, 'h, 'p, 'e) env_scheme \<Rightarrow> (vec \<Rightarrow> bool \<Rightarrow> vec) \<Rightarrow> 'p \<Rightarrow> vec \<times> vec" where
  "tp_aspect L box p =
     (let (ok, aspectNormalized, clampVec) =
        normalizedToAspect (e_overlay L) (box (p_stabilizedTipPosition L p) False) 1 False
      in (aspectNormalized, clampVec))"

text \<open>The tests a pointable has to pass to be shown.\<close>

definition tp_shown :: "('f, 'h, 'p, 'e) env_scheme \<Rightarrow> (vec \<Rightarrow> bool \<Rightarrow> vec) \<Rightarrow> 'p \<Rightarrow> bool" where
  "tp_shown L box p \<longleftrightarrow> p_id L p \<ge> 0 \<and> p_touchZone L p \<noteq> ZONE_NONE \<and>
     magnitude (snd (tp_aspect L box p)) \<le> acceptableClampDistance"

definition tp_charms ::
  "('f, 'h, 'p, 'e) env_scheme \<Rightarrow> 'p \<Rightarrow> ('f, 'p) tp \<Rightarrow> ('f, 'p) tp" where
  "tp_charms L p s =
     (if e_touchVersion L = 8 \<and> e_useCharmHelper L then
        (if p_touchZone L p = ZONE_HOVERING
         then tp_applyCharms L (fst (tp_aspect L (m_interactionBox s) p))
                (int (length (m_relevantPointables s))) s
         else s\<lparr>tp_charmsMode := -1\<rparr>)
      else s)"

text \<open>The body of the loop: the state and the number of icons so far.\<close>

definition tp_pointable ::
  "('f, 'h, 'p, 'e) env_scheme \<Rightarrow> 'p \<Rightarrow> ('f, 'p) tp \<times> int \<Rightarrow> ('f, 'p) tp \<times> int" where
  "tp_pointable L p sn =
     (let (s, curNumIcons) = sn in
      if tp_shown L (m_interactionBox s) p then
        (let s1 = tp_charms L p s;
             s2 = perform L (AddTouchPointForPointable (p_id L p) p (p_touchZone L p = ZONE_TOUCHING) False) s1
         in (perform L (DrawOverlayForPointable p curNumIcons 1 False) s2, curNumIcons + 1))
      else (s, curNumIcons))"

definition tp_processFrameInternal ::
  "('f, 'h, 'p, 'e) env_scheme \<Rightarrow> ('f, 'p) tp \<Rightarrow> ('f, 'p) tp outcome" where
  "tp_processFrameInternal L s =
     (if \<not> e_touchAvailable L then Done s
      else
        (let s1 = (if m_relevantPointables s = [] then s\<lparr>tp_charmsMode := -1\<rparr> else s);
             (s2, curNumIcons) = fold (tp_pointable L) (m_relevantPointables s1) (s1, 0);
             s3 = emitTouchEvent s2;
             s4 = emit (hide_icons curNumIcons (tp_lastNumIcons s3)) s3
         in Done (s4\<lparr>tp_lastNumIcons := curNumIcons\<rparr>)))"

definition tp_identifyRelevantPointables ::
  "('f, 'h, 'p, 'e) env_scheme \<Rightarrow> 'f \<Rightarrow> 'p list \<Rightarrow> 'p list" where
  "tp_identifyRelevantPointables L frame pointables =
     filter (\<lambda>p. \<not> (p_touchZone L p = ZONE_NONE \<or> vz (p_direction L p) > 0)) pointables"

definition tp_virtual ::
  "('f, 'h, 'p, 'e) env_scheme \<Rightarrow> ('f, 'p, ('f, 'p) tp) gim_virtual" where
  "tp_virtual L =
     \<lparr>v_processFrameInternal = tp_processFrameInternal L,
      v_identifyRelevantPointables = tp_identifyRelevantPointables L,
      v_identifyCollectivePointableZone = identifyCollectivePointableZone L,
      v_setForemostPointable = setForemostPointable L\<rparr>"

definition tp_processFrame ::
  "('f, 'h, 'p, 'e) env_scheme \<Rightarrow> 'f \<Rightarrow> 'f \<Rightarrow> ('f, 'p) tp \<Rightarrow> ('f, 'p) tp outcome" where
  "tp_processFrame L frame since s = processFrame L (tp_virtual L) frame since s"

text \<open>The class has no destructor of its own.\<close>

definition tp_destroy :: "('f, 'h, 'p, 'e) env_scheme \<Rightarrow> ('f, 'p) tp \<Rightarrow> ('f, 'p) tp outcome" where
  "tp_destroy L s = Done (gim_destroy L s)"

section \<open>What the loop does\<close>

definition tp_kept where
  "tp_kept s =
     (m_currentFrame s, m_timedFrameHistory s, m_relevantPointables s, m_interactionBox s,
      m_filteredPointableCount s, m_filteredRTS s, m_positionalDeltaTracker s, sm_violations s,
      tp_lastNumIcons s)"

lemma tp_charms_kept [simp]:
  "tp_kept (tp_charms L p s) = tp_kept s" "m_touchEvent (tp_charms L p s) = m_touchEvent s"
  "m_interactionBox (tp_charms L p s) = m_interactionBox s"
  by (simp_all add: tp_charms_def tp_applyCharms_def emit_def tp_kept_def)

text \<open>The touch a pointable adds: its place on the screen, unless the place is clamped.\<close>

definition tp_touch ::
  "('f, 'h, 'p, 'e) env_scheme \<Rightarrow> (vec \<Rightarrow> bool \<Rightarrow> vec) \<Rightarrow> 'p \<Rightarrow> Touch option" where
  "tp_touch L box p =
     (let (_, scr, clampVec) = to_screen L box (p_stabilizedTipPosition L p) True in
      if magnitudeSquared clampVec = 0
      then Some (mk_Touch (word_of_int (p_id L p)) (word_of_int (p_frame_id L p)) (vx scr) (vy scr)
                   (p_touchZone L p = ZONE_TOUCHING))
      else None)"

definition insert_option :: "Touch option \<Rightarrow> touches \<Rightarrow> touches" where
  "insert_option t ts = (case t of None \<Rightarrow> ts | Some x \<Rightarrow> insert_touch x ts)"

lemma add_touch_call:
  assumes "p_valid L p"
  shows "perform L (AddTouchPointForPointable (p_id L p) p (p_touchZone L p = ZONE_TOUCHING) False) s =
     s\<lparr>m_touchEvent := insert_option (tp_touch L (m_interactionBox s) p) (m_touchEvent s)\<rparr>"
proof -
  obtain ok scr clampVec
    where "to_screen L (m_interactionBox s) (p_stabilizedTipPosition L p) True = (ok, scr, clampVec)"
    by (metis prod_cases3)
  with assms show ?thesis
    by (simp add: perform_def effects_def addTouchPointForPointable_fx_def effect_here_def
        tp_touch_def insert_option_def addTouchPoint_def)
qed

text \<open>The icons a list of actions shows, when there is nothing else in it but calls of the charms helper.\<close>

definition icon_shown :: "action \<Rightarrow> int option" where
  "icon_shown a = (case a of DrawRasterIcon i x y v d td r c al \<Rightarrow> if v then Some i else None | _ \<Rightarrow> None)"

definition only_icons :: "int list \<Rightarrow> action list \<Rightarrow> bool" where
  "only_icons is as \<longleftrightarrow>
     list_all (\<lambda>a. icon_shown a \<noteq> None \<or> (\<exists>v n c. a = ApplyCharms v n c)) as \<and>
     List.map_filter icon_shown as = is"

lemma only_icons_append: "only_icons is as \<Longrightarrow> only_icons js bs \<Longrightarrow> only_icons (is @ js) (as @ bs)"
  by (simp add: only_icons_def map_filter_def)

lemma draw_call:
  assumes "p_valid L p" "useProceduralOverlay L"
  obtains a where "perform L (DrawOverlayForPointable p i 1 False) s = emit [a] s" "only_icons [i] [a]"
proof -
  obtain ok scr clampVec
    where t: "to_screen L (m_interactionBox s) (p_stabilizedTipPosition L p) False = (ok, scr, clampVec)"
    by (metis prod_cases3)
  have "\<exists>a. perform L (DrawOverlayForPointable p i 1 False) s = emit [a] s \<and> icon_shown a = Some i"
    unfolding perform_def call_fx.simps drawOverlayForPointable_fx_def Let_def
    using assms t by (auto simp: effects_def effect_here_def emit_def icon_shown_def)
  then show ?thesis using that by (auto simp: only_icons_def map_filter_def)
qed

lemma charms_call: "\<exists>as. out (tp_charms L p s) = out s @ as \<and> only_icons [] as"
  by (auto simp: tp_charms_def tp_applyCharms_def emit_def only_icons_def map_filter_def icon_shown_def)

lemma tp_pointable_step:
  assumes "sdk_ids L" "useProceduralOverlay L"
  shows "tp_kept (fst (tp_pointable L p (s, n))) = tp_kept s"
    "m_touchEvent (fst (tp_pointable L p (s, n))) =
       (if tp_shown L (m_interactionBox s) p
        then insert_option (tp_touch L (m_interactionBox s) p) (m_touchEvent s) else m_touchEvent s)"
    "snd (tp_pointable L p (s, n)) = (if tp_shown L (m_interactionBox s) p then n + 1 else n)"
    "\<exists>as. out (fst (tp_pointable L p (s, n))) = out s @ as \<and>
       only_icons (if tp_shown L (m_interactionBox s) p then [n] else []) as"
proof -
  let ?c = "tp_charms L p s"
  let ?t = "?c\<lparr>m_touchEvent := insert_option (tp_touch L (m_interactionBox s) p) (m_touchEvent s)\<rparr>"
  have "tp_kept (fst (tp_pointable L p (s, n))) = tp_kept s \<and>
    m_touchEvent (fst (tp_pointable L p (s, n))) =
       (if tp_shown L (m_interactionBox s) p
        then insert_option (tp_touch L (m_interactionBox s) p) (m_touchEvent s) else m_touchEvent s) \<and>
    snd (tp_pointable L p (s, n)) = (if tp_shown L (m_interactionBox s) p then n + 1 else n) \<and>
    (\<exists>as. out (fst (tp_pointable L p (s, n))) = out s @ as \<and>
       only_icons (if tp_shown L (m_interactionBox s) p then [n] else []) as)"
  proof (cases "tp_shown L (m_interactionBox s) p")
    case True
    with assms(1) have v: "p_valid L p" by (simp add: sdk_ids_def tp_shown_def)
    obtain a where a: "perform L (DrawOverlayForPointable p n 1 False) ?t = emit [a] ?t" "only_icons [n] [a]"
      using draw_call [OF v assms(2)] by blast
    obtain cs where cs: "out ?c = out s @ cs" "only_icons [] cs" using charms_call [of L p s] by (elim exE conjE)
    have "tp_pointable L p (s, n) = (emit [a] ?t, n + 1)"
      using True a by (simp add: tp_pointable_def Let_def add_touch_call [OF v])
    moreover have "tp_kept (emit [a] ?t) = tp_kept s"
      using tp_charms_kept(1) [of L p s] by (simp add: tp_kept_def emit_def)
    ultimately show ?thesis
      using True cs only_icons_append [OF cs(2) a(2)] by (auto simp: emit_def)
  next
    case False
    then show ?thesis by (auto simp: tp_pointable_def only_icons_def map_filter_def intro: exI [of _ "[]"])
  qed
  then show "tp_kept (fst (tp_pointable L p (s, n))) = tp_kept s"
    "m_touchEvent (fst (tp_pointable L p (s, n))) =
       (if tp_shown L (m_interactionBox s) p
        then insert_option (tp_touch L (m_interactionBox s) p) (m_touchEvent s) else m_touchEvent s)"
    "snd (tp_pointable L p (s, n)) = (if tp_shown L (m_interactionBox s) p then n + 1 else n)"
    "\<exists>as. out (fst (tp_pointable L p (s, n))) = out s @ as \<and>
       only_icons (if tp_shown L (m_interactionBox s) p then [n] else []) as" by blast+
qed

lemma tp_kept_box: "tp_kept t = tp_kept s \<Longrightarrow> m_interactionBox t = m_interactionBox s"
  by (simp add: tp_kept_def)

text \<open>Numbers of icons are counted up from the one given.\<close>

lemma tp_loop:
  assumes "sdk_ids L" "useProceduralOverlay L"
  shows "tp_kept (fst (fold (tp_pointable L) ps (s, n))) = tp_kept s \<and>
    snd (fold (tp_pointable L) ps (s, n)) = n + int (length (filter (tp_shown L (m_interactionBox s)) ps)) \<and>
    m_touchEvent (fst (fold (tp_pointable L) ps (s, n))) =
      fold insert_option (map (tp_touch L (m_interactionBox s)) (filter (tp_shown L (m_interactionBox s)) ps))
        (m_touchEvent s) \<and>
    (\<exists>as. out (fst (fold (tp_pointable L) ps (s, n))) = out s @ as \<and>
       only_icons (map (\<lambda>k. n + int k) [0..<length (filter (tp_shown L (m_interactionBox s)) ps)]) as)"
proof (induction ps arbitrary: s n)
  case Nil
  then show ?case by (auto simp: only_icons_def map_filter_def intro: exI [of _ "[]"])
next
  case (Cons p ps)
  note step = tp_pointable_step [OF assms, of p s n]
  obtain s' n' where sn: "tp_pointable L p (s, n) = (s', n')" by (cases "tp_pointable L p (s, n)") simp
  have box: "m_interactionBox s' = m_interactionBox s" using tp_kept_box step(1) sn by simp
  let ?shown = "tp_shown L (m_interactionBox s)"
  obtain as where as: "out s' = out s @ as" "only_icons (if ?shown p then [n] else []) as"
    using step(4) sn by auto
  note IH = Cons.IH [of s' n', unfolded box]
  from IH obtain bs where bs: "out (fst (fold (tp_pointable L) ps (s', n'))) = out s' @ bs"
    "only_icons (map (\<lambda>k. n' + int k) [0..<length (filter ?shown ps)]) bs" by blast
  have "(if ?shown p then [n] else []) @ map (\<lambda>k. n' + int k) [0..<length (filter ?shown ps)] =
      map (\<lambda>k. n + int k) [0..<length (filter ?shown (p # ps))]"
    using step(3) sn by (simp add: upt_conv_Cons map_Suc_upt [symmetric] comp_def del: upt_Suc)
  with only_icons_append [OF as(2) bs(2)]
  have "only_icons (map (\<lambda>k. n + int k) [0..<length (filter ?shown (p # ps))]) (as @ bs)" by simp
  with IH step sn as bs show ?case by (auto simp: tp_kept_def)
qed

end
