(* ===== verification/Mode_Factory.thy ===== *)
theory Mode_Factory
  imports Basic_Mode Gesture_Only Finger_Mouse Touch_Peripheral
begin

text \<open>
  The choice of the interaction manager, \<open>source/GestureInteraction/GestureInteractionManagerWin.cpp\<close> and
  its counterparts for the Macintosh and Linux, and the virtual methods of the object it makes. A mode is
  the integer that the configuration stores; a null pointer is \<open>None\<close>.
\<close>

abbreviation OUTPUT_MODE_DISABLED :: int where "OUTPUT_MODE_DISABLED \<equiv> 0"
abbreviation OUTPUT_MODE_INTRO :: int where "OUTPUT_MODE_INTRO \<equiv> 1"
abbreviation OUTPUT_MODE_BASIC :: int where "OUTPUT_MODE_BASIC \<equiv> 2"
abbreviation OUTPUT_MODE_ADVANCED :: int where "OUTPUT_MODE_ADVANCED \<equiv> 3"

datatype ('f, 'p) manager =
    GestureOnlyManager "('f, 'p) go"
  | BasicManager "('f, 'p) bm"
  | TouchPeripheralManager "('f, 'p) tp"
  | FingerMouseManager "('f, 'p) fm"

text \<open>What the members that no constructor initialises hold.\<close>

record raw_members =
  rm_time :: int
  rm_time2 :: int
  rm_hand :: int
  rm_buckets :: "count_bucket \<Rightarrow> real"
  rm_eligible :: bool
  rm_defer :: bool
  rm_mountainLion :: bool

definition New_FingerMouse ::
  "('f, 'h, 'p, 'e) env_scheme \<Rightarrow> raw_members \<Rightarrow> categorical_error + ('f, 'p) manager option" where
  "New_FingerMouse L m =
     map_sum id (Some \<circ> FingerMouseManager) (FingerMouse L (rm_eligible m) (rm_defer m) (rm_mountainLion m))"

text \<open>The new object, and the static members of \<open>BasicMode\<close>.\<close>

definition New ::
  "('f, 'h, 'p, 'e) env_scheme \<Rightarrow> raw_members \<Rightarrow> int \<Rightarrow> bm_config \<Rightarrow>
   (categorical_error + ('f, 'p) manager option) \<times> bm_config" where
  "New L m desiredMode c =
     (if desiredMode = OUTPUT_MODE_INTRO then
        (map_sum id (Some \<circ> GestureOnlyManager) (GestureOnlyMode L (rm_time m) (rm_time2 m) (rm_buckets m)), c)
      else if desiredMode = OUTPUT_MODE_BASIC then
        (map_sum id (Some \<circ> BasicManager) (BasicMode L (rm_time m) (rm_time2 m) (rm_hand m)), SetBasicMode c)
      else if desiredMode = OUTPUT_MODE_ADVANCED then
        (if e_platform L = Windows then
           (if e_touchAvailable L
            then (map_sum id (Some \<circ> TouchPeripheralManager) (TouchPeripheral L), c)
            else (New_FingerMouse L m, c))
         else (New_FingerMouse L m, c))
      else (Inr None, c))"

section \<open>Virtual methods\<close>

definition manager_processFrame ::
  "('f, 'h, 'p, 'e) env_scheme \<Rightarrow> bm_config \<Rightarrow> 'f \<Rightarrow> 'f \<Rightarrow> ('f, 'p) manager \<Rightarrow> ('f, 'p) manager outcome" where
  "manager_processFrame L c frame since m =
     (case m of
        GestureOnlyManager s \<Rightarrow> map_outcome GestureOnlyManager (go_processFrame L frame since s)
      | BasicManager s \<Rightarrow> map_outcome BasicManager (bm_processFrame L c frame since s)
      | TouchPeripheralManager s \<Rightarrow> map_outcome TouchPeripheralManager (tp_processFrame L frame since s)
      | FingerMouseManager s \<Rightarrow>
          map_outcome FingerMouseManager (fm_processFrame L fm_config_default frame since s))"

text \<open>The destructor; the result is the object as it is when its memory is freed.\<close>

definition manager_destroy ::
  "('f, 'h, 'p, 'e) env_scheme \<Rightarrow> bm_config \<Rightarrow> ('f, 'p) manager \<Rightarrow> ('f, 'p) manager outcome" where
  "manager_destroy L c m =
     (case m of
        GestureOnlyManager s \<Rightarrow> map_outcome GestureOnlyManager (go_destroy L s)
      | BasicManager s \<Rightarrow> map_outcome BasicManager (bm_destroy L c s)
      | TouchPeripheralManager s \<Rightarrow> map_outcome TouchPeripheralManager (tp_destroy L s)
      | FingerMouseManager s \<Rightarrow> map_outcome FingerMouseManager (fm_destroy L fm_config_default s))"

text \<open>What a manager has asked of the drivers, and the frames it remembers.\<close>

primrec manager_out :: "('f, 'p) manager \<Rightarrow> action list" where
  "manager_out (GestureOnlyManager s) = out s"
| "manager_out (BasicManager s) = out s"
| "manager_out (TouchPeripheralManager s) = out s"
| "manager_out (FingerMouseManager s) = out s"

primrec manager_history :: "('f, 'p) manager \<Rightarrow> 'f timed_history" where
  "manager_history (GestureOnlyManager s) = m_timedFrameHistory s"
| "manager_history (BasicManager s) = m_timedFrameHistory s"
| "manager_history (TouchPeripheralManager s) = m_timedFrameHistory s"
| "manager_history (FingerMouseManager s) = m_timedFrameHistory s"

end
