(* ===== verification/Overlay_Actions.thy ===== *)
theory Overlay_Actions
  imports Leap_Api
begin

text \<open>
  What the actions of a mode do to the overlay driver: the calls that
  \<open>source/GestureInteraction/GestureInteractionManager.cpp\<close> forwards to it. The flush of the Macintosh
  overlay belongs to the platform.
\<close>

definition ov_act :: "action \<Rightarrow> overlay \<Rightarrow> overlay" where
  "ov_act a ov =
     (case a of
        SetIconVisibility i v \<Rightarrow> setIconVisibility i v ov
      | DrawRasterIcon i x y v vel d r c al \<Rightarrow> drawRasterIcon i x y v vel d r c al ov
      | DrawImageIcon i j x y v \<Rightarrow> drawImageIcon i j x y v ov
      | _ \<Rightarrow> ov)"

definition ov_run :: "action list \<Rightarrow> overlay \<Rightarrow> overlay" where "ov_run as ov = fold ov_act as ov"

text \<open>The icons on the screen.\<close>

definition icons_on :: "overlay \<Rightarrow> int set" where
  "icons_on ov =
     {i. 0 \<le> i \<and> i < int (length (m_overlayPoints ov)) \<and> ic_visible (m_overlayPoints ov ! nat i)}"

definition icon_range :: "overlay \<Rightarrow> int set" where
  "icon_range ov = {i. 0 \<le> i \<and> i < m_numOverlayPoints ov}"

lemma ov_run_simps [simp]:
  "ov_run [] ov = ov" "ov_run (a # as) ov = ov_run as (ov_act a ov)"
  "ov_run (as @ bs) ov = ov_run bs (ov_run as ov)"
  by (simp_all add: ov_run_def)

lemma ov_act_ok:
  assumes "overlay_ok ov"
  shows "overlay_ok (ov_act a ov)" "m_numOverlayPoints (ov_act a ov) = m_numOverlayPoints ov"
proof -
  show "overlay_ok (ov_act a ov)"
    using assms by (simp add: ov_act_def overlay_ok_setIconVisibility overlay_ok_drawRasterIcon
        overlay_ok_drawImageIcon split: action.split)
  show "m_numOverlayPoints (ov_act a ov) = m_numOverlayPoints ov"
    by (simp add: ov_act_def setIconVisibility_def drawRasterIcon_def drawImageIcon_def Let_def
        split: action.split prod.split)
qed

lemma ov_run_ok:
  "overlay_ok ov \<Longrightarrow> overlay_ok (ov_run as ov)"
  "overlay_ok ov \<Longrightarrow> m_numOverlayPoints (ov_run as ov) = m_numOverlayPoints ov"
  by (induction as arbitrary: ov) (simp_all add: ov_act_ok)

lemma icons_set_visibility:
  assumes "overlay_ok ov"
  shows "icons_on (setIconVisibility i v ov) = (if v then icons_on ov \<union> {i} \<inter> icon_range ov else icons_on ov - {i})"
  using assms
  by (auto simp: icons_on_def setIconVisibility_def overlay_ok_def icon_range_def nth_list_update split: if_splits)

lemma icons_draw:
  assumes "overlay_ok ov"
  shows "icons_on (drawRasterIcon i x y True vel d r c al ov) = icons_on ov \<union> {i} \<inter> icon_range ov"
proof (cases "i \<in> icon_range ov")
  case False
  then show ?thesis by (auto simp: drawRasterIcon_def icon_range_def)
next
  case True
  have "\<exists>im. drawRasterIcon i x y True vel d r c al ov = setIconVisibility i True
      (ov\<lparr>m_overlayImages := (m_overlayImages ov)[nat i := im],
          m_overlayPoints := (m_overlayPoints ov)[nat i := (m_overlayPoints ov ! nat i)
             \<lparr>ic_image := im, ic_position := LPPoint x y\<rparr>]\<rparr>)"
    using True by (auto simp: drawRasterIcon_def icon_range_def Let_def)
  then obtain im where im: "drawRasterIcon i x y True vel d r c al ov = setIconVisibility i True
      (ov\<lparr>m_overlayImages := (m_overlayImages ov)[nat i := im],
          m_overlayPoints := (m_overlayPoints ov)[nat i := (m_overlayPoints ov ! nat i)
             \<lparr>ic_image := im, ic_position := LPPoint x y\<rparr>]\<rparr>)" (is "_ = setIconVisibility i True ?ov")
    by blast
  have "ic_visible (ps[k := (ps ! k)\<lparr>ic_image := im, ic_position := q\<rparr>] ! j) = ic_visible (ps ! j)" for ps k q j
    by (cases "k < length ps"; cases "j = k") (simp_all add: list_update_beyond)
  then have "overlay_ok ?ov" "icon_range ?ov = icon_range ov" "icons_on ?ov = icons_on ov"
    using assms by (auto simp: overlay_ok_def icon_range_def icons_on_def)
  with icons_set_visibility [of ?ov i True] im show ?thesis by simp
qed

lemma icons_hide:
  "overlay_ok ov \<Longrightarrow> icons_on (ov_run (map (\<lambda>i. SetIconVisibility i False) is) ov) = icons_on ov - set is"
proof (induction "is" arbitrary: ov)
  case (Cons i "is")
  have "overlay_ok (setIconVisibility i False ov)" using Cons.prems by (rule overlay_ok_setIconVisibility)
  from Cons.IH [OF this] Cons.prems show ?case by (auto simp: ov_act_def icons_set_visibility)
qed simp

end
