(* ===== verification/Touch_Peripheral_Properties.thy ===== *)
theory Touch_Peripheral_Properties
  imports Touch_Peripheral Overlay_Actions Sample_Sdk
begin

text \<open>
  What the touch mode promises: each frame is one touch event, with a touch for every finger on the
  screen and no other, and the icons on the screen are exactly those of the last frame's fingers.
\<close>

section \<open>Frames\<close>

definition tp_inv :: "('f, 'p) tp \<Rightarrow> bool" where
  "tp_inv s \<longleftrightarrow> gim_ok s \<and> sm_violations s = [] \<and> m_touchEvent s = [] \<and> 0 \<le> tp_lastNumIcons s"

lemma tp_new_inv:
  fixes L :: "('f, 'h, 'p, 'e) env_scheme"
  shows "\<exists>s. TouchPeripheral L = Inr s \<and> tp_inv s \<and> th_pairs (m_timedFrameHistory s) = [] \<and>
    tp_lastNumIcons s = 0 \<and> out s = []"
proof -
  obtain g :: "(unit, 'f, 'p) gim" where g: "GestureInteractionManager L = Inr g" "gim_ok g"
    "out g = []" "machine.truncate g = sm_new"
    "m_timedFrameHistory g = TimedHistory (500 * MILLISECONDS)"
    using gim_new by blast
  have "m_touchEvent g = []"
    using g(1) by (auto simp: GestureInteractionManager_def machine.defs gim.defs
        split: sum.splits)
  with g show ?thesis
    by (cases g) (auto simp: TouchPeripheral_def tp_inv_def gim.defs touch_peripheral.defs
        machine.defs sm_new_def gim_ok_def TimedHistory_def)
qed

text \<open>The fingers a frame shows, in its order.\<close>

definition shown_pointables :: "('f, 'h, 'p, 'e) env_scheme \<Rightarrow> 'f \<Rightarrow> 'p list" where
  "shown_pointables L f =
     filter (\<lambda>p. vz (p_direction L p) \<le> 0 \<and> tp_shown L (fr_normalizePoint L f) p) (fr_pointables L f)"

lemma shown_relevant:
  "filter (tp_shown L (fr_normalizePoint L f)) (tp_identifyRelevantPointables L f (fr_pointables L f)) =
     shown_pointables L f"
  by (auto simp: shown_pointables_def tp_identifyRelevantPointables_def tp_shown_def intro: filter_cong)

lemma observed_fields:
  assumes "observe_frame L V f since s = Some t"
  shows "m_interactionBox t = fr_normalizePoint L f" "m_touchEvent t = m_touchEvent s"
    "m_relevantPointables t = v_identifyRelevantPointables V f (fr_pointables L f)"
proof -
  have a: "m_touchEvent (sm_assert b v s) = m_touchEvent s" for b v by (simp add: sm_assert_def)
  from assms show "m_interactionBox t = fr_normalizePoint L f" "m_touchEvent t = m_touchEvent s"
    "m_relevantPointables t = v_identifyRelevantPointables V f (fr_pointables L f)"
    unfolding observe_frame_def Let_def by (auto simp: split_beta a split: option.splits)
qed

lemma tp_internal:
  assumes "sdk_ids L" "useProceduralOverlay L" "e_touchAvailable L" "m_touchEvent s = []"
    and "filter (tp_shown L (m_interactionBox s)) (m_relevantPointables s) = ps"
  shows "\<exists>t as. tp_processFrameInternal L s = Done t \<and>
    tp_kept (t\<lparr>tp_lastNumIcons := 0\<rparr>) = tp_kept (s\<lparr>tp_lastNumIcons := 0\<rparr>) \<and>
    m_touchEvent t = [] \<and> tp_lastNumIcons t = int (length ps) \<and>
    only_icons (map int [0..<length ps]) as \<and>
    out t = out s @ as @ [EmitTouchEvent (fold insert_option (map (tp_touch L (m_interactionBox s)) ps) [])] @
      hide_icons (int (length ps)) (tp_lastNumIcons s)"
proof -
  define s1 where "s1 = (if m_relevantPointables s = [] then s\<lparr>tp_charmsMode := -1\<rparr> else s)"
  have s1: "m_relevantPointables s1 = m_relevantPointables s" "m_interactionBox s1 = m_interactionBox s"
    "m_touchEvent s1 = []" "out s1 = out s" "tp_kept s1 = tp_kept s"
    using assms(4) by (simp_all add: s1_def tp_kept_def)
  obtain s2 n where f: "fold (tp_pointable L) (m_relevantPointables s1) (s1, 0) = (s2, n)"
    by (cases "fold (tp_pointable L) (m_relevantPointables s1) (s1, 0)") simp
  from tp_loop [OF assms(1,2), of "m_relevantPointables s1" s1 0] f s1 assms(5) obtain as where l:
    "tp_kept s2 = tp_kept s" "n = int (length ps)" "out s2 = out s @ as"
    "m_touchEvent s2 = fold insert_option (map (tp_touch L (m_interactionBox s)) ps) []"
    "only_icons (map int [0..<length ps]) as"
    by auto
  then have "tp_lastNumIcons s2 = tp_lastNumIcons s" by (simp add: tp_kept_def)
  with l f assms(3) show ?thesis
    unfolding tp_processFrameInternal_def s1_def [symmetric]
    by (auto simp: emitTouchEvent_def emit_def tp_kept_def intro!: exI [of _ as])
qed

text \<open>All of a frame, from the state between frames.\<close>

lemma tp_frame:
  assumes "tp_inv s" "sdk_ids L" "sdk_probabilities L" "useProceduralOverlay L" "e_touchAvailable L"
    and "addFrame_in_order (fr_timestamp L f) (m_timedFrameHistory s)"
  shows "\<exists>t as. tp_processFrame L f since s = Done t \<and> tp_inv t \<and>
    tp_lastNumIcons t = int (length (shown_pointables L f)) \<and>
    only_icons (map int [0..<length (shown_pointables L f)]) as \<and>
    out t = out s @ as @ [EmitTouchEvent
        (fold insert_option (map (tp_touch L (fr_normalizePoint L f)) (shown_pointables L f)) [])] @
      hide_icons (int (length (shown_pointables L f))) (tp_lastNumIcons s)"
proof -
  have g: "gim_ok s" using assms(1) by (simp add: tp_inv_def)
  obtain u where u: "observe_frame L (tp_virtual L) f since s = Some u" "gim_ok u"
    "sm_violations u = sm_violations s" "out u = out s" "gim.more u = gim.more s"
    using observe_frame_ok [OF g assms(6,3), of "tp_virtual L" since] by metis
  note o = observed_fields [OF u(1)]
  have "tp_lastNumIcons u = tp_lastNumIcons s" using u(5) by (cases u; cases s) simp
  moreover have "filter (tp_shown L (m_interactionBox u)) (m_relevantPointables u) = shown_pointables L f"
    using o by (simp add: tp_virtual_def shown_relevant)
  moreover have "m_touchEvent u = []" using o(2) assms(1) by (simp add: tp_inv_def)
  ultimately obtain t as where t: "tp_processFrameInternal L u = Done t"
    "tp_kept (t\<lparr>tp_lastNumIcons := 0\<rparr>) = tp_kept (u\<lparr>tp_lastNumIcons := 0\<rparr>)"
    "m_touchEvent t = []" "tp_lastNumIcons t = int (length (shown_pointables L f))"
    "only_icons (map int [0..<length (shown_pointables L f)]) as"
    "out t = out s @ as @ [EmitTouchEvent
        (fold insert_option (map (tp_touch L (fr_normalizePoint L f)) (shown_pointables L f)) [])] @
      hide_icons (int (length (shown_pointables L f))) (tp_lastNumIcons s)"
    using tp_internal [OF assms(2,4,5), of u] u(4) o(1) by auto
  have "gim_ok t" "sm_violations t = []"
    using t(2,3) u(2,3) assms(1) by (auto simp: tp_kept_def gim_ok_def tp_inv_def)
  with t u(1) show ?thesis
    by (auto simp: tp_processFrame_def processFrame_def tp_virtual_def tp_inv_def)
qed

inductive tp_reachable :: "('f, 'h, 'p, 'e) env_scheme \<Rightarrow> ('f, 'p) tp \<Rightarrow> bool" for L where
  new: "TouchPeripheral L = Inr s \<Longrightarrow> tp_reachable L s"
| frame: "tp_reachable L s \<Longrightarrow> addFrame_in_order (fr_timestamp L f) (m_timedFrameHistory s) \<Longrightarrow>
    tp_processFrame L f since s = Done t \<Longrightarrow> tp_reachable L t"

lemma tp_reachable_inv:
  assumes "tp_reachable L s" "sdk_ids L" "sdk_probabilities L" "useProceduralOverlay L" "e_touchAvailable L"
  shows "tp_inv s"
  using assms
proof (induction rule: tp_reachable.induct)
  case (new s)
  then show ?case using tp_new_inv [of L] by auto
next
  case (frame s f since t)
  then show ?case using tp_frame [of s L f since] by auto
qed

section \<open>The touch event\<close>

lemma touches_of_options:
  assumes "touches_ok ts"
  shows "touches_ok (fold insert_option os ts)"
    "inj_on t_id ({t. Some t \<in> set os} \<union> set ts) \<Longrightarrow>
       set (fold insert_option os ts) = {t. Some t \<in> set os} \<union> set ts"
proof -
  show "touches_ok (fold insert_option os ts)"
    using assms by (induction os arbitrary: ts) (auto simp: insert_option_def split: option.splits)
  have ins: "set (insert_touch t ts) = insert t (set ts)"
    if "\<forall>s\<in>set ts. t_id s = t_id t \<longrightarrow> s = t" for t ts
    using that by (induction ts) auto
  show "inj_on t_id ({t. Some t \<in> set os} \<union> set ts) \<Longrightarrow>
       set (fold insert_option os ts) = {t. Some t \<in> set os} \<union> set ts"
  proof (induction os arbitrary: ts)
    case (Cons x os)
    show ?case
    proof (cases x)
      case None
      with Cons.IH [of ts] Cons.prems show ?thesis by (simp add: insert_option_def)
    next
      case (Some t)
      have i: "set (insert_touch t ts) = insert t (set ts)"
        using Cons.prems Some by (intro ins) (auto dest: inj_onD)
      have "{t. Some t \<in> set (x # os)} \<union> set ts = {t. Some t \<in> set os} \<union> set (insert_touch t ts)"
        using Some i by auto
      with Cons.IH [of "insert_touch t ts"] Cons.prems Some show ?thesis by (simp add: insert_option_def)
    qed
  qed simp
qed

lemma icons_only:
  assumes "only_icons is as"
  shows "filter (\<lambda>a. \<exists>ts. a = EmitTouchEvent ts) as = []" "list_all (\<lambda>a. \<not> is_button a \<and> \<not> is_gesture a) as"
proof -
  have "(\<nexists>ts. a = EmitTouchEvent ts) \<and> \<not> is_button a \<and> \<not> is_gesture a" if "a \<in> set as" for a
    using assms that by (cases a) (fastforce simp: only_icons_def list_all_iff icon_shown_def)+
  then show "filter (\<lambda>a. \<exists>ts. a = EmitTouchEvent ts) as = []"
    "list_all (\<lambda>a. \<not> is_button a \<and> \<not> is_gesture a) as"
    by (auto simp: list_all_iff filter_empty_conv)
qed

lemma hide_only:
  "filter (\<lambda>a. \<exists>ts. a = EmitTouchEvent ts) (hide_icons i j) = []"
  "list_all (\<lambda>a. \<not> is_button a \<and> \<not> is_gesture a) (hide_icons i j)"
  by (auto simp: hide_icons_def filter_empty_conv list_all_iff)

text \<open>
  C15 A frame is one touch event with exactly the fingers on the screen. Whatever came before, the touch
  mode processes a frame to its end, presses no button and begins no gesture; it emits one event, whose
  touches, in order of their ids, are those of the fingers that face the screen, lie in the hovering or
  the touching zone, are no further outside than the distance allowed, and whose place on the screen
  is not clamped; a touch touches exactly when its finger is in the touching zone.
\<close>

theorem touch_event_exact:
  assumes "tp_reachable L s" "sdk_ids L" "sdk_probabilities L" "useProceduralOverlay L" "e_touchAvailable L"
    and "addFrame_in_order (fr_timestamp L f) (m_timedFrameHistory s)"
    and "inj_on (\<lambda>p. word_of_int (p_id L p) :: 32 word) (set (shown_pointables L f))"
  shows "\<exists>t as ts. tp_processFrame L f since s = Done t \<and> tp_reachable L t \<and> out t = out s @ as \<and>
    filter (\<lambda>a. \<exists>x. a = EmitTouchEvent x) as = [EmitTouchEvent ts] \<and>
    list_all (\<lambda>a. \<not> is_button a \<and> \<not> is_gesture a) as \<and> touches_ok ts \<and>
    (\<forall>x. x \<in> set ts \<longleftrightarrow>
       (\<exists>p\<in>set (shown_pointables L f). tp_touch L (fr_normalizePoint L f) p = Some x))"
proof -
  let ?os = "map (tp_touch L (fr_normalizePoint L f)) (shown_pointables L f)"
  obtain t as where t: "tp_processFrame L f since s = Done t"
    "only_icons (map int [0..<length (shown_pointables L f)]) as"
    "out t = out s @ as @ [EmitTouchEvent (fold insert_option ?os [])] @
      hide_icons (int (length (shown_pointables L f))) (tp_lastNumIcons s)"
    using tp_frame [OF tp_reachable_inv [OF assms(1-5)] assms(2-6)] by blast
  have id: "t_id x = word_of_int (p_id L p)" if "tp_touch L (fr_normalizePoint L f) p = Some x" for p x
    using that by (auto simp: tp_touch_def mk_Touch_def Let_def split: prod.splits if_splits)
  have os: "Some x \<in> set ?os \<longleftrightarrow>
      (\<exists>p\<in>set (shown_pointables L f). tp_touch L (fr_normalizePoint L f) p = Some x)" for x
    unfolding set_map image_iff by metis
  have "inj_on t_id ({x. Some x \<in> set ?os} \<union> set [])"
  proof (rule inj_onI)
    fix x y
    assume "x \<in> {x. Some x \<in> set ?os} \<union> set []" "y \<in> {x. Some x \<in> set ?os} \<union> set []" "t_id x = t_id y"
    then obtain p q where pq: "p \<in> set (shown_pointables L f)" "q \<in> set (shown_pointables L f)"
      "tp_touch L (fr_normalizePoint L f) p = Some x" "tp_touch L (fr_normalizePoint L f) q = Some y"
      "t_id x = t_id y" by (auto simp del: set_map simp: os)
    then have "p = q" using id [of p x] id [of q y] by (intro inj_onD [OF assms(7)]) simp_all
    with pq show "x = y" by simp
  qed
  from touches_of_options(2) [OF _ this] touches_of_options(1) [of "[]" ?os]
  have s: "touches_ok (fold insert_option ?os [])" "set (fold insert_option ?os []) = {x. Some x \<in> set ?os}"
    by simp_all
  moreover from tp_reachable.frame [OF assms(1,6) t(1)] have "tp_reachable L t" .
  moreover define ts where "ts = fold insert_option ?os []"
  moreover define rest where "rest = as @ [EmitTouchEvent ts] @
    hide_icons (int (length (shown_pointables L f))) (tp_lastNumIcons s)"
  moreover have "filter (\<lambda>a. \<exists>x. a = EmitTouchEvent x) rest = [EmitTouchEvent ts]"
    "list_all (\<lambda>a. \<not> is_button a \<and> \<not> is_gesture a) rest"
    using icons_only [OF t(2)] hide_only by (simp_all add: rest_def)
  moreover have "(\<forall>x. x \<in> set ts \<longleftrightarrow>
      (\<exists>p\<in>set (shown_pointables L f). tp_touch L (fr_normalizePoint L f) p = Some x))"
    unfolding ts_def s(2) by (simp del: set_map add: os)
  ultimately show ?thesis using t(1,3) by (metis (no_types, lifting) append.assoc)
qed

lemma sample_procedural: "useProceduralOverlay (sample p)" "e_touchAvailable (sample p)"
  by (simp_all add: useProceduralOverlay_def sample_def initializeOverlay_def OverlayDriver_def Let_def)

lemma tp_sample_start:
  obtains s where "TouchPeripheral (sample p) = Inr s" "tp_reachable (sample p) s"
    "th_pairs (m_timedFrameHistory s) = []"
  using tp_new_inv [of "sample p"] tp_reachable.new by blast

text \<open>Two fingers in the middle of the screen, one touching.\<close>

definition s_two :: s_frame where
  "s_two = \<lparr>sf_time = 0, sf_pointables =
     [\<lparr>sp_id = 1, sp_hand = 0, sp_zone = ZONE_HOVERING, sp_tip = Vec 500 500 500\<rparr>,
      \<lparr>sp_id = 2, sp_hand = 0, sp_zone = ZONE_TOUCHING, sp_tip = Vec 400 500 500\<rparr>]\<rparr>"

lemma s_two_shown: "shown_pointables (sample p) s_two = sf_pointables s_two"
  by (simp add: shown_pointables_def tp_shown_def tp_aspect_def s_two_def sample_def normalizedToAspect_def
      initializeOverlay_def OverlayDriver_def s_screen_def LPVirtualScreen_def unitBox_simps Let_def
      acceptableClampDistance_def magnitude_def magnitudeSquared_def dot_def)

theorem touch_event_exact_witness:
  "\<exists>s t as ts. TouchPeripheral (sample Windows) = Inr s \<and>
     tp_processFrame (sample Windows) s_two (s_empty 0) s = Done t \<and> out t = out s @ as \<and>
     filter (\<lambda>a. \<exists>x. a = EmitTouchEvent x) as = [EmitTouchEvent ts]"
proof -
  obtain s where s: "TouchPeripheral (sample Windows) = Inr s" "tp_reachable (sample Windows) s"
    "th_pairs (m_timedFrameHistory s) = []"
    using tp_sample_start by blast
  then have o: "addFrame_in_order (fr_timestamp (sample Windows) s_two) (m_timedFrameHistory s)"
    by (simp add: addFrame_in_order_def)
  have i: "inj_on (\<lambda>p. word_of_int (p_id (sample Windows) p) :: 32 word) (set (shown_pointables (sample Windows) s_two))"
    unfolding s_two_shown by (simp add: sample_def s_two_def)
  from touch_event_exact [OF s(2) sample_ids sample_probabilities sample_procedural o i, of "s_empty 0"] s(1)
  show ?thesis by blast
qed

section \<open>The icons\<close>

text \<open>The mode together with the overlay it draws on, and the fingers of the last frame.\<close>

inductive tp_life :: "('f, 'h, 'p, 'e) env_scheme \<Rightarrow> overlay \<Rightarrow> ('f, 'p) tp \<Rightarrow> 'p list \<Rightarrow> overlay \<Rightarrow> bool"
  for L ov0 where
  new: "TouchPeripheral L = Inr s \<Longrightarrow> tp_life L ov0 s [] ov0"
| frame: "tp_life L ov0 s ps ov \<Longrightarrow> addFrame_in_order (fr_timestamp L f) (m_timedFrameHistory s) \<Longrightarrow>
    tp_processFrame L f since s = Done t \<Longrightarrow> out t = out s @ as \<Longrightarrow>
    tp_life L ov0 t (shown_pointables L f) (ov_run as ov)"

lemma icons_run_only:
  assumes "only_icons is as" "overlay_ok ov"
  shows "icons_on (ov_run as ov) = icons_on ov \<union> set is \<inter> icon_range ov"
  using assms
proof (induction as arbitrary: "is" ov)
  case Nil
  then show ?case by (simp add: only_icons_def map_filter_def)
next
  case (Cons a as)
  show ?case
  proof (cases "icon_shown a")
    case None
    with Cons.prems obtain v n c where a: "a = ApplyCharms v n c" "only_icons is as"
      by (auto simp: only_icons_def map_filter_def)
    with Cons.IH [OF a(2) Cons.prems(2)] show ?thesis by (simp add: ov_act_def)
  next
    case (Some i)
    then obtain x y vel d r c al where a: "a = DrawRasterIcon i x y True vel d r c al"
      by (auto simp: icon_shown_def split: action.splits if_splits)
    obtain js where js: "is = i # js" "only_icons js as"
      using Cons.prems(1) Some by (auto simp: only_icons_def map_filter_def)
    have "icon_range (ov_act a ov) = icon_range ov"
      using ov_act_ok [OF Cons.prems(2)] by (simp add: icon_range_def)
    moreover have "icons_on (ov_act a ov) = icons_on ov \<union> {i} \<inter> icon_range ov"
      using icons_draw [OF Cons.prems(2)] a by (simp add: ov_act_def)
    ultimately show ?thesis
      using Cons.IH [OF js(2) ov_act_ok(1) [OF Cons.prems(2)], of a] js(1) by auto
  qed
qed

lemma hide_icons_run: "overlay_ok ov \<Longrightarrow> icons_on (ov_run (hide_icons i j) ov) = icons_on ov - {i..<j}"
  unfolding hide_icons_def by (subst icons_hide) auto

lemma tp_life_icons:
  assumes "tp_life L ov0 s ps ov" "sdk_ids L" "sdk_probabilities L" "useProceduralOverlay L"
    "e_touchAvailable L" "overlay_ok ov0" "icons_on ov0 = {}"
  shows "tp_inv s \<and> overlay_ok ov \<and> m_numOverlayPoints ov = m_numOverlayPoints ov0 \<and>
    tp_lastNumIcons s = int (length ps) \<and> icons_on ov = {0..<int (length ps)} \<inter> icon_range ov0"
  using assms
proof (induction rule: tp_life.induct)
  case (new s)
  then show ?case using tp_new_inv [of L] by auto
next
  case (frame s ps ov f since t as)
  then have I: "tp_inv s" "overlay_ok ov" "m_numOverlayPoints ov = m_numOverlayPoints ov0"
    "tp_lastNumIcons s = int (length ps)" "icons_on ov = {0..<int (length ps)} \<inter> icon_range ov0" by auto
  let ?n = "length (shown_pointables L f)"
  define e where
    "e = EmitTouchEvent (fold insert_option (map (tp_touch L (fr_normalizePoint L f)) (shown_pointables L f)) [])"
  obtain cs where cs: "tp_inv t" "tp_lastNumIcons t = int ?n" "only_icons (map int [0..<?n]) cs"
    "out t = out s @ cs @ [e] @ hide_icons (int ?n) (tp_lastNumIcons s)"
    using tp_frame [OF I(1) frame.prems(1-4) frame.hyps(2), of since] frame.hyps(3) by (auto simp: e_def)
  have as: "as = cs @ [e] @ hide_icons (int ?n) (int (length ps))" using cs(4) frame.hyps(4) I(4) by simp
  have "ov_act e ov' = ov'" for ov' by (simp add: ov_act_def e_def)
  then have "icons_on (ov_run as ov) = icons_on (ov_run cs ov) - {int ?n..<int (length ps)}"
    by (simp add: as hide_icons_run ov_run_ok(1) [OF I(2)])
  moreover have "icons_on (ov_run cs ov) = icons_on ov \<union> {0..<int ?n} \<inter> icon_range ov"
    using icons_run_only [OF cs(3) I(2)] by (auto simp: image_int_atLeastLessThan)
  moreover have "icon_range ov = icon_range ov0" using I(3) by (simp add: icon_range_def)
  ultimately show ?case
    using I cs ov_run_ok [OF I(2), of as] by auto
qed

text \<open>
  C16 No icon is left behind. From the moment the touch mode is made, with no icon on the screen, through
  any sequence of frames, the icons on the overlay are the first ones, one for each finger that the
  last frame shows, as far as the overlay has icons.
\<close>

theorem touch_icons_exact:
  assumes "tp_life L ov0 s ps ov" "sdk_ids L" "sdk_probabilities L" "useProceduralOverlay L"
    "e_touchAvailable L" "overlay_ok ov0" "icons_on ov0 = {}"
  shows "icons_on ov = {0..<int (length ps)} \<inter> icon_range ov0"
  using tp_life_icons [OF assms] by simp

definition sample_overlay :: overlay where
  "sample_overlay = initializeOverlay None (\<lambda>i. False) (OverlayDriver s_screen)"

theorem touch_icons_exact_witness:
  "\<exists>s t as. TouchPeripheral (sample Windows) = Inr s \<and>
     tp_processFrame (sample Windows) s_two (s_empty 0) s = Done t \<and> out t = out s @ as \<and>
     icons_on (ov_run as sample_overlay) = {0, 1}"
proof -
  obtain s where s: "TouchPeripheral (sample Windows) = Inr s" "tp_reachable (sample Windows) s"
    "th_pairs (m_timedFrameHistory s) = []"
    using tp_sample_start by blast
  then have o: "addFrame_in_order (fr_timestamp (sample Windows) s_two) (m_timedFrameHistory s)"
    by (simp add: addFrame_in_order_def)
  note sample_laws = sample_ids sample_probabilities sample_procedural
  from tp_frame [OF tp_reachable_inv [OF s(2) sample_laws] sample_laws o, of "s_empty 0"]
  obtain t as where t: "tp_processFrame (sample Windows) s_two (s_empty 0) s = Done t" "out t = out s @ as"
    by (elim exE conjE) (rule that)
  have p: "m_overlayPoints sample_overlay = replicate 32 new_icon" "icon_range sample_overlay = {0..<32}"
    unfolding sample_overlay_def initializeOverlay_def OverlayDriver_def Let_def icon_range_def by auto
  have e: "icons_on sample_overlay = {}" unfolding icons_on_def p(1) by (auto simp: new_icon_def)
  have "overlay_ok sample_overlay" by (simp add: sample_overlay_def overlay_ok_init)
  from touch_icons_exact [OF tp_life.frame [OF tp_life.new [OF s(1)] o t] sample_laws this e] p(2)
  have "icons_on (ov_run as sample_overlay) = {0..<2} \<inter> {0..<32}"
    by (simp add: s_two_shown) (simp add: s_two_def)
  moreover have "{0..<2} \<inter> {0..<32} = {0, 1 :: int}" by auto
  ultimately have "icons_on (ov_run as sample_overlay) = {0, 1}" by simp
  with s t show ?thesis by blast
qed

end
