(* ===== verification/Mode_Contract.thy ===== *)
theory Mode_Contract
  imports Mode_Factory Basic_Properties Gesture_Only_Properties Finger_Mouse_Properties
    Touch_Peripheral_Properties
begin

text \<open>
  What every interaction manager promises its owner, and that the four modes and the object that the
  factory makes keep the promise: frames in order are processed to their end, at every moment presses
  and gestures are bracketed, and the destructor leaves no button pressed and no gesture in progress.
\<close>

section \<open>The contract\<close>

definition released :: "action list \<Rightarrow> bool" where
  "released as \<longleftrightarrow> buttons as (Some False) = Some False \<and> gestures as (Some GestureNone) = Some GestureNone"

definition bracketed :: "action list \<Rightarrow> bool" where
  "bracketed as \<longleftrightarrow> buttons as (Some False) \<noteq> None \<and> gestures as (Some GestureNone) \<noteq> None"

lemma released_bracketed: "released as \<Longrightarrow> bracketed as"
  by (simp add: released_def bracketed_def)

lemma buttons_gestures_append:
  "buttons (as @ bs) d = buttons bs (buttons as d)" "gestures (as @ bs) g = gestures bs (gestures as g)"
  by (simp_all add: buttons_def gestures_def)

lemma released_append:
  "released as \<Longrightarrow> released bs \<Longrightarrow> released (as @ bs)"
  "released as \<Longrightarrow> bracketed bs \<Longrightarrow> bracketed (as @ bs)"
  by (simp_all add: released_def bracketed_def buttons_gestures_append)

locale interaction_manager =
  fixes inv :: "'s \<Rightarrow> bool"
    and process :: "'f \<Rightarrow> 'f \<Rightarrow> 's \<Rightarrow> 's outcome"
    and destroy :: "'s \<Rightarrow> 's outcome"
    and requests :: "'s \<Rightarrow> action list"
    and frames :: "'s \<Rightarrow> 'f timed_history"
    and time :: "'f \<Rightarrow> int"
  assumes frame_processed: "inv s \<Longrightarrow> addFrame_in_order (time f) (frames s) \<Longrightarrow>
      \<exists>t. process f since s = Done t \<and> inv t"
    and always_bracketed: "inv s \<Longrightarrow> bracketed (requests s)"
    and destroyed_released: "inv s \<Longrightarrow> \<exists>t. destroy s = Done t \<and> released (requests t)"
begin

text \<open>Any number of frames, each in order when it comes.\<close>

inductive processed :: "'s \<Rightarrow> 's \<Rightarrow> bool" where
  start: "processed s s"
| frame: "processed s t \<Longrightarrow> addFrame_in_order (time f) (frames t) \<Longrightarrow> process f since t = Done u \<Longrightarrow>
    processed s u"

lemma processed_inv: "processed s t \<Longrightarrow> inv s \<Longrightarrow> inv t"
proof (induction rule: processed.induct)
  case (frame s t f since u)
  then show ?case using frame_processed [of t f since] by auto
qed

lemma life_released:
  assumes "inv s" "processed s t"
  shows "bracketed (requests t)" "\<exists>u. destroy t = Done u \<and> released (requests u)"
  using always_bracketed destroyed_released processed_inv [OF assms(2,1)] by blast+

end

section \<open>The four modes\<close>

definition sdk_documented :: "('f, 'h, 'p, 'e) env_scheme \<Rightarrow> bool" where
  "sdk_documented L \<longleftrightarrow> sdk_hands L \<and> sdk_ids L \<and> sdk_probabilities L \<and> useProceduralOverlay L"

interpretation go_manager: interaction_manager "\<lambda>s. sdk_documented L \<and> go_inv s" "go_processFrame L"
  "go_destroy L" out m_timedFrameHistory "fr_timestamp L" for L :: "('f, 'h, 'p, 'e) env_scheme"
proof
  fix s :: "('f, 'p) go"
  assume s: "sdk_documented L \<and> go_inv s"
  then have k: "go_owner.alive (go_kept s) s" by (simp add: go_inv_def)
  then show "bracketed (out s)"
    by (auto simp: bracketed_def go_owner.alive_def go_safe_def go_between_def split: if_splits)
  from go_owner.shutdown_alive [OF k, of L]
  show "\<exists>t. go_destroy L s = Done t \<and> released (out t)"
    by (auto simp: go_destroy_def gim_destroy_def go_released_def go_between_def released_def
        button_step_quiet gesture_step_quiet)
  fix f since
  assume "addFrame_in_order (fr_timestamp L f) (m_timedFrameHistory s)"
  then show "\<exists>t. go_processFrame L f since s = Done t \<and> sdk_documented L \<and> go_inv t"
    using go_processFrame_inv [of s L f since] s by (auto simp: sdk_documented_def)
qed

interpretation bm_manager: interaction_manager "\<lambda>s. sdk_documented L \<and> bm_inv L s" "bm_processFrame L c"
  "bm_destroy L c" out m_timedFrameHistory "fr_timestamp L" for L :: "('f, 'h, 'p, 'e) env_scheme" and c
proof
  fix s :: "('f, 'p) bm"
  assume s: "sdk_documented L \<and> bm_inv L s"
  then show "bracketed (out s)"
    by (auto simp: bracketed_def bm_inv_def bm_safe_def bm_unborn_def between_def bm_abs_def split: if_splits)
  show "\<exists>t. bm_destroy L c s = Done t \<and> released (out t)"
    using destroy_clean [of L s c] s
    by (auto simp: sdk_documented_def released_def between_def bm_abs_def)
  fix f since
  assume "addFrame_in_order (fr_timestamp L f) (m_timedFrameHistory s)"
  then show "\<exists>t. bm_processFrame L c f since s = Done t \<and> sdk_documented L \<and> bm_inv L t"
    using processFrame_inv [of L s f c since] s by (auto simp: sdk_documented_def)
qed

interpretation fm_manager: interaction_manager "\<lambda>s. sdk_documented L \<and> fm_inv L s" "fm_processFrame L c"
  "fm_destroy L c" out m_timedFrameHistory "fr_timestamp L" for L :: "('f, 'h, 'p, 'e) env_scheme" and c
proof
  fix s :: "('f, 'p) fm"
  assume s: "sdk_documented L \<and> fm_inv L s"
  then show "bracketed (out s)"
    by (auto simp: bracketed_def fm_inv_def fm_owner.alive_def fm_safe_def fm_between_def split: if_splits)
  let ?s = "flushOverlay L (emit (hide_icons 0 (gm_numOverlayImages s)) s)"
  have "fm_inv L ?s" using s by (intro fm_trimmings) blast
  then have "fm_alive L (fm_kept ?s) ?s" by (simp add: fm_inv_def)
  from fm_owner.shutdown_alive [OF this, of c]
  show "\<exists>t. fm_destroy L c s = Done t \<and> released (out t)"
    by (auto simp: fm_destroy_def gim_destroy_def fm_released_def fm_between_def released_def
        button_step_quiet gesture_step_quiet)
  fix f since
  assume "addFrame_in_order (fr_timestamp L f) (m_timedFrameHistory s)"
  then show "\<exists>t. fm_processFrame L c f since s = Done t \<and> sdk_documented L \<and> fm_inv L t"
    using fm_processFrame_inv [of L s f c since] s by (auto simp: sdk_documented_def)
qed

text \<open>The touch mode asks for neither buttons nor gestures.\<close>

lemma quiet_released:
  "list_all (\<lambda>a. \<not> is_button a \<and> \<not> is_gesture a) as \<Longrightarrow> released as"
proof -
  have "list_all (\<lambda>a. \<not> is_button a \<and> \<not> is_gesture a) as \<Longrightarrow> buttons as d = d \<and> gestures as g = g" for d g
    by (induction as) (auto simp: buttons_def gestures_def button_step_quiet gesture_step_quiet)
  then show "list_all (\<lambda>a. \<not> is_button a \<and> \<not> is_gesture a) as \<Longrightarrow> released as"
    by (simp add: released_def)
qed

definition tp_quiet :: "('f, 'p) tp \<Rightarrow> bool" where
  "tp_quiet s \<longleftrightarrow> tp_inv s \<and> list_all (\<lambda>a. \<not> is_button a \<and> \<not> is_gesture a) (out s)"

lemma tp_quiet_frame:
  assumes "tp_quiet s" "sdk_documented L" "addFrame_in_order (fr_timestamp L f) (m_timedFrameHistory s)"
  shows "\<exists>t. tp_processFrame L f since s = Done t \<and> tp_quiet t"
proof (cases "e_touchAvailable L")
  case True
  then obtain t as where "tp_processFrame L f since s = Done t" "tp_inv t"
    "only_icons (map int [0..<length (shown_pointables L f)]) as"
    "out t = out s @ as @ [EmitTouchEvent
        (fold insert_option (map (tp_touch L (fr_normalizePoint L f)) (shown_pointables L f)) [])] @
      hide_icons (int (length (shown_pointables L f))) (tp_lastNumIcons s)"
    using tp_frame [of s L f since] assms by (auto simp: tp_quiet_def sdk_documented_def)
  with assms(1) icons_only(2) hide_only(2) show ?thesis by (auto simp: tp_quiet_def)
next
  case False
  have g: "gim_ok s" "sdk_probabilities L" using assms(1,2) by (simp_all add: tp_quiet_def tp_inv_def sdk_documented_def)
  obtain u where u: "observe_frame L (tp_virtual L) f since s = Some u" "gim_ok u"
    "sm_violations u = sm_violations s" "out u = out s" "gim.more u = gim.more s"
    using observe_frame_ok [OF g(1) assms(3) g(2), of "tp_virtual L" since] by metis
  have "tp_lastNumIcons u = tp_lastNumIcons s" using u(5) by (cases u; cases s) simp
  with u observed_fields(2) [OF u(1)] assms(1) have "tp_quiet u" by (simp add: tp_quiet_def tp_inv_def)
  moreover have "tp_processFrame L f since s = Done u"
    using u(1) False by (simp add: tp_processFrame_def processFrame_def tp_virtual_def tp_processFrameInternal_def)
  ultimately show ?thesis by blast
qed

interpretation tp_manager: interaction_manager "\<lambda>s. sdk_documented L \<and> tp_quiet s" "tp_processFrame L"
  "tp_destroy L" out m_timedFrameHistory "fr_timestamp L" for L :: "('f, 'h, 'p, 'e) env_scheme"
proof
  fix s :: "('f, 'p) tp"
  assume s: "sdk_documented L \<and> tp_quiet s"
  then have r: "released (out s)" by (intro quiet_released) (simp add: tp_quiet_def)
  then show "bracketed (out s)" by (rule released_bracketed)
  show "\<exists>t. tp_destroy L s = Done t \<and> released (out t)"
    using r by (auto simp: tp_destroy_def gim_destroy_def released_def button_step_quiet gesture_step_quiet)
  fix f since
  assume "addFrame_in_order (fr_timestamp L f) (m_timedFrameHistory s)"
  then show "\<exists>t. tp_processFrame L f since s = Done t \<and> sdk_documented L \<and> tp_quiet t"
    using tp_quiet_frame [of s L f since] s by auto
qed

section \<open>The object the factory makes\<close>

primrec manager_inv :: "('f, 'h, 'p, 'e) env_scheme \<Rightarrow> ('f, 'p) manager \<Rightarrow> bool" where
  "manager_inv L (GestureOnlyManager s) = go_inv s"
| "manager_inv L (BasicManager s) = bm_inv L s"
| "manager_inv L (TouchPeripheralManager s) = tp_quiet s"
| "manager_inv L (FingerMouseManager s) = fm_inv L s"

interpretation any_manager: interaction_manager "\<lambda>m. sdk_documented L \<and> manager_inv L m"
  "manager_processFrame L c" "manager_destroy L c" manager_out manager_history "fr_timestamp L"
  for L :: "('f, 'h, 'p, 'e) env_scheme" and c
proof
  fix m :: "('f, 'p) manager"
  assume m: "sdk_documented L \<and> manager_inv L m"
  show "bracketed (manager_out m)"
    using m go_manager.always_bracketed [of L] bm_manager.always_bracketed [of L]
      tp_manager.always_bracketed [of L] fm_manager.always_bracketed [of L]
    by (cases m) simp_all
  show "\<exists>t. manager_destroy L c m = Done t \<and> released (manager_out t)"
    using m go_manager.destroyed_released [of L] bm_manager.destroyed_released [of L _ c]
      tp_manager.destroyed_released [of L] fm_manager.destroyed_released [of L _ fm_config_default]
    by (cases m) (fastforce simp: manager_destroy_def map_outcome_Done)+
  fix f since
  assume "addFrame_in_order (fr_timestamp L f) (manager_history m)"
  with m show "\<exists>t. manager_processFrame L c f since m = Done t \<and> sdk_documented L \<and> manager_inv L t"
    using go_manager.frame_processed [of L _ f since] bm_manager.frame_processed [of L _ f c since]
      tp_manager.frame_processed [of L _ f since] fm_manager.frame_processed [of L _ f fm_config_default since]
    by (cases m) (fastforce simp: manager_processFrame_def map_outcome_Done)+
qed

lemma manager_base:
  fixes L :: "('f, 'h, 'p, 'e) env_scheme"
  shows "\<exists>g :: ('st, 'f, 'p) gim. GestureInteractionManager L = Inr g \<and> out g = []"
  using gim_new by blast

lemma new_silent:
  fixes L :: "('f, 'h, 'p, 'e) env_scheme"
  shows
  "GestureOnlyMode L i j b = Inr s1 \<Longrightarrow> out s1 = []" "BasicMode L n t h = Inr s2 \<Longrightarrow> out s2 = []"
  "FingerMouse L e d m = Inr s3 \<Longrightarrow> out s3 = []"
proof -
  obtain g :: "(go_state, 'f, 'p) gim" where "GestureInteractionManager L = Inr g" "out g = []"
    using manager_base by blast
  then show "GestureOnlyMode L i j b = Inr s1 \<Longrightarrow> out s1 = []"
    by (cases g) (auto simp: GestureOnlyMode_def gim.defs gesture_only.defs)
  obtain g :: "(bm_state, 'f, 'p) gim" where "GestureInteractionManager L = Inr g" "out g = []"
    using manager_base by blast
  then show "BasicMode L n t h = Inr s2 \<Longrightarrow> out s2 = []"
    by (cases g) (auto simp: BasicMode_def gim.defs basic.defs)
  obtain g :: "(fm_state, 'f, 'p) gim" where "GestureInteractionManager L = Inr g" "out g = []"
    using manager_base by blast
  then show "FingerMouse L e d m = Inr s3 \<Longrightarrow> out s3 = []"
    by (cases g) (auto simp: FingerMouse_def gim.defs finger_mouse.defs)
qed

definition fresh_manager :: "('f, 'h, 'p, 'e) env_scheme \<Rightarrow> ('f, 'p) manager \<Rightarrow> bool" where
  "fresh_manager L m \<longleftrightarrow>
     manager_inv L m \<and> manager_out m = [] \<and> th_pairs (manager_history m) = []"

lemma new_modes:
  "\<exists>s. GestureOnlyMode L i j b = Inr s \<and> fresh_manager L (GestureOnlyManager s)"
  "\<exists>s. BasicMode L n t h = Inr s \<and> fresh_manager L (BasicManager s)"
  "\<exists>s. TouchPeripheral L = Inr s \<and> fresh_manager L (TouchPeripheralManager s)"
  "\<exists>s. FingerMouse L e d ml = Inr s \<and> fresh_manager L (FingerMouseManager s)"
  using go_new_inv [of L i j b] new_inv [of L n t h] tp_new_inv [of L] fm_new_inv [of L e d ml]
    new_silent [of L]
  by (auto simp: fresh_manager_def tp_quiet_def)

lemma New_fresh:
  "\<exists>m c'. New L rm mode c = (Inr m, c') \<and>
     (case m of None \<Rightarrow> mode \<notin> {OUTPUT_MODE_INTRO, OUTPUT_MODE_BASIC, OUTPUT_MODE_ADVANCED}
      | Some x \<Rightarrow> fresh_manager L x)"
proof -
  obtain s1 s2 s3 s4 where
    "GestureOnlyMode L (rm_time rm) (rm_time2 rm) (rm_buckets rm) = Inr s1" "fresh_manager L (GestureOnlyManager s1)"
    "BasicMode L (rm_time rm) (rm_time2 rm) (rm_hand rm) = Inr s2" "fresh_manager L (BasicManager s2)"
    "TouchPeripheral L = Inr s3" "fresh_manager L (TouchPeripheralManager s3)"
    "FingerMouse L (rm_eligible rm) (rm_defer rm) (rm_mountainLion rm) = Inr s4"
    "fresh_manager L (FingerMouseManager s4)"
    using new_modes by metis
  then show ?thesis by (auto simp: New_def New_FingerMouse_def)
qed

end
