(* ===== verification/Configuration.thy ===== *)
theory Configuration
  imports Dynamic_Value Json_Parser
begin

text \<open>
  The configuration store of \<open>source/Configuration/Config.cpp\<close>: attributes with an access type, the
  changes the user has made, the files that hold them, and the image sizes that follow from the camera
  mode. A \<open>std::map\<close> is a list in increasing order of the keys. The file system is a partial
  function from names to contents; whether a file can be opened for writing and whether a rename
  succeeds are parameters. Decimal constants are taken as written, not as their nearest binary number.

  The functions that register dynamic attributes and clients are commented out in the source; a
  dynamic attribute is what its virtual getter and setter do, and the calls of the clients are recorded.
\<close>

section \<open>State\<close>

datatype AccessType = READ_ONLY | WRITE_NOPUBLIC | WRITE_ALWAYS

record attribute =
  at_value :: dvalue
  at_access :: AccessType

text \<open>A dynamic attribute: its value, and the value after a call of the setter that accepts its argument.\<close>

record dynamic =
  Getter :: dvalue
  Setter :: "dvalue \<Rightarrow> dvalue option"

record image_config =
  ic_Width :: "32 word"
  ic_Height :: "32 word"
  ic_SourceWidth :: "32 word"
  ic_SourceHeight :: "32 word"
  ic_CalibWidth :: "32 word"
  ic_CalibHeight :: "32 word"
  ic_DownSampleRate :: "32 word"

record ConfigState =
  AttributeMap :: "(string \<times> attribute) list"
  DynamicAttributeMap :: "(string \<times> dynamic) list"
  ModifiedMap :: hash
  SectionToFileMap :: "(string \<times> string) list"
  OnChangeFunctions :: "string list"
  cs_image :: image_config
  cs_calls :: "(string \<times> string \<times> dvalue) list"

text \<open>The static object before \<open>main\<close>: empty maps, and members that are zero.\<close>

definition initial_state :: ConfigState where
  "initial_state =
     \<lparr>AttributeMap = [], DynamicAttributeMap = [], ModifiedMap = [], SectionToFileMap = [],
      OnChangeFunctions = [], cs_image = image_config.make 0 0 0 0 0 0 0, cs_calls = []\<rparr>"

section \<open>Attributes\<close>

definition CreateAttribute :: "string \<Rightarrow> dvalue \<Rightarrow> AccessType \<Rightarrow> ConfigState \<Rightarrow> ConfigState" where
  "CreateAttribute name v access s =
     s\<lparr>AttributeMap := map_set name \<lparr>at_value = v, at_access = access\<rparr> (AttributeMap s)\<rparr>"

definition NotifyClients :: "string \<Rightarrow> dvalue \<Rightarrow> ConfigState \<Rightarrow> ConfigState" where
  "NotifyClients name v s =
     s\<lparr>cs_calls := cs_calls s @ map (\<lambda>client. (client, name, v)) (OnChangeFunctions s)\<rparr>"

text \<open>\<open>GetAttribute\<close> at a type: the conversion of the value, if there is one.\<close>

definition GetAttribute :: "(dvalue \<Rightarrow> 'a) \<Rightarrow> string \<Rightarrow> ConfigState \<Rightarrow> 'a option" where
  "GetAttribute convert name s =
     (case map_of (AttributeMap s) name of
        Some a \<Rightarrow> Some (convert (at_value a))
      | None \<Rightarrow>
          (case map_of (DynamicAttributeMap s) name of
             Some d \<Rightarrow> Some (convert (Getter d))
           | None \<Rightarrow> None))"

definition SetAttribute :: "string \<Rightarrow> dvalue \<Rightarrow> bool \<Rightarrow> ConfigState \<Rightarrow> bool \<times> ConfigState" where
  "SetAttribute name v userSpecified s =
     (case map_of (AttributeMap s) name of
        None \<Rightarrow>
          (case map_of (DynamicAttributeMap s) name of
             None \<Rightarrow> (False, s)
           | Some d \<Rightarrow>
               (case Setter d v of
                  None \<Rightarrow> (False, s)
                | Some v' \<Rightarrow>
                    (True, NotifyClients name v
                       (s\<lparr>DynamicAttributeMap := map_set name (d\<lparr>Getter := v'\<rparr>) (DynamicAttributeMap s)\<rparr>))))
      | Some a \<Rightarrow>
          if at_access a = READ_ONLY then (False, s)
          else if at_access a = WRITE_NOPUBLIC \<and> userSpecified then (False, s)
          else if \<not> value_eq (at_value a) v then
            (let s1 = s\<lparr>AttributeMap := map_set name (a\<lparr>at_value := v\<rparr>) (AttributeMap s)\<rparr>;
                 s2 = (if userSpecified then s1\<lparr>ModifiedMap := map_set name v (ModifiedMap s1)\<rparr> else s1)
             in (True, NotifyClients name v s2))
          else (True, s))"

text \<open>The attributes as a hash: all of them, or those the public may read.\<close>

definition GetAttributes :: "hash \<Rightarrow> ConfigState \<Rightarrow> hash" where
  "GetAttributes attributes s =
     fold (\<lambda>(name, d). map_set name (Getter d)) (DynamicAttributeMap s)
       (fold (\<lambda>(name, a). map_set name (at_value a)) (AttributeMap s) attributes)"

definition GetPublicAttributes :: "hash \<Rightarrow> ConfigState \<Rightarrow> hash" where
  "GetPublicAttributes attributes s =
     fold (\<lambda>(name, a) h. if at_access a = WRITE_ALWAYS then map_set name (at_value a) h else h)
       (AttributeMap s) attributes"

section \<open>Image sizes\<close>

definition image_mode :: "string \<Rightarrow> image_config option" where
  "image_mode mode =
     (if mode = ''VGA'' then Some (image_config.make 640 480 640 480 640 480 1)
      else if mode = ''HVGA'' then Some (image_config.make 640 240 640 240 640 480 2)
      else if mode = ''QVGA'' then Some (image_config.make 320 240 320 240 640 480 2)
      else if mode = ''HHVGA'' then Some (image_config.make 640 120 640 120 640 480 4)
      else if mode = ''QHVGA'' then Some (image_config.make 320 120 320 120 640 480 4)
      else None)"

text \<open>A conjunction of calls: each stores its attribute, and the first that finds none ends it.\<close>

fun read_sizes ::
  "(string \<times> ('w \<Rightarrow> image_config \<Rightarrow> image_config)) list \<Rightarrow> (string \<Rightarrow> 'w option) \<Rightarrow> image_config \<Rightarrow>
   bool \<times> image_config" where
  "read_sizes [] get i = (True, i)"
| "read_sizes ((name, store) # r) get i =
     (case get name of None \<Rightarrow> (False, i) | Some w \<Rightarrow> read_sizes r get (store w i))"

definition LoadImageConfig :: "ConfigState \<Rightarrow> bool \<times> ConfigState" where
  "LoadImageConfig s =
     (case Option.bind (GetAttribute To_string ''camera_mode'' s) image_mode of
        Some i \<Rightarrow> (True, s\<lparr>cs_image := i\<rparr>)
      | None \<Rightarrow>
          (let (ok, i) = read_sizes
             [(''image_width'', \<lambda>w i. i\<lparr>ic_Width := w\<rparr>), (''image_height'', \<lambda>w i. i\<lparr>ic_Height := w\<rparr>),
              (''image_calib_width'', \<lambda>w i. i\<lparr>ic_CalibWidth := w\<rparr>),
              (''image_calib_height'', \<lambda>w i. i\<lparr>ic_CalibHeight := w\<rparr>),
              (''image_source_width'', \<lambda>w i. i\<lparr>ic_SourceWidth := w\<rparr>),
              (''image_source_height'', \<lambda>w i. i\<lparr>ic_SourceHeight := w\<rparr>)]
             (\<lambda>name. GetAttribute To_int name s) (cs_image s)
           in (ok, s\<lparr>cs_image := i\<rparr>)))"

section \<open>Defaults\<close>

definition decimal :: "int \<Rightarrow> nat \<Rightarrow> dvalue" where "decimal n k = VDouble (Finite (of_int n / 10 ^ k))"

type_synonym default = "string \<times> dvalue \<times> AccessType"

definition device_defaults :: "default list" where
  "device_defaults = [
    (''camera_type'', VString ''UVCI'', WRITE_ALWAYS),
    (''camera_dump_file'', VString [], WRITE_NOPUBLIC),
    (''camera_framerate_limit'', decimal 1000 0, WRITE_ALWAYS),
    (''camera_sensitivity'', decimal 1 0, WRITE_ALWAYS),
    (''camera_requires_calib'', VBool True, WRITE_ALWAYS),
    (''optical_infinity_value'', decimal 1618 1, WRITE_NOPUBLIC),
    (''dump_replay_framerate'', VInt 10, WRITE_NOPUBLIC),
    (''dump_replay_repeat'', VBool True, WRITE_NOPUBLIC),
    (''dump_replay_min_clients'', VInt 0, WRITE_NOPUBLIC),
    (''dump_replay_max_wait_ms'', VInt 1000, WRITE_NOPUBLIC),
    (''dump_replay_processed_only'', VBool True, WRITE_NOPUBLIC),
    (''pipeline_stop_requested'', VBool False, WRITE_NOPUBLIC),
    (''plugin_host_stop_requested'', VBool False, WRITE_NOPUBLIC),
    (''spherical_wavefront_frequency'', VInt 450, WRITE_NOPUBLIC),
    (''use_wavefront_photon_slowdown'', VBool True, WRITE_NOPUBLIC),
    (''debug_use_image_viewer'', VBool False, WRITE_NOPUBLIC),
    (''debug_rect_images'', VBool True, WRITE_NOPUBLIC),
    (''camera_mode'', VString ''HVGA'', WRITE_ALWAYS), (''image_width'', VInt 640, WRITE_ALWAYS),
    (''image_height'', VInt 480, WRITE_ALWAYS), (''image_source_width'', VInt 640, WRITE_ALWAYS),
    (''image_source_height'', VInt 480, WRITE_ALWAYS), (''image_calib_width'', VInt 640, WRITE_ALWAYS),
    (''image_calib_height'', VInt 480, WRITE_ALWAYS),
    (''tracking_mode'', VString ''balanced'', WRITE_ALWAYS),
    (''xray_pulse_width'', VInt 100, WRITE_NOPUBLIC), (''sampling_max_gap'', decimal 1 0, WRITE_NOPUBLIC),
    (''sampling_min_gap'', decimal 1 1, WRITE_NOPUBLIC),
    (''sampling_max_gap_robust'', decimal 8 1, WRITE_NOPUBLIC),
    (''sampling_min_gap_robust'', decimal 8 2, WRITE_NOPUBLIC),
    (''debug_trifocal_tensors'', VBool True, WRITE_NOPUBLIC),
    (''robust_mode_enabled'', VBool True, WRITE_ALWAYS),
    (''low_resource_mode_enabled'', VBool False, WRITE_ALWAYS),
    (''background_app_mode'', VInt 1, WRITE_ALWAYS),
    (''plasmeto_mode_enabled'', VBool False, WRITE_NOPUBLIC),
    (''debug_output_level'', VInt 3, WRITE_NOPUBLIC),
    (''debug_output_mode'', VString ''console'', WRITE_NOPUBLIC),
    (''profiling_output_level'', VInt 1, WRITE_NOPUBLIC),
    (''profiling_output_mode'', VString ''none'', WRITE_NOPUBLIC),
    (''websockets_enabled'', VBool True, WRITE_ALWAYS), (''websockets_port'', VInt 6437, WRITE_NOPUBLIC),
    (''server_connect_ip'', VString ''127.0.0.1'', WRITE_ALWAYS)]"

definition tracking_defaults :: "default list" where
  "tracking_defaults = [
    (''print_timestamps_in_log'', VBool True, WRITE_ALWAYS),
    (''use_interference_fringing_pattern'', VBool True, WRITE_NOPUBLIC),
    (''filtering_enabled'', VBool True, WRITE_NOPUBLIC),
    (''filtering_scale_posunc'', decimal 1 0, WRITE_NOPUBLIC),
    (''filtering_scale_velunc'', decimal 1 0, WRITE_NOPUBLIC),
    (''filtering_scale_dirunc'', decimal 1 0, WRITE_NOPUBLIC),
    (''filtering_target_posunc'', decimal 125 4, WRITE_NOPUBLIC),
    (''filtering_target_velunc'', decimal 125 4, WRITE_NOPUBLIC),
    (''filtering_target_dirunc'', decimal 125 4, WRITE_NOPUBLIC),
    (''filtering_user_unc'', decimal 5 2, WRITE_NOPUBLIC),
    (''filtering_user_scale'', decimal 20 0, WRITE_NOPUBLIC),
    (''filtering_near_dist'', VInt 1, WRITE_NOPUBLIC), (''filtering_far_dist'', VInt 500, WRITE_NOPUBLIC),
    (''filtering_position_smooth_min'', decimal 3 1, WRITE_NOPUBLIC),
    (''filtering_position_smooth_max'', decimal 15 3, WRITE_NOPUBLIC),
    (''filtering_position_adapt_rate'', decimal 1 7, WRITE_NOPUBLIC),
    (''filtering_direction_smooth_min'', decimal 25 3, WRITE_NOPUBLIC),
    (''filtering_direction_smooth_max'', decimal 1 4, WRITE_NOPUBLIC),
    (''filtering_direction_adapt_rate'', decimal 25 3, WRITE_NOPUBLIC),
    (''tracking_classify_threshold'', decimal 74757 5, WRITE_NOPUBLIC),
    (''tracking_transform_angle'', VInt 0, WRITE_ALWAYS), (''tracking_shift_x'', VInt 0, WRITE_ALWAYS),
    (''holotopic_tomography_slices'', decimal 9 1, WRITE_NOPUBLIC),
    (''image_processing_auto_flip'', VBool True, WRITE_ALWAYS),
    (''image_processing_cropped'', VBool False, WRITE_NOPUBLIC),
    (''image_processing_throttled'', VBool False, WRITE_NOPUBLIC),
    (''image_processing_standby'', VBool True, WRITE_NOPUBLIC),
    (''image_processing_mode'', VInt 1, WRITE_NOPUBLIC),
    (''power_saving_adapter'', VBool False, WRITE_ALWAYS),
    (''power_saving_battery'', VBool True, WRITE_ALWAYS),
    (''use_robust_tips'', VBool True, WRITE_NOPUBLIC), (''os_interaction_mode'', VOther, WRITE_ALWAYS)]"

definition interaction_defaults :: "default list" where
  "interaction_defaults = [
    (''os_interaction_multi_monitor'', VBool False, WRITE_ALWAYS),
    (''interaction_box_auto'', VBool False, WRITE_ALWAYS),
    (''interaction_box_height'', VInt 200, WRITE_ALWAYS),
    (''interaction_box_scale'', decimal 8 1, WRITE_ALWAYS),
    (''interaction_center_x'', VInt 0, WRITE_ALWAYS), (''interaction_center_y'', VInt 200, WRITE_ALWAYS),
    (''interaction_center_z'', VInt 0, WRITE_ALWAYS),
    (''autoplane_closeness_epsilon'', decimal 4 0, WRITE_ALWAYS),
    (''autoplane_covariance_scale_factor'', decimal 5 1, WRITE_ALWAYS),
    (''autoplane_time_window'', decimal 4 1, WRITE_ALWAYS),
    (''autoplane_warmup_time'', decimal 333 3, WRITE_ALWAYS),
    (''autoplane_hover_zone_cutoff'', decimal 70 0, WRITE_ALWAYS),
    (''autoplane_dead_zone_cutoff'', decimal 220 0, WRITE_ALWAYS),
    (''autoplane_function_steepness'', decimal 1 0, WRITE_ALWAYS),
    (''autoplane_function_width'', decimal 4 0, WRITE_ALWAYS),
    (''autoplane_function_speed'', decimal 5 1, WRITE_ALWAYS),
    (''klaatu_barada_nikto'', VBool True, WRITE_ALWAYS), (''FPS_throttle'', VBool True, WRITE_NOPUBLIC),
    (''adjust_radiance'', VBool True, WRITE_NOPUBLIC),
    (''hand_isolation_enabled'', VBool True, WRITE_ALWAYS),
    (''screen_detected'', VBool False, WRITE_ALWAYS), (''screen_point0_x'', decimal 0 0, WRITE_ALWAYS),
    (''screen_point0_y'', decimal 0 0, WRITE_ALWAYS), (''screen_point0_z'', decimal 0 0, WRITE_ALWAYS),
    (''screen_point1_x'', decimal 0 0, WRITE_ALWAYS), (''screen_point1_y'', decimal 0 0, WRITE_ALWAYS),
    (''screen_point1_z'', decimal 0 0, WRITE_ALWAYS), (''screen_point2_x'', decimal 0 0, WRITE_ALWAYS),
    (''screen_point2_y'', decimal 0 0, WRITE_ALWAYS), (''screen_point2_z'', decimal 0 0, WRITE_ALWAYS),
    (''screen_point3_x'', decimal 0 0, WRITE_ALWAYS), (''screen_point3_y'', decimal 0 0, WRITE_ALWAYS),
    (''screen_point3_z'', decimal 0 0, WRITE_ALWAYS), (''screen_point4_x'', decimal 0 0, WRITE_ALWAYS),
    (''screen_point4_y'', decimal 0 0, WRITE_ALWAYS), (''screen_point4_z'', decimal 0 0, WRITE_ALWAYS),
    (''screen_point5_x'', decimal 0 0, WRITE_ALWAYS), (''screen_point5_y'', decimal 0 0, WRITE_ALWAYS),
    (''screen_point5_z'', decimal 0 0, WRITE_ALWAYS), (''screen_point6_x'', decimal 0 0, WRITE_ALWAYS),
    (''screen_point6_y'', decimal 0 0, WRITE_ALWAYS), (''screen_point6_z'', decimal 0 0, WRITE_ALWAYS),
    (''screen_point7_x'', decimal 0 0, WRITE_ALWAYS), (''screen_point7_y'', decimal 0 0, WRITE_ALWAYS),
    (''screen_point7_z'', decimal 0 0, WRITE_ALWAYS),
    (''reflection_removal_enabled'', VBool True, WRITE_ALWAYS)]"

text \<open>The attributes after the screen points; the first depends on the kind of build.\<close>

definition update_defaults :: "bool \<Rightarrow> default list" where
  "update_defaults internal_build =
     [(''auto_check_updates'', VBool (\<not> internal_build), WRITE_ALWAYS),
      (''force_accept_updates'', VBool False, WRITE_ALWAYS)]"

definition GetDefaultScreenCalib :: "dvalue list" where
  "GetDefaultScreenCalib = map (\<lambda>n. decimal n 0) [-200, 50, -200, 400, 0, 0, 0, 250, 0]"

definition calibration_defaults :: "default list" where
  "calibration_defaults =
     map (\<lambda>i. (''screen_calibration'' @ show_nat i,
                VArray (if i = 0 then GetDefaultScreenCalib else []), WRITE_ALWAYS)) [0..<10]"

definition menu_defaults :: "bool \<Rightarrow> default list" where
  "menu_defaults language_menu =
     (if language_menu then [(''display_language'', VString [], WRITE_ALWAYS)] else [])"

definition all_defaults :: "bool \<Rightarrow> bool \<Rightarrow> default list" where
  "all_defaults internal_build language_menu =
     device_defaults @ tracking_defaults @ interaction_defaults @ update_defaults internal_build @
     calibration_defaults @ menu_defaults language_menu"

definition InitializeDefaults :: "bool \<Rightarrow> bool \<Rightarrow> ConfigState \<Rightarrow> ConfigState" where
  "InitializeDefaults internal_build language_menu s =
     snd (LoadImageConfig
       (fold (\<lambda>(name, v, access). CreateAttribute name v access)
          (all_defaults internal_build language_menu)
          (s\<lparr>AttributeMap := [], ModifiedMap := []\<rparr>)))"

section \<open>Files\<close>

type_synonym files = "string \<Rightarrow> string option"

definition SetOutputFile :: "string \<Rightarrow> string \<Rightarrow> ConfigState \<Rightarrow> ConfigState" where
  "SetOutputFile fileName section_name s =
     (let s1 = (if SectionToFileMap s = [] then s\<lparr>SectionToFileMap := map_set [] fileName []\<rparr> else s)
      in s1\<lparr>SectionToFileMap := map_set section_name fileName (SectionToFileMap s1)\<rparr>)"

datatype config_error = FileNotFound | FileNotParsed | SectionNotFound | ImageConfigError

text \<open>What has been set before an exception stays set.\<close>

definition LoadFromFile ::
  "files \<Rightarrow> string \<Rightarrow> string \<Rightarrow> ConfigState \<Rightarrow> config_error option \<times> ConfigState" where
  "LoadFromFile fs fileName section_name s =
     (let s1 = SetOutputFile fileName section_name s in
      case fs fileName of
        None \<Rightarrow> (Some FileNotFound, s1)
      | Some contents \<Rightarrow>
          (let object = read_value contents VNull in
           if \<not> IsHash object then (Some FileNotParsed, s1)
           else
             (case HashGet object section_name of
                VHash h \<Rightarrow>
                  (let s2 = fold (\<lambda>(name, v) t. snd (SetAttribute name v True t)) h s1;
                       (ok, s3) = LoadImageConfig s2
                   in (if ok then None else Some ImageConfigError, s3))
              | _ \<Rightarrow> (Some SectionNotFound, s1))))"

text \<open>The other overload catches the exception, prints it when asked to, and reports success.\<close>

definition LoadFromFile_verbose ::
  "files \<Rightarrow> string \<Rightarrow> bool \<Rightarrow> string \<Rightarrow> ConfigState \<Rightarrow> bool \<times> config_error list \<times> ConfigState" where
  "LoadFromFile_verbose fs fileName verbose section_name s =
     (let (e, s1) = LoadFromFile fs fileName section_name s in
      case e of
        None \<Rightarrow> (True, [], s1)
      | Some x \<Rightarrow> (False, if verbose then [x] else [], s1))"

text \<open>
  The new contents are written to a temporary file, which then takes the place of the old one. The
  reset to the defaults stores an object of a type the writer does not know.
\<close>

definition output_file :: "string \<Rightarrow> ConfigState \<Rightarrow> string option" where
  "output_file section_name s =
     (case map_of (SectionToFileMap s) section_name of
        None \<Rightarrow> map_of (SectionToFileMap s) [] | Some fileName \<Rightarrow> Some fileName)"

definition Save ::
  "(string \<Rightarrow> bool) \<Rightarrow> bool \<Rightarrow> string \<Rightarrow> bool \<Rightarrow> files \<Rightarrow> ConfigState \<Rightarrow> bool \<times> files" where
  "Save writable rename_ok section_name toDefault fs s =
     (if ModifiedMap s = [] \<and> \<not> toDefault then (False, fs)
      else
        (case output_file section_name s of
           None \<Rightarrow> (False, fs)
         | Some fileName \<Rightarrow>
             (let old = (case fs fileName of None \<Rightarrow> VNull | Some contents \<Rightarrow> read_value contents VNull);
                  object = (if IsHash old then old else VHash []);
                  tmpFileName = fileName @ ''.tmp''
              in if writable tmpFileName then
                   (let new = fst (HashSet object section_name
                                    (if toDefault then VOther else VHash (ModifiedMap s)));
                        fs1 = fs(tmpFileName \<mapsto> ToJSON False True new)
                    in if rename_ok
                       then (True, fs1(fileName := fs1 tmpFileName, tmpFileName := None))
                       else (False, fs1))
                 else (False, fs(tmpFileName := None)))))"

end
