(* ===== verification/Configuration_Properties.thy ===== *)
theory Configuration_Properties
  imports Configuration Json_Numbers
begin

text \<open>
  What the configuration store promises: the settings a user has changed are written to the file of
  their section, next to the sections of others, and read back from it into fresh defaults.
\<close>

section \<open>Maps\<close>

lemma map_of_map_set: "map_of (map_set k v h) = (map_of h)(k \<mapsto> v)"
proof (induction h)
  case (Cons p h)
  then show ?case by (cases p) auto
qed simp

lemma keys_map_set: "fst ` set (map_set k v h) = insert k (fst ` set h)"
proof (induction h)
  case (Cons p h)
  then show ?case by (cases p) auto
qed simp

lemma sorted_keys_map_set:
  "sorted_wrt (<) (map fst h) \<Longrightarrow> sorted_wrt (<) (map fst (map_set k v h))"
proof (induction h)
  case (Cons p h)
  then show ?case by (cases p) (auto simp: keys_map_set intro: less_trans)
qed simp

lemma json_ok_map_set:
  assumes "json_ok (VHash h)" "json_ok v" "CHR 0x00 \<notin> set k"
  shows "json_ok (VHash (map_set k v h))"
proof -
  have "set (map_set k v h) \<subseteq> insert (k, v) (set h)"
  proof (induction h)
    case (Cons p h)
    then show ?case by (cases p) auto
  qed simp
  with assms show ?thesis by (auto simp: sorted_keys_map_set)
qed

section \<open>A store of values in a text\<close>

text \<open>
  What the store needs of the writer and the reader: a value that fits is read back as its normal form,
  and the normal form of a hash has the same keys.
\<close>

locale value_text =
  fixes print :: "dvalue \<Rightarrow> string"
    and parse :: "string \<Rightarrow> dvalue"
    and fits :: "dvalue \<Rightarrow> bool"
    and norm :: "dvalue \<Rightarrow> dvalue"
    and key_fits :: "string \<Rightarrow> bool"
  assumes read_back: "fits v \<Longrightarrow> parse (print v) = norm v"
    and norm_hash: "norm (VHash h) = VHash (map (\<lambda>p. (fst p, norm (snd p))) h)"
    and norm_null: "norm VNull = VNull"
    and fits_set: "fits (VHash h) \<Longrightarrow> fits v \<Longrightarrow> key_fits k \<Longrightarrow> fits (VHash (map_set k v h))"
begin

lemma sections_read_back:
  assumes "fits (VHash h)" "fits v" "key_fits k"
  shows "IsHash (parse (print (fst (HashSet (VHash h) k v))))"
    "HashGet (parse (print (fst (HashSet (VHash h) k v)))) k = norm v"
    "j \<noteq> k \<Longrightarrow> HashGet (parse (print (fst (HashSet (VHash h) k v)))) j = norm (HashGet (VHash h) j)"
proof -
  have p: "parse (print (fst (HashSet (VHash h) k v))) = norm (VHash (map_set k v h))"
    using read_back [OF fits_set [OF assms]] by (simp add: HashSet_def)
  have m: "map_of (map (\<lambda>p. (fst p, norm (snd p))) g) i = map_option norm (map_of g i)" for g i
    by (induction g) auto
  show "IsHash (parse (print (fst (HashSet (VHash h) k v))))"
    by (simp add: p norm_hash IsHash_def)
  show "HashGet (parse (print (fst (HashSet (VHash h) k v)))) k = norm v"
    by (simp add: p norm_hash HashGet_def m map_of_map_set)
  show "j \<noteq> k \<Longrightarrow> HashGet (parse (print (fst (HashSet (VHash h) k v)))) j = norm (HashGet (VHash h) j)"
    by (simp add: p norm_hash HashGet_def m map_of_map_set norm_null split: option.split)
qed

end

interpretation json_text: value_text "ToJSON e p" "\<lambda>t. read_value t VNull" json_ok canon
  "\<lambda>k. CHR 0x00 \<notin> set k" for e p
proof
  fix v
  assume "json_ok v"
  moreover have "stops []" by (simp add: stops_def no_digit_def peekOptional_def)
  ultimately show "read_value (ToJSON e p v) VNull = canon v"
    using text_parses [of v "[]"] by (simp add: read_value_def ToJSON_def toStream_def)
qed (simp_all add: scalar_canon_def json_ok_map_set del: json_ok.simps)

section \<open>Defaults\<close>

lemma CreateAttribute_fold:
  "AttributeMap (fold (\<lambda>(name, v, access). CreateAttribute name v access) ds s) =
     fold (\<lambda>(name, v, access). map_set name \<lparr>at_value = v, at_access = access\<rparr>) ds (AttributeMap s)"
  "ModifiedMap (fold (\<lambda>(name, v, access). CreateAttribute name v access) ds s) = ModifiedMap s"
  "SectionToFileMap (fold (\<lambda>(name, v, access). CreateAttribute name v access) ds s) = SectionToFileMap s"
  by (induction ds arbitrary: s) (auto simp: CreateAttribute_def)

lemma LoadImageConfig_frame [simp]:
  "AttributeMap (snd (LoadImageConfig s)) = AttributeMap s"
  "ModifiedMap (snd (LoadImageConfig s)) = ModifiedMap s"
  "SectionToFileMap (snd (LoadImageConfig s)) = SectionToFileMap s"
  by (simp_all add: LoadImageConfig_def Let_def split_beta split: option.split)

definition default_map :: "bool \<Rightarrow> bool \<Rightarrow> (string \<times> attribute) list" where
  "default_map ib lm = AttributeMap (InitializeDefaults ib lm initial_state)"

lemma defaults_fields [simp]:
  "AttributeMap (InitializeDefaults ib lm s) = default_map ib lm"
  "ModifiedMap (InitializeDefaults ib lm s) = []"
  "SectionToFileMap (InitializeDefaults ib lm s) = SectionToFileMap s"
  by (simp_all add: default_map_def InitializeDefaults_def CreateAttribute_fold)

lemma map_of_default_fold:
  "map_of (fold (\<lambda>(name, v, access). map_set name \<lparr>at_value = v, at_access = access\<rparr>) ds m) =
     map_of m ++ map_of (map (\<lambda>(name, v, access). (name, \<lparr>at_value = v, at_access = access\<rparr>)) (rev ds))"
proof (induction ds arbitrary: m)
  case (Cons d ds)
  then show ?case
    by (cases d) (auto simp: map_of_map_set map_add_def fun_eq_iff split: option.splits)
qed simp

lemma map_of_default_map:
  "map_of (default_map ib lm) =
     map_of (map (\<lambda>(name, v, access). (name, \<lparr>at_value = v, at_access = access\<rparr>)) (rev (all_defaults ib lm)))"
  by (simp add: default_map_def InitializeDefaults_def CreateAttribute_fold map_of_default_fold)

lemma default_dom: "dom (map_of (default_map ib lm)) = fst ` set (all_defaults ib lm)"
  by (force simp: map_of_default_map dom_map_of_conv_image_fst)

text \<open>No default has a NUL byte in its name, and the sizes of the images are among the defaults.\<close>

lemma default_names:
  "name \<in> fst ` set (all_defaults ib lm) \<Longrightarrow> CHR 0x00 \<notin> set name"
proof -
  have "list_all (\<lambda>d. CHR 0x00 \<notin> set (fst d)) device_defaults" by (simp add: device_defaults_def)
  moreover have "list_all (\<lambda>d. CHR 0x00 \<notin> set (fst d)) tracking_defaults" by (simp add: tracking_defaults_def)
  moreover have "list_all (\<lambda>d. CHR 0x00 \<notin> set (fst d)) interaction_defaults"
    by (simp add: interaction_defaults_def)
  moreover have "list_all (\<lambda>d. CHR 0x00 \<notin> set (fst d)) (update_defaults ib)" by (simp add: update_defaults_def)
  moreover have "list_all (\<lambda>d. CHR 0x00 \<notin> set (fst d)) (menu_defaults lm)" by (simp add: menu_defaults_def)
  moreover have "CHR 0x00 \<notin> set (show_nat i)" for i
  proof (induction i rule: show_nat.induct)
    case (1 n)
    have "digit k \<noteq> CHR 0x00" if "k < 10" for k
    proof
      assume "digit k = CHR 0x00"
      then have "of_char (digit k) = (of_char (CHR 0x00) :: nat)" by simp
      with that show False by (simp add: digit_def)
    qed
    with 1 show ?case by (subst show_nat.simps) (auto simp: eq_commute [of "CHR 0x00"])
  qed
  then have "list_all (\<lambda>d. CHR 0x00 \<notin> set (fst d)) calibration_defaults"
    by (simp add: calibration_defaults_def list_all_iff)
  ultimately show "name \<in> fst ` set (all_defaults ib lm) \<Longrightarrow> CHR 0x00 \<notin> set name"
    by (auto simp: all_defaults_def list_all_iff)
qed

lemma image_defaults:
  "{''image_width'', ''image_height'', ''image_calib_width'', ''image_calib_height'',
    ''image_source_width'', ''image_source_height''} \<subseteq> fst ` set (all_defaults ib lm)"
proof -
  have "{''image_width'', ''image_height'', ''image_calib_width'', ''image_calib_height'',
    ''image_source_width'', ''image_source_height''} \<subseteq> fst ` set device_defaults"
    by (simp add: device_defaults_def)
  then show ?thesis by (auto simp: all_defaults_def)
qed

section \<open>Histories of user settings\<close>

inductive configured :: "bool \<Rightarrow> bool \<Rightarrow> ConfigState \<Rightarrow> bool" for ib lm where
  defaults: "configured ib lm (InitializeDefaults ib lm s)"
| set_by_user: "configured ib lm s \<Longrightarrow> json_ok v \<Longrightarrow> configured ib lm (snd (SetAttribute name v True s))"
| redirected: "configured ib lm s \<Longrightarrow> configured ib lm (SetOutputFile fileName sec s)"
| load: "configured ib lm s \<Longrightarrow>
    (\<And>contents. fs fileName = Some contents \<Longrightarrow> json_ok (read_value contents VNull)) \<Longrightarrow>
    configured ib lm (snd (LoadFromFile fs fileName sec s))"

text \<open>An attribute has the value the user gave it, or its default.\<close>

definition config_inv :: "bool \<Rightarrow> bool \<Rightarrow> ConfigState \<Rightarrow> bool" where
  "config_inv ib lm s \<longleftrightarrow>
     json_ok (VHash (ModifiedMap s)) \<and>
     (\<forall>name. map_of (AttributeMap s) name =
        map_option (\<lambda>a. case map_of (ModifiedMap s) name of None \<Rightarrow> a | Some v \<Rightarrow> a\<lparr>at_value := v\<rparr>)
          (map_of (default_map ib lm) name)) \<and>
     (\<forall>name v. map_of (ModifiedMap s) name = Some v \<longrightarrow>
        (\<exists>a. map_of (default_map ib lm) name = Some a \<and> at_access a = WRITE_ALWAYS))"

lemma config_inv_cong:
  "AttributeMap t = AttributeMap s \<Longrightarrow> ModifiedMap t = ModifiedMap s \<Longrightarrow>
   config_inv ib lm t \<longleftrightarrow> config_inv ib lm s"
  by (simp add: config_inv_def)

lemma NotifyClients_frame [simp]:
  "AttributeMap (NotifyClients n v s) = AttributeMap s" "ModifiedMap (NotifyClients n v s) = ModifiedMap s"
  "SectionToFileMap (NotifyClients n v s) = SectionToFileMap s"
  by (simp_all add: NotifyClients_def)

lemma SetOutputFile_frame [simp]:
  "AttributeMap (SetOutputFile f sec s) = AttributeMap s" "ModifiedMap (SetOutputFile f sec s) = ModifiedMap s"
  by (simp_all add: SetOutputFile_def Let_def)

text \<open>What a setting by the user does to an attribute that the user may write, and to the others.\<close>

lemma user_set:
  assumes "map_of (AttributeMap s) name = Some a" "at_access a = WRITE_ALWAYS"
  shows "fst (SetAttribute name v True s)"
    "map_of (AttributeMap (snd (SetAttribute name v True s))) =
       (map_of (AttributeMap s))(name \<mapsto> if value_eq (at_value a) v then a else a\<lparr>at_value := v\<rparr>)"
    "ModifiedMap (snd (SetAttribute name v True s)) =
       (if value_eq (at_value a) v then ModifiedMap s else map_set name v (ModifiedMap s))"
  using assms by (auto simp: SetAttribute_def map_of_map_set Let_def)

lemma user_set_refused:
  assumes "\<nexists>a. map_of (AttributeMap s) name = Some a \<and> at_access a = WRITE_ALWAYS"
  shows "AttributeMap (snd (SetAttribute name v True s)) = AttributeMap s"
    "ModifiedMap (snd (SetAttribute name v True s)) = ModifiedMap s"
proof -
  have "at_access a \<noteq> READ_ONLY \<Longrightarrow> at_access a \<noteq> WRITE_NOPUBLIC \<Longrightarrow> at_access a = WRITE_ALWAYS" for a
    by (cases "at_access a") auto
  with assms show "AttributeMap (snd (SetAttribute name v True s)) = AttributeMap s"
    "ModifiedMap (snd (SetAttribute name v True s)) = ModifiedMap s"
    by (auto simp: SetAttribute_def split: option.split)
qed

lemma user_set_inv:
  assumes inv: "config_inv ib lm s" and v: "json_ok v"
  shows "config_inv ib lm (snd (SetAttribute name v True s))"
proof (cases "\<exists>a. map_of (AttributeMap s) name = Some a \<and> at_access a = WRITE_ALWAYS")
  case False
  with inv show ?thesis
    using user_set_refused [OF False] config_inv_cong [of "snd (SetAttribute name v True s)" s] by simp
next
  case True
  then obtain a where a: "map_of (AttributeMap s) name = Some a" "at_access a = WRITE_ALWAYS" by blast
  note u = user_set [OF a, of v]
  obtain d where d: "map_of (default_map ib lm) name = Some d" "at_access d = WRITE_ALWAYS"
    using inv a by (auto simp: config_inv_def split: option.splits)
  have a_eq: "a = (case map_of (ModifiedMap s) name of None \<Rightarrow> d | Some v \<Rightarrow> d\<lparr>at_value := v\<rparr>)"
    using inv a(1) d(1) by (auto simp: config_inv_def)
  have "CHR 0x00 \<notin> set name"
    using d(1) default_dom [of ib lm] by (intro default_names [of name ib lm]) blast
  then have "json_ok (VHash (map_set name v (ModifiedMap s)))"
    using inv v by (intro json_ok_map_set) (simp_all add: config_inv_def del: json_ok.simps)
  then show ?thesis
    using inv u d a_eq by (auto simp: config_inv_def map_of_map_set simp del: json_ok.simps split: option.splits)
qed

lemma settings_inv:
  assumes "config_inv ib lm s" "\<forall>p\<in>set h. json_ok (snd p)"
  shows "config_inv ib lm (fold (\<lambda>(name, v) t. snd (SetAttribute name v True t)) h s)"
  using assms by (induction h arbitrary: s) (auto simp: user_set_inv)

lemma LoadFromFile_inv:
  assumes "config_inv ib lm s"
    and "\<And>contents. fs fileName = Some contents \<Longrightarrow> json_ok (read_value contents VNull)"
  shows "config_inv ib lm (snd (LoadFromFile fs fileName sec s))"
proof (cases "fs fileName")
  case None
  with assms(1) config_inv_cong [of "SetOutputFile fileName sec s" s] show ?thesis
    by (simp add: LoadFromFile_def)
next
  case (Some contents)
  let ?object = "read_value contents VNull" and ?s = "SetOutputFile fileName sec s"
  have s: "config_inv ib lm ?s" using assms(1) config_inv_cong [of ?s s] by simp
  have ok: "json_ok ?object" using assms(2) Some by blast
  show ?thesis
  proof (cases "\<exists>h. HashGet ?object sec = VHash h")
    case False
    with s Some show ?thesis by (auto simp: LoadFromFile_def Let_def split: dvalue.split)
  next
    case True
    then obtain h g where h: "HashGet ?object sec = VHash h" "?object = VHash g"
      by (auto simp: HashGet_def split: dvalue.splits)
    then have "(sec, VHash h) \<in> set g" by (auto simp: HashGet_def map_of_SomeD split: option.splits)
    with ok h(2) have "json_ok (VHash h)" by (auto simp del: json_ok.simps(2) simp: json_ok.simps(2) [of g])
    then have "config_inv ib lm (fold (\<lambda>(name, v) t. snd (SetAttribute name v True t)) h ?s)"
      by (intro settings_inv [OF s]) simp
    then show ?thesis
      using config_inv_cong [of "snd (LoadImageConfig t)" t ib lm for t] Some h
      by (auto simp: LoadFromFile_def Let_def split_beta IsHash_def)
  qed
qed

lemma configured_inv: "configured ib lm s \<Longrightarrow> config_inv ib lm s"
proof (induction rule: configured.induct)
  case (defaults s)
  have "map_option (\<lambda>a. a) m = m" for m :: "attribute option" by (cases m) simp_all
  then show ?case by (simp add: config_inv_def)
next
  case (redirected s fileName sec)
  then show ?case using config_inv_cong [of "SetOutputFile fileName sec s" s] by simp
qed (simp_all add: user_set_inv LoadFromFile_inv)

section \<open>Saving and loading\<close>

text \<open>Distinct settings that the user may make, made one after the other.\<close>

lemma settings_made:
  assumes "distinct (map fst h)"
    and "\<forall>p\<in>set h. \<exists>a. map_of (AttributeMap s) (fst p) = Some a \<and> at_access a = WRITE_ALWAYS"
  shows "map_of (AttributeMap (fold (\<lambda>(name, v) t. snd (SetAttribute name v True t)) h s)) name =
    (case map_of h name of
       None \<Rightarrow> map_of (AttributeMap s) name
     | Some v \<Rightarrow> map_option (\<lambda>a. if value_eq (at_value a) v then a else a\<lparr>at_value := v\<rparr>)
                  (map_of (AttributeMap s) name))"
  using assms
proof (induction h arbitrary: s)
  case (Cons p h)
  obtain k v where p: "p = (k, v)" by (cases p)
  obtain a where a: "map_of (AttributeMap s) k = Some a" "at_access a = WRITE_ALWAYS"
    using Cons.prems(2) p by auto
  let ?t = "snd (SetAttribute k v True s)"
  note u = user_set(2) [OF a, of v]
  have "\<forall>q\<in>set h. \<exists>b. map_of (AttributeMap ?t) (fst q) = Some b \<and> at_access b = WRITE_ALWAYS"
    using Cons.prems a by (auto simp: u)
  moreover have "map_of h k = None" using Cons.prems(1) p by (simp add: map_of_eq_None_iff)
  ultimately show ?case
    using Cons.IH [of ?t] Cons.prems(1) p a by (auto simp: u split: option.split)
qed simp

lemma read_sizes_succeeds:
  "\<forall>p\<in>set l. get (fst p) \<noteq> None \<Longrightarrow> fst (read_sizes l get i)"
  by (induction l arbitrary: i) (auto split: option.split)

lemma LoadImageConfig_succeeds:
  assumes "fst ` set (all_defaults ib lm) \<subseteq> dom (map_of (AttributeMap s))"
  shows "fst (LoadImageConfig s)"
proof -
  have *: "GetAttribute To_int name s \<noteq> None" if "name \<in> fst ` set (all_defaults ib lm)" for name
    using subsetD [OF assms that] by (auto simp: GetAttribute_def)
  show ?thesis
  proof (cases "Option.bind (GetAttribute To_string ''camera_mode'' s) image_mode")
    case None
    have "fst (read_sizes l (\<lambda>name. GetAttribute To_int name s) i)"
      if "fst ` set l \<subseteq> fst ` set (all_defaults ib lm)" for l i
      using that * by (intro read_sizes_succeeds) blast
    with image_defaults [of ib lm] None show ?thesis
      unfolding LoadImageConfig_def Let_def split_beta by (simp del: read_sizes.simps)
  next
    case (Some i)
    then show ?thesis by (simp add: LoadImageConfig_def)
  qed
qed

lemma canon_json_hash: "json_ok (VHash h) \<Longrightarrow> distinct (map fst h)"
  by (simp add: strict_sorted_iff)

lemma number_ok [simp]: "json_ok (integer_value i)" "json_ok (double_value x)"
  by (simp_all add: integer_value_def double_value_def number_value_def scalar_ok_def positive_value_def
      negative_value_def Let_def split: prod.split)

lemma canon_ok: "json_ok v \<Longrightarrow> json_ok (canon v)"
proof (induction v rule: canon.induct)
  case (2 h)
  then show ?case by (auto simp: comp_def)
qed (auto simp: scalar_canon_def scalar_ok_def split: ieee.split)

text \<open>What a save writes, and what a fresh store reads back from it.\<close>

lemma settings_read_back:
  assumes inv: "config_inv ib lm s" and set: "ModifiedMap s \<noteq> []" "output_file sec s = Some fileName"
    and "writable (fileName @ ''.tmp'')" "CHR 0x00 \<notin> set sec"
    and ok: "\<And>contents. fs fileName = Some contents \<Longrightarrow> json_ok (read_value contents VNull)"
  obtains fs' contents t where
    "Save writable True sec False fs s = (True, fs')" "fs' fileName = Some contents"
    "json_ok (read_value contents VNull)"
    "\<And>s0. LoadFromFile fs' fileName sec (InitializeDefaults ib lm s0) = (None, t s0)"
    "\<And>s0 name. map_of (AttributeMap (t s0)) name =
       (case map_of (ModifiedMap s) name of
          None \<Rightarrow> map_of (default_map ib lm) name
        | Some v \<Rightarrow> map_option (\<lambda>a. if value_eq (at_value a) (canon v) then a else a\<lparr>at_value := canon v\<rparr>)
                     (map_of (default_map ib lm) name))"
    "\<And>old other. fs fileName = Some old \<Longrightarrow> other \<noteq> sec \<Longrightarrow>
       HashGet (read_value contents VNull) other = canon (HashGet (read_value old VNull) other)"
proof -
  define M where "M = ModifiedMap s"
  have M: "json_ok (VHash M)"
    "\<And>name v. map_of M name = Some v \<Longrightarrow> \<exists>a. map_of (default_map ib lm) name = Some a \<and> at_access a = WRITE_ALWAYS"
    using inv by (simp_all add: config_inv_def M_def del: json_ok.simps)
  define old where "old = (case fs fileName of None \<Rightarrow> VNull | Some contents \<Rightarrow> read_value contents VNull)"
  define base where "base = (case old of VHash h \<Rightarrow> h | _ \<Rightarrow> [])"
  have base: "(if IsHash old then old else VHash []) = VHash base" "json_ok (VHash base)"
  proof -
    have "json_ok old" using ok by (auto simp: old_def scalar_ok_def split: option.split)
    then show "(if IsHash old then old else VHash []) = VHash base" "json_ok (VHash base)"
      by (cases old; simp add: base_def IsHash_def)+
  qed
  define contents where "contents = ToJSON False True (fst (HashSet (VHash base) sec (VHash M)))"
  define fs' where "fs' = (fs(fileName @ ''.tmp'' \<mapsto> contents))(fileName \<mapsto> contents, fileName @ ''.tmp'' := None)"
  have save: "Save writable True sec False fs s = (True, fs')" "fs' fileName = Some contents"
    using set assms(4) base(1)
    by (simp_all add: Save_def M_def [symmetric] old_def [symmetric] Let_def contents_def fs'_def)
  note r = json_text.sections_read_back [OF base(2) M(1) assms(5), where e = False and p = True, folded contents_def]
  have kept: "HashGet (read_value contents VNull) other = canon (HashGet (read_value o' VNull) other)"
    if "fs fileName = Some o'" "other \<noteq> sec" for o' other
    using r(3) [OF that(2)] that(1) base(1)
    by (auto simp: old_def base_def IsHash_def HashGet_def scalar_canon_def split: dvalue.splits)
  have "json_ok (fst (HashSet (VHash base) sec (VHash M)))"
    using json_ok_map_set [OF base(2) M(1) assms(5)] by (simp add: HashSet_def)
  then have again: "json_ok (read_value contents VNull)"
    using json_text.read_back [of "fst (HashSet (VHash base) sec (VHash M))" False True] canon_ok
    by (simp add: contents_def)
  define t0 where "t0 s0 = SetOutputFile fileName sec (InitializeDefaults ib lm s0)" for s0
  have t0: "AttributeMap (t0 s0) = default_map ib lm" for s0 by (simp add: t0_def)
  let ?h = "map (\<lambda>p. (fst p, canon (snd p))) M"
  let ?t = "\<lambda>s0. fold (\<lambda>(name, v) t. snd (SetAttribute name v True t)) ?h (t0 s0)"
  have g: "HashGet (read_value contents VNull) sec = VHash ?h" using r(2) by simp
  have mh: "map_of ?h name = map_option canon (map_of M name)" for name by (induction M) auto
  have t: "map_of (AttributeMap (?t s0)) name =
      (case map_of M name of
         None \<Rightarrow> map_of (default_map ib lm) name
       | Some v \<Rightarrow> map_option (\<lambda>a. if value_eq (at_value a) (canon v) then a else a\<lparr>at_value := canon v\<rparr>)
                    (map_of (default_map ib lm) name))" for s0 name
  proof -
    have "distinct (map fst ?h)" using canon_json_hash [OF M(1)] by (simp add: comp_def)
    moreover have "\<exists>a. map_of (default_map ib lm) (fst p) = Some a \<and> at_access a = WRITE_ALWAYS"
      if p: "p \<in> set ?h" for p
    proof -
      from p canon_json_hash [OF M(1)] obtain v where "map_of M (fst p) = Some v" by auto
      with M(2) show ?thesis by blast
    qed
    ultimately show ?thesis
      using settings_made [of ?h "t0 s0" name] unfolding t0 mh by (cases "map_of M name") auto
  qed
  have "fst ` set (all_defaults ib lm) \<subseteq> dom (map_of (AttributeMap (?t s0)))" for s0
    using default_dom [of ib lm] M(2) by (force simp: t split: option.split)
  note images = LoadImageConfig_succeeds [OF this]
  have load: "LoadFromFile fs' fileName sec (InitializeDefaults ib lm s0) = (None, snd (LoadImageConfig (?t s0)))" for s0
    using save(2) r(1) g images by (simp add: LoadFromFile_def Let_def split_beta t0_def)
  show thesis
    using that [OF save again load, unfolded LoadImageConfig_frame] t kept by (simp add: M_def)
qed

text \<open>
  C14 A user's settings survive. After any history of settings by the user, of loads and of changes of
  the output file, \<open>Save\<close> stores them: with the section's file writable, and holding a well-formed
  value or nothing, a fresh object with the defaults that loads the file again has, for every attribute,
  the value it had (up to what the text keeps of a value), and the other sections of the file are kept.
\<close>

theorem settings_survive:
  assumes "configured ib lm s" "ModifiedMap s \<noteq> []" "output_file sec s = Some fileName"
    and "writable (fileName @ ''.tmp'')" "CHR 0x00 \<notin> set sec"
    and "\<And>contents. fs fileName = Some contents \<Longrightarrow> json_ok (read_value contents VNull)"
  shows "\<exists>fs' contents. Save writable True sec False fs s = (True, fs') \<and> fs' fileName = Some contents \<and>
    fst (LoadFromFile fs' fileName sec (InitializeDefaults ib lm s0)) = None \<and>
    (\<forall>name \<in> fst ` set (all_defaults ib lm). \<exists>v w.
       GetAttribute id name s = Some v \<and>
       GetAttribute id name (snd (LoadFromFile fs' fileName sec (InitializeDefaults ib lm s0))) = Some w \<and>
       (w = v \<or> value_eq w (canon v))) \<and>
    (\<forall>old other. fs fileName = Some old \<longrightarrow> other \<noteq> sec \<longrightarrow>
       HashGet (read_value contents VNull) other = canon (HashGet (read_value old VNull) other))"
proof -
  note inv = configured_inv [OF assms(1)]
  obtain fs' contents t where save: "Save writable True sec False fs s = (True, fs')" "fs' fileName = Some contents"
    and load: "\<And>s0. LoadFromFile fs' fileName sec (InitializeDefaults ib lm s0) = (None, t s0)"
    and t: "\<And>s0 name. map_of (AttributeMap (t s0)) name =
       (case map_of (ModifiedMap s) name of
          None \<Rightarrow> map_of (default_map ib lm) name
        | Some v \<Rightarrow> map_option (\<lambda>a. if value_eq (at_value a) (canon v) then a else a\<lparr>at_value := canon v\<rparr>)
                     (map_of (default_map ib lm) name))"
    and kept: "\<And>old other. fs fileName = Some old \<Longrightarrow> other \<noteq> sec \<Longrightarrow>
       HashGet (read_value contents VNull) other = canon (HashGet (read_value old VNull) other)"
    by (rule settings_read_back [of ib lm s sec fileName writable fs, OF inv assms(2-5)]) (use assms(6) in blast)+
  have "\<exists>v w. GetAttribute id name s = Some v \<and> GetAttribute id name (t s0) = Some w \<and> (w = v \<or> value_eq w (canon v))"
    if "name \<in> fst ` set (all_defaults ib lm)" for name
  proof -
    from that default_dom [of ib lm] obtain a where a: "map_of (default_map ib lm) name = Some a" by blast
    have "map_of (AttributeMap s) name =
        Some (case map_of (ModifiedMap s) name of None \<Rightarrow> a | Some v \<Rightarrow> a\<lparr>at_value := v\<rparr>)"
      using inv a by (simp add: config_inv_def)
    with a t [of s0 name] show ?thesis
      by (cases "map_of (ModifiedMap s) name") (auto simp: GetAttribute_def value_eq_def)
  qed
  with save kept show ?thesis by (simp add: load)
qed

lemma mode_default:
  "map_of (default_map ib lm) ''os_interaction_mode'' =
     Some \<lparr>at_value = VOther, at_access = WRITE_ALWAYS\<rparr>"
proof -
  define entry :: "default \<Rightarrow> string \<times> attribute"
    where "entry = (\<lambda>(name, v, access). (name, \<lparr>at_value = v, at_access = access\<rparr>))"
  have "map_of (map entry (rev calibration_defaults)) ''os_interaction_mode'' = None"
    by (auto simp: map_of_eq_None_iff calibration_defaults_def entry_def)
  moreover have "map_of (map entry (rev (menu_defaults lm))) ''os_interaction_mode'' = None"
    by (simp add: menu_defaults_def entry_def)
  moreover have "map_of (map entry (rev (update_defaults ib))) ''os_interaction_mode'' = None"
    by (simp add: update_defaults_def entry_def)
  moreover have "map_of (map entry (rev interaction_defaults)) ''os_interaction_mode'' = None"
    by (simp add: interaction_defaults_def entry_def)
  moreover have "map_of (map entry (rev tracking_defaults)) ''os_interaction_mode'' =
      Some \<lparr>at_value = VOther, at_access = WRITE_ALWAYS\<rparr>"
    by (simp add: tracking_defaults_def entry_def)
  ultimately show ?thesis
    unfolding map_of_default_map all_defaults_def entry_def [symmetric]
    by (simp add: map_add_def)
qed

definition sample_settings :: ConfigState where
  "sample_settings =
     snd (SetAttribute ''os_interaction_mode'' (VInt 2) True
       (SetOutputFile ''touchless.json'' ''configuration'' (InitializeDefaults False False initial_state)))"

lemma sample_settings_fields:
  "ModifiedMap sample_settings = [(''os_interaction_mode'', VInt 2)]"
  "output_file ''configuration'' sample_settings = Some ''touchless.json''"
  "GetAttribute id ''os_interaction_mode'' sample_settings = Some (VInt 2)"
proof -
  have e: "\<not> value_eq VOther (VInt 2)"
    by (simp add: value_eq_def ToJSON_def toStream_def indentation_def pretty_def scalar_text_def show_int_def
        show_nat.simps)
  let ?s = "SetOutputFile ''touchless.json'' ''configuration'' (InitializeDefaults False False initial_state)"
  have "map_of (AttributeMap ?s) ''os_interaction_mode'' = Some \<lparr>at_value = VOther, at_access = WRITE_ALWAYS\<rparr>"
    by (simp add: mode_default)
  from user_set [OF this, of "VInt 2"] e
  show "ModifiedMap sample_settings = [(''os_interaction_mode'', VInt 2)]"
    "GetAttribute id ''os_interaction_mode'' sample_settings = Some (VInt 2)"
    by (simp_all add: sample_settings_def GetAttribute_def)
  show "output_file ''configuration'' sample_settings = Some ''touchless.json''"
    using e by (simp add: sample_settings_def output_file_def SetAttribute_def mode_default SetOutputFile_def
        initial_state_def map_of_map_set)
qed

theorem settings_survive_witness:
  "\<exists>fs' contents w. Save (\<lambda>n. True) True ''configuration'' False (\<lambda>n. None) sample_settings = (True, fs') \<and>
     fs' ''touchless.json'' = Some contents \<and>
     GetAttribute id ''os_interaction_mode'' (snd (LoadFromFile fs' ''touchless.json'' ''configuration''
       (InitializeDefaults False False initial_state))) = Some w \<and> (w = VInt 2 \<or> value_eq w (VInt 2))"
proof -
  have c: "configured False False sample_settings"
    unfolding sample_settings_def by (intro configured.intros) (simp add: scalar_ok_def)
  have "''os_interaction_mode'' \<in> fst ` set (all_defaults False False)"
    using default_dom [of False False] mode_default by blast
  with settings_survive [OF c _ sample_settings_fields(2), of "\<lambda>n. True" "\<lambda>n. None" initial_state]
    sample_settings_fields(1,3)
  show ?thesis by (force simp: scalar_canon_def)
qed

section \<open>Resetting\<close>

text \<open>
  C18 A reset to the defaults makes the file unreadable. \<open>Save\<close> called with \<open>toDefault\<close> reports success, but
  when the file has no other section the text it leaves there has no value after the section's key:
  loading it fails, whatever the state of the store.
\<close>

theorem reset_unreadable:
  assumes "output_file sec s = Some fileName" "writable (fileName @ ''.tmp'')" "CHR 0x00 \<notin> set sec"
    and "\<And>old. fs fileName = Some old \<Longrightarrow> \<exists>v. read_value old VNull = VHash [(sec, v)]"
  shows "\<exists>fs'. Save writable True sec True fs s = (True, fs') \<and>
    LoadFromFile fs' fileName sec s0 = (Some FileNotParsed, SetOutputFile fileName sec s0)"
proof -
  define old where "old = (case fs fileName of None \<Rightarrow> VNull | Some contents \<Rightarrow> read_value contents VNull)"
  have base: "fst (HashSet (if IsHash old then old else VHash []) sec VOther) = VHash [(sec, VOther)]"
    using assms(4) by (auto simp: old_def IsHash_def HashSet_def split: option.split)
  define contents where "contents = ToJSON False True (VHash [(sec, VOther)])"
  define fs' where "fs' = (fs(fileName @ ''.tmp'' \<mapsto> contents))(fileName \<mapsto> contents, fileName @ ''.tmp'' := None)"
  have save: "Save writable True sec True fs s = (True, fs')" "fs' fileName = Some contents"
    using assms(1,2) base
    by (simp_all add: Save_def old_def [symmetric] Let_def contents_def fs'_def)
  define rest where "rest = CHR '' '' # new_line 0 @ [CHR 0x7D]"
  have written: "contents = CHR 0x7B # new_line 2 @ json_string False sec @ CHR '':'' # rest"
    by (simp add: contents_def ToJSON_def toStream_def nesting_def pretty_def indentation_def string_text_def
        scalar_text_def rest_def)
  have "skipWhitespace rest = Some [CHR 0x7D]"
    using skip_blank [of "'' '' @ new_line 0" "CHR 0x7D" "[]"]
    by (simp add: blank_def new_line_def is_blank_def rest_def)
  moreover have "parseNumber [CHR 0x7D] = None"
    by (simp add: parseNumber_def peekChar_def scan_int_def getDigit_def is_digit_def)
  ultimately have "parseValue rest = None" by (simp add: parseValue.simps)
  then have "parse_members [] (new_line 2 @ json_string False sec @ CHR '':'' # rest) = None"
    using parse_key_text [OF assms(3), of False rest]
      skip_begins [OF literal_begins(4), of "new_line 2" False sec "CHR '':'' # rest"]
    by (subst parse_members.simps) (simp add: json_string_def)
  then have "parseValue contents = None" unfolding written by (simp only: parse_brackets)
  with save show ?thesis by (simp add: LoadFromFile_def read_value_def IsHash_def Let_def)
qed

theorem reset_unreadable_witness:
  "\<exists>fs'. Save (\<lambda>n. True) True ''configuration'' True (\<lambda>n. None) sample_settings = (True, fs') \<and>
     fst (LoadFromFile fs' ''touchless.json'' ''configuration'' sample_settings) = Some FileNotParsed"
  using reset_unreadable [OF sample_settings_fields(2), of "\<lambda>n. True" "\<lambda>n. None" sample_settings] by force

end
