(* ===== verification/Listener.thy ===== *)
theory Listener
  imports Mode_Factory Overlay_Actions OS_Interaction Configuration
begin

text \<open>
  The object that receives the callbacks of the controller, \<open>source/TouchlessUI/TouchlessListener.cpp\<close>, with
  the drivers, the interaction manager and the configuration it owns. Both drivers point to one virtual
  screen, which is kept in the operating system driver's record. The requests of a manager during a call
  are what the call adds to its list; they reach the drivers at once.

  Everything outside the program that a call meets is its \<open>world\<close>: the SDK, the system, the monitors, the
  file system's answers, and what uninitialised members hold.
\<close>

section \<open>State\<close>

record ('f, 'h, 'p, 'd) world =
  w_sdk :: "('f, 'h, 'p) env"
  w_os :: "'d os_env"
  w_screens :: "LPScreen list"
  w_configPath :: string
  w_internal_build :: bool
  w_language_menu :: bool
  w_writable :: "string \<Rightarrow> bool"
  w_rename_ok :: bool
  w_icon_files :: "nat \<Rightarrow> bool"
  w_icons :: "(int \<times> int) option"
  w_raw :: raw_members
  w_buttonDown :: bool
  w_clickedButtons :: "bool list"

record ('f, 'p, 'd) listener =
  l_lastFrame :: 'f
  l_updateSettings :: bool
  l_useMultipleMonitors :: bool
  l_ready :: bool
  l_waiting :: "int option"
  l_osInteractionDriver :: "'d os_driver"
  l_overlayDriver :: overlay
  l_desiredMode :: int
  l_interactionManager :: "('f, 'p) manager option"
  l_basic :: bm_config
  l_config :: ConfigState
  l_files :: files
  l_signals :: "(bool \<times> int \<times> bool) list"
  l_past :: "action list"

text \<open>The drivers' answers, as the managers see them.\<close>

definition manager_env ::
  "('f, 'h, 'p, 'd) world \<Rightarrow> 'd os_driver \<Rightarrow> overlay \<Rightarrow> ('f, 'h, 'p) env" where
  "manager_env w d ov =
     (w_sdk w)\<lparr>e_platform := ge_platform (w_os w),
       e_overlay := ov\<lparr>m_virtualScreen := o_virtualScreen d\<rparr>,
       e_touchAvailable := touchAvailable (w_os w) d, e_touchVersion := touchVersion (w_os w) d,
       e_useCharmHelper := useCharmHelper (w_os w) d\<rparr>"

abbreviation l_env :: "('f, 'h, 'p, 'd) world \<Rightarrow> ('f, 'p, 'd) listener \<Rightarrow> ('f, 'h, 'p) env" where
  "l_env w l \<equiv> manager_env w (l_osInteractionDriver l) (l_overlayDriver l)"

text \<open>Carry out what a manager has asked for.\<close>

definition drivers_perform ::
  "('f, 'h, 'p, 'd) world \<Rightarrow> action list \<Rightarrow> ('f, 'p, 'd) listener \<Rightarrow> ('f, 'p, 'd) listener" where
  "drivers_perform w as l =
     l\<lparr>l_osInteractionDriver := snd (os_run (map (Pair (w_os w)) as) (l_osInteractionDriver l)),
       l_overlayDriver := ov_run as (l_overlayDriver l)\<rparr>"

definition new_requests :: "('f, 'p) manager \<Rightarrow> ('f, 'p) manager \<Rightarrow> action list" where
  "new_requests m m' = drop (length (manager_out m)) (manager_out m')"

definition emit_signal :: "bool \<Rightarrow> int \<Rightarrow> ('f, 'p, 'd) listener \<Rightarrow> ('f, 'p, 'd) listener" where
  "emit_signal isConnected mode l =
     l\<lparr>l_signals := l_signals l @ [(isConnected, mode, l_useMultipleMonitors l)]\<rparr>"

definition cancel_events ::
  "('f, 'h, 'p, 'd) world \<Rightarrow> ('f, 'p, 'd) listener \<Rightarrow> ('f, 'p, 'd) listener" where
  "cancel_events w l = l\<lparr>l_osInteractionDriver := cancelGestureEvents (w_os w) (l_osInteractionDriver l)\<rparr>"

section \<open>Operations\<close>

definition use_default_screen ::
  "('f, 'h, 'p, 'd) world \<Rightarrow> bool \<Rightarrow> ('f, 'p, 'd) listener \<Rightarrow> ('f, 'p, 'd) listener" where
  "use_default_screen w use l =
     l\<lparr>l_osInteractionDriver := useDefaultScreen use (w_screens w) (l_osInteractionDriver l)\<rparr>"

definition updateDefaultScreen ::
  "('f, 'h, 'p, 'd) world \<Rightarrow> ('f, 'p, 'd) listener \<Rightarrow> ('f, 'p, 'd) listener" where
  "updateDefaultScreen w l =
     (if l_useMultipleMonitors l
      then use_default_screen w (numTouchScreens (w_os w) (l_osInteractionDriver l) = 1) l
      else use_default_screen w True l)"

text \<open>Make the manager of the desired mode; an exception of a constructor would end the program.\<close>

definition new_manager ::
  "('f, 'h, 'p, 'd) world \<Rightarrow> ('f, 'p, 'd) listener \<Rightarrow> ('f, 'p, 'd) listener outcome" where
  "new_manager w l =
     (case New (l_env w l) (w_raw w) (l_desiredMode l) (l_basic l) of
        (Inl e, c) \<Rightarrow> Crash
      | (Inr m, c) \<Rightarrow> Done (l\<lparr>l_interactionManager := m, l_basic := c\<rparr>))"

text \<open>\<open>delete m_interactionManager\<close>.\<close>

definition delete_manager ::
  "('f, 'h, 'p, 'd) world \<Rightarrow> ('f, 'p, 'd) listener \<Rightarrow> ('f, 'p, 'd) listener outcome" where
  "delete_manager w l =
     (case l_interactionManager l of
        None \<Rightarrow> Done l
      | Some m \<Rightarrow>
          bind_outcome (manager_destroy (l_env w l) (l_basic l) m)
            (\<lambda>m'. Done ((drivers_perform w (new_requests m m') l)
                \<lparr>l_interactionManager := None, l_past := l_past l @ manager_out m'\<rparr>)))"

text \<open>The file that the first start leaves when there is none: an empty section.\<close>

definition empty_config :: dvalue where "empty_config = VHash [(''configuration'', VHash [])]"

definition first_config :: "('f, 'h, 'p, 'd) world \<Rightarrow> files \<Rightarrow> files" where
  "first_config w fs =
     (if fs (w_configPath w) = None \<and> w_writable w (w_configPath w)
      then fs(w_configPath w \<mapsto> ToJSON True False empty_config) else fs)"

definition TouchlessListener ::
  "('f, 'h, 'p, 'd) world \<Rightarrow> bm_config \<Rightarrow> ConfigState \<Rightarrow> files \<Rightarrow> ('f, 'p, 'd) listener outcome" where
  "TouchlessListener w c config fs =
     (let config0 = InitializeDefaults (w_internal_build w) (w_language_menu w) config;
          fs1 = first_config w fs;
          (_, _, config1) = LoadFromFile_verbose fs1 (w_configPath w) False ''configuration'' config0;
          v = LPVirtualScreen (w_screens w);
          l = \<lparr>l_lastFrame = invalid_frame (w_sdk w), l_updateSettings = False, l_useMultipleMonitors = False,
               l_ready = False, l_waiting = None,
               l_osInteractionDriver = OSInteractionDriver (w_buttonDown w) (w_clickedButtons w) v,
               l_overlayDriver = OverlayDriver v,
               l_desiredMode = OUTPUT_MODE_DISABLED, l_interactionManager = None, l_basic = c,
               l_config = config1, l_files = fs1, l_signals = [], l_past = []\<rparr>
      in bind_outcome (new_manager w l)
           (\<lambda>l1. Done (updateDefaultScreen w
              (l1\<lparr>l_osInteractionDriver := snd (initializeTouch (w_os w) (l_osInteractionDriver l1)),
                  l_overlayDriver := initializeOverlay (w_icons w) (w_icon_files w) (l_overlayDriver l1)\<rparr>))))"

text \<open>
  The objects that the listener owns and its destructor deletes, and which of the drivers a request of a
  manager goes to.
\<close>

datatype owned = OwnedOsDriver | OwnedOverlayDriver | OwnedManager

definition asked_driver :: "action \<Rightarrow> owned" where
  "asked_driver a =
     (case a of
        SetIconVisibility i v \<Rightarrow> OwnedOverlayDriver
      | DrawRasterIcon i x y v vel d r c al \<Rightarrow> OwnedOverlayDriver
      | DrawImageIcon i j x y v \<Rightarrow> OwnedOverlayDriver
      | FlushOverlay \<Rightarrow> OwnedOverlayDriver
      | _ \<Rightarrow> OwnedOsDriver)"

text \<open>
  One \<open>delete\<close>. The objects freed so far are kept beside the listener. Deleting a driver frees it; deleting
  the manager runs its destructor first, and when that makes a request of a driver that has been freed it calls
  a method of an object that does not exist any more, which is undefined: \<open>Crash\<close>. What the destructor only
  reads of the drivers is not looked at.
\<close>

definition delete_member ::
  "('f, 'h, 'p, 'd) world \<Rightarrow> owned \<Rightarrow> owned list \<times> ('f, 'p, 'd) listener \<Rightarrow>
   (owned list \<times> ('f, 'p, 'd) listener) outcome" where
  "delete_member w x = (\<lambda>(freed, l).
     case x of
       OwnedManager \<Rightarrow>
         (case l_interactionManager l of
            None \<Rightarrow> Done (x # freed, l)
          | Some m \<Rightarrow>
              bind_outcome (manager_destroy (l_env w l) (l_basic l) m)
                (\<lambda>m'. if list_ex (\<lambda>a. asked_driver a \<in> set freed) (new_requests m m') then Crash
                      else Done (x # freed, (drivers_perform w (new_requests m m') l)
                        \<lparr>l_interactionManager := None, l_past := l_past l @ manager_out m'\<rparr>)))
     | _ \<Rightarrow> Done (x # freed, l))"

fun delete_members ::
  "('f, 'h, 'p, 'd) world \<Rightarrow> owned list \<Rightarrow> owned list \<times> ('f, 'p, 'd) listener \<Rightarrow>
   (owned list \<times> ('f, 'p, 'd) listener) outcome" where
  "delete_members w [] s = Done s"
| "delete_members w (x # xs) s = bind_outcome (delete_member w x s) (delete_members w xs)"

definition TouchlessListener_destroy ::
  "('f, 'h, 'p, 'd) world \<Rightarrow> ('f, 'p, 'd) listener \<Rightarrow> (owned list \<times> ('f, 'p, 'd) listener) outcome" where
  "TouchlessListener_destroy w l =
     delete_members w [OwnedOsDriver, OwnedOverlayDriver, OwnedManager] ([], l)"

text \<open>
  The connection reads the settings, then waits until the user interface is ready; the wait is over
  when \<open>setReady\<close> is called.
\<close>

definition onConnect :: "('f, 'p, 'd) listener \<Rightarrow> ('f, 'p, 'd) listener" where
  "onConnect l =
     (let tempMode = (case GetAttribute To_int ''os_interaction_mode'' (l_config l) of
                        None \<Rightarrow> OUTPUT_MODE_DISABLED | Some m \<Rightarrow> sint m);
          multi = (case GetAttribute To_bool ''os_interaction_multi_monitor'' (l_config l) of
                     None \<Rightarrow> l_useMultipleMonitors l | Some b \<Rightarrow> b);
          l1 = l\<lparr>l_desiredMode := tempMode, l_useMultipleMonitors := multi\<rparr>
      in if l_ready l1 then emit_signal True tempMode l1 else l1\<lparr>l_waiting := Some tempMode\<rparr>)"

definition setReady :: "('f, 'p, 'd) listener \<Rightarrow> ('f, 'p, 'd) listener" where
  "setReady l =
     (case l_waiting l of
        None \<Rightarrow> l\<lparr>l_ready := True\<rparr>
      | Some mode \<Rightarrow> emit_signal True mode (l\<lparr>l_ready := True, l_waiting := None\<rparr>))"

definition onDisconnect ::
  "('f, 'h, 'p, 'd) world \<Rightarrow> ('f, 'p, 'd) listener \<Rightarrow> ('f, 'p, 'd) listener" where
  "onDisconnect w l =
     (let l1 = (cancel_events w l)\<lparr>l_lastFrame := invalid_frame (w_sdk w)\<rparr>
      in emit_signal False (l_desiredMode l1) l1)"

definition onExit :: "('f, 'h, 'p, 'd) world \<Rightarrow> ('f, 'p, 'd) listener \<Rightarrow> ('f, 'p, 'd) listener" where
  "onExit w l = emit_signal False (l_desiredMode l) (cancel_events w l)"

definition save_settings ::
  "('f, 'h, 'p, 'd) world \<Rightarrow> ('f, 'p, 'd) listener \<Rightarrow> ('f, 'p, 'd) listener" where
  "save_settings w l =
     (if l_updateSettings l then
        (let config1 = snd (SetAttribute ''os_interaction_multi_monitor'' (VBool (l_useMultipleMonitors l)) True
                         (l_config l));
             config2 = snd (SetAttribute ''os_interaction_mode'' (VInt (word_of_int (l_desiredMode l))) True config1)
         in l\<lparr>l_config := config2,
              l_files := snd (Save (w_writable w) (w_rename_ok w) ''configuration'' False (l_files l) config2),
              l_updateSettings := False\<rparr>)
      else l)"

definition onFrame ::
  "('f, 'h, 'p, 'd) world \<Rightarrow> 'f \<Rightarrow> ('f, 'p, 'd) listener \<Rightarrow> ('f, 'p, 'd) listener outcome" where
  "onFrame w frame l =
     (let l1 = save_settings w l in
      case l_interactionManager l1 of
        None \<Rightarrow> Done (l1\<lparr>l_lastFrame := frame\<rparr>)
      | Some m \<Rightarrow>
          bind_outcome (manager_processFrame (l_env w l1) (l_basic l1) frame (l_lastFrame l1) m)
            (\<lambda>m'. Done ((drivers_perform w (new_requests m m') l1)
                \<lparr>l_interactionManager := Some m', l_lastFrame := frame\<rparr>)))"

definition onFocusGained ::
  "('f, 'h, 'p, 'd) world \<Rightarrow> ('f, 'p, 'd) listener \<Rightarrow> ('f, 'p, 'd) listener" where
  "onFocusGained w l = updateDefaultScreen w l"

definition onFocusLost ::
  "('f, 'h, 'p, 'd) world \<Rightarrow> ('f, 'p, 'd) listener \<Rightarrow> ('f, 'p, 'd) listener" where
  "onFocusLost w l = (cancel_events w l)\<lparr>l_lastFrame := invalid_frame (w_sdk w)\<rparr>"

definition setDesiredMode ::
  "('f, 'h, 'p, 'd) world \<Rightarrow> int \<Rightarrow> ('f, 'p, 'd) listener \<Rightarrow> ('f, 'p, 'd) listener outcome" where
  "setDesiredMode w mode l =
     bind_outcome (delete_manager w (l\<lparr>l_desiredMode := mode, l_updateSettings := True\<rparr>))
       (\<lambda>l1. new_manager w (cancel_events w l1))"

definition setUseMultipleMonitors ::
  "('f, 'h, 'p, 'd) world \<Rightarrow> bool \<Rightarrow> ('f, 'p, 'd) listener \<Rightarrow> ('f, 'p, 'd) listener" where
  "setUseMultipleMonitors w use l =
     updateDefaultScreen w (l\<lparr>l_useMultipleMonitors := use, l_updateSettings := True\<rparr>)"

definition getDesiredMode :: "('f, 'p, 'd) listener \<Rightarrow> int" where "getDesiredMode l = l_desiredMode l"

definition getUseMultipleMonitors :: "('f, 'p, 'd) listener \<Rightarrow> bool" where
  "getUseMultipleMonitors l = l_useMultipleMonitors l"

definition supportedTouchVersion :: "('f, 'h, 'p, 'd) world \<Rightarrow> ('f, 'p, 'd) listener \<Rightarrow> int" where
  "supportedTouchVersion w l = touchVersion (w_os w) (l_osInteractionDriver l)"

text \<open>The system reports that the displays have changed; the virtual screen's own handler reads them anew.\<close>

definition displays_changed ::
  "('f, 'h, 'p, 'd) world \<Rightarrow> ('f, 'p, 'd) listener \<Rightarrow> ('f, 'p, 'd) listener" where
  "displays_changed w l =
     l\<lparr>l_osInteractionDriver := (l_osInteractionDriver l)
         \<lparr>o_virtualScreen := Update (w_screens w) (o_virtualScreen (l_osInteractionDriver l))\<rparr>\<rparr>"

section \<open>Events\<close>

datatype 'f event =
    Connect | Disconnect | Exit | Frame 'f | FocusGained | FocusLost
  | SetMode int | SetMultipleMonitors bool | SetReady | DisplaysChanged

definition listener_step ::
  "('f, 'h, 'p, 'd) world \<Rightarrow> 'f event \<Rightarrow> ('f, 'p, 'd) listener \<Rightarrow> ('f, 'p, 'd) listener outcome" where
  "listener_step w e l =
     (case e of
        Connect \<Rightarrow> Done (onConnect l)
      | Disconnect \<Rightarrow> Done (onDisconnect w l)
      | Exit \<Rightarrow> Done (onExit w l)
      | Frame f \<Rightarrow> onFrame w f l
      | FocusGained \<Rightarrow> Done (onFocusGained w l)
      | FocusLost \<Rightarrow> Done (onFocusLost w l)
      | SetMode m \<Rightarrow> setDesiredMode w m l
      | SetMultipleMonitors use \<Rightarrow> Done (setUseMultipleMonitors w use l)
      | SetReady \<Rightarrow> Done (setReady l)
      | DisplaysChanged \<Rightarrow> Done (displays_changed w l))"

end
