(* ===== verification/Requests.thy ===== *)
theory Requests
  imports Mode_Contract "HOL-Library.Sublist"
begin

text \<open>
  A manager's list of requests only grows: no operation of a mode takes back or changes what it has
  asked for. This is what lets the owner hand the drivers, after each call, the requests that the call
  has added.
\<close>

section \<open>Invariants that the machine does not touch\<close>

locale handler_invariant =
  fixes H :: "('st, 'm) handler"
    and P :: "('st, 'm) machine_scheme \<Rightarrow> bool"
  assumes machine_fields:
      "P (s\<lparr>sm_running := r\<rparr>) \<longleftrightarrow> P s" "P (s\<lparr>sm_next := n\<rparr>) \<longleftrightarrow> P s" "P (s\<lparr>sm_current := c\<rparr>) \<longleftrightarrow> P s"
      "P (s\<lparr>sm_violations := vs\<rparr>) \<longleftrightarrow> P s" "P (s\<lparr>sm_log := l\<rparr>) \<longleftrightarrow> P s"
    and handled: "P s \<Longrightarrow> P (snd (H st i s))"
begin

lemma asserted: "P (sm_assert c v s) \<longleftrightarrow> P s"
  by (simp add: sm_assert_def machine_fields)

lemma logged: "P (LogTransition i s) \<longleftrightarrow> P s"
  by (simp add: LogTransition_def Let_def machine_fields asserted)

lemma called: "P s \<Longrightarrow> P (snd (call_state H i s))"
  by (simp add: call_state_def Let_def split_beta machine_fields logged handled split: option.split)

lemma switched: "P s \<Longrightarrow> P (sm_transition H n s)"
  by (simp add: sm_transition_def Let_def machine_fields asserted called)

lemma looped:
  assumes "sm_loop H s = Some t" "P s"
  shows "P t"
proof -
  have "H = H \<longrightarrow> P s \<longrightarrow> P t"
  proof (rule sm_loop.raw_induct [where P = "\<lambda>G s t. G = H \<longrightarrow> P s \<longrightarrow> P t", OF _ assms(1)])
    fix f :: "('st, 'm) handler \<Rightarrow> ('st, 'm) machine_scheme \<Rightarrow> ('st, 'm) machine_scheme option" and G s t
    assume "\<And>G s t. f G s = Some t \<Longrightarrow> G = H \<longrightarrow> P s \<longrightarrow> P t"
      and "(case sm_next s of None \<Rightarrow> Some s | Some n \<Rightarrow> f G (sm_transition G n s)) = Some t"
    then show "G = H \<longrightarrow> P s \<longrightarrow> P t" by (cases "sm_next s") (auto simp: switched)
  qed
  with assms(2) show ?thesis by simp
qed

lemma run_private: "RunCurrentStatePrivate H i s = Done t \<Longrightarrow> P s \<Longrightarrow> P t"
  by (auto simp: RunCurrentStatePrivate_def sm_first_def Let_def split_beta machine_fields asserted called
      dest!: looped split: if_splits)

lemma run: "RunCurrentState H i s = Done t \<Longrightarrow> P s \<Longrightarrow> P t"
  by (auto simp: RunCurrentState_def asserted dest: run_private)

lemma initialized: "Initialize H st s = Done t \<Longrightarrow> P s \<Longrightarrow> P t"
  by (auto simp: Initialize_def asserted machine_fields dest: run_private)

lemma shut_down: "Shutdown H s = Done t \<Longrightarrow> P s \<Longrightarrow> P t"
  by (auto simp: Shutdown_def Let_def asserted machine_fields bind_outcome_eq_Done dest: run_private split: if_splits)

end

section \<open>Lists of requests\<close>

definition asked :: "action list \<Rightarrow> ('st, 'f, 'p, 'm) gim_scheme \<Rightarrow> bool" where
  "asked as s \<longleftrightarrow> prefix as (out s)"

definition asked_snd :: "action list \<Rightarrow> bool \<times> ('st, 'f, 'p, 'm) gim_scheme \<Rightarrow> bool" where
  "asked_snd as r \<longleftrightarrow> asked as (snd r)"

named_theorems asks \<open>every operation keeps what has been asked\<close>

lemma asked_let:
  fixes v :: "('st, 'f, 'p, 'm) gim_scheme" and w :: "('st2, 'f2, 'p2, 'm2) gim_scheme"
  shows "asked as v \<Longrightarrow> (\<And>x. asked as x \<Longrightarrow> asked as (g x)) \<Longrightarrow> asked as (Let v g)"
    "asked as w \<Longrightarrow> (\<And>x. asked as x \<Longrightarrow> asked_snd as (h x)) \<Longrightarrow> asked_snd as (Let w h)"
  by simp_all

lemma asked_let_other:
  "(\<And>x. asked as (g x)) \<Longrightarrow> asked as (Let v g)" "(\<And>x. asked_snd as (h x)) \<Longrightarrow> asked_snd as (Let v h)"
  by simp_all

lemma asked_if [asks]:
  "(b \<Longrightarrow> asked as s) \<Longrightarrow> (\<not> b \<Longrightarrow> asked as t) \<Longrightarrow> asked as (if b then s else t)"
  "(b \<Longrightarrow> asked_snd as r) \<Longrightarrow> (\<not> b \<Longrightarrow> asked_snd as r') \<Longrightarrow> asked_snd as (if b then r else r')"
  by simp_all

lemma asked_case [asks]:
  "(asked as s) \<Longrightarrow> (\<And>x. asked as (f x)) \<Longrightarrow> asked as (case m of None \<Rightarrow> s | Some x \<Rightarrow> f x)"
  "(asked_snd as r) \<Longrightarrow> (\<And>x. asked_snd as (g x)) \<Longrightarrow> asked_snd as (case m of None \<Rightarrow> r | Some x \<Rightarrow> g x)"
  "(asked as s) \<Longrightarrow> (\<And>x xs. asked as (j x xs)) \<Longrightarrow> asked as (case l of [] \<Rightarrow> s | x # xs \<Rightarrow> j x xs)"
  "(asked_snd as r) \<Longrightarrow> (\<And>x xs. asked_snd as (q x xs)) \<Longrightarrow>
     asked_snd as (case l of [] \<Rightarrow> r | x # xs \<Rightarrow> q x xs)"
  "(\<And>x y. asked as (k x y)) \<Longrightarrow> asked as (case p of (x, y) \<Rightarrow> k x y)"
  "(\<And>x y. asked_snd as (n x y)) \<Longrightarrow> asked_snd as (case p of (x, y) \<Rightarrow> n x y)"
  by (simp_all split: option.split prod.split list.split)

lemma asked_snd_pair [asks]: "asked as s \<Longrightarrow> asked_snd as (b, s)"
  by (simp add: asked_snd_def)

lemma asked_emitted: "asked as s \<Longrightarrow> prefix (out s) (out t) \<Longrightarrow> asked as t"
  by (auto simp: asked_def intro: prefix_order.trans)

lemma asked_calls [asks]:
  assumes "asked as s"
  shows "asked as (emit bs s)" "asked as (effects e s)" "asked as (perform L c s)" "asked as (favour L s)"
    "asked as (sm_assert b v s)" "asked as (SetNextState n s)" "asked as (emitTouchEvent s)"
    "asked as (flushOverlay L s)" "asked as (resetFavoritePointableId s)"
  using assms
  by (auto intro!: asked_emitted [OF assms] simp: emit_def perform_def favour_def sm_assert_def SetNextState_def
      Let_def emitTouchEvent_def flushOverlay_def resetFavoritePointableId_def)

lemma asked_base_fields [asks]:
  "asked as s \<Longrightarrow> asked as (sm_logger_update f1 s)"
  "asked as s \<Longrightarrow> asked as (sm_ignore_input_update f2 s)"
  "asked as s \<Longrightarrow> asked as (sm_running_update f3 s)"
  "asked as s \<Longrightarrow> asked as (sm_current_update f4 s)"
  "asked as s \<Longrightarrow> asked as (sm_next_update f5 s)"
  "asked as s \<Longrightarrow> asked as (sm_log_update f6 s)"
  "asked as s \<Longrightarrow> asked as (sm_violations_update f7 s)"
  "asked as s \<Longrightarrow> asked as (gm_numOverlayImages_update f8 s)"
  "asked as s \<Longrightarrow> asked as (m_currentFrame_update f9 s)"
  "asked as s \<Longrightarrow> asked as (m_sinceFrame_update f10 s)"
  "asked as s \<Longrightarrow> asked as (m_timedFrameHistory_update f11 s)"
  "asked as s \<Longrightarrow> asked as (m_relevantPointables_update f12 s)"
  "asked as s \<Longrightarrow> asked as (m_flushOverlay_update f13 s)"
  "asked as s \<Longrightarrow> asked as (m_collectiveZone_update f14 s)"
  "asked as s \<Longrightarrow> asked as (m_filteredPointableCount_update f15 s)"
  "asked as s \<Longrightarrow> asked as (m_filteredRTS_update f16 s)"
  "asked as s \<Longrightarrow> asked as (m_FPS_update f17 s)"
  "asked as s \<Longrightarrow> asked as (m_interactionBox_update f18 s)"
  "asked as s \<Longrightarrow> asked as (m_foremostPointableId_update f19 s)"
  "asked as s \<Longrightarrow> asked as (m_favoritePointableId_update f20 s)"
  "asked as s \<Longrightarrow> asked as (m_positionalDeltaTracker_update f21 s)"
  "asked as s \<Longrightarrow> asked as (m_touchEvent_update f22 s)"
  by (simp_all add: asked_def)

lemma asked_basic_fields [asks]:
  "asked as s \<Longrightarrow> asked as (m_drawOverlays_update f23 s)"
  "asked as s \<Longrightarrow> asked as (m_noTouching_update f24 s)"
  "asked as s \<Longrightarrow> asked as (m_clickDuration_update f25 s)"
  "asked as s \<Longrightarrow> asked as (m_clickNumber_update f26 s)"
  "asked as s \<Longrightarrow> asked as (m_clickDown_update f27 s)"
  "asked as s \<Longrightarrow> asked as (m_lastClickTime_update f28 s)"
  "asked as s \<Longrightarrow> asked as (m_lastClickLocation_update f29 s)"
  "asked as s \<Longrightarrow> asked as (m_gestureStart_update f30 s)"
  "asked as s \<Longrightarrow> asked as (m_clickDownScreenPosition_update f31 s)"
  "asked as s \<Longrightarrow> asked as (m_scrollStartPosition_update f32 s)"
  "asked as s \<Longrightarrow> asked as (m_scrollDrawCount_update f33 s)"
  "asked as s \<Longrightarrow> asked as (m_lastNumIcons_update f34 s)"
  "asked as s \<Longrightarrow> asked as (m_charmsMode_update f35 s)"
  "asked as s \<Longrightarrow> asked as (m_lastStateChangeTime_update f36 s)"
  "asked as s \<Longrightarrow> asked as (m_favoriteHandId_update f37 s)"
  "asked as s \<Longrightarrow> asked as (m_clickPointable_update f38 s)"
  "asked as s \<Longrightarrow> asked as (m_updateCursor_update f39 s)"
  by (simp_all add: asked_def)

lemma asked_gesture_only_fields [asks]:
  "asked as s \<Longrightarrow> asked as (go_noTouching_update f40 s)"
  "asked as s \<Longrightarrow> asked as (go_justScrolled_update f41 s)"
  "asked as s \<Longrightarrow> asked as (go_gestureStart_update f42 s)"
  "asked as s \<Longrightarrow> asked as (go_cooldownStartTime_update f43 s)"
  "asked as s \<Longrightarrow> asked as (go_lastStateChangeTime_update f44 s)"
  "asked as s \<Longrightarrow> asked as (go_timedCountHistory_update f45 s)"
  "asked as s \<Longrightarrow> asked as (go_pointableCountBucket_update f46 s)"
  "asked as s \<Longrightarrow> asked as (go_favoriteHandId_update f47 s)"
  by (simp_all add: asked_def)

lemma asked_finger_mouse_fields [asks]:
  "asked as s \<Longrightarrow> asked as (fm_drawOverlays_update f48 s)"
  "asked as s \<Longrightarrow> asked as (fm_noTouching_update f49 s)"
  "asked as s \<Longrightarrow> asked as (fm_clickDuration_update f50 s)"
  "asked as s \<Longrightarrow> asked as (fm_clickEligibleForDrag_update f51 s)"
  "asked as s \<Longrightarrow> asked as (fm_clickNumber_update f52 s)"
  "asked as s \<Longrightarrow> asked as (fm_deferClickUpForDrag_update f53 s)"
  "asked as s \<Longrightarrow> asked as (fm_lastClickTime_update f54 s)"
  "asked as s \<Longrightarrow> asked as (fm_lastClickLocation_update f55 s)"
  "asked as s \<Longrightarrow> asked as (fm_gestureStart_update f56 s)"
  "asked as s \<Longrightarrow> asked as (fm_clickDownScreenPosition_update f57 s)"
  "asked as s \<Longrightarrow> asked as (fm_mountainLionOrNewer_update f58 s)"
  by (simp_all add: asked_def)


section \<open>Basic mode\<close>

lemma asked_basic_steps [asks]:
  assumes "asked as s"
  shows "asked as (bm_goto st s)" "asked as (BasicMode_TransitionTo_NPointables_NoInteraction L c s)"
    "asked as (bm_setAbsoluteCursorPositionHand L s)" "asked as (bm_setAbsoluteCursorPositionPointable L s)"
    "asked as (bm_setClickPosition L s)" "asked as (apply_charms L a s)" "asked as (draw_two L i j s)"
  unfolding bm_goto_def BasicMode_TransitionTo_NPointables_NoInteraction_def bm_setAbsoluteCursorPositionHand_def
    bm_setAbsoluteCursorPositionPointable_def bm_setClickPosition_def apply_charms_def draw_two_def
  by (assumption | rule asks assms asked_let asked_let_other)+

lemma asked_click_down [asks]: "asked as s \<Longrightarrow> asked as (click_down L s)"
  unfolding click_down_def by (assumption | rule asks asked_let asked_let_other)+

lemma asked_charms_helper [asks]: "asked as s \<Longrightarrow> asked as (charms_helper L p s)"
  unfolding charms_helper_def by (assumption | rule asks asked_let asked_let_other)+

lemma asked_hover_2Plus [asks]: "asked as s \<Longrightarrow> asked_snd as (hover_2Plus L c s)"
  unfolding hover_2Plus_def by (assumption | rule asks asked_let asked_let_other)+

lemma asked_basic_handlers:
  assumes "asked as s"
  shows "asked_snd as (h_0Pointables_NoInteraction L c i s)" "asked_snd as (h_1Pointable_Hovering L c i s)"
    "asked_snd as (h_1Pointable_ClickCooldown L c i s)" "asked_snd as (h_2PlusPointables_Hovering L c i s)"
    "asked_snd as (h_2PlusPointables_Scrolling L c i s)" "asked_snd as (h_2Hands_Hovering L c i s)"
    "asked_snd as (h_2Hands_GestureRecognition L c i s)" "asked_snd as (h_2Hands_Rotating L c i s)"
    "asked_snd as (h_2Hands_Zooming L c i s)" "asked_snd as (h_2Hands_Touch L c i s)"
    "asked_snd as (h_Palm_GestureRecognition L c i s)" "asked_snd as (h_Palm_Swipe L c i s)"
  unfolding h_0Pointables_NoInteraction_def h_1Pointable_Hovering_def h_1Pointable_ClickCooldown_def
    h_2PlusPointables_Hovering_def h_2PlusPointables_Scrolling_def h_2Hands_Hovering_def
    h_2Hands_GestureRecognition_def h_2Hands_Rotating_def h_2Hands_Zooming_def h_2Hands_Touch_def
    h_Palm_GestureRecognition_def h_Palm_Swipe_def
  by (assumption | rule asks assms asked_let asked_let_other)+

lemma asked_handlers_basic [asks]:
  assumes "asked as s"
  shows "asked_snd as (bm_handler L c st i s)"
  using asked_basic_handlers [OF assms] by (cases st) simp_all

section \<open>Gesture-only mode\<close>

lemma asked_gesture_only_steps [asks]:
  assumes "asked as s"
  shows "asked as (go_goto st s)" "asked as (go_enter_hovering L s)" "asked as (go_hover L s)"
    "asked as (go_place_cursor L s)" "asked as (go_scroll L s)"
  unfolding go_goto_def go_enter_hovering_def go_hover_def go_place_cursor_def go_scroll_def
  by (assumption | rule asks assms asked_let asked_let_other)+

lemma asked_go_swipe [asks]: "asked as s \<Longrightarrow> asked_snd as (go_swipe L g i s)"
  unfolding go_swipe_def by (assumption | rule asks asked_let asked_let_other)+

lemma asked_gesture_only_handlers:
  assumes "asked as s"
  shows "asked_snd as (go_GestureRecognition L i s)" "asked_snd as (go_Cooldown L i s)"
    "asked_snd as (go_2Fingers_Hovering L i s)" "asked_snd as (go_2Fingers_Scrolling L i s)"
    "asked_snd as (go_3PlusFingers_SwipeVertical L i s)" "asked_snd as (go_3PlusFingers_SwipeHorizontal L i s)"
    "asked_snd as (go_Palm_Swipe L i s)"
  unfolding go_GestureRecognition_def go_Cooldown_def go_2Fingers_Hovering_def go_2Fingers_Scrolling_def
    go_3PlusFingers_SwipeVertical_def go_3PlusFingers_SwipeHorizontal_def go_Palm_Swipe_def
  by (assumption | rule asks assms asked_let asked_let_other)+

lemma asked_handlers_gesture_only [asks]:
  assumes "asked as s"
  shows "asked_snd as (go_handler L st i s)"
  using asked_gesture_only_handlers [OF assms] by (cases st) simp_all

section \<open>Finger mouse mode\<close>

lemma asked_for_hand_or_pointable:
  assumes "asked as s" "\<And>h s. asked as s \<Longrightarrow> asked as (f h s)" "\<And>p s. asked as s \<Longrightarrow> asked as (g p s)"
  shows "asked as (for_hand_or_pointable L c f g s)"
  unfolding for_hand_or_pointable_def by (assumption | rule asks assms asked_let asked_let_other)+

lemma asked_finger_mouse_draws [asks]:
  assumes "asked as s"
  shows "asked as (DrawPointingOverlay L c s)" "asked as (DrawClickingOrDraggingOverlay L c s)"
    "asked as (DrawScrollOverlay L c s)" "asked as (DrawRotateOverlay L c s)" "asked as (DrawZoomOverlay L c s)"
    "asked as (DrawDesktopSwipeOverlay L c b s)" "asked as (DrawVerticalPalmOverlay L c s)"
  unfolding DrawPointingOverlay_def DrawClickingOrDraggingOverlay_def DrawScrollOverlay_def DrawRotateOverlay_def
    DrawZoomOverlay_def DrawDesktopSwipeOverlay_def DrawVerticalPalmOverlay_def drawRotateOverlayForHand_def
    drawRotateOverlayForPointable_def drawZoomOverlayForHand_def drawZoomOverlayForPointable_def
  by (assumption | rule asks assms asked_for_hand_or_pointable asked_let asked_let_other)+

lemma asked_finger_mouse_steps [asks]:
  assumes "asked as s"
  shows "asked as (fm_goto st s)" "asked as (FingerMouse_TransitionTo_NFingers_NoInteraction L c s)"
    "asked as (move_cursor L s)" "asked as (move_cursor_to_pointable L s)" "asked as (fm_setClickPosition L s)"
  unfolding fm_goto_def FingerMouse_TransitionTo_NFingers_NoInteraction_def move_cursor_def
    move_cursor_to_pointable_def fm_setClickPosition_def
  by (assumption | rule asks assms asked_let asked_let_other)+

lemma asked_finger_mouse_more [asks]:
  assumes "asked as s"
  shows "asked as (fm_click_down L s)" "asked as (fm_hold L s)" "asked as (always_move L c s)"
    "asked as (fm_swipe_on L c b s)"
  unfolding fm_click_down_def fm_hold_def always_move_def fm_swipe_on_def
  by (assumption | rule asks assms asked_let asked_let_other)+

lemma asked_two_finger_frame [asks]:
  assumes "asked as s" "\<And>s. asked as s \<Longrightarrow> asked as (f s)"
  shows "asked as (two_finger_frame L c f s)"
  unfolding two_finger_frame_def by (assumption | rule asks assms)+

lemma asked_finger_mouse_handlers:
  assumes "asked as s"
  shows "asked_snd as (fm_0Fingers_NoInteraction L c i s)" "asked_snd as (fm_1Finger_Hovering L c i s)"
    "asked_snd as (fm_1Finger_Clicking L c i s)" "asked_snd as (fm_1Finger_Dragging L c i s)"
    "asked_snd as (fm_2Fingers_Hovering L c i s)" "asked_snd as (fm_2Fingers_GestureRecognition L c i s)"
    "asked_snd as (fm_2Fingers_Rotating L c i s)" "asked_snd as (fm_2Fingers_Scrolling L c i s)"
    "asked_snd as (fm_2Fingers_Zooming L c i s)" "asked_snd as (fm_3PlusFingers_NoInteraction L c i s)"
    "asked_snd as (fm_3PlusFingers_Hovering L c i s)" "asked_snd as (fm_3PlusFingers_GestureRecognition L c i s)"
    "asked_snd as (fm_3PlusFingers_SwipeVertical L c i s)" "asked_snd as (fm_3PlusFingers_SwipeHorizontal L c i s)"
    "asked_snd as (fm_Palm_GestureRecognition L c i s)" "asked_snd as (fm_Palm_Swipe L c i s)"
  unfolding fm_0Fingers_NoInteraction_def fm_1Finger_Hovering_def fm_1Finger_Clicking_def fm_1Finger_Dragging_def
    fm_2Fingers_Hovering_def fm_2Fingers_GestureRecognition_def fm_2Fingers_Rotating_def
    fm_2Fingers_Scrolling_def fm_2Fingers_Zooming_def fm_3PlusFingers_NoInteraction_def
    fm_3PlusFingers_Hovering_def fm_3PlusFingers_GestureRecognition_def fm_3PlusFingers_SwipeVertical_def
    fm_3PlusFingers_SwipeHorizontal_def fm_Palm_GestureRecognition_def fm_Palm_Swipe_def
  by (assumption | rule asks assms asked_let asked_let_other)+

lemma asked_handlers_finger_mouse [asks]:
  assumes "asked as s"
  shows "asked_snd as (fm_handler L c st i s)"
  using asked_finger_mouse_handlers [OF assms] by (cases st) simp_all

section \<open>The machines\<close>

lemma asked_machine_fields:
  "asked as (s\<lparr>sm_running := r\<rparr>) \<longleftrightarrow> asked as s" "asked as (s\<lparr>sm_next := n\<rparr>) \<longleftrightarrow> asked as s"
  "asked as (s\<lparr>sm_current := c\<rparr>) \<longleftrightarrow> asked as s" "asked as (s\<lparr>sm_violations := vs\<rparr>) \<longleftrightarrow> asked as s"
  "asked as (s\<lparr>sm_log := l\<rparr>) \<longleftrightarrow> asked as s"
  by (simp_all add: asked_def)

interpretation bm_asks: handler_invariant "bm_handler L c" "asked as" for L c as
  by unfold_locales (simp_all add: asked_machine_fields asked_handlers_basic [unfolded asked_snd_def])

interpretation go_asks: handler_invariant "go_handler L" "asked as" for L as
  by unfold_locales (simp_all add: asked_machine_fields asked_handlers_gesture_only [unfolded asked_snd_def])

interpretation fm_asks: handler_invariant "fm_handler L c" "asked as" for L c as
  by unfold_locales (simp_all add: asked_machine_fields asked_handlers_finger_mouse [unfolded asked_snd_def])

section \<open>Calls that may not return\<close>

definition asked_outcome :: "action list \<Rightarrow> ('st, 'f, 'p, 'm) gim_scheme outcome \<Rightarrow> bool" where
  "asked_outcome as x \<longleftrightarrow> (\<forall>s. x = Done s \<longrightarrow> asked as s)"

lemma asked_outcome_rules [asks]:
  "asked as r \<Longrightarrow> asked_outcome as (Done r)"
  "asked_outcome as x \<Longrightarrow> (\<And>s. asked as s \<Longrightarrow> asked_outcome as (f s)) \<Longrightarrow> asked_outcome as (bind_outcome x f)"
  "(b \<Longrightarrow> asked_outcome as x) \<Longrightarrow> (\<not> b \<Longrightarrow> asked_outcome as y) \<Longrightarrow> asked_outcome as (if b then x else y)"
  "asked as s \<Longrightarrow> asked_outcome as (RunCurrentState (bm_handler L c) i s)"
  "asked as s \<Longrightarrow> asked_outcome as (Initialize (bm_handler L c) st s)"
  "asked as s \<Longrightarrow> asked_outcome as (Shutdown (bm_handler L c) s)"
  "asked as s' \<Longrightarrow> asked_outcome as (RunCurrentState (go_handler L) i s')"
  "asked as s' \<Longrightarrow> asked_outcome as (Initialize (go_handler L) st' s')"
  "asked as s' \<Longrightarrow> asked_outcome as (Shutdown (go_handler L) s')"
  "asked as s'' \<Longrightarrow> asked_outcome as (RunCurrentState (fm_handler L c') i s'')"
  "asked as s'' \<Longrightarrow> asked_outcome as (Initialize (fm_handler L c') st'' s'')"
  "asked as s'' \<Longrightarrow> asked_outcome as (Shutdown (fm_handler L c') s'')"
  by (auto simp: asked_outcome_def bind_outcome_eq_Done
      dest: bm_asks.run bm_asks.initialized bm_asks.shut_down go_asks.run go_asks.initialized go_asks.shut_down
        fm_asks.run fm_asks.initialized fm_asks.shut_down)

lemma asked_outcome_let:
  fixes v :: "('st, 'f, 'p, 'm) gim_scheme"
  shows "asked as v \<Longrightarrow> (\<And>x. asked as x \<Longrightarrow> asked_outcome as (f x)) \<Longrightarrow> asked_outcome as (Let v f)"
  by simp

lemma asked_gim_destroy [asks]: "asked as s \<Longrightarrow> asked as (gim_destroy L s)"
  unfolding gim_destroy_def by (assumption | rule asks)+

lemma asked_observed: "observe_frame L V frame since s = Some t \<Longrightarrow> asked as s \<Longrightarrow> asked as t"
  by (auto simp: observe_frame_def Let_def split_beta asked_def sm_assert_def split: option.splits)

lemma asked_processFrame [asks]:
  assumes "asked as s" "\<And>t. asked as t \<Longrightarrow> asked_outcome as (v_processFrameInternal V t)"
  shows "asked_outcome as (processFrame L V frame since s)"
  using assms asked_observed [of L V frame since s]
  by (auto simp: processFrame_def asked_outcome_def split: option.split)

lemma asked_outcome_more [asks]:
  "asked_outcome as x \<Longrightarrow> (\<And>i. asked_outcome as (f i)) \<Longrightarrow>
     asked_outcome as (case k of None \<Rightarrow> x | Some i \<Rightarrow> f i)"
  "asked_outcome as (bm_processFrameInternal L c s) \<Longrightarrow>
     asked_outcome as (v_processFrameInternal (bm_virtual L c) s)"
  "asked_outcome as (go_processFrameInternal L t) \<Longrightarrow>
     asked_outcome as (v_processFrameInternal (go_virtual L) t)"
  "asked_outcome as (fm_processFrameInternal L c' u) \<Longrightarrow>
     asked_outcome as (v_processFrameInternal (fm_virtual L c') u)"
  by (simp_all add: bm_virtual_def go_virtual_def fm_virtual_def split: option.split)

lemma asked_basic_frame [asks]: "asked as s \<Longrightarrow> asked_outcome as (bm_processFrameInternal L c s)"
  unfolding bm_processFrameInternal_def bm_Initialize_def bm_clear_overlays_def
  by (assumption | rule asks asked_let asked_outcome_let)+

lemma asked_basic_calls [asks]:
  assumes "asked as s"
  shows "asked_outcome as (bm_processFrame L c frame since s)" "asked_outcome as (bm_destroy L c s)"
  unfolding bm_processFrame_def bm_destroy_def
  by (assumption | rule asks assms asked_let asked_outcome_let)+

lemma asked_touch_input [asks]:
  assumes "asked as s" "\<And>i t. asked as t \<Longrightarrow> asked_outcome as (f i t)"
  shows "asked_outcome as (case touch_input L s of (i, t) \<Rightarrow> f i t)"
proof -
  have "asked as (snd (touch_input L s))"
    using assms(1) by (auto simp: touch_input_def Let_def asked_calls)
  with assms(2) show ?thesis by (simp add: split_beta)
qed

lemma asked_go_frame [asks]:
  assumes "asked as s"
  shows "asked_outcome as (go_run L k s)" "asked as (go_record_count L s)" "asked as (go_fill_buckets s)"
  unfolding go_run_def go_record_count_def go_fill_buckets_def
  by (assumption | rule asks assms asked_let)+

lemma asked_gesture_only_frame [asks]: "asked as s \<Longrightarrow> asked_outcome as (go_processFrameInternal L s)"
  unfolding go_processFrameInternal_def go_Initialize_def go_clear_overlays_def
  by (assumption | rule asks asked_let asked_outcome_let)+

lemma asked_gesture_only_calls [asks]:
  assumes "asked as s"
  shows "asked_outcome as (go_processFrame L frame since s)" "asked_outcome as (go_destroy L s)"
  unfolding go_processFrame_def go_destroy_def
  by (assumption | rule asks assms asked_let asked_outcome_let)+

lemma asked_finger_mouse_frame [asks]: "asked as s \<Longrightarrow> asked_outcome as (fm_processFrameInternal L c s)"
  unfolding fm_processFrameInternal_def fm_Initialize_def fm_clear_overlays_def
  by (assumption | rule asks asked_let asked_outcome_let)+

lemma asked_finger_mouse_calls [asks]:
  assumes "asked as s"
  shows "asked_outcome as (fm_processFrame L c frame since s)" "asked_outcome as (fm_destroy L c s)"
  unfolding fm_processFrame_def fm_destroy_def
  by (assumption | rule asks assms asked_let asked_outcome_let)+

lemma asked_touch_pointables:
  "asked as (fst sn) \<Longrightarrow> asked as (fst (fold (tp_pointable L) ps sn))"
proof (induction ps arbitrary: sn)
  case (Cons p ps)
  have "asked as (tp_charms L p s)" if "asked as s" for s
    using that by (simp add: tp_charms_def tp_applyCharms_def asked_def emit_def)
  then have "asked as (fst (tp_pointable L p sn))"
    using Cons.prems by (auto simp: tp_pointable_def Let_def asked_calls split_beta)
  from Cons.IH [OF this] show ?case by simp
qed simp

lemma asked_touch_calls [asks]:
  assumes "asked as s"
  shows "asked_outcome as (tp_processFrame L frame since s)" "asked_outcome as (tp_destroy L s)"
proof -
  have "asked_outcome as (tp_processFrameInternal L t)" if t: "asked as t" for t
  proof -
    let ?t = "if m_relevantPointables t = [] then t\<lparr>tp_charmsMode := -1\<rparr> else t"
    obtain u n where u: "fold (tp_pointable L) (m_relevantPointables ?t) (?t, 0) = (u, n)"
      by (cases "fold (tp_pointable L) (m_relevantPointables ?t) (?t, 0)")
    have "asked as ?t" using t by (simp add: asked_def)
    with u asked_touch_pointables [of as "(?t, 0)"] have "asked as u" by (metis fst_conv)
    then have "asked as ((emit (hide_icons n (tp_lastNumIcons (emitTouchEvent u))) (emitTouchEvent u))\<lparr>tp_lastNumIcons := n\<rparr>)"
      by (simp add: asked_calls asked_def [of _ "_\<lparr>tp_lastNumIcons := n\<rparr>"] asked_def [symmetric])
    with t u show ?thesis by (simp add: tp_processFrameInternal_def asked_outcome_def Let_def)
  qed
  with assms show "asked_outcome as (tp_processFrame L frame since s)"
    unfolding tp_processFrame_def by (intro asked_processFrame) (simp_all add: tp_virtual_def)
  show "asked_outcome as (tp_destroy L s)"
    using assms by (simp add: tp_destroy_def asked_outcome_rules asked_gim_destroy)
qed

section \<open>Managers\<close>

lemma asked_prefix:
  "asked_outcome (out s) x \<Longrightarrow> x = Done t \<Longrightarrow> prefix (out s) (out t)"
  by (simp add: asked_outcome_def asked_def)

lemma asked_now: "asked (out s) s"
  by (simp add: asked_def)

lemma requests_accumulate:
  "manager_processFrame L c frame since m = Done m' \<Longrightarrow> prefix (manager_out m) (manager_out m')"
  "manager_destroy L c m = Done m' \<Longrightarrow> prefix (manager_out m) (manager_out m')"
  by (cases m; auto simp: manager_processFrame_def manager_destroy_def map_outcome_Done
      intro: asked_prefix [OF asked_basic_calls(1) [OF asked_now]] asked_prefix [OF asked_basic_calls(2) [OF asked_now]]
        asked_prefix [OF asked_gesture_only_calls(1) [OF asked_now]]
        asked_prefix [OF asked_gesture_only_calls(2) [OF asked_now]]
        asked_prefix [OF asked_finger_mouse_calls(1) [OF asked_now]]
        asked_prefix [OF asked_finger_mouse_calls(2) [OF asked_now]]
        asked_prefix [OF asked_touch_calls(1) [OF asked_now]] asked_prefix [OF asked_touch_calls(2) [OF asked_now]])+

end
