(* ===== verification/Listener_Properties.thy ===== *)
theory Listener_Properties
  imports Listener Mode_Contract Requests Configuration_Properties Sample_Sdk Device_Properties
begin

text \<open>
  What the listener guarantees, with all the components it puts together: whatever callbacks come and
  whatever the user changes, no call fails, and the mouse button that the system sees is pressed and
  released in turn, and is up whenever there is no manager.
\<close>

section \<open>Histories of callbacks\<close>

text \<open>What stays the same while the program runs: the SDK, the platform, and whether there is a monitor.\<close>

definition same_system :: "('f, 'h, 'p, 'd) world \<Rightarrow> ('f, 'h, 'p, 'd) world \<Rightarrow> bool" where
  "same_system w w' \<longleftrightarrow>
     w_sdk w' = w_sdk w \<and> ge_platform (w_os w') = ge_platform (w_os w) \<and> (w_screens w' = []) = (w_screens w = [])"

text \<open>
  The controller's callbacks come one after the other, so none comes while the connection waits for the
  user interface; frames are in order.
\<close>

definition possible :: "('f, 'h, 'p, 'd) world \<Rightarrow> ('f, 'p, 'd) listener \<Rightarrow> 'f event \<Rightarrow> bool" where
  "possible w l e \<longleftrightarrow>
     (case e of
        SetMode m \<Rightarrow> True | SetMultipleMonitors b \<Rightarrow> True | SetReady \<Rightarrow> True | DisplaysChanged \<Rightarrow> True
      | Frame f \<Rightarrow> l_waiting l = None \<and>
          (\<forall>m. l_interactionManager l = Some m \<longrightarrow>
             addFrame_in_order (fr_timestamp (w_sdk w) f) (manager_history m))
      | _ \<Rightarrow> l_waiting l = None)"

inductive listening :: "('f, 'h, 'p, 'd) world \<Rightarrow> files \<Rightarrow> ('f, 'p, 'd) listener \<Rightarrow> bool" for w fs where
  started: "TouchlessListener w c config fs = Done l \<Longrightarrow> listening w fs l"
| called: "listening w fs l \<Longrightarrow> same_system w w' \<Longrightarrow> possible w' l e \<Longrightarrow> listener_step w' e l = Done l' \<Longrightarrow>
    listening w fs l'"

section \<open>What a manager's invariant depends on\<close>

lemma manager_env_fields [simp]:
  "sdk_hands (manager_env w d ov) = sdk_hands (w_sdk w)" "sdk_ids (manager_env w d ov) = sdk_ids (w_sdk w)"
  "sdk_probabilities (manager_env w d ov) = sdk_probabilities (w_sdk w)"
  "useProceduralOverlay (manager_env w d ov) = m_UseProceduralOverlay ov"
  "e_platform (manager_env w d ov) = ge_platform (w_os w)"
  "fr_timestamp (manager_env w d ov) = fr_timestamp (w_sdk w)"
  by (simp_all add: manager_env_def sdk_hands_def sdk_ids_def sdk_probabilities_def useProceduralOverlay_def)

lemma bm_inv_env:
  assumes "same_system w w'"
  shows "bm_inv (manager_env w' d' ov') s = bm_inv (manager_env w d ov) s"
  using assms
  by (simp add: bm_inv_def bm_safe_def bm_unborn_def between_def gesture_of_def allowed_violations_def
      manager_env_def same_system_def)

lemma fm_inv_env:
  assumes "same_system w w'"
  shows "fm_inv (manager_env w' d' ov') s = fm_inv (manager_env w d ov) s"
  using assms
  by (simp add: fm_inv_def fm_owner.alive_def fm_safe_def fm_between_def scale_assertions_def sdk_scales_def
      manager_env_def same_system_def)

lemma manager_inv_env:
  "same_system w w' \<Longrightarrow> manager_inv (manager_env w' d' ov') m = manager_inv (manager_env w d ov) m"
  by (cases m) (simp_all add: bm_inv_env fm_inv_env)

lemma same_system_refl: "same_system w w"
  by (simp add: same_system_def)

text \<open>The overlay stays procedural.\<close>

lemma procedural_kept [simp]:
  "m_UseProceduralOverlay (OverlayDriver v)"
  "m_UseProceduralOverlay (initializeOverlay ic ex ov) = m_UseProceduralOverlay ov"
  by (simp_all add: OverlayDriver_def initializeOverlay_def Let_def split_beta)

lemma procedural_act: "m_UseProceduralOverlay (ov_act a ov) = m_UseProceduralOverlay ov"
  by (simp add: ov_act_def setIconVisibility_def drawRasterIcon_def drawImageIcon_def Let_def
      split: action.split prod.split)

lemma procedural_run [simp]: "m_UseProceduralOverlay (ov_run as ov) = m_UseProceduralOverlay ov"
  by (induction as arbitrary: ov) (simp_all add: procedural_act)

section \<open>The invariant\<close>

definition button_of :: "('f, 'p) manager option \<Rightarrow> bool option" where
  "button_of m = (case m of None \<Rightarrow> Some False | Some x \<Rightarrow> buttons (manager_out x) (Some False))"

definition listener_inv :: "('f, 'h, 'p, 'd) world \<Rightarrow> ('f, 'p, 'd) listener \<Rightarrow> bool" where
  "listener_inv w l \<longleftrightarrow>
     m_UseProceduralOverlay (l_overlayDriver l) \<and>
     (\<forall>m. l_interactionManager l = Some m \<longrightarrow> manager_inv (l_env w l) m) \<and>
     (ge_platform (w_os w) \<noteq> Linux \<longrightarrow>
        (\<exists>b. button_of (l_interactionManager l) = Some b \<and>
             mouse_agrees (ge_platform (w_os w)) b (l_osInteractionDriver l)))"

lemma listener_inv_cong:
  assumes "listener_inv w l" "same_system w w'" "m_UseProceduralOverlay (l_overlayDriver l')"
    "l_interactionManager l' = l_interactionManager l"
    "o_sent (l_osInteractionDriver l') = o_sent (l_osInteractionDriver l)"
    "m_buttonDown (l_osInteractionDriver l') = m_buttonDown (l_osInteractionDriver l)"
  shows "listener_inv w' l'"
  using assms manager_inv_env [OF assms(2), of "l_osInteractionDriver l'" "l_overlayDriver l'" _
      "l_osInteractionDriver l" "l_overlayDriver l"]
  by (simp add: listener_inv_def mouse_agrees_def same_system_def)

text \<open>The calls that leave the mouse alone.\<close>

lemma cancel_mouse [simp]:
  "o_sent (cancelGestureEvents E d) = o_sent d" "m_buttonDown (cancelGestureEvents E d) = m_buttonDown d"
  by (simp_all add: cancelGestureEvents_def win_cancelGestureEvents_def mac_cancelGestureEvents_def
      linux_cancelGestureEvents_def os_endGesture_def Let_def split: platform.split)

lemma screen_mouse [simp]:
  "o_sent (useDefaultScreen b ss d) = o_sent d" "m_buttonDown (useDefaultScreen b ss d) = m_buttonDown d"
  by (simp_all add: useDefaultScreen_def)

lemma updateDefaultScreen_parts [simp]:
  "o_sent (l_osInteractionDriver (updateDefaultScreen w l)) = o_sent (l_osInteractionDriver l)"
  "m_buttonDown (l_osInteractionDriver (updateDefaultScreen w l)) = m_buttonDown (l_osInteractionDriver l)"
  "l_overlayDriver (updateDefaultScreen w l) = l_overlayDriver l"
  "l_interactionManager (updateDefaultScreen w l) = l_interactionManager l"
  by (simp_all add: updateDefaultScreen_def use_default_screen_def)

text \<open>A manager's requests carried out.\<close>

lemma button_of_prefix:
  assumes "prefix (manager_out m) (manager_out m')"
  shows "buttons (manager_out m') d = buttons (new_requests m m') (buttons (manager_out m) d)"
proof -
  from assms have "manager_out m' = manager_out m @ new_requests m m'"
    by (auto simp: prefix_def new_requests_def)
  then show ?thesis by (metis buttons_gestures_append(1))
qed

lemma performed_mouse:
  assumes "mouse_agrees P b (l_osInteractionDriver l)" "P = ge_platform (w_os w)" "P \<noteq> Linux"
    "buttons as (Some b) = Some b'"
  shows "mouse_agrees P b' (l_osInteractionDriver (drivers_perform w as l))"
  using os_run_mouse [of P "map (Pair (w_os w)) as" b "l_osInteractionDriver l" b'] assms
  by (simp add: drivers_perform_def list_all_iff comp_def)

lemma performed_parts [simp]:
  "m_UseProceduralOverlay (l_overlayDriver (drivers_perform w as l)) = m_UseProceduralOverlay (l_overlayDriver l)"
  "l_interactionManager (drivers_perform w as l) = l_interactionManager l"
  by (simp_all add: drivers_perform_def)

section \<open>Every call keeps it\<close>

definition sdk_promises :: "('f, 'h, 'p, 'd) world \<Rightarrow> bool" where
  "sdk_promises w \<longleftrightarrow> sdk_hands (w_sdk w) \<and> sdk_ids (w_sdk w) \<and> sdk_probabilities (w_sdk w)"

lemma promised:
  "sdk_promises w \<Longrightarrow> m_UseProceduralOverlay ov \<Longrightarrow> sdk_documented (manager_env w d ov)"
  by (simp add: sdk_promises_def sdk_documented_def)

lemma saved_parts [simp]:
  "l_overlayDriver (save_settings w l) = l_overlayDriver l"
  "l_osInteractionDriver (save_settings w l) = l_osInteractionDriver l"
  "l_interactionManager (save_settings w l) = l_interactionManager l"
  "l_basic (save_settings w l) = l_basic l" "l_past (save_settings w l) = l_past l"
  "l_lastFrame (save_settings w l) = l_lastFrame l" "l_waiting (save_settings w l) = l_waiting l"
  by (simp_all add: save_settings_def Let_def)

lemma onFrame_inv:
  assumes "listener_inv w l" "sdk_promises w" "possible w l (Frame f)"
  shows "\<exists>l'. onFrame w f l = Done l' \<and> listener_inv w l'"
proof (cases "l_interactionManager l")
  case None
  with listener_inv_cong [OF assms(1) same_system_refl, of "(save_settings w l)\<lparr>l_lastFrame := f\<rparr>"] assms(1)
  show ?thesis by (simp add: onFrame_def Let_def listener_inv_def)
next
  case (Some m)
  have d: "sdk_documented (l_env w l)" using promised [OF assms(2)] assms(1) by (simp add: listener_inv_def)
  have "manager_inv (l_env w l) m" "addFrame_in_order (fr_timestamp (l_env w l) f) (manager_history m)"
    using assms Some by (simp_all add: listener_inv_def possible_def)
  with d any_manager.frame_processed [of "l_env w l" m f "l_basic l" "l_lastFrame l"] obtain m'
    where m': "manager_processFrame (l_env w l) (l_basic l) f (l_lastFrame l) m = Done m'"
      "manager_inv (l_env w l) m'" by auto
  let ?l = "(drivers_perform w (new_requests m m') (save_settings w l))
    \<lparr>l_interactionManager := Some m', l_lastFrame := f\<rparr>"
  have "onFrame w f l = Done ?l" using Some m'(1) by (simp add: onFrame_def Let_def)
  moreover have "listener_inv w ?l"
  proof -
    have "\<exists>b. button_of (Some m') = Some b \<and> mouse_agrees (ge_platform (w_os w)) b (l_osInteractionDriver ?l)"
      if P: "ge_platform (w_os w) \<noteq> Linux"
    proof -
      obtain b where b: "buttons (manager_out m) (Some False) = Some b"
        "mouse_agrees (ge_platform (w_os w)) b (l_osInteractionDriver (save_settings w l))"
        using assms(1) Some P by (auto simp: listener_inv_def button_of_def)
      have "buttons (manager_out m') (Some False) \<noteq> None"
        using any_manager.always_bracketed [of "l_env w l" m'] d m'(2) by (simp add: bracketed_def)
      then obtain b' where b': "buttons (manager_out m') (Some False) = Some b'" by blast
      then have "buttons (new_requests m m') (Some b) = Some b'"
        using button_of_prefix [OF requests_accumulate(1) [OF m'(1)], of "Some False"] b(1) by simp
      from performed_mouse [OF b(2) refl P this] b' show ?thesis by (simp add: button_of_def)
    qed
    moreover have "manager_inv (l_env w ?l) m'"
      using m'(2) manager_inv_env [OF same_system_refl [of w], of "l_osInteractionDriver ?l" "l_overlayDriver ?l" m'
          "l_osInteractionDriver l" "l_overlayDriver l"] by blast
    ultimately show ?thesis using assms(1) by (simp add: listener_inv_def)
  qed
  ultimately show ?thesis by blast
qed

lemma delete_manager_inv:
  assumes "listener_inv w l" "sdk_promises w"
  shows "\<exists>l'. delete_manager w l = Done l' \<and> listener_inv w l' \<and> l_interactionManager l' = None"
proof (cases "l_interactionManager l")
  case None
  with assms(1) show ?thesis by (simp add: delete_manager_def)
next
  case (Some m)
  have d: "sdk_documented (l_env w l)" using promised [OF assms(2)] assms(1) by (simp add: listener_inv_def)
  have "manager_inv (l_env w l) m" using assms Some by (simp add: listener_inv_def)
  with d any_manager.destroyed_released [of "l_env w l" m "l_basic l"] obtain m'
    where m': "manager_destroy (l_env w l) (l_basic l) m = Done m'" "released (manager_out m')" by auto
  let ?l = "(drivers_perform w (new_requests m m') l)
    \<lparr>l_interactionManager := None, l_past := l_past l @ manager_out m'\<rparr>"
  have "delete_manager w l = Done ?l" using Some m'(1) by (simp add: delete_manager_def)
  moreover have "listener_inv w ?l"
  proof -
    have "mouse_agrees (ge_platform (w_os w)) False (l_osInteractionDriver ?l)"
      if P: "ge_platform (w_os w) \<noteq> Linux"
    proof -
      obtain b where b: "buttons (manager_out m) (Some False) = Some b"
        "mouse_agrees (ge_platform (w_os w)) b (l_osInteractionDriver l)"
        using assms(1) Some P by (auto simp: listener_inv_def button_of_def)
      then have "buttons (new_requests m m') (Some b) = Some False"
        using button_of_prefix [OF requests_accumulate(2) [OF m'(1)], of "Some False"] m'(2)
        by (simp add: released_def)
      from performed_mouse [OF b(2) refl P this] show ?thesis by simp
    qed
    then show ?thesis using assms(1) by (auto simp: listener_inv_def button_of_def)
  qed
  ultimately show ?thesis by force
qed

lemma new_manager_inv:
  assumes "listener_inv w l" "l_interactionManager l = None"
  shows "\<exists>l'. new_manager w l = Done l' \<and> listener_inv w l' \<and>
    l_osInteractionDriver l' = l_osInteractionDriver l \<and> l_overlayDriver l' = l_overlayDriver l"
proof -
  from New_fresh [of "l_env w l" "w_raw w" "l_desiredMode l" "l_basic l"] obtain m c'
    where m: "New (l_env w l) (w_raw w) (l_desiredMode l) (l_basic l) = (Inr m, c')"
      "\<forall>x. m = Some x \<longrightarrow> fresh_manager (l_env w l) x" by (fastforce split: option.splits)
  then have "button_of m = Some False" by (cases m) (auto simp: button_of_def fresh_manager_def)
  with m assms show ?thesis
    by (auto simp: new_manager_def listener_inv_def fresh_manager_def button_of_def)
qed

lemma onConnect_parts [simp]:
  "l_overlayDriver (onConnect l) = l_overlayDriver l"
  "l_osInteractionDriver (onConnect l) = l_osInteractionDriver l"
  "l_interactionManager (onConnect l) = l_interactionManager l"
  "l_overlayDriver (setReady l) = l_overlayDriver l"
  "l_osInteractionDriver (setReady l) = l_osInteractionDriver l"
  "l_interactionManager (setReady l) = l_interactionManager l"
  by (simp_all add: onConnect_def setReady_def emit_signal_def Let_def split: option.split)

lemma listener_step_inv:
  assumes "listener_inv w l" "sdk_promises w" "possible w l e"
  shows "\<exists>l'. listener_step w e l = Done l' \<and> listener_inv w l'"
proof (cases e)
  case (Frame f)
  with onFrame_inv [OF assms(1,2)] assms(3) show ?thesis by (simp add: listener_step_def)
next
  case (SetMode m)
  let ?l = "l\<lparr>l_desiredMode := m, l_updateSettings := True\<rparr>"
  have "listener_inv w ?l" using listener_inv_cong [OF assms(1) same_system_refl] assms(1)
    by (simp add: listener_inv_def)
  from delete_manager_inv [OF this assms(2)] obtain l1
    where l1: "delete_manager w ?l = Done l1" "listener_inv w l1" "l_interactionManager l1 = None" by blast
  have "listener_inv w (cancel_events w l1)" "l_interactionManager (cancel_events w l1) = None"
    using listener_inv_cong [OF l1(2) same_system_refl, of "cancel_events w l1"] l1(2,3)
    by (simp_all add: cancel_events_def listener_inv_def)
  from new_manager_inv [OF this] l1(1) SetMode show ?thesis by (auto simp: listener_step_def setDesiredMode_def)
next
  case Connect
  with listener_inv_cong [OF assms(1) same_system_refl, of "onConnect l"] assms(1)
  show ?thesis by (simp add: listener_step_def listener_inv_def)
next
  case SetReady
  with listener_inv_cong [OF assms(1) same_system_refl, of "setReady l"] assms(1)
  show ?thesis by (simp add: listener_step_def listener_inv_def)
next
  case Disconnect
  with listener_inv_cong [OF assms(1) same_system_refl, of "onDisconnect w l"] assms(1)
  show ?thesis by (simp add: listener_step_def listener_inv_def onDisconnect_def emit_signal_def cancel_events_def)
next
  case Exit
  with listener_inv_cong [OF assms(1) same_system_refl, of "onExit w l"] assms(1)
  show ?thesis by (simp add: listener_step_def listener_inv_def onExit_def emit_signal_def cancel_events_def)
next
  case FocusGained
  with listener_inv_cong [OF assms(1) same_system_refl, of "onFocusGained w l"] assms(1)
  show ?thesis by (simp add: listener_step_def listener_inv_def onFocusGained_def)
next
  case FocusLost
  with listener_inv_cong [OF assms(1) same_system_refl, of "onFocusLost w l"] assms(1)
  show ?thesis by (simp add: listener_step_def listener_inv_def onFocusLost_def cancel_events_def)
next
  case DisplaysChanged
  with listener_inv_cong [OF assms(1) same_system_refl, of "displays_changed w l"] assms(1)
  show ?thesis by (simp add: listener_step_def listener_inv_def displays_changed_def)
next
  case (SetMultipleMonitors b)
  with listener_inv_cong [OF assms(1) same_system_refl, of "setUseMultipleMonitors w b l"] assms(1)
  show ?thesis by (simp add: listener_step_def listener_inv_def setUseMultipleMonitors_def)
qed

lemma TouchlessListener_inv:
  fixes w :: "('f, 'h, 'p, 'd) world"
  assumes "ge_platform (w_os w) = Apple \<longrightarrow> \<not> w_buttonDown w"
  shows "\<exists>l. TouchlessListener w c config fs = Done l \<and> listener_inv w l"
proof -
  define v where "v = LPVirtualScreen (w_screens w)"
  obtain b e config1 where L: "LoadFromFile_verbose (first_config w fs) (w_configPath w) False ''configuration''
      (InitializeDefaults (w_internal_build w) (w_language_menu w) config) = (b, e, config1)"
    by (metis prod_cases3)
  define l :: "('f, 'p, 'd) listener" where "l = \<lparr>l_lastFrame = invalid_frame (w_sdk w), l_updateSettings = False,
      l_useMultipleMonitors = False, l_ready = False, l_waiting = None,
      l_osInteractionDriver = OSInteractionDriver (w_buttonDown w) (w_clickedButtons w) v,
      l_overlayDriver = OverlayDriver v, l_desiredMode = OUTPUT_MODE_DISABLED, l_interactionManager = None,
      l_basic = c, l_config = config1, l_files = first_config w fs, l_signals = [], l_past = []\<rparr>"
  have "listener_inv w l"
    using assms by (auto simp: l_def listener_inv_def button_of_def mouse_agrees_def OSInteractionDriver_def)
  from new_manager_inv [OF this] obtain l1
    where l1: "new_manager w l = Done l1" "listener_inv w l1" by (auto simp: l_def)
  let ?l = "l1\<lparr>l_osInteractionDriver := snd (initializeTouch (w_os w) (l_osInteractionDriver l1)),
      l_overlayDriver := initializeOverlay (w_icons w) (w_icon_files w) (l_overlayDriver l1)\<rparr>"
  have "TouchlessListener w c config fs = Done (updateDefaultScreen w ?l)"
    using L l1(1) by (simp add: TouchlessListener_def Let_def l_def v_def)
  moreover have "listener_inv w (updateDefaultScreen w ?l)"
    using l1(2) by (intro listener_inv_cong [OF l1(2) same_system_refl])
      (simp_all add: initializeTouch_def listener_inv_def)
  ultimately show ?thesis by blast
qed

lemma same_system_promises: "same_system w w' \<Longrightarrow> sdk_promises w' = sdk_promises w"
  by (simp add: same_system_def sdk_promises_def)

lemma same_system_sym: "same_system w w' \<Longrightarrow> same_system w' w"
  by (simp add: same_system_def)

lemma listener_inv_system:
  "same_system w w' \<Longrightarrow> listener_inv w l \<Longrightarrow> listener_inv w' l"
  using listener_inv_cong [of w l w' l] by (simp add: listener_inv_def)

lemma listening_inv:
  assumes "listening w fs l" "sdk_promises w" "ge_platform (w_os w) = Apple \<longrightarrow> \<not> w_buttonDown w"
  shows "listener_inv w l"
  using assms(1)
proof (induction rule: listening.induct)
  case (started c config l)
  with TouchlessListener_inv [OF assms(3), of c config fs] show ?case by auto
next
  case (called l w' e l')
  have "listener_inv w' l" using listener_inv_system [OF called(2)] called by blast
  moreover have "sdk_promises w'" using same_system_promises [OF called(2)] assms(2) by blast
  ultimately have "listener_inv w' l'" using listener_step_inv called by (metis outcome.inject)
  then show ?case by (rule listener_inv_system [OF same_system_sym [OF called(2)]])
qed

text \<open>
  C1 The program as a whole. From the construction of the listener on, whatever callbacks come, whatever
  mode the user selects and however the monitors, the cursor and the file system behave: every call
  returns, the mouse button the system sees goes down and up in turn, and it is up whenever there is no
  interaction manager.
\<close>

theorem listener_safe:
  assumes "listening w fs l" "sdk_promises w" "ge_platform (w_os w) = Apple \<longrightarrow> \<not> w_buttonDown w"
  shows "(\<forall>w' e. same_system w w' \<longrightarrow> possible w' l e \<longrightarrow> (\<exists>l'. listener_step w' e l = Done l')) \<and>
    (ge_platform (w_os w) \<noteq> Linux \<longrightarrow>
       mouse (o_sent (l_osInteractionDriver l)) (Some False) \<noteq> None \<and>
       (l_interactionManager l = None \<longrightarrow> mouse (o_sent (l_osInteractionDriver l)) (Some False) = Some False))"
proof -
  have inv: "listener_inv w l" by (rule listening_inv [OF assms])
  have "\<exists>l'. listener_step w' e l = Done l'" if "same_system w w'" "possible w' l e" for w' e
  proof -
    have "listener_inv w' l" "sdk_promises w'"
      using that(1) inv assms(2) same_system_promises by (auto intro: listener_inv_system)
    from listener_step_inv [OF this that(2)] show ?thesis by blast
  qed
  with inv show ?thesis by (auto simp: listener_inv_def mouse_agrees_def button_of_def)
qed

section \<open>Restarts\<close>

lemma read_text: "json_ok v \<Longrightarrow> read_value (ToJSON e p v) VNull = canon v"
  by (rule json_text.read_back)

lemma same_text:
  assumes "json_ok u" "json_ok v" "value_eq u v"
  shows "canon u = canon v"
  using read_text [OF assms(1), of True False] read_text [OF assms(2), of True False] assms(3)
  by (simp add: value_eq_def)

text \<open>A setting that the store holds, saved and read back.\<close>

lemma setting_read:
  assumes inv: "config_inv ib lm s" and d: "map_of (default_map ib lm) name = Some d"
    and u: "map_of (AttributeMap s) name = Some a" "value_eq (at_value a) v"
    and v: "json_ok v" "canon v = v"
    and t: "map_of (AttributeMap t) name =
       (case map_of (ModifiedMap s) name of
          None \<Rightarrow> map_of (default_map ib lm) name
        | Some v \<Rightarrow> map_option (\<lambda>a. if value_eq (at_value a) (canon v) then a else a\<lparr>at_value := canon v\<rparr>)
                     (map_of (default_map ib lm) name))"
  shows "\<exists>b. map_of (AttributeMap t) name = Some b \<and> (at_value b = at_value d \<or> at_value b = v) \<and>
    value_eq (at_value b) v"
proof (cases "map_of (ModifiedMap s) name")
  case None
  with inv d u t show ?thesis by (auto simp: config_inv_def)
next
  case (Some x)
  have "at_value a = x" using inv d u(1) Some by (auto simp: config_inv_def)
  moreover have "json_ok x"
    using inv map_of_SomeD [OF Some] by (auto simp: config_inv_def)
  ultimately have "canon x = v" using same_text [of x v] u(2) v by simp
  with t d Some show ?thesis by (auto simp: value_eq_def)
qed

lemma SetAttribute_section [simp]:
  "SectionToFileMap (snd (SetAttribute n v b s)) = SectionToFileMap s"
  by (simp add: SetAttribute_def Let_def split: option.split)

lemma output_file_set [simp]: "output_file sec (snd (SetAttribute n v b s)) = output_file sec s"
  by (simp add: output_file_def split: option.split)

lemma LoadFromFile_section:
  "output_file sec (snd (LoadFromFile fs fileName sec s)) = Some fileName"
proof -
  have "SectionToFileMap (fold (\<lambda>(name, v) t. snd (SetAttribute name v True t)) h s') = SectionToFileMap s'" for h s'
    by (induction h arbitrary: s') auto
  moreover have "map_of (SectionToFileMap (SetOutputFile fileName sec s)) sec = Some fileName"
    by (simp add: SetOutputFile_def Let_def map_of_map_set)
  ultimately show ?thesis
    by (auto simp: LoadFromFile_def Let_def split_beta output_file_def split: option.split dvalue.split)
qed

definition readable :: "files \<Rightarrow> string \<Rightarrow> bool" where
  "readable fs fileName \<longleftrightarrow> (\<forall>contents. fs fileName = Some contents \<longrightarrow> json_ok (read_value contents VNull))"

definition settings_inv :: "('f, 'h, 'p, 'd) world \<Rightarrow> ('f, 'p, 'd) listener \<Rightarrow> bool" where
  "settings_inv w l \<longleftrightarrow>
     config_inv (w_internal_build w) (w_language_menu w) (l_config l) \<and>
     output_file ''configuration'' (l_config l) = Some (w_configPath w) \<and>
     readable (l_files l) (w_configPath w)"

lemma section_name_ok: "CHR 0x00 \<notin> set ''configuration''"
  by simp

lemma Save_readable:
  assumes "config_inv ib lm s" "output_file ''configuration'' s = Some fileName" "readable fs fileName"
  shows "readable (snd (Save writable r ''configuration'' False fs s)) fileName"
proof (cases "ModifiedMap s \<noteq> [] \<and> writable (fileName @ ''.tmp'') \<and> r")
  case True
  have old: "json_ok (read_value contents VNull)" if "fs fileName = Some contents" for contents
    using assms(3) that by (simp add: readable_def)
  from True have set: "ModifiedMap s \<noteq> []" "writable (fileName @ ''.tmp'')" and r by blast+
  show ?thesis
    by (rule settings_read_back [of ib lm s "''configuration''" fileName writable fs,
          OF assms(1) set(1) assms(2) set(2) section_name_ok old])
      (use \<open>r\<close> in \<open>simp_all add: readable_def\<close>)
next
  case False
  with assms(2,3) show ?thesis
    by (auto simp: Save_def readable_def Let_def)
qed

definition settings_set :: "('f, 'p, 'd) listener \<Rightarrow> ConfigState" where
  "settings_set l =
     snd (SetAttribute ''os_interaction_mode'' (VInt (word_of_int (l_desiredMode l))) True
       (snd (SetAttribute ''os_interaction_multi_monitor'' (VBool (l_useMultipleMonitors l)) True (l_config l))))"

lemma save_settings_eq:
  "save_settings w l =
     (if l_updateSettings l
      then l\<lparr>l_config := settings_set l,
             l_files := snd (Save (w_writable w) (w_rename_ok w) ''configuration'' False (l_files l) (settings_set l)),
             l_updateSettings := False\<rparr>
      else l)"
  by (simp add: save_settings_def settings_set_def Let_def)

lemma settings_set_inv:
  assumes "settings_inv w l"
  shows "config_inv (w_internal_build w) (w_language_menu w) (settings_set l)"
    "output_file ''configuration'' (settings_set l) = Some (w_configPath w)"
  using assms by (simp_all add: settings_set_def settings_inv_def user_set_inv scalar_ok_def)

lemma settings_inv_cong:
  "settings_inv w l \<Longrightarrow> l_config l' = l_config l \<Longrightarrow> l_files l' = l_files l \<Longrightarrow> settings_inv w l'"
  by (simp add: settings_inv_def)

lemma save_settings_inv:
  assumes "settings_inv w l"
  shows "settings_inv w (save_settings w' l)"
  using assms settings_set_inv [OF assms] Save_readable [of _ _ "settings_set l"]
  by (auto simp: save_settings_eq settings_inv_def)

lemma updateDefaultScreen_config [simp]:
  "l_config (updateDefaultScreen w l) = l_config l" "l_files (updateDefaultScreen w l) = l_files l"
  "l_desiredMode (updateDefaultScreen w l) = l_desiredMode l"
  "l_useMultipleMonitors (updateDefaultScreen w l) = l_useMultipleMonitors l"
  "l_waiting (updateDefaultScreen w l) = l_waiting l"
  by (simp_all add: updateDefaultScreen_def use_default_screen_def)

lemma new_manager_config:
  "new_manager w l = Done l' \<Longrightarrow> l_config l' = l_config l \<and> l_files l' = l_files l \<and>
     l_desiredMode l' = l_desiredMode l \<and> l_updateSettings l' = l_updateSettings l \<and> l_waiting l' = l_waiting l"
  by (auto simp: new_manager_def split: prod.splits sum.splits)

lemma delete_manager_config:
  "delete_manager w l = Done l' \<Longrightarrow> l_config l' = l_config l \<and> l_files l' = l_files l \<and>
     l_desiredMode l' = l_desiredMode l \<and> l_updateSettings l' = l_updateSettings l \<and> l_waiting l' = l_waiting l"
  by (auto simp: delete_manager_def drivers_perform_def bind_outcome_eq_Done split: option.splits)

lemma step_settings:
  assumes "settings_inv w l" "listener_step w' e l = Done l'"
  shows "settings_inv w l'"
proof (cases "\<exists>f. e = Frame f")
  case True
  with assms(2) have "l_config l' = l_config (save_settings w' l) \<and> l_files l' = l_files (save_settings w' l)"
    by (auto simp: listener_step_def onFrame_def Let_def drivers_perform_def bind_outcome_eq_Done split: option.splits)
  with settings_inv_cong [OF save_settings_inv [OF assms(1), of w']] show ?thesis by blast
next
  case False
  with assms(2) have "l_config l' = l_config l \<and> l_files l' = l_files l"
    by (cases e)
      (auto simp: listener_step_def onConnect_def setReady_def onDisconnect_def onExit_def onFocusGained_def
        onFocusLost_def setUseMultipleMonitors_def setDesiredMode_def displays_changed_def emit_signal_def cancel_events_def
        Let_def bind_outcome_eq_Done dest!: new_manager_config delete_manager_config split: option.splits)
  with settings_inv_cong [OF assms(1)] show ?thesis by blast
qed

lemma first_config_readable:
  assumes "readable fs (w_configPath w)"
  shows "readable (first_config w fs) (w_configPath w)"
proof -
  have "json_ok empty_config" by (simp add: empty_config_def)
  then have "json_ok (read_value (ToJSON True False empty_config) VNull)"
    using read_text [of empty_config] canon_ok [of empty_config] by simp
  with assms show ?thesis by (simp add: first_config_def readable_def)
qed

text \<open>The configuration the constructor starts with.\<close>

lemma started_config:
  assumes "TouchlessListener w c config fs = Done l"
  shows "l_config l = snd (LoadFromFile (first_config w fs) (w_configPath w) ''configuration''
      (InitializeDefaults (w_internal_build w) (w_language_menu w) config))"
    "l_files l = first_config w fs" "l_waiting l = None"
  using assms
  by (auto simp: TouchlessListener_def Let_def LoadFromFile_verbose_def split_beta bind_outcome_eq_Done
      new_manager_def split: prod.splits sum.splits option.splits)

lemma listening_settings:
  assumes "listening w fs l" "readable fs (w_configPath w)"
  shows "settings_inv w l"
  using assms(1)
proof (induction rule: listening.induct)
  case (started c config l)
  have "config_inv (w_internal_build w) (w_language_menu w) (l_config l)"
    unfolding started_config(1) [OF started]
    using configured_inv [OF configured.defaults] first_config_readable [OF assms(2)]
    by (intro LoadFromFile_inv) (auto simp: readable_def)
  with first_config_readable [OF assms(2)] show ?case
    by (simp add: settings_inv_def started_config [OF started] LoadFromFile_section)
next
  case (called l w' e l')
  then show ?case using step_settings by blast
qed

lemma multi_default:
  "map_of (default_map ib lm) ''os_interaction_multi_monitor'' =
     Some \<lparr>at_value = VBool False, at_access = WRITE_ALWAYS\<rparr>"
proof -
  define entry :: "default \<Rightarrow> string \<times> attribute"
    where "entry = (\<lambda>(name, v, access). (name, \<lparr>at_value = v, at_access = access\<rparr>))"
  have "map_of (map entry (rev calibration_defaults)) ''os_interaction_multi_monitor'' = None"
    by (auto simp: map_of_eq_None_iff calibration_defaults_def entry_def)
  moreover have "map_of (map entry (rev (menu_defaults lm))) ''os_interaction_multi_monitor'' = None"
    by (simp add: menu_defaults_def entry_def)
  moreover have "map_of (map entry (rev (update_defaults ib))) ''os_interaction_multi_monitor'' = None"
    by (simp add: update_defaults_def entry_def)
  moreover have "map_of (map entry (rev interaction_defaults)) ''os_interaction_multi_monitor'' =
      Some \<lparr>at_value = VBool False, at_access = WRITE_ALWAYS\<rparr>"
    by (simp add: interaction_defaults_def entry_def)
  ultimately show ?thesis
    unfolding map_of_default_map all_defaults_def entry_def [symmetric]
    by (simp add: map_add_def)
qed

text \<open>After the two settings the store holds them, and the change of the mode has been noted.\<close>

lemma settings_set_values:
  assumes "config_inv ib lm (l_config l)"
  shows "\<exists>a. map_of (AttributeMap (settings_set l)) ''os_interaction_mode'' = Some a \<and>
      value_eq (at_value a) (VInt (word_of_int (l_desiredMode l)))"
    "\<exists>a. map_of (AttributeMap (settings_set l)) ''os_interaction_multi_monitor'' = Some a \<and>
      value_eq (at_value a) (VBool (l_useMultipleMonitors l))"
proof -
  let ?s1 = "snd (SetAttribute ''os_interaction_multi_monitor'' (VBool (l_useMultipleMonitors l)) True (l_config l))"
  have e: "\<exists>a. map_of (AttributeMap s) name = Some a \<and> at_access a = WRITE_ALWAYS"
    if "config_inv ib lm s" "map_of (default_map ib lm) name = Some d" "at_access d = WRITE_ALWAYS" for s name d
    using that by (auto simp: config_inv_def split: option.split)
  obtain a where a: "map_of (AttributeMap (l_config l)) ''os_interaction_multi_monitor'' = Some a"
    "at_access a = WRITE_ALWAYS" using e [OF assms multi_default] by auto
  have "config_inv ib lm ?s1" using user_set_inv [OF assms] by (simp add: scalar_ok_def)
  from e [OF this mode_default] obtain b where b: "map_of (AttributeMap ?s1) ''os_interaction_mode'' = Some b"
    "at_access b = WRITE_ALWAYS" by auto
  show "\<exists>a. map_of (AttributeMap (settings_set l)) ''os_interaction_mode'' = Some a \<and>
      value_eq (at_value a) (VInt (word_of_int (l_desiredMode l)))"
    using user_set(2) [OF b] by (auto simp: settings_set_def value_eq_def)
  show "\<exists>a. map_of (AttributeMap (settings_set l)) ''os_interaction_multi_monitor'' = Some a \<and>
      value_eq (at_value a) (VBool (l_useMultipleMonitors l))"
    using user_set(2) [OF b] user_set(2) [OF a] by (auto simp: settings_set_def value_eq_def)
qed

text \<open>With the two defaults, the text determines the value.\<close>

lemma texts_differ: "\<not> value_eq VOther (VInt m)" "value_eq (VBool b) (VBool c) \<longleftrightarrow> b = c"
proof -
  have "[] \<noteq> show_int i" for i using show_nat_nonempty by (simp add: show_int_def eq_commute [of "[]"])
  then show "\<not> value_eq VOther (VInt m)"
    by (simp add: value_eq_def ToJSON_def toStream_def indentation_def pretty_def scalar_text_def)
  show "value_eq (VBool b) (VBool c) \<longleftrightarrow> b = c"
    by (simp add: value_eq_def ToJSON_def toStream_def indentation_def pretty_def scalar_text_def)
qed

definition same_program :: "('f, 'h, 'p, 'd) world \<Rightarrow> ('f, 'h, 'p, 'd) world \<Rightarrow> bool" where
  "same_program w w' \<longleftrightarrow>
     w_configPath w' = w_configPath w \<and> w_internal_build w' = w_internal_build w \<and>
     w_language_menu w' = w_language_menu w"

text \<open>
  The user's choices are stored and read back. When the user has changed the mode or the use of the
  monitors, the next frame stores both, if the file can be written; a new listener that finds the file and
  connects remembers the same mode and the same use of the monitors. The file the program started with may be
  absent or hold any value without NUL bytes and infinities.
\<close>

lemma mode_survives_restart:
  assumes "listening w fs l" "readable fs (w_configPath w)"
    and "l_updateSettings l" "- (2 ^ 31) \<le> l_desiredMode l" "l_desiredMode l < 2 ^ 31"
    and "listener_step w1 (Frame f) l = Done l1"
    and "w_writable w1 (w_configPath w @ ''.tmp'')" "w_rename_ok w1"
    and "same_program w w2" "TouchlessListener w2 c config (l_files l1) = Done l2"
  shows "l_desiredMode (onConnect l2) = l_desiredMode l \<and>
    l_useMultipleMonitors (onConnect l2) = l_useMultipleMonitors l"
proof -
  let ?ib = "w_internal_build w" and ?lm = "w_language_menu w" and ?path = "w_configPath w"
  have inv: "settings_inv w l" by (rule listening_settings [OF assms(1,2)])
  note set = settings_set_inv [OF inv]
  have c: "config_inv ?ib ?lm (l_config l)" using inv by (simp add: settings_inv_def)
  note v = settings_set_values [OF c]
  have m: "ModifiedMap (settings_set l) \<noteq> []"
  proof
    assume "ModifiedMap (settings_set l) = []"
    with set(1) mode_default [of ?ib ?lm]
    have "map_of (AttributeMap (settings_set l)) ''os_interaction_mode'' =
        Some \<lparr>at_value = VOther, at_access = WRITE_ALWAYS\<rparr>" by (simp add: config_inv_def)
    with v(1) texts_differ(1) show False by auto
  qed
  have old: "json_ok (read_value contents VNull)" if "l_files l ?path = Some contents" for contents
    using inv that by (simp add: settings_inv_def readable_def)
  show ?thesis
  proof (rule settings_read_back [of ?ib ?lm "settings_set l" "''configuration''" ?path "w_writable w1" "l_files l",
        OF set(1) m set(2) assms(7) section_name_ok old])
    fix fs' contents t
    assume save: "Save (w_writable w1) True ''configuration'' False (l_files l) (settings_set l) = (True, fs')"
      "fs' ?path = Some contents"
      and load: "\<And>s0. LoadFromFile fs' ?path ''configuration'' (InitializeDefaults ?ib ?lm s0) = (None, t s0)"
      and t: "\<And>s0 name. map_of (AttributeMap (t s0)) name =
         (case map_of (ModifiedMap (settings_set l)) name of
            None \<Rightarrow> map_of (default_map ?ib ?lm) name
          | Some v \<Rightarrow> map_option (\<lambda>a. if value_eq (at_value a) (canon v) then a else a\<lparr>at_value := canon v\<rparr>)
                       (map_of (default_map ?ib ?lm) name))"
    have "l_files l1 = fs'"
      using assms(3,6,8) save(1)
      by (auto simp: listener_step_def onFrame_def Let_def drivers_perform_def bind_outcome_eq_Done
          save_settings_eq split: option.splits)
    moreover from this save(2) assms(9) have "first_config w2 (l_files l1) = fs'"
      by (simp add: first_config_def same_program_def)
    ultimately have l2: "l_config l2 = t config"
      using started_config(1) [OF assms(10)] load assms(9) by (simp add: same_program_def)
    have j: "json_ok (VInt k)" "canon (VInt k) = VInt k" "json_ok (VBool u)" "canon (VBool u) = VBool u" for k u
      by (simp_all add: scalar_ok_def scalar_canon_def)
    obtain x where x: "map_of (AttributeMap (settings_set l)) ''os_interaction_mode'' = Some x"
      "value_eq (at_value x) (VInt (word_of_int (l_desiredMode l)))" using v(1) by blast
    obtain y where y: "map_of (AttributeMap (settings_set l)) ''os_interaction_multi_monitor'' = Some y"
      "value_eq (at_value y) (VBool (l_useMultipleMonitors l))" using v(2) by blast
    obtain a where a: "map_of (AttributeMap (t config)) ''os_interaction_mode'' = Some a"
      "at_value a = VInt (word_of_int (l_desiredMode l))"
      using setting_read [OF set(1) mode_default x j(1,2) t [of config]] texts_differ(1) by auto
    obtain b where b: "map_of (AttributeMap (t config)) ''os_interaction_multi_monitor'' = Some b"
      "at_value b = VBool (l_useMultipleMonitors l)"
      using setting_read [OF set(1) multi_default y j(3,4) t [of config]] texts_differ(2) by auto
    have "sint (word_of_int (l_desiredMode l) :: 32 word) = l_desiredMode l"
      using assms(4,5) by (simp only: sint_sbintrunc' len_of_numeral_defs) (simp add: signed_take_bit_int_eq_self)
    with a b l2 show ?thesis
      by (simp add: onConnect_def GetAttribute_def Let_def To_int_def To_bool_def emit_signal_def)
  qed
qed

section \<open>The default screen\<close>

text \<open>Neither a mode's requests nor the end of a gesture change which screens are active.\<close>

definition screens_of :: "'d os_driver \<Rightarrow> bool \<times> LPScreen list \<times> bool" where
  "screens_of d =
     (m_useDefaultScreen (o_virtualScreen d), m_activeScreens (o_virtualScreen d), m_touchManager d = None)"

lemma screens_move [simp]: "screens_of (snd (move_to p d)) = screens_of d"
  by (simp add: move_to_def screens_of_def SetPosition_def split_beta)

lemma screens_sync [simp]: "screens_of (syncPosition E d) = screens_of d"
proof -
  have "screens_of (sync_to p d) = screens_of d" for p
    using screens_move [of p d] by (simp add: sync_to_def screens_of_def split_beta)
  then show ?thesis
    by (simp add: syncPosition_def win_syncPosition_def mac_syncPosition_def split: platform.split)
qed

lemma screens_gesture [simp]: "screens_of (snd (with_gesture f d)) = screens_of d"
  by (simp add: with_gesture_def screens_of_def split_beta)

lemma screens_small [simp]:
  "screens_of (SendInput i d) = screens_of d" "screens_of (set_clicked k v d) = screens_of d"
  "screens_of (d\<lparr>m_buttonDown := b\<rparr>) = screens_of d" "screens_of (d\<lparr>m_movingCursor := b\<rparr>) = screens_of d"
  "screens_of (d\<lparr>m_touchManager := map_option g (m_touchManager d)\<rparr>) = screens_of d"
  by (simp_all add: SendInput_def set_clicked_def screens_of_def)

lemma screens_cursor [simp]: "screens_of (setCursorPosition E x y a d) = screens_of d"
  by (simp add: cursor_defs Let_def split_beta split: platform.split)

lemma screens_act: "screens_of (snd (os_act E a d)) = screens_of d"
  by (simp add: os_act_def click_defs os_beginGesture_def os_endGesture_def os_applyZoom_def os_applyRotation_def
      os_applyScroll_def os_applyDesktopSwipe_def applyCharms_def windowsKeyCombo_def os_emitTouchEvent_def Let_def
      split: action.split platform.split)

lemma screens_run [simp]: "screens_of (snd (os_run eas d)) = screens_of d"
proof (induction eas d rule: os_run.induct)
  case (2 E a as d)
  obtain r d1 where d1: "os_act E a d = (r, d1)" by (cases "os_act E a d")
  with 2 [OF d1 [symmetric]] screens_act [of E a d] show ?case by (simp add: Let_def split_beta)
qed simp

lemma screens_cancel [simp]: "screens_of (cancelGestureEvents E d) = screens_of d"
  by (simp add: cancelGestureEvents_def win_cancelGestureEvents_def mac_cancelGestureEvents_def
      linux_cancelGestureEvents_def os_endGesture_def Let_def screens_of_def [of "_\<lparr>m_touchManager := _\<rparr>"]
      split: platform.split) (simp add: screens_of_def)

definition on_default_screen :: "'d os_driver \<Rightarrow> bool" where
  "on_default_screen d \<longleftrightarrow>
     m_touchManager d \<noteq> None \<and> m_useDefaultScreen (o_virtualScreen d) \<and>
     length (m_activeScreens (o_virtualScreen d)) = 1"

lemma on_default_screen_cong: "screens_of d' = screens_of d \<Longrightarrow> on_default_screen d' = on_default_screen d"
  by (simp add: screens_of_def on_default_screen_def)

lemma active_default: "screens \<noteq> [] \<Longrightarrow> length (active_screens True screens) = 1"
  by (cases screens) (auto simp: active_screens_def split: option.split)

lemma default_screen_used:
  "screens \<noteq> [] \<Longrightarrow> m_touchManager d \<noteq> None \<Longrightarrow>
   on_default_screen d \<or> \<not> m_useDefaultScreen (o_virtualScreen d) \<Longrightarrow>
   on_default_screen (useDefaultScreen True screens d)"
  by (auto simp: on_default_screen_def useDefaultScreen_def UseDefaultScreen_def Update_def Let_def active_default)

lemma default_screen_kept:
  assumes "on_default_screen (l_osInteractionDriver l)" "ge_platform (w_os w) = Windows"
  shows "updateDefaultScreen w l = l"
proof -
  have "numTouchScreens (w_os w) (l_osInteractionDriver l) = 1"
    using assms by (simp add: numTouchScreens_def on_default_screen_def)
  with assms(1) show ?thesis
    by (simp add: updateDefaultScreen_def use_default_screen_def useDefaultScreen_def UseDefaultScreen_def
        on_default_screen_def)
qed

lemma new_manager_driver:
  "new_manager w l = Done l' \<Longrightarrow> l_osInteractionDriver l' = l_osInteractionDriver l \<and>
    l_useMultipleMonitors l' = l_useMultipleMonitors l"
  by (auto simp: new_manager_def split: prod.splits sum.splits)

lemma delete_manager_screens:
  "delete_manager w l = Done l' \<Longrightarrow> screens_of (l_osInteractionDriver l') = screens_of (l_osInteractionDriver l)"
  by (auto simp: delete_manager_def drivers_perform_def bind_outcome_eq_Done split: option.splits)

lemma step_default_screen:
  assumes "on_default_screen (l_osInteractionDriver l)" "ge_platform (w_os w) = Windows" "w_screens w \<noteq> []"
    and "listener_step w e l = Done l'"
  shows "on_default_screen (l_osInteractionDriver l')"
proof (cases e)
  case DisplaysChanged
  with assms show ?thesis
    by (auto simp: listener_step_def displays_changed_def on_default_screen_def Update_def Let_def active_default)
next
  case FocusGained
  with assms default_screen_kept [OF assms(1,2)] show ?thesis by (auto simp: listener_step_def onFocusGained_def)
next
  case (SetMultipleMonitors b)
  with assms default_screen_kept [of "l\<lparr>l_useMultipleMonitors := b, l_updateSettings := True\<rparr>" w]
  show ?thesis by (auto simp: listener_step_def setUseMultipleMonitors_def)
next
  case (Frame f)
  with assms(4) have "screens_of (l_osInteractionDriver l') = screens_of (l_osInteractionDriver l)"
    by (auto simp: listener_step_def onFrame_def Let_def drivers_perform_def bind_outcome_eq_Done split: option.splits)
  with assms(1) on_default_screen_cong show ?thesis by blast
next
  case (SetMode m)
  with assms(4) have "screens_of (l_osInteractionDriver l') = screens_of (l_osInteractionDriver l)"
    by (auto simp: listener_step_def setDesiredMode_def bind_outcome_eq_Done cancel_events_def
        dest!: new_manager_driver delete_manager_screens)
  with assms(1) on_default_screen_cong show ?thesis by blast
qed (use assms(1,4) in \<open>auto simp: listener_step_def onDisconnect_def onExit_def onFocusLost_def emit_signal_def
    cancel_events_def on_default_screen_cong [OF screens_cancel]\<close>)

lemma started_default_screen:
  assumes "ge_platform (w_os w) = Windows" "w_screens w \<noteq> []" "oe_newManager (w_os w) \<noteq> None"
    and "TouchlessListener w c config fs = Done l"
  shows "on_default_screen (l_osInteractionDriver l)"
proof -
  let ?d = "OSInteractionDriver (w_buttonDown w) (w_clickedButtons w) (LPVirtualScreen (w_screens w))"
  have "l_osInteractionDriver l = useDefaultScreen True (w_screens w) (snd (initializeTouch (w_os w) ?d))"
    using assms(4)
    by (auto simp: TouchlessListener_def Let_def split_beta bind_outcome_eq_Done updateDefaultScreen_def
        use_default_screen_def dest!: new_manager_driver)
  then show ?thesis
    using assms by (auto simp: initializeTouch_def OSInteractionDriver_def LPVirtualScreen_def Update_def Let_def
        intro!: default_screen_used)
qed

text \<open>
  With touch output the setting for several monitors has no effect. On Windows, when touches can be
  injected, the listener stays on the default screen whatever the user sets: it counts the screens
  that are active, which is one while the default screen is in use, and one keeps the default screen in
  use.
\<close>

theorem multiple_monitors_ignored:
  assumes "listening w fs l"
    and "ge_platform (w_os w) = Windows" "w_screens w \<noteq> []" "oe_newManager (w_os w) \<noteq> None"
  shows "m_useDefaultScreen (o_virtualScreen (l_osInteractionDriver l)) \<and>
    length (m_activeScreens (o_virtualScreen (l_osInteractionDriver l))) = 1"
proof -
  have "on_default_screen (l_osInteractionDriver l)"
    using assms(1)
  proof (induction rule: listening.induct)
    case (started c config l)
    with started_default_screen assms(2-4) show ?case by blast
  next
    case (called l w' e l')
    with step_default_screen [of l w' e l'] assms(2,3) show ?case by (simp add: same_system_def)
  qed
  then show ?thesis by (simp add: on_default_screen_def)
qed

section \<open>The destructor\<close>

lemma gim_destroy_flush: "e_platform L = Apple \<Longrightarrow> out (gim_destroy L s) = out s @ [FlushOverlay]"
  by (simp add: gim_destroy_def)

lemma destroy_flushes:
  assumes "manager_destroy L c m = Done m'" "e_platform L = Apple"
  shows "\<exists>as. prefix (manager_out m) as \<and> manager_out m' = as @ [FlushOverlay]"
proof -
  note g = gim_destroy_flush [OF assms(2)]
  show ?thesis
  proof (cases m)
    case (GestureOnlyManager s)
    with assms(1) asked_prefix [OF asked_outcome_rules(9) [OF asked_now]] show ?thesis
      by (auto simp: manager_destroy_def map_outcome_Done go_destroy_def bind_outcome_eq_Done g)
  next
    case (BasicManager s)
    with assms(1) obtain u where u: "Shutdown (bm_handler L c) s = Done u" "manager_out m' = out (flushOverlay L u) @ [FlushOverlay]"
      by (auto simp: manager_destroy_def map_outcome_Done bm_destroy_def bind_outcome_eq_Done g)
    have "asked (out s) u" using asked_prefix [OF asked_outcome_rules(6) [OF asked_now] u(1)] by (simp add: asked_def)
    then have "asked (out s) (flushOverlay L u)" by (rule asked_calls)
    with u(2) BasicManager show ?thesis by (simp add: asked_def)
  next
    case (TouchPeripheralManager s)
    with assms(1) show ?thesis by (auto simp: manager_destroy_def map_outcome_Done tp_destroy_def g)
  next
    case (FingerMouseManager s)
    let ?s = "flushOverlay L (emit (hide_icons 0 (gm_numOverlayImages s)) s)"
    obtain u where u: "Shutdown (fm_handler L fm_config_default) ?s = Done u" "manager_out m' = out u @ [FlushOverlay]"
      using assms(1) FingerMouseManager
      by (auto simp: manager_destroy_def map_outcome_Done fm_destroy_def bind_outcome_eq_Done g)
    have "asked (out s) ?s" by (intro asked_calls asked_now)
    then have "asked (out s) u"
      using asked_outcome_rules(12) [of "out s" ?s L fm_config_default] u(1) by (simp add: asked_outcome_def)
    with u(2) FingerMouseManager show ?thesis by (simp add: asked_def)
  qed
qed

lemma destroy_requests:
  assumes "manager_destroy L c m = Done m'" "e_platform L = Apple"
  shows "FlushOverlay \<in> set (new_requests m m')"
  using destroy_flushes [OF assms] by (auto simp: new_requests_def prefix_def)

text \<open>
  C17 The destructor calls a driver that is gone. On the Macintosh, with any interaction manager, the
  listener's destructor has freed the overlay driver when the manager's own destructor asks it for a flush:
  the call is undefined. With the manager deleted first, and the drivers after it, every delete returns.
\<close>

theorem destructor_calls_freed_driver:
  assumes "listening w fs l" "sdk_promises w" "ge_platform (w_os w) = Apple" "\<not> w_buttonDown w"
    and "l_interactionManager l \<noteq> None"
  shows "TouchlessListener_destroy w l = Crash \<and>
    (\<exists>l'. delete_members w [OwnedManager, OwnedOsDriver, OwnedOverlayDriver] ([], l) =
       Done ([OwnedOverlayDriver, OwnedOsDriver, OwnedManager], l'))"
proof -
  obtain m where m: "l_interactionManager l = Some m" using assms(5) by blast
  have inv: "listener_inv w l" using listening_inv [OF assms(1,2)] assms(4) by blast
  have "sdk_documented (l_env w l)" using promised [OF assms(2)] inv by (simp add: listener_inv_def)
  moreover have "manager_inv (l_env w l) m" using inv m by (simp add: listener_inv_def)
  ultimately obtain m' where m': "manager_destroy (l_env w l) (l_basic l) m = Done m'"
    using any_manager.destroyed_released [of "l_env w l" m "l_basic l"] by auto
  have "\<exists>a\<in>set (new_requests m m'). asked_driver a = OwnedOverlayDriver"
    using destroy_requests [OF m'] assms(3) by (intro bexI [of _ FlushOverlay]) (simp_all add: asked_driver_def)
  then have "TouchlessListener_destroy w l = Crash"
    using m m' by (auto simp: TouchlessListener_destroy_def delete_member_def list_ex_iff)
  moreover have "\<exists>l'. delete_members w [OwnedManager, OwnedOsDriver, OwnedOverlayDriver] ([], l) =
      Done ([OwnedOverlayDriver, OwnedOsDriver, OwnedManager], l')"
    using m m' by (simp add: delete_member_def list_ex_iff)
  ultimately show ?thesis by blast
qed

section \<open>A run\<close>

definition sample_screen :: LPScreen where
  "sample_screen = hd (m_activeScreens s_screen)"

definition sample_world :: "platform \<Rightarrow> (s_frame, s_hand, s_pointable, unit) world" where
  "sample_world p =
     \<lparr>w_sdk = sample p, w_os = mac_env\<lparr>ge_platform := p, oe_newManager := Some ()\<rparr>, w_screens = [sample_screen],
      w_configPath = ''touchless.json'', w_internal_build = False, w_language_menu = False,
      w_writable = (\<lambda>n. True), w_rename_ok = True, w_icon_files = (\<lambda>i. False), w_icons = None,
      w_raw = \<lparr>rm_time = 0, rm_time2 = 0, rm_hand = -1, rm_buckets = (\<lambda>b. 0), rm_eligible = False,
               rm_defer = False, rm_mountainLion = True\<rparr>,
      w_buttonDown = False, w_clickedButtons = replicate 8 False\<rparr>"

lemma sample_world_simps [simp]:
  "sdk_promises (sample_world p)" "ge_platform (w_os (sample_world p)) = p" "\<not> w_buttonDown (sample_world p)"
  "w_screens (sample_world p) \<noteq> []" "oe_newManager (w_os (sample_world p)) \<noteq> None"
  "w_configPath (sample_world p) = ''touchless.json''" "w_writable (sample_world p) n" "w_rename_ok (sample_world p)"
  "w_sdk (sample_world p) = sample p"
  by (simp_all add: sample_world_def sdk_promises_def sample_hands sample_ids sample_probabilities)

abbreviation no_files :: files where "no_files \<equiv> \<lambda>n. None"

lemma sample_started:
  "\<exists>l. TouchlessListener (sample_world p) bm_config_default initial_state no_files = Done l \<and>
     listening (sample_world p) no_files l"
  using TouchlessListener_inv [of "sample_world p" bm_config_default initial_state no_files]
  by (force intro: listening.started)

text \<open>The user selects a mode.\<close>

lemma new_manager_history:
  assumes "new_manager w l = Done l'" "l_interactionManager l' = Some m"
  shows "th_pairs (manager_history m) = []"
  using assms New_fresh [of "l_env w l" "w_raw w" "l_desiredMode l" "l_basic l"]
  by (auto simp: new_manager_def fresh_manager_def split: prod.splits sum.splits option.splits)

lemma sample_mode:
  assumes "listening (sample_world p) no_files l"
  obtains l' where "listening (sample_world p) no_files l'"
    "l_desiredMode l' = k" "l_updateSettings l'" "l_waiting l' = l_waiting l"
    "\<forall>m. l_interactionManager l' = Some m \<longrightarrow> th_pairs (manager_history m) = []"
    "k \<in> {1, 2, 3} \<Longrightarrow> l_interactionManager l' \<noteq> None"
proof -
  have inv: "listener_inv (sample_world p) l" using listening_inv [OF assms(1)] by simp
  have "possible (sample_world p) l (SetMode k)" by (simp add: possible_def)
  with listener_step_inv [OF inv _ this] obtain l' where l': "listener_step (sample_world p) (SetMode k) l = Done l'" by auto
  then obtain l1 where l1: "delete_manager (sample_world p) (l\<lparr>l_desiredMode := k, l_updateSettings := True\<rparr>) = Done l1"
    "new_manager (sample_world p) (cancel_events (sample_world p) l1) = Done l'"
    by (auto simp: listener_step_def setDesiredMode_def bind_outcome_eq_Done)
  from delete_manager_config [OF l1(1)] new_manager_config [OF l1(2)] new_manager_history [OF l1(2)]
  have "l_desiredMode l' = k" "l_updateSettings l'" "l_waiting l' = l_waiting l"
    "\<forall>m. l_interactionManager l' = Some m \<longrightarrow> th_pairs (manager_history m) = []"
    by (auto simp: cancel_events_def)
  moreover have "l_interactionManager l' \<noteq> None" if "k \<in> {1, 2, 3}"
    using l1(2) delete_manager_config [OF l1(1)] that
      New_fresh [of "l_env (sample_world p) (cancel_events (sample_world p) l1)" "w_raw (sample_world p)" k "l_basic l1"]
    by (auto simp: new_manager_def cancel_events_def split: prod.splits sum.splits option.splits)
  moreover have "listening (sample_world p) no_files l'"
    using listening.called [OF assms(1) same_system_refl _ l'] by (simp add: possible_def)
  ultimately show thesis using that by blast
qed

text \<open>A frame after it.\<close>

lemma sample_frame:
  assumes "listening (sample_world p) no_files l" "l_waiting l = None"
    "\<forall>m. l_interactionManager l = Some m \<longrightarrow> th_pairs (manager_history m) = []"
  obtains l' where "listener_step (sample_world p) (Frame f) l = Done l'" "listening (sample_world p) no_files l'"
proof -
  have inv: "listener_inv (sample_world p) l" using listening_inv [OF assms(1)] by simp
  have f: "possible (sample_world p) l (Frame f)"
    using assms(2,3) by (auto simp: possible_def addFrame_in_order_def)
  with listener_step_inv [OF inv _ f] obtain l' where l': "listener_step (sample_world p) (Frame f) l = Done l'" by auto
  with listening.called [OF assms(1) same_system_refl f] that show thesis by blast
qed

lemma sample_running:
  obtains l where "listening (sample_world p) no_files l" "l_waiting l = None"
  using sample_started [of p] started_config(3) [of "sample_world p" bm_config_default initial_state no_files] by blast

theorem listener_safe_witness:
  "\<exists>l l'. listening (sample_world Apple) no_files l \<and> l_desiredMode l = 2 \<and>
     listener_step (sample_world Apple) (SetMode 3) l = Done l' \<and>
     mouse (o_sent (l_osInteractionDriver l)) (Some False) \<noteq> None"
proof -
  obtain l0 where "listening (sample_world Apple) no_files l0" using sample_running by blast
  then obtain l where l: "listening (sample_world Apple) no_files l" "l_desiredMode l = 2"
    using sample_mode [of Apple l0 2] by blast
  have "possible (sample_world Apple) l (SetMode 3)" by (simp add: possible_def)
  with listener_safe [OF l(1)] same_system_refl [of "sample_world Apple"]
  have "\<exists>l'. listener_step (sample_world Apple) (SetMode 3) l = Done l'" by (simp del: not_None_eq)
  moreover from listener_safe [OF l(1)]
  have "mouse (o_sent (l_osInteractionDriver l)) (Some False) \<noteq> None" by simp
  ultimately show ?thesis using l by blast
qed

theorem multiple_monitors_ignored_witness:
  "\<exists>l l'. listening (sample_world Windows) no_files l \<and>
     listener_step (sample_world Windows) (SetMultipleMonitors True) l = Done l' \<and> l_useMultipleMonitors l' \<and>
     m_useDefaultScreen (o_virtualScreen (l_osInteractionDriver l'))"
proof -
  obtain l where l: "listening (sample_world Windows) no_files l" using sample_running by blast
  let ?l' = "setUseMultipleMonitors (sample_world Windows) True l"
  have s: "listener_step (sample_world Windows) (SetMultipleMonitors True) l = Done ?l'"
    by (simp add: listener_step_def)
  have "listening (sample_world Windows) no_files ?l'"
    using listening.called [OF l same_system_refl _ s] by (simp add: possible_def)
  from multiple_monitors_ignored [OF this] l s show ?thesis by (auto simp: setUseMultipleMonitors_def)
qed

theorem destructor_calls_freed_driver_witness:
  "\<exists>l. listening (sample_world Apple) no_files l \<and> TouchlessListener_destroy (sample_world Apple) l = Crash"
proof -
  obtain l0 where "listening (sample_world Apple) no_files l0" using sample_running by blast
  then obtain l where l: "listening (sample_world Apple) no_files l" "l_interactionManager l \<noteq> None"
    using sample_mode [of Apple l0 2] by (metis insertCI)
  from destructor_calls_freed_driver [OF l(1) _ _ _ l(2)] l(1) show ?thesis by auto
qed

end
