(* ===== verification/User_Interface.thy ===== *)
theory User_Interface
  imports Listener
begin

text \<open>
  The tray menu, \<open>source/TouchlessUI/TouchlessUI.cpp\<close>, and its connections to the listener,
  \<open>Touchless.cpp\<close>. The actions of the menu are objects of the widget library: its state \<open>'q\<close> and what
  \<open>setChecked\<close> does to it (the new state, and the signals \<open>toggled\<close> that are emitted) are parameters. Drawing
  the icon, the help pages and the first run's greeting are left out.
\<close>

section \<open>The menu\<close>

datatype ui_action = DisabledAction | IntroAction | BasicAction | AdvancedAction | MultiMonitorAction

record 'q qt =
  qt_checked :: "'q \<Rightarrow> ui_action \<Rightarrow> bool"
  qt_setChecked :: "ui_action \<Rightarrow> bool \<Rightarrow> 'q \<Rightarrow> 'q \<times> (ui_action \<times> bool) list"

datatype ui_signal =
  disabledModeSignal | introModeSignal | basicModeSignal | advancedModeSignal | multiMonitorSignal bool

record 'q ui =
  ui_qt :: 'q
  ui_toolTip :: string
  ui_modeEnabled :: bool
  ui_modeVisible :: bool
  ui_multiEnabled :: bool
  ui_multiVisible :: bool
  ui_modeMenu :: "ui_action list"

definition TouchlessUI :: "platform \<Rightarrow> 'q \<Rightarrow> 'q ui" where
  "TouchlessUI p q =
     \<lparr>ui_qt = q, ui_toolTip = ''Touchless'', ui_modeEnabled = False, ui_modeVisible = (p \<noteq> Apple),
      ui_multiEnabled = False, ui_multiVisible = True,
      ui_modeMenu = [DisabledAction] @ (if p = Apple then [IntroAction] else []) @ [BasicAction, AdvancedAction]\<rparr>"

definition disabledModeSlot :: "bool \<Rightarrow> 'q ui \<Rightarrow> 'q ui \<times> ui_signal list" where
  "disabledModeSlot enabled u =
     (if enabled then (u\<lparr>ui_toolTip := ''Disabled''\<rparr>, [disabledModeSignal]) else (u, []))"

definition introModeSlot :: "bool \<Rightarrow> 'q ui \<Rightarrow> 'q ui \<times> ui_signal list" where
  "introModeSlot enabled u =
     (if enabled then (u\<lparr>ui_toolTip := ''Intro Mode''\<rparr>, [introModeSignal]) else (u, []))"

definition basicModeSlot :: "bool \<Rightarrow> 'q ui \<Rightarrow> 'q ui \<times> ui_signal list" where
  "basicModeSlot enabled u =
     (if enabled then (u\<lparr>ui_toolTip := ''Basic Mode''\<rparr>, [basicModeSignal]) else (u, []))"

definition advancedModeSlot :: "bool \<Rightarrow> 'q ui \<Rightarrow> 'q ui \<times> ui_signal list" where
  "advancedModeSlot enabled u =
     (if enabled then (u\<lparr>ui_toolTip := ''Advanced Mode''\<rparr>, [advancedModeSignal]) else (u, []))"

text \<open>The slots that the constructor connects to the signals \<open>toggled\<close>.\<close>

definition toggled_slot :: "ui_action \<times> bool \<Rightarrow> 'q ui \<Rightarrow> 'q ui \<times> ui_signal list" where
  "toggled_slot = (\<lambda>(a, b) u.
     case a of
       DisabledAction \<Rightarrow> disabledModeSlot b u
     | IntroAction \<Rightarrow> introModeSlot b u
     | BasicAction \<Rightarrow> basicModeSlot b u
     | AdvancedAction \<Rightarrow> advancedModeSlot b u
     | MultiMonitorAction \<Rightarrow> (u, [multiMonitorSignal b]))"

fun toggled_slots :: "(ui_action \<times> bool) list \<Rightarrow> 'q ui \<Rightarrow> 'q ui \<times> ui_signal list" where
  "toggled_slots [] u = (u, [])"
| "toggled_slots (t # ts) u =
     (let (u1, s1) = toggled_slot t u; (u2, s2) = toggled_slots ts u1 in (u2, s1 @ s2))"

definition set_checked :: "'q qt \<Rightarrow> ui_action \<Rightarrow> bool \<Rightarrow> 'q ui \<Rightarrow> 'q ui \<times> ui_signal list" where
  "set_checked Q a b u =
     (let (q, ts) = qt_setChecked Q a b (ui_qt u) in toggled_slots ts (u\<lparr>ui_qt := q\<rparr>))"

definition mode_action :: "int \<Rightarrow> ui_action option" where
  "mode_action mode =
     (if mode = OUTPUT_MODE_DISABLED then Some DisabledAction
      else if mode = OUTPUT_MODE_INTRO then Some IntroAction
      else if mode = OUTPUT_MODE_BASIC then Some BasicAction
      else if mode = OUTPUT_MODE_ADVANCED then Some AdvancedAction
      else None)"

definition connectChangedSlot ::
  "'q qt \<Rightarrow> platform \<Rightarrow> bool \<times> int \<times> bool \<Rightarrow> 'q ui \<Rightarrow> 'q ui \<times> ui_signal list" where
  "connectChangedSlot Q p = (\<lambda>(isConnected, mode, useMultiMonitors) u.
     let u1 = u\<lparr>ui_modeEnabled := isConnected, ui_multiEnabled := isConnected,
                ui_modeVisible := (if p = Apple then isConnected else ui_modeVisible u)\<rparr>;
         (u2, s2) = (case mode_action mode of Some a \<Rightarrow> set_checked Q a True u1 | None \<Rightarrow> (u1, []));
         (u3, s3) = set_checked Q MultiMonitorAction useMultiMonitors u2
     in (u3, s2 @ s3))"

definition setMultipleMonitorsActionVisible :: "bool \<Rightarrow> 'q ui \<Rightarrow> 'q ui" where
  "setMultipleMonitorsActionVisible visible u = u\<lparr>ui_multiVisible := visible\<rparr>"

section \<open>The application\<close>

text \<open>The calls that the signals of the menu make.\<close>

definition app_slot :: "ui_signal \<Rightarrow> 'f event" where
  "app_slot s =
     (case s of
        disabledModeSignal \<Rightarrow> SetMode OUTPUT_MODE_DISABLED
      | introModeSignal \<Rightarrow> SetMode OUTPUT_MODE_INTRO
      | basicModeSignal \<Rightarrow> SetMode OUTPUT_MODE_BASIC
      | advancedModeSignal \<Rightarrow> SetMode OUTPUT_MODE_ADVANCED
      | multiMonitorSignal use \<Rightarrow> SetMultipleMonitors use)"

fun run_signals ::
  "('f, 'h, 'p, 'd) world \<Rightarrow> ui_signal list \<Rightarrow> ('f, 'p, 'd) listener \<Rightarrow> ('f, 'p, 'd) listener outcome" where
  "run_signals w [] l = Done l"
| "run_signals w (s # ss) l = bind_outcome (listener_step w (app_slot s) l) (run_signals w ss)"

text \<open>The start, after the listener's constructor: without a touch driver the program on Windows ends.\<close>

definition Run ::
  "('f, 'h, 'p, 'd) world \<Rightarrow> 'q \<Rightarrow> ('f, 'p, 'd) listener \<Rightarrow> ('q ui \<times> ('f, 'p, 'd) listener) option" where
  "Run w q l =
     (if ge_platform (w_os w) = Windows \<and> supportedTouchVersion w l = 0 then None
      else
        (let u = TouchlessUI (ge_platform (w_os w)) q;
             u1 = (if supportedTouchVersion w l = 7 then setMultipleMonitorsActionVisible False u else u)
         in Some (u1, setReady l)))"

text \<open>The menu receives a signal of the listener; the user toggles an action.\<close>

definition deliver ::
  "'q qt \<Rightarrow> ('f, 'h, 'p, 'd) world \<Rightarrow> bool \<times> int \<times> bool \<Rightarrow> 'q ui \<Rightarrow> ('f, 'p, 'd) listener \<Rightarrow>
   ('q ui \<times> ('f, 'p, 'd) listener) outcome" where
  "deliver Q w sg u l =
     (let (u', ss) = connectChangedSlot Q (ge_platform (w_os w)) sg u
      in map_outcome (Pair u') (run_signals w ss l))"

definition user_toggles ::
  "'q qt \<Rightarrow> ('f, 'h, 'p, 'd) world \<Rightarrow> ui_action \<Rightarrow> bool \<Rightarrow> 'q ui \<Rightarrow> ('f, 'p, 'd) listener \<Rightarrow>
   ('q ui \<times> ('f, 'p, 'd) listener) outcome" where
  "user_toggles Q w a b u l =
     (let (u', ss) = set_checked Q a b u in map_outcome (Pair u') (run_signals w ss l))"

end
