(* ===== verification/User_Interface_Properties.thy ===== *)
theory User_Interface_Properties
  imports User_Interface Listener_Properties
begin

text \<open>
  The menu and the listener together: the mode whose action is checked is the one of the interaction manager
  in force, and a signal of the listener makes the mode it names the one in force.
\<close>

section \<open>The widget library\<close>

text \<open>
  What the library documents: setting a checked action changes nothing; in an exclusive group, setting another
  one checks it alone and emits \<open>toggled(true)\<close> once, beside \<open>toggled(false)\<close> of others.
\<close>

definition exclusive_menu :: "'q qt \<Rightarrow> bool" where
  "exclusive_menu Q \<longleftrightarrow>
     (\<forall>q a. a \<noteq> MultiMonitorAction \<longrightarrow>
        (if qt_checked Q q a then qt_setChecked Q a True q = (q, [])
         else (\<exists>q' ts. qt_setChecked Q a True q = (q', ts) \<and> qt_checked Q q' a \<and>
           (\<forall>b. b \<noteq> a \<longrightarrow> b \<noteq> MultiMonitorAction \<longrightarrow> \<not> qt_checked Q q' b) \<and>
           filter snd ts = [(a, True)] \<and> MultiMonitorAction \<notin> fst ` set ts))) \<and>
     (\<forall>q b.
        if qt_checked Q q MultiMonitorAction = b then qt_setChecked Q MultiMonitorAction b q = (q, [])
        else (\<exists>q'. qt_setChecked Q MultiMonitorAction b q = (q', [(MultiMonitorAction, b)]) \<and>
           qt_checked Q q' MultiMonitorAction = b \<and>
           (\<forall>a. a \<noteq> MultiMonitorAction \<longrightarrow> qt_checked Q q' a = qt_checked Q q a)))"

section \<open>Signals of the menu\<close>

definition toggle_signals :: "ui_action \<times> bool \<Rightarrow> ui_signal list" where
  "toggle_signals = (\<lambda>(a, b).
     case a of MultiMonitorAction \<Rightarrow> [multiMonitorSignal b]
     | DisabledAction \<Rightarrow> (if b then [disabledModeSignal] else [])
     | IntroAction \<Rightarrow> (if b then [introModeSignal] else [])
     | BasicAction \<Rightarrow> (if b then [basicModeSignal] else [])
     | AdvancedAction \<Rightarrow> (if b then [advancedModeSignal] else []))"

lemmas slot_defs = disabledModeSlot_def introModeSlot_def basicModeSlot_def advancedModeSlot_def

lemma toggled_slot_signals: "snd (toggled_slot t u) = toggle_signals t \<and> ui_qt (fst (toggled_slot t u)) = ui_qt u"
  by (cases t) (auto simp: toggled_slot_def toggle_signals_def slot_defs split: ui_action.split)

lemma toggled_slots_signals:
  "snd (toggled_slots ts u) = concat (map toggle_signals ts) \<and> ui_qt (fst (toggled_slots ts u)) = ui_qt u"
proof (induction ts arbitrary: u)
  case (Cons t ts)
  then show ?case using toggled_slot_signals [of t u] by (simp add: Let_def split_beta)
qed simp

lemma toggle_signals_true:
  "MultiMonitorAction \<notin> fst ` set ts \<Longrightarrow>
   concat (map toggle_signals ts) = concat (map toggle_signals (filter snd ts))"
proof (induction ts)
  case (Cons t ts)
  then show ?case by (cases t) (auto simp: toggle_signals_def split: ui_action.split)
qed simp

lemma set_checked_parts:
  "set_checked Q a b u = (u', ss) \<Longrightarrow> qt_setChecked Q a b (ui_qt u) = (q, ts) \<Longrightarrow>
   ui_qt u' = q \<and> ss = concat (map toggle_signals ts)"
  using toggled_slots_signals [of ts "u\<lparr>ui_qt := q\<rparr>"] by (auto simp: set_checked_def)

lemma mode_checked:
  assumes "exclusive_menu Q" "mode_action m = Some a" "set_checked Q a True u = (u', ss)"
  shows "qt_checked Q (ui_qt u') a"
    "ss = [] \<and> ui_qt u' = ui_qt u \<and> qt_checked Q (ui_qt u) a \<or>
     (\<exists>s. ss = [s] \<and> app_slot s = (SetMode m :: 'f event)) \<and>
     (\<forall>b. b \<noteq> a \<longrightarrow> b \<noteq> MultiMonitorAction \<longrightarrow> \<not> qt_checked Q (ui_qt u') b)"
proof -
  have a: "a \<noteq> MultiMonitorAction" using assms(2) by (auto simp: mode_action_def split: if_splits)
  obtain q ts where t: "qt_setChecked Q a True (ui_qt u) = (q, ts)" by fastforce
  note p = set_checked_parts [OF assms(3) t]
  have "qt_checked Q q a \<and> (ts = [] \<and> q = ui_qt u \<and> qt_checked Q (ui_qt u) a \<or>
      (filter snd ts = [(a, True)] \<and> MultiMonitorAction \<notin> fst ` set ts \<and>
       (\<forall>b. b \<noteq> a \<longrightarrow> b \<noteq> MultiMonitorAction \<longrightarrow> \<not> qt_checked Q q b)))"
    using assms(1) a t unfolding exclusive_menu_def by (metis fst_conv snd_conv)
  then show "qt_checked Q (ui_qt u') a"
    "ss = [] \<and> ui_qt u' = ui_qt u \<and> qt_checked Q (ui_qt u) a \<or>
     (\<exists>s. ss = [s] \<and> app_slot s = (SetMode m :: 'f event)) \<and>
     (\<forall>b. b \<noteq> a \<longrightarrow> b \<noteq> MultiMonitorAction \<longrightarrow> \<not> qt_checked Q (ui_qt u') b)"
    using p assms(2) toggle_signals_true [of ts]
    by (auto simp: toggle_signals_def app_slot_def mode_action_def split: if_splits)
qed

lemma multi_checked:
  assumes "exclusive_menu Q" "set_checked Q MultiMonitorAction b u = (u', ss)"
  shows "qt_checked Q (ui_qt u') MultiMonitorAction = b"
    "a \<noteq> MultiMonitorAction \<Longrightarrow> qt_checked Q (ui_qt u') a = qt_checked Q (ui_qt u) a"
    "ss = [] \<or> ss = [multiMonitorSignal b]"
proof -
  obtain q ts where t: "qt_setChecked Q MultiMonitorAction b (ui_qt u) = (q, ts)" by fastforce
  note p = set_checked_parts [OF assms(2) t]
  have "qt_checked Q q MultiMonitorAction = b \<and>
      (\<forall>a. a \<noteq> MultiMonitorAction \<longrightarrow> qt_checked Q q a = qt_checked Q (ui_qt u) a) \<and>
      (ts = [] \<or> ts = [(MultiMonitorAction, b)])"
    using assms(1) t unfolding exclusive_menu_def by (metis fst_conv snd_conv)
  with p show "qt_checked Q (ui_qt u') MultiMonitorAction = b"
    "a \<noteq> MultiMonitorAction \<Longrightarrow> qt_checked Q (ui_qt u') a = qt_checked Q (ui_qt u) a"
    "ss = [] \<or> ss = [multiMonitorSignal b]"
    by (auto simp: toggle_signals_def)
qed

section \<open>The manager in force\<close>

primrec manager_mode :: "('f, 'p) manager \<Rightarrow> int" where
  "manager_mode (GestureOnlyManager s) = OUTPUT_MODE_INTRO"
| "manager_mode (BasicManager s) = OUTPUT_MODE_BASIC"
| "manager_mode (TouchPeripheralManager s) = OUTPUT_MODE_ADVANCED"
| "manager_mode (FingerMouseManager s) = OUTPUT_MODE_ADVANCED"

definition in_force :: "('f, 'p, 'd) listener \<Rightarrow> int \<Rightarrow> bool" where
  "in_force l m \<longleftrightarrow>
     (case l_interactionManager l of None \<Rightarrow> m = OUTPUT_MODE_DISABLED | Some x \<Rightarrow> manager_mode x = m)"

lemma New_mode:
  "New L raw m c = (Inr x, c') \<Longrightarrow> mode_action m = Some a \<Longrightarrow>
   (case x of None \<Rightarrow> m = OUTPUT_MODE_DISABLED | Some y \<Rightarrow> manager_mode y = m)"
  by (auto simp: New_def New_FingerMouse_def mode_action_def map_sum_def comp_def split: if_splits sum.splits)

lemma new_manager_in_force:
  "new_manager w l = Done l' \<Longrightarrow> mode_action (l_desiredMode l) = Some a \<Longrightarrow> in_force l' (l_desiredMode l)"
  by (auto simp: new_manager_def in_force_def split: prod.splits sum.splits dest!: New_mode)

lemma SetMode_in_force:
  assumes "listener_step w (SetMode m) l = Done l'" "mode_action m = Some a"
  shows "in_force l' m"
proof -
  from assms(1) obtain l1 where l1: "delete_manager w (l\<lparr>l_desiredMode := m, l_updateSettings := True\<rparr>) = Done l1"
    "new_manager w (cancel_events w l1) = Done l'"
    by (auto simp: listener_step_def setDesiredMode_def bind_outcome_eq_Done)
  have "l_desiredMode (cancel_events w l1) = m"
    using delete_manager_config [OF l1(1)] by (simp add: cancel_events_def)
  with new_manager_in_force [OF l1(2)] assms(2) show ?thesis by simp
qed

lemma processFrame_mode:
  "manager_processFrame L c f g m = Done m' \<Longrightarrow> manager_mode m' = manager_mode m"
  by (cases m) (auto simp: manager_processFrame_def map_outcome_Done)

definition changes_mode :: "'f event \<Rightarrow> bool" where
  "changes_mode e \<longleftrightarrow> (\<exists>m. e = SetMode m)"

lemma other_step_in_force:
  assumes "listener_step w e l = Done l'" "\<not> changes_mode e"
  shows "in_force l' m = in_force l m"
  using assms
  by (cases e)
    (auto simp: changes_mode_def listener_step_def in_force_def onDisconnect_def onExit_def onFocusGained_def
      onFocusLost_def setUseMultipleMonitors_def displays_changed_def emit_signal_def cancel_events_def onFrame_def
      drivers_perform_def Let_def bind_outcome_eq_Done dest!: processFrame_mode split: option.splits)

section \<open>Histories of the application\<close>

definition of_controller :: "'f event \<Rightarrow> bool" where
  "of_controller e \<longleftrightarrow> (case e of SetMode _ \<Rightarrow> False | SetMultipleMonitors _ \<Rightarrow> False | SetReady \<Rightarrow> False | _ \<Rightarrow> True)"

inductive running ::
  "'q qt \<Rightarrow> ('f, 'h, 'p, 'd) world \<Rightarrow> files \<Rightarrow> 'q ui \<Rightarrow> ('f, 'p, 'd) listener \<Rightarrow> bool" for Q w fs where
  started: "TouchlessListener w c config fs = Done l0 \<Longrightarrow> \<forall>a. \<not> qt_checked Q q a \<Longrightarrow> Run w q l0 = Some (u, l) \<Longrightarrow>
    running Q w fs u l"
| called: "running Q w fs u l \<Longrightarrow> same_system w w' \<Longrightarrow> possible w' l e \<Longrightarrow> of_controller e \<Longrightarrow>
    listener_step w' e l = Done l' \<Longrightarrow> running Q w fs u l'"
| delivered: "running Q w fs u l \<Longrightarrow> same_system w w' \<Longrightarrow> sg \<in> set (l_signals l) \<Longrightarrow>
    deliver Q w' sg u l = Done (u', l') \<Longrightarrow> running Q w fs u' l'"
| toggled: "running Q w fs u l \<Longrightarrow> same_system w w' \<Longrightarrow> a = MultiMonitorAction \<or> b \<Longrightarrow>
    user_toggles Q w' a b u l = Done (u', l') \<Longrightarrow> running Q w fs u' l'"

definition menu_agrees :: "'q qt \<Rightarrow> 'q ui \<Rightarrow> ('f, 'p, 'd) listener \<Rightarrow> bool" where
  "menu_agrees Q u l \<longleftrightarrow>
     (\<forall>m a. mode_action m = Some a \<longrightarrow> qt_checked Q (ui_qt u) a \<longrightarrow> in_force l m)"

lemma mode_action_unique: "mode_action m = Some a \<Longrightarrow> mode_action n = Some a \<Longrightarrow> m = n"
  by (auto simp: mode_action_def split: if_splits)

lemma action_has_mode: "a \<noteq> MultiMonitorAction \<Longrightarrow> \<exists>m. mode_action m = Some a"
proof -
  have "mode_action 0 = Some DisabledAction" "mode_action 1 = Some IntroAction"
    "mode_action 2 = Some BasicAction" "mode_action 3 = Some AdvancedAction"
    by (simp_all add: mode_action_def)
  then show "a \<noteq> MultiMonitorAction \<Longrightarrow> \<exists>m. mode_action m = Some a" by (cases a) blast+
qed

lemma mode_action_not_multi [simp]: "mode_action m \<noteq> Some MultiMonitorAction"
  by (auto simp: mode_action_def)

text \<open>A signal of the menu is one call of the listener, which returns.\<close>

lemma signal_call:
  assumes "listening w fs l" "sdk_promises w" "ge_platform (w_os w) = Apple \<longrightarrow> \<not> w_buttonDown w" "same_system w w'"
  obtains l' where "listener_step w' (app_slot s) l = Done l'" "listening w fs l'"
proof -
  have "listener_inv w' l" using listener_inv_system [OF assms(4) listening_inv [OF assms(1-3)]] .
  moreover have "sdk_promises w'" using same_system_promises [OF assms(4)] assms(2) by simp
  moreover have p: "possible w' l (app_slot s)" by (simp add: possible_def app_slot_def split: ui_signal.split)
  ultimately obtain l' where l': "listener_step w' (app_slot s) l = Done l'" using listener_step_inv by blast
  with listening.called [OF assms(1,4) p] that show thesis by blast
qed

text \<open>Setting the action of a mode, and of the monitors.\<close>

lemma mode_call:
  fixes w :: "('f, 'h, 'p, 'd) world"
  assumes "exclusive_menu Q" "mode_action m = Some a" "set_checked Q a True u = (u', ss)"
    and "listening w fs l" "sdk_promises w" "ge_platform (w_os w) = Apple \<longrightarrow> \<not> w_buttonDown w" "same_system w w'"
    and "menu_agrees Q u l"
  obtains l' where "run_signals w' ss l = Done l'" "listening w fs l'" "menu_agrees Q u' l'" "in_force l' m"
    "qt_checked Q (ui_qt u') a"
proof (cases "ss = [] \<and> ui_qt u' = ui_qt u \<and> qt_checked Q (ui_qt u) a")
  case True
  with assms(2,4,8) that [of l] show thesis by (auto simp: menu_agrees_def)
next
  case False
  with mode_checked(2) [OF assms(1-3), where ?'f = 'f] obtain s where s: "ss = [s]" "app_slot s = (SetMode m :: 'f event)"
    and others: "\<forall>b. b \<noteq> a \<longrightarrow> b \<noteq> MultiMonitorAction \<longrightarrow> \<not> qt_checked Q (ui_qt u') b" by blast
  from signal_call [OF assms(4-7), of s] obtain l' where l': "listener_step w' (app_slot s) l = Done l'" "listening w fs l'" .
  have force: "in_force l' m" using SetMode_in_force [OF _ assms(2)] l'(1) s(2) by simp
  have "in_force l' k" if k: "mode_action k = Some b" "qt_checked Q (ui_qt u') b" for k b
  proof -
    have "b = a" using others k mode_action_not_multi [of k] by blast
    with mode_action_unique [OF assms(2)] k(1) force show ?thesis by blast
  qed
  then have "menu_agrees Q u' l'" by (simp add: menu_agrees_def)
  moreover note force
  ultimately show thesis using that [of l'] l' s(1) mode_checked(1) [OF assms(1-3)] by simp
qed

lemma multi_call:
  fixes w :: "('f, 'h, 'p, 'd) world"
  assumes "exclusive_menu Q" "set_checked Q MultiMonitorAction b u = (u', ss)"
    and "listening w fs l" "sdk_promises w" "ge_platform (w_os w) = Apple \<longrightarrow> \<not> w_buttonDown w" "same_system w w'"
    and "menu_agrees Q u l"
  obtains l' where "run_signals w' ss l = Done l'" "listening w fs l'" "menu_agrees Q u' l'"
    "\<And>m. in_force l' m = in_force l m" "qt_checked Q (ui_qt u') MultiMonitorAction = b"
    "\<And>a. a \<noteq> MultiMonitorAction \<Longrightarrow> qt_checked Q (ui_qt u') a = qt_checked Q (ui_qt u) a"
proof -
  note c = multi_checked [OF assms(1,2)]
  have agrees: "menu_agrees Q u' l'" if "\<And>m. in_force l' m = in_force l m" for l' :: "('f, 'p, 'd) listener"
  proof -
    have "in_force l' k" if k: "mode_action k = Some a" "qt_checked Q (ui_qt u') a" for k a
    proof -
      have "a \<noteq> MultiMonitorAction" using k(1) mode_action_not_multi [of k] by blast
      with k c(2) [of a] assms(7) \<open>\<And>m. in_force l' m = in_force l m\<close> show ?thesis by (simp add: menu_agrees_def)
    qed
    then show ?thesis by (simp add: menu_agrees_def)
  qed
  show thesis
  proof (cases "ss = []")
    case True
    with assms(3) agrees [of l] c that [of l] show thesis by simp
  next
    case False
    with c(3) have ss: "ss = [multiMonitorSignal b]" by simp
    from signal_call [OF assms(3-6), of "multiMonitorSignal b"] obtain l'
      where l': "listener_step w' (app_slot (multiMonitorSignal b)) l = Done l'" "listening w fs l'" .
    then have f: "in_force l' m = in_force l m" for m
      using other_step_in_force [OF l'(1)] by (simp add: app_slot_def changes_mode_def)
    with l' agrees [of l'] c that [of l'] ss show thesis by simp
  qed
qed

lemma run_signals_append: "run_signals w (xs @ ys) l = bind_outcome (run_signals w xs l) (run_signals w ys)"
proof (induction xs arbitrary: l)
  case (Cons x xs)
  then show ?case by (cases "listener_step w (app_slot x) l") simp_all
qed simp

lemma deliver_call:
  fixes w :: "('f, 'h, 'p, 'd) world"
  assumes "exclusive_menu Q" "listening w fs l" "sdk_promises w"
    and "ge_platform (w_os w) = Apple \<longrightarrow> \<not> w_buttonDown w" "same_system w w'" "menu_agrees Q u l"
  obtains u' l' where "deliver Q w' (cn, m, multi) u l = Done (u', l')" "listening w fs l'" "menu_agrees Q u' l'"
    "qt_checked Q (ui_qt u') MultiMonitorAction = multi"
    "\<And>a. mode_action m = Some a \<Longrightarrow> in_force l' m \<and> qt_checked Q (ui_qt u') a"
proof -
  define u1 where "u1 = u\<lparr>ui_modeEnabled := cn, ui_multiEnabled := cn,
    ui_modeVisible := (if ge_platform (w_os w') = Apple then cn else ui_modeVisible u)\<rparr>"
  have agrees: "menu_agrees Q u1 l" using assms(6) by (simp add: menu_agrees_def u1_def)
  obtain u2 s2 l1 where l1: "(case mode_action m of Some a \<Rightarrow> set_checked Q a True u1 | None \<Rightarrow> (u1, [])) = (u2, s2)"
    "run_signals w' s2 l = Done l1" "listening w fs l1" "menu_agrees Q u2 l1"
    "\<And>a. mode_action m = Some a \<Longrightarrow> in_force l1 m \<and> qt_checked Q (ui_qt u2) a"
  proof (cases "mode_action m")
    case None
    with assms(2) agrees that [of u1 "[]" l] show thesis by simp
  next
    case (Some a)
    obtain u2 s2 where s: "set_checked Q a True u1 = (u2, s2)" by fastforce
    from mode_call [OF assms(1) Some s assms(2-5) agrees] obtain l1
      where "run_signals w' s2 l = Done l1" "listening w fs l1" "menu_agrees Q u2 l1" "in_force l1 m"
        "qt_checked Q (ui_qt u2) a" .
    with Some s that show thesis by simp
  qed
  obtain u3 s3 where s3: "set_checked Q MultiMonitorAction multi u2 = (u3, s3)" by fastforce
  from multi_call [OF assms(1) s3 l1(3) assms(3-5) l1(4)] obtain l2
    where l2: "run_signals w' s3 l1 = Done l2" "listening w fs l2" "menu_agrees Q u3 l2"
      "\<And>m. in_force l2 m = in_force l1 m" "qt_checked Q (ui_qt u3) MultiMonitorAction = multi"
      "\<And>a. a \<noteq> MultiMonitorAction \<Longrightarrow> qt_checked Q (ui_qt u3) a = qt_checked Q (ui_qt u2) a" by blast
  have "deliver Q w' (cn, m, multi) u l = Done (u3, l2)"
    using l1(1,2) s3 l2(1) by (simp add: deliver_def connectChangedSlot_def run_signals_append flip: u1_def)
  moreover have "in_force l2 m \<and> qt_checked Q (ui_qt u3) a" if "mode_action m = Some a" for a
    using l1(5) [OF that] l2(4,6) that by (cases a) auto
  ultimately show thesis using that l2 by blast
qed

lemma running_inv:
  assumes "running Q w fs u l" "exclusive_menu Q" "sdk_promises w"
    "ge_platform (w_os w) = Apple \<longrightarrow> \<not> w_buttonDown w"
  shows "listening w fs l \<and> menu_agrees Q u l"
  using assms(1)
proof (induction rule: running.induct)
  case (started c config l0 q u l)
  have "listening w fs l0" by (rule listening.started [OF started(1)])
  from listening.called [OF this same_system_refl, of SetReady]
  have "listening w fs (setReady l0)" by (simp add: possible_def listener_step_def)
  then show ?case using started(2,3)
    by (auto simp: Run_def Let_def menu_agrees_def TouchlessUI_def setMultipleMonitorsActionVisible_def split: if_splits)
next
  case (called u l w' e l')
  have "\<not> changes_mode e" using called(4) by (auto simp: of_controller_def changes_mode_def)
  with other_step_in_force [OF called(5)] listening.called [of w fs l w' e l'] called show ?case
    by (auto simp: menu_agrees_def)
next
  case (delivered u l w' sg u' l')
  obtain cn m multi where sg: "sg = (cn, m, multi)" by (metis prod_cases3)
  from deliver_call [OF assms(2) _ assms(3,4) delivered(2), of fs l u cn m multi] delivered sg show ?case
    by (metis outcome.inject prod.inject)
next
  case (toggled u l w' a b u' l')
  obtain v ss where s: "set_checked Q a b u = (v, ss)" by fastforce
  show ?case
  proof (cases "a = MultiMonitorAction")
    case True
    from multi_call [OF assms(2) s [unfolded True] _ assms(3,4) toggled(2)] toggled s show ?thesis
      by (fastforce simp: user_toggles_def)
  next
    case False
    then obtain m where m: "mode_action m = Some a" using action_has_mode by blast
    from False toggled(3) s have s': "set_checked Q a True u = (v, ss)" by simp
    from mode_call [OF assms(2) m s' _ assms(3,4) toggled(2)] toggled s show ?thesis
      by (fastforce simp: user_toggles_def)
  qed
qed

text \<open>
  C2 The menu, the listener and the interaction manager agree. Whatever the controller, the user and the
  system do, the mode whose action is checked in the menu is the one of the manager in force; and when the
  menu receives a signal of the listener, such as the connection's with the stored mode, every call it makes
  returns, the mode named by the signal is in force and checked, and the monitors' action shows what the signal
  says. Relied on is what the widget library documents of an exclusive group of actions.
\<close>

theorem menu_in_force:
  assumes "exclusive_menu Q" "running Q w fs u l" "sdk_promises w"
    "ge_platform (w_os w) = Apple \<longrightarrow> \<not> w_buttonDown w"
  shows "(\<forall>m a. mode_action m = Some a \<longrightarrow> qt_checked Q (ui_qt u) a \<longrightarrow> in_force l m) \<and>
    (\<forall>w' cn m multi. same_system w w' \<longrightarrow>
       (\<exists>u' l'. deliver Q w' (cn, m, multi) u l = Done (u', l') \<and>
          qt_checked Q (ui_qt u') MultiMonitorAction = multi \<and>
          (\<forall>a. mode_action m = Some a \<longrightarrow> in_force l' m \<and> qt_checked Q (ui_qt u') a)))"
proof -
  from running_inv [OF assms(2,1,3,4)] have inv: "listening w fs l" "menu_agrees Q u l" by simp_all
  have "\<exists>u' l'. deliver Q w' (cn, m, multi) u l = Done (u', l') \<and>
      qt_checked Q (ui_qt u') MultiMonitorAction = multi \<and>
      (\<forall>a. mode_action m = Some a \<longrightarrow> in_force l' m \<and> qt_checked Q (ui_qt u') a)"
    if "same_system w w'" for w' cn m multi
    using deliver_call [OF assms(1) inv(1) assms(3,4) that inv(2), of cn m multi] by metis
  with inv(2) show ?thesis unfolding menu_agrees_def by blast
qed

section \<open>A restart\<close>

lemma started_silent:
  assumes "TouchlessListener w c config fs = Done l"
  shows "l_signals l = [] \<and> \<not> l_ready l \<and> l_waiting l = None"
proof -
  have new: "l_signals l2 = l_signals l1 \<and> l_ready l2 = l_ready l1 \<and> l_waiting l2 = l_waiting l1"
    if "new_manager w l1 = Done l2" for l1 l2
    using that by (auto simp: new_manager_def split: prod.splits sum.splits)
  have screen: "l_signals (updateDefaultScreen w l1) = l_signals l1 \<and> l_ready (updateDefaultScreen w l1) = l_ready l1 \<and>
      l_waiting (updateDefaultScreen w l1) = l_waiting l1" for l1
    by (simp add: updateDefaultScreen_def use_default_screen_def)
  show ?thesis
    using assms by (auto simp: TouchlessListener_def Let_def split_beta bind_outcome_eq_Done screen dest!: new)
qed

text \<open>
  The connection of a listener that has just started tells the menu what was stored, whether the user interface
  is ready before it or after it.
\<close>

lemma restarted:
  fixes w :: "('f, 'h, 'p, 'd) world"
  assumes "TouchlessListener w c config fs = Done l"
    and "Run w q l = Some (u, l1) \<and> l2 = onConnect l1 \<or> Run w q (onConnect l) = Some (u, l2)"
  shows "listening w fs l2 \<and> ui_qt u = q \<and>
    l_signals l2 = [(True, l_desiredMode (onConnect l), l_useMultipleMonitors (onConnect l))]"
proof -
  have new: "l_signals l = []" "\<not> l_ready l" "l_waiting l = None"
    using started_silent [OF assms(1)] by simp_all
  have s: "listening w fs l" by (rule listening.started [OF assms(1)])
  note step = listening.called [OF _ same_system_refl]
  have "listening w fs (setReady l)" using step [OF s, of SetReady] by (simp add: possible_def listener_step_def)
  then have a: "listening w fs (onConnect (setReady l))"
    using step [of w fs "setReady l" Connect] new by (simp add: possible_def listener_step_def setReady_def)
  have "listening w fs (onConnect l)" using step [OF s, of Connect] new by (simp add: possible_def listener_step_def)
  then have b: "listening w fs (setReady (onConnect l))"
    using step [of w fs "onConnect l" SetReady] by (simp add: possible_def listener_step_def)
  have run: "ui_qt u' = q \<and> l'' = setReady l'" if "Run w q l' = Some (u', l'')" for l' u' l''
    using that by (auto simp: Run_def Let_def TouchlessUI_def setMultipleMonitorsActionVisible_def split: if_splits)
  have "ui_qt u = q \<and> (l2 = onConnect (setReady l) \<or> l2 = setReady (onConnect l))"
    using assms(2) run by blast
  moreover have "l_signals (onConnect (setReady l)) =
      [(True, l_desiredMode (onConnect l), l_useMultipleMonitors (onConnect l))]"
    "l_signals (setReady (onConnect l)) =
      [(True, l_desiredMode (onConnect l), l_useMultipleMonitors (onConnect l))]"
    using new by (simp_all add: setReady_def onConnect_def emit_signal_def Let_def split: option.split)
  ultimately show ?thesis using a b by metis
qed

text \<open>
  C13 The user's choices are in the menu, and the mode is in force, after a restart. When the user has changed
  the mode or the use of the monitors, the next frame stores both, if the file can be written. When the program
  is started again on the file and connects, before or after its user interface is ready, the only signal it
  sends carries both; when the menu receives it every call returns, the mode chosen is the mode of the manager in
  force and is checked, and the monitors' action shows the choice. Whether the choice of the monitors has an
  effect is another matter: with touch output on Windows it has none. The file the program first started with
  may be absent or hold any value without NUL bytes and infinities.
\<close>

theorem choice_after_restart:
  assumes "listening w fs l" "readable fs (w_configPath w)" "l_updateSettings l"
    and "mode_action (l_desiredMode l) = Some a"
    and "listener_step w1 (Frame f) l = Done l1" "w_writable w1 (w_configPath w @ ''.tmp'')" "w_rename_ok w1"
    and "same_program w w2" "TouchlessListener w2 c config (l_files l1) = Done l2"
    and "sdk_promises w2" "ge_platform (w_os w2) = Apple \<longrightarrow> \<not> w_buttonDown w2"
    and "exclusive_menu Q" "\<forall>b. \<not> qt_checked Q q b"
    and "Run w2 q l2 = Some (u, l3) \<and> l4 = onConnect l3 \<or> Run w2 q (onConnect l2) = Some (u, l4)"
  shows "l_signals l4 = [(True, l_desiredMode l, l_useMultipleMonitors l)] \<and>
    (\<exists>u' l5. deliver Q w2 (hd (l_signals l4)) u l4 = Done (u', l5) \<and> in_force l5 (l_desiredMode l) \<and>
       qt_checked Q (ui_qt u') a \<and> qt_checked Q (ui_qt u') MultiMonitorAction = l_useMultipleMonitors l)"
proof -
  have range: "- (2 ^ 31) \<le> l_desiredMode l" "l_desiredMode l < 2 ^ 31"
    using assms(4) by (auto simp: mode_action_def split: if_splits)
  note r = restarted [OF assms(9,14)]
  have sig: "l_signals l4 = [(True, l_desiredMode l, l_useMultipleMonitors l)]"
    using r mode_survives_restart [OF assms(1-3) range assms(5-9)] by simp
  have "menu_agrees Q u l4" using r assms(13) by (simp add: menu_agrees_def)
  from deliver_call [OF assms(12) r [THEN conjunct1] assms(10,11) same_system_refl this,
      of True "l_desiredMode l" "l_useMultipleMonitors l"] obtain u' l5
    where "deliver Q w2 (True, l_desiredMode l, l_useMultipleMonitors l) u l4 = Done (u', l5)"
      "qt_checked Q (ui_qt u') MultiMonitorAction = l_useMultipleMonitors l"
      "\<And>b. mode_action (l_desiredMode l) = Some b \<Longrightarrow> in_force l5 (l_desiredMode l) \<and> qt_checked Q (ui_qt u') b"
    by blast
  with assms(4) sig show ?thesis by simp
qed

text \<open>A menu as a pair: the checked mode, and whether the monitors' action is checked.\<close>

definition simple_menu :: "(ui_action option \<times> bool) qt" where
  "simple_menu =
     \<lparr>qt_checked = (\<lambda>(m, multi) a. if a = MultiMonitorAction then multi else m = Some a),
      qt_setChecked = (\<lambda>a b (m, multi).
        if a = MultiMonitorAction then ((m, b), if b = multi then [] else [(MultiMonitorAction, b)])
        else if m = Some a then ((m, multi), [])
        else ((Some a, multi),
              map (\<lambda>c. (c, False)) (filter (\<lambda>c. m = Some c) [DisabledAction, IntroAction, BasicAction, AdvancedAction])
              @ [(a, True)]))\<rparr>"

lemma simple_menu_exclusive: "exclusive_menu simple_menu"
  by (auto simp: exclusive_menu_def simple_menu_def)

theorem menu_in_force_witness:
  "\<exists>u l u' l'. running simple_menu (sample_world Apple) no_files u l \<and>
     deliver simple_menu (sample_world Apple) (True, 2, False) u l = Done (u', l') \<and>
     in_force l' 2 \<and> l_interactionManager l' \<noteq> None"
proof -
  obtain l where l: "TouchlessListener (sample_world Apple) bm_config_default initial_state no_files = Done l"
    using sample_started by blast
  have "Run (sample_world Apple) (None, False) l = Some (if supportedTouchVersion (sample_world Apple) l = 7
      then setMultipleMonitorsActionVisible False (TouchlessUI Apple (None, False))
      else TouchlessUI Apple (None, False), setReady l)"
    by (simp add: Run_def Let_def)
  moreover have "\<forall>a. \<not> qt_checked simple_menu (None, False) a" by (simp add: simple_menu_def)
  ultimately obtain u where u: "running simple_menu (sample_world Apple) no_files u (setReady l)"
    using running.started [OF l, of simple_menu "(None, False)"] by blast
  have up: "ge_platform (w_os (sample_world Apple)) = Apple \<longrightarrow> \<not> w_buttonDown (sample_world Apple)" by simp
  have "mode_action 2 = Some BasicAction" by (simp add: mode_action_def)
  then obtain u' l' where "deliver simple_menu (sample_world Apple) (True, 2, False) u (setReady l) = Done (u', l')"
    "in_force l' 2"
    using menu_in_force [OF simple_menu_exclusive u sample_world_simps(1) up, THEN conjunct2, rule_format,
        OF same_system_refl, of True 2 False] by blast
  moreover from this(2) have "l_interactionManager l' \<noteq> None" by (auto simp: in_force_def split: option.splits)
  ultimately show ?thesis using u by blast
qed

text \<open>The basic mode is chosen and stored with a frame; the program is started again.\<close>

theorem choice_after_restart_witness:
  "\<exists>l l1 l2 (u :: (ui_action option \<times> bool) ui) l4 u' l5. listening (sample_world Apple) no_files l \<and>
     listener_step (sample_world Apple) (Frame (s_empty 5)) l = Done l1 \<and>
     TouchlessListener (sample_world Apple) bm_config_default initial_state (l_files l1) = Done l2 \<and>
     Run (sample_world Apple) (None, False) (onConnect l2) = Some (u, l4) \<and>
     deliver simple_menu (sample_world Apple) (hd (l_signals l4)) u l4 = Done (u', l5) \<and> in_force l5 2"
proof -
  let ?w = "sample_world Apple"
  obtain l0 where "listening ?w no_files l0" "l_waiting l0 = None" using sample_running by blast
  then obtain l where l: "listening ?w no_files l" "l_desiredMode l = 2" "l_updateSettings l"
    "l_waiting l = None" "\<forall>m. l_interactionManager l = Some m \<longrightarrow> th_pairs (manager_history m) = []"
    using sample_mode [of Apple l0 2] by metis
  obtain l1 where l1: "listener_step ?w (Frame (s_empty 5)) l = Done l1" using sample_frame [OF l(1,4,5)] by blast
  obtain l2 where l2: "TouchlessListener ?w bm_config_default initial_state (l_files l1) = Done l2"
    using TouchlessListener_inv [of ?w bm_config_default initial_state "l_files l1"] by auto
  obtain u :: "(ui_action option \<times> bool) ui" and l4 where r: "Run ?w (None, False) (onConnect l2) = Some (u, l4)" by (simp add: Run_def Let_def)
  have "mode_action (l_desiredMode l) = Some BasicAction" by (simp add: l(2) mode_action_def)
  moreover have "\<forall>b. \<not> qt_checked simple_menu (None, False) b" by (simp add: simple_menu_def)
  ultimately have "\<exists>u' l5. deliver simple_menu ?w (hd (l_signals l4)) u l4 = Done (u', l5) \<and> in_force l5 2"
    using choice_after_restart [OF l(1) _ l(3) _ l1 _ _ _ l2 _ _ simple_menu_exclusive _ disjI2 [OF r]] l(2)
    by (auto simp: readable_def same_program_def)
  with l(1) l1 l2 r show ?thesis by blast
qed

end
