(* ===== verification/Message_Pack.thy ===== *)
theory Message_Pack
  imports Dynamic_Value
begin

text \<open>
  The binary writer of \<open>source/Utility/Value.cpp\<close>: \<open>ToMessagePack\<close> and \<open>toBinaryStream\<close> with the
  union \<open>PackedData\<close> that puts the bytes of a number in network order. The bit pattern of the double
  nearest to a number and the byte order of the machine are parameters. \<open>None\<close> is an exception; the
  result of a call is what it returns and what it has written.
\<close>

type_synonym byte = "8 word"

section \<open>Bytes of a number\<close>

text \<open>A number in memory, the lowest byte first.\<close>

fun le_bytes :: "nat \<Rightarrow> nat \<Rightarrow> byte list" where
  "le_bytes 0 x = []"
| "le_bytes (Suc n) x = word_of_nat x # le_bytes n (x div 256)"

definition memory_bytes :: "bool \<Rightarrow> 'a::len word \<Rightarrow> byte list" where
  "memory_bytes littleEndian w =
     (let bs = le_bytes (LENGTH('a) div 8) (unat w) in if littleEndian then bs else rev bs)"

text \<open>The loop that exchanges the bytes at both ends, up to the middle.\<close>

definition swap_ends :: "byte list \<Rightarrow> nat \<Rightarrow> byte list" where
  "swap_ends bs i = bs[i := bs ! (length bs - 1 - i), length bs - 1 - i := bs ! i]"

definition PackedData :: "bool \<Rightarrow> 'a::len word \<Rightarrow> byte list" where
  "PackedData littleEndian w =
     (let bs = memory_bytes littleEndian w
      in if littleEndian then fold (\<lambda>i b. swap_ends b i) [0..<length bs div 2] bs else bs)"

section \<open>The writer\<close>

definition pack_size :: "bool \<Rightarrow> nat \<Rightarrow> byte \<Rightarrow> byte \<Rightarrow> byte \<Rightarrow> nat \<Rightarrow> byte list option" where
  "pack_size e most fix_code code16 code32 n =
     (if n \<le> most then Some [or fix_code (word_of_nat n)]
      else if n \<le> 2 ^ 16 - 1 then Some (code16 # PackedData e (word_of_nat n :: 16 word))
      else if n \<le> 2 ^ 32 - 1 then Some (code32 # PackedData e (word_of_nat n :: 32 word))
      else None)"

definition pack_string :: "bool \<Rightarrow> string \<Rightarrow> byte list option" where
  "pack_string e s = map_option (\<lambda>h. h @ map of_char s) (pack_size e 31 0xA0 0xDA 0xDB (length s))"

definition pack_int :: "bool \<Rightarrow> 32 word \<Rightarrow> byte list" where
  "pack_int e w =
     (let v = sint w in
      if (v \<ge> 0 \<and> v \<le> 127) \<or> (v \<ge> -32 \<and> v \<le> -1) then [word_of_int v]
      else if v \<ge> - (2 ^ 7) \<and> v \<le> 2 ^ 7 - 1 then [0xD0, word_of_int v]
      else if v \<ge> - (2 ^ 15) \<and> v \<le> 2 ^ 15 - 1 then 0xD1 # PackedData e (word_of_int v :: 16 word)
      else 0xD2 # PackedData e w)"

definition pack_long_long :: "bool \<Rightarrow> 64 word \<Rightarrow> byte list" where
  "pack_long_long e w =
     (let v = sint w in
      if (v \<ge> 0 \<and> v \<le> 127) \<or> (v \<ge> -32 \<and> v \<le> -1) then [word_of_int v]
      else if v \<ge> - (2 ^ 7) \<and> v \<le> 2 ^ 7 - 1 then [0xD0, word_of_int v]
      else if v \<ge> - (2 ^ 15) \<and> v \<le> 2 ^ 15 - 1 then 0xD1 # PackedData e (word_of_int v :: 16 word)
      else if v \<ge> - (2 ^ 31) \<and> v \<le> 2 ^ 31 - 1 then 0xD2 # PackedData e (word_of_int v :: 32 word)
      else 0xD3 # PackedData e w)"

definition pack_unsigned_int :: "bool \<Rightarrow> 32 word \<Rightarrow> byte list" where
  "pack_unsigned_int e w =
     (let v = unat w in
      if v \<le> 2 ^ 8 - 1 then [0xCC, word_of_nat v]
      else if v \<le> 2 ^ 16 - 1 then 0xCD # PackedData e (word_of_nat v :: 16 word)
      else 0xCE # PackedData e w)"

definition pack_unsigned_long_long :: "bool \<Rightarrow> 64 word \<Rightarrow> byte list" where
  "pack_unsigned_long_long e w =
     (let v = unat w in
      if v \<le> 2 ^ 8 - 1 then [0xCC, word_of_nat v]
      else if v \<le> 2 ^ 16 - 1 then 0xCD # PackedData e (word_of_nat v :: 16 word)
      else if v \<le> 2 ^ 32 - 1 then 0xCE # PackedData e (word_of_nat v :: 32 word)
      else 0xCF # PackedData e w)"

text \<open>What the calls for the parts of a container write; what they return is not looked at.\<close>

fun written :: "(bool \<times> byte list) option list \<Rightarrow> byte list option" where
  "written [] = Some []"
| "written (None # rs) = None"
| "written (Some (r, bs) # rs) = map_option ((@) bs) (written rs)"

fun toBinaryStream :: "(ieee \<Rightarrow> 64 word) \<Rightarrow> bool \<Rightarrow> dvalue \<Rightarrow> (bool \<times> byte list) option" where
  "toBinaryStream bits e (VString s) = map_option (Pair True) (pack_string e s)"
| "toBinaryStream bits e (VInt w) = Some (True, pack_int e w)"
| "toBinaryStream bits e (VLongLong w) = Some (True, pack_long_long e w)"
| "toBinaryStream bits e (VDouble d) = Some (True, 0xCB # PackedData e (bits d))"
| "toBinaryStream bits e (VBool b) = Some (True, [if b then 0xC3 else 0xC2])"
| "toBinaryStream bits e VNull = Some (True, [0xC0])"
| "toBinaryStream bits e (VUInt w) = Some (True, pack_unsigned_int e w)"
| "toBinaryStream bits e (VULongLong w) = Some (True, pack_unsigned_long_long e w)"
| "toBinaryStream bits e (VLongDouble d) = Some (True, 0xCB # PackedData e (bits d))"
| "toBinaryStream bits e (VArray xs) =
     (case pack_size e 15 0x90 0xDC 0xDD (length xs) of
        None \<Rightarrow> None
      | Some h \<Rightarrow> map_option (\<lambda>bs. (True, h @ bs)) (written (map (toBinaryStream bits e) xs)))"
| "toBinaryStream bits e (VHash h) =
     (case pack_size e 15 0x80 0xDE 0xDF (length h) of
        None \<Rightarrow> None
      | Some b \<Rightarrow>
          map_option (\<lambda>bs. (True, b @ bs))
            (written (concat (map (\<lambda>p. [map_option (Pair True) (pack_string e (fst p)), toBinaryStream bits e (snd p)]) h))))"
| "toBinaryStream bits e VOther = Some (False, [])"

definition ToMessagePack :: "(ieee \<Rightarrow> 64 word) \<Rightarrow> bool \<Rightarrow> dvalue \<Rightarrow> byte list option" where
  "ToMessagePack bits e v = map_option snd (toBinaryStream bits e v)"

end
