(* ===== verification/Message_Pack_Properties.thy ===== *)
theory Message_Pack_Properties
  imports Message_Pack
begin

text \<open>
  The binary writer against a reader written from the description of the MessagePack format: the reader
  finds in the bytes the value that was written, whatever follows them.
\<close>

section \<open>The format\<close>

datatype mp =
    MNil
  | MBool bool
  | MInt int
  | MFloat "64 word"
  | MRaw "byte list"
  | MArray "mp list"
  | MMap "(mp \<times> mp) list"

fun le_nat :: "byte list \<Rightarrow> nat" where
  "le_nat [] = 0"
| "le_nat (b # bs) = unat b + 256 * le_nat bs"

definition read_unsigned :: "nat \<Rightarrow> byte list \<Rightarrow> (nat \<times> byte list) option" where
  "read_unsigned n bs = (if n \<le> length bs then Some (le_nat (rev (take n bs)), drop n bs) else None)"

definition read_signed_number :: "nat \<Rightarrow> byte list \<Rightarrow> (int \<times> byte list) option" where
  "read_signed_number n bs =
     map_option (\<lambda>(x, r). (if x < 2 ^ (8 * n - 1) then int x else int x - 2 ^ (8 * n), r)) (read_unsigned n bs)"

text \<open>The codes of a kind: those with the size in them, and two with the size in the bytes that follow.\<close>

definition of_kind :: "nat \<Rightarrow> nat \<Rightarrow> nat \<Rightarrow> nat \<Rightarrow> nat \<Rightarrow> bool" where
  "of_kind base most code16 code32 c \<longleftrightarrow> base \<le> c \<and> c \<le> base + most \<or> c = code16 \<or> c = code32"

definition read_size :: "nat \<Rightarrow> nat \<Rightarrow> nat \<Rightarrow> nat \<Rightarrow> byte list \<Rightarrow> (nat \<times> byte list) option" where
  "read_size base most code16 c r =
     (if base \<le> c \<and> c \<le> base + most then Some (c - base, r)
      else if c = code16 then read_unsigned 2 r else read_unsigned 4 r)"

primrec read_many :: "(byte list \<Rightarrow> ('a \<times> byte list) option) \<Rightarrow> nat \<Rightarrow> byte list \<Rightarrow> ('a list \<times> byte list) option" where
  "read_many f 0 bs = Some ([], bs)"
| "read_many f (Suc n) bs =
     (case f bs of None \<Rightarrow> None
      | Some (x, r) \<Rightarrow> map_option (\<lambda>(xs, r'). (x # xs, r')) (read_many f n r))"

definition read_pair ::
  "(byte list \<Rightarrow> ('a \<times> byte list) option) \<Rightarrow> byte list \<Rightarrow> (('a \<times> 'a) \<times> byte list) option" where
  "read_pair f bs =
     (case f bs of None \<Rightarrow> None
      | Some (x, r) \<Rightarrow> map_option (\<lambda>(y, r'). ((x, y), r')) (f r))"

text \<open>One value; the number bounds how deep values are nested.\<close>

primrec read_mp :: "nat \<Rightarrow> byte list \<Rightarrow> (mp \<times> byte list) option" where
  "read_mp 0 bs = None"
| "read_mp (Suc k) bs =
     (case bs of [] \<Rightarrow> None
      | b # r \<Rightarrow>
          (let c = unat b in
           if c < 128 then Some (MInt (int c), r)
           else if c \<ge> 224 then Some (MInt (int c - 256), r)
           else if of_kind 0x80 15 0xDE 0xDF c then
             Option.bind (read_size 0x80 15 0xDE c r)
               (\<lambda>(n, r'). map_option (\<lambda>(ps, s). (MMap ps, s)) (read_many (read_pair (read_mp k)) n r'))
           else if of_kind 0x90 15 0xDC 0xDD c then
             Option.bind (read_size 0x90 15 0xDC c r)
               (\<lambda>(n, r'). map_option (\<lambda>(xs, s). (MArray xs, s)) (read_many (read_mp k) n r'))
           else if of_kind 0xA0 31 0xDA 0xDB c then
             Option.bind (read_size 0xA0 31 0xDA c r)
               (\<lambda>(n, r'). if n \<le> length r' then Some (MRaw (take n r'), drop n r') else None)
           else if c = 0xC0 then Some (MNil, r)
           else if c = 0xC2 then Some (MBool False, r)
           else if c = 0xC3 then Some (MBool True, r)
           else if c = 0xCB then map_option (\<lambda>(x, s). (MFloat (word_of_nat x), s)) (read_unsigned 8 r)
           else if 0xCC \<le> c \<and> c \<le> 0xCF then
             map_option (\<lambda>(x, s). (MInt (int x), s)) (read_unsigned (2 ^ (c - 0xCC)) r)
           else if 0xD0 \<le> c \<and> c \<le> 0xD3 then
             map_option (\<lambda>(x, s). (MInt x, s)) (read_signed_number (2 ^ (c - 0xD0)) r)
           else None))"

definition unpack :: "byte list \<Rightarrow> mp option" where
  "unpack bs = (case read_mp (Suc (length bs)) bs of Some (m, []) \<Rightarrow> Some m | _ \<Rightarrow> None)"

text \<open>What a value means in the format; the types of the integers are not kept.\<close>

fun meaning :: "(ieee \<Rightarrow> 64 word) \<Rightarrow> dvalue \<Rightarrow> mp" where
  "meaning bits (VString s) = MRaw (map of_char s)"
| "meaning bits (VInt w) = MInt (sint w)"
| "meaning bits (VLongLong w) = MInt (sint w)"
| "meaning bits (VDouble d) = MFloat (bits d)"
| "meaning bits (VBool b) = MBool b"
| "meaning bits VNull = MNil"
| "meaning bits (VUInt w) = MInt (uint w)"
| "meaning bits (VULongLong w) = MInt (uint w)"
| "meaning bits (VLongDouble d) = MFloat (bits d)"
| "meaning bits (VArray xs) = MArray (map (meaning bits) xs)"
| "meaning bits (VHash h) = MMap (map (\<lambda>p. (MRaw (map of_char (fst p)), meaning bits (snd p))) h)"
| "meaning bits VOther = MNil"

text \<open>The values that can be written: no foreign object, and no more than $2^{32} - 1$ parts.\<close>

definition sized :: "'a list \<Rightarrow> bool" where "sized xs \<longleftrightarrow> length xs \<le> 2 ^ 32 - 1"

fun packable :: "dvalue \<Rightarrow> bool" where
  "packable (VString s) = sized s"
| "packable (VArray xs) = (sized xs \<and> (\<forall>x\<in>set xs. packable x))"
| "packable (VHash h) = (sized h \<and> (\<forall>p\<in>set h. sized (fst p) \<and> packable (snd p)))"
| "packable VOther = False"
| "packable v = True"

fun nesting_bound :: "dvalue \<Rightarrow> nat" where
  "nesting_bound (VArray xs) = Suc (sum_list (map nesting_bound xs))"
| "nesting_bound (VHash h) = Suc (sum_list (map (\<lambda>p. Suc (nesting_bound (snd p))) h))"
| "nesting_bound v = 1"

section \<open>Network order\<close>

lemma nth_swap_ends:
  "i < length bs div 2 \<Longrightarrow> j < length bs \<Longrightarrow>
   swap_ends bs i ! j = bs ! (if j = i \<or> j = length bs - 1 - i then length bs - 1 - j else j)"
  by (auto simp: swap_ends_def nth_list_update intro: arg_cong [where f = "(!) bs"])

lemma swap_ends_fold:
  "k \<le> length bs div 2 \<Longrightarrow>
    length (fold (\<lambda>i b. swap_ends b i) [0..<k] bs) = length bs \<and>
    (\<forall>j<length bs. fold (\<lambda>i b. swap_ends b i) [0..<k] bs ! j =
       bs ! (if j < k \<or> length bs - 1 - j < k then length bs - 1 - j else j))"
proof (induction k)
  case (Suc k)
  define cs where "cs = fold (\<lambda>i b. swap_ends b i) [0..<k] bs"
  from Suc have cs: "length cs = length bs"
    "\<And>j. j < length bs \<Longrightarrow> cs ! j = bs ! (if j < k \<or> length bs - 1 - j < k then length bs - 1 - j else j)"
    by (simp_all add: cs_def)
  have "swap_ends cs k ! j = bs ! (if j < Suc k \<or> length bs - 1 - j < Suc k then length bs - 1 - j else j)"
    if j: "j < length bs" for j
  proof (cases "j = k \<or> j = length bs - 1 - k")
    case True
    with Suc.prems j have at: "j < Suc k \<or> length bs - 1 - j < Suc k" "length bs - 1 - j < length bs"
      "\<not> (length bs - 1 - j < k \<or> length bs - 1 - (length bs - 1 - j) < k)"
      by auto
    from True have "swap_ends cs k ! j = cs ! (length bs - 1 - j)"
      using Suc.prems j nth_swap_ends [of k cs j] cs(1) by simp
    with cs(2) [OF at(2)] at(1,3) show ?thesis by simp
  next
    case False
    with j have eq: "(j < k \<or> length bs - 1 - j < k) = (j < Suc k \<or> length bs - 1 - j < Suc k)"
      by (auto simp: less_Suc_eq)
    from False have "swap_ends cs k ! j = cs ! j"
      using Suc.prems j nth_swap_ends [of k cs j] cs(1) by simp
    with cs(2) [OF j] eq show ?thesis by simp
  qed
  moreover have "fold (\<lambda>i b. swap_ends b i) [0..<Suc k] bs = swap_ends cs k" by (simp add: cs_def)
  moreover have "length (swap_ends cs k) = length bs" by (simp add: swap_ends_def cs(1))
  ultimately show ?case by simp
qed simp

lemma swap_ends_rev: "fold (\<lambda>i b. swap_ends b i) [0..<length bs div 2] bs = rev bs"
proof (rule nth_equalityI)
  show "length (fold (\<lambda>i b. swap_ends b i) [0..<length bs div 2] bs) = length (rev bs)"
    using swap_ends_fold [of "length bs div 2" bs] by simp
next
  fix j
  assume "j < length (fold (\<lambda>i b. swap_ends b i) [0..<length bs div 2] bs)"
  then have j: "j < length bs" using swap_ends_fold [of "length bs div 2" bs] by simp
  have "(if j < length bs div 2 \<or> length bs - 1 - j < length bs div 2 then length bs - 1 - j else j)
      = length bs - Suc j"
    using j by simp linarith
  then show "fold (\<lambda>i b. swap_ends b i) [0..<length bs div 2] bs ! j = rev bs ! j"
    using j swap_ends_fold [of "length bs div 2" bs] by (simp add: rev_nth)
qed

lemma PackedData_eq: "PackedData e (w :: 'a::len word) = rev (le_bytes (LENGTH('a) div 8) (unat w))"
  by (simp add: PackedData_def memory_bytes_def Let_def swap_ends_rev)

lemma length_le_bytes [simp]: "length (le_bytes n x) = n"
  by (induction n x rule: le_bytes.induct) simp_all

lemma le_nat_bytes: "le_nat (le_bytes n x) = x mod 256 ^ n"
proof (induction n x rule: le_bytes.induct)
  case (2 n x)
  have "unat (word_of_nat x :: byte) = x mod 256" by (simp add: unsigned_of_nat take_bit_nat_def)
  with 2 show ?case by (simp add: mod_mult2_eq ac_simps)
qed simp

lemma read_packed:
  "x < 256 ^ n \<Longrightarrow> read_unsigned n (rev (le_bytes n x) @ r) = Some (x, r)"
  by (simp add: read_unsigned_def le_nat_bytes)

lemma read_word:
  "LENGTH('a) = 8 * n \<Longrightarrow> read_unsigned n (PackedData e (w :: 'a::len word) @ r) = Some (unat w, r)"
  using read_packed [of "unat w" n r] unsigned_less [of w, where ?'a = nat]
  by (simp add: PackedData_eq power_mult)

lemma uint_eq_sint: "uint (w :: 'a::len word) = (if sint w < 0 then sint w + 2 ^ LENGTH('a) else sint w)"
proof -
  have bounds: "- (2 ^ (LENGTH('a) - 1)) \<le> sint w" "sint w < 2 ^ (LENGTH('a) - 1)"
    using sint_greater_eq [of w] sint_less [of w] by simp_all
  have pow: "2 ^ LENGTH('a) = (2 :: int) * 2 ^ (LENGTH('a) - 1)"
    using power_Suc [of "2 :: int" "LENGTH('a) - 1"] by simp
  have "uint w = sint w mod 2 ^ LENGTH('a)" by (simp add: uint_sint take_bit_eq_mod)
  also have "\<dots> = (if sint w < 0 then sint w + 2 ^ LENGTH('a) else sint w)"
  proof (cases "sint w < 0")
    case True
    then have "(sint w + 2 ^ LENGTH('a)) mod 2 ^ LENGTH('a) = sint w + 2 ^ LENGTH('a)"
      using bounds pow by (intro mod_pos_pos_trivial) linarith+
    with True show ?thesis by simp
  next
    case False
    with bounds pow show ?thesis by (simp add: mod_pos_pos_trivial)
  qed
  finally show ?thesis .
qed

lemma unat_less_power: "(unat w < 2 ^ n) = (uint w < 2 ^ n)"
proof -
  have "(unat w < 2 ^ n) = (int (unat w) < int (2 ^ n))" by (simp only: of_nat_less_iff)
  then show ?thesis by (simp only: of_nat_unat of_nat_power of_nat_numeral)
qed

lemma wrapped_back:
  fixes s p :: int
  assumes "- p \<le> s" "s < p" "u = (if s < 0 then s + 2 * p else s)"
  shows "(if u < p then u else u - 2 * p) = s"
  using assms by simp

lemma read_signed_word:
  assumes "LENGTH('a) = 8 * n"
  shows "read_signed_number n (PackedData e (w :: 'a::len word) @ r) = Some (sint w, r)"
proof -
  have len: "8 * n - 1 = LENGTH('a) - 1" "8 * n = LENGTH('a)" using assms by simp_all
  have bounds: "- (2 ^ (LENGTH('a) - 1)) \<le> sint w" "sint w < 2 ^ (LENGTH('a) - 1)"
    using sint_greater_eq [of w] sint_less [of w] by simp_all
  have pow: "2 ^ LENGTH('a) = (2 :: int) * 2 ^ (LENGTH('a) - 1)"
    using power_Suc [of "2 :: int" "LENGTH('a) - 1"] by simp
  have small: "(unat w < 2 ^ (LENGTH('a) - 1)) = (uint w < 2 ^ (LENGTH('a) - 1))"
    by (rule unat_less_power)
  have "(if unat w < 2 ^ (LENGTH('a) - 1) then uint w else uint w - 2 ^ LENGTH('a)) = sint w"
    unfolding small pow using bounds uint_eq_sint [of w, unfolded pow] by (rule wrapped_back)
  then show ?thesis
    by (simp only: read_signed_number_def read_word [OF assms] len option.map prod.case of_nat_unat)
qed

lemma PackedData_byte: "PackedData e (w :: byte) = [w]"
  by (simp add: PackedData_eq)

lemma read_byte:
  "read_unsigned (Suc 0) (b # r) = Some (unat b, r)"
  "read_signed_number (Suc 0) (b # r) = Some (sint b, r)"
  using read_word [of 1 True b r] read_signed_word [of 1 True b r] by (simp_all add: PackedData_byte)

section \<open>Single codes\<close>

lemma read_codes:
  "read_mp (Suc k) (0xC0 # r) = Some (MNil, r)"
  "read_mp (Suc k) (0xC2 # r) = Some (MBool False, r)"
  "read_mp (Suc k) (0xC3 # r) = Some (MBool True, r)"
  "read_mp (Suc k) (0xCB # r) = map_option (\<lambda>(x, s). (MFloat (word_of_nat x), s)) (read_unsigned 8 r)"
  "read_mp (Suc k) (0xCC # r) = map_option (\<lambda>(x, s). (MInt (int x), s)) (read_unsigned 1 r)"
  "read_mp (Suc k) (0xCD # r) = map_option (\<lambda>(x, s). (MInt (int x), s)) (read_unsigned 2 r)"
  "read_mp (Suc k) (0xCE # r) = map_option (\<lambda>(x, s). (MInt (int x), s)) (read_unsigned 4 r)"
  "read_mp (Suc k) (0xCF # r) = map_option (\<lambda>(x, s). (MInt (int x), s)) (read_unsigned 8 r)"
  "read_mp (Suc k) (0xD0 # r) = map_option (\<lambda>(x, s). (MInt x, s)) (read_signed_number 1 r)"
  "read_mp (Suc k) (0xD1 # r) = map_option (\<lambda>(x, s). (MInt x, s)) (read_signed_number 2 r)"
  "read_mp (Suc k) (0xD2 # r) = map_option (\<lambda>(x, s). (MInt x, s)) (read_signed_number 4 r)"
  "read_mp (Suc k) (0xD3 # r) = map_option (\<lambda>(x, s). (MInt x, s)) (read_signed_number 8 r)"
  by (simp_all add: of_kind_def Let_def)

lemma read_fix:
  "unat b < 128 \<Longrightarrow> read_mp (Suc k) (b # r) = Some (MInt (int (unat b)), r)"
  "224 \<le> unat b \<Longrightarrow> read_mp (Suc k) (b # r) = Some (MInt (int (unat b) - 256), r)"
proof -
  show "unat b < 128 \<Longrightarrow> read_mp (Suc k) (b # r) = Some (MInt (int (unat b)), r)"
    by (simp only: read_mp.simps list.case Let_def if_True)
  assume "224 \<le> unat b"
  moreover from this have "\<not> unat b < 128" by simp
  ultimately show "read_mp (Suc k) (b # r) = Some (MInt (int (unat b) - 256), r)"
    by (simp only: read_mp.simps list.case Let_def if_True if_False)
qed

lemma read_fixnum:
  assumes "- 32 \<le> v" "v \<le> 127"
  shows "read_mp (Suc k) (word_of_int v # r) = Some (MInt v, r)"
proof -
  have v: "uint (word_of_int v :: byte) = v mod 256" by (simp add: uint_word_of_int)
  show ?thesis
  proof (cases "v < 0")
    case True
    then have "v mod 256 = v + 256" using assms by presburger
    then have "unat (word_of_int v :: byte) = nat (v + 256)" using v by (simp add: unat_eq_nat_uint)
    with True assms show ?thesis by (simp add: read_fix del: read_mp.simps)
  next
    case False
    then have "unat (word_of_int v :: byte) = nat v" using assms v by (simp add: unat_eq_nat_uint)
    with False assms show ?thesis by (simp add: read_fix del: read_mp.simps)
  qed
qed

section \<open>Numbers\<close>

lemma sint_narrow:
  "- (2 ^ (LENGTH('a) - 1)) \<le> v \<Longrightarrow> v < 2 ^ (LENGTH('a) - 1) \<Longrightarrow> sint (word_of_int v :: 'a::len word) = v"
  by (simp add: signed_of_int signed_take_bit_int_eq_self)

lemma read_fixnum_scast:
  "- 32 \<le> sint w \<Longrightarrow> sint w \<le> 127 \<Longrightarrow> read_mp (Suc k) (scast w # r) = Some (MInt (sint w), r)"
  using read_fixnum [of "sint w" k r] by (simp del: read_mp.simps)

lemma read_pack_int: "read_mp (Suc k) (pack_int e w @ r) = Some (MInt (sint w), r)"
proof -
  have narrow: "- 128 \<le> sint w \<and> sint w \<le> 127 \<Longrightarrow> sint (scast w :: 8 word) = sint w"
    "- 32768 \<le> sint w \<and> sint w \<le> 32767 \<Longrightarrow> sint (scast w :: 16 word) = sint w"
    using sint_narrow [of "sint w", where ?'a = 8] sint_narrow [of "sint w", where ?'a = 16] by simp_all
  show ?thesis
    unfolding pack_int_def Let_def
    by (simp add: read_fixnum_scast read_codes read_byte read_signed_word narrow del: read_mp.simps)
qed

lemma read_pack_long_long: "read_mp (Suc k) (pack_long_long e w @ r) = Some (MInt (sint w), r)"
proof -
  have narrow: "- 128 \<le> sint w \<and> sint w \<le> 127 \<Longrightarrow> sint (scast w :: 8 word) = sint w"
    "- 32768 \<le> sint w \<and> sint w \<le> 32767 \<Longrightarrow> sint (scast w :: 16 word) = sint w"
    "- 2147483648 \<le> sint w \<and> sint w \<le> 2147483647 \<Longrightarrow> sint (scast w :: 32 word) = sint w"
    using sint_narrow [of "sint w", where ?'a = 8] sint_narrow [of "sint w", where ?'a = 16]
      sint_narrow [of "sint w", where ?'a = 32] by simp_all
  show ?thesis
    unfolding pack_long_long_def Let_def
    by (simp add: read_fixnum_scast read_codes read_byte read_signed_word narrow del: read_mp.simps)
qed

lemma unat_narrow: "n < 2 ^ LENGTH('a) \<Longrightarrow> unat (word_of_nat n :: 'a::len word) = n"
  by (simp add: unsigned_of_nat take_bit_nat_eq_self)

lemma uint_narrow: "unat w < 2 ^ LENGTH('a) \<Longrightarrow> uint (ucast w :: 'a::len word) = uint w"
proof -
  assume "unat w < 2 ^ LENGTH('a)"
  then have "uint w < 2 ^ LENGTH('a)"
    by (simp only: unat_less_power)
  then have "take_bit LENGTH('a) (uint w) = uint w" by (intro take_bit_int_eq_self) simp_all
  then show ?thesis by (simp only: unsigned_ucast_eq)
qed

lemma read_pack_unsigned_int: "read_mp (Suc k) (pack_unsigned_int e w @ r) = Some (MInt (uint w), r)"
  unfolding pack_unsigned_int_def Let_def
  by (simp add: read_codes read_byte read_word uint_narrow del: read_mp.simps)

lemma read_pack_unsigned_long_long:
  "read_mp (Suc k) (pack_unsigned_long_long e w @ r) = Some (MInt (uint w), r)"
  unfolding pack_unsigned_long_long_def Let_def
  by (simp add: read_codes read_byte read_word uint_narrow del: read_mp.simps)

section \<open>Sizes\<close>

lemma pack_size_read:
  assumes n: "n \<le> 2 ^ 32 - 1"
    and code: "\<And>m. m \<le> most \<Longrightarrow> unat (or fix_code (word_of_nat m)) = base + m"
    and codes: "unat short_code = short" "unat long_code = long" "base + most < short" "base + most < long" "short \<noteq> long"
  obtains c t where "pack_size e most fix_code short_code long_code n = Some (c # t)"
    "of_kind base most short long (unat c)"
    "\<And>r. read_size base most short (unat c) (t @ r) = Some (n, r)"
proof -
  consider "n \<le> most" | "\<not> n \<le> most" "n \<le> 2 ^ 16 - 1" | "\<not> n \<le> most" "\<not> n \<le> 2 ^ 16 - 1" by blast
  then show ?thesis
  proof cases
    case 1
    then show ?thesis
      by (intro that [of "or fix_code (word_of_nat n)" "[]"])
        (simp_all add: pack_size_def of_kind_def read_size_def code)
  next
    case 2
    have "read_unsigned 2 (PackedData e (word_of_nat n :: 16 word) @ r) = Some (n, r)" for r
      using 2 by (simp add: read_word unat_narrow)
    with 2 codes show ?thesis
      by (intro that [of short_code "PackedData e (word_of_nat n :: 16 word)"])
        (simp_all add: pack_size_def of_kind_def read_size_def)
  next
    case 3
    have "read_unsigned 4 (PackedData e (word_of_nat n :: 32 word) @ r) = Some (n, r)" for r
      using 3 n by (simp add: read_word unat_narrow)
    with 3 codes n show ?thesis
      by (intro that [of long_code "PackedData e (word_of_nat n :: 32 word)"])
        (simp_all add: pack_size_def of_kind_def read_size_def unat_arith_simps)
  qed
qed

lemma fix_codes:
  "m \<le> 31 \<Longrightarrow> unat (or 0xA0 (word_of_nat m) :: byte) = 0xA0 + m"
  "m \<le> 15 \<Longrightarrow> unat (or 0x90 (word_of_nat m) :: byte) = 0x90 + m"
  "m \<le> 15 \<Longrightarrow> unat (or 0x80 (word_of_nat m) :: byte) = 0x80 + m"
proof -
  have "\<forall>m\<in>set [0..<32]. unat (or 0xA0 (word_of_nat m) :: byte) = 0xA0 + m" by code_simp
  then show "m \<le> 31 \<Longrightarrow> unat (or 0xA0 (word_of_nat m) :: byte) = 0xA0 + m" by simp
  have "\<forall>m\<in>set [0..<16]. unat (or 0x90 (word_of_nat m) :: byte) = 0x90 + m" by code_simp
  then show "m \<le> 15 \<Longrightarrow> unat (or 0x90 (word_of_nat m) :: byte) = 0x90 + m" by simp
  have "\<forall>m\<in>set [0..<16]. unat (or 0x80 (word_of_nat m) :: byte) = 0x80 + m" by code_simp
  then show "m \<le> 15 \<Longrightarrow> unat (or 0x80 (word_of_nat m) :: byte) = 0x80 + m" by simp
qed

text \<open>Reading what follows the code of a container or a string.\<close>

lemma read_kinds:
  "of_kind 0x80 15 0xDE 0xDF (unat b) \<Longrightarrow> read_mp (Suc k) (b # r) =
     Option.bind (read_size 0x80 15 0xDE (unat b) r)
       (\<lambda>(n, r'). map_option (\<lambda>(ps, s). (MMap ps, s)) (read_many (read_pair (read_mp k)) n r'))"
  "of_kind 0x90 15 0xDC 0xDD (unat b) \<Longrightarrow> read_mp (Suc k) (b # r) =
     Option.bind (read_size 0x90 15 0xDC (unat b) r)
       (\<lambda>(n, r'). map_option (\<lambda>(xs, s). (MArray xs, s)) (read_many (read_mp k) n r'))"
  "of_kind 0xA0 31 0xDA 0xDB (unat b) \<Longrightarrow> read_mp (Suc k) (b # r) =
     Option.bind (read_size 0xA0 31 0xDA (unat b) r)
       (\<lambda>(n, r'). if n \<le> length r' then Some (MRaw (take n r'), drop n r') else None)"
proof -
  assume *: "of_kind 0x80 15 0xDE 0xDF (unat b)"
  then have "\<not> unat b < 128" "\<not> 224 \<le> unat b" by (auto simp: of_kind_def)
  with * show "read_mp (Suc k) (b # r) =
     Option.bind (read_size 0x80 15 0xDE (unat b) r)
       (\<lambda>(n, r'). map_option (\<lambda>(ps, s). (MMap ps, s)) (read_many (read_pair (read_mp k)) n r'))"
    by (simp only: read_mp.simps list.case Let_def if_True if_False)
next
  assume *: "of_kind 0x90 15 0xDC 0xDD (unat b)"
  then have "\<not> unat b < 128" "\<not> 224 \<le> unat b" "\<not> of_kind 0x80 15 0xDE 0xDF (unat b)"
    by (auto simp: of_kind_def)
  with * show "read_mp (Suc k) (b # r) =
     Option.bind (read_size 0x90 15 0xDC (unat b) r)
       (\<lambda>(n, r'). map_option (\<lambda>(xs, s). (MArray xs, s)) (read_many (read_mp k) n r'))"
    by (simp only: read_mp.simps list.case Let_def if_True if_False)
next
  assume *: "of_kind 0xA0 31 0xDA 0xDB (unat b)"
  then have "\<not> unat b < 128" "\<not> 224 \<le> unat b" "\<not> of_kind 0x80 15 0xDE 0xDF (unat b)"
    "\<not> of_kind 0x90 15 0xDC 0xDD (unat b)"
    by (auto simp: of_kind_def)
  with * show "read_mp (Suc k) (b # r) =
     Option.bind (read_size 0xA0 31 0xDA (unat b) r)
       (\<lambda>(n, r'). if n \<le> length r' then Some (MRaw (take n r'), drop n r') else None)"
    by (simp only: read_mp.simps list.case Let_def if_True if_False)
qed

section \<open>Whole values\<close>

definition reads :: "nat \<Rightarrow> byte list \<Rightarrow> mp \<Rightarrow> bool" where
  "reads k bs m \<longleftrightarrow> (\<forall>r. read_mp k (bs @ r) = Some (m, r))"

lemma read_many_concat:
  "(\<And>x. x \<in> set xs \<Longrightarrow> \<forall>r. f (g x @ r) = Some (h x, r)) \<Longrightarrow>
   read_many f (length xs) (concat (map g xs) @ r) = Some (map h xs, r)"
  by (induction xs) simp_all

lemma written_map: "written (map (\<lambda>x. Some (True, f x)) xs) = Some (concat (map f xs))"
  by (induction xs) simp_all

lemma written_pairs:
  "written (concat (map (\<lambda>p. [Some (True, f p), Some (True, g p)]) ps)) = Some (concat (map (\<lambda>p. f p @ g p) ps))"
  by (induction ps) simp_all

lemma pack_string_reads:
  assumes "sized s"
  obtains bs where "pack_string e s = Some bs" "bs \<noteq> []" "\<And>k. reads (Suc k) bs (MRaw (map of_char s))"
proof -
  from assms have "length s \<le> 2 ^ 32 - 1" by (simp add: sized_def)
  then obtain c t where ct: "pack_size e 31 0xA0 0xDA 0xDB (length s) = Some (c # t)"
    "of_kind 0xA0 31 0xDA 0xDB (unat c)" "\<And>r. read_size 0xA0 31 0xDA (unat c) (t @ r) = Some (length s, r)"
    by (rule pack_size_read [where fix_code = "0xA0" and e = e and most = 31 and base = "0xA0" and short_code = "0xDA" and long_code = "0xDB" and short = "0xDA" and long = "0xDB"]) (simp_all add: fix_codes)
  have "reads (Suc k) (c # t @ map of_char s) (MRaw (map of_char s))" for k
    using ct(3) by (simp add: reads_def read_kinds(3) [OF ct(2)] del: read_mp.simps)
  with ct(1) that show ?thesis by (simp add: pack_string_def)
qed

text \<open>Values without parts.\<close>

lemma reads_atom:
  "(\<And>k r. read_mp (Suc k) (bs @ r) = Some (m, r)) \<Longrightarrow> \<forall>k\<ge>1. reads k bs m"
  by (metis One_nat_def Suc_le_D reads_def)

lemma packed_not_empty:
  "Suc 0 \<le> length (pack_int e w)" "Suc 0 \<le> length (pack_long_long e x)"
  "Suc 0 \<le> length (pack_unsigned_int e w)" "Suc 0 \<le> length (pack_unsigned_long_long e x)"
  by (simp_all add: pack_int_def pack_long_long_def pack_unsigned_int_def pack_unsigned_long_long_def Let_def)

lemma reads_double: "\<forall>k\<ge>1. reads k (0xCB # PackedData e (x :: 64 word)) (MFloat x)"
  by (rule reads_atom) (simp add: read_codes read_word del: read_mp.simps)

lemma toBinaryStream_reads:
  "packable v \<Longrightarrow> \<exists>bs. toBinaryStream bits e v = Some (True, bs) \<and> nesting_bound v \<le> length bs \<and>
     (\<forall>k\<ge>nesting_bound v. reads k bs (meaning bits v))"
proof (induction v)
  case (VArray xs)
  then have "\<forall>x\<in>set xs. \<exists>bs. toBinaryStream bits e x = Some (True, bs) \<and> nesting_bound x \<le> length bs \<and>
     (\<forall>k\<ge>nesting_bound x. reads k bs (meaning bits x))" by simp
  then obtain f where f: "\<forall>x\<in>set xs. toBinaryStream bits e x = Some (True, f x) \<and> nesting_bound x \<le> length (f x) \<and>
     (\<forall>k\<ge>nesting_bound x. reads k (f x) (meaning bits x))" by metis
  from VArray.prems have "length xs \<le> 2 ^ 32 - 1" by (simp add: sized_def)
  then obtain c t where ct: "pack_size e 15 0x90 0xDC 0xDD (length xs) = Some (c # t)"
    "of_kind 0x90 15 0xDC 0xDD (unat c)" "\<And>r. read_size 0x90 15 0xDC (unat c) (t @ r) = Some (length xs, r)"
    by (rule pack_size_read [where fix_code = "0x90" and e = e and most = 15 and base = "0x90" and short_code = "0xDC" and long_code = "0xDD" and short = "0xDC" and long = "0xDD"]) (simp_all add: fix_codes)
  have "written (map (toBinaryStream bits e) xs) = Some (concat (map f xs))"
    using f by (simp add: written_map cong: map_cong)
  moreover have "sum_list (map nesting_bound xs) \<le> length (concat (map f xs))"
    using f by (simp add: length_concat comp_def sum_list_mono)
  moreover have "reads k (c # t @ concat (map f xs)) (MArray (map (meaning bits) xs))"
    if "Suc (sum_list (map nesting_bound xs)) \<le> k" for k
  proof -
    from that obtain k' where k: "k = Suc k'" "sum_list (map nesting_bound xs) \<le> k'" by (cases k) auto
    have "read_many (read_mp k') (length xs) (concat (map f xs) @ r) = Some (map (meaning bits) xs, r)" for r
    proof (rule read_many_concat)
      fix x
      assume x: "x \<in> set xs"
      then have "nesting_bound x \<le> k'" using member_le_sum_list [of "nesting_bound x" "map nesting_bound xs"] k by simp
      with f x show "\<forall>r. read_mp k' (f x @ r) = Some (meaning bits x, r)" by (simp add: reads_def)
    qed
    then show ?thesis using ct(3) by (simp add: reads_def k read_kinds(2) [OF ct(2)] del: read_mp.simps)
  qed
  ultimately show ?case using ct(1) by simp
next
  case (VHash h)
  then have "\<forall>p\<in>set h. (\<exists>bs. pack_string e (fst p) = Some bs \<and> bs \<noteq> [] \<and> (\<forall>k. reads (Suc k) bs (MRaw (map of_char (fst p))))) \<and>
     (\<exists>bs. toBinaryStream bits e (snd p) = Some (True, bs) \<and> nesting_bound (snd p) \<le> length bs \<and>
     (\<forall>k\<ge>nesting_bound (snd p). reads k bs (meaning bits (snd p))))"
    by (auto elim!: pack_string_reads [where e = e] simp del: not_None_eq)
  then obtain f g where f: "\<forall>p\<in>set h. pack_string e (fst p) = Some (f p) \<and> f p \<noteq> [] \<and>
     (\<forall>k. reads (Suc k) (f p) (MRaw (map of_char (fst p))))"
    and g: "\<forall>p\<in>set h. toBinaryStream bits e (snd p) = Some (True, g p) \<and> nesting_bound (snd p) \<le> length (g p) \<and>
     (\<forall>k\<ge>nesting_bound (snd p). reads k (g p) (meaning bits (snd p)))"
    by metis
  from VHash.prems have "length h \<le> 2 ^ 32 - 1" by (simp add: sized_def)
  then obtain c t where ct: "pack_size e 15 0x80 0xDE 0xDF (length h) = Some (c # t)"
    "of_kind 0x80 15 0xDE 0xDF (unat c)" "\<And>r. read_size 0x80 15 0xDE (unat c) (t @ r) = Some (length h, r)"
    by (rule pack_size_read [where fix_code = "0x80" and e = e and most = 15 and base = "0x80" and short_code = "0xDE" and long_code = "0xDF" and short = "0xDE" and long = "0xDF"]) (simp_all add: fix_codes)
  have "map (\<lambda>p. [map_option (Pair True) (pack_string e (fst p)), toBinaryStream bits e (snd p)]) h =
      map (\<lambda>p. [Some (True, f p), Some (True, g p)]) h"
    using f g by simp
  then have "written (concat (map (\<lambda>p. [map_option (Pair True) (pack_string e (fst p)), toBinaryStream bits e (snd p)]) h)) =
      Some (concat (map (\<lambda>p. f p @ g p) h))"
    by (simp only: written_pairs)
  moreover have "sum_list (map (\<lambda>p. Suc (nesting_bound (snd p))) h) \<le> length (concat (map (\<lambda>p. f p @ g p) h))"
  proof -
    have "Suc (nesting_bound (snd p)) \<le> length (f p) + length (g p)" if "p \<in> set h" for p
      using f g that by (cases "f p") auto
    then show ?thesis unfolding length_concat map_map comp_def length_append by (rule sum_list_mono)
  qed
  moreover have "reads k (c # t @ concat (map (\<lambda>p. f p @ g p) h))
      (MMap (map (\<lambda>p. (MRaw (map of_char (fst p)), meaning bits (snd p))) h))"
    if "Suc (sum_list (map (\<lambda>p. Suc (nesting_bound (snd p))) h)) \<le> k" for k
  proof -
    from that obtain k' where k: "k = Suc k'" "sum_list (map (\<lambda>p. Suc (nesting_bound (snd p))) h) \<le> k'"
      by (cases k) auto
    have "read_many (read_pair (read_mp k')) (length h) (concat (map (\<lambda>p. f p @ g p) h) @ r) =
      Some (map (\<lambda>p. (MRaw (map of_char (fst p)), meaning bits (snd p))) h, r)" for r
    proof (rule read_many_concat)
      fix p
      assume p: "p \<in> set h"
      then have "Suc (nesting_bound (snd p)) \<le> k'"
        using member_le_sum_list [of "Suc (nesting_bound (snd p))" "map (\<lambda>p. Suc (nesting_bound (snd p))) h"] k by simp
      then obtain j where "k' = Suc j" "nesting_bound (snd p) \<le> k'" by (cases k') auto
      with f g p show "\<forall>r. read_pair (read_mp k') ((f p @ g p) @ r) = Some ((MRaw (map of_char (fst p)), meaning bits (snd p)), r)"
        by (simp add: reads_def read_pair_def del: read_mp.simps)
    qed
    then show ?thesis using ct(3) by (simp add: reads_def k read_kinds(1) [OF ct(2)] del: read_mp.simps)
  qed
  ultimately show ?case using ct(1) by simp
next
  case (VString s)
  then have "sized s" by simp
  then obtain bs where bs: "pack_string e s = Some bs" "bs \<noteq> []" "\<And>k. reads (Suc k) bs (MRaw (map of_char s))"
    using pack_string_reads [of s e] by blast
  then have "\<forall>k\<ge>1. reads k bs (MRaw (map of_char s))" by (metis One_nat_def Suc_le_D)
  with bs show ?case by (cases bs) simp_all
qed (auto simp: reads_atom read_codes read_pack_int read_pack_long_long read_pack_unsigned_int
    read_pack_unsigned_long_long packed_not_empty reads_double simp del: read_mp.simps)

text \<open>
  C20 Whatever the byte order of the machine, a value without foreign objects and without a part of more than
  $2^{32} - 1$ elements is written without an exception, and a reader of the MessagePack format, reading
  exactly the bytes written, finds the value: the integers by their number, strings as raw bytes, containers
  with their parts in order.
\<close>

theorem message_pack_reads_back:
  assumes "packable v"
  shows "\<exists>bs. ToMessagePack bits e v = Some bs \<and> unpack bs = Some (meaning bits v)"
proof -
  obtain bs where bs: "toBinaryStream bits e v = Some (True, bs)" "nesting_bound v \<le> length bs"
    "\<forall>k\<ge>nesting_bound v. reads k bs (meaning bits v)"
    using toBinaryStream_reads [OF assms, of bits e] by blast
  then have "read_mp (Suc (length bs)) (bs @ []) = Some (meaning bits v, [])"
    unfolding reads_def by (meson le_SucI)
  then have "unpack bs = Some (meaning bits v)" by (simp add: unpack_def del: read_mp.simps)
  with bs(1) show ?thesis by (simp add: ToMessagePack_def)
qed

theorem message_pack_reads_back_witness:
  "ToMessagePack (\<lambda>_. 0) True (VHash [(''a'', VArray [VInt (- 33), VBool True])]) =
     Some [0x81, 0xA1, 0x61, 0x92, 0xD0, 0xDF, 0xC3] \<and>
   unpack [0x81, 0xA1, 0x61, 0x92, 0xD0, 0xDF, 0xC3] = Some (MMap [(MRaw [0x61], MArray [MInt (- 33), MBool True])])"
proof -
  have *: "ToMessagePack (\<lambda>_. 0) True (VHash [(''a'', VArray [VInt (- 33), VBool True])]) =
     Some [0x81, 0xA1, 0x61, 0x92, 0xD0, 0xDF, 0xC3]"
    by code_simp
  moreover have "meaning (\<lambda>_. 0) (VHash [(''a'', VArray [VInt (- 33), VBool True])]) =
     MMap [(MRaw [0x61], MArray [MInt (- 33), MBool True])]"
    by code_simp
  ultimately show ?thesis
    using message_pack_reads_back [of "VHash [(''a'', VArray [VInt (- 33), VBool True])]" "\<lambda>_. 0" True]
    by (simp add: sized_def)
qed

end
