(* ===== verification/Icon_Image.thy ===== *)
theory Icon_Image
  imports Prelude
begin

text \<open>
  \<open>source/Overlay/LPImage.cpp\<close> and \<open>LPImageWin.cpp\<close>: the pixels of an icon. \<open>RasterCircle\<close> paints an
  ellipse with a glow; \<open>SetImageFromBitmap\<close> copies a bitmap with its colours multiplied by their
  opacity. A pixel is the 32-bit word of its four bytes (blue, green, red, opacity, from the lowest).
  A write outside of the pixels is \<open>None\<close>. The four lanes of an SSE register are a tuple, and the
  calls of the graphics library are recorded; what they return is an argument.
\<close>

section \<open>State\<close>

type_synonym vec2 = "real \<times> real"

record lp_image =
  m_colors :: "u32 list option"
  m_hotspot :: "int \<times> int"
  m_size :: "int \<times> int"

definition LPImage :: lp_image where
  "LPImage = \<lparr>m_colors = None, m_hotspot = (0, 0), m_size = (0, 0)\<rparr>"

section \<open>Vectors of the plane\<close>

definition dot2 :: "vec2 \<Rightarrow> vec2 \<Rightarrow> real" where "dot2 p q = fst p * fst q + snd p * snd q"

definition norm2 :: "vec2 \<Rightarrow> real" where "norm2 p = sqrt (dot2 p p)"

definition normalized2 :: "vec2 \<Rightarrow> vec2" where "normalized2 p = (fst p / norm2 p, snd p / norm2 p)"

section \<open>The circle\<close>

text \<open>Four floats of a register, the lowest lane first.\<close>

type_synonym lanes = "real \<times> real \<times> real \<times> real"

definition map_lanes :: "(real \<Rightarrow> real) \<Rightarrow> lanes \<Rightarrow> lanes" where
  "map_lanes f = (\<lambda>(x0, x1, x2, x3). (f x0, f x1, f x2, f x3))"

definition add_lanes :: "lanes \<Rightarrow> lanes \<Rightarrow> lanes" where
  "add_lanes = (\<lambda>(x0, x1, x2, x3) (y0, y1, y2, y3). (x0 + y0, x1 + y1, x2 + y2, x3 + y3))"

text \<open>The arguments of \<open>RasterCircle\<close>, and the local variables that its loop reads.\<close>

record circle =
  centerOffset :: vec2
  direction :: vec2
  velocity :: real
  outerRadius :: real
  borderRadius :: real
  glow :: real
  rgb :: "real \<times> real \<times> real"
  opacity :: real

record raster =
  rs_radiusSq :: real
  rs_borderSq :: real
  rs_glowSq :: real
  rs_center :: vec2
  rs_aunit :: vec2
  rs_bunit :: vec2
  rs_dark :: lanes
  rs_color :: lanes
  rs_gray :: lanes
  rs_outerRadius :: real
  rs_a :: real

definition yScale :: "circle \<Rightarrow> real" where
  "yScale c = 1 + min 2 (max (velocity c - 50) 0 / 900)"

definition xScale :: "circle \<Rightarrow> real" where "xScale c = sqrt (1 / yScale c)"

definition circle_aunit :: "circle \<Rightarrow> vec2" where
  "circle_aunit c = (if max (velocity c - 50) 0 = 0 then (1, 0) else normalized2 (direction c))"

definition circle_bunit :: "circle \<Rightarrow> vec2" where
  "circle_bunit c = (snd (circle_aunit c), - fst (circle_aunit c))"

definition circle_center :: "int \<times> int \<Rightarrow> circle \<Rightarrow> vec2" where
  "circle_center sz c =
     (of_int (fst sz) / 2 - 1 + fst (centerOffset c), of_int (snd sz) / 2 - 1 + snd (centerOffset c))"

definition dark_lanes :: "circle \<Rightarrow> lanes" where
  "dark_lanes c =
     (if glow c > 0 then (let mult = (if glow c > 1 then 1 else 1 / 5) in (mult * 255, mult * 255, mult * 255, 200))
      else (case rgb c of (r, g, b) \<Rightarrow> (b / 5, g / 5, r / 5, 200)))"

definition color_lanes :: "circle \<Rightarrow> lanes" where
  "color_lanes c = (case rgb c of (r, g, b) \<Rightarrow> (b, g, r, 255))"

definition raster_of :: "int \<times> int \<Rightarrow> circle \<Rightarrow> raster" where
  "raster_of sz c =
     (let radiusSq = outerRadius c * outerRadius c;
          minSize = min (of_int (fst sz) / 2) (of_int (snd sz) / 2);
          a = circle_aunit c; b = circle_bunit c
      in \<lparr>rs_radiusSq = radiusSq,
          rs_borderSq = (outerRadius c - borderRadius c) * (outerRadius c - borderRadius c),
          rs_glowSq = min (radiusSq * glow c * glow c) (minSize * minSize),
          rs_center = circle_center sz c,
          rs_aunit = (fst a * xScale c, snd a * xScale c),
          rs_bunit = (fst b * yScale c, snd b * yScale c),
          rs_dark = dark_lanes c, rs_color = color_lanes c,
          rs_gray = map_lanes (\<lambda>x. (x + 255) / 2) (color_lanes c),
          rs_outerRadius = outerRadius c, rs_a = opacity c\<rparr>)"

text \<open>The rectangle that is painted: first and last column and row, the last excluded.\<close>

definition clip_coord :: "int \<Rightarrow> real \<Rightarrow> int" where "clip_coord n x = min n (max 0 (trunc x))"

definition draw_bounds :: "int \<times> int \<Rightarrow> circle \<Rightarrow> (int \<times> int) \<times> (int \<times> int)" where
  "draw_bounds sz c =
     (let a = circle_aunit c; b = circle_bunit c; m = circle_center sz c;
          xx = norm2 (fst a / xScale c, fst b / yScale c) * outerRadius c * \<bar>glow c\<bar>;
          yy = norm2 (snd a / xScale c, snd b / yScale c) * outerRadius c * \<bar>glow c\<bar>
      in ((clip_coord (fst sz) (fst m - xx), clip_coord (fst sz) (fst m + xx + 1)),
          (clip_coord (snd sz) (snd m - yy), clip_coord (snd sz) (snd m + yy + 1))))"

section \<open>A pixel\<close>

text \<open>The truncation of a lane to 32 bits, with the value that marks what does not fit.\<close>

definition cvttps :: "real \<Rightarrow> u32" where
  "cvttps x = (if - (2 ^ 31) \<le> trunc x \<and> trunc x < 2 ^ 31 then word_of_int (trunc x) else 0x80000000)"

text \<open>The lowest byte of each lane, moved together by shifts of three and six bytes.\<close>

definition pack_lanes :: "u32 \<times> u32 \<times> u32 \<times> u32 \<Rightarrow> u32" where
  "pack_lanes = (\<lambda>(x0, x1, x2, x3).
     let w = (or (and (ucast x0) 0xFF) (or (push_bit 32 (and (ucast x1) 0xFF))
               (or (push_bit 64 (and (ucast x2) 0xFF)) (push_bit 96 (and (ucast x3) 0xFF)))) :: 128 word);
         w' = or w (drop_bit 24 w);
         w'' = or w' (drop_bit 48 w')
     in ucast w'')"

definition color_word :: "lanes \<Rightarrow> u32" where
  "color_word = (\<lambda>(x0, x1, x2, x3). pack_lanes (cvttps x0, cvttps x1, cvttps x2, cvttps x3))"

definition blend_lanes :: "lanes \<Rightarrow> lanes \<Rightarrow> real \<Rightarrow> real \<Rightarrow> lanes" where
  "blend_lanes orig dark blend alpha =
     map_lanes (\<lambda>x. x * alpha)
       (add_lanes (map_lanes (\<lambda>x. x * blend) orig) (map_lanes (\<lambda>x. x * (1 - blend)) dark))"

definition pixel_distSq :: "raster \<Rightarrow> int \<Rightarrow> int \<Rightarrow> real" where
  "pixel_distSq s x y =
     (let pt = (of_int x + 1 / 2 - fst (rs_center s), of_int y + 1 / 2 - snd (rs_center s));
          fx = dot2 pt (rs_aunit s); fy = dot2 pt (rs_bunit s)
      in fx * fx + fy * fy)"

definition pixel_lanes :: "raster \<Rightarrow> real \<Rightarrow> lanes" where
  "pixel_lanes s distSq =
     (if distSq < rs_radiusSq s then
        (let blend = max 0 (min 1 ((rs_borderSq s - distSq) / (2 * rs_outerRadius s)));
             alpha = rs_a s * min 1 ((rs_glowSq s - distSq) / (2 * rs_outerRadius s)) * (1 - blend * (4 / 10))
         in blend_lanes (rs_gray s) (rs_dark s) blend alpha)
      else
        (let blend = max 0 (min 1 ((distSq - rs_radiusSq s) / (2 * rs_outerRadius s)));
             temp = 1 - (distSq - rs_radiusSq s) / (rs_glowSq s - rs_radiusSq s);
             alpha = rs_a s * (temp * temp * temp * (9 / 10))
         in blend_lanes (rs_color s) (rs_dark s) blend alpha))"

text \<open>One turn of the loop.\<close>

definition write_pixel :: "int \<Rightarrow> u32 \<Rightarrow> u32 list option \<Rightarrow> u32 list option" where
  "write_pixel ix v buf =
     (case buf of None \<Rightarrow> None
      | Some px \<Rightarrow> if 0 \<le> ix \<and> ix < int (length px) then Some (px[nat ix := v]) else None)"

definition draw_pixel :: "raster \<Rightarrow> int \<Rightarrow> int \<Rightarrow> int \<Rightarrow> u32 list option \<Rightarrow> u32 list option" where
  "draw_pixel s width x y buf =
     (let distSq = pixel_distSq s x y
      in if distSq < rs_glowSq s then write_pixel (width * y + x) (color_word (pixel_lanes s distSq)) buf else buf)"

definition clear_pixels :: "int \<Rightarrow> u32 list \<Rightarrow> u32 list option" where
  "clear_pixels n px =
     (if nat n \<le> length px then Some (replicate (nat n) 0 @ drop (nat n) px) else None)"

definition RasterCircle :: "circle \<Rightarrow> 'a lp_image_scheme \<Rightarrow> 'a lp_image_scheme option" where
  "RasterCircle c im =
     (case m_colors im of None \<Rightarrow> Some im
      | Some px \<Rightarrow>
          (let sz = m_size im; s = raster_of sz c;
               ((minX, maxX), (minY, maxY)) = draw_bounds sz c;
               px1 = clear_pixels (fst sz * snd sz) px;
               px2 = fold (\<lambda>y. fold (\<lambda>x. draw_pixel s (fst sz) x y) [minX..maxX - 1]) [minY..maxY - 1] px1
           in map_option (\<lambda>p. im\<lparr>m_colors := Some p\<rparr>) px2))"

definition clear_image :: "'a lp_image_scheme \<Rightarrow> 'a lp_image_scheme option" where
  "clear_image im =
     (case m_colors im of None \<Rightarrow> Some im
      | Some px \<Rightarrow> map_option (\<lambda>p. im\<lparr>m_colors := Some p\<rparr>) (clear_pixels (fst (m_size im) * snd (m_size im)) px))"

section \<open>Images on Windows\<close>

text \<open>The device context that holds the pixels; the bitmap selected into it goes with it.\<close>

datatype gdi_call = CreateDC nat | CreateBitmap nat | DeleteDC nat | DeleteBitmap nat

record image_win = lp_image +
  m_hDC :: "nat option"
  gdi :: "gdi_call list"

definition LPImageWin :: image_win where
  "LPImageWin = lp_image.extend LPImage \<lparr>m_hDC = None, gdi = []\<rparr>"

definition call_gdi :: "gdi_call list \<Rightarrow> image_win \<Rightarrow> image_win" where
  "call_gdi cs im = im\<lparr>gdi := gdi im @ cs\<rparr>"

text \<open>Integer division by two, towards zero.\<close>

definition half :: "int \<Rightarrow> int" where "half n = sgn n * (\<bar>n\<bar> div 2)"

text \<open>\<open>bmpInfo\<close> is what \<open>GetObject\<close> tells of the bitmap selected into the new context.\<close>

definition SetDC :: "nat option \<Rightarrow> (int \<times> int) option \<Rightarrow> (int \<times> int) option \<Rightarrow> image_win \<Rightarrow> image_win" where
  "SetDC hDC bmpInfo pHotspot im =
     (let im1 = (case m_hDC im of None \<Rightarrow> im | Some d \<Rightarrow> call_gdi [DeleteDC d, DeleteBitmap d] im);
          im2 = im1\<lparr>m_size := (case bmpInfo of Some sz \<Rightarrow> sz | None \<Rightarrow> (0, 0))\<rparr>;
          im3 = (case hDC of
                   Some _ \<Rightarrow>
                     (case pHotspot of Some h \<Rightarrow> im2\<lparr>m_hotspot := h\<rparr>
                      | None \<Rightarrow> im2\<lparr>m_hotspot := (half (fst (m_size im2)), half (snd (m_size im2)))\<rparr>)
                 | None \<Rightarrow> im2\<lparr>m_hotspot := (0, 0), m_size := (0, 0)\<rparr>)
      in im3\<lparr>m_hDC := hDC\<rparr>)"

definition LPImageWin_destroy :: "image_win \<Rightarrow> image_win" where "LPImageWin_destroy = SetDC None None None"

text \<open>\<open>dc\<close> is the context made, \<open>dib\<close> the pixels of the new bitmap when there is one.\<close>

definition InitImage ::
  "nat \<Rightarrow> u32 list option \<Rightarrow> int \<Rightarrow> int \<Rightarrow> (int \<times> int) option \<Rightarrow> image_win \<Rightarrow> bool \<times> image_win" where
  "InitImage dc dib width height pHotspot im =
     (let im1 = call_gdi [CreateDC dc] (im\<lparr>m_colors := dib\<rparr>) in
      case dib of
        None \<Rightarrow> (False, call_gdi [DeleteDC dc] im1)
      | Some px \<Rightarrow> (True, SetDC (Some dc) (Some (width, height)) pHotspot (call_gdi [CreateBitmap dc] im1)))"

text \<open>A bitmap whose pixels are locked: the quadruple at an offset in bytes from the first.\<close>

record bitmap_data =
  bd_Width :: nat
  bd_Height :: nat
  bd_Stride :: int
  bd_quad :: "int \<Rightarrow> u32"

definition channel :: "nat \<Rightarrow> u32 \<Rightarrow> u32" where "channel i w = and (drop_bit (8 * i) w) 0xFF"

definition premultiplied :: "u32 \<Rightarrow> u32" where
  "premultiplied q =
     (let alpha = channel 3 q; f = (\<lambda>i. and (drop_bit 8 (channel i q * alpha)) 0xFF)
      in or (f 0) (or (push_bit 8 (f 1)) (or (push_bit 16 (f 2)) (push_bit 24 alpha))))"

definition copy_row :: "bitmap_data \<Rightarrow> nat \<Rightarrow> u32 list option \<Rightarrow> u32 list option" where
  "copy_row bd r =
     fold (\<lambda>x. write_pixel (int (r * bd_Width bd + x)) (premultiplied (bd_quad bd (int r * bd_Stride bd + 4 * int x))))
       (rev [0..<bd_Width bd])"

definition copy_rows :: "bitmap_data \<Rightarrow> u32 list option \<Rightarrow> u32 list option" where
  "copy_rows bd = fold (copy_row bd) [0..<bd_Height bd]"

text \<open>\<open>src\<close> is what \<open>LockBits\<close> gives in the format asked for.\<close>

definition SetImageFromBitmap ::
  "nat \<Rightarrow> u32 list option \<Rightarrow> bitmap_data option \<Rightarrow> (int \<times> int) option \<Rightarrow> bool \<Rightarrow> image_win \<Rightarrow>
   (bool \<times> image_win) outcome" where
  "SetImageFromBitmap dc dib src pHotspot write im =
     (case src of None \<Rightarrow> Done (False, im)
      | Some bd \<Rightarrow>
          (let (rs, im1) = InitImage dc dib (int (bd_Width bd)) (int (bd_Height bd)) pHotspot im in
           if write then
             (case copy_rows bd (m_colors im1) of
                None \<Rightarrow> if bd_Width bd = 0 \<or> bd_Height bd = 0 then Done (rs, im1) else Crash
              | Some px \<Rightarrow> Done (rs, im1\<lparr>m_colors := Some px\<rparr>))
           else Done (rs, im1)))"

text \<open>The two ways to make an image, of a size or from a file; \<open>ok\<close> is the status of the new bitmap.\<close>

definition SetImage_size ::
  "bool \<Rightarrow> nat \<Rightarrow> u32 list option \<Rightarrow> bitmap_data option \<Rightarrow> (int \<times> int) option \<Rightarrow> image_win \<Rightarrow>
   (bool \<times> image_win) outcome" where
  "SetImage_size ok dc dib src pHotspot im =
     (if ok then SetImageFromBitmap dc dib src pHotspot False im else Done (False, im))"

definition SetImage_file ::
  "bool \<Rightarrow> nat \<Rightarrow> u32 list option \<Rightarrow> bitmap_data option \<Rightarrow> (int \<times> int) option \<Rightarrow> image_win \<Rightarrow>
   (bool \<times> image_win) outcome" where
  "SetImage_file ok dc dib src pHotspot im =
     (if ok then SetImageFromBitmap dc dib src pHotspot True im else Done (False, im))"

end
