(* ===== verification/Icon_Properties.thy ===== *)
theory Icon_Properties
  imports Icon_Image Overlay_Driver
begin

text \<open>
  The pixels of an icon: the rectangle that \<open>RasterCircle\<close> paints misses no pixel of the ellipse and
  stays inside of the image, the bytes of a pixel are the truncated lanes, and no lane wraps.
\<close>

section \<open>Bytes of a pixel\<close>

lemma low_byte: "and x 0xFF = take_bit 8 (x :: 'a::len word)"
  by (simp add: take_bit_eq_mask mask_eq_exp_minus_1)

lemma channel_pack:
  "channel 0 (pack_lanes (x0, x1, x2, x3)) = and x0 0xFF"
  "channel 1 (pack_lanes (x0, x1, x2, x3)) = and x1 0xFF"
  "channel 2 (pack_lanes (x0, x1, x2, x3)) = and x2 0xFF"
  "channel 3 (pack_lanes (x0, x1, x2, x3)) = and x3 0xFF"
  unfolding channel_def pack_lanes_def Let_def prod.case low_byte
  by (rule bit_word_eqI; auto simp: bit_take_bit_iff bit_drop_bit_eq bit_ucast_iff bit_or_iff bit_push_bit_iff)+

lemma trunc_byte: "0 \<le> x \<Longrightarrow> x \<le> 255 \<Longrightarrow> 0 \<le> trunc x \<and> trunc x \<le> 255"
  by (simp add: trunc_def floor_le_iff)

lemma cvttps_byte: "0 \<le> x \<Longrightarrow> x \<le> 255 \<Longrightarrow> uint (and (cvttps x) 0xFF) = trunc x"
  using trunc_byte [of x]
  by (simp add: low_byte cvttps_def unsigned_take_bit_eq uint_word_of_int take_bit_int_eq_self
      flip: take_bit_eq_mod)

section \<open>The lanes\<close>

definition all_lanes :: "(real \<Rightarrow> bool) \<Rightarrow> lanes \<Rightarrow> bool" where
  "all_lanes P = (\<lambda>(x0, x1, x2, x3). P x0 \<and> P x1 \<and> P x2 \<and> P x3)"

abbreviation "byte_range \<equiv> \<lambda>x :: real. 0 \<le> x \<and> x \<le> 255"

lemma channels_of_color:
  assumes "all_lanes byte_range (l0, l1, l2, l3)"
  shows "uint (channel 0 (color_word (l0, l1, l2, l3))) = trunc l0"
    "uint (channel 1 (color_word (l0, l1, l2, l3))) = trunc l1"
    "uint (channel 2 (color_word (l0, l1, l2, l3))) = trunc l2"
    "uint (channel 3 (color_word (l0, l1, l2, l3))) = trunc l3"
  using assms unfolding all_lanes_def color_word_def prod.case by (simp_all only: channel_pack cvttps_byte)

lemma convex_byte:
  fixes o1 d :: real
  assumes "byte_range o1" "byte_range d" "0 \<le> t" "t \<le> 1" "0 \<le> alpha" "alpha \<le> 1"
  shows "byte_range ((o1 * t + d * (1 - t)) * alpha)"
proof -
  have "0 \<le> o1 * t + d * (1 - t)" using assms by simp
  moreover have "o1 * t + d * (1 - t) \<le> 255 * t + 255 * (1 - t)"
    using assms by (intro add_mono mult_right_mono) auto
  then have "o1 * t + d * (1 - t) \<le> 255" by simp
  ultimately show ?thesis using assms mult_mono [of "o1 * t + d * (1 - t)" 255 alpha 1] by simp
qed

lemma blend_in_range:
  assumes "all_lanes byte_range orig" "all_lanes byte_range dark" "0 \<le> t" "t \<le> 1" "0 \<le> alpha" "alpha \<le> 1"
  shows "all_lanes byte_range (blend_lanes orig dark t alpha)"
  using assms convex_byte
  by (cases orig; cases dark) (simp add: blend_lanes_def all_lanes_def map_lanes_def add_lanes_def)

definition circle_ok :: "circle \<Rightarrow> bool" where
  "circle_ok c \<longleftrightarrow> 0 < outerRadius c \<and> (case rgb c of (r, g, b) \<Rightarrow> byte_range r \<and> byte_range g \<and> byte_range b) \<and>
     0 \<le> opacity c \<and> opacity c \<le> 1 \<and> (velocity c \<le> 50 \<or> direction c \<noteq> (0, 0))"

lemma raster_lanes_ok:
  assumes "circle_ok c"
  shows "all_lanes byte_range (rs_dark (raster_of sz c))" "all_lanes byte_range (rs_color (raster_of sz c))"
    "all_lanes byte_range (rs_gray (raster_of sz c))"
  using assms
  by (auto simp: circle_ok_def raster_of_def Let_def dark_lanes_def color_lanes_def all_lanes_def map_lanes_def
      split: prod.splits)

lemma pixel_lanes_in_range:
  assumes c: "circle_ok c" and s: "s = raster_of sz c" and d: "d < rs_glowSq s"
  shows "all_lanes byte_range (pixel_lanes s d)"
proof -
  have outer: "0 < rs_outerRadius s" and a: "0 \<le> rs_a s" "rs_a s \<le> 1"
    using c by (simp_all add: s raster_of_def Let_def circle_ok_def)
  note lanes = raster_lanes_ok [OF c, of sz, folded s]
  show ?thesis
  proof (cases "d < rs_radiusSq s")
    case True
    define t where "t = max 0 (min 1 ((rs_borderSq s - d) / (2 * rs_outerRadius s)))"
    define m where "m = min 1 ((rs_glowSq s - d) / (2 * rs_outerRadius s))"
    have t: "0 \<le> t" "t \<le> 1" by (auto simp: t_def)
    have m: "0 \<le> m" "m \<le> 1" using d outer by (auto simp: m_def)
    have "0 \<le> rs_a s * m * (1 - t * (4 / 10))" using a m t by simp
    moreover have "rs_a s * m * (1 - t * (4 / 10)) \<le> 1 * 1 * 1"
      using a m t by (intro mult_mono) auto
    ultimately show ?thesis
      using True lanes t blend_in_range by (simp add: pixel_lanes_def Let_def flip: t_def m_def)
  next
    case False
    define t where "t = max 0 (min 1 ((d - rs_radiusSq s) / (2 * rs_outerRadius s)))"
    define m where "m = 1 - (d - rs_radiusSq s) / (rs_glowSq s - rs_radiusSq s)"
    have t: "0 \<le> t" "t \<le> 1" by (auto simp: t_def)
    have m: "0 \<le> m" "m \<le> 1" using d False by (auto simp: m_def divide_simps)
    have "0 \<le> rs_a s * (m * m * m * (9 / 10))" using a m by simp
    moreover have "rs_a s * (m * m * m * (9 / 10)) \<le> 1 * (1 * 1 * 1 * 1)"
      using a m by (intro mult_mono) auto
    ultimately show ?thesis
      using False lanes t blend_in_range by (simp add: pixel_lanes_def Let_def flip: t_def m_def)
  qed
qed

section \<open>The rectangle that is painted\<close>

lemma cauchy2: "\<bar>u * p + v * q\<bar> \<le> sqrt (u * u + v * v) * norm2 (p, q)" for u v p q :: real
proof -
  have "(u * p + v * q) * (u * p + v * q) \<le> (u * u + v * v) * (p * p + q * q)"
    using zero_le_square [of "u * q - v * p"] by (simp add: algebra_simps)
  then have "sqrt ((u * p + v * q) * (u * p + v * q)) \<le> sqrt ((u * u + v * v) * (p * p + q * q))"
    by (rule real_sqrt_le_mono)
  then show ?thesis by (simp add: norm2_def dot2_def real_sqrt_mult)
qed

lemma scales: "1 \<le> yScale c" "0 < xScale c"
  by (simp_all add: yScale_def xScale_def add_pos_nonneg)

lemma aunit_unit:
  assumes "circle_ok c"
  shows "fst (circle_aunit c) * fst (circle_aunit c) + snd (circle_aunit c) * snd (circle_aunit c) = 1"
proof (cases "max (velocity c - 50) 0 = 0")
  case False
  then have "direction c \<noteq> (0, 0)" using assms by (auto simp: circle_ok_def)
  then have "0 < dot2 (direction c) (direction c)"
    by (cases "direction c") (auto simp: dot2_def sum_squares_gt_zero_iff)
  then have "norm2 (direction c) * norm2 (direction c) = dot2 (direction c) (direction c)"
    "norm2 (direction c) \<noteq> 0" by (simp_all add: norm2_def)
  moreover have "x / n * (x / n) + y / n * (y / n) = 1" if "n * n = x * x + y * y" "n \<noteq> 0" for x y n :: real
  proof -
    have "x / n * (x / n) + y / n * (y / n) = (x * x + y * y) / (n * n)" by (simp add: add_divide_distrib)
    also have "\<dots> = 1" unfolding that(1) [symmetric] using that(2) by simp
    finally show ?thesis .
  qed
  ultimately show ?thesis using False by (simp add: circle_aunit_def normalized2_def dot2_def)
qed (simp add: circle_aunit_def)

lemma lit_in_box:
  assumes c: "circle_ok c" and s: "s = raster_of sz c" and lit: "pixel_distSq s x y < rs_glowSq s"
  shows "\<bar>of_int x + 1 / 2 - fst (rs_center s)\<bar> \<le>
      norm2 (fst (circle_aunit c) / xScale c, fst (circle_bunit c) / yScale c) * outerRadius c * \<bar>glow c\<bar>"
    "\<bar>of_int y + 1 / 2 - snd (rs_center s)\<bar> \<le>
      norm2 (snd (circle_aunit c) / xScale c, snd (circle_bunit c) / yScale c) * outerRadius c * \<bar>glow c\<bar>"
proof -
  obtain a1 a2 where a: "circle_aunit c = (a1, a2)" by fastforce
  then have b: "circle_bunit c = (a2, - a1)" by (simp add: circle_bunit_def)
  have unit: "a1 * a1 + a2 * a2 = 1" using aunit_unit [OF c] by (simp add: a)
  define p where "p = of_int x + 1 / 2 - fst (rs_center s)"
  define q where "q = of_int y + 1 / 2 - snd (rs_center s)"
  define u where "u = dot2 (p, q) (rs_aunit s)"
  define v where "v = dot2 (p, q) (rs_bunit s)"
  have pos: "0 < xScale c" "0 < yScale c" using scales [of c] by simp_all
  have uv: "u = (p * a1 + q * a2) * xScale c" "v = (p * a2 - q * a1) * yScale c"
    by (simp_all add: u_def v_def s raster_of_def Let_def a b dot2_def algebra_simps)
  have "p = (p * a1 + q * a2) * a1 + (p * a2 - q * a1) * a2" "q = (p * a1 + q * a2) * a2 - (p * a2 - q * a1) * a1"
    using unit by algebra+
  then have pq: "p = u * (a1 / xScale c) + v * (a2 / yScale c)" "q = u * (a2 / xScale c) + v * (- a1 / yScale c)"
    using pos by (simp_all add: uv)
  have dist: "pixel_distSq s x y = u * u + v * v"
    by (simp add: pixel_distSq_def Let_def u_def v_def p_def q_def)
  have outer: "0 < outerRadius c" using c by (simp add: circle_ok_def)
  have "rs_glowSq s \<le> outerRadius c * outerRadius c * glow c * glow c"
    by (simp add: s raster_of_def Let_def)
  moreover have "u * u + v * v < rs_glowSq s" using lit by (simp only: dist)
  moreover have "outerRadius c * outerRadius c * glow c * glow c = (outerRadius c * \<bar>glow c\<bar>) * (outerRadius c * \<bar>glow c\<bar>)"
    by (simp add: abs_mult_self_eq mult.assoc mult.left_commute)
  ultimately have "u * u + v * v \<le> (outerRadius c * \<bar>glow c\<bar>) * (outerRadius c * \<bar>glow c\<bar>)" by linarith
  then have "sqrt (u * u + v * v) \<le> \<bar>outerRadius c * \<bar>glow c\<bar>\<bar>"
    using real_sqrt_le_mono by fastforce
  then have r: "sqrt (u * u + v * v) \<le> outerRadius c * \<bar>glow c\<bar>" using outer by (simp add: abs_mult)
  have nn: "0 \<le> norm2 z" for z by (simp add: norm2_def dot2_def)
  show "\<bar>of_int x + 1 / 2 - fst (rs_center s)\<bar> \<le>
      norm2 (fst (circle_aunit c) / xScale c, fst (circle_bunit c) / yScale c) * outerRadius c * \<bar>glow c\<bar>"
    using cauchy2 [of u "a1 / xScale c" v "a2 / yScale c"] mult_right_mono [OF r nn, of "(a1 / xScale c, a2 / yScale c)"]
      pq(1) by (simp add: a b mult_ac flip: p_def)
  show "\<bar>of_int y + 1 / 2 - snd (rs_center s)\<bar> \<le>
      norm2 (snd (circle_aunit c) / xScale c, snd (circle_bunit c) / yScale c) * outerRadius c * \<bar>glow c\<bar>"
    using cauchy2 [of u "a2 / xScale c" v "- a1 / yScale c"] mult_right_mono [OF r nn, of "(a2 / xScale c, - a1 / yScale c)"]
      pq(2) by (simp add: a b mult_ac flip: q_def)
qed

lemma clip_coord_covers:
  assumes "0 \<le> x" "x < n" "\<bar>of_int x + 1 / 2 - m\<bar> \<le> w"
  shows "clip_coord n (m - w) \<le> x" "x < clip_coord n (m + w + 1)"
proof -
  have "trunc t = \<lfloor>t\<rfloor>" if "0 \<le> t" for t using that by (simp add: trunc_def)
  moreover have "trunc t \<le> 0" if "t < 0" for t using that by (simp add: trunc_def ceiling_le_iff)
  moreover have "\<lfloor>m - w\<rfloor> \<le> x" using assms(3) by linarith
  moreover have "x < \<lfloor>m + w + 1\<rfloor>" using assms(3) by linarith
  moreover have "0 \<le> m + w + 1" using assms by linarith
  ultimately show "clip_coord n (m - w) \<le> x" "x < clip_coord n (m + w + 1)"
    using assms(1,2) by (cases "0 \<le> m - w"; fastforce simp: clip_coord_def)+
qed

lemma clip_coord_range: "0 \<le> n \<Longrightarrow> 0 \<le> clip_coord n t \<and> clip_coord n t \<le> n"
  by (simp add: clip_coord_def)

section \<open>The loop\<close>

lemma index_unique:
  fixes w :: int
  assumes "0 \<le> x" "x < w" "0 \<le> x'" "x' < w" "w * y + x = w * y' + x'"
  shows "y = y' \<and> x = x'"
proof -
  have "y = (w * y + x) div w" "y' = (w * y' + x') div w" using assms(1-4) by simp_all
  then have "y = y'" using assms(5) by simp
  with assms(5) show ?thesis by simp
qed

definition lit :: "raster \<Rightarrow> int \<Rightarrow> int \<Rightarrow> bool" where
  "lit s x y \<longleftrightarrow> pixel_distSq s x y < rs_glowSq s"

definition pixel_color :: "raster \<Rightarrow> int \<Rightarrow> int \<Rightarrow> u32" where
  "pixel_color s x y = color_word (pixel_lanes s (pixel_distSq s x y))"

definition pixel_at :: "int \<Rightarrow> int \<Rightarrow> int \<Rightarrow> u32 list \<Rightarrow> u32" where
  "pixel_at w x y buf = buf ! nat (w * y + x)"

lemma index_bound:
  fixes w :: int
  assumes "0 \<le> x" "x < w" "0 \<le> y" "y < h"
  shows "0 \<le> w * y + x" "w * y + x < w * h"
proof -
  show "0 \<le> w * y + x" using assms by simp
  have "w * y + x < w * y + w * 1" using assms by simp
  also have "\<dots> = w * (y + 1)" by (simp add: algebra_simps)
  also have "\<dots> \<le> w * h" using assms by (intro mult_left_mono) auto
  finally show "w * y + x < w * h" .
qed

lemma draw_pixel_at:
  assumes "0 \<le> x" "x < w" "0 \<le> y" "y < h" "int (length buf) = w * h"
  obtains px' where "draw_pixel s w x y (Some buf) = Some px'" "length px' = length buf"
    "\<And>x' y'. 0 \<le> x' \<Longrightarrow> x' < w \<Longrightarrow> 0 \<le> y' \<Longrightarrow> y' < h \<Longrightarrow>
       pixel_at w x' y' px' = (if x' = x \<and> y' = y \<and> lit s x y then pixel_color s x y else pixel_at w x' y' buf)"
proof (cases "lit s x y")
  case True
  note b = index_bound [OF assms(1-4)]
  have "pixel_at w x' y' (buf[nat (w * y + x) := pixel_color s x y]) =
      (if x' = x \<and> y' = y then pixel_color s x y else pixel_at w x' y' buf)"
    if r: "0 \<le> x'" "x' < w" "0 \<le> y'" "y' < h" for x' y'
  proof (cases "x' = x \<and> y' = y")
    case False
    then have "w * y' + x' \<noteq> w * y + x" using index_unique [of x' w x y' y] assms r by blast
    then have "nat (w * y' + x') \<noteq> nat (w * y + x)" using b index_bound [OF r] by (simp add: eq_nat_nat_iff)
    with False show ?thesis by (auto simp: pixel_at_def)
  next
    case True
    with b assms(5) show ?thesis by (simp add: pixel_at_def nat_less_iff)
  qed
  with True b assms(5) show ?thesis
    by (intro that [of "buf[nat (w * y + x) := pixel_color s x y]"])
      (auto simp: draw_pixel_def write_pixel_def Let_def lit_def pixel_color_def)
next
  case False
  then show ?thesis by (intro that [of buf]) (auto simp: draw_pixel_def Let_def lit_def)
qed

text \<open>What a list of pixels of the image leaves: those that are lit get their colour.\<close>

definition painted :: "raster \<Rightarrow> int \<times> int \<Rightarrow> (int \<times> int) list \<Rightarrow> u32 list \<Rightarrow> u32 list \<Rightarrow> bool" where
  "painted s sz ps buf px' \<longleftrightarrow> length px' = length buf \<and>
     (\<forall>x y. 0 \<le> x \<longrightarrow> x < fst sz \<longrightarrow> 0 \<le> y \<longrightarrow> y < snd sz \<longrightarrow>
        pixel_at (fst sz) x y px' =
          (if (x, y) \<in> set ps \<and> lit s x y then pixel_color s x y else pixel_at (fst sz) x y buf))"

lemma draw_pixels:
  assumes "\<forall>(x, y)\<in>set ps. 0 \<le> x \<and> x < fst sz \<and> 0 \<le> y \<and> y < snd sz" "int (length buf) = fst sz * snd sz"
  shows "\<exists>px'. fold (\<lambda>(x, y). draw_pixel s (fst sz) x y) ps (Some buf) = Some px' \<and> painted s sz ps buf px'"
  using assms
proof (induction ps arbitrary: buf)
  case (Cons p ps)
  obtain x y where p: "p = (x, y)" by fastforce
  with Cons.prems have r: "0 \<le> x" "x < fst sz" "0 \<le> y" "y < snd sz" by auto
  obtain px1 where px1: "draw_pixel s (fst sz) x y (Some buf) = Some px1" "length px1 = length buf"
    "\<And>x' y'. 0 \<le> x' \<Longrightarrow> x' < fst sz \<Longrightarrow> 0 \<le> y' \<Longrightarrow> y' < snd sz \<Longrightarrow>
       pixel_at (fst sz) x' y' px1 =
         (if x' = x \<and> y' = y \<and> lit s x y then pixel_color s x y else pixel_at (fst sz) x' y' buf)"
    using draw_pixel_at [OF r Cons.prems(2)] by metis
  obtain px' where px': "fold (\<lambda>(x, y). draw_pixel s (fst sz) x y) ps (Some px1) = Some px'" "painted s sz ps px1 px'"
    using Cons.IH [of px1] Cons.prems px1(2) by auto
  have "painted s sz (p # ps) buf px'"
    using px'(2) px1(2,3) by (auto simp: painted_def p)
  with px'(1) px1(1) show ?case by (simp add: p)
qed (simp add: painted_def)

lemma fold_rows:
  "fold (\<lambda>y. fold (\<lambda>x. f x y) xs) ys b = fold (\<lambda>(x, y). f x y) (concat (map (\<lambda>y. map (\<lambda>x. (x, y)) xs) ys)) b"
proof (induction ys arbitrary: b)
  case (Cons y ys)
  have "fold (\<lambda>(x, y). f x y) (map (\<lambda>x. (x, y)) xs) b = fold (\<lambda>x. f x y) xs b"
    by (induction xs arbitrary: b) simp_all
  with Cons show ?case by simp
qed simp

definition image_ok :: "'a lp_image_scheme \<Rightarrow> bool" where
  "image_ok im \<longleftrightarrow> 0 \<le> fst (m_size im) \<and> 0 \<le> snd (m_size im) \<and>
     (\<forall>buf. m_colors im = Some buf \<longrightarrow> int (length buf) = fst (m_size im) * snd (m_size im))"

text \<open>The picture a circle should give, one pixel after the other.\<close>

definition circle_picture :: "int \<times> int \<Rightarrow> circle \<Rightarrow> int \<Rightarrow> int \<Rightarrow> u32" where
  "circle_picture sz c x y =
     (let s = raster_of sz c in if lit s x y then pixel_color s x y else 0)"

lemma RasterCircle_picture:
  assumes c: "circle_ok c" and im: "image_ok im" "m_colors im = Some buf"
  shows "\<exists>px'. Icon_Image.RasterCircle c im = Some (im\<lparr>m_colors := Some px'\<rparr>) \<and> length px' = length buf \<and>
     (\<forall>x y. 0 \<le> x \<longrightarrow> x < fst (m_size im) \<longrightarrow> 0 \<le> y \<longrightarrow> y < snd (m_size im) \<longrightarrow>
        pixel_at (fst (m_size im)) x y px' = circle_picture (m_size im) c x y)"
proof -
  define sz where "sz = m_size im"
  define s where "s = raster_of sz c"
  define wx where "wx = norm2 (fst (circle_aunit c) / xScale c, fst (circle_bunit c) / yScale c) * outerRadius c * \<bar>glow c\<bar>"
  define wy where "wy = norm2 (snd (circle_aunit c) / xScale c, snd (circle_bunit c) / yScale c) * outerRadius c * \<bar>glow c\<bar>"
  define cx where "cx = fst (circle_center sz c)"
  define cy where "cy = snd (circle_center sz c)"
  define minX where "minX = clip_coord (fst sz) (cx - wx)"
  define maxX where "maxX = clip_coord (fst sz) (cx + wx + 1)"
  define minY where "minY = clip_coord (snd sz) (cy - wy)"
  define maxY where "maxY = clip_coord (snd sz) (cy + wy + 1)"
  define ps where "ps = concat (map (\<lambda>y. map (\<lambda>x. (x, y)) [minX..maxX - 1]) [minY..maxY - 1])"
  have len: "int (length buf) = fst sz * snd sz" "0 \<le> fst sz" "0 \<le> snd sz"
    using im by (simp_all add: image_ok_def sz_def)
  have bounds: "draw_bounds sz c = ((minX, maxX), (minY, maxY))"
    by (simp add: draw_bounds_def Let_def minX_def maxX_def minY_def maxY_def cx_def cy_def wx_def wy_def)
  have center: "rs_center s = (cx, cy)" by (simp add: s_def raster_of_def Let_def cx_def cy_def)
  have clear: "clear_pixels (fst sz * snd sz) buf = Some (replicate (length buf) 0)"
    using len by (simp add: clear_pixels_def flip: len(1))
  have "0 \<le> minX" "maxX \<le> fst sz" "0 \<le> minY" "maxY \<le> snd sz"
    using clip_coord_range len(2,3) by (simp_all add: minX_def maxX_def minY_def maxY_def)
  then have "\<forall>(x, y)\<in>set ps. 0 \<le> x \<and> x < fst sz \<and> 0 \<le> y \<and> y < snd sz"
    by (auto simp: ps_def)
  moreover have "int (length (replicate (length buf) (0 :: u32))) = fst sz * snd sz" using len by simp
  ultimately obtain px' where px': "fold (\<lambda>(x, y). draw_pixel s (fst sz) x y) ps (Some (replicate (length buf) 0)) = Some px'"
    "painted s sz ps (replicate (length buf) 0) px'"
    using draw_pixels by blast
  have "Icon_Image.RasterCircle c im = Some (im\<lparr>m_colors := Some px'\<rparr>)"
    using px'(1) im(2) by (simp add: Icon_Image.RasterCircle_def Let_def bounds clear fold_rows flip: sz_def s_def ps_def)
  moreover have "pixel_at (fst sz) x y px' = circle_picture sz c x y"
    if r: "0 \<le> x" "x < fst sz" "0 \<le> y" "y < snd sz" for x y
  proof -
    have "(x, y) \<in> set ps" if "lit s x y"
    proof -
      note box = lit_in_box [OF c s_def that [unfolded lit_def], unfolded center, simplified, folded wx_def wy_def]
      have "minX \<le> x" "x < maxX" "minY \<le> y" "y < maxY"
        using clip_coord_covers [OF r(1,2) box(1)] clip_coord_covers [OF r(3,4) box(2)]
        by (simp_all add: minX_def maxX_def minY_def maxY_def)
      then show ?thesis by (auto simp: ps_def intro!: bexI [of _ y])
    qed
    moreover have "pixel_at (fst sz) x y (replicate (length buf) 0) = 0"
      using index_bound [OF r] len by (simp add: pixel_at_def nat_less_iff)
    ultimately show ?thesis
      using px'(2) r by (auto simp: painted_def circle_picture_def Let_def simp flip: s_def)
  qed
  ultimately show ?thesis using px'(2) by (auto simp: painted_def sz_def)
qed

lemma picture_channels:
  assumes "circle_ok c" "pixel_lanes (raster_of sz c) (pixel_distSq (raster_of sz c) x y) = (l0, l1, l2, l3)"
    "lit (raster_of sz c) x y"
  shows "all_lanes byte_range (l0, l1, l2, l3) \<and> uint (channel 0 (circle_picture sz c x y)) = trunc l0 \<and>
    uint (channel 1 (circle_picture sz c x y)) = trunc l1 \<and> uint (channel 2 (circle_picture sz c x y)) = trunc l2 \<and>
    uint (channel 3 (circle_picture sz c x y)) = trunc l3"
proof -
  have l: "all_lanes byte_range (l0, l1, l2, l3)"
    using pixel_lanes_in_range [OF assms(1) refl, of "pixel_distSq (raster_of sz c) x y" sz] assms(2,3)
    by (simp add: lit_def)
  have "circle_picture sz c x y = color_word (l0, l1, l2, l3)"
    using assms(2,3) by (simp add: circle_picture_def pixel_color_def)
  with l channels_of_color [OF l] show ?thesis by simp
qed

section \<open>The icons of the overlay\<close>

text \<open>The circle that an image of the overlay driver stands for.\<close>

definition circle_of :: "image \<Rightarrow> circle option" where
  "circle_of img =
     (case img of
        Overlay_Driver.RasterCircle offset dir vel radius border gl r g b a \<Rightarrow>
          Some \<lparr>centerOffset = offset, direction = dir, velocity = vel, outerRadius = radius,
            borderRadius = border, glow = gl, rgb = (r, g, b), opacity = a\<rparr>
      | _ \<Rightarrow> None)"

lemma drawn_circle:
  assumes "0 \<le> i" "i < m_numOverlayPoints ov" "overlay_ok ov" "0 < radius" "\<bar>td\<bar> \<le> 1" "0 \<le> cd" "0 \<le> am" "am \<le> 1"
  obtains c where "circle_of (ic_image (m_overlayPoints (drawRasterIcon i x y True v td radius cd am ov) ! nat i)) = Some c"
    "circle_ok c"
proof -
  define n where "n = sqrt (vx v * vx v + vy v * vy v)"
  have n: "n \<le> 50 \<or> (vx v, vy v) \<noteq> (0, 0)" by (auto simp: n_def)
  define a where "a = min (1 - td * td) 1 * (1 - min 1 (cd / acceptableClampDistance)) * am"
  have "td * td \<le> 1" using assms(5) abs_le_square_iff [of td 1] by (simp add: power2_eq_square)
  then have "0 \<le> min (1 - td * td) 1" "min (1 - td * td) 1 \<le> 1" by auto
  moreover have "0 \<le> 1 - min 1 (cd / acceptableClampDistance)" "1 - min 1 (cd / acceptableClampDistance) \<le> 1"
    using assms(6) by (auto simp: acceptableClampDistance_def)
  ultimately have "0 \<le> a" "a \<le> 1 * 1 * 1"
    using assms(7,8) unfolding a_def by (simp, intro mult_mono) auto
  moreover have "nat i < length (m_overlayPoints ov)" using assms(1-3) by (simp add: overlay_ok_def nat_less_iff)
  then have "\<exists>offset border gl r g b. ic_image (m_overlayPoints (drawRasterIcon i x y True v td radius cd am ov) ! nat i) =
      Overlay_Driver.RasterCircle offset (vx v, vy v) n radius border gl r g b a \<and>
      byte_range r \<and> byte_range g \<and> byte_range b"
    using assms(1,2)
    by (cases "td < 0") (simp_all add: drawRasterIcon_def setIconVisibility_def Let_def a_def flip: n_def)
  ultimately show ?thesis using n assms(4) that by (fastforce simp: circle_of_def circle_ok_def)
qed

text \<open>
  C27 When the overlay draws a fingertip, with any position and velocity, a positive radius, a touch distance
  between -1 and 1 and a multiplier between 0 and 1, rendering the icon into an allocated image writes
  nothing outside of it; the rectangle the loop is restricted to misses nothing, every pixel of the ellipse
  and its glow getting its colour and every other pixel none; and the four bytes of a pixel are its
  blended channels rounded down, none of which wraps.
\<close>

theorem drawn_icon_exact:
  assumes "0 \<le> i" "i < m_numOverlayPoints ov" "overlay_ok ov" "0 < radius" "\<bar>td\<bar> \<le> 1" "0 \<le> cd" "0 \<le> am" "am \<le> 1"
    and "image_ok im" "m_colors im = Some buf"
  shows "\<exists>c s buf'. circle_of (ic_image (m_overlayPoints (drawRasterIcon i x y True v td radius cd am ov) ! nat i)) = Some c \<and>
     s = raster_of (m_size im) c \<and>
     Icon_Image.RasterCircle c im = Some (im\<lparr>m_colors := Some buf'\<rparr>) \<and> length buf' = length buf \<and>
     (\<forall>p q l0 l1 l2 l3. 0 \<le> p \<longrightarrow> p < fst (m_size im) \<longrightarrow> 0 \<le> q \<longrightarrow> q < snd (m_size im) \<longrightarrow>
        pixel_lanes s (pixel_distSq s p q) = (l0, l1, l2, l3) \<longrightarrow>
        (let w = pixel_at (fst (m_size im)) p q buf' in
         if pixel_distSq s p q < rs_glowSq s
         then all_lanes (\<lambda>l. 0 \<le> l \<and> l \<le> 255) (l0, l1, l2, l3) \<and> uint (channel 0 w) = trunc l0 \<and>
           uint (channel 1 w) = trunc l1 \<and> uint (channel 2 w) = trunc l2 \<and> uint (channel 3 w) = trunc l3
         else w = 0))"
proof -
  obtain c where c: "circle_of (ic_image (m_overlayPoints (drawRasterIcon i x y True v td radius cd am ov) ! nat i)) = Some c"
    "circle_ok c"
    using drawn_circle [OF assms(1-8)] by blast
  obtain buf' where buf': "Icon_Image.RasterCircle c im = Some (im\<lparr>m_colors := Some buf'\<rparr>)" "length buf' = length buf"
    "\<And>p q. 0 \<le> p \<Longrightarrow> p < fst (m_size im) \<Longrightarrow> 0 \<le> q \<Longrightarrow> q < snd (m_size im) \<Longrightarrow>
        pixel_at (fst (m_size im)) p q buf' = circle_picture (m_size im) c p q"
    using RasterCircle_picture [OF c(2) assms(9,10)] by blast
  have "circle_picture (m_size im) c p q = 0" if "\<not> lit (raster_of (m_size im) c) p q" for p q
    using that by (simp add: circle_picture_def)
  with c(1) buf' picture_channels [OF c(2)] show ?thesis
    unfolding Let_def by (intro exI [of _ c] exI [of _ "raster_of (m_size im) c"] exI [of _ buf'])
      (simp add: lit_def del: all_lanes_def)
qed

theorem drawn_icon_exact_witness:
  "\<forall>v. \<exists>c buf'.
     circle_of (ic_image (m_overlayPoints (drawRasterIcon 3 10 20 True (Vec 70 0 0) (1 / 2) 30 0 1
       (initializeOverlay None (\<lambda>_. False) (OverlayDriver v))) ! nat 3)) = Some c \<and>
     Icon_Image.RasterCircle c \<lparr>m_colors = Some [7, 7, 7, 7], m_hotspot = (0, 0), m_size = (2, 2)\<rparr> =
       Some \<lparr>m_colors = Some buf', m_hotspot = (0, 0), m_size = (2, 2)\<rparr> \<and> length buf' = 4"
proof
  fix v
  let ?ov = "initializeOverlay None (\<lambda>_. False) (OverlayDriver v)"
  let ?im = "\<lparr>m_colors = Some [7, 7, 7, 7 :: u32], m_hotspot = (0 :: int, 0 :: int), m_size = (2, 2)\<rparr>"
  have n: "3 < m_numOverlayPoints ?ov" by (simp add: initializeOverlay_def OverlayDriver_def)
  have im: "image_ok ?im" "m_colors ?im = Some [7, 7, 7, 7]" by (simp_all add: image_ok_def)
  have args: "(0 :: int) \<le> 3" "(0 :: real) < 30" "\<bar>1 / 2 :: real\<bar> \<le> 1" "(0 :: real) \<le> 0" "(0 :: real) \<le> 1" "(1 :: real) \<le> 1"
    by simp_all
  obtain c s buf' where "circle_of (ic_image (m_overlayPoints (drawRasterIcon 3 10 20 True (Vec 70 0 0) (1 / 2) 30 0 1 ?ov) ! nat 3)) = Some c"
    "Icon_Image.RasterCircle c ?im = Some (?im\<lparr>m_colors := Some buf'\<rparr>)" "length buf' = length [7, 7, 7, 7 :: u32]"
    using drawn_icon_exact [OF args(1) n overlay_ok_init args(2,3,4,5,6) im, of 10 20 "Vec 70 0 0"]
    by (elim exE conjE) (rule that)
  then show "\<exists>c buf'.
     circle_of (ic_image (m_overlayPoints (drawRasterIcon 3 10 20 True (Vec 70 0 0) (1 / 2) 30 0 1 ?ov) ! nat 3)) = Some c \<and>
     Icon_Image.RasterCircle c ?im = Some \<lparr>m_colors = Some buf', m_hotspot = (0, 0), m_size = (2, 2)\<rparr> \<and> length buf' = 4"
    by (intro exI [of _ c] exI [of _ buf']) simp
qed

section \<open>Device contexts and opacity\<close>

text \<open>Every device context and bitmap that was made has been deleted once, but the ones held.\<close>

definition contexts_balanced :: "image_win \<Rightarrow> bool" where
  "contexts_balanced im \<longleftrightarrow>
     (\<forall>d. count_list (gdi im) (CreateDC d) = count_list (gdi im) (DeleteDC d) + (if m_hDC im = Some d then 1 else 0) \<and>
       count_list (gdi im) (CreateBitmap d) = count_list (gdi im) (DeleteBitmap d) + (if m_hDC im = Some d then 1 else 0))"

lemma SetDC_simps:
  "m_hDC (SetDC d b h im) = d"
  "gdi (SetDC d b h im) = gdi im @ (case m_hDC im of None \<Rightarrow> [] | Some e \<Rightarrow> [DeleteDC e, DeleteBitmap e])"
  "m_colors (SetDC d b h im) = m_colors im"
  by (simp_all add: SetDC_def Let_def call_gdi_def split: option.split)

lemma balanced_colors: "contexts_balanced (im\<lparr>m_colors := x\<rparr>) = contexts_balanced im"
  by (simp add: contexts_balanced_def)

lemma InitImage_balanced: "contexts_balanced im \<Longrightarrow> contexts_balanced (snd (InitImage dc dib w h p im))"
  by (auto simp: contexts_balanced_def InitImage_def Let_def call_gdi_def SetDC_simps split: option.split)

lemma balanced_after:
  "InitImage dc dib w h p im = (r, im') \<Longrightarrow> contexts_balanced im \<Longrightarrow> contexts_balanced im'"
  using InitImage_balanced by (metis snd_conv)

lemma SetImageFromBitmap_balanced:
  "contexts_balanced im \<Longrightarrow> SetImageFromBitmap dc dib src p w im = Done (r, im') \<Longrightarrow> contexts_balanced im'"
  by (cases src) (auto simp: SetImageFromBitmap_def Let_def balanced_colors split_beta
      split: option.splits if_splits intro: InitImage_balanced dest: balanced_after)

lemma destroyed_image_releases:
  "contexts_balanced im \<Longrightarrow>
   count_list (gdi (LPImageWin_destroy im)) (CreateDC d) = count_list (gdi (LPImageWin_destroy im)) (DeleteDC d)"
  by (auto simp: LPImageWin_destroy_def contexts_balanced_def SetDC_simps split: option.split)

text \<open>A copied pixel keeps its opacity, and its colours are multiplied by it, rounded down.\<close>

lemma channel_less: "unat (channel i q) < 256"
  using take_bit_nat_less_exp [of 8 "unat (drop_bit (8 * i) q)"]
  by (simp add: channel_def low_byte unsigned_take_bit_eq)

lemma low_byte_product:
  "unat (and (drop_bit 8 (channel i q * channel 3 q)) 0xFF) = unat (channel i q) * unat (channel 3 q) div 256"
proof -
  have p: "unat (channel i q) * unat (channel 3 q) \<le> 255 * 255"
    using channel_less [of i q] channel_less [of 3 q] by (intro mult_mono) auto
  then have "unat (channel i q * channel 3 q) = unat (channel i q) * unat (channel 3 q)"
    by (simp add: unat_word_ariths)
  moreover have "unat (channel i q) * unat (channel 3 q) div 256 < 256" using p by simp
  moreover have "unat (drop_bit 8 w) = unat w div 256" for w :: u32
    unfolding unat_drop_bit_eq by (simp add: drop_bit_eq_div)
  ultimately show ?thesis by (simp add: low_byte unsigned_take_bit_eq take_bit_nat_eq_self)
qed

lemma quad_channels:
  fixes b g r a :: u32
  defines "w \<equiv> or (and b 0xFF) (or (push_bit 8 (and g 0xFF)) (or (push_bit 16 (and r 0xFF)) (push_bit 24 (and a 0xFF))))"
  shows "channel 0 w = and b 0xFF" "channel 1 w = and g 0xFF" "channel 2 w = and r 0xFF" "channel 3 w = and a 0xFF"
  unfolding w_def channel_def low_byte
  by (rule bit_word_eqI; auto simp: bit_take_bit_iff bit_drop_bit_eq bit_or_iff bit_push_bit_iff)+

lemma premultiplied_channels:
  "channel 3 (premultiplied q) = channel 3 q"
  "unat (channel 0 (premultiplied q)) = unat (channel 0 q) * unat (channel 3 q) div 256"
  "unat (channel 1 (premultiplied q)) = unat (channel 1 q) * unat (channel 3 q) div 256"
  "unat (channel 2 (premultiplied q)) = unat (channel 2 q) * unat (channel 3 q) div 256"
proof -
  have alpha: "and (channel 3 q) 0xFF = channel 3 q" by (simp add: channel_def low_byte)
  note quad = quad_channels [of "drop_bit 8 (channel 0 q * channel 3 q)" "drop_bit 8 (channel 1 q * channel 3 q)"
        "drop_bit 8 (channel 2 q * channel 3 q)" "channel 3 q", unfolded alpha]
  show "channel 3 (premultiplied q) = channel 3 q"
    "unat (channel 0 (premultiplied q)) = unat (channel 0 q) * unat (channel 3 q) div 256"
    "unat (channel 1 (premultiplied q)) = unat (channel 1 q) * unat (channel 3 q) div 256"
    "unat (channel 2 (premultiplied q)) = unat (channel 2 q) * unat (channel 3 q) div 256"
    unfolding premultiplied_def Let_def quad low_byte_product by (rule refl)+
qed

end
