(* ===== verification/Icon_Window.thy ===== *)
theory Icon_Window
  imports Icon_Image Screens
begin

text \<open>
  \<open>source/Overlay/LPIcon.cpp\<close>, \<open>LPIconWin.cpp\<close> and \<open>LPIconWindowClass.cpp\<close>: the window that shows an
  icon. An image is held by its address together with what the icon reads of it. The calls of the window
  system are recorded, and what it answers is an argument. \<open>SetImage\<close> with \<open>update\<close> returns what \<open>Update\<close>
  would do with the new image.
\<close>

datatype window_call =
    CreateWindow
  | DestroyWindow
  | SetWindowPos int int
  | ShowWindow bool
  | UpdateLayeredWindow int int

record icon_win =
  ii_image :: "(nat \<times> lp_image) option"
  ii_hWnd :: bool
  ii_calls :: "window_call list"

definition call_window :: "window_call \<Rightarrow> icon_win \<Rightarrow> icon_win" where
  "call_window c i = i\<lparr>ii_calls := ii_calls i @ [c]\<rparr>"

text \<open>\<open>created\<close> tells whether the system gave a window.\<close>

definition LPIconWin :: "bool \<Rightarrow> icon_win" where
  "LPIconWin created = \<lparr>ii_image = None, ii_hWnd = created, ii_calls = [CreateWindow]\<rparr>"

definition LPIconWin_destroy :: "icon_win \<Rightarrow> icon_win" where
  "LPIconWin_destroy i = (if ii_hWnd i then call_window DestroyWindow i else i)"

definition icon_Update :: "bool \<Rightarrow> icon_win \<Rightarrow> bool \<times> icon_win" where
  "icon_Update rs i =
     (case ii_image i of
        None \<Rightarrow> (False, i)
      | Some (_, im) \<Rightarrow> (rs, call_window (UpdateLayeredWindow (fst (m_size im)) (snd (m_size im))) i))"

definition icon_SetImage :: "bool \<Rightarrow> (nat \<times> lp_image) option \<Rightarrow> bool \<Rightarrow> icon_win \<Rightarrow> icon_win" where
  "icon_SetImage rs img update i =
     (if map_option fst (ii_image i) = map_option fst img then i
      else (let i1 = i\<lparr>ii_image := img\<rparr> in if update then snd (icon_Update rs i1) else i1))"

definition icon_SetPosition :: "LPPoint \<Rightarrow> icon_win \<Rightarrow> icon_win" where
  "icon_SetPosition position i =
     (let hotspot = (case ii_image i of None \<Rightarrow> (0, 0) | Some (_, im) \<Rightarrow> m_hotspot im)
      in call_window (SetWindowPos (trunc (px position - of_int (fst hotspot))) (trunc (py position - of_int (snd hotspot)))) i)"

definition icon_SetVisibility :: "bool \<Rightarrow> icon_win \<Rightarrow> icon_win" where
  "icon_SetVisibility isVisible i = call_window (ShowWindow isVisible) i"

text \<open>\<open>placement\<close> is the left and top of the window, as the system tells it.\<close>

definition icon_GetPosition :: "int \<times> int \<Rightarrow> icon_win \<Rightarrow> LPPoint" where
  "icon_GetPosition placement i =
     (case ii_image i of
        None \<Rightarrow> LPPoint (of_int (fst placement)) (of_int (snd placement))
      | Some (_, im) \<Rightarrow>
          LPPoint (of_int (fst placement) - of_int (fst (m_hotspot im))) (of_int (snd placement) - of_int (snd (m_hotspot im))))"

text \<open>The message handlers: \<open>default\<close> is what the system's own procedure returns.\<close>

datatype window_message = WM_DISPLAYCHANGE | WM_NCHITTEST | WM_OTHER nat

datatype window_result = HTTRANSPARENT | DefaultResult

definition icon_WindowProc :: "window_message \<Rightarrow> window_result" where
  "icon_WindowProc uMsg = (case uMsg of WM_NCHITTEST \<Rightarrow> HTTRANSPARENT | _ \<Rightarrow> DefaultResult)"

definition class_WindowProc :: "bool \<Rightarrow> window_message \<Rightarrow> window_result" where
  "class_WindowProc has_icon uMsg = (if has_icon then icon_WindowProc uMsg else DefaultResult)"

text \<open>The window class: its name is registered by the constructor, and given back by the destructor.\<close>

definition LPIconWindowClass :: "string set \<Rightarrow> string set" where
  "LPIconWindowClass registered = insert ''LPOverlay'' registered"

definition LPIconWindowClass_destroy :: "string set \<Rightarrow> string set" where
  "LPIconWindowClass_destroy registered = registered - {''LPOverlay''}"

section \<open>Positions\<close>

text \<open>The last position set, as the calls have it.\<close>

fun last_position :: "window_call list \<Rightarrow> (int \<times> int) option" where
  "last_position [] = None"
| "last_position (c # cs) =
     (case last_position cs of Some p \<Rightarrow> Some p | None \<Rightarrow> (case c of SetWindowPos x y \<Rightarrow> Some (x, y) | _ \<Rightarrow> None))"

lemma last_position_snoc [simp]:
  "last_position (cs @ [SetWindowPos x y]) = Some (x, y)"
  by (induction cs) simp_all

text \<open>
  Reading the position back from a window that stands where it was put takes the hot spot away a second
  time, where it should be added.
\<close>

lemma position_read_back:
  assumes "ii_image i = Some (k, im)" "last_position (ii_calls (icon_SetPosition (LPPoint (of_int x) (of_int y)) i)) = Some p"
  shows "icon_GetPosition p i = LPPoint (of_int (x - 2 * fst (m_hotspot im))) (of_int (y - 2 * snd (m_hotspot im)))"
proof -
  have "trunc (of_int a) = a" for a by (simp add: trunc_def)
  then have "trunc (of_int a - of_int b) = a - b" for a b :: int by (metis of_int_diff)
  with assms show ?thesis by (auto simp: icon_SetPosition_def icon_GetPosition_def call_window_def Let_def)
qed

lemma icon_SetImage_same:
  "map_option fst (ii_image i) = map_option fst img \<Longrightarrow> icon_SetImage rs img u i = i"
  by (simp add: icon_SetImage_def)

lemma icon_SetImage_image:
  "map_option fst (ii_image i) \<noteq> map_option fst img \<Longrightarrow> ii_image (icon_SetImage rs img u i) = img"
  by (auto simp: icon_SetImage_def Let_def icon_Update_def call_window_def split: option.split)

end
