(* ===== verification/File_System.thy ===== *)
theory File_System
  imports Leap_Api
begin

text \<open>
  \<open>source/Utility/FileSystemUtil.cpp\<close>: the directory of the user's files. The calls of the operating system
  are a record of functions on a state of its own; a call that changes it returns whether it succeeded and
  the new state.
\<close>

record 'w os_calls =
  os_getenv :: "string \<Rightarrow> string option"
  os_chdir :: "string \<Rightarrow> 'w \<Rightarrow> bool \<times> 'w"
  os_getcwd :: "'w \<Rightarrow> string option"
  os_mkdir :: "string \<Rightarrow> 'w \<Rightarrow> bool \<times> 'w"
  os_exists :: "string \<Rightarrow> 'w \<Rightarrow> bool"

section \<open>Paths\<close>

datatype separator_style = SEPARATOR_STYLE_WINDOWS | SEPARATOR_STYLE_UNIX | SEPARATOR_STYLE_OTHER

definition PATH_SEPARATOR_WINDOWS :: char where "PATH_SEPARATOR_WINDOWS = CHR 0x5C"

definition PATH_SEPARATOR_UNIX :: char where "PATH_SEPARATOR_UNIX = CHR ''/''"

definition PATH_SEPARATOR :: "platform \<Rightarrow> char" where
  "PATH_SEPARATOR p = (if p = Windows then PATH_SEPARATOR_WINDOWS else PATH_SEPARATOR_UNIX)"

definition APPLICATION_DIRECTORY :: "platform \<Rightarrow> string" where
  "APPLICATION_DIRECTORY p = (if p = Linux then ''.Leap Motion'' else ''Leap Motion'')"

definition ApplySeparatorStyle :: "separator_style \<Rightarrow> string \<Rightarrow> string" where
  "ApplySeparatorStyle style path =
     (case style of
        SEPARATOR_STYLE_WINDOWS \<Rightarrow> map (\<lambda>c. if c = PATH_SEPARATOR_UNIX then PATH_SEPARATOR_WINDOWS else c) path
      | SEPARATOR_STYLE_UNIX \<Rightarrow> map (\<lambda>c. if c = PATH_SEPARATOR_WINDOWS then PATH_SEPARATOR_UNIX else c) path
      | SEPARATOR_STYLE_OTHER \<Rightarrow> path)"

definition GetUserAppDirectory :: "platform \<Rightarrow> 'w os_calls \<Rightarrow> string" where
  "GetUserAppDirectory p os =
     (if p = Windows then (case os_getenv os ''APPDATA'' of Some d \<Rightarrow> d | None \<Rightarrow> ''C:/'')
      else
        (let appDir = (case os_getenv os ''HOME'' of Some d \<Rightarrow> d | None \<Rightarrow> ''~'')
         in if p = Apple then appDir @ ''/Library/Application Support'' else appDir))"

section \<open>Directories\<close>

definition MakeDirectory :: "'w os_calls \<Rightarrow> string \<Rightarrow> 'w \<Rightarrow> bool \<times> 'w" where
  "MakeDirectory os path w = os_mkdir os path w"

definition ChangeWorkingDirectory :: "'w os_calls \<Rightarrow> string \<Rightarrow> 'w \<Rightarrow> bool \<times> 'w" where
  "ChangeWorkingDirectory os path w = os_chdir os path w"

text \<open>\<open>None\<close> of \<open>os_getcwd\<close> is a path that does not fit into the buffer of 1024 characters.\<close>

definition GetWorkingDirectory :: "'w os_calls \<Rightarrow> 'w \<Rightarrow> string" where
  "GetWorkingDirectory os w = (case os_getcwd os w of Some d \<Rightarrow> d | None \<Rightarrow> [])"

definition DirectoryExists :: "'w os_calls \<Rightarrow> string \<Rightarrow> 'w \<Rightarrow> bool \<times> 'w" where
  "DirectoryExists os path w =
     (let currentDir = GetWorkingDirectory os w;
          (changed, w1) = ChangeWorkingDirectory os path w
      in if \<not> changed then (False, w1) else (True, snd (ChangeWorkingDirectory os currentDir w1)))"

definition FileExists :: "'w os_calls \<Rightarrow> string \<Rightarrow> 'w \<Rightarrow> bool" where
  "FileExists os path w = os_exists os path w"

definition GetUserPath :: "platform \<Rightarrow> 'w os_calls \<Rightarrow> string \<Rightarrow> 'w \<Rightarrow> string \<times> 'w" where
  "GetUserPath p os filename w =
     (let curPath = GetUserAppDirectory p os @ [PATH_SEPARATOR p] @ APPLICATION_DIRECTORY p;
          (there, w1) = DirectoryExists os curPath w;
          w2 = (if there then w1 else snd (MakeDirectory os curPath w1))
      in (ApplySeparatorStyle SEPARATOR_STYLE_UNIX (curPath @ [PATH_SEPARATOR p] @ filename), w2))"

section \<open>What they do\<close>

lemma ApplySeparatorStyle_unix: "PATH_SEPARATOR_WINDOWS \<notin> set (ApplySeparatorStyle SEPARATOR_STYLE_UNIX path)"
  by (auto simp: ApplySeparatorStyle_def PATH_SEPARATOR_UNIX_def PATH_SEPARATOR_WINDOWS_def)

lemma ApplySeparatorStyle_length: "length (ApplySeparatorStyle style path) = length path"
  by (simp add: ApplySeparatorStyle_def split: separator_style.split)

lemma ApplySeparatorStyle_windows_unix:
  "PATH_SEPARATOR_WINDOWS \<notin> set path \<Longrightarrow>
   ApplySeparatorStyle SEPARATOR_STYLE_UNIX (ApplySeparatorStyle SEPARATOR_STYLE_WINDOWS path) = path"
  by (induction path) (auto simp: ApplySeparatorStyle_def PATH_SEPARATOR_UNIX_def PATH_SEPARATOR_WINDOWS_def)

text \<open>What the code relies on: a change of directory that succeeds can be undone by the directory's name.\<close>

definition returns_home :: "'w os_calls \<Rightarrow> 'w \<Rightarrow> bool" where
  "returns_home os w \<longleftrightarrow>
     (\<forall>path. \<not> fst (os_chdir os path w) \<longrightarrow> snd (os_chdir os path w) = w) \<and>
     (\<forall>path d. fst (os_chdir os path w) \<longrightarrow> os_getcwd os w = Some d \<longrightarrow>
        os_chdir os d (snd (os_chdir os path w)) = (True, w))"

text \<open>The test leaves the working directory as it is, when its name fits into the buffer \<dots>\<close>

lemma DirectoryExists_keeps:
  assumes "returns_home os w" "os_getcwd os w \<noteq> None"
  shows "DirectoryExists os path w = (fst (os_chdir os path w), w)"
  using assms by (auto simp: DirectoryExists_def ChangeWorkingDirectory_def GetWorkingDirectory_def returns_home_def
      Let_def split_beta)

text \<open>\<dots> and otherwise leaves the process in the directory it asked about.\<close>

lemma DirectoryExists_moves:
  assumes "os_getcwd os w = None" "os_chdir os path w = (True, w1)" "os_chdir os [] w1 = (False, w1)"
  shows "DirectoryExists os path w = (True, w1)"
  using assms by (simp add: DirectoryExists_def ChangeWorkingDirectory_def GetWorkingDirectory_def Let_def)

lemma GetUserPath_unix: "PATH_SEPARATOR_WINDOWS \<notin> set (fst (GetUserPath p os filename w))"
  using ApplySeparatorStyle_unix by (simp add: GetUserPath_def Let_def split_beta)

lemma GetUserPath_existing:
  assumes "returns_home os w" "os_getcwd os w \<noteq> None"
    "fst (os_chdir os (GetUserAppDirectory p os @ [PATH_SEPARATOR p] @ APPLICATION_DIRECTORY p) w)"
  shows "snd (GetUserPath p os filename w) = w"
  using assms DirectoryExists_keeps [OF assms(1,2)] by (simp add: GetUserPath_def Let_def)

end
