(* ===== verification/Value_Conversions.thy ===== *)
theory Value_Conversions
  imports Dynamic_Value Wide_Text
begin

text \<open>
  The other constructors, type tests and conversions of \<open>source/Utility/Value.h\<close>. \<open>ToBasic\<close> is one template
  for every arithmetic type: here one definition for the integers of a width, which gets the value a
  string stands for from the caller, and one for the floating point types. A conversion of a floating point
  number out of range is undefined; here it keeps the low bits. Whether \<open>long\<close> is as wide as \<open>int\<close>, and how
  strings are read as floating point or unsigned numbers, are parameters.
\<close>

section \<open>Constructors\<close>

definition Value_chars :: "string option \<Rightarrow> dvalue" where
  "Value_chars value = VString (case value of Some s \<Rightarrow> s | None \<Rightarrow> [])"

definition Value_wstring :: "32 word list \<Rightarrow> dvalue" where
  "Value_wstring value = VString (convertWideStringToUTF8String value)"

definition Value_short :: "16 word \<Rightarrow> dvalue" where "Value_short value = VInt (scast value)"

definition Value_ushort :: "16 word \<Rightarrow> dvalue" where "Value_ushort value = VUInt (ucast value)"

definition Value_long :: "bool \<Rightarrow> 64 word \<Rightarrow> dvalue" where
  "Value_long long_is_int value = (if long_is_int then VInt (ucast value) else VLongLong value)"

definition Value_ulong :: "bool \<Rightarrow> 64 word \<Rightarrow> dvalue" where
  "Value_ulong long_is_int value = (if long_is_int then VUInt (ucast value) else VULongLong value)"

section \<open>Type tests\<close>

definition IsNull :: "dvalue \<Rightarrow> bool" where "IsNull v \<longleftrightarrow> v = VNull"

definition IsArray :: "dvalue \<Rightarrow> bool" where "IsArray v = (case v of VArray _ \<Rightarrow> True | _ \<Rightarrow> False)"

definition IsString :: "dvalue \<Rightarrow> bool" where "IsString v = (case v of VString _ \<Rightarrow> True | _ \<Rightarrow> False)"

definition IsBool :: "dvalue \<Rightarrow> bool" where "IsBool v = (case v of VBool _ \<Rightarrow> True | _ \<Rightarrow> False)"

definition IsBasic :: "dvalue \<Rightarrow> bool" where "IsBasic v \<longleftrightarrow> IsNumeric v \<or> IsString v \<or> IsBool v"

text \<open>\<open>is\<close> is the test for the type asked for.\<close>

definition HashHasType :: "(dvalue \<Rightarrow> bool) \<Rightarrow> dvalue \<Rightarrow> string \<Rightarrow> bool" where
  "HashHasType is v key =
     (case v of VHash h \<Rightarrow> (case map_of h key of None \<Rightarrow> False | Some w \<Rightarrow> is w) | _ \<Rightarrow> False)"

section \<open>Numbers\<close>

definition ToBasic_word :: "(string \<Rightarrow> int) \<Rightarrow> dvalue \<Rightarrow> 'a::len word" where
  "ToBasic_word fromString v =
     (case v of
        VInt w \<Rightarrow> scast w
      | VDouble d \<Rightarrow> word_of_int (ieee_trunc d)
      | VString s \<Rightarrow> word_of_int (fromString s)
      | VBool b \<Rightarrow> of_bool b
      | VLongLong w \<Rightarrow> scast w
      | VUInt w \<Rightarrow> ucast w
      | VULongLong w \<Rightarrow> ucast w
      | VLongDouble d \<Rightarrow> word_of_int (ieee_trunc d)
      | _ \<Rightarrow> 0)"

definition To_short :: "dvalue \<Rightarrow> 16 word" where
  "To_short = ToBasic_word (read_signed (- (2 ^ 15)) (2 ^ 15 - 1))"

definition To_long_long :: "dvalue \<Rightarrow> 64 word" where
  "To_long_long = ToBasic_word (read_signed (- (2 ^ 63)) (2 ^ 63 - 1))"

definition To_ushort :: "(string \<Rightarrow> int) \<Rightarrow> dvalue \<Rightarrow> 16 word" where "To_ushort = ToBasic_word"

definition To_uint :: "(string \<Rightarrow> int) \<Rightarrow> dvalue \<Rightarrow> 32 word" where "To_uint = ToBasic_word"

definition To_ulong_long :: "(string \<Rightarrow> int) \<Rightarrow> dvalue \<Rightarrow> 64 word" where "To_ulong_long = ToBasic_word"

text \<open>A \<open>long\<close> of 32 bits is extended to the 64 bits of the model.\<close>

definition To_long :: "bool \<Rightarrow> dvalue \<Rightarrow> 64 word" where
  "To_long long_is_int v = (if long_is_int then scast (To_int v) else To_long_long v)"

definition To_ulong :: "(string \<Rightarrow> int) \<Rightarrow> bool \<Rightarrow> dvalue \<Rightarrow> 64 word" where
  "To_ulong fromString long_is_int v =
     (if long_is_int then ucast (To_uint fromString v) else To_ulong_long fromString v)"

definition To_double :: "(string \<Rightarrow> ieee) \<Rightarrow> dvalue \<Rightarrow> ieee" where
  "To_double fromString v =
     (case v of
        VInt w \<Rightarrow> Finite (of_int (sint w))
      | VDouble d \<Rightarrow> d
      | VString s \<Rightarrow> fromString s
      | VBool b \<Rightarrow> Finite (of_bool b)
      | VLongLong w \<Rightarrow> Finite (of_int (sint w))
      | VUInt w \<Rightarrow> Finite (of_int (uint w))
      | VULongLong w \<Rightarrow> Finite (of_int (uint w))
      | VLongDouble d \<Rightarrow> d
      | _ \<Rightarrow> Finite 0)"

definition To_wstring :: "bool \<Rightarrow> dvalue \<Rightarrow> 32 word list" where
  "To_wstring narrow v = convertUTF8StringToWideString narrow (To_string v)"

section \<open>Integers are not changed by a conversion to a type that holds them\<close>

text \<open>The number a value of an integer type stands for.\<close>

definition integer_of :: "dvalue \<Rightarrow> int option" where
  "integer_of v =
     (case v of VInt w \<Rightarrow> Some (sint w) | VLongLong w \<Rightarrow> Some (sint w) | VUInt w \<Rightarrow> Some (uint w)
      | VULongLong w \<Rightarrow> Some (uint w) | VBool b \<Rightarrow> Some (of_bool b) | _ \<Rightarrow> None)"

lemma ToBasic_word_integer: "integer_of v = Some n \<Longrightarrow> ToBasic_word p v = word_of_int n"
  by (cases v) (auto simp: integer_of_def ToBasic_word_def)

lemma ToBasic_signed:
  "integer_of v = Some n \<Longrightarrow> - (2 ^ (LENGTH('a) - 1)) \<le> n \<Longrightarrow> n < 2 ^ (LENGTH('a) - 1) \<Longrightarrow>
   sint (ToBasic_word p v :: 'a::len word) = n"
  by (simp add: ToBasic_word_integer signed_of_int signed_take_bit_int_eq_self)

lemma ToBasic_unsigned:
  "integer_of v = Some n \<Longrightarrow> 0 \<le> n \<Longrightarrow> n < 2 ^ LENGTH('a) \<Longrightarrow> uint (ToBasic_word p v :: 'a::len word) = n"
  by (simp add: ToBasic_word_integer unsigned_of_int take_bit_int_eq_self)

lemma To_int_basic: "To_int v = ToBasic_word (read_signed (- (2 ^ 31)) (2 ^ 31 - 1)) v"
proof (cases v)
  case (VLongLong w)
  have "(ucast w :: 32 word) = scast w"
    by (rule bit_word_eqI) (simp add: bit_ucast_iff bit_signed_iff)
  with VLongLong show ?thesis by (simp add: To_int_def ToBasic_word_def)
qed (simp_all add: To_int_def ToBasic_word_def)

lemma short_back: "To_short (Value_short w) = w"
proof -
  have "integer_of (Value_short w) = Some (sint w)"
    using sint_greater_eq [of w] sint_less [of w]
    by (simp add: Value_short_def integer_of_def signed_scast_eq signed_take_bit_int_eq_self)
  then show ?thesis by (simp add: To_short_def ToBasic_word_integer)
qed

lemma ushort_back: "To_ushort p (Value_ushort w) = w"
  by (rule bit_word_eqI)
    (simp add: To_ushort_def Value_ushort_def ToBasic_word_def bit_ucast_iff)

lemma long_long_back: "To_long_long (VLongLong w) = w"
  by (simp add: To_long_long_def ToBasic_word_def)

lemma tests_exclusive:
  "IsBasic v \<Longrightarrow> \<not> IsHash v \<and> \<not> IsArray v \<and> \<not> IsNull v"
  by (cases v) (simp_all add: IsBasic_def IsNumeric_def IsString_def IsBool_def IsHash_def IsArray_def IsNull_def)

end
