(* ===== verification/Spec2Isabelle.thy ===== *)
theory Spec2Isabelle
  imports Basic_Properties Touch_Properties Utility_Properties Device_Properties
    Gesture_Only_Properties Finger_Mouse_Properties Value_Properties
    Mode_Contract Configuration_Properties Listener_Properties User_Interface_Properties
    Message_Pack_Properties Icon_Properties Icon_Window File_System Value_Conversions
begin

text \<open>
  Touchless turns the frames of a Leap Motion controller into mouse, gesture and touch input. This development
  models the C++ of \<open>source/\<close> and proves what makes it correct. File names below are relative to
  \<open>source/\<close>.

  \<^bold>\<open>The program.\<close> The controller calls a listener (\<open>TouchlessUI/TouchlessListener.cpp\<close>), which owns two
  drivers, one for the operating system (\<open>OSInteraction/\<close>) and one for the overlay that marks the fingertips
  (\<open>Overlay/\<close>), the configuration (\<open>Configuration/\<close>) and the interaction manager of the mode the user has
  chosen in the tray menu (\<open>TouchlessUI/TouchlessUI.cpp\<close>). A manager (\<open>GestureInteraction/\<close>) is a state machine that
  looks at each frame through filters and histories (\<open>Utility/\<close>) and asks the drivers for clicks, moves, gestures,
  touches and icons. The system driver keeps the set of touches that it injects, and synthesises scrolling with momentum
  on the thread of a timer.

  \<^bold>\<open>Theories and sources.\<close> Every theory of definitions follows one source file: a record is a class, a datatype an
  enumeration or a tagged union, a function a method with its guards and early returns.

  \<^item> \<open>Prelude\<close>: the outcome of a call (a state, a crash, no return), conversions, lists. \<open>Vec\<close>, \<open>Leap_Api\<close>: vectors, and
  the SDK as a record of functions; \<open>Leap_Api\<close> names the documented behaviour that theorems rely on (\<open>sdk_hands\<close>,
  \<open>sdk_ids\<close>, \<open>sdk_probabilities\<close>), and \<open>Sample_Sdk\<close> is an SDK that has it, on which theorems are applied.

  \<^item> \<open>Machine\<close> (\<open>Utility/StateMachine.h\<close>), \<open>Bounded_Queue\<close>, \<open>Timed_History\<close>, \<open>Rolling_Filter\<close>,
  \<open>Categorical_Filter\<close>, \<open>Delta_Tracker\<close>, \<open>Aligned_Box\<close>, \<open>Screens\<close> (\<open>LPGeometry.h\<close>, \<open>LPScreen\<close>, \<open>LPVirtualScreen\<close>),
  \<open>Heartbeat_Timer\<close> and \<open>File_System\<close>: the utilities. \<open>Utility_Properties\<close> holds their theorems.

  \<^item> \<open>Dynamic_Value\<close>, \<open>Json_Parser\<close>, \<open>Wide_Text\<close>, \<open>Message_Pack\<close>, \<open>Value_Conversions\<close> (\<open>Utility/Value.cpp\<close> and
  \<open>Value.h\<close>): values, the JSON writer and parser, wide strings, the binary writer, conversions. \<open>Json_Numbers\<close> and
  \<open>Json_Roundtrip\<close> lead to \<open>Value_Properties\<close>; \<open>Message_Pack_Properties\<close> has a reader of the binary format.

  \<^item> \<open>Interaction_Manager\<close> is the base class of the modes; \<open>Basic_Mode\<close>, \<open>Gesture_Only\<close>, \<open>Finger_Mouse\<close> and
  \<open>Touch_Peripheral\<close> are the four modes, \<open>Mode_Factory\<close> the choice among them and their virtual methods.
  \<open>Overlay_Actions\<close> is what a mode's requests do to the icons.

  \<^item> \<open>Touches\<close> (\<open>Touch.h\<close>, \<open>TouchManager.cpp\<close>), \<open>Touch_Injectors\<close> (the three Windows back ends), \<open>Gesture_Device\<close>
  (\<open>LPGesture.cpp\<close>) and \<open>OS_Interaction\<close>: the system driver. \<open>Overlay_Driver\<close>, \<open>Icon_Image\<close> (\<open>LPImage.cpp\<close>) and
  \<open>Icon_Window\<close>: the overlay driver, the pixels of its icons and their windows.

  \<^item> \<open>Configuration\<close>, \<open>Listener\<close>, \<open>User_Interface\<close>: the configuration, the listener with everything it owns, the menu.

  \<^bold>\<open>Interfaces.\<close> \<open>Machine\<close> has the locales \<open>ranked_owner\<close> (handlers under a rank, for which the transition loop ends)
  and \<open>machine_refinement\<close> (a simulation of the handlers lifts to the machine); \<open>Mode_Owner\<close> extends the first to the life of
  a mode: what holds while a state is current, between states, and after the end. The basic mode interprets them on
  its handlers and on an abstract machine (\<open>Basic_Refinement\<close>, \<open>Basic_Simulation\<close>), the gesture-only mode and the finger
  mouse directly. \<open>interaction_manager\<close> in \<open>Mode_Contract\<close> is what a mode owes the listener; each of the four modes and the
  object the factory makes interpret it, and \<open>Listener_Properties\<close> rests on the last. \<open>handler_invariant\<close> in \<open>Requests\<close> shows
  that a manager never takes a request back. \<open>touch_provider\<close> is what the touch manager asks of a back end,
  \<open>bounded_fifo\<close>, \<open>probability_filter\<close> and \<open>value_text\<close> are what the momentum, the modes and the configuration ask of the
  queue, the filter and the text of values.

  \<^bold>\<open>What is shown.\<close>

  \<^item> The whole program (\<open>Listener_Properties\<close>, \<open>User_Interface_Properties\<close>): in every history of callbacks and choices every
  call returns, the mouse button that the system sees goes down and up in turn and is up when there is no manager; the mode
  checked in the menu is the one in force; what the user chose is stored and back in the menu after a restart, the mode in
  force. The listener's destructor calls a driver that it has freed.

  \<^item> The modes (\<open>Basic_Safety\<close>, \<open>Basic_Lifecycle\<close>, \<open>Basic_Properties\<close>, and the theories named \<open>_Safety\<close> and
  \<open>_Properties\<close> of the others): \<open>processFrame\<close> returns on every frame in order, presses and releases alternate,
  gestures are begun, applied and ended in turn, and no assertion fails, but for two that can, which are theorems or findings.

  \<^item> The devices (\<open>Device_Properties\<close>, \<open>Touch_Properties\<close>, \<open>Touch_Peripheral_Properties\<close>): the gesture device accepts what a
  mode asks for, a scroll follows its path to within rounding, momentum dies out, a stopped timer begins at most
  the call that its thread had already copied, in every interleaving, injected contacts obey the pointer protocol, a frame's touches are exactly its fingers.

  \<^item> The utilities (\<open>Utility_Properties\<close>, \<open>Value_Properties\<close>, \<open>Configuration_Properties\<close>, \<open>Message_Pack_Properties\<close>,
  \<open>Icon_Properties\<close>): refinement of the queue, exactness of look-ups and filters, what clipping to the screens finds, round trips of JSON, the binary
  format, wide text and the configuration's files, and the pixels of an icon.

  \<^bold>\<open>Representation.\<close> Floating point numbers are reals; only a dynamic value has infinities and a NaN (\<open>ieee\<close>).
  Time stamps are integers; identifiers, bytes and the integers of dynamic values are words of their width. A failed assertion
  is recorded in \<open>sm_violations\<close> and the call goes on, as in a release build; the use of a null pointer is \<open>Crash\<close>; an exception
  is \<open>Inl\<close> or \<open>None\<close>, and the listener's constructor crashes on it. The calls of a mode to the drivers are its list \<open>out\<close>
  of requests, which the listener's model hands to the drivers' models after each call. Members that no constructor initialises
  are arguments of it. Maps are association lists ordered by their keys, files a function from names to contents.

  \<^bold>\<open>Loops and fuel.\<close> The transition loop of the state machine is a partial function whose \<open>None\<close> is a loop that does
  not end; the theorems on the modes show that it ends, by a rank of the states. The reader of the binary format bounds how deep
  values are nested by the number of bytes plus one, which is enough as a part is never longer than the whole
  (\<open>nesting_bound\<close>). The JSON parser recurs on what is left of its input; all other loops are structural.

  \<^bold>\<open>Not modelled.\<close> The SDK, the widget library, the graphics library and the operating system are parameters. Left out
  are the tray icon, help pages and start-up of the user interface (only calls of the widget library), icons and images of the Macintosh and
  Linux (Objective-C objects, empty stubs), the query of the focused window, the Macintosh's table of key codes (Objective-C),
  the enumeration of monitors and the message window of \<open>LPVirtualScreen.cpp\<close>, and rays that are parallel to an axis
  in the box's \<open>RayIntersect\<close>, which relies on divisions by zero. Locks and threads are modelled for the timer only
  (\<open>Heartbeat_Timer\<close>, where a step is what happens under one hold of the lock). The callbacks of the controller and of the user
  interface are interleaved whole, and so are the operations of the gesture device and the ticks of its momentum, although
  only some of the operations take a lock. Of the lifetimes of objects only the listener's destructor, which frees the drivers
  and the manager, is modelled. \<open>contrib/\<close> is third-party code.
\<close>

end
